(* ===== verification/Prelude.thy ===== *)
theory Prelude
  imports Main "HOL-Library.Word"
begin

text \<open>
  The vocabulary that every component of the development shares: Python exceptions as values,
  the error monad in which pure code is written, the entropy monad in which code that calls
  \<^verbatim>\<open>secrets\<close> or \<^verbatim>\<open>os.urandom\<close> is written, byte strings, and the transition-system
  interface of the stateful components. The collections \<open>res_simps\<close> and \<open>rnd_simps\<close> hold
  the rules that unfold the monads.
\<close>

named_theorems res_simps "equations and inversions of the error monad"
named_theorems rnd_simps "equations and inversions of the entropy monad"

section \<open>Exceptions as values\<close>

text \<open>
  The exceptions the modelled code raises. \<open>EntropyExhausted\<close> is not a Python exception: it is
  the outcome of a computation that asks for more random draws than its tape holds.
\<close>

datatype pyerr =
    ValueError | ZeroDivisionError | TypeError | KeyError | IndexError | AttributeError
  | AssertionError | RuntimeError | StructError | PaillierError | MessageTooLongError
  | MessageMalFormedError | WrongRandomnessError | VerificationError string
  | EntropyExhausted

type_synonym 'a res = "pyerr + 'a"

definition ebind :: "'a res \<Rightarrow> ('a \<Rightarrow> 'b res) \<Rightarrow> 'b res" where
  "ebind m f = (case m of Inl e \<Rightarrow> Inl e | Inr a \<Rightarrow> f a)"

lemma ebind_Inl [simp]: "ebind (Inl e) f = Inl e"
  by (simp add: ebind_def)

lemma ebind_Inr [simp]: "ebind (Inr a) f = f a"
  by (simp add: ebind_def)

lemma ebind_eq_Inr [res_simps]: "ebind m f = Inr b \<longleftrightarrow> (\<exists>a. m = Inr a \<and> f a = Inr b)"
  by (cases m) simp_all

lemma ebind_eq_Inl [res_simps]:
  "ebind m f = Inl e \<longleftrightarrow> m = Inl e \<or> (\<exists>a. m = Inr a \<and> f a = Inl e)"
  by (cases m) simp_all

lemma ebind_assoc: "ebind (ebind m f) g = ebind m (\<lambda>a. ebind (f a) g)"
  by (cases m) simp_all

lemma ebind_cong [fundef_cong]:
  "m = m' \<Longrightarrow> (\<And>a. m' = Inr a \<Longrightarrow> f a = f' a) \<Longrightarrow> ebind m f = ebind m' f'"
  by (cases m') simp_all

text \<open>\<open>eguard b e\<close> is the early exit \<^verbatim>\<open>if not b: raise e\<close>.\<close>

definition eguard :: "bool \<Rightarrow> pyerr \<Rightarrow> unit res" where
  "eguard b e = (if b then Inr () else Inl e)"

lemma eguard_True [simp]: "eguard True e = Inr ()"
  by (simp add: eguard_def)

lemma eguard_False [simp]: "eguard False e = Inl e"
  by (simp add: eguard_def)

lemma eguard_eq_Inr [res_simps]: "eguard b e = Inr u \<longleftrightarrow> b"
  by (simp add: eguard_def)

text \<open>Mapping a fallible function over a list, left to right, stopping at the first error.\<close>

fun emap :: "('a \<Rightarrow> 'b res) \<Rightarrow> 'a list \<Rightarrow> 'b list res" where
  "emap f [] = Inr []"
| "emap f (x # xs) = ebind (f x) (\<lambda>y. ebind (emap f xs) (\<lambda>ys. Inr (y # ys)))"

lemma emap_Inr: "(\<And>x. x \<in> set xs \<Longrightarrow> f x = Inr (g x)) \<Longrightarrow> emap f xs = Inr (map g xs)"
  by (induction xs) simp_all

lemma emap_length: "emap f xs = Inr ys \<Longrightarrow> length ys = length xs"
  by (induction xs arbitrary: ys) (auto simp: res_simps)

section \<open>Entropy\<close>

text \<open>
  \<^verbatim>\<open>secrets.randbelow\<close> and \<^verbatim>\<open>os.urandom\<close> are modelled by a tape of draws that is consumed
  from the front. A draw is reduced into the range the call documents, so a theorem about every
  tape is a theorem about every sequence of outcomes, and rejection loops are recursive in the
  tape.
\<close>

type_synonym tape = "int list"
type_synonym 'a rnd = "tape \<Rightarrow> ('a \<times> tape) res"

definition rret :: "'a \<Rightarrow> 'a rnd" where
  "rret a = (\<lambda>t. Inr (a, t))"

definition rbind :: "'a rnd \<Rightarrow> ('a \<Rightarrow> 'b rnd) \<Rightarrow> 'b rnd" where
  "rbind m f = (\<lambda>t. ebind (m t) (\<lambda>(a, t'). f a t'))"

definition rlift :: "'a res \<Rightarrow> 'a rnd" where
  "rlift m = (\<lambda>t. ebind m (\<lambda>a. Inr (a, t)))"

definition randbelow :: "int \<Rightarrow> int rnd" where
  "randbelow n t =
     (if n \<le> 0 then Inl ValueError
      else case t of [] \<Rightarrow> Inl EntropyExhausted | r # t' \<Rightarrow> Inr (r mod n, t'))"

text \<open>\<^verbatim>\<open>int.from_bytes(os.urandom(k), "big")\<close>: a number below \<open>256 ^ k\<close>.\<close>

definition urandom_int :: "nat \<Rightarrow> int rnd" where
  "urandom_int k = randbelow (256 ^ k)"

fun rtimes :: "nat \<Rightarrow> 'a rnd \<Rightarrow> 'a list rnd" where
  "rtimes 0 m = rret []"
| "rtimes (Suc k) m = rbind m (\<lambda>x. rbind (rtimes k m) (\<lambda>xs. rret (x # xs)))"

lemma rret_eq [rnd_simps]: "rret a t = Inr p \<longleftrightarrow> p = (a, t)"
  by (auto simp: rret_def)

lemma rbind_eq_Inr [rnd_simps]:
  "rbind m f t = Inr p \<longleftrightarrow> (\<exists>a t'. m t = Inr (a, t') \<and> f a t' = Inr p)"
  by (auto simp: rbind_def ebind_eq_Inr)

lemma rlift_eq_Inr [rnd_simps]: "rlift m t = Inr (a, t') \<longleftrightarrow> m = Inr a \<and> t' = t"
  by (auto simp: rlift_def ebind_eq_Inr)

lemma rbind_app: "rbind m f t = ebind (m t) (\<lambda>(a, t'). f a t')"
  by (simp add: rbind_def)

lemma urandom_int_Cons: "urandom_int k (x # t) = Inr (x mod 256 ^ k, t)"
  by (simp add: urandom_int_def randbelow_def not_le)

lemma rlift_Inr [simp]: "rlift (Inr a) = rret a"
  by (simp add: rlift_def rret_def)

lemma rbind_rret [simp]: "rbind (rret a) f = f a"
  by (simp add: rbind_def rret_def)

lemma randbelow_eq_Inr [rnd_simps]:
  "randbelow n t = Inr (r, t') \<longleftrightarrow> 0 < n \<and> (\<exists>x. t = x # t' \<and> r = x mod n)"
  by (auto simp: randbelow_def split: list.splits)

lemma randbelow_range: "randbelow n t = Inr (r, t') \<Longrightarrow> 0 \<le> r \<and> r < n"
  by (auto simp: rnd_simps)

lemma rtimes_length: "rtimes k m t = Inr (xs, t') \<Longrightarrow> length xs = k"
  by (induction k arbitrary: t xs t') (auto simp: rnd_simps)

lemma rtimes_all:
  assumes "\<And>t x t'. m t = Inr (x, t') \<Longrightarrow> P x"
  shows "rtimes k m t = Inr (xs, t') \<Longrightarrow> x \<in> set xs \<Longrightarrow> P x"
proof (induction k arbitrary: t xs t')
  case 0
  then show ?case by (simp add: rnd_simps)
next
  case (Suc k)
  then show ?case using assms by (auto simp: rnd_simps)
qed

text \<open>
  The rejection loop \<^verbatim>\<open>while True: r = secrets.randbelow(n); if ok(r): return r\<close>. Each
  iteration consumes one draw.
\<close>

fun draw_until :: "int \<Rightarrow> (int \<Rightarrow> bool res) \<Rightarrow> int rnd" where
  "draw_until n ok [] = randbelow n []"
| "draw_until n ok (x # t) =
     ebind (randbelow n [x]) (\<lambda>(r, _).
     ebind (ok r) (\<lambda>b. if b then Inr (r, t) else draw_until n ok t))"

lemma draw_until_sound:
  "draw_until n ok t = Inr (r, t') \<Longrightarrow> ok r = Inr True \<and> 0 \<le> r \<and> r < n"
proof (induction t)
  case Nil
  then show ?case by (auto simp: randbelow_def split: if_splits)
next
  case (Cons x t)
  then show ?case by (auto simp: res_simps rnd_simps split: if_splits)
qed

lemma draw_until_returns:
  assumes "0 < n" and "\<And>r. 0 \<le> r \<Longrightarrow> r < n \<Longrightarrow> ok r = Inr (good r)"
    and "\<exists>x \<in> set t. good (x mod n)"
  shows "\<exists>r t'. draw_until n ok t = Inr (r, t')"
  using assms(3)
proof (induction t)
  case Nil
  then show ?case by simp
next
  case (Cons x t)
  have "ok (x mod n) = Inr (good (x mod n))" using assms(1,2) by simp
  with Cons assms(1) show ?case by (auto simp: randbelow_def)
qed

section \<open>Bytes\<close>

type_synonym byte = "8 word"
type_synonym bytes = "byte list"

text \<open>\<^verbatim>\<open>int.from_bytes(b, "big")\<close> and \<^verbatim>\<open>int.from_bytes(b, "little")\<close>.\<close>

definition from_bytes_big :: "bytes \<Rightarrow> int" where
  "from_bytes_big bs = foldl (\<lambda>acc b. acc * 256 + uint b) 0 bs"

fun from_bytes_little :: "bytes \<Rightarrow> int" where
  "from_bytes_little [] = 0"
| "from_bytes_little (b # bs) = uint b + 256 * from_bytes_little bs"

text \<open>\<open>to_bytes_little k i\<close> is \<^verbatim>\<open>i.to_bytes(k, "little")\<close> for \<open>0 \<le> i < 256 ^ k\<close>.\<close>

fun to_bytes_little :: "nat \<Rightarrow> int \<Rightarrow> bytes" where
  "to_bytes_little 0 i = []"
| "to_bytes_little (Suc k) i = word_of_int i # to_bytes_little k (i div 256)"

definition to_bytes_big :: "nat \<Rightarrow> int \<Rightarrow> bytes" where
  "to_bytes_big k i = rev (to_bytes_little k i)"

lemma uint_byte_of_int: "uint (word_of_int i :: byte) = i mod 256"
  by (simp add: uint_word_of_int)

lemma length_to_bytes_little [simp]: "length (to_bytes_little k i) = k"
  by (induction k arbitrary: i) simp_all

lemma length_to_bytes_big [simp]: "length (to_bytes_big k i) = k"
  by (simp add: to_bytes_big_def)

lemma from_to_bytes_little: "from_bytes_little (to_bytes_little k i) = i mod 256 ^ k"
proof (induction k arbitrary: i)
  case 0
  then show ?case by simp
next
  case (Suc k)
  have "from_bytes_little (to_bytes_little (Suc k) i)
      = i mod 256 + 256 * (i div 256 mod 256 ^ k)"
    using Suc.IH by (simp add: uint_byte_of_int)
  also have "\<dots> = i mod (256 * 256 ^ k)"
    by (simp add: zmod_zmult2_eq)
  finally show ?case by simp
qed

lemma from_bytes_little_append:
  "from_bytes_little (xs @ ys) = from_bytes_little xs + 256 ^ length xs * from_bytes_little ys"
  by (induction xs) (simp_all add: algebra_simps)

lemma from_bytes_big_append:
  "from_bytes_big (xs @ ys) = from_bytes_big xs * 256 ^ length ys + from_bytes_big ys"
proof (induction ys rule: rev_induct)
  case Nil
  then show ?case by (simp add: from_bytes_big_def)
next
  case (snoc y ys)
  then show ?case by (simp add: from_bytes_big_def algebra_simps)
qed

lemma from_bytes_big_rev: "from_bytes_big (rev bs) = from_bytes_little bs"
proof (induction bs)
  case Nil
  then show ?case by (simp add: from_bytes_big_def)
next
  case (Cons b bs)
  have one: "from_bytes_big [b] = uint b" by (simp add: from_bytes_big_def)
  show ?case using Cons by (simp add: from_bytes_big_append one)
qed

lemma from_to_bytes_big: "from_bytes_big (to_bytes_big k i) = i mod 256 ^ k"
  by (simp add: to_bytes_big_def from_bytes_big_rev from_to_bytes_little)

lemma from_bytes_little_range: "0 \<le> from_bytes_little bs \<and> from_bytes_little bs < 256 ^ length bs"
proof (induction bs)
  case Nil
  then show ?case by simp
next
  case (Cons b bs)
  have "uint b < 256" using uint_bounded [of b] by simp
  with Cons show ?case by simp
qed

lemma from_bytes_big_range: "0 \<le> from_bytes_big bs \<and> from_bytes_big bs < 256 ^ length bs"
  using from_bytes_little_range [of "rev bs"] from_bytes_big_rev [of "rev bs"] by simp

lemma from_bytes_big_nonneg [simp]: "0 \<le> from_bytes_big bs"
  using from_bytes_big_range by simp

section \<open>Transition systems\<close>

text \<open>
  The interface of a stateful component: a step function over its events and an invariant that
  every step keeps. The client is any run of the component.
\<close>

locale transition_system =
  fixes step :: "'s \<Rightarrow> 'e \<Rightarrow> 's"
    and Inv :: "'s \<Rightarrow> bool"
  assumes step_Inv: "Inv s \<Longrightarrow> Inv (step s e)"
begin

lemma run_Inv: "Inv s \<Longrightarrow> Inv (foldl step s es)"
  by (induction es arbitrary: s) (auto intro: step_Inv)

lemma run_prefix_Inv: "Inv s \<Longrightarrow> es = pre @ post \<Longrightarrow> Inv (foldl step s pre)"
  by (rule run_Inv)

end

end
