(* ===== verification/Modular.thy ===== *)
theory Modular
  imports Prelude
begin

text \<open>
  The modular arithmetic the cryptographic components rest on: primes with an executable test,
  Fermat's theorem, inverses, the lifting of congruences from \<open>n\<close> to \<open>n\<^sup>2\<close> that Paillier
  uses, and repeated application of a commutative operation (the interface \<open>comm_carrier\<close>),
  which gives both modular powers and multiples of curve points.
\<close>

section \<open>Primes\<close>

definition is_prime :: "int \<Rightarrow> bool" where
  "is_prime p \<longleftrightarrow> 1 < p \<and> list_all (\<lambda>d. \<not> d dvd p) [2..p - 1]"

lemma is_prime_gt1: "is_prime p \<Longrightarrow> 1 < p"
  by (simp add: is_prime_def)

lemma is_prime_divisor:
  assumes "is_prime p" and "d dvd p" and "0 < d"
  shows "d = 1 \<or> d = p"
proof (rule ccontr)
  assume neq: "\<not> (d = 1 \<or> d = p)"
  have "d \<le> p" using assms by (auto simp: is_prime_def intro: zdvd_imp_le)
  with neq \<open>0 < d\<close> have "d \<in> set [2..p - 1]" by auto
  with assms show False by (auto simp: is_prime_def list_all_iff)
qed

lemma is_prime_coprime:
  assumes "is_prime p" and "\<not> p dvd a"
  shows "coprime a p"
proof -
  have "gcd a p = 1 \<or> gcd a p = p"
    using assms(1) by (intro is_prime_divisor) (auto simp: is_prime_def)
  with assms(2) show ?thesis by (metis coprime_iff_gcd_eq_1 gcd_dvd1)
qed

lemma is_prime_dvd_mult:
  assumes "is_prime p" and "p dvd a * b"
  shows "p dvd a \<or> p dvd b"
proof (cases "p dvd a")
  case False
  then have "coprime p a" using is_prime_coprime [OF assms(1)] by (simp add: ac_simps)
  with assms(2) show ?thesis by (simp add: coprime_dvd_mult_right_iff)
qed simp

lemma is_prime_dvd_power: "is_prime p \<Longrightarrow> p dvd a ^ k \<Longrightarrow> p dvd a"
  by (induction k) (auto dest: is_prime_dvd_mult dest: is_prime_gt1 simp: zdvd1_eq)

lemma distinct_primes_coprime:
  assumes "is_prime p" and "is_prime q" and "p \<noteq> q"
  shows "coprime p q"
proof -
  have "\<not> q dvd p"
    using assms is_prime_divisor [OF assms(1), of q] is_prime_gt1 [OF assms(2)] by auto
  with assms(2) show ?thesis by (rule is_prime_coprime)
qed

section \<open>Fermat's theorem\<close>

lemma is_prime_dvd_choose:
  assumes "is_prime (int p)" and "0 < k" and "k < p"
  shows "p dvd (p choose k)"
proof -
  obtain k' p' where kp: "k = Suc k'" "p = Suc p'" using assms by (metis gr0_implies_Suc less_trans)
  have "int p dvd int k * int (p choose k)"
    using Suc_times_binomial_eq [of p' k'] unfolding kp
    by (metis dvd_triv_left mult.commute of_nat_mult)
  moreover have "\<not> int p dvd int k" using assms by (auto dest: zdvd_imp_le)
  ultimately have "int p dvd int (p choose k)" using is_prime_dvd_mult [OF assms(1)] by blast
  then show ?thesis by simp
qed

lemma binomial_middle_dvd:
  assumes "is_prime (int p)"
  shows "int p dvd (a + 1) ^ p - a ^ p - 1"
proof -
  have p1: "1 < p" using is_prime_gt1 [OF assms] by simp
  have split: "{..p} = {0} \<union> {p} \<union> {1..<p}" using p1 by auto
  have "(a + 1) ^ p = (\<Sum>k\<le>p. int (p choose k) * a ^ k)"
    using binomial_ring [of a 1 p] by simp
  also have "\<dots> = 1 + a ^ p + (\<Sum>k=1..<p. int (p choose k) * a ^ k)"
    unfolding split using p1 by (subst sum.union_disjoint) auto
  finally have "(a + 1) ^ p - a ^ p - 1 = (\<Sum>k=1..<p. int (p choose k) * a ^ k)"
    by simp
  also have "int p dvd \<dots>"
    using is_prime_dvd_choose [OF assms] by (intro dvd_sum) auto
  finally show ?thesis .
qed

lemma fermat_nat:
  assumes "is_prime (int p)"
  shows "int p dvd int a ^ p - int a"
proof (induction a)
  case 0
  then show ?case using is_prime_gt1 [OF assms] by (cases p) simp_all
next
  case (Suc a)
  have "int (Suc a) ^ p - int (Suc a)
      = ((int a + 1) ^ p - int a ^ p - 1) + (int a ^ p - int a)"
    by (simp add: algebra_simps)
  also have "int p dvd \<dots>"
    using Suc.IH binomial_middle_dvd [OF assms] by (rule dvd_add [rotated])
  finally show ?case .
qed

lemma fermat_dvd:
  assumes "is_prime p"
  shows "p dvd a ^ nat p - a"
proof -
  have p: "int (nat p) = p" and "0 < p" using is_prime_gt1 [OF assms] by auto
  define b where "b = nat (a mod p)"
  have b: "int b = a mod p" using \<open>0 < p\<close> by (simp add: b_def)
  have "a ^ nat p mod p = int b ^ nat p mod p" by (simp add: b power_mod)
  also have "\<dots> = int b mod p"
    using fermat_nat [of "nat p" b, unfolded p, OF assms] by (simp only: mod_eq_dvd_iff)
  finally show ?thesis by (simp add: b mod_eq_dvd_iff)
qed

theorem fermat:
  assumes "is_prime p" and "\<not> p dvd a"
  shows "a ^ nat (p - 1) mod p = 1"
proof -
  have p1: "1 < p" using assms(1) by (rule is_prime_gt1)
  then have "nat p = Suc (nat (p - 1))" by simp
  then have "a ^ nat p - a = a * (a ^ nat (p - 1) - 1)" by (simp add: algebra_simps)
  with fermat_dvd [OF assms(1), of a] have "p dvd a * (a ^ nat (p - 1) - 1)" by simp
  with assms have "p dvd a ^ nat (p - 1) - 1" using is_prime_dvd_mult by blast
  then have "a ^ nat (p - 1) mod p = 1 mod p" by (simp add: mod_eq_dvd_iff)
  with p1 show ?thesis by simp
qed

lemma fermat_multiple:
  assumes "is_prime p" and "\<not> p dvd a" and "(p - 1) dvd k" and "0 \<le> k"
  shows "a ^ nat k mod p = 1"
proof -
  obtain j where j: "k = (p - 1) * j" using assms(3) by blast
  have p1: "1 < p" using assms(1) by (rule is_prime_gt1)
  have "nat k = nat (p - 1) * nat j" using j p1 by (simp add: nat_mult_distrib)
  then have "a ^ nat k mod p = (a ^ nat (p - 1) mod p) ^ nat j mod p"
    by (simp add: power_mult power_mod)
  with fermat [OF assms(1,2)] p1 show ?thesis by simp
qed

section \<open>Congruences\<close>

lemma mod_mult_cong: "a mod m = a' mod m \<Longrightarrow> b mod m = b' mod m \<Longrightarrow> a * b mod m = a' * b' mod m"
  for m :: int
  by (metis mod_mult_eq)

lemma mod_power_cong: "a mod m = b mod m \<Longrightarrow> a ^ k mod m = b ^ k mod m" for m :: int
  by (metis power_mod)

lemma crt_eq:
  fixes p q :: int
  assumes "coprime p q" and "a mod p = b mod p" and "a mod q = b mod q"
  shows "a mod (p * q) = b mod (p * q)"
  using assms by (simp add: mod_eq_dvd_iff divides_mult)

text \<open>Introduction rules that push an equality of residues through the ring operations.\<close>

lemmas mod_congs = mod_add_cong mod_diff_cong mod_mult_cong mod_power_cong

text \<open>A congruence modulo \<open>n\<close> becomes one modulo \<open>n\<^sup>2\<close> under the \<open>n\<close>-th power.\<close>

lemma lift_power_square:
  fixes a b :: int
  assumes "a mod int n = b mod int n"
  shows "a ^ n mod (int n * int n) = b ^ n mod (int n * int n)"
proof -
  have ab: "int n dvd a - b" using assms by (simp add: mod_eq_dvd_iff)
  have "(\<Sum>i<n. b ^ (n - Suc i) * a ^ i) mod int n = (\<Sum>i<n. b ^ (n - Suc i) * b ^ i) mod int n"
    by (subst (1 2) mod_sum_eq [symmetric], rule arg_cong [where f = "\<lambda>x. x mod int n"],
      rule sum.cong) (use assms in \<open>auto intro: mod_mult_cong mod_power_cong\<close>)
  also have "(\<Sum>i<n. b ^ (n - Suc i) * b ^ i) = int n * b ^ (n - 1)"
    by (simp add: power_add [symmetric])
  finally have "int n dvd (\<Sum>i<n. b ^ (n - Suc i) * a ^ i)" by auto
  with ab have "int n * int n dvd (a - b) * (\<Sum>i<n. b ^ (n - Suc i) * a ^ i)"
    by (rule mult_dvd_mono)
  then show ?thesis by (simp add: mod_eq_dvd_iff power_diff_sumr2)
qed

lemma lift_power_square_int:
  fixes a b n :: int
  assumes "a mod n = b mod n" and "0 \<le> n"
  shows "a ^ nat n mod (n * n) = b ^ nat n mod (n * n)"
  using lift_power_square [of a "nat n" b] assms by simp

lemma binomial_square: "(1 + n * k) ^ j mod (n * n) = (1 + n * k * int j) mod (n * n)" for n :: int
proof (induction j)
  case 0
  then show ?case by simp
next
  case (Suc j)
  have "(1 + n * k) ^ Suc j mod (n * n) = (1 + n * k) * ((1 + n * k) ^ j mod (n * n)) mod (n * n)"
    by (simp add: mod_mult_right_eq)
  also have "\<dots> = (1 + n * k) * (1 + n * k * int j) mod (n * n)"
    by (simp add: Suc.IH mod_mult_right_eq)
  also have "(1 + n * k) * (1 + n * k * int j) = (1 + n * k * int (Suc j)) + n * n * (k * k * int j)"
    by (simp add: algebra_simps)
  finally show ?case by simp
qed

lemma gcd_mod_eq_1: "0 < m \<Longrightarrow> coprime (a mod m) m \<longleftrightarrow> coprime a m" for m :: int
  by (metis coprime_iff_gcd_eq_1 gcd_red_int gcd.commute)

lemma coprime_square: "coprime a (n * n) \<longleftrightarrow> coprime a n" for n :: int
  by simp

lemma coprime_mod_pos:
  fixes a m :: int
  assumes "coprime a m" and "1 < m"
  shows "0 < a mod m"
proof (rule ccontr)
  assume "\<not> 0 < a mod m"
  then have "a mod m = 0" using assms(2) pos_mod_sign [of m a] by linarith
  with assms show False using gcd_mod_eq_1 [of m a] by simp
qed

lemma coprime_not_dvd:
  fixes x p :: int
  assumes "coprime x p" and "1 < p"
  shows "\<not> p dvd x"
proof
  assume "p dvd x"
  then have "gcd x p = \<bar>p\<bar>" by (rule gcd_proj2_if_dvd_int)
  with assms show False by (simp add: coprime_iff_gcd_eq_1)
qed

lemma mod_nonzero_range:
  fixes a m :: int
  assumes "0 < m" and "a mod m \<noteq> 0"
  shows "0 < a mod m" and "a mod m < m"
  using assms pos_mod_sign [of m a] pos_mod_bound [of m a] by linarith+

section \<open>Inverses\<close>

text \<open>The extended Euclidean algorithm on integers.\<close>

function xgcd :: "int \<Rightarrow> int \<Rightarrow> int \<times> int" where
  "xgcd a b =
     (if b \<le> 0 then (1, 0)
      else let (u, v) = xgcd b (a mod b) in (v, u - v * (a div b)))"
  by pat_completeness auto
termination
  by (relation "measure (\<lambda>(a, b). nat b)") auto

declare xgcd.simps [simp del]

lemma xgcd_bezout:
  "0 \<le> a \<Longrightarrow> 0 \<le> b \<Longrightarrow> fst (xgcd a b) * a + snd (xgcd a b) * b = gcd a b"
proof (induction a b rule: xgcd.induct)
  case (1 a b)
  show ?case
  proof (cases "b \<le> 0")
    case True
    with 1 show ?thesis by (simp add: xgcd.simps [of a 0])
  next
    case False
    obtain u v where uv: "xgcd b (a mod b) = (u, v)" by force
    with 1 False have "u * b + v * (a mod b) = gcd b (a mod b)" by simp
    moreover have "v * a = v * (a mod b) + v * (a div b) * b"
      by (metis distrib_left mod_div_mult_eq mult.assoc)
    ultimately have "v * a + (u - v * (a div b)) * b = gcd b (a mod b)"
      by (simp add: algebra_simps)
    then show ?thesis using False uv by (simp add: xgcd.simps [of a b] gcd_red_int [of a b])
  qed
qed

definition minv :: "int \<Rightarrow> int \<Rightarrow> int" where
  "minv a m = fst (xgcd (a mod m) m) mod m"

lemma minv_right:
  assumes "coprime a m" and "0 < m"
  shows "a * minv a m mod m = 1 mod m"
proof -
  have "coprime (a mod m) m" using assms by (simp add: gcd_mod_eq_1)
  then have "fst (xgcd (a mod m) m) * (a mod m) + snd (xgcd (a mod m) m) * m = 1"
    using assms(2) xgcd_bezout [of "a mod m" m] by simp
  then have "(fst (xgcd (a mod m) m) * (a mod m)) mod m = 1 mod m"
    by (metis mod_mult_self1)
  then show ?thesis by (simp add: minv_def mod_mult_right_eq mod_mult_left_eq mult.commute)
qed

lemma minv_range: "0 < m \<Longrightarrow> 0 \<le> minv a m \<and> minv a m < m"
  by (simp add: minv_def)

lemma mult_cancel_mod:
  fixes m :: int
  assumes "coprime c m" and "c * a mod m = c * b mod m"
  shows "a mod m = b mod m"
proof -
  have "m dvd c * (a - b)" using assms(2) by (simp add: mod_eq_dvd_iff algebra_simps)
  with assms(1) have "m dvd a - b"
    by (metis coprime_commute coprime_dvd_mult_right_iff)
  then show ?thesis by (simp add: mod_eq_dvd_iff)
qed

lemma minv_unique:
  assumes "coprime a m" and "0 < m" and "a * x mod m = 1 mod m" and "0 \<le> x" and "x < m"
  shows "x = minv a m"
proof -
  have "a * x mod m = a * minv a m mod m" using assms minv_right by simp
  then have "x mod m = minv a m mod m" by (rule mult_cancel_mod [OF assms(1)])
  with assms show ?thesis by (simp add: minv_def)
qed

section \<open>Repeated application of a commutative operation\<close>

text \<open>
  A carrier closed under an associative and commutative operation with a unit. The clients are
  the units modulo \<open>m\<close> (powers) and the points of a curve (multiples); \<open>iter\<close> is the repeated
  operation that double-and-add and square-and-multiply compute.
\<close>

fun iter_op :: "('a \<Rightarrow> 'a \<Rightarrow> 'a) \<Rightarrow> 'a \<Rightarrow> nat \<Rightarrow> 'a \<Rightarrow> 'a" where
  "iter_op f e 0 x = e"
| "iter_op f e (Suc k) x = f x (iter_op f e k x)"

locale comm_carrier =
  fixes C :: "'a \<Rightarrow> bool" and f :: "'a \<Rightarrow> 'a \<Rightarrow> 'a" and e :: 'a
  assumes closed: "C x \<Longrightarrow> C y \<Longrightarrow> C (f x y)"
    and unit_closed: "C e"
    and assoc: "C x \<Longrightarrow> C y \<Longrightarrow> C z \<Longrightarrow> f (f x y) z = f x (f y z)"
    and comm: "C x \<Longrightarrow> C y \<Longrightarrow> f x y = f y x"
    and left_unit: "C x \<Longrightarrow> f e x = x"
begin

lemma right_unit: "C x \<Longrightarrow> f x e = x"
  using comm left_unit unit_closed by metis

lemma left_comm: "C x \<Longrightarrow> C y \<Longrightarrow> C z \<Longrightarrow> f x (f y z) = f y (f x z)"
  by (metis assoc comm)

lemma iter_closed: "C x \<Longrightarrow> C (iter_op f e k x)"
  by (induction k) (auto intro: closed unit_closed)

lemma iter_add: "C x \<Longrightarrow> iter_op f e (j + k) x = f (iter_op f e j x) (iter_op f e k x)"
  by (induction j) (simp_all add: left_unit assoc iter_closed)

lemma iter_unit: "iter_op f e k e = e"
  by (induction k) (simp_all add: left_unit unit_closed)

lemma iter_mult: "C x \<Longrightarrow> iter_op f e (j * k) x = iter_op f e j (iter_op f e k x)"
  by (induction j) (simp_all add: iter_add)

lemma iter_distrib:
  "C x \<Longrightarrow> C y \<Longrightarrow> iter_op f e k (f x y) = f (iter_op f e k x) (iter_op f e k y)"
  by (induction k) (simp_all add: left_unit unit_closed assoc left_comm iter_closed closed)

lemma iter_mod:
  assumes "C x" and "iter_op f e n x = e"
  shows "iter_op f e (k mod n) x = iter_op f e k x"
proof -
  have "iter_op f e k x = iter_op f e (k div n * n + k mod n) x" by simp
  also have "\<dots> = f (iter_op f e (k div n) (iter_op f e n x)) (iter_op f e (k mod n) x)"
    using assms(1) by (simp only: iter_add iter_mult)
  also have "\<dots> = iter_op f e (k mod n) x"
    using assms by (simp add: iter_unit left_unit iter_closed)
  finally show ?thesis by simp
qed

lemma iter_double: "C x \<Longrightarrow> iter_op f e k (f x x) = iter_op f e (2 * k) x"
  by (simp add: iter_distrib iter_add mult_2)

text \<open>The step of double-and-add.\<close>

lemma double_and_add_step:
  assumes "C x" and "C r"
  shows "f (if odd k then f r x else r) (iter_op f e (k div 2) (f x x)) = f r (iter_op f e k x)"
proof (cases "odd k")
  case True
  then have "iter_op f e k x = f x (iter_op f e (2 * (k div 2)) x)"
    by (metis iter_op.simps(2) odd_two_times_div_two_succ Suc_eq_plus1)
  with True assms show ?thesis by (simp add: iter_double assoc closed iter_closed)
next
  case False
  then have "2 * (k div 2) = k" by simp
  with False assms show ?thesis by (simp add: iter_double)
qed

end

text \<open>Residues modulo \<open>m\<close> under multiplication: the operation of \<^verbatim>\<open>homo_add\<close> on ciphertexts.\<close>

definition mmul :: "int \<Rightarrow> int \<Rightarrow> int \<Rightarrow> int" where
  "mmul m a b = a * b mod m"

interpretation residues: comm_carrier "\<lambda>x. x mod m = x" "mmul m" "1 mod m" for m :: int
  by unfold_locales (simp_all add: mmul_def mod_mult_left_eq mod_mult_right_eq ac_simps)

lemma iter_mmul: "iter_op (mmul m) (1 mod m) k x = x ^ k mod m"
  by (induction k) (simp_all add: mmul_def mod_mult_right_eq)

end
