(* ===== verification/Libs.thy ===== *)
theory Libs
  imports Modular
begin

text \<open>
  The code that is not in the repository: \<^verbatim>\<open>gmpy2\<close>, \<^verbatim>\<open>gensafeprime\<close> and the digest functions
  that \<^verbatim>\<open>hashlib\<close> provides. It is one record of functions, which every definition that calls it
  takes as its argument; the locale \<open>lib_ok\<close> holds what the code relies on, as documented by
  those libraries. The arithmetic operators of \<^verbatim>\<open>gmpy2.mpz\<close> are those of Python's \<^verbatim>\<open>int\<close>.
  The record \<open>lib_ref\<close> is a concrete provider, on which \<open>lib_ok\<close> is interpreted.
\<close>

record lib =
  powmod :: "int \<Rightarrow> int \<Rightarrow> int \<Rightarrow> int res"
  invert :: "int \<Rightarrow> int \<Rightarrow> int res"
  ggcd :: "int \<Rightarrow> int \<Rightarrow> int"
  glcm :: "int \<Rightarrow> int \<Rightarrow> int"
  jacobi :: "int \<Rightarrow> int \<Rightarrow> int res"
  isqrt :: "int \<Rightarrow> int res"
  digest512_256 :: "bytes \<Rightarrow> bytes"
  digest256 :: "bytes \<Rightarrow> bytes"
  gensafeprime :: "int \<Rightarrow> int rnd"

text \<open>The Legendre symbol: by search, so that it evaluates.\<close>

definition legendre :: "int \<Rightarrow> int \<Rightarrow> int" where
  "legendre a p =
     (if p dvd a then 0
      else if list_ex (\<lambda>x. x * x mod p = a mod p) [1..p - 1] then 1 else - 1)"

definition is_safe_prime :: "int \<Rightarrow> bool" where
  "is_safe_prime p \<longleftrightarrow> is_prime p \<and> is_prime ((p - 1) div 2)"

definition bit_length_is :: "int \<Rightarrow> int \<Rightarrow> bool" where
  "bit_length_is n k \<longleftrightarrow> 0 < k \<and> 2 ^ nat (k - 1) \<le> n \<and> n < 2 ^ nat k"

locale lib_ok =
  fixes L :: lib
  assumes powmod_nonneg: "0 \<le> e \<Longrightarrow> 0 < m \<Longrightarrow> powmod L b e m = Inr (b ^ nat e mod m)"
    and invert_some: "coprime a m \<Longrightarrow> 1 < m \<Longrightarrow>
          \<exists>x. invert L a m = Inr x \<and> 0 \<le> x \<and> x < m \<and> a * x mod m = 1"
    and invert_none: "\<not> coprime a m \<Longrightarrow> 1 < m \<Longrightarrow> invert L a m = Inl ZeroDivisionError"
    and ggcd: "ggcd L a b = gcd a b"
    and glcm: "glcm L a b = lcm a b"
    and jacobi_prime: "is_prime p \<Longrightarrow> odd p \<Longrightarrow> jacobi L a p = Inr (legendre a p)"
    and jacobi_semiprime: "is_prime p \<Longrightarrow> odd p \<Longrightarrow> is_prime q \<Longrightarrow> odd q \<Longrightarrow>
          jacobi L a (p * q) = Inr (legendre a p * legendre a q)"
    and isqrt: "0 \<le> n \<Longrightarrow> \<exists>r. isqrt L n = Inr r \<and> 0 \<le> r \<and> r * r \<le> n \<and> n < (r + 1) * (r + 1)"
    and digest512_256_length: "length (digest512_256 L bs) = 32"
    and digest256_length: "length (digest256 L bs) = 32"
    and gensafeprime_ok: "gensafeprime L k t = Inr (p, t') \<Longrightarrow>
          is_safe_prime p \<and> bit_length_is p k"
    and powmod_neg: "e < 0 \<Longrightarrow> 1 < m \<Longrightarrow> coprime b m \<Longrightarrow>
          powmod L b e m = Inr (minv b m ^ nat (- e) mod m)"
begin

lemma invert_minv:
  assumes "coprime a m" and "1 < m"
  shows "invert L a m = Inr (minv a m)"
proof -
  obtain x where "invert L a m = Inr x" and x: "0 \<le> x" "x < m" "a * x mod m = 1"
    using invert_some [OF assms] by blast
  moreover have "x = minv a m"
    using assms x by (intro minv_unique) simp_all
  ultimately show ?thesis by simp
qed

lemma powmod_coprime:
  assumes "0 \<le> e" and "1 < m" and "coprime b m" and "powmod L b e m = Inr c"
  shows "coprime c m \<and> 0 < c \<and> c < m"
  using assms by (auto simp: powmod_nonneg gcd_mod_eq_1 coprime_mod_pos)

end

text \<open>Powers with an exponent of either sign, as \<^verbatim>\<open>powmod\<close> computes them for a unit.\<close>

definition ipow :: "int \<Rightarrow> int \<Rightarrow> int \<Rightarrow> int" where
  "ipow m b e = (if 0 \<le> e then b ^ nat e mod m else minv b m ^ nat (- e) mod m)"

context lib_ok
begin

lemma powmod_ipow: "coprime b m \<Longrightarrow> 1 < m \<Longrightarrow> powmod L b e m = Inr (ipow m b e)"
  by (simp add: ipow_def powmod_nonneg powmod_neg)

end

lemma ipow_nonneg: "0 \<le> e \<Longrightarrow> ipow m b e = b ^ nat e mod m"
  by (simp add: ipow_def)

lemma ipow_add:
  assumes "coprime b m" and "1 < m"
  shows "ipow m b (x + y) = ipow m b x * ipow m b y mod m"
proof -
  text \<open>The power is the one element whose product with \<open>b\<^sup>k\<close> is \<open>b\<^sup>e\<^sup>+\<^sup>k\<close>.\<close>
  have inv: "b ^ k * minv b m ^ k mod m = 1" for k
    using minv_right [of b m] assms
    by (simp flip: power_mult_distrib add: power_mod [of "b * minv b m", symmetric])
  have key: "ipow m b e * b ^ k mod m = b ^ nat (e + int k) mod m" if "0 \<le> e + int k" for e k
  proof (cases "0 \<le> e")
    case True
    then show ?thesis by (simp add: ipow_def mod_mult_left_eq nat_add_distrib power_add)
  next
    case False
    then have "k = nat (- e) + nat (e + int k)" using that by linarith
    then have "b ^ k = b ^ nat (- e) * b ^ nat (e + int k)" by (metis power_add)
    then have "ipow m b e * b ^ k mod m
        = minv b m ^ nat (- e) * (b ^ nat (- e) * b ^ nat (e + int k)) mod m"
      using False by (simp add: ipow_def mod_mult_left_eq)
    also have "\<dots> = (b ^ nat (- e) * minv b m ^ nat (- e)) * b ^ nat (e + int k) mod m"
      by (simp add: ac_simps)
    also have "\<dots> = (b ^ nat (- e) * minv b m ^ nat (- e) mod m) * b ^ nat (e + int k) mod m"
      by (simp only: mod_mult_left_eq)
    finally show ?thesis by (simp add: inv)
  qed
  define k where "k = nat \<bar>x\<bar>"
  define l where "l = nat \<bar>y\<bar>"
  have "(ipow m b x * ipow m b y) * b ^ (k + l) mod m
      = (ipow m b x * b ^ k mod m) * (ipow m b y * b ^ l mod m) mod m"
    by (simp add: power_add mod_mult_eq ac_simps)
  also have "\<dots> = b ^ nat (x + int k) * b ^ nat (y + int l) mod m"
    using key [of x k] key [of y l] by (simp add: k_def l_def mod_mult_eq)
  also have "\<dots> = b ^ nat ((x + y) + int (k + l)) mod m"
    by (simp add: k_def l_def flip: power_add nat_add_distrib) (simp add: algebra_simps)
  also have "\<dots> = ipow m b (x + y) * b ^ (k + l) mod m"
    using key [of "x + y" "k + l"] by (simp add: k_def l_def)
  finally have eq: "(ipow m b x * ipow m b y) * b ^ (k + l) mod m
      = ipow m b (x + y) * b ^ (k + l) mod m" .
  have "coprime (b ^ (k + l)) m" using assms(1) by simp
  moreover have "b ^ (k + l) * (ipow m b x * ipow m b y) mod m = b ^ (k + l) * ipow m b (x + y) mod m"
    using eq by (simp only: mult.commute)
  ultimately have "(ipow m b x * ipow m b y) mod m = ipow m b (x + y) mod m"
    by (rule mult_cancel_mod)
  then show ?thesis by (simp add: ipow_def)
qed

section \<open>A concrete provider\<close>

text \<open>Square and multiply; the exponent is an integer so that it evaluates on numerals.\<close>

function modpow :: "int \<Rightarrow> int \<Rightarrow> int \<Rightarrow> int" where
  "modpow b e m =
     (if e \<le> 0 then 1 mod m
      else let h = modpow (b * b mod m) (e div 2) m
           in if e mod 2 = 1 then b * h mod m else h)"
  by pat_completeness auto
termination
  by (relation "measure (\<lambda>(b, e, m). nat e)") auto

declare modpow.simps [simp del]

lemma modpow_eq: "modpow b e m = b ^ nat e mod m"
proof (induction b e m rule: modpow.induct)
  case (1 b e m)
  show ?case
  proof (cases "e \<le> 0")
    case True
    then show ?thesis by (simp add: modpow.simps [of b e m])
  next
    case False
    define h where "h = modpow (b * b mod m) (e div 2) m"
    have h: "h = (b * b) ^ nat (e div 2) mod m"
      using 1 [OF False] by (simp add: h_def power_mod)
    have "int (nat e) = int (2 * nat (e div 2) + nat (e mod 2))" using False by simp
    then have e: "nat e = 2 * nat (e div 2) + nat (e mod 2)" by (simp only: of_nat_eq_iff)
    have "b ^ nat e = b ^ nat (e mod 2) * (b * b) ^ nat (e div 2)"
      by (subst e) (simp add: power_add power_mult power2_eq_square)
    moreover have "modpow b e m = (if e mod 2 = 1 then b * h mod m else h)"
      using False by (simp add: modpow.simps [of b e m] h_def Let_def)
    moreover have "e mod 2 = 0 \<or> e mod 2 = 1" by presburger
    ultimately show ?thesis using h by (elim disjE) (simp_all add: mod_mult_right_eq)
  qed
qed

text \<open>The Jacobi symbol from the factorisation, by trial division.\<close>

definition least_divisor :: "int \<Rightarrow> int" where
  "least_divisor n = hd (filter (\<lambda>d. d dvd n) [2..n] @ [2])"

function jacobi_ref :: "int \<Rightarrow> int \<Rightarrow> int" where
  "jacobi_ref a n =
     (if n \<le> 1 then 1
      else legendre a (least_divisor n) * jacobi_ref a (n div max 2 (least_divisor n)))"
  by pat_completeness auto
termination
  by (relation "measure (\<lambda>(a, n). nat n)") (auto simp: int_div_less_self)

declare jacobi_ref.simps [simp del]

function isqrt_from :: "int \<Rightarrow> int \<Rightarrow> int" where
  "isqrt_from n r = (if 0 \<le> r \<and> (r + 1) * (r + 1) \<le> n then isqrt_from n (r + 1) else r)"
  by pat_completeness auto
termination
proof (relation "measure (\<lambda>(n, r). nat (n - r))", simp, clarsimp)
  fix n r :: int
  assume "0 \<le> r" and "(r + 1) * (r + 1) \<le> n"
  moreover have "r + 1 \<le> (r + 1) * (r + 1)" using \<open>0 \<le> r\<close> mult_left_mono [of 1 "r + 1" "r + 1"] by simp
  ultimately show "r < n" by linarith
qed

declare isqrt_from.simps [simp del]

definition is_safe_prime_of :: "int \<Rightarrow> int \<Rightarrow> bool" where
  "is_safe_prime_of k p \<longleftrightarrow> is_safe_prime p \<and> bit_length_is p k"

definition lib_ref :: lib where
  "lib_ref =
     \<lparr> powmod = (\<lambda>b e m. if m = 0 then Inl ZeroDivisionError
          else if 0 \<le> e then Inr (modpow b e m)
          else if coprime b m then Inr (modpow (minv b m) (- e) m) else Inl ZeroDivisionError),
       invert = (\<lambda>a m. if coprime a m \<and> 1 < m then Inr (minv a m) else Inl ZeroDivisionError),
       ggcd = gcd,
       glcm = lcm,
       jacobi = (\<lambda>a n. if 0 < n \<and> odd n then Inr (jacobi_ref a n) else Inl ValueError),
       isqrt = (\<lambda>n. if 0 \<le> n then Inr (isqrt_from n 0) else Inl ValueError),
       digest512_256 = (\<lambda>b. to_bytes_big 32 (from_bytes_big b * 3 + int (length b) * 5 + 7)),
       digest256 = (\<lambda>b. to_bytes_big 32 (from_bytes_big b * 11 + int (length b) + 13)),
       gensafeprime = (\<lambda>k t. case t of [] \<Rightarrow> Inl EntropyExhausted
          | p # t' \<Rightarrow> if is_safe_prime_of k p then Inr (p, t') else Inl ValueError) \<rparr>"

lemma isqrt_from:
  "0 \<le> r \<Longrightarrow> r * r \<le> n \<Longrightarrow>
     r \<le> isqrt_from n r \<and> isqrt_from n r * isqrt_from n r \<le> n
     \<and> n < (isqrt_from n r + 1) * (isqrt_from n r + 1)"
proof (induction n r rule: isqrt_from.induct)
  case (1 n r)
  then show ?case by (cases "(r + 1) * (r + 1) \<le> n") (auto simp: isqrt_from.simps [of n r])
qed

lemma least_divisor_props:
  assumes "1 < n"
  shows "least_divisor n dvd n" and "1 < least_divisor n"
    and "\<And>d. d dvd n \<Longrightarrow> 1 < d \<Longrightarrow> least_divisor n \<le> d"
proof -
  let ?xs = "filter (\<lambda>d. d dvd n) [2..n]"
  have ne: "?xs \<noteq> []" using assms by (auto simp: filter_empty_conv intro!: bexI [of _ n])
  then have hd: "least_divisor n = hd ?xs" by (simp add: least_divisor_def)
  have "hd ?xs \<in> set ?xs" using ne by (rule hd_in_set)
  then show "least_divisor n dvd n" and "1 < least_divisor n" unfolding hd by auto
  fix d assume "d dvd n" and "1 < d"
  then have "d \<in> set ?xs" using assms by (auto intro: zdvd_imp_le)
  moreover have "sorted ?xs" by (simp add: sorted_wrt_filter)
  ultimately show "least_divisor n \<le> d" unfolding hd by (cases ?xs) auto
qed

lemma least_divisor_prime:
  assumes "is_prime p"
  shows "least_divisor p = p"
  using least_divisor_props [OF is_prime_gt1 [OF assms]]
    is_prime_divisor [OF assms, of "least_divisor p"] by auto

lemma jacobi_ref_prime:
  assumes "is_prime p"
  shows "jacobi_ref a p = legendre a p"
  using is_prime_gt1 [OF assms]
  by (simp add: jacobi_ref.simps [of a p] jacobi_ref.simps [of a 1] least_divisor_prime [OF assms]
      max_def)

lemma least_divisor_semiprime:
  assumes "is_prime p" and "is_prime q" and "p \<le> q"
  shows "least_divisor (p * q) = p"
proof -
  have gt: "1 < p" "1 < q" using assms is_prime_gt1 by auto
  then have n: "1 < p * q" using less_1_mult by blast
  note ld = least_divisor_props [OF n]
  have le: "least_divisor (p * q) \<le> p" using gt by (intro ld(3)) auto
  let ?d = "least_divisor (p * q)"
  show ?thesis
  proof (cases "p dvd ?d")
    case True
    then have "p \<le> ?d" using ld(2) by (intro zdvd_imp_le) auto
    with le show ?thesis by simp
  next
    case False
    then have "coprime ?d p" by (rule is_prime_coprime [OF assms(1)])
    then have "?d dvd q" using ld(1) by (simp add: coprime_dvd_mult_right_iff)
    then have "?d = q" using is_prime_divisor [OF assms(2), of ?d] ld(2) by auto
    with le assms(3) show ?thesis by simp
  qed
qed

lemma jacobi_ref_semiprime_le:
  assumes "is_prime p" and "is_prime q" and "p \<le> q"
  shows "jacobi_ref a (p * q) = legendre a p * legendre a q"
proof -
  have gt: "1 < p" "1 < q" using assms is_prime_gt1 by auto
  then have "1 < p * q" using less_1_mult by blast
  with gt show ?thesis
    by (simp add: jacobi_ref.simps [of a "p * q"] least_divisor_semiprime [OF assms]
        jacobi_ref_prime [OF assms(2)] max_def)
qed

lemma jacobi_ref_semiprime:
  "is_prime p \<Longrightarrow> is_prime q \<Longrightarrow> jacobi_ref a (p * q) = legendre a p * legendre a q"
  using jacobi_ref_semiprime_le [of p q a] jacobi_ref_semiprime_le [of q p a]
  by (cases "p \<le> q") (simp_all add: mult.commute)

interpretation ref: lib_ok lib_ref
proof (unfold_locales, goal_cases)
  case (2 a m)
  then show ?case using minv_right [of a m] minv_range [of m a] by (simp add: lib_ref_def)
next
  case (7 p q a)
  then show ?case
    using is_prime_gt1 [of p] is_prime_gt1 [of q]
    by (simp add: lib_ref_def jacobi_ref_semiprime)
next
  case (6 p a)
  then show ?case using is_prime_gt1 [of p] by (simp add: lib_ref_def jacobi_ref_prime)
next
  case (8 n)
  then show ?case using isqrt_from [of 0 n] by (simp add: lib_ref_def)
next
  case (11 k t p t')
  then show ?case by (auto simp: lib_ref_def is_safe_prime_of_def split: list.splits if_splits)
qed (simp_all add: lib_ref_def modpow_eq)

lemmas lib_ref_ok = ref.lib_ok_axioms

end
