(* ===== verification/Numbers.thy ===== *)
theory Numbers
  imports Libs
begin

text \<open>
  \<^verbatim>\<open>crypto/common/numbers.py\<close>: the number-theoretic helpers the proofs share, and the byte
  encoding of integers in which proofs travel.
\<close>

section \<open>Definitions\<close>

definition jacobi_symbol :: "lib \<Rightarrow> int \<Rightarrow> int \<Rightarrow> int res" where
  "jacobi_symbol L a n = jacobi L a n"

definition sample_invertible_with_neg_jacobi :: "lib \<Rightarrow> int \<Rightarrow> int rnd" where
  "sample_invertible_with_neg_jacobi L n =
     rbind (draw_until (n - 1) (\<lambda>r. ebind (jacobi_symbol L (r + 1) n) (\<lambda>j. Inr (j = - 1))))
       (\<lambda>r. rret (r + 1))"

definition is_quadratic_residue :: "lib \<Rightarrow> int \<Rightarrow> int \<Rightarrow> bool res" where
  "is_quadratic_residue L x n = ebind (jacobi_symbol L x n) (\<lambda>j. Inr (j = 1))"

definition is_in_interval :: "int \<Rightarrow> int \<Rightarrow> bool" where
  "is_in_interval x bound \<longleftrightarrow> 0 \<le> x \<and> x < bound"

fun check_invertible_and_valid_mod :: "lib \<Rightarrow> int \<Rightarrow> int list \<Rightarrow> bool" where
  "check_invertible_and_valid_mod L modulus [] = True"
| "check_invertible_and_valid_mod L modulus (v # vals) =
     (if \<not> (0 < v \<and> v < modulus) then False
      else if ggcd L v modulus \<noteq> 1 then False
      else check_invertible_and_valid_mod L modulus vals)"

definition rejection_sample :: "int \<Rightarrow> int \<Rightarrow> int res" where
  "rejection_sample modulus h = (if modulus \<le> 0 then Inl ValueError else Inr (h mod modulus))"

definition random_positive_int :: "int \<Rightarrow> int rnd" where
  "random_positive_int bound t =
     (if bound \<le> 1 then Inl ValueError
      else rbind (randbelow (bound - 1)) (\<lambda>r. rret (r + 1)) t)"

definition random_nonnegative_int :: "int \<Rightarrow> int rnd" where
  "random_nonnegative_int bound t =
     (if bound \<le> 0 then Inl ValueError else randbelow bound t)"

text \<open>Python's \<^verbatim>\<open>int.bit_length\<close>, which ignores the sign.\<close>

function bit_len :: "int \<Rightarrow> nat" where
  "bit_len i = (if i \<le> 0 then 0 else Suc (bit_len (i div 2)))"
  by pat_completeness auto
termination
  by (relation "measure nat") auto

declare bit_len.simps [simp del]

definition bit_length :: "int \<Rightarrow> nat" where
  "bit_length i = bit_len \<bar>i\<bar>"

definition int_to_bytes :: "int \<Rightarrow> bytes" where
  "int_to_bytes i =
     (if i = 0 then []
      else let i = \<bar>i\<bar> in to_bytes_big ((bit_length i + 7) div 8) i)"

definition int_from_bytes :: "bytes \<Rightarrow> int" where
  "int_from_bytes b = (if b \<noteq> [] then from_bytes_big b else 0)"

section \<open>Properties\<close>

lemma bit_len_bounds: "0 < i \<Longrightarrow> 0 < bit_len i \<and> 2 ^ (bit_len i - 1) \<le> i \<and> i < 2 ^ bit_len i"
proof (induction i rule: bit_len.induct)
  case (1 i)
  show ?case
  proof (cases "i = 1")
    case True
    then show ?thesis by (simp add: bit_len.simps)
  next
    case False
    with 1 have h: "0 < i div 2" by simp
    with 1 have IH: "0 < bit_len (i div 2)" "2 ^ (bit_len (i div 2) - 1) \<le> i div 2"
      "i div 2 < 2 ^ bit_len (i div 2)" by auto
    have "2 * 2 ^ (bit_len (i div 2) - 1) \<le> i" using IH(2) by linarith
    moreover have "i < 2 * 2 ^ bit_len (i div 2)" using IH(3) by linarith
    moreover have "2 * 2 ^ (bit_len (i div 2) - 1) = (2::int) ^ bit_len (i div 2)"
      using IH(1) by (simp add: power_eq_if)
    ultimately show ?thesis using 1(2) by (simp add: bit_len.simps [of i])
  qed
qed

lemma bit_len_mono: "a \<le> b \<Longrightarrow> bit_len a \<le> bit_len b"
proof (induction b arbitrary: a rule: bit_len.induct)
  case (1 b)
  show ?case
  proof (cases "a \<le> 0")
    case True
    then show ?thesis by (simp add: bit_len.simps [of a])
  next
    case False
    with 1 have "bit_len (a div 2) \<le> bit_len (b div 2)" by (auto intro: zdiv_mono1)
    with False 1(2) show ?thesis by (simp add: bit_len.simps [of a] bit_len.simps [of b])
  qed
qed

lemma below_256_power: "0 < i \<Longrightarrow> i < 256 ^ ((bit_len i + 7) div 8)"
proof -
  assume "0 < i"
  then have "i < 2 ^ bit_len i" by (simp add: bit_len_bounds)
  also have "(2::int) ^ bit_len i \<le> 2 ^ (8 * ((bit_len i + 7) div 8))"
    by (rule power_increasing) (linarith, simp)
  also have "\<dots> = (256::int) ^ ((bit_len i + 7) div 8)" by (simp add: power_mult)
  finally show ?thesis .
qed

lemma int_from_to_bytes: "int_from_bytes (int_to_bytes i) = \<bar>i\<bar>"
proof (cases "i = 0")
  case True
  then show ?thesis by (simp add: int_from_bytes_def int_to_bytes_def)
next
  case False
  let ?k = "(bit_len \<bar>i\<bar> + 7) div 8"
  have lt: "\<bar>i\<bar> < 256 ^ ?k" using False by (intro below_256_power) simp
  then have "?k \<noteq> 0" using False by (intro notI) simp
  then have "to_bytes_big ?k \<bar>i\<bar> \<noteq> []"
    by (metis length_to_bytes_big list.size(3))
  then show ?thesis
    using False lt
    by (simp add: int_from_bytes_def int_to_bytes_def bit_length_def from_to_bytes_big Let_def
        del: length_to_bytes_big)
qed

lemma int_from_to_bytes_nonneg [simp]: "0 \<le> i \<Longrightarrow> int_from_bytes (int_to_bytes i) = i"
  by (simp add: int_from_to_bytes)

lemma int_from_bytes_nonneg [simp]: "0 \<le> int_from_bytes b"
  by (simp add: int_from_bytes_def)

context lib_ok
begin

lemma check_valid_iff:
  "check_invertible_and_valid_mod L m vals \<longleftrightarrow> (\<forall>v\<in>set vals. 0 < v \<and> v < m \<and> coprime v m)"
  by (induction vals) (auto simp: ggcd coprime_iff_gcd_eq_1)

lemma sample_neg_jacobi_range:
  assumes "sample_invertible_with_neg_jacobi L n t = Inr (w, t')"
  shows "0 < w \<and> w < n \<and> jacobi L w n = Inr (- 1)"
  using assms
  by (auto simp: sample_invertible_with_neg_jacobi_def rnd_simps res_simps jacobi_symbol_def
      dest!: draw_until_sound)

end

lemma random_positive_int_eq_Inr [rnd_simps]:
  "random_positive_int b t = Inr (r, t') \<longleftrightarrow> 1 < b \<and> (\<exists>x. t = x # t' \<and> r = x mod (b - 1) + 1)"
  by (auto simp: random_positive_int_def rnd_simps)

lemma random_nonnegative_int_eq_Inr [rnd_simps]:
  "random_nonnegative_int b t = Inr (r, t') \<longleftrightarrow> 0 < b \<and> (\<exists>x. t = x # t' \<and> r = x mod b)"
  by (auto simp: random_nonnegative_int_def rnd_simps)

lemma random_positive_int_range:
  assumes "random_positive_int b t = Inr (r, t')"
  shows "0 < r \<and> r < b"
proof -
  from assms obtain x where "1 < b" and r: "r = x mod (b - 1) + 1" by (auto simp: rnd_simps)
  then have "0 \<le> x mod (b - 1)" "x mod (b - 1) < b - 1" by simp_all
  with r show ?thesis by linarith
qed

lemma random_nonnegative_int_range:
  "random_nonnegative_int b t = Inr (r, t') \<Longrightarrow> 0 \<le> r \<and> r < b"
  by (auto simp: rnd_simps)

lemma rejection_sample_eq_Inr [res_simps]:
  "rejection_sample m h = Inr e \<longleftrightarrow> 0 < m \<and> e = h mod m"
  by (auto simp: rejection_sample_def)

end
