(* ===== verification/ZkHash.thy ===== *)
theory ZkHash
  imports Numbers
begin

text \<open>
  \<^verbatim>\<open>crypto/zkp/hash.py\<close>: the Fiat-Shamir hash. A \<^verbatim>\<open>hashlib\<close> object is the byte string it has
  absorbed; the digest function is a field of the library record. The input encoding is proved
  injective, so two different lists of integers are never absorbed as the same bytes.
\<close>

unbundle bit_operations_syntax

section \<open>Definitions\<close>

definition HASH_INPUT_DELIMITER :: bytes where
  "HASH_INPUT_DELIMITER = [36]"

text \<open>\<^verbatim>\<open>struct.pack("<Q", n)\<close>.\<close>

definition pack_u64_le :: "nat \<Rightarrow> bytes" where
  "pack_u64_le n = to_bytes_little 8 (int n)"

definition hash_part :: "bytes \<Rightarrow> bytes" where
  "hash_part b = b @ HASH_INPUT_DELIMITER @ pack_u64_le (length b)"

definition hash_encoding :: "bytes list \<Rightarrow> bytes" where
  "hash_encoding in_data = pack_u64_le (length in_data) @ concat (map hash_part in_data)"

definition sha512_256_util :: "lib \<Rightarrow> bytes \<Rightarrow> bytes list \<Rightarrow> bytes option" where
  "sha512_256_util L h in_data =
     (if in_data = [] then None else Some (digest512_256 L (h @ hash_encoding in_data)))"

definition sha512_256 :: "lib \<Rightarrow> bytes list \<Rightarrow> bytes option" where
  "sha512_256 L in_data = sha512_256_util L [] in_data"

text \<open>The loop body shared by the two integer hashes: magnitude, then a sign byte.\<close>

definition int_part :: "int \<Rightarrow> bytes" where
  "int_part i =
     (let mag = (if i \<noteq> 0 then to_bytes_big ((bit_length i + 7) div 8) \<bar>i\<bar> else []);
          sign = (if 0 < i then 1 else if i < 0 then - 1 else 0)
      in mag @ [word_of_int sign AND 255])"

definition int_from_digest :: "bytes option \<Rightarrow> int res" where
  "int_from_digest d = (case d of None \<Rightarrow> Inl TypeError | Some b \<Rightarrow> Inr (from_bytes_big b))"

definition sha512_256i :: "lib \<Rightarrow> int list \<Rightarrow> int res" where
  "sha512_256i L in_data = int_from_digest (sha512_256_util L [] (map int_part in_data))"

definition sha512_256i_tagged :: "lib \<Rightarrow> bytes \<Rightarrow> int list \<Rightarrow> int res" where
  "sha512_256i_tagged L tag in_data =
     (case sha512_256 L [tag] of None \<Rightarrow> Inl TypeError
      | Some tag_bz \<Rightarrow>
          int_from_digest (sha512_256_util L (tag_bz @ tag_bz) (map int_part in_data)))"

section \<open>Properties\<close>

lemma sha512_256i_Inr: "in_data \<noteq> [] \<Longrightarrow> \<exists>h. sha512_256i L in_data = Inr h \<and> 0 \<le> h"
  by (simp add: sha512_256i_def sha512_256_util_def int_from_digest_def)

lemma sha512_256i_Cons:
  "sha512_256i L (x # xs) = Inr (from_bytes_big (digest512_256 L (hash_encoding (map int_part (x # xs)))))"
  by (simp add: sha512_256i_def sha512_256_util_def int_from_digest_def)

lemma pack_u64_le_inj: "m < 2 ^ 64 \<Longrightarrow> n < 2 ^ 64 \<Longrightarrow> pack_u64_le m = pack_u64_le n \<longleftrightarrow> m = n"
proof
  assume mn: "m < 2 ^ 64" "n < 2 ^ 64" and "pack_u64_le m = pack_u64_le n"
  then have "int m mod 256 ^ 8 = int n mod 256 ^ 8"
    unfolding pack_u64_le_def by (metis from_to_bytes_little)
  with mn show "m = n" by simp
qed simp

lemma length_pack_u64_le [simp]: "length (pack_u64_le n) = 8"
  by (simp add: pack_u64_le_def)

lemma hash_parts_inj:
  assumes "length xs = length ys"
    and "\<forall>x\<in>set xs. length x < 2 ^ 64" and "\<forall>y\<in>set ys. length y < 2 ^ 64"
    and "concat (map hash_part xs) = concat (map hash_part ys)"
  shows "xs = ys"
  using assms
proof (induction xs arbitrary: ys rule: rev_induct)
  case Nil
  then show ?case by simp
next
  case (snoc x xs)
  then obtain ys' y where ys: "ys = ys' @ [y]" by (cases ys rule: rev_cases) auto
  define pre where "pre = concat (map hash_part xs) @ x @ HASH_INPUT_DELIMITER"
  define pre' where "pre' = concat (map hash_part ys') @ y @ HASH_INPUT_DELIMITER"
  have "pre @ pack_u64_le (length x) = pre' @ pack_u64_le (length y)"
    using snoc.prems(4) hash_part_def [of x] hash_part_def [of y]
    by (simp add: ys pre_def pre'_def)
  then have tail: "pre = pre'" "pack_u64_le (length x) = pack_u64_le (length y)"
    by (auto simp: append_eq_append_conv)
  with snoc.prems have len: "length x = length y" by (simp add: ys pack_u64_le_inj)
  with tail(1) have "concat (map hash_part xs) = concat (map hash_part ys') \<and> x = y"
    by (simp add: pre_def pre'_def append_assoc [symmetric] del: append_assoc)
  with snoc show ?case by (simp add: ys)
qed

lemma hash_encoding_inj:
  assumes "length xs < 2 ^ 64" and "length ys < 2 ^ 64"
    and "\<forall>x\<in>set xs. length x < 2 ^ 64" and "\<forall>y\<in>set ys. length y < 2 ^ 64"
    and "hash_encoding xs = hash_encoding ys"
  shows "xs = ys"
proof -
  have "pack_u64_le (length xs) = pack_u64_le (length ys)"
    and body: "concat (map hash_part xs) = concat (map hash_part ys)"
    using assms(5) by (simp_all add: hash_encoding_def append_eq_append_conv)
  with assms have "length xs = length ys" by (simp add: pack_u64_le_inj)
  then show ?thesis using assms body by (intro hash_parts_inj) auto
qed

lemma int_part_inj:
  assumes "int_part i = int_part j"
  shows "i = j"
proof -
  let ?mag = "\<lambda>i. if i \<noteq> 0 then to_bytes_big ((bit_length i + 7) div 8) \<bar>i\<bar> else []"
  let ?sign = "\<lambda>i. (if 0 < i then 1 else if i < 0 then - 1 else 0) :: int"
  have mag_int: "?mag i = int_to_bytes i" for i
    by (simp add: int_to_bytes_def bit_length_def Let_def)
  from assms have "int_to_bytes i @ [word_of_int (?sign i) AND 255]
      = int_to_bytes j @ [word_of_int (?sign j) AND 255]"
    unfolding int_part_def Let_def mag_int by simp
  then have "int_to_bytes i = int_to_bytes j"
    and s: "(word_of_int (?sign i) :: byte) AND 255 = word_of_int (?sign j) AND 255" by auto
  then have "\<bar>i\<bar> = \<bar>j\<bar>" by (metis int_from_to_bytes)
  moreover have "sgn i = sgn j"
    using s by (cases "0 < i"; cases "i < 0"; cases "0 < j"; cases "j < 0") simp_all
  ultimately show ?thesis by (metis abs_mult_sgn)
qed

end
