(* ===== verification/Paillier.thy ===== *)
theory Paillier
  imports Numbers
begin

text \<open>
  \<^verbatim>\<open>crypto/common/paillier.py\<close>: keys, encryption with explicit randomness, the homomorphic
  operations, decryption with its cached inverse, and key generation. The specification is
  \<open>enc\<close>, the ciphertext of any non-negative plaintext, whose homomorphic laws and decryption
  are proved.
\<close>

section \<open>The code\<close>

text \<open>\<^verbatim>\<open>n_square\<close> and \<^verbatim>\<open>gamma\<close> are cached properties; the cache never changes their value.\<close>

record public_key =
  pk_n :: int

definition n_square :: "('a public_key_scheme) \<Rightarrow> int" where
  "n_square pk = pk_n pk * pk_n pk"

definition gamma :: "('a public_key_scheme) \<Rightarrow> int" where
  "gamma pk = pk_n pk + 1"

definition get_random_positive_relatively_prime_int :: "lib \<Rightarrow> int \<Rightarrow> int rnd" where
  "get_random_positive_relatively_prime_int L n =
     rbind (draw_until (n - 1) (\<lambda>r. Inr (ggcd L (r + 1) n = 1))) (\<lambda>r. rret (r + 1))"

definition encrypt_and_return_randomness ::
    "lib \<Rightarrow> ('a public_key_scheme) \<Rightarrow> int \<Rightarrow> (int \<times> int) rnd" where
  "encrypt_and_return_randomness L pk m =
     rbind (rlift (eguard (0 \<le> m \<and> m < pk_n pk) MessageMalFormedError)) (\<lambda>_.
     rbind (get_random_positive_relatively_prime_int L (pk_n pk)) (\<lambda>x.
     rbind (rlift (powmod L (gamma pk) m (n_square pk))) (\<lambda>gm.
     rbind (rlift (powmod L x (pk_n pk) (n_square pk))) (\<lambda>xn.
     rret (gm * xn mod n_square pk, x)))))"

definition encrypt :: "lib \<Rightarrow> ('a public_key_scheme) \<Rightarrow> int \<Rightarrow> int rnd" where
  "encrypt L pk m = rbind (encrypt_and_return_randomness L pk m) (\<lambda>(c, _). rret c)"

definition encrypt_with_randomness :: "lib \<Rightarrow> ('a public_key_scheme) \<Rightarrow> int \<Rightarrow> int \<Rightarrow> int res" where
  "encrypt_with_randomness L pk m x =
     ebind (eguard (0 \<le> m \<and> m < pk_n pk) MessageMalFormedError) (\<lambda>_.
     ebind (eguard (0 < x \<and> x < pk_n pk \<and> ggcd L x (pk_n pk) = 1) WrongRandomnessError) (\<lambda>_.
     ebind (powmod L (gamma pk) m (n_square pk)) (\<lambda>gm.
     ebind (powmod L x (pk_n pk) (n_square pk)) (\<lambda>xn.
     Inr (gm * xn mod n_square pk)))))"

definition homo_mult :: "lib \<Rightarrow> ('a public_key_scheme) \<Rightarrow> int \<Rightarrow> int \<Rightarrow> int res" where
  "homo_mult L pk m c1 =
     ebind (eguard (0 \<le> m \<and> m < pk_n pk) MessageMalFormedError) (\<lambda>_.
     ebind (eguard (0 \<le> c1 \<and> c1 < n_square pk) MessageTooLongError) (\<lambda>_.
     powmod L c1 m (n_square pk)))"

definition homo_mult_obfuscate ::
    "lib \<Rightarrow> ('a public_key_scheme) \<Rightarrow> int \<Rightarrow> int \<Rightarrow> (int \<times> int) rnd" where
  "homo_mult_obfuscate L pk m c1 =
     rbind (rlift (powmod L c1 m (n_square pk))) (\<lambda>c2.
     rbind (get_random_positive_relatively_prime_int L (pk_n pk)) (\<lambda>x.
     rbind (rlift (powmod L x (pk_n pk) (n_square pk))) (\<lambda>xn.
     rret (c2 * xn mod n_square pk, x))))"

definition homo_add :: "('a public_key_scheme) \<Rightarrow> int \<Rightarrow> int \<Rightarrow> int res" where
  "homo_add pk c1 c2 =
     (if \<not> (0 \<le> c1 \<and> c1 < n_square pk) \<or> \<not> (0 \<le> c2 \<and> c2 < n_square pk)
      then Inl MessageMalFormedError
      else Inr (c1 * c2 mod n_square pk))"

definition as_ints :: "('a public_key_scheme) \<Rightarrow> int list" where
  "as_ints pk = [pk_n pk, gamma pk]"

text \<open>A private key is a public key with the exponents and the cached inverse of \<open>L(\<gamma>\<^sup>\<lambda>)\<close>.\<close>

record private_key = public_key +
  lambda_n :: int
  phi_n :: int
  lg_inv :: "int option"

definition private_key_of :: "int \<Rightarrow> int \<Rightarrow> int \<Rightarrow> private_key" where
  "private_key_of n lam phi = \<lparr> pk_n = n, lambda_n = lam, phi_n = phi, lg_inv = None \<rparr>"

definition L_quot :: "private_key \<Rightarrow> int \<Rightarrow> int" where
  "L_quot sk u = (u - 1) div pk_n sk"

definition cache_lg_inv :: "lib \<Rightarrow> private_key \<Rightarrow> (bool \<times> private_key) res" where
  "cache_lg_inv L sk =
     (case lg_inv sk of
        Some _ \<Rightarrow> Inr (False, sk)
      | None \<Rightarrow>
          ebind (powmod L (gamma sk) (lambda_n sk) (n_square sk)) (\<lambda>g_pow_lambda.
          ebind (invert L (L_quot sk g_pow_lambda) (pk_n sk)) (\<lambda>i.
          ebind (eguard (i \<noteq> 0) PaillierError) (\<lambda>_.
          Inr (True, sk\<lparr>lg_inv := Some i\<rparr>)))))"

definition decrypt :: "lib \<Rightarrow> private_key \<Rightarrow> int \<Rightarrow> (int \<times> private_key) res" where
  "decrypt L sk c =
     ebind (eguard (0 \<le> c \<and> c < n_square sk \<and> ggcd L c (n_square sk) = 1) MessageMalFormedError) (\<lambda>_.
     ebind (powmod L c (lambda_n sk) (n_square sk)) (\<lambda>c_pow_lambda.
     ebind (case lg_inv sk of Some _ \<Rightarrow> Inr sk
            | None \<Rightarrow> ebind (cache_lg_inv L sk) (\<lambda>(_, sk). Inr sk)) (\<lambda>sk.
     (case lg_inv sk of
        None \<Rightarrow> Inl TypeError
      | Some i \<Rightarrow> Inr (L_quot sk c_pow_lambda * i mod pk_n sk, sk)))))"

definition get_randomness :: "lib \<Rightarrow> private_key \<Rightarrow> int \<Rightarrow> (int \<times> private_key) res" where
  "get_randomness L sk c =
     ebind (decrypt L sk c) (\<lambda>(m, sk).
     let term = 1 - m * pk_n sk; c0 = c * term mod n_square sk in
     ebind (invert L (pk_n sk) (phi_n sk)) (\<lambda>niv.
     ebind (eguard (niv \<noteq> 0) PaillierError) (\<lambda>_.
     ebind (powmod L c0 niv (pk_n sk)) (\<lambda>r. Inr (r, sk)))))"

text \<open>
  Key generation repeats until the two primes fit. Every round asks \<^verbatim>\<open>gensafeprime\<close> for two
  primes, and so consumes entropy: the length of the tape bounds the number of rounds.
\<close>

fun key_pair_loop :: "lib \<Rightarrow> nat \<Rightarrow> int \<Rightarrow> (int \<times> int) rnd" where
  "key_pair_loop L 0 modulus_bit_len t = Inl EntropyExhausted"
| "key_pair_loop L (Suc fuel) modulus_bit_len t =
     (let prime_bits = modulus_bit_len div 2; min_diff_bits = prime_bits - 3 in
      rbind (gensafeprime L prime_bits) (\<lambda>p.
      rbind (gensafeprime L prime_bits) (\<lambda>q.
      if p \<noteq> q \<and> min_diff_bits \<le> int (bit_length (p - q))
         \<and> int (bit_length (p * q)) = modulus_bit_len
      then rret (p, q)
      else key_pair_loop L fuel modulus_bit_len)) t)"

definition generate_key_pair ::
    "lib \<Rightarrow> int \<Rightarrow> (private_key \<times> public_key \<times> int \<times> int) rnd" where
  "generate_key_pair L modulus_bit_len t =
     rbind (key_pair_loop L (length t) modulus_bit_len) (\<lambda>(p, q).
     let n = p * q; phi = (p - 1) * (q - 1); lam = glcm L (p - 1) (q - 1) in
     rret (private_key_of n lam phi, \<lparr>pk_n = n\<rparr>, p, q)) t"

section \<open>Specification\<close>

definition enc :: "int \<Rightarrow> int \<Rightarrow> int \<Rightarrow> int" where
  "enc n m x = (n + 1) ^ nat m * x ^ nat n mod (n * n)"

definition key_of_primes :: "int \<Rightarrow> int \<Rightarrow> private_key \<Rightarrow> bool" where
  "key_of_primes p q sk \<longleftrightarrow>
     is_prime p \<and> is_prime q \<and> p \<noteq> q \<and> pk_n sk = p * q \<and> coprime (p * q) ((p - 1) * (q - 1))
     \<and> lambda_n sk = lcm (p - 1) (q - 1) \<and> phi_n sk = (p - 1) * (q - 1)
     \<and> (lg_inv sk = None \<or> lg_inv sk = Some (minv (lambda_n sk mod pk_n sk) (pk_n sk)))"

lemma enc_range: "0 < n \<Longrightarrow> 0 \<le> enc n m x \<and> enc n m x < n * n"
  by (simp add: enc_def)

lemma enc_coprime:
  assumes "1 < n" and "coprime x n"
  shows "coprime (enc n m x) n" and "coprime (enc n m x) (n * n)"
proof -
  have "coprime (n + 1) n" by (metis coprime_add_one_left coprime_commute add.commute)
  then have "coprime ((n + 1) ^ nat m * x ^ nat n) (n * n)"
    using assms by simp
  moreover have "0 < n * n" using assms(1) by simp
  ultimately show "coprime (enc n m x) (n * n)" by (simp only: enc_def gcd_mod_eq_1)
  then show "coprime (enc n m x) n" by simp
qed

lemma enc_power_n_mod:
  assumes "0 < n" and "x mod n = y mod n"
  shows "enc n m x = enc n m y"
  unfolding enc_def
  using lift_power_square_int [OF assms(2)] assms(1) by (intro mod_mult_cong) simp_all

lemma enc_mult:
  assumes "0 \<le> a" and "0 \<le> b"
  shows "enc n a x * enc n b y mod (n * n) = enc n (a + b) (x * y)"
proof -
  have "enc n a x * enc n b y mod (n * n)
      = ((n + 1) ^ nat a * x ^ nat n) * ((n + 1) ^ nat b * y ^ nat n) mod (n * n)"
    unfolding enc_def by (simp add: mod_mult_eq)
  also have "((n + 1) ^ nat a * x ^ nat n) * ((n + 1) ^ nat b * y ^ nat n)
      = (n + 1) ^ nat (a + b) * (x * y) ^ nat n"
    using assms by (simp add: nat_add_distrib power_add power_mult_distrib ac_simps)
  finally show ?thesis by (simp add: enc_def)
qed

lemma enc_power:
  assumes "0 \<le> m"
  shows "enc n m x ^ k mod (n * n) = enc n (m * int k) (x ^ k)"
proof -
  have "enc n m x ^ k mod (n * n) = ((n + 1) ^ nat m * x ^ nat n) ^ k mod (n * n)"
    unfolding enc_def by (simp add: power_mod)
  also have "((n + 1) ^ nat m * x ^ nat n) ^ k = (n + 1) ^ nat (m * int k) * (x ^ k) ^ nat n"
    using assms
    by (simp add: power_mult_distrib nat_mult_distrib power_mult [symmetric] mult.commute)
  finally show ?thesis by (simp add: enc_def)
qed

section \<open>Decryption\<close>

lemma L_quot_power:
  assumes "1 < pk_n sk"
  shows "L_quot sk ((1 + pk_n sk * k) mod n_square sk) = k mod pk_n sk"
proof -
  let ?n = "pk_n sk"
  have "?n * k mod (?n * ?n) = ?n * (k mod ?n)" by (rule mult_mod_right [symmetric])
  moreover have "1 + ?n * (k mod ?n) < ?n * ?n"
  proof -
    have "?n * (k mod ?n) \<le> ?n * (?n - 1)" using assms by (intro mult_left_mono) simp_all
    then show ?thesis using assms by (simp add: right_diff_distrib)
  qed
  moreover have "0 \<le> ?n * (k mod ?n)" using assms by simp
  ultimately have "(1 + ?n * (k mod ?n)) mod (?n * ?n) = 1 + ?n * (k mod ?n)"
    by (intro mod_pos_pos_trivial) simp_all
  moreover have "(1 + ?n * k mod (?n * ?n)) mod (?n * ?n) = (1 + ?n * k) mod (?n * ?n)"
    by (rule mod_add_right_eq)
  ultimately have "(1 + ?n * k) mod (?n * ?n) = 1 + ?n * (k mod ?n)"
    by (simp only: mult_mod_right [symmetric])
  with assms show ?thesis by (simp add: L_quot_def n_square_def)
qed

lemma unit_power_lambda:
  assumes "is_prime p" and "is_prime q" and "p \<noteq> q" and "coprime x (p * q)"
    and "lam = lcm (p - 1) (q - 1)"
  shows "x ^ nat lam mod (p * q) = 1 mod (p * q)"
proof (rule crt_eq [OF distinct_primes_coprime [OF assms(1-3)]])
  have "1 < p" "1 < q" using assms is_prime_gt1 by auto
  moreover have "\<not> p dvd x" "\<not> q dvd x"
    using assms(4) \<open>1 < p\<close> \<open>1 < q\<close> by (simp_all add: coprime_not_dvd)
  ultimately show "x ^ nat lam mod p = 1 mod p" and "x ^ nat lam mod q = 1 mod q"
    using assms by (auto simp: fermat_multiple)
qed

lemma enc_power_lambda:
  assumes "key_of_primes p q sk" and "coprime x (pk_n sk)" and "0 \<le> m"
  shows "enc (pk_n sk) m x ^ nat (lambda_n sk) mod n_square sk
    = (1 + pk_n sk * (m * lambda_n sk)) mod n_square sk"
proof -
  let ?n = "pk_n sk" and ?lam = "lambda_n sk"
  have gt: "1 < p" "1 < q" and n: "?n = p * q" and lam: "?lam = lcm (p - 1) (q - 1)"
    using assms(1) is_prime_gt1 by (auto simp: key_of_primes_def)
  have n0: "0 < ?n" using gt by (simp add: n)
  have lam0: "0 \<le> ?lam" by (simp add: lam)
  have "enc ?n m x ^ nat ?lam mod (?n * ?n) = enc ?n (m * ?lam) (x ^ nat ?lam)"
    using enc_power [OF assms(3), of ?n x "nat ?lam"] lam0 by simp
  also have "\<dots> = enc ?n (m * ?lam) 1"
    using assms unit_power_lambda [of p q x ?lam] n n0
    by (intro enc_power_n_mod) (auto simp: key_of_primes_def)
  also have "\<dots> = (1 + ?n * (m * ?lam)) mod (?n * ?n)"
    using binomial_square [of ?n 1 "nat (m * ?lam)"] assms(3) lam0
    by (simp add: enc_def add.commute)
  finally show ?thesis by (simp add: n_square_def)
qed

lemma key_lambda_coprime:
  assumes "key_of_primes p q sk"
  shows "coprime (lambda_n sk) (pk_n sk)" and "1 < pk_n sk"
proof -
  have gt: "1 < p" "1 < q" using assms is_prime_gt1 by (auto simp: key_of_primes_def)
  then show "1 < pk_n sk" using assms less_1_mult by (auto simp: key_of_primes_def)
  have "lcm (p - 1) (q - 1) dvd (p - 1) * (q - 1)" by (simp add: lcm_least)
  then show "coprime (lambda_n sk) (pk_n sk)"
    using assms by (metis key_of_primes_def coprime_commute coprime_divisors dvd_refl)
qed

lemma gamma_enc: "1 < pk_n sk \<Longrightarrow> gamma sk mod n_square sk = enc (pk_n sk) 1 1"
  by (simp add: gamma_def n_square_def enc_def)

context lib_ok
begin

lemma cache_lg_inv_key:
  assumes "key_of_primes p q sk" and "lg_inv sk = None"
  shows "cache_lg_inv L sk =
    Inr (True, sk\<lparr>lg_inv := Some (minv (lambda_n sk mod pk_n sk) (pk_n sk))\<rparr>)"
proof -
  let ?n = "pk_n sk" and ?lam = "lambda_n sk"
  have n: "1 < ?n" and co: "coprime ?lam ?n" using key_lambda_coprime [OF assms(1)] by auto
  then have co': "coprime (?lam mod ?n) ?n" by (simp add: gcd_mod_eq_1)
  have lam0: "0 \<le> ?lam" using assms(1) by (simp add: key_of_primes_def)
  have sq: "0 < n_square sk" using n by (simp add: n_square_def)
  have "gamma sk ^ nat ?lam mod n_square sk = enc ?n 1 1 ^ nat ?lam mod n_square sk"
    using gamma_enc [OF n] by (intro mod_power_cong) (simp add: enc_def n_square_def)
  also have "\<dots> = (1 + ?n * ?lam) mod n_square sk"
    using enc_power_lambda [OF assms(1), of 1 1] by simp
  finally have "powmod L (gamma sk) ?lam (n_square sk) = Inr ((1 + ?n * ?lam) mod n_square sk)"
    using lam0 sq by (simp add: powmod_nonneg)
  moreover have "minv (?lam mod ?n) ?n \<noteq> 0"
  proof
    assume "minv (?lam mod ?n) ?n = 0"
    then show False using minv_right [OF co'] n by simp
  qed
  ultimately show ?thesis
    using n by (simp add: cache_lg_inv_def assms(2) L_quot_power invert_minv [OF co'])
qed

lemma decrypt_enc:
  assumes "key_of_primes p q sk" and "coprime x (pk_n sk)" and "0 \<le> m"
  shows "\<exists>sk'. decrypt L sk (enc (pk_n sk) m x) = Inr (m mod pk_n sk, sk')
    \<and> key_of_primes p q sk' \<and> public_key.truncate sk' = public_key.truncate sk"
proof -
  let ?n = "pk_n sk" and ?lam = "lambda_n sk" and ?c = "enc (pk_n sk) m x"
  let ?i = "minv (?lam mod ?n) ?n"
  have n: "1 < ?n" and co: "coprime ?lam ?n" using key_lambda_coprime [OF assms(1)] by auto
  then have co': "coprime (?lam mod ?n) ?n" by (simp add: gcd_mod_eq_1)
  have lam0: "0 \<le> ?lam" using assms(1) by (simp add: key_of_primes_def)
  have sq: "0 < n_square sk" using n by (simp add: n_square_def)
  have guard: "0 \<le> ?c" "?c < n_square sk" "gcd ?c (n_square sk) = 1"
    using enc_range [of ?n m x] enc_coprime [OF n assms(2), of m] n by (simp_all add: n_square_def)
  have pow: "powmod L ?c ?lam (n_square sk) = Inr ((1 + ?n * (m * ?lam)) mod n_square sk)"
    using enc_power_lambda [OF assms] lam0 sq by (simp add: powmod_nonneg)
  have quot: "L_quot sk ((1 + ?n * (m * ?lam)) mod n_square sk) = m * ?lam mod ?n"
    using n by (rule L_quot_power)
  have "m * ?lam mod ?n * ?i mod ?n = m * ((?lam mod ?n) * ?i mod ?n) mod ?n"
    by (simp add: mod_mult_left_eq mod_mult_right_eq mult.assoc)
  then have val: "m * ?lam mod ?n * ?i mod ?n = m mod ?n"
    using minv_right [OF co'] n by (simp add: mod_mult_right_eq)
  let ?sk' = "sk\<lparr>lg_inv := Some ?i\<rparr>"
  have sk': "key_of_primes p q ?sk'" using assms(1) by (simp add: key_of_primes_def)
  have cached: "(case lg_inv sk of Some _ \<Rightarrow> Inr sk
      | None \<Rightarrow> ebind (cache_lg_inv L sk) (\<lambda>(_, sk). Inr sk)) = Inr ?sk'"
    using assms(1) cache_lg_inv_key [OF assms(1)]
    by (cases "lg_inv sk") (auto simp: key_of_primes_def)
  have "decrypt L sk ?c = Inr (m mod ?n, ?sk')"
    using guard quot by (simp add: decrypt_def ggcd pow cached val L_quot_def)
  then show ?thesis using sk' by (auto simp: public_key.truncate_def)
qed

lemma encrypt_with_randomness_enc:
  assumes "encrypt_with_randomness L pk m x = Inr c"
  shows "c = enc (pk_n pk) m x" and "coprime x (pk_n pk)" and "0 \<le> m" and "m < pk_n pk"
    and "0 < x" and "x < pk_n pk"
  using assms
  by (auto simp: encrypt_with_randomness_def res_simps ggcd powmod_nonneg n_square_def enc_def
      gamma_def mod_mult_eq coprime_iff_gcd_eq_1)

lemma relatively_prime_draw:
  assumes "get_random_positive_relatively_prime_int L n t = Inr (x, t')"
  shows "0 < x \<and> x < n \<and> coprime x n"
  using assms
  by (auto simp: get_random_positive_relatively_prime_int_def rnd_simps ggcd coprime_iff_gcd_eq_1
      dest!: draw_until_sound)

lemma encrypt_and_return_randomness_enc:
  assumes "encrypt_and_return_randomness L pk m t = Inr ((c, x), t')"
  shows "c = enc (pk_n pk) m x \<and> coprime x (pk_n pk) \<and> 0 < x \<and> x < pk_n pk \<and> 0 \<le> m \<and> m < pk_n pk"
  using assms
  by (auto simp: encrypt_and_return_randomness_def rnd_simps res_simps powmod_nonneg n_square_def
      enc_def gamma_def mod_mult_eq dest!: relatively_prime_draw)

lemma homo_add_enc:
  assumes "0 < pk_n pk" and "0 \<le> a" and "0 \<le> b"
  shows "homo_add pk (enc (pk_n pk) a x) (enc (pk_n pk) b y) = Inr (enc (pk_n pk) (a + b) (x * y))"
  using assms enc_range [of "pk_n pk"]
  by (simp add: homo_add_def n_square_def enc_mult)

lemma homo_mult_enc:
  assumes "0 \<le> k" and "k < pk_n pk" and "0 \<le> m"
  shows "homo_mult L pk k (enc (pk_n pk) m x) = Inr (enc (pk_n pk) (m * k) (x ^ nat k))"
  using assms enc_range [of "pk_n pk" m x] enc_power [of m "pk_n pk" x "nat k"]
  by (simp add: homo_mult_def n_square_def powmod_nonneg)

end

end
