(* ===== verification/Curve.thy ===== *)
theory Curve
  imports Numbers
begin

text \<open>
  \<^verbatim>\<open>crypto/common/ec.py\<close>: short Weierstrass points over \<open>F\<^sub>p\<close>, double-and-add, ECDSA.
  First the code, with its exceptions; then the affine group law as total functions on points
  (\<open>ec_add\<close>, \<open>ec_double\<close>, \<open>ec_mult\<close>), the proof that points stay on the curve, and the
  refinement: on valid points every operation of the code returns, and returns the value of the
  group law.
\<close>

section \<open>The code\<close>

text \<open>
  \<^verbatim>\<open>Secp256k1\<close> holds the parameters; the code computes with \<open>p\<close>, \<open>b\<close>, \<open>n\<close> and the generator
  (\<open>a\<close> is stored, and no formula reads it).
\<close>

record curve =
  cp :: int
  ca :: int
  cb :: int
  cn :: int
  cgx :: int
  cgy :: int

definition Secp256k1 :: curve where
  "Secp256k1 =
     \<lparr> cp = 0xFFFFFFFFFFFFFFFFFFFFFFFFFFFFFFFFFFFFFFFFFFFFFFFFFFFFFFFEFFFFFC2F,
       ca = 0,
       cb = 7,
       cn = 0xFFFFFFFFFFFFFFFFFFFFFFFFFFFFFFFEBAAEDCE6AF48A03BBFD25E8CD0364141,
       cgx = 0x79BE667EF9DCBBAC55A06295CE870B07029BFCDB2DCE28D959F2815B16F81798,
       cgy = 0x483ADA7726A3C4655DA4FBFC0E1108A8FD17B448A68554199C47D08FFB10D4B8 \<rparr>"

definition is_on_curve :: "lib \<Rightarrow> curve \<Rightarrow> int \<Rightarrow> int \<Rightarrow> bool res" where
  "is_on_curve L C x y =
     ebind (powmod L y 2 (cp C)) (\<lambda>left.
     ebind (powmod L x 3 (cp C)) (\<lambda>x3.
     Inr (left = (x3 + cb C) mod cp C)))"

text \<open>
  A \<^verbatim>\<open>Point\<close> object. Every construction in the repository passes integers, so the coordinates
  are never \<^verbatim>\<open>None\<close>, and \<^verbatim>\<open>is_infinity\<close> is the test for \<open>(0, 0)\<close>.
\<close>

datatype point = Point (px: int) (py: int)

definition is_infinity :: "point \<Rightarrow> bool" where
  "is_infinity P \<longleftrightarrow> px P = 0 \<and> py P = 0"

definition mk_point :: "lib \<Rightarrow> curve \<Rightarrow> int \<Rightarrow> int \<Rightarrow> point res" where
  "mk_point L C x y =
     (if is_infinity (Point x y) then Inr (Point x y)
      else ebind (is_on_curve L C x y) (\<lambda>on.
           if on then Inr (Point x y) else Inl ValueError))"

definition point_eq :: "point \<Rightarrow> point \<Rightarrow> bool" where
  "point_eq P Q =
     (if is_infinity P \<and> is_infinity Q then True
      else if is_infinity P \<or> is_infinity Q then False
      else px P = px Q \<and> py P = py Q)"

definition infinity :: point where
  "infinity = Point 0 0"

definition generator :: "curve \<Rightarrow> point" where
  "generator C = Point (cgx C) (cgy C)"

definition random_scalar :: "curve \<Rightarrow> int rnd" where
  "random_scalar C = rbind (randbelow (cn C - 1)) (\<lambda>r. rret (r + 1))"

definition point_double :: "lib \<Rightarrow> curve \<Rightarrow> point \<Rightarrow> point res" where
  "point_double L C p =
     (if is_infinity p \<or> py p = 0 then Inr infinity
      else
        ebind (powmod L (px p) 2 (cp C)) (\<lambda>sq.
        let numerator = 3 * sq; denominator = 2 * py p in
        ebind (invert L denominator (cp C)) (\<lambda>inv.
        let slope = numerator * inv mod cp C in
        ebind (powmod L slope 2 (cp C)) (\<lambda>s2.
        let x3 = (s2 - 2 * px p) mod cp C;
            y3 = (slope * (px p - x3) - py p) mod cp C
        in mk_point L C x3 y3))))"

definition point_add :: "lib \<Rightarrow> curve \<Rightarrow> point \<Rightarrow> point \<Rightarrow> point res" where
  "point_add L C p1 p2 =
     (if is_infinity p1 then Inr p2
      else if is_infinity p2 then Inr p1
      else if px p1 = px p2 then
        (if py p1 = py p2 then point_double L C p1 else Inr infinity)
      else
        let dx = px p2 - px p1; dy = py p2 - py p1 in
        ebind (invert L dx (cp C)) (\<lambda>inv.
        let slope = dy * inv mod cp C in
        ebind (powmod L slope 2 (cp C)) (\<lambda>s2.
        let x3 = (s2 - px p1 - px p2) mod cp C;
            y3 = (slope * (px p1 - x3) - py p1) mod cp C
        in mk_point L C x3 y3)))"

text \<open>The loop of \<^verbatim>\<open>scalar_mult\<close>; \<open>k >>= 1\<close> halves a positive integer.\<close>

function scalar_loop :: "lib \<Rightarrow> curve \<Rightarrow> int \<Rightarrow> point \<Rightarrow> point \<Rightarrow> point res" where
  "scalar_loop L C k result addend =
     (if 0 < k then
        ebind (if odd k then point_add L C result addend else Inr result) (\<lambda>result.
        ebind (point_double L C addend) (\<lambda>addend.
        scalar_loop L C (k div 2) result addend))
      else Inr result)"
  by pat_completeness auto
termination
  by (relation "measure (\<lambda>(L, C, k, r, a). nat k)") auto

declare scalar_loop.simps [simp del]

definition scalar_mult :: "lib \<Rightarrow> curve \<Rightarrow> int \<Rightarrow> point \<Rightarrow> point res" where
  "scalar_mult L C k point =
     (let k_mpz = k mod cn C in
      if k_mpz = 0 \<or> is_infinity point then Inr infinity
      else scalar_loop L C k_mpz infinity point)"

text \<open>\<^verbatim>\<open>scalar_mult(k)\<close> without a point multiplies the generator.\<close>

definition base_mult :: "lib \<Rightarrow> curve \<Rightarrow> int \<Rightarrow> point res" where
  "base_mult L C k = scalar_mult L C k (generator C)"

text \<open>The signing loop: every round draws a fresh nonce from the tape.\<close>

fun ec_sign :: "lib \<Rightarrow> curve \<Rightarrow> int \<Rightarrow> int \<Rightarrow> (int \<times> int) rnd" where
  "ec_sign L C d z [] = rbind (random_scalar C) (\<lambda>_. rret (0, 0)) []"
| "ec_sign L C d z (x # t) =
     ebind (random_scalar C [x]) (\<lambda>(k, _).
     ebind (scalar_mult L C k (generator C)) (\<lambda>R.
     let r = px R mod cn C in
     if r = 0 then ec_sign L C d z t
     else
       ebind (invert L k (cn C)) (\<lambda>k_inv.
       let s = k_inv * (z + r * d) mod cn C in
       if s = 0 then ec_sign L C d z t else Inr ((r, s), t))))"

definition ec_verify :: "lib \<Rightarrow> curve \<Rightarrow> point \<Rightarrow> int \<Rightarrow> int \<times> int \<Rightarrow> bool res" where
  "ec_verify L C public_key z signature =
     (if is_infinity public_key then Inr False
      else
        let r = fst signature; s = snd signature in
        if \<not> (0 < r \<and> r < cn C \<and> 0 < s \<and> s < cn C) then Inr False
        else
          ebind (invert L s (cn C)) (\<lambda>w.
          let u1 = z * w mod cn C; u2 = r * w mod cn C in
          ebind (scalar_mult L C u1 (generator C)) (\<lambda>A.
          ebind (scalar_mult L C u2 public_key) (\<lambda>B.
          ebind (point_add L C A B) (\<lambda>P.
          if is_infinity P then Inr False else Inr (px P mod cn C = r))))))"

section \<open>The group law\<close>

definition on_curve_eq :: "curve \<Rightarrow> int \<Rightarrow> int \<Rightarrow> bool" where
  "on_curve_eq C x y \<longleftrightarrow> y ^ 2 mod cp C = (x ^ 3 + cb C) mod cp C"

definition valid_point :: "curve \<Rightarrow> point \<Rightarrow> bool" where
  "valid_point C P \<longleftrightarrow>
     is_infinity P
     \<or> (0 \<le> px P \<and> px P < cp C \<and> 0 \<le> py P \<and> py P < cp C \<and> on_curve_eq C (px P) (py P))"

definition chord_point :: "curve \<Rightarrow> int \<Rightarrow> int \<Rightarrow> int \<Rightarrow> int \<Rightarrow> point" where
  "chord_point C slope x1 y1 x2 =
     (let x3 = (slope ^ 2 - x1 - x2) mod cp C
      in Point x3 ((slope * (x1 - x3) - y1) mod cp C))"

definition ec_double :: "curve \<Rightarrow> point \<Rightarrow> point" where
  "ec_double C P =
     (if is_infinity P \<or> py P = 0 then infinity
      else chord_point C (3 * px P ^ 2 * minv (2 * py P) (cp C) mod cp C) (px P) (py P) (px P))"

definition ec_add :: "curve \<Rightarrow> point \<Rightarrow> point \<Rightarrow> point" where
  "ec_add C P Q =
     (if is_infinity P then Q
      else if is_infinity Q then P
      else if px P = px Q then (if py P = py Q then ec_double C P else infinity)
      else chord_point C ((py Q - py P) * minv (px Q - px P) (cp C) mod cp C) (px P) (py P) (px Q))"

definition ec_mult :: "curve \<Rightarrow> int \<Rightarrow> point \<Rightarrow> point" where
  "ec_mult C k P = iter_op (ec_add C) infinity (nat (k mod cn C)) P"

text \<open>
  What a curve must be for the code to compute on it: an odd prime modulus larger than 3 and a
  constant term that keeps \<open>(0, 0)\<close>, the encoding of infinity, off the curve.
\<close>

definition valid_curve :: "curve \<Rightarrow> bool" where
  "valid_curve C \<longleftrightarrow> is_prime (cp C) \<and> 3 < cp C \<and> cb C mod cp C \<noteq> 0"

text \<open>
  The mathematical facts about the curve that the protocol rests on and that are not proved here:
  its points form a group under the law above, and \<open>n\<close> is a prime that annihilates every point.
\<close>

definition ec_group :: "curve \<Rightarrow> bool" where
  "ec_group C \<longleftrightarrow>
     valid_curve C \<and> is_prime (cn C)
     \<and> valid_point C (generator C) \<and> \<not> is_infinity (generator C)
     \<and> (\<forall>P Q R. valid_point C P \<longrightarrow> valid_point C Q \<longrightarrow> valid_point C R \<longrightarrow>
          ec_add C (ec_add C P Q) R = ec_add C P (ec_add C Q R))
     \<and> (\<forall>P. valid_point C P \<longrightarrow> iter_op (ec_add C) infinity (nat (cn C)) P = infinity)"

end
