(* ===== verification/CurveLaws.thy ===== *)
theory CurveLaws
  imports Curve
begin

text \<open>
  What the code of \<open>Curve\<close> computes: valid points stay valid under the group law, the law is
  commutative, and on valid points the operations of \<^verbatim>\<open>ec.py\<close> return exactly its values, so
  the consistency check of the \<^verbatim>\<open>Point\<close> constructor never fails on a computed point. Under
  \<open>ec_group\<close>, double-and-add is the multiple of a point.
\<close>

lemma point_eq_iff [simp]: "point_eq P Q \<longleftrightarrow> P = Q"
  by (cases P; cases Q) (auto simp: point_eq_def is_infinity_def)

lemma is_infinity_infinity [simp]: "is_infinity infinity"
  by (simp add: is_infinity_def infinity_def)

lemma is_infinity_iff: "is_infinity P \<longleftrightarrow> P = infinity"
  by (cases P) (simp add: is_infinity_def infinity_def)

lemma valid_infinity [simp]: "valid_point C infinity"
  by (simp add: valid_point_def)

section \<open>Closure\<close>

lemma on_curve_dvd: "on_curve_eq C x y \<longleftrightarrow> cp C dvd x ^ 3 + cb C - y ^ 2"
  by (auto simp: on_curve_eq_def mod_eq_dvd_iff dvd_diff_commute)

lemma on_curve_mod [simp]: "on_curve_eq C (x mod cp C) (y mod cp C) = on_curve_eq C x y"
proof -
  have "(y mod cp C) ^ 2 mod cp C = y ^ 2 mod cp C" by (simp add: power_mod)
  moreover have "((x mod cp C) ^ 3 + cb C) mod cp C = (x ^ 3 + cb C) mod cp C"
    by (intro mod_congs) simp_all
  ultimately show ?thesis by (simp only: on_curve_eq_def)
qed

text \<open>The cubic through two points of the curve factors; its third root is the sum.\<close>

lemma third_root:
  fixes l x1 x2 y1 b :: int
  defines "x3 \<equiv> l ^ 2 - x1 - x2"
  assumes "p dvd x1 ^ 3 + b - y1 ^ 2"
    and "p dvd x2 ^ 2 + x2 * x1 + x1 ^ 2 - l ^ 2 * (x2 - x1) - 2 * l * y1"
  shows "p dvd x3 ^ 3 + b - (l * (x1 - x3) - y1) ^ 2"
proof -
  have "x3 ^ 3 + b - (l * (x1 - x3) - y1) ^ 2
      = (x3 - x1) * (x2 ^ 2 + x2 * x1 + x1 ^ 2 - l ^ 2 * (x2 - x1) - 2 * l * y1)
        + (x1 ^ 3 + b - y1 ^ 2)"
    unfolding x3_def by (simp add: power2_eq_square power3_eq_cube algebra_simps)
  then show ?thesis using assms(2,3) by (simp only: dvd_add dvd_mult)
qed

lemma chord_point_valid:
  assumes "valid_curve C" and "on_curve_eq C x1 y1"
    and "cp C dvd x2 ^ 2 + x2 * x1 + x1 ^ 2 - l ^ 2 * (x2 - x1) - 2 * l * y1"
  shows "valid_point C (chord_point C l x1 y1 x2)"
    and "on_curve_eq C (px (chord_point C l x1 y1 x2)) (py (chord_point C l x1 y1 x2))"
proof -
  let ?x3 = "l ^ 2 - x1 - x2"
  have p: "0 < cp C" using assms(1) by (simp add: valid_curve_def)
  have y: "(l * (x1 - ?x3 mod cp C) - y1) mod cp C = (l * (x1 - ?x3) - y1) mod cp C"
    by (intro mod_congs) simp_all
  have "on_curve_eq C ?x3 (l * (x1 - ?x3) - y1)"
    using assms(2,3) third_root [of "cp C" x1 "cb C" y1 x2 l] by (simp add: on_curve_dvd)
  then show "on_curve_eq C (px (chord_point C l x1 y1 x2)) (py (chord_point C l x1 y1 x2))"
    by (simp add: chord_point_def Let_def y)
  with p show "valid_point C (chord_point C l x1 y1 x2)"
    by (simp add: valid_point_def chord_point_def Let_def)
qed

lemma not_on_curve_zero: "valid_curve C \<Longrightarrow> \<not> on_curve_eq C 0 0"
  by (simp add: on_curve_eq_def valid_curve_def eq_commute [of 0])

lemma small_diff_coprime:
  assumes "is_prime p" and "0 \<le> x" "x < p" "0 \<le> y" "y < p" and "x \<noteq> y"
  shows "coprime (x - y) p"
proof (rule is_prime_coprime [OF assms(1)])
  show "\<not> p dvd x - y"
    using assms zdvd_imp_le [of p "x - y"] zdvd_imp_le [of p "y - x"]
    by (cases "x < y") (auto simp: dvd_diff_commute)
qed

lemma two_y_coprime:
  assumes "valid_curve C" and "0 \<le> y" "y < cp C" and "y \<noteq> 0"
  shows "coprime (2 * y) (cp C)"
proof (rule is_prime_coprime)
  show pr: "is_prime (cp C)" using assms(1) by (simp add: valid_curve_def)
  show "\<not> cp C dvd 2 * y"
    using assms is_prime_dvd_mult [OF pr, of 2 y] zdvd_imp_le [of "cp C" 2]
      zdvd_imp_le [of "cp C" y] by (auto simp: valid_curve_def)
qed

text \<open>The defining property of the two slopes.\<close>

lemma slope_mult:
  fixes d p n :: int
  assumes "coprime d p" and "0 < p"
  shows "p dvd n * minv d p mod p * d - n"
proof -
  have "(n * minv d p mod p * d) mod p = (n * (d * minv d p mod p)) mod p"
    by (simp add: mod_mult_left_eq mod_mult_right_eq ac_simps)
  also have "\<dots> = n mod p" using minv_right [OF assms] by (simp add: mod_mult_right_eq)
  finally show ?thesis by (simp add: mod_eq_dvd_iff)
qed

lemma chord_condition:
  fixes x1 x2 y1 y2 l p b :: int
  assumes "coprime (x2 - x1) p" and "p dvd l * (x2 - x1) - (y2 - y1)"
    and "p dvd x1 ^ 3 + b - y1 ^ 2" and "p dvd x2 ^ 3 + b - y2 ^ 2"
  shows "p dvd x2 ^ 2 + x2 * x1 + x1 ^ 2 - l ^ 2 * (x2 - x1) - 2 * l * y1"
proof -
  have "(x2 - x1) * (x2 ^ 2 + x2 * x1 + x1 ^ 2 - l ^ 2 * (x2 - x1) - 2 * l * y1)
      = (x2 ^ 3 + b - y2 ^ 2) - (x1 ^ 3 + b - y1 ^ 2)
        - (l * (x2 - x1) - (y2 - y1)) * (l * (x2 - x1) + y1 + y2)"
    by (simp add: power2_eq_square power3_eq_cube algebra_simps)
  also have "p dvd \<dots>" by (rule dvd_diff [OF dvd_diff [OF assms(4,3)] dvd_mult2 [OF assms(2)]])
  finally show ?thesis
    using assms(1) by (metis coprime_commute coprime_dvd_mult_right_iff)
qed

lemma tangent_condition:
  fixes x1 y1 l p :: int
  assumes "p dvd l * (2 * y1) - 3 * x1 ^ 2"
  shows "p dvd x1 ^ 2 + x1 * x1 + x1 ^ 2 - l ^ 2 * (x1 - x1) - 2 * l * y1"
proof -
  have "x1 ^ 2 + x1 * x1 + x1 ^ 2 - l ^ 2 * (x1 - x1) - 2 * l * y1 = - (l * (2 * y1) - 3 * x1 ^ 2)"
    by (simp add: power2_eq_square algebra_simps)
  with assms show ?thesis by (metis dvd_minus_iff)
qed

lemma double_chord:
  assumes "valid_curve C" and "valid_point C P" and "\<not> is_infinity P" and "py P \<noteq> 0"
  shows "cp C dvd px P ^ 2 + px P * px P + px P ^ 2
      - (3 * px P ^ 2 * minv (2 * py P) (cp C) mod cp C) ^ 2 * (px P - px P)
      - 2 * (3 * px P ^ 2 * minv (2 * py P) (cp C) mod cp C) * py P"
  using assms
  by (intro tangent_condition slope_mult two_y_coprime) (auto simp: valid_point_def valid_curve_def)

lemma add_chord:
  assumes "valid_curve C" and "valid_point C P" and "valid_point C Q"
    and "\<not> is_infinity P" and "\<not> is_infinity Q" and "px P \<noteq> px Q"
  shows "cp C dvd px Q ^ 2 + px Q * px P + px P ^ 2
      - ((py Q - py P) * minv (px Q - px P) (cp C) mod cp C) ^ 2 * (px Q - px P)
      - 2 * ((py Q - py P) * minv (px Q - px P) (cp C) mod cp C) * py P"
proof -
  have co: "coprime (px Q - px P) (cp C)"
    using assms by (intro small_diff_coprime) (auto simp: valid_point_def valid_curve_def)
  show ?thesis
    using assms by (intro chord_condition [OF co slope_mult [OF co]])
      (auto simp: valid_point_def valid_curve_def on_curve_dvd)
qed

lemma ec_double_valid:
  assumes "valid_curve C" and "valid_point C P"
  shows "valid_point C (ec_double C P)"
  using assms double_chord [OF assms]
  by (auto simp: ec_double_def valid_point_def [of C P] intro: chord_point_valid(1))

lemma ec_add_valid:
  assumes "valid_curve C" and "valid_point C P" and "valid_point C Q"
  shows "valid_point C (ec_add C P Q)"
  using assms add_chord [OF assms] ec_double_valid
  by (auto simp: ec_add_def valid_point_def [of C P] intro: chord_point_valid(1))

section \<open>Commutativity\<close>

lemma slope_unique:
  fixes d p l l' n :: int
  assumes "coprime d p" and "p dvd l * d - n" and "p dvd l' * d - n"
    and "0 \<le> l" "l < p" "0 \<le> l'" "l' < p"
  shows "l = l'"
proof -
  have "d * l mod p = d * l' mod p"
    using dvd_diff [OF assms(2,3)] by (simp add: mod_eq_dvd_iff algebra_simps)
  with assms(1) have "l mod p = l' mod p" by (rule mult_cancel_mod)
  with assms show ?thesis by simp
qed

lemma chord_comm:
  fixes x1 x2 y1 y2 l p :: int
  assumes "p = cp C" and "p dvd l * (x2 - x1) - (y2 - y1)"
  shows "chord_point C l x1 y1 x2 = chord_point C l x2 y2 x1"
proof -
  have "(l * (x1 - x3) - y1) mod p = (l * (x2 - x3) - y2) mod p" for x3
  proof -
    have "(l * (x2 - x3) - y2) - (l * (x1 - x3) - y1) = l * (x2 - x1) - (y2 - y1)"
      by (simp add: algebra_simps)
    with assms(2) show ?thesis by (metis mod_eq_dvd_iff)
  qed
  moreover have "l ^ 2 - x1 - x2 = l ^ 2 - x2 - x1" by simp
  ultimately show ?thesis by (simp only: chord_point_def assms(1) Let_def)
qed

lemma ec_add_comm:
  assumes "valid_curve C" and "valid_point C P" and "valid_point C Q"
  shows "ec_add C P Q = ec_add C Q P"
proof (cases "is_infinity P \<or> is_infinity Q \<or> px P = px Q")
  case True
  then show ?thesis
    by (cases P; cases Q) (auto simp: ec_add_def is_infinity_def)
next
  case False
  let ?p = "cp C" and ?d = "px Q - px P"
  let ?l = "(py Q - py P) * minv ?d ?p mod ?p"
  let ?l' = "(py P - py Q) * minv (px P - px Q) ?p mod ?p"
  have p: "0 < ?p" using assms(1) by (simp add: valid_curve_def)
  have co: "coprime ?d ?p" "coprime (px P - px Q) ?p"
    using False assms
    by (auto intro!: small_diff_coprime simp: valid_point_def valid_curve_def)
  have s: "?p dvd ?l * ?d - (py Q - py P)" by (rule slope_mult [OF co(1) p])
  have s': "?p dvd ?l' * (px P - px Q) - (py P - py Q)" by (rule slope_mult [OF co(2) p])
  have "?l' * ?d - (py Q - py P) = - (?l' * (px P - px Q) - (py P - py Q))"
    by (simp add: algebra_simps)
  with s' have "?p dvd ?l' * ?d - (py Q - py P)" by (metis dvd_minus_iff)
  then have "?l' = ?l" using p by (intro slope_unique [OF co(1) _ s]) simp_all
  then show ?thesis
    using False chord_comm [OF refl s] by (simp add: ec_add_def)
qed

lemma ec_double_eq: "ec_double C P = ec_add C P P"
  by (auto simp: ec_add_def ec_double_def is_infinity_iff)

lemma ec_group_carrier:
  assumes "ec_group C"
  shows "comm_carrier (valid_point C) (ec_add C) infinity"
proof -
  have vc: "valid_curve C" using assms by (simp add: ec_group_def)
  show ?thesis
  proof (unfold_locales, goal_cases)
    case (1 x y)
    then show ?case by (rule ec_add_valid [OF vc])
  next
    case (3 x y z)
    with assms show ?case by (simp add: ec_group_def)
  next
    case (4 x y)
    then show ?case by (rule ec_add_comm [OF vc])
  qed (simp_all add: ec_add_def)
qed

section \<open>The code computes the group law\<close>

context lib_ok
begin

lemma is_on_curve_eq:
  assumes "0 < cp C"
  shows "is_on_curve L C x y = Inr (on_curve_eq C x y)"
  using assms
  by (simp add: is_on_curve_def on_curve_eq_def powmod_nonneg mod_add_left_eq)

lemma mk_point_valid:
  assumes "0 < cp C" and "on_curve_eq C x y"
  shows "mk_point L C x y = Inr (Point x y)"
  using assms by (simp add: mk_point_def is_on_curve_eq)

lemma mk_point_of_valid: "0 < cp C \<Longrightarrow> valid_point C P \<Longrightarrow> mk_point L C (px P) (py P) = Inr P"
  by (cases P) (auto simp: valid_point_def mk_point_def is_on_curve_eq is_infinity_def)

lemma mk_point_chord:
  assumes "valid_curve C" and "on_curve_eq C x1 y1"
    and "cp C dvd x2 ^ 2 + x2 * x1 + x1 ^ 2 - l ^ 2 * (x2 - x1) - 2 * l * y1"
    and "x3 = (l ^ 2 - x1 - x2) mod cp C"
  shows "mk_point L C x3 ((l * (x1 - x3) - y1) mod cp C) = Inr (chord_point C l x1 y1 x2)"
  using assms chord_point_valid(2) [OF assms(1-3)]
  by (simp add: mk_point_valid chord_point_def Let_def valid_curve_def)

lemma point_double_eq:
  assumes "valid_curve C" and "valid_point C P"
  shows "point_double L C P = Inr (ec_double C P)"
proof (cases "is_infinity P \<or> py P = 0")
  case True
  then show ?thesis by (simp add: point_double_def ec_double_def)
next
  case False
  let ?p = "cp C"
  let ?l = "3 * px P ^ 2 * minv (2 * py P) ?p mod ?p"
  have p: "1 < ?p" "0 < ?p" using assms(1) by (simp_all add: valid_curve_def)
  have on: "on_curve_eq C (px P) (py P)" using assms(2) False by (simp add: valid_point_def)
  have co: "coprime (2 * py P) ?p"
    using assms False by (intro two_y_coprime) (auto simp: valid_point_def)
  have l: "3 * (px P ^ 2 mod ?p) * minv (2 * py P) ?p mod ?p = ?l"
    by (intro mod_congs) simp_all
  have x3: "(?l ^ 2 mod ?p - 2 * px P) mod ?p = (?l ^ 2 - px P - px P) mod ?p"
    by (simp add: mod_diff_left_eq)
  show ?thesis
    using False p mk_point_chord [OF assms(1) on double_chord [OF assms] refl]
    by (simp add: point_double_def ec_double_def powmod_nonneg invert_minv [OF co] Let_def l x3)
qed

lemma point_add_eq:
  assumes "valid_curve C" and "valid_point C P" and "valid_point C Q"
  shows "point_add L C P Q = Inr (ec_add C P Q)"
proof (cases "is_infinity P \<or> is_infinity Q \<or> px P = px Q")
  case True
  then show ?thesis using point_double_eq [OF assms(1,2)] by (auto simp: point_add_def ec_add_def)
next
  case False
  let ?p = "cp C"
  let ?l = "(py Q - py P) * minv (px Q - px P) ?p mod ?p"
  have p: "1 < ?p" "0 < ?p" using assms(1) by (simp_all add: valid_curve_def)
  have on: "on_curve_eq C (px P) (py P)" using assms(2) False by (simp add: valid_point_def)
  have co: "coprime (px Q - px P) ?p"
    using assms False by (intro small_diff_coprime) (auto simp: valid_point_def valid_curve_def)
  have x3: "(?l ^ 2 mod ?p - px P - px Q) mod ?p = (?l ^ 2 - px P - px Q) mod ?p"
    by (intro mod_congs) simp_all
  show ?thesis
    using False p mk_point_chord [OF assms(1) on add_chord [OF assms] refl]
    by (simp add: point_add_def ec_add_def powmod_nonneg invert_minv [OF co] Let_def x3)
qed

text \<open>Without the group axioms: double-and-add never raises and stays on the curve.\<close>

lemma scalar_loop_valid:
  "valid_curve C \<Longrightarrow> valid_point C r \<Longrightarrow> valid_point C a \<Longrightarrow>
     \<exists>Q. scalar_loop L C k r a = Inr Q \<and> valid_point C Q"
proof (induction "nat k" arbitrary: k r a rule: less_induct)
  case less
  show ?case
  proof (cases "0 < k")
    case True
    then have IH: "\<exists>Q. scalar_loop L C (k div 2) r' a' = Inr Q \<and> valid_point C Q"
      if "valid_point C r'" and "valid_point C a'" for r' a'
      using less that by simp
    show ?thesis
      using True less.prems IH ec_add_valid ec_double_valid
      by (cases "odd k") (simp_all add: scalar_loop.simps [of L C k r a] point_add_eq point_double_eq)
  next
    case False
    with less.prems show ?thesis by (simp add: scalar_loop.simps [of L C k r a])
  qed
qed

lemma scalar_mult_valid:
  "valid_curve C \<Longrightarrow> valid_point C P \<Longrightarrow> \<exists>Q. scalar_mult L C k P = Inr Q \<and> valid_point C Q"
  using scalar_loop_valid [of C infinity P "k mod cn C"] by (simp add: scalar_mult_def Let_def)

text \<open>With the group axioms: double-and-add computes the multiple.\<close>

lemma scalar_loop_eq:
  assumes "ec_group C"
  shows "valid_point C r \<Longrightarrow> valid_point C a \<Longrightarrow>
     scalar_loop L C k r a = Inr (ec_add C r (iter_op (ec_add C) infinity (nat k) a))"
proof (induction "nat k" arbitrary: k r a rule: less_induct)
  case less
  have g: "comm_carrier (valid_point C) (ec_add C) infinity" using assms by (rule ec_group_carrier)
  have vc: "valid_curve C" using assms by (simp add: ec_group_def)
  show ?case
  proof (cases "0 < k")
    case True
    define r' where "r' = (if odd k then ec_add C r a else r)"
    have r': "valid_point C r'" using less.prems vc by (simp add: r'_def ec_add_valid)
    have odd: "odd (nat k) = odd k" using True by (simp add: even_nat_iff)
    have half: "nat (k div 2) = nat k div 2" using True by (simp add: nat_div_distrib)
    have "scalar_loop L C k r a = scalar_loop L C (k div 2) r' (ec_add C a a)"
      using True less.prems vc
      by (simp add: scalar_loop.simps [of L C k r a] point_add_eq point_double_eq ec_double_eq r'_def)
    also have "\<dots> = Inr (ec_add C r' (iter_op (ec_add C) infinity (nat (k div 2)) (ec_add C a a)))"
      using True less.prems vc r' by (intro less.hyps) (simp_all add: ec_add_valid)
    also have "\<dots> = Inr (ec_add C r (iter_op (ec_add C) infinity (nat k) a))"
      using comm_carrier.double_and_add_step [OF g less.prems(2,1), of "nat k"]
      by (simp add: r'_def odd half)
    finally show ?thesis .
  next
    case False
    with less.prems show ?thesis
      by (simp add: scalar_loop.simps [of L C k r a] comm_carrier.right_unit [OF g])
  qed
qed

lemma scalar_mult_eq:
  assumes "ec_group C" and "valid_point C P"
  shows "scalar_mult L C k P = Inr (ec_mult C k P)"
proof -
  have g: "comm_carrier (valid_point C) (ec_add C) infinity" using assms(1) by (rule ec_group_carrier)
  show ?thesis
    using assms scalar_loop_eq [OF assms(1), of infinity P "k mod cn C"]
    by (auto simp: scalar_mult_def Let_def ec_mult_def is_infinity_iff comm_carrier.iter_unit [OF g]
        comm_carrier.left_unit [OF g] comm_carrier.iter_closed [OF g])
qed

end

section \<open>Multiples\<close>

lemma ec_mult_valid: "ec_group C \<Longrightarrow> valid_point C P \<Longrightarrow> valid_point C (ec_mult C k P)"
  using comm_carrier.iter_closed [OF ec_group_carrier] by (simp add: ec_mult_def)

lemma ec_group_n: "ec_group C \<Longrightarrow> 1 < cn C"
  by (simp add: ec_group_def is_prime_gt1)

lemma ec_iter_mod:
  assumes "ec_group C" and "valid_point C P" and "0 \<le> k"
  shows "iter_op (ec_add C) infinity (nat (k mod cn C)) P = iter_op (ec_add C) infinity (nat k) P"
proof -
  have "nat (k mod cn C) = nat k mod nat (cn C)"
    using assms ec_group_n [OF assms(1)] by (simp add: nat_mod_distrib)
  then show ?thesis
    using assms comm_carrier.iter_mod [OF ec_group_carrier [OF assms(1)] assms(2), of "nat (cn C)"]
    by (simp add: ec_group_def)
qed

lemma ec_mult_mod [simp]: "ec_mult C (k mod cn C) P = ec_mult C k P"
  by (simp add: ec_mult_def)

lemma ec_mult_cong: "j mod cn C = k mod cn C \<Longrightarrow> ec_mult C j P = ec_mult C k P"
  by (simp add: ec_mult_def)

lemma ec_mult_add:
  assumes "ec_group C" and "valid_point C P"
  shows "ec_mult C (j + k) P = ec_add C (ec_mult C j P) (ec_mult C k P)"
proof -
  let ?j = "j mod cn C" and ?k = "k mod cn C"
  have n: "0 < cn C" using ec_group_n [OF assms(1)] by simp
  have "ec_mult C (j + k) P = ec_mult C (?j + ?k) P"
    by (rule ec_mult_cong) (simp add: mod_add_eq)
  also have "\<dots> = iter_op (ec_add C) infinity (nat (?j + ?k)) P"
    using assms n ec_iter_mod [OF assms, of "?j + ?k"] by (simp add: ec_mult_def)
  also have "nat (?j + ?k) = nat ?j + nat ?k" using n by (simp add: nat_add_distrib)
  finally show ?thesis
    using comm_carrier.iter_add [OF ec_group_carrier [OF assms(1)] assms(2)]
    by (simp add: ec_mult_def)
qed

lemma ec_mult_mult:
  assumes "ec_group C" and "valid_point C P"
  shows "ec_mult C j (ec_mult C k P) = ec_mult C (j * k) P"
proof -
  let ?j = "j mod cn C" and ?k = "k mod cn C"
  have n: "0 < cn C" using ec_group_n [OF assms(1)] by simp
  have "ec_mult C (j * k) P = ec_mult C (?j * ?k) P"
    by (rule ec_mult_cong) (simp add: mod_mult_eq)
  also have "\<dots> = iter_op (ec_add C) infinity (nat (?j * ?k)) P"
    using assms n ec_iter_mod [OF assms, of "?j * ?k"] by (simp add: ec_mult_def)
  also have "nat (?j * ?k) = nat ?j * nat ?k" using n by (simp add: nat_mult_distrib)
  finally show ?thesis
    using comm_carrier.iter_mult [OF ec_group_carrier [OF assms(1)] assms(2)]
    by (simp add: ec_mult_def)
qed

lemma ec_mult_distrib:
  assumes "ec_group C" and "valid_point C P" and "valid_point C Q"
  shows "ec_mult C k (ec_add C P Q) = ec_add C (ec_mult C k P) (ec_mult C k Q)"
  using comm_carrier.iter_distrib [OF ec_group_carrier [OF assms(1)] assms(2,3)]
  by (simp add: ec_mult_def)

lemma ec_mult_1:
  assumes "ec_group C" and "valid_point C P"
  shows "ec_mult C 1 P = P"
  using ec_group_n [OF assms(1)] comm_carrier.right_unit [OF ec_group_carrier [OF assms(1)] assms(2)]
  by (simp add: ec_mult_def)

lemma ec_mult_0 [simp]: "ec_mult C 0 P = infinity"
  by (simp add: ec_mult_def)

lemma generator_valid: "ec_group C \<Longrightarrow> valid_point C (generator C)"
  by (simp add: ec_group_def)

end
