(* ===== verification/ToyCurve.thy ===== *)
theory ToyCurve
  imports CurveLaws
begin

text \<open>
  A curve small enough to evaluate, \<open>y\<^sup>2 = x\<^sup>3 + 7\<close> over \<open>F\<^sub>13\<close> with seven points, and the
  proof by evaluation that it satisfies \<open>ec_group\<close>. It is used by the concrete instances of the
  theorems that assume the group axioms.
\<close>

definition toy_curve :: curve where
  "toy_curve = \<lparr> cp = 13, ca = 0, cb = 7, cn = 7, cgx = 7, cgy = 5 \<rparr>"

definition all_points :: "curve \<Rightarrow> point list" where
  "all_points C = infinity # filter (\<lambda>P. on_curve_eq C (px P) (py P))
     (concat (map (\<lambda>x. map (Point x) [0..cp C - 1]) [0..cp C - 1]))"

lemma valid_in_all_points:
  assumes "valid_point C P"
  shows "P \<in> set (all_points C)"
proof (cases "is_infinity P")
  case True
  then show ?thesis by (simp add: all_points_def is_infinity_iff)
next
  case False
  with assms show ?thesis by (cases P) (force simp: all_points_def valid_point_def)
qed

text \<open>The seven points are the multiples of the generator, and addition adds the multipliers.\<close>

definition toy_mult :: "nat \<Rightarrow> point" where
  "toy_mult i = [Point 0 0, Point 7 5, Point 8 5, Point 11 8, Point 11 5, Point 8 8, Point 7 8] ! i"

lemma toy_all_points: "set (all_points toy_curve) = toy_mult ` {0..<7}"
  by code_simp

lemma toy_add_table:
  "list_all (\<lambda>i. list_all (\<lambda>j. ec_add toy_curve (toy_mult i) (toy_mult j) = toy_mult ((i + j) mod 7))
     [0..<7]) [0..<7]"
  by code_simp

lemma toy_add: "i < 7 \<Longrightarrow> j < 7 \<Longrightarrow>
    ec_add toy_curve (toy_mult i) (toy_mult j) = toy_mult ((i + j) mod 7)"
  using toy_add_table by (simp add: list_all_iff)

lemma toy_valid_cases:
  assumes "valid_point toy_curve P"
  obtains i where "i < 7" and "P = toy_mult i"
  using valid_in_all_points [OF assms] by (auto simp: toy_all_points)

lemma toy_zero: "toy_mult 0 = infinity"
  by (simp add: toy_mult_def infinity_def)

lemma toy_iter: "i < 7 \<Longrightarrow> iter_op (ec_add toy_curve) infinity k (toy_mult i) = toy_mult (k * i mod 7)"
proof (induction k)
  case 0
  then show ?case by (simp add: toy_zero)
next
  case (Suc k)
  then show ?case by (simp add: toy_add mod_add_right_eq)
qed

lemma toy_ec_group [simp]: "ec_group toy_curve"
  unfolding ec_group_def
proof (intro conjI allI impI)
  fix P Q R
  assume "valid_point toy_curve P" and "valid_point toy_curve Q" and "valid_point toy_curve R"
  then obtain i j k where ijk: "i < 7" "j < 7" "k < 7"
    and PQR: "P = toy_mult i" "Q = toy_mult j" "R = toy_mult k"
    by (meson toy_valid_cases)
  show "ec_add toy_curve (ec_add toy_curve P Q) R = ec_add toy_curve P (ec_add toy_curve Q R)"
    unfolding PQR using ijk
    by (simp add: toy_add mod_add_left_eq mod_add_right_eq add.assoc)
next
  fix P
  assume "valid_point toy_curve P"
  then obtain i where "i < 7" and "P = toy_mult i" by (rule toy_valid_cases)
  moreover have "nat (cn toy_curve) = 7" by (simp add: toy_curve_def)
  ultimately show "iter_op (ec_add toy_curve) infinity (nat (cn toy_curve)) P = infinity"
    by (simp add: toy_iter toy_zero)
qed code_simp+

lemma toy_valid_table: "list_all (\<lambda>i. valid_point toy_curve (toy_mult i)) [0..<7]"
  by code_simp

lemma toy_valid: "i < 7 \<Longrightarrow> valid_point toy_curve (toy_mult i)"
  using toy_valid_table by (simp add: list_all_iff)

end
