(* ===== verification/Ecdsa.thy ===== *)
theory Ecdsa
  imports CurveLaws ToyCurve
begin

text \<open>
  ECDSA over the code of \<open>Curve\<close>: the verification equation holds for every pair \<open>(r, s)\<close> with
  \<open>s k = z + r d\<close>, whoever computed it. Both the local signing loop and the threshold signature
  of the protocol are instances.
\<close>

lemma ec_mult_infinity: "ec_group C \<Longrightarrow> ec_mult C k infinity = infinity"
  using comm_carrier.iter_unit [OF ec_group_carrier] by (simp add: ec_mult_def)

lemma ec_mult_eq_infinity:
  assumes "ec_group C" and "valid_point C P" and "P \<noteq> infinity"
  shows "ec_mult C k P = infinity \<longleftrightarrow> k mod cn C = 0"
proof
  assume inf: "ec_mult C k P = infinity"
  show "k mod cn C = 0"
  proof (rule ccontr)
    assume "k mod cn C \<noteq> 0"
    then have "coprime k (cn C)"
      using assms(1) by (intro is_prime_coprime) (auto simp: ec_group_def)
    then have inv: "minv k (cn C) * k mod cn C = 1 mod cn C"
      using ec_group_n [OF assms(1)] by (simp add: minv_right mult.commute)
    have "P = ec_mult C (minv k (cn C) * k) P"
      using ec_mult_cong [OF inv] ec_mult_1 [OF assms(1,2)] by simp
    also have "\<dots> = infinity"
      using assms inf by (simp add: ec_mult_mult [symmetric] ec_mult_infinity)
    finally show False using assms(3) by simp
  qed
next
  assume "k mod cn C = 0"
  then have "ec_mult C k P = ec_mult C 0 P" by (intro ec_mult_cong) simp
  then show "ec_mult C k P = infinity" by simp
qed

lemma generator_not_infinity: "ec_group C \<Longrightarrow> generator C \<noteq> infinity"
  by (simp add: ec_group_def is_infinity_iff)

context lib_ok
begin

lemma verify_equation:
  assumes g: "ec_group C" and d: "d mod cn C \<noteq> 0"
    and r: "r = px (ec_mult C k (generator C)) mod cn C" "r \<noteq> 0"
    and s: "0 < s" "s < cn C" "s * k mod cn C = (z + r * d) mod cn C"
  shows "ec_verify L C (ec_mult C d (generator C)) z (r, s) = Inr True"
proof -
  let ?n = "cn C" and ?G = "generator C"
  let ?w = "minv s ?n"
  have n: "1 < ?n" using g by (rule ec_group_n)
  have G: "valid_point C ?G" using g by (rule generator_valid)
  have vc: "valid_curve C" using g by (simp add: ec_group_def)
  have co: "coprime s ?n"
    using g s by (intro is_prime_coprime) (auto simp: ec_group_def dest: zdvd_imp_le)
  have sw: "s * ?w mod ?n = 1 mod ?n" using co n by (simp add: minv_right)
  let ?u1 = "z * ?w mod ?n" and ?u2 = "r * ?w mod ?n"
  have "?u1 + ?u2 * d = z * ?w mod ?n + r * ?w mod ?n * d" by simp
  have "(?u1 + ?u2 * d) mod ?n = (z * ?w + r * ?w * d) mod ?n"
    by (intro mod_congs) simp_all
  also have "z * ?w + r * ?w * d = (z + r * d) * ?w" by (simp add: algebra_simps)
  also have "(z + r * d) * ?w mod ?n = s * k * ?w mod ?n"
    using s(3) by (intro mod_mult_cong) simp_all
  also have "s * k * ?w = s * ?w * k" by simp
  also have "s * ?w * k mod ?n = 1 * k mod ?n"
    using sw by (intro mod_mult_cong) simp_all
  finally have eq: "(?u1 + ?u2 * d) mod ?n = k mod ?n" by simp
  have sum: "ec_add C (ec_mult C ?u1 ?G) (ec_mult C ?u2 (ec_mult C d ?G)) = ec_mult C k ?G"
    using ec_mult_cong [OF eq, of ?G] ec_mult_add [OF g G, of ?u1 "?u2 * d"]
      ec_mult_mult [OF g G, of ?u2 d] by simp
  have pk: "\<not> is_infinity (ec_mult C d ?G)"
    using d ec_mult_eq_infinity [OF g G generator_not_infinity [OF g]] by (simp add: is_infinity_iff)
  have R: "\<not> is_infinity (ec_mult C k ?G)"
    using r by (auto simp: is_infinity_def)
  have rr: "0 < r" "r < ?n"
    using r n mod_nonzero_range [of ?n "px (ec_mult C k ?G)"] by simp_all
  show ?thesis
    using pk R rr s n sum r(1)
    by (simp add: ec_verify_def Let_def invert_minv [OF co n] scalar_mult_eq [OF g]
        G ec_mult_valid [OF g] point_add_eq [OF vc])
qed

lemma ec_sign_equation:
  assumes g: "ec_group C" and "ec_sign L C d z t = Inr ((r, s), t')"
  shows "\<exists>k. r = px (ec_mult C k (generator C)) mod cn C \<and> r \<noteq> 0
    \<and> 0 < s \<and> s < cn C \<and> s * k mod cn C = (z + r * d) mod cn C"
  using assms(2)
proof (induction t)
  case Nil
  then show ?case by (auto simp: random_scalar_def rnd_simps)
next
  case (Cons x t)
  let ?n = "cn C"
  define k where "k = x mod (?n - 1) + 1"
  have n: "1 < ?n" using g by (rule ec_group_n)
  have "0 \<le> x mod (?n - 1)" "x mod (?n - 1) < ?n - 1"
    using Cons.prems n by (auto simp: random_scalar_def rnd_simps res_simps)
  then have k: "0 < k" "k < ?n" by (auto simp: k_def)
  then have co: "coprime k ?n"
    using g by (intro is_prime_coprime) (auto simp: ec_group_def dest: zdvd_imp_le)
  let ?r = "px (ec_mult C k (generator C)) mod ?n"
  let ?s = "minv k ?n * (z + ?r * d) mod ?n"
  have step: "ec_sign L C d z (x # t) =
      (if ?r = 0 \<or> ?s = 0 then ec_sign L C d z t else Inr ((?r, ?s), t))"
    using n k
    by (simp add: random_scalar_def rbind_def rret_def randbelow_def k_def [symmetric] Let_def
        scalar_mult_eq [OF g generator_valid [OF g]] invert_minv [OF co n])
  show ?case
  proof (cases "?r = 0 \<or> ?s = 0")
    case True
    have "ec_sign L C d z t = Inr ((r, s), t')"
      using Cons.prems by (simp only: step if_P [OF True])
    then show ?thesis by (rule Cons.IH)
  next
    case False
    have "?s * k mod ?n = (k * minv k ?n mod ?n) * (z + ?r * d) mod ?n"
      by (simp add: mod_mult_left_eq mod_mult_right_eq ac_simps)
    also have "\<dots> = (z + ?r * d) mod ?n"
      using minv_right [OF co] n by (simp add: mod_mult_left_eq)
    finally have "?s * k mod ?n = (z + ?r * d) mod ?n" .
    moreover have "0 < ?s" "?s < ?n" using False n mod_nonzero_range [of ?n "minv k ?n * (z + ?r * d)"] by auto
    moreover have "((?r, ?s), t) = ((r, s), t')"
      using Cons.prems by (simp only: step if_not_P [OF False] sum.inject)
    ultimately show ?thesis using False by blast
  qed
qed

end

end
