(* ===== verification/ZkCommon.thy ===== *)
theory ZkCommon
  imports ZkHash Paillier Ecdsa
begin

text \<open>
  What the zero-knowledge proofs of \<^verbatim>\<open>crypto/zkp\<close> share: the interface of their byte encodings
  (\<open>wire_codec\<close>), ring-Pedersen commitments and the response equations of the sigma protocols
  for commitments, ciphertexts and curve points.
\<close>

section \<open>Wire format\<close>

text \<open>
  Every proof object is sent as a list of byte strings of fixed length and rebuilt from it.
  \<open>wf\<close> says which objects survive the trip.
\<close>

locale wire_codec =
  fixes to_parts :: "'p \<Rightarrow> bytes list"
    and from_parts :: "bytes list \<Rightarrow> 'p res"
    and wf :: "'p \<Rightarrow> bool"
    and size :: nat
  assumes to_parts_length: "wf p \<Longrightarrow> length (to_parts p) = size"
    and round_trip: "wf p \<Longrightarrow> from_parts (to_parts p) = Inr p"
    and wrong_length: "length parts \<noteq> size \<Longrightarrow> from_parts parts = Inl ValueError"
begin

lemma to_parts_inj: "wf p \<Longrightarrow> wf q \<Longrightarrow> to_parts p = to_parts q \<Longrightarrow> p = q"
  by (metis round_trip sum.inject(2))

lemma decoded_length: "from_parts parts = Inr p \<Longrightarrow> length parts = size"
  by (metis Inl_Inr_False wrong_length)

lemma transport: "wf p \<Longrightarrow> ebind (from_parts (to_parts p)) f = f p"
  by (simp add: round_trip)

end

section \<open>Ring-Pedersen commitments\<close>

definition ped :: "int \<Rightarrow> int \<Rightarrow> int \<Rightarrow> int \<Rightarrow> int \<Rightarrow> int" where
  "ped m s t a b = s ^ nat a * t ^ nat b mod m"

lemma ped_eq: "(s ^ nat a mod m) * (t ^ nat b mod m) mod m = ped m s t a b"
  by (simp add: ped_def mod_mult_eq)

lemma ped_range: "0 < m \<Longrightarrow> 0 \<le> ped m s t a b \<and> ped m s t a b < m"
  by (simp add: ped_def)

lemma ped_unit:
  assumes "coprime s m" and "coprime t m" and "1 < m"
  shows "0 < ped m s t a b \<and> ped m s t a b < m \<and> coprime (ped m s t a b) m"
  using assms by (simp add: ped_def gcd_mod_eq_1 coprime_mod_pos)

text \<open>The response equation: \<open>s\<^sup>e\<^sup>x\<^sup>+\<^sup>a t\<^sup>e\<^sup>y\<^sup>+\<^sup>b = (s\<^sup>a t\<^sup>b)(s\<^sup>x t\<^sup>y)\<^sup>e\<close>.\<close>

lemma ped_response:
  assumes "0 \<le> e" "0 \<le> x" "0 \<le> y" "0 \<le> a" "0 \<le> b"
  shows "ped m s t (e * x + a) (e * y + b) = ped m s t a b * (ped m s t x y ^ nat e mod m) mod m"
proof -
  have "ped m s t a b * (ped m s t x y ^ nat e mod m) mod m
      = (s ^ nat a * t ^ nat b) * (s ^ nat x * t ^ nat y) ^ nat e mod m"
    unfolding ped_def by (simp add: mod_mult_eq power_mod mod_mult_left_eq mod_mult_right_eq)
  also have "(s ^ nat a * t ^ nat b) * (s ^ nat x * t ^ nat y) ^ nat e
      = s ^ nat (e * x + a) * t ^ nat (e * y + b)"
  proof -
    have "nat (e * x + a) = nat x * nat e + nat a" "nat (e * y + b) = nat y * nat e + nat b"
      using assms by (simp_all add: nat_add_distrib nat_mult_distrib)
    then show ?thesis by (simp add: power_add power_mult power_mult_distrib)
  qed
  finally show ?thesis by (simp add: ped_def)
qed

section \<open>Ciphertexts\<close>

lemma enc_eq: "((n + 1) ^ nat m mod (n * n)) * (x ^ nat n mod (n * n)) mod (n * n) = enc n m x"
  by (simp add: enc_def mod_mult_eq)

lemma ped_enc [simp]: "ped (n * n) (n + 1) x m n = enc n m x"
  by (simp add: ped_def enc_def)

lemma enc_response:
  assumes "0 < n" "0 \<le> e" "0 \<le> k" "0 \<le> a"
  shows "enc n (e * k + a) ((rho ^ nat e mod n) * r mod n)
    = enc n a r * (enc n k rho ^ nat e mod (n * n)) mod (n * n)"
proof -
  have "enc n a r * (enc n k rho ^ nat e mod (n * n)) mod (n * n)
      = enc n (a + k * e) (r * rho ^ nat e)"
    using assms enc_power [of k n rho "nat e"] by (simp add: enc_mult)
  also have "\<dots> = enc n (e * k + a) ((rho ^ nat e mod n) * r mod n)"
    using assms enc_power_n_mod [of n "r * rho ^ nat e" "(rho ^ nat e mod n) * r mod n"]
    by (simp add: mod_mult_left_eq mod_mult_right_eq ac_simps)
  finally show ?thesis by simp
qed

lemma response_unit:
  fixes rho r n :: int
  assumes "coprime rho n" and "coprime r n" and "1 < n"
  shows "0 < (rho ^ nat e mod n) * r mod n \<and> (rho ^ nat e mod n) * r mod n < n
    \<and> coprime ((rho ^ nat e mod n) * r mod n) n"
proof -
  have "(rho ^ nat e mod n) * r mod n = rho ^ nat e * r mod n" by (rule mod_mult_left_eq)
  then show ?thesis using assms by (simp add: gcd_mod_eq_1 coprime_mod_pos)
qed

lemma enc_unit:
  assumes "1 < n" and "coprime x n"
  shows "0 < enc n m x \<and> enc n m x < n * n \<and> coprime (enc n m x) (n * n)"
proof -
  have "coprime (enc n m x) (n * n)" using assms by (rule enc_coprime(2))
  moreover have "enc n m x mod (n * n) = enc n m x" by (simp add: enc_def)
  moreover have "1 < n * n" using assms(1) less_1_mult by blast
  ultimately show ?thesis using assms enc_range [of n m x] coprime_mod_pos [of "enc n m x" "n * n"]
    by simp
qed

section \<open>Curve points\<close>

lemma ec_response:
  assumes "ec_group C" and "valid_point C P"
  shows "ec_mult C (e * x + a) P = ec_add C (ec_mult C e (ec_mult C x P)) (ec_mult C a P)"
  using assms by (simp add: ec_mult_add ec_mult_mult)

lemma ec_add_swap:
  "ec_group C \<Longrightarrow> valid_point C P \<Longrightarrow> valid_point C Q \<Longrightarrow> ec_add C P Q = ec_add C Q P"
  by (rule ec_add_comm) (simp_all add: ec_group_def)

section \<open>Products of powers\<close>

text \<open>
  The two shapes in which every proof multiplies modular powers:
  \<^verbatim>\<open>powmod(s, a, m) * powmod(t, b, m) % m\<close> and \<^verbatim>\<open>c * powmod(b, e, m) % m\<close>.
\<close>

definition pow2 :: "lib \<Rightarrow> int \<Rightarrow> int \<Rightarrow> int \<Rightarrow> int \<Rightarrow> int \<Rightarrow> int res" where
  "pow2 L m s a t b = ebind (powmod L s a m) (\<lambda>x. ebind (powmod L t b m) (\<lambda>y. Inr (x * y mod m)))"

definition mulpow :: "lib \<Rightarrow> int \<Rightarrow> int \<Rightarrow> int \<Rightarrow> int \<Rightarrow> int res" where
  "mulpow L m c b e = ebind (powmod L b e m) (\<lambda>x. Inr (c * x mod m))"

lemma if_Inr_False: "(if c then Inr False else Inr b) = Inr (\<not> c \<and> b)"
  by simp

lemma not_not_Inr: "(if \<not> c then Inr False else Inr b) = Inr (c \<and> b)"
  by simp

section \<open>Challenges\<close>

text \<open>Every proof derives its challenge by reducing the hash of its transcript modulo \<open>q\<close>.\<close>

definition challenge :: "lib \<Rightarrow> int \<Rightarrow> int list \<Rightarrow> int res" where
  "challenge L q transcript = ebind (sha512_256i L transcript) (\<lambda>h. rejection_sample q h)"

lemma challenge_returns:
  assumes "0 < q" and "transcript \<noteq> []"
  obtains e where "challenge L q transcript = Inr e" and "0 \<le> e" and "e < q"
proof -
  obtain h where "sha512_256i L transcript = Inr h"
    using sha512_256i_Inr [OF assms(2)] by blast
  with assms(1) have "challenge L q transcript = Inr (h mod q)"
    by (simp add: challenge_def rejection_sample_def)
  then show thesis by (rule that) (use assms(1) in simp_all)
qed

lemma challenge_range: "challenge L q tr = Inr e \<Longrightarrow> 0 \<le> e \<and> e < q"
  by (auto simp: challenge_def res_simps)

definition unit_mod :: "int \<Rightarrow> int \<Rightarrow> bool" where
  "unit_mod m v \<longleftrightarrow> 0 < v \<and> v < m \<and> coprime v m"

context lib_ok
begin

lemma check_units:
  "0 < m \<Longrightarrow> check_invertible_and_valid_mod L m vs \<longleftrightarrow> (\<forall>v\<in>set vs. unit_mod m v)"
  by (simp add: check_valid_iff unit_mod_def)

lemma pow2_ped: "0 \<le> a \<Longrightarrow> 0 \<le> b \<Longrightarrow> 0 < m \<Longrightarrow> pow2 L m s a t b = Inr (ped m s t a b)"
  by (simp add: pow2_def powmod_nonneg ped_eq)

lemma mulpow_eq: "0 \<le> e \<Longrightarrow> 0 < m \<Longrightarrow> mulpow L m c b e = Inr (c * (b ^ nat e mod m) mod m)"
  by (simp add: mulpow_def powmod_nonneg)

lemmas zk_eval = check_units n_square_def gamma_def pow2_ped mulpow_eq ebind_Inr ebind_Inl
  order_less_imp_le if_Inr_False mult_pos_pos

end

end
