(* ===== verification/ZkSch.thy ===== *)
theory ZkSch
  imports ZkCommon
begin

text \<open>
  \<^verbatim>\<open>crypto/zkp/sch.py\<close>: the Schnorr proof of knowledge of a discrete logarithm. Completeness,
  the meaning of \<^verbatim>\<open>verify\<close> as the verification equation, extraction of the witness from two
  accepting transcripts, and the wire format.
\<close>

section \<open>The code\<close>

record proof_sch =
  sch_A :: point
  sch_Z :: int

definition ProofSchBytesParts :: nat where
  "ProofSchBytesParts = 3"

definition sch_transcript :: "int \<Rightarrow> curve \<Rightarrow> point \<Rightarrow> point \<Rightarrow> int list" where
  "sch_transcript ssid ec X A =
     (let g = generator ec in
      [ssid, cb ec, cn ec, cp ec, px X, py X, px g, py g, px A, py A])"

definition sch_new_alpha :: "lib \<Rightarrow> curve \<Rightarrow> (int \<times> point) rnd" where
  "sch_new_alpha L ec =
     rbind (random_scalar ec) (\<lambda>alpha.
     rbind (rlift (base_mult L ec alpha)) (\<lambda>A. rret (alpha, A)))"

definition sch_new_proof_with_alpha ::
    "lib \<Rightarrow> int \<Rightarrow> curve \<Rightarrow> point \<Rightarrow> point \<Rightarrow> int \<Rightarrow> int \<Rightarrow> proof_sch res" where
  "sch_new_proof_with_alpha L ssid ec X A alpha x =
     ebind (challenge L (cn ec) (sch_transcript ssid ec X A)) (\<lambda>e.
     Inr \<lparr> sch_A = A, sch_Z = (alpha + e * x) mod cn ec \<rparr>)"

definition sch_new_proof :: "lib \<Rightarrow> int \<Rightarrow> curve \<Rightarrow> point \<Rightarrow> int \<Rightarrow> proof_sch rnd" where
  "sch_new_proof L ssid ec X x =
     rbind (sch_new_alpha L ec) (\<lambda>(alpha, A).
     rlift (sch_new_proof_with_alpha L ssid ec X A alpha x))"

definition sch_from_bytes :: "lib \<Rightarrow> curve \<Rightarrow> bytes list \<Rightarrow> proof_sch res" where
  "sch_from_bytes L ec parts =
     (if parts = [] \<or> length parts \<noteq> ProofSchBytesParts then Inl ValueError
      else
        let x = int_from_bytes (parts ! 0) mod cp ec;
            y = int_from_bytes (parts ! 1) mod cp ec;
            z = int_from_bytes (parts ! 2) mod cn ec
        in ebind (mk_point L ec x y) (\<lambda>A. Inr \<lparr> sch_A = A, sch_Z = z \<rparr>))"

definition sch_to_bytes_parts :: "proof_sch \<Rightarrow> bytes list" where
  "sch_to_bytes_parts pf =
     [int_to_bytes (px (sch_A pf)), int_to_bytes (py (sch_A pf)), int_to_bytes (sch_Z pf)]"

definition sch_verify :: "lib \<Rightarrow> proof_sch \<Rightarrow> int \<Rightarrow> curve \<Rightarrow> point \<Rightarrow> bool res" where
  "sch_verify L pf ssid ec X =
     ebind (challenge L (cn ec) (sch_transcript ssid ec X (sch_A pf))) (\<lambda>e.
     ebind (base_mult L ec (sch_Z pf)) (\<lambda>left.
     ebind (scalar_mult L ec e X) (\<lambda>eX.
     ebind (point_add L ec (sch_A pf) eX) (\<lambda>right.
     Inr (point_eq left right)))))"

section \<open>Properties\<close>

definition sch_accepts :: "curve \<Rightarrow> point \<Rightarrow> point \<Rightarrow> int \<Rightarrow> int \<Rightarrow> bool" where
  "sch_accepts C X A e z \<longleftrightarrow> ec_mult C z (generator C) = ec_add C A (ec_mult C e X)"

lemma sch_transcript_ne [simp]: "sch_transcript ssid ec X A \<noteq> []"
  by (simp add: sch_transcript_def Let_def)

context lib_ok
begin

lemma random_scalar_range: "random_scalar C t = Inr (k, t') \<Longrightarrow> 0 < k \<and> k < cn C"
proof -
  assume "random_scalar C t = Inr (k, t')"
  then obtain x where "0 < cn C - 1" and k: "k = x mod (cn C - 1) + 1"
    by (auto simp: random_scalar_def rnd_simps)
  then have "0 \<le> x mod (cn C - 1)" "x mod (cn C - 1) < cn C - 1" by simp_all
  with k show ?thesis by linarith
qed

lemma random_scalar_Cons:
  "1 < cn C \<Longrightarrow> random_scalar C (x # t) = Inr (x mod (cn C - 1) + 1, t)"
  by (simp add: random_scalar_def rbind_app randbelow_def rret_def)

lemma base_mult_eq: "ec_group C \<Longrightarrow> base_mult L C k = Inr (ec_mult C k (generator C))"
  by (simp add: base_mult_def scalar_mult_eq generator_valid)

lemma group_point_add_eq:
  "ec_group C \<Longrightarrow> valid_point C P \<Longrightarrow> valid_point C Q \<Longrightarrow> point_add L C P Q = Inr (ec_add C P Q)"
  by (rule point_add_eq) (simp_all add: ec_group_def)

lemmas ec_eqs = base_mult_eq scalar_mult_eq group_point_add_eq ec_mult_valid generator_valid

lemma sch_verify_meaning:
  assumes "ec_group C" and "valid_point C X" and "valid_point C (sch_A pf)"
    and "challenge L (cn C) (sch_transcript ssid C X (sch_A pf)) = Inr e"
  shows "sch_verify L pf ssid C X = Inr (sch_accepts C X (sch_A pf) e (sch_Z pf))"
  using assms by (simp add: sch_verify_def sch_accepts_def ec_eqs)

lemma sch_with_alpha_complete:
  assumes "ec_group C"
    and "sch_new_proof_with_alpha L ssid C (ec_mult C x (generator C))
           (ec_mult C alpha (generator C)) alpha x = Inr pf"
  shows "sch_verify L pf ssid C (ec_mult C x (generator C)) = Inr True"
    and "sch_A pf = ec_mult C alpha (generator C)" and "0 \<le> sch_Z pf \<and> sch_Z pf < cn C"
proof -
  let ?G = "generator C"
  have G: "valid_point C ?G" using assms(1) by (rule generator_valid)
  from assms(2) obtain e where
    e: "challenge L (cn C) (sch_transcript ssid C (ec_mult C x ?G) (ec_mult C alpha ?G)) = Inr e"
    and pf: "pf = \<lparr> sch_A = ec_mult C alpha ?G, sch_Z = (alpha + e * x) mod cn C \<rparr>"
    by (auto simp: sch_new_proof_with_alpha_def res_simps)
  have "sch_accepts C (ec_mult C x ?G) (ec_mult C alpha ?G) e ((alpha + e * x) mod cn C)"
    using assms(1) G by (simp add: sch_accepts_def ec_mult_add ec_mult_mult)
  then show "sch_verify L pf ssid C (ec_mult C x ?G) = Inr True"
    using sch_verify_meaning [of C "ec_mult C x ?G" pf ssid e] assms(1) G e
    by (simp add: pf ec_mult_valid)
  show "sch_A pf = ec_mult C alpha ?G" and "0 \<le> sch_Z pf \<and> sch_Z pf < cn C"
    using ec_group_n [OF assms(1)] by (simp_all add: pf)
qed

lemma sch_complete:
  assumes "ec_group C" and "sch_new_proof L ssid C (ec_mult C x (generator C)) x t = Inr (pf, t')"
  shows "sch_verify L pf ssid C (ec_mult C x (generator C)) = Inr True"
  using assms
  by (auto simp: sch_new_proof_def sch_new_alpha_def rnd_simps base_mult_eq
      intro!: sch_with_alpha_complete(1))

end

text \<open>Extraction: two accepting transcripts with one commitment determine the witness.\<close>

lemma ec_add_right_cancel:
  assumes g: "ec_group C" and "valid_point C P" "valid_point C Q" "valid_point C R"
    and eq: "ec_add C P Q = ec_add C P R"
  shows "Q = R"
proof -
  let ?N = "ec_mult C (- 1) P"
  have N: "valid_point C ?N" using assms by (simp add: ec_mult_valid)
  have "ec_add C ?N P = infinity"
    using ec_mult_add [OF g assms(2), of "- 1" 1] ec_mult_1 [OF g assms(2)] by simp
  moreover have "ec_add C ?N (ec_add C P X) = ec_add C (ec_add C ?N P) X" if "valid_point C X" for X
    using g N assms(2) that by (simp add: ec_group_def)
  ultimately have "ec_add C infinity Q = ec_add C infinity R" using eq assms(3,4) by metis
  then show ?thesis by (simp add: ec_add_def)
qed

lemma sch_extract:
  assumes g: "ec_group C" and X: "valid_point C X" and A: "valid_point C A"
    and acc: "sch_accepts C X A e z" "sch_accepts C X A e' z'"
    and ne: "e mod cn C \<noteq> e' mod cn C"
  shows "X = ec_mult C ((z - z') * minv (e - e') (cn C)) (generator C)"
proof -
  let ?G = "generator C" and ?n = "cn C"
  let ?i = "minv (e - e') ?n"
  have n: "1 < ?n" using g by (rule ec_group_n)
  have G: "valid_point C ?G" using g by (rule generator_valid)
  note m = ec_mult_valid [OF g]
  have assoc: "ec_add C (ec_add C P Q) R = ec_add C P (ec_add C Q R)"
    if "valid_point C P" "valid_point C Q" "valid_point C R" for P Q R
    using g that by (simp add: ec_group_def)
  have "ec_add C A (ec_mult C e X) = ec_mult C z ?G" using acc(1) by (simp add: sch_accepts_def)
  also have "\<dots> = ec_add C (ec_mult C z' ?G) (ec_mult C (z - z') ?G)"
    using ec_mult_add [OF g G, of z' "z - z'"] by simp
  also have "\<dots> = ec_add C A (ec_add C (ec_mult C e' X) (ec_mult C (z - z') ?G))"
    using acc(2) A X G by (simp add: sch_accepts_def assoc m)
  finally have cancel: "ec_add C A (ec_mult C e X)
      = ec_add C A (ec_add C (ec_mult C e' X) (ec_mult C (z - z') ?G))" .
  have "valid_curve C" using g by (simp add: ec_group_def)
  then have "valid_point C (ec_add C (ec_mult C e' X) (ec_mult C (z - z') ?G))"
    using X G m by (intro ec_add_valid)
  with cancel have "ec_mult C e X = ec_add C (ec_mult C e' X) (ec_mult C (z - z') ?G)"
    using ec_add_right_cancel [OF g A m [OF X]] by blast
  moreover have "ec_mult C e X = ec_add C (ec_mult C e' X) (ec_mult C (e - e') X)"
    using ec_mult_add [OF g X, of e' "e - e'"] by simp
  ultimately have "ec_mult C (e - e') X = ec_mult C (z - z') ?G"
    using ec_add_right_cancel [OF g m [OF X] m [OF X] m [OF G]] by metis
  then have "ec_mult C (?i * (e - e')) X = ec_mult C (?i * (z - z')) ?G"
    using X G g by (simp add: ec_mult_mult [symmetric])
  moreover have "coprime (e - e') ?n"
    using g ne by (intro is_prime_coprime) (auto simp: ec_group_def mod_eq_dvd_iff)
  then have "?i * (e - e') mod ?n = 1 mod ?n" using n minv_right by (simp add: mult.commute)
  then have "ec_mult C (?i * (e - e')) X = X"
    using ec_mult_cong [of "?i * (e - e')" C 1 X] ec_mult_1 [OF g X] by simp
  ultimately show ?thesis by (simp add: mult.commute)
qed

section \<open>Wire format\<close>

definition point_on :: "lib \<Rightarrow> curve \<Rightarrow> point \<Rightarrow> bool" where
  "point_on L ec P \<longleftrightarrow> 0 \<le> px P \<and> 0 \<le> py P \<and> mk_point L ec (px P) (py P) = Inr P"

definition sch_wf :: "lib \<Rightarrow> curve \<Rightarrow> proof_sch \<Rightarrow> bool" where
  "sch_wf L ec pf \<longleftrightarrow>
     point_on L ec (sch_A pf) \<and> px (sch_A pf) < cp ec \<and> py (sch_A pf) < cp ec
     \<and> 0 \<le> sch_Z pf \<and> sch_Z pf < cn ec"

interpretation sch_wire: wire_codec sch_to_bytes_parts "sch_from_bytes L ec" "sch_wf L ec"
  ProofSchBytesParts for L ec
  by unfold_locales
    (auto simp: sch_to_bytes_parts_def sch_from_bytes_def ProofSchBytesParts_def sch_wf_def
      point_on_def Let_def)

context lib_ok
begin

lemma valid_point_on: "0 < cp C \<Longrightarrow> valid_point C P \<Longrightarrow> point_on L C P"
  by (auto simp: point_on_def mk_point_of_valid) (auto simp: valid_point_def is_infinity_def)

lemma valid_point_wf:
  "0 < cp C \<Longrightarrow> valid_point C P \<Longrightarrow> point_on L C P \<and> px P < cp C \<and> py P < cp C"
  using valid_point_on [of C P] by (auto simp: valid_point_def is_infinity_def)

text \<open>An honest proof verifies and survives its encoding.\<close>

lemma sch_complete_wf:
  assumes g: "ec_group C" and "sch_new_proof L ssid C (ec_mult C x (generator C)) x t = Inr (pf, t')"
  shows "sch_verify L pf ssid C (ec_mult C x (generator C)) = Inr True" and "sch_wf L C pf"
proof -
  have p: "0 < cp C" using g by (simp add: ec_group_def valid_curve_def)
  from assms obtain alpha where
    a: "sch_new_proof_with_alpha L ssid C (ec_mult C x (generator C)) (ec_mult C alpha (generator C)) alpha x = Inr pf"
    by (auto simp: sch_new_proof_def sch_new_alpha_def rnd_simps base_mult_eq)
  note c = sch_with_alpha_complete [OF g a]
  show "sch_verify L pf ssid C (ec_mult C x (generator C)) = Inr True" by (rule c(1))
  show "sch_wf L C pf"
    using c(2,3) valid_point_wf [OF p ec_mult_valid [OF g generator_valid [OF g]]] by (simp add: sch_wf_def)
qed

end

end
