(* ===== verification/Json.thy ===== *)
theory Json
  imports ZkSch Complex_Main "HOL-Library.Char_ord"
begin

text \<open>
  JSON values and the text encodings of \<^verbatim>\<open>crypto/common/utils.py\<close>: Python's \<^verbatim>\<open>hex\<close> and
  \<^verbatim>\<open>int(s, 16)\<close>, \<^verbatim>\<open>bytes.hex\<close> and \<^verbatim>\<open>bytes.fromhex\<close>, and the (de)serialisation of points and of
  lists of byte strings. A JSON text is represented by the value \<^verbatim>\<open>json.loads\<close> makes of it; strings
  hold characters below 256 and floats are rational (no NaN or infinity).
\<close>

section \<open>JSON values\<close>

datatype json =
    JNull
  | JBool bool
  | JInt int
  | JFloat rat
  | JStr string
  | JList "json list"
  | JObj "(string \<times> json) list"

text \<open>Truth value, and equality with an integer, as Python defines them.\<close>

fun py_truthy :: "json \<Rightarrow> bool" where
  "py_truthy JNull = False"
| "py_truthy (JBool b) = b"
| "py_truthy (JInt i) = (i \<noteq> 0)"
| "py_truthy (JFloat r) = (r \<noteq> 0)"
| "py_truthy (JStr s) = (s \<noteq> [])"
| "py_truthy (JList xs) = (xs \<noteq> [])"
| "py_truthy (JObj kvs) = (kvs \<noteq> [])"

fun py_eq_int :: "json \<Rightarrow> int \<Rightarrow> bool" where
  "py_eq_int (JBool b) n = ((if b then 1 else 0) = n)"
| "py_eq_int (JInt i) n = (i = n)"
| "py_eq_int (JFloat r) n = (r = of_int n)"
| "py_eq_int _ n = False"

text \<open>\<^verbatim>\<open>data.get(key, default)\<close>: \<^verbatim>\<open>AttributeError\<close> unless \<open>data\<close> is an object.\<close>

fun py_get :: "json \<Rightarrow> string \<Rightarrow> json \<Rightarrow> json res" where
  "py_get (JObj kvs) k d = Inr (case map_of kvs k of None \<Rightarrow> d | Some v \<Rightarrow> v)"
| "py_get _ k d = Inl AttributeError"

fun py_item :: "json \<Rightarrow> string \<Rightarrow> json res" where
  "py_item (JObj kvs) k = (case map_of kvs k of None \<Rightarrow> Inl KeyError | Some v \<Rightarrow> Inr v)"
| "py_item _ k = Inl TypeError"

section \<open>Hexadecimal text\<close>

definition hex_digit :: "int \<Rightarrow> char" where
  "hex_digit d = ''0123456789abcdef'' ! nat d"

function hex_mag :: "int \<Rightarrow> string" where
  "hex_mag x = (if x < 16 then [hex_digit x] else hex_mag (x div 16) @ [hex_digit (x mod 16)])"
  by pat_completeness auto
termination
  by (relation "measure nat") auto

declare hex_mag.simps [simp del]

definition py_hex :: "int \<Rightarrow> string" where
  "py_hex x = (if x < 0 then ''-0x'' @ hex_mag (- x) else ''0x'' @ hex_mag x)"

definition hex_value :: "char \<Rightarrow> int option" where
  "hex_value c =
     map_of (zip ''0123456789abcdef'' [0..15] @ zip ''ABCDEF'' [10..15]) c"

definition is_space :: "char \<Rightarrow> bool" where
  "is_space c \<longleftrightarrow>
     (let n = of_char c :: nat in (9 \<le> n \<and> n \<le> 13) \<or> (28 \<le> n \<and> n \<le> 32) \<or> n = 133 \<or> n = 160)"

definition py_strip :: "string \<Rightarrow> string" where
  "py_strip s = rev (dropWhile is_space (rev (dropWhile is_space s)))"

text \<open>Digits may be separated by single underscores.\<close>

fun hex_digits :: "int \<Rightarrow> string \<Rightarrow> int res" where
  "hex_digits acc [] = Inr acc"
| "hex_digits acc [c] =
     (case hex_value c of None \<Rightarrow> Inl ValueError | Some v \<Rightarrow> Inr (acc * 16 + v))"
| "hex_digits acc (c # d # cs) =
     (if c = CHR ''_'' then
        (case hex_value d of None \<Rightarrow> Inl ValueError | Some v \<Rightarrow> hex_digits (acc * 16 + v) cs)
      else
        (case hex_value c of None \<Rightarrow> Inl ValueError | Some v \<Rightarrow> hex_digits (acc * 16 + v) (d # cs)))"

fun hex_number :: "string \<Rightarrow> int res" where
  "hex_number [] = Inl ValueError"
| "hex_number (c # cs) =
     (case hex_value c of None \<Rightarrow> Inl ValueError | Some v \<Rightarrow> hex_digits v cs)"

fun hex_prefixed :: "string \<Rightarrow> int res" where
  "hex_prefixed (z # x # cs) =
     (if z = CHR ''0'' \<and> (x = CHR ''x'' \<or> x = CHR ''X'')
      then hex_number (case cs of u # us \<Rightarrow> if u = CHR ''_'' then us else cs | [] \<Rightarrow> cs)
      else hex_number (z # x # cs))"
| "hex_prefixed s = hex_number s"

definition py_int16 :: "string \<Rightarrow> int res" where
  "py_int16 s =
     (case py_strip s of
        [] \<Rightarrow> Inl ValueError
      | c # cs \<Rightarrow>
          if c = CHR ''-'' then ebind (hex_prefixed cs) (\<lambda>v. Inr (- v))
          else if c = CHR ''+'' then hex_prefixed cs
          else hex_prefixed (c # cs))"

text \<open>\<^verbatim>\<open>bytes.hex\<close> and \<^verbatim>\<open>bytes.fromhex\<close>, which skips ASCII white space between the pairs.\<close>

definition bytes_hex :: "bytes \<Rightarrow> string" where
  "bytes_hex bs = concat (map (\<lambda>b. [hex_digit (uint b div 16), hex_digit (uint b mod 16)]) bs)"

definition is_ascii_space :: "char \<Rightarrow> bool" where
  "is_ascii_space c \<longleftrightarrow> (let n = of_char c :: nat in (9 \<le> n \<and> n \<le> 13) \<or> n = 32)"

fun bytes_fromhex :: "string \<Rightarrow> bytes res" where
  "bytes_fromhex [] = Inr []"
| "bytes_fromhex [c] = (if is_ascii_space c then Inr [] else Inl ValueError)"
| "bytes_fromhex (c # d # cs) =
     (if is_ascii_space c then bytes_fromhex (d # cs)
      else
        (case (hex_value c, hex_value d) of
           (Some u, Some v) \<Rightarrow>
             ebind (bytes_fromhex cs) (\<lambda>bs. Inr (word_of_int (u * 16 + v) # bs))
         | _ \<Rightarrow> Inl ValueError))"

section \<open>Points and lists of byte strings\<close>

definition serialize_point :: "point option \<Rightarrow> json" where
  "serialize_point P =
     (case P of
        None \<Rightarrow> JNull
      | Some P \<Rightarrow>
          if is_infinity P
          then JObj [(''is_infinity'', JBool True), (''x'', JStr ''0x0''), (''y'', JStr ''0x0'')]
          else JObj [(''is_infinity'', JBool False), (''x'', JStr (py_hex (px P))),
                     (''y'', JStr (py_hex (py P)))])"

definition json_int16 :: "json \<Rightarrow> int res" where
  "json_int16 v = (case v of JStr s \<Rightarrow> py_int16 s | _ \<Rightarrow> Inl TypeError)"

definition deserialize_point :: "lib \<Rightarrow> curve \<Rightarrow> json \<Rightarrow> point option res" where
  "deserialize_point L ec data =
     (if data = JNull then Inr None
      else
        ebind (py_get data ''is_infinity'' (JBool False)) (\<lambda>inf.
        if py_truthy inf then Inr (Some infinity)
        else
          ebind (ebind (py_item data ''x'') json_int16) (\<lambda>x.
          ebind (ebind (py_item data ''y'') json_int16) (\<lambda>y.
          ebind (mk_point L ec x y) (\<lambda>P. Inr (Some P))))))"

definition serialize_bytes_list :: "bytes list option \<Rightarrow> json" where
  "serialize_bytes_list bs =
     (case bs of None \<Rightarrow> JNull | Some bs \<Rightarrow> JList (map (\<lambda>b. JStr (bytes_hex b)) bs))"

text \<open>
  A list element that is not a string is kept as it is by the code and raises \<^verbatim>\<open>TypeError\<close> where
  it is used as bytes; here it raises it at once. Iterating over a string gives its characters and
  over an object its keys.
\<close>

definition json_bytes :: "json \<Rightarrow> bytes res" where
  "json_bytes v = (case v of JStr s \<Rightarrow> bytes_fromhex s | _ \<Rightarrow> Inl TypeError)"

definition deserialize_bytes_list :: "json \<Rightarrow> bytes list option res" where
  "deserialize_bytes_list v =
     (case v of
        JNull \<Rightarrow> Inr None
      | JList xs \<Rightarrow> ebind (emap json_bytes xs) (\<lambda>bs. Inr (Some bs))
      | JStr s \<Rightarrow> ebind (emap (\<lambda>c. bytes_fromhex [c]) s) (\<lambda>bs. Inr (Some bs))
      | JObj kvs \<Rightarrow> ebind (emap (\<lambda>kv. bytes_fromhex (fst kv)) kvs) (\<lambda>bs. Inr (Some bs))
      | _ \<Rightarrow> Inl TypeError)"

section \<open>Round trips\<close>

lemma sixteen_set:
  "0 \<le> d \<Longrightarrow> d < 16 \<Longrightarrow> d \<in> {0, 1, 2, 3, 4, 5, 6, 7, 8, 9, 10, 11, 12, 13, 14, 15}" for d :: int
  by simp presburger

lemma sixteen_cases:
  fixes d :: int
  assumes "0 \<le> d" and "d < 16"
  obtains "d = 0" | "d = 1" | "d = 2" | "d = 3" | "d = 4" | "d = 5" | "d = 6" | "d = 7" | "d = 8"
    | "d = 9" | "d = 10" | "d = 11" | "d = 12" | "d = 13" | "d = 14" | "d = 15"
  using sixteen_set [OF assms] by blast

lemma hex_value_digit: "0 \<le> d \<Longrightarrow> d < 16 \<Longrightarrow> hex_value (hex_digit d) = Some d"
  by (erule (1) sixteen_cases) (simp_all add: hex_digit_def hex_value_def upto.simps)

lemma digit_not_space: "0 \<le> d \<Longrightarrow> d < 16 \<Longrightarrow> \<not> is_space (hex_digit d) \<and> \<not> is_ascii_space (hex_digit d)"
  by (erule (1) sixteen_cases)
    (simp_all add: hex_digit_def is_space_def is_ascii_space_def of_char_def)

lemma hex_value_underscore: "hex_value CHR ''_'' = None"
  by (simp add: hex_value_def upto.simps)

lemma hex_mag_digits: "0 \<le> x \<Longrightarrow> c \<in> set (hex_mag x) \<Longrightarrow> \<exists>d. 0 \<le> d \<and> d < 16 \<and> c = hex_digit d"
proof (induction x rule: hex_mag.induct)
  case (1 x)
  then show ?case
    by (cases "x < 16") (auto simp: hex_mag.simps [of x] intro: exI [of _ x] exI [of _ "x mod 16"])
qed

lemma hex_mag_ne [simp]: "hex_mag x \<noteq> []"
  by (subst hex_mag.simps) simp

definition digits_value :: "int \<Rightarrow> string \<Rightarrow> int" where
  "digits_value = foldl (\<lambda>a c. a * 16 + the (hex_value c))"

lemma hex_digits_clean:
  "\<forall>c\<in>set s. hex_value c \<noteq> None \<Longrightarrow> hex_digits acc s = Inr (digits_value acc s)"
  by (induction acc s rule: hex_digits.induct)
    (auto simp: digits_value_def hex_value_underscore split: option.splits)

lemma digits_value_mag: "0 \<le> x \<Longrightarrow> digits_value 0 (hex_mag x) = x"
proof (induction x rule: hex_mag.induct)
  case (1 x)
  then show ?case
    by (cases "x < 16") (auto simp: hex_mag.simps [of x] digits_value_def hex_value_digit)
qed

lemma hex_number_mag: "0 \<le> x \<Longrightarrow> hex_number (hex_mag x) = Inr x"
proof -
  assume x: "0 \<le> x"
  then have clean: "\<forall>c\<in>set (hex_mag x). hex_value c \<noteq> None"
    using hex_mag_digits hex_value_digit by fastforce
  obtain c cs where c: "hex_mag x = c # cs" by (cases "hex_mag x") auto
  then obtain v where v: "hex_value c = Some v" using clean by auto
  have "hex_digits v cs = Inr (digits_value v cs)" using clean c by (intro hex_digits_clean) simp
  moreover have "digits_value v cs = x"
    using digits_value_mag [OF x] v by (simp add: c digits_value_def)
  ultimately show ?thesis by (simp add: c v)
qed

lemma strip_id: "s \<noteq> [] \<Longrightarrow> \<not> is_space (hd s) \<Longrightarrow> \<not> is_space (last s) \<Longrightarrow> py_strip s = s"
proof -
  assume s: "s \<noteq> []" "\<not> is_space (hd s)" "\<not> is_space (last s)"
  have drop: "dropWhile is_space t = t" if "t \<noteq> []" "\<not> is_space (hd t)" for t
    using that by (cases t) simp_all
  show ?thesis using s drop [of s] drop [of "rev s"] by (simp add: py_strip_def hd_rev)
qed

lemma last_mag: "0 \<le> x \<Longrightarrow> \<not> is_space (last (hex_mag x))"
  using hex_mag_digits [of x "last (hex_mag x)"] digit_not_space by auto

lemma hex_prefixed_mag: "0 \<le> x \<Longrightarrow> hex_prefixed (''0x'' @ hex_mag x) = Inr x"
proof -
  assume x: "0 \<le> x"
  obtain c cs where c: "hex_mag x = c # cs" by (cases "hex_mag x") auto
  obtain d where "0 \<le> d" "d < 16" "c = hex_digit d" using hex_mag_digits [OF x, of c] c by auto
  then have "c \<noteq> CHR ''_''" using hex_value_digit hex_value_underscore by fastforce
  then show ?thesis using hex_number_mag [OF x] by (simp add: c)
qed

lemma py_int16_hex: "py_int16 (py_hex x) = Inr x"
proof -
  have sp: "\<not> is_space CHR ''0''" "\<not> is_space CHR ''-''" by (simp_all add: is_space_def of_char_def)
  have "py_strip (py_hex x) = py_hex x"
    using sp last_mag [of x] last_mag [of "- x"] by (intro strip_id) (auto simp: py_hex_def)
  then show ?thesis
    using hex_prefixed_mag [of x] hex_prefixed_mag [of "- x"] by (simp add: py_int16_def py_hex_def)
qed

lemma deserialize_serialize_point:
  "mk_point L ec (px P) (py P) = Inr P \<Longrightarrow> deserialize_point L ec (serialize_point (Some P)) = Inr (Some P)"
  by (cases P) (auto simp: serialize_point_def deserialize_point_def json_int16_def py_int16_hex
      is_infinity_def infinity_def)

lemma bytes_fromhex_hex: "bytes_fromhex (bytes_hex bs) = Inr bs"
proof (induction bs)
  case Nil
  then show ?case by (simp add: bytes_hex_def)
next
  case (Cons b bs)
  have r: "0 \<le> uint b" "uint b < 256" using uint_bounded [of b] by simp_all
  then have d: "0 \<le> uint b div 16" "uint b div 16 < 16" "0 \<le> uint b mod 16" "uint b mod 16 < 16"
    by (auto intro: div_int_pos_iff [THEN iffD2])
  have "bytes_hex (b # bs) = hex_digit (uint b div 16) # hex_digit (uint b mod 16) # bytes_hex bs"
    by (simp add: bytes_hex_def)
  then show ?case
    using Cons d by (simp add: digit_not_space hex_value_digit)
qed

lemma deserialize_serialize_bytes: "deserialize_bytes_list (serialize_bytes_list (Some bs)) = Inr (Some bs)"
proof -
  have "emap json_bytes (map (\<lambda>b. JStr (bytes_hex b)) bs) = Inr bs"
    by (induction bs) (simp_all add: json_bytes_def bytes_fromhex_hex)
  then show ?thesis by (simp add: serialize_bytes_list_def deserialize_bytes_list_def)
qed

end
