(* ===== verification/Messages.thy ===== *)
theory Messages
  imports Json Paillier
begin

text \<open>
  \<^verbatim>\<open>ecdsa/messages.py\<close>: the protocol messages, their conversion to and from JSON objects and the
  data the phases hand over. \<open>to_dict\<close> and \<open>from_dict\<close> are generic over the declared fields, as in
  \<^verbatim>\<open>ProtocolMessage\<close>; the interface \<open>message_codec\<close> states what a dataclass declaration provides,
  and every message type interprets it.
\<close>

section \<open>Generic conversion\<close>

datatype field_val = FInt int | FPoint point | FBytes "bytes list" | FNone
datatype field_type = TInt | TPoint | TBytes

text \<open>The type hints of a dataclass: name, type, and whether the field has no default.\<close>

type_synonym hints = "(string \<times> field_type \<times> bool) list"

definition field_json :: "field_val \<Rightarrow> json" where
  "field_json v =
     (case v of
        FInt i \<Rightarrow> JInt i
      | FPoint P \<Rightarrow> serialize_point (Some P)
      | FBytes bs \<Rightarrow> serialize_bytes_list (Some bs)
      | FNone \<Rightarrow> JNull)"

definition to_dict :: "hints \<Rightarrow> field_val list \<Rightarrow> json" where
  "to_dict hs vs = JObj (zip (map fst hs) (map field_json vs))"

text \<open>
  A value of the wrong type in an integer field is stored by the code and raises where it is used;
  here it raises \<^verbatim>\<open>TypeError\<close> at once. Booleans are integers.
\<close>

definition decode_field :: "lib \<Rightarrow> curve \<Rightarrow> field_type \<Rightarrow> json \<Rightarrow> field_val res" where
  "decode_field L ec ty v =
     (case ty of
        TPoint \<Rightarrow>
          ebind (deserialize_point L ec v)
            (\<lambda>P. Inr (case P of None \<Rightarrow> FNone | Some P \<Rightarrow> FPoint P))
      | TBytes \<Rightarrow>
          ebind (deserialize_bytes_list v)
            (\<lambda>bs. Inr (case bs of None \<Rightarrow> FNone | Some bs \<Rightarrow> FBytes bs))
      | TInt \<Rightarrow>
          (case v of JInt i \<Rightarrow> Inr (FInt i) | JBool b \<Rightarrow> Inr (FInt (if b then 1 else 0))
           | JNull \<Rightarrow> Inr FNone | _ \<Rightarrow> Inl TypeError))"

fun from_dict_fields :: "lib \<Rightarrow> curve \<Rightarrow> hints \<Rightarrow> (string \<times> json) list \<Rightarrow> field_val list res" where
  "from_dict_fields L ec [] data = Inr []"
| "from_dict_fields L ec ((name, ty, required) # hs) data =
     ebind (case map_of data name of
              None \<Rightarrow> if required then Inl TypeError else Inr FNone
            | Some v \<Rightarrow> decode_field L ec ty v) (\<lambda>fv.
     ebind (from_dict_fields L ec hs data) (\<lambda>fvs. Inr (fv # fvs)))"

definition from_dict :: "lib \<Rightarrow> curve \<Rightarrow> hints \<Rightarrow> json \<Rightarrow> field_val list res" where
  "from_dict L ec hs data =
     (case data of JObj kvs \<Rightarrow> from_dict_fields L ec hs kvs | _ \<Rightarrow> Inl TypeError)"

definition fits :: "lib \<Rightarrow> curve \<Rightarrow> field_type \<Rightarrow> field_val \<Rightarrow> bool" where
  "fits L ec ty v =
     (case v of
        FInt i \<Rightarrow> ty = TInt
      | FPoint P \<Rightarrow> ty = TPoint \<and> mk_point L ec (px P) (py P) = Inr P
      | FBytes bs \<Rightarrow> ty = TBytes
      | FNone \<Rightarrow> True)"

lemma decode_field_json: "fits L ec ty v \<Longrightarrow> decode_field L ec ty (field_json v) = Inr v"
proof -
  have null: "deserialize_point L ec JNull = Inr None" "deserialize_bytes_list JNull = Inr None"
    by (simp_all add: deserialize_point_def deserialize_bytes_list_def)
  assume "fits L ec ty v"
  then show ?thesis
    by (cases v; cases ty)
      (auto simp: fits_def decode_field_def field_json_def deserialize_serialize_point
        deserialize_serialize_bytes null)
qed

lemma from_dict_fields_zip:
  assumes "distinct (map fst hs)" and "list_all2 (\<lambda>h v. fits L ec (fst (snd h)) v) hs vs"
    and "\<forall>n v. (n, v) \<in> set (zip (map fst hs) (map field_json vs)) \<longrightarrow> map_of data n = Some v"
  shows "from_dict_fields L ec hs data = Inr vs"
  using assms(2,1,3)
proof (induction hs vs rule: list_all2_induct)
  case (Cons h hs v vs)
  obtain n ty r where h: "h = (n, ty, r)" by (cases h)
  have "map_of data n = Some (field_json v)" using Cons.prems(2) by (simp add: h)
  moreover have "from_dict_fields L ec hs data = Inr vs" using Cons by simp
  ultimately show ?case using Cons.hyps by (simp add: h decode_field_json)
qed simp

lemma from_to_dict:
  assumes "distinct (map fst hs)" and "list_all2 (\<lambda>h v. fits L ec (fst (snd h)) v) hs vs"
  shows "from_dict L ec hs (to_dict hs vs) = Inr vs"
  unfolding from_dict_def to_dict_def json.case
proof (rule from_dict_fields_zip [OF assms], intro allI impI)
  fix n v assume "(n, v) \<in> set (zip (map fst hs) (map field_json vs))"
  moreover have "distinct (map fst (zip (map fst hs) (map field_json vs)))"
    using assms list_all2_lengthD [OF assms(2)] by simp
  ultimately show "map_of (zip (map fst hs) (map field_json vs)) n = Some v"
    by (simp add: map_of_eq_Some_iff)
qed

text \<open>What a message class declares: its hints, its fields and its constructor.\<close>

locale message_codec =
  fixes hs :: hints
    and fields :: "'m \<Rightarrow> field_val list"
    and construct :: "field_val list \<Rightarrow> 'm res"
  assumes names: "distinct (map fst hs)"
    and arity: "length (fields m) = length hs"
    and construct_fields: "construct (fields m) = Inr m"
begin

lemma codec_round_trip:
  assumes "list_all2 (\<lambda>h v. fits L ec (fst (snd h)) v) hs (fields m)"
  shows "ebind (from_dict L ec hs (to_dict hs (fields m))) construct = Inr m"
  using from_to_dict [OF names assms] construct_fields by simp

lemma codec_inj: "fields m = fields m' \<Longrightarrow> m = m'"
  by (metis construct_fields sum.inject(2))

end

section \<open>Key generation messages\<close>

record keygen_r1 =
  k1_id :: int
  k1_V :: int

definition keygen_r1_hints :: hints where
  "keygen_r1_hints = [(''id'', TInt, True), (''V'', TInt, True)]"

definition keygen_r1_fields :: "keygen_r1 \<Rightarrow> field_val list" where
  "keygen_r1_fields m = [FInt (k1_id m), FInt (k1_V m)]"

definition keygen_r1_make :: "field_val list \<Rightarrow> keygen_r1 res" where
  "keygen_r1_make vs =
     (case vs of [FInt i, FInt V] \<Rightarrow> Inr \<lparr> k1_id = i, k1_V = V \<rparr> | _ \<Rightarrow> Inl TypeError)"

record keygen_r2 =
  k2_rid :: int
  k2_X :: point
  k2_A :: point

definition keygen_r2_hints :: hints where
  "keygen_r2_hints = [(''rid'', TInt, True), (''X'', TPoint, True), (''A'', TPoint, True)]"

definition keygen_r2_fields :: "keygen_r2 \<Rightarrow> field_val list" where
  "keygen_r2_fields m = [FInt (k2_rid m), FPoint (k2_X m), FPoint (k2_A m)]"

definition keygen_r2_make :: "field_val list \<Rightarrow> keygen_r2 res" where
  "keygen_r2_make vs =
     (case vs of [FInt rid, FPoint X, FPoint A] \<Rightarrow> Inr \<lparr> k2_rid = rid, k2_X = X, k2_A = A \<rparr>
      | _ \<Rightarrow> Inl TypeError)"

record keygen_r3 =
  k3_schX :: "bytes list"
  k3_schA :: "bytes list"
  k3_psi :: int

definition keygen_r3_hints :: hints where
  "keygen_r3_hints = [(''schX'', TBytes, True), (''schA'', TBytes, True), (''psi'', TInt, True)]"

definition keygen_r3_fields :: "keygen_r3 \<Rightarrow> field_val list" where
  "keygen_r3_fields m = [FBytes (k3_schX m), FBytes (k3_schA m), FInt (k3_psi m)]"

definition keygen_r3_make :: "field_val list \<Rightarrow> keygen_r3 res" where
  "keygen_r3_make vs =
     (case vs of [FBytes X, FBytes A, FInt psi] \<Rightarrow> Inr \<lparr> k3_schX = X, k3_schA = A, k3_psi = psi \<rparr>
      | _ \<Rightarrow> Inl TypeError)"

definition keygen_output_dict :: "point \<Rightarrow> json" where
  "keygen_output_dict X = to_dict [(''X'', TPoint, True)] [FPoint X]"

section \<open>Auxiliary-information messages\<close>

record aux_r1 =
  a1_id :: int
  a1_V :: int

definition aux_r1_hints :: hints where
  "aux_r1_hints = [(''id'', TInt, True), (''V'', TInt, True)]"

definition aux_r1_fields :: "aux_r1 \<Rightarrow> field_val list" where
  "aux_r1_fields m = [FInt (a1_id m), FInt (a1_V m)]"

definition aux_r1_make :: "field_val list \<Rightarrow> aux_r1 res" where
  "aux_r1_make vs =
     (case vs of [FInt i, FInt V] \<Rightarrow> Inr \<lparr> a1_id = i, a1_V = V \<rparr> | _ \<Rightarrow> Inl TypeError)"

record aux_r2 =
  a2_n :: int
  a2_s :: int
  a2_t :: int
  a2_prm :: "bytes list"
  a2_rho :: int

definition aux_r2_hints :: hints where
  "aux_r2_hints = [(''n'', TInt, True), (''s'', TInt, True), (''t'', TInt, True),
     (''prm'', TBytes, True), (''rho'', TInt, True)]"

definition aux_r2_fields :: "aux_r2 \<Rightarrow> field_val list" where
  "aux_r2_fields m = [FInt (a2_n m), FInt (a2_s m), FInt (a2_t m), FBytes (a2_prm m), FInt (a2_rho m)]"

definition aux_r2_make :: "field_val list \<Rightarrow> aux_r2 res" where
  "aux_r2_make vs =
     (case vs of
        [FInt n, FInt s, FInt t, FBytes prm, FInt rho] \<Rightarrow>
          Inr \<lparr> a2_n = n, a2_s = s, a2_t = t, a2_prm = prm, a2_rho = rho \<rparr>
      | _ \<Rightarrow> Inl TypeError)"

record aux_r3 =
  a3_mod :: "bytes list"
  a3_fac :: "bytes list"

definition aux_r3_hints :: hints where
  "aux_r3_hints = [(''mod'', TBytes, True), (''fac'', TBytes, True)]"

definition aux_r3_fields :: "aux_r3 \<Rightarrow> field_val list" where
  "aux_r3_fields m = [FBytes (a3_mod m), FBytes (a3_fac m)]"

definition aux_r3_make :: "field_val list \<Rightarrow> aux_r3 res" where
  "aux_r3_make vs =
     (case vs of [FBytes md, FBytes fac] \<Rightarrow> Inr \<lparr> a3_mod = md, a3_fac = fac \<rparr> | _ \<Rightarrow> Inl TypeError)"

definition aux_output_dict :: "int \<Rightarrow> json" where
  "aux_output_dict n = to_dict [(''n'', TInt, True)] [FInt n]"

section \<open>Presigning messages\<close>

record presign_r1 =
  p1_K_ct :: int
  p1_G_ct :: int
  p1_proofenc :: "bytes list"

definition presign_r1_hints :: hints where
  "presign_r1_hints = [(''K_ct'', TInt, True), (''G_ct'', TInt, True), (''proofenc'', TBytes, True)]"

definition presign_r1_fields :: "presign_r1 \<Rightarrow> field_val list" where
  "presign_r1_fields m = [FInt (p1_K_ct m), FInt (p1_G_ct m), FBytes (p1_proofenc m)]"

definition presign_r1_make :: "field_val list \<Rightarrow> presign_r1 res" where
  "presign_r1_make vs =
     (case vs of
        [FInt K, FInt G, FBytes pf] \<Rightarrow> Inr \<lparr> p1_K_ct = K, p1_G_ct = G, p1_proofenc = pf \<rparr>
      | _ \<Rightarrow> Inl TypeError)"

record presign_r2 =
  p2_Gamma :: point
  p2_D :: int
  p2_D' :: int
  p2_F :: int
  p2_F' :: int
  p2_psi_affg_gamma :: "bytes list"
  p2_psi_affg_xi :: "bytes list"
  p2_psi_logstar_gamma :: "bytes list"

definition presign_r2_hints :: hints where
  "presign_r2_hints =
     [(''Gamma'', TPoint, True), (''D'', TInt, True), (''_D'', TInt, True), (''F'', TInt, True),
      (''_F'', TInt, True), (''psi_affg_gamma'', TBytes, True), (''psi_affg_xi'', TBytes, True),
      (''psi_logstar_gamma'', TBytes, True)]"

definition presign_r2_fields :: "presign_r2 \<Rightarrow> field_val list" where
  "presign_r2_fields m =
     [FPoint (p2_Gamma m), FInt (p2_D m), FInt (p2_D' m), FInt (p2_F m), FInt (p2_F' m),
      FBytes (p2_psi_affg_gamma m), FBytes (p2_psi_affg_xi m), FBytes (p2_psi_logstar_gamma m)]"

definition presign_r2_make :: "field_val list \<Rightarrow> presign_r2 res" where
  "presign_r2_make vs =
     (case vs of
        [FPoint G, FInt D, FInt D', FInt F, FInt F', FBytes ag, FBytes ax, FBytes lg] \<Rightarrow>
          Inr \<lparr> p2_Gamma = G, p2_D = D, p2_D' = D', p2_F = F, p2_F' = F', p2_psi_affg_gamma = ag,
                p2_psi_affg_xi = ax, p2_psi_logstar_gamma = lg \<rparr>
      | _ \<Rightarrow> Inl TypeError)"

record presign_r3 =
  p3_delta :: int
  p3_vdelta :: point
  p3_psi :: "bytes list"

definition presign_r3_hints :: hints where
  "presign_r3_hints = [(''delta'', TInt, True), (''vdelta'', TPoint, True), (''psi'', TBytes, True)]"

definition presign_r3_fields :: "presign_r3 \<Rightarrow> field_val list" where
  "presign_r3_fields m = [FInt (p3_delta m), FPoint (p3_vdelta m), FBytes (p3_psi m)]"

definition presign_r3_make :: "field_val list \<Rightarrow> presign_r3 res" where
  "presign_r3_make vs =
     (case vs of
        [FInt d, FPoint v, FBytes psi] \<Rightarrow> Inr \<lparr> p3_delta = d, p3_vdelta = v, p3_psi = psi \<rparr>
      | _ \<Rightarrow> Inl TypeError)"

definition presigning_output_dict :: "point \<Rightarrow> json" where
  "presigning_output_dict R = to_dict [(''R'', TPoint, True)] [FPoint R]"

section \<open>Signing message\<close>

record signing_msg =
  sg_sigma :: int
  sg_sigma_point :: "point option"
  sg_R_k :: "point option"
  sg_R_chi :: "point option"
  sg_t_commit :: "point option"
  sg_proof_st :: "bytes list option"
  sg_proof_logstar_k :: "bytes list option"

definition signing_hints :: hints where
  "signing_hints =
     [(''sigma'', TInt, True), (''sigma_point'', TPoint, False), (''R_k'', TPoint, False),
      (''R_chi'', TPoint, False), (''t_commit'', TPoint, False), (''proof_st'', TBytes, False),
      (''proof_logstar_k'', TBytes, False)]"

definition opt_point :: "point option \<Rightarrow> field_val" where
  "opt_point P = (case P of None \<Rightarrow> FNone | Some P \<Rightarrow> FPoint P)"

definition opt_bytes :: "bytes list option \<Rightarrow> field_val" where
  "opt_bytes bs = (case bs of None \<Rightarrow> FNone | Some bs \<Rightarrow> FBytes bs)"

definition signing_fields :: "signing_msg \<Rightarrow> field_val list" where
  "signing_fields m =
     [FInt (sg_sigma m), opt_point (sg_sigma_point m), opt_point (sg_R_k m), opt_point (sg_R_chi m),
      opt_point (sg_t_commit m), opt_bytes (sg_proof_st m), opt_bytes (sg_proof_logstar_k m)]"

definition point_opt :: "field_val \<Rightarrow> point option res" where
  "point_opt v = (case v of FNone \<Rightarrow> Inr None | FPoint P \<Rightarrow> Inr (Some P) | _ \<Rightarrow> Inl TypeError)"

definition bytes_opt :: "field_val \<Rightarrow> bytes list option res" where
  "bytes_opt v = (case v of FNone \<Rightarrow> Inr None | FBytes bs \<Rightarrow> Inr (Some bs) | _ \<Rightarrow> Inl TypeError)"

definition signing_make :: "field_val list \<Rightarrow> signing_msg res" where
  "signing_make vs =
     (case vs of
        [FInt sigma, sp, rk, rchi, tc, st, ls] \<Rightarrow>
          ebind (point_opt sp) (\<lambda>sp. ebind (point_opt rk) (\<lambda>rk. ebind (point_opt rchi) (\<lambda>rchi.
          ebind (point_opt tc) (\<lambda>tc. ebind (bytes_opt st) (\<lambda>st. ebind (bytes_opt ls) (\<lambda>ls.
          Inr \<lparr> sg_sigma = sigma, sg_sigma_point = sp, sg_R_k = rk, sg_R_chi = rchi,
                sg_t_commit = tc, sg_proof_st = st, sg_proof_logstar_k = ls \<rparr>))))))
      | _ \<Rightarrow> Inl TypeError)"

lemma opt_point_inv [simp]: "point_opt (opt_point P) = Inr P"
  by (simp add: point_opt_def opt_point_def split: option.split)

lemma opt_bytes_inv [simp]: "bytes_opt (opt_bytes P) = Inr P"
  by (simp add: bytes_opt_def opt_bytes_def split: option.split)

section \<open>The classes provide the interface\<close>

interpretation keygen_r1: message_codec keygen_r1_hints keygen_r1_fields keygen_r1_make
  by unfold_locales (simp_all add: keygen_r1_hints_def keygen_r1_fields_def keygen_r1_make_def)

interpretation keygen_r2: message_codec keygen_r2_hints keygen_r2_fields keygen_r2_make
  by unfold_locales (simp_all add: keygen_r2_hints_def keygen_r2_fields_def keygen_r2_make_def)

interpretation keygen_r3: message_codec keygen_r3_hints keygen_r3_fields keygen_r3_make
  by unfold_locales (simp_all add: keygen_r3_hints_def keygen_r3_fields_def keygen_r3_make_def)

interpretation aux_r1: message_codec aux_r1_hints aux_r1_fields aux_r1_make
  by unfold_locales (simp_all add: aux_r1_hints_def aux_r1_fields_def aux_r1_make_def)

interpretation aux_r2: message_codec aux_r2_hints aux_r2_fields aux_r2_make
  by unfold_locales (simp_all add: aux_r2_hints_def aux_r2_fields_def aux_r2_make_def)

interpretation aux_r3: message_codec aux_r3_hints aux_r3_fields aux_r3_make
  by unfold_locales (simp_all add: aux_r3_hints_def aux_r3_fields_def aux_r3_make_def)

interpretation presign_r1: message_codec presign_r1_hints presign_r1_fields presign_r1_make
  by unfold_locales (simp_all add: presign_r1_hints_def presign_r1_fields_def presign_r1_make_def)

interpretation presign_r2: message_codec presign_r2_hints presign_r2_fields presign_r2_make
  by unfold_locales (simp_all add: presign_r2_hints_def presign_r2_fields_def presign_r2_make_def)

interpretation presign_r3: message_codec presign_r3_hints presign_r3_fields presign_r3_make
  by unfold_locales (simp_all add: presign_r3_hints_def presign_r3_fields_def presign_r3_make_def)

interpretation signing_msg: message_codec signing_hints signing_fields signing_make
  by unfold_locales (simp_all add: signing_hints_def signing_fields_def signing_make_def)

section \<open>Data handed from phase to phase\<close>

record keygen_output_data =
  ko_ssid :: int
  ko_xi :: int
  ko_Xi :: point
  ko_Xj :: point
  ko_X :: point

record aux_output_data =
  ao_paillier_priv_i :: private_key
  ao_paillier_pub_i :: public_key
  ao_si :: int
  ao_ti :: int
  ao_paillier_pub_j :: public_key
  ao_sj :: int
  ao_tj :: int

record presig_output_data =
  po_R :: point
  po_k_i :: int
  po_chi_i :: int
  po_ssid :: int
  po_R_k_i :: "point option"
  po_R_chi_i :: "point option"
  po_K_i_ct :: int
  po_K_j_ct :: int
  po_rho_i :: int
  po_paillier_pub_i :: public_key
  po_paillier_pub_j :: public_key
  po_si :: int
  po_ti :: int
  po_sj :: int
  po_tj :: int

end
