(* ===== verification/Keygen.thy ===== *)
theory Keygen
  imports Messages
begin

text \<open>
  \<^verbatim>\<open>ecdsa/keygen.py\<close>: the first phase. Each party commits to its public share and to a Schnorr
  commitment, opens the commitment, and proves knowledge of both discrete logarithms. An exception
  ends the session, so the state an operation had reached when it raised is not represented.
\<close>

section \<open>The code\<close>

record keygen =
  kg_id :: int
  kg_xi :: int
  kg_Xi :: point
  kg_rid :: int
  kg_alphai :: int
  kg_Ai :: point
  kg_Vi :: int
  kg_Xj :: "point option"
  kg_Aj :: "point option"
  kg_srid :: "int option"

definition keygen_commitment :: "lib \<Rightarrow> int \<Rightarrow> int \<Rightarrow> point \<Rightarrow> point \<Rightarrow> int res" where
  "keygen_commitment L i rid X A = sha512_256i L [i, rid, px X, py X, px A, py A]"

definition keygen_init :: "lib \<Rightarrow> curve \<Rightarrow> int \<Rightarrow> keygen rnd" where
  "keygen_init L ec i =
     rbind (random_scalar ec) (\<lambda>xi.
     rbind (rlift (base_mult L ec xi)) (\<lambda>Xi.
     rbind (urandom_int 32) (\<lambda>rid.
     rbind (sch_new_alpha L ec) (\<lambda>(alphai, Ai).
     rbind (rlift (keygen_commitment L i rid Xi Ai)) (\<lambda>Vi.
     rret \<lparr> kg_id = i, kg_xi = xi, kg_Xi = Xi, kg_rid = rid, kg_alphai = alphai, kg_Ai = Ai,
            kg_Vi = Vi, kg_Xj = None, kg_Aj = None, kg_srid = None \<rparr>)))))"

definition keygen_round1 :: "keygen \<Rightarrow> keygen_r1" where
  "keygen_round1 s = \<lparr> k1_id = kg_id s, k1_V = kg_Vi s \<rparr>"

definition keygen_round2 :: "keygen \<Rightarrow> keygen_r2" where
  "keygen_round2 s = \<lparr> k2_rid = kg_rid s, k2_X = kg_Xi s, k2_A = kg_Ai s \<rparr>"

definition keygen_psi :: "lib \<Rightarrow> int \<Rightarrow> int \<Rightarrow> proof_sch \<Rightarrow> proof_sch \<Rightarrow> int res" where
  "keygen_psi L i srid schX schA =
     sha512_256i L [i, srid, px (sch_A schX), py (sch_A schX), sch_Z schX,
                    px (sch_A schA), py (sch_A schA), sch_Z schA]"

definition keygen_round3 ::
    "lib \<Rightarrow> curve \<Rightarrow> keygen \<Rightarrow> keygen_r1 \<Rightarrow> keygen_r2 \<Rightarrow> (keygen_r3 \<times> keygen) rnd" where
  "keygen_round3 L ec s msg_j_r1 msg_j_r2 =
     (let Xj = k2_X msg_j_r2; Aj = k2_A msg_j_r2 in
      rbind (rlift (keygen_commitment L (k1_id msg_j_r1) (k2_rid msg_j_r2) Xj Aj)) (\<lambda>expected_Vj.
      rbind (rlift (eguard (k1_V msg_j_r1 = expected_Vj)
        (VerificationError ''Keygen Round 1 commitment verification failed.''))) (\<lambda>_.
      let srid = kg_rid s XOR k2_rid msg_j_r2 in
      rbind (rlift (sch_new_proof_with_alpha L srid ec (kg_Xi s) (kg_Ai s) (kg_alphai s) (kg_xi s)))
        (\<lambda>schXi.
      rbind (sch_new_proof L srid ec (kg_Ai s) (kg_alphai s)) (\<lambda>schAi.
      rbind (rlift (keygen_psi L (kg_id s) srid schXi schAi)) (\<lambda>psii.
      rret (\<lparr> k3_schX = sch_to_bytes_parts schXi, k3_schA = sch_to_bytes_parts schAi,
              k3_psi = psii \<rparr>,
            s\<lparr> kg_Xj := Some Xj, kg_Aj := Some Aj, kg_srid := Some srid \<rparr>)))))))"

text \<open>\<open>Xj\<close>, \<open>Aj\<close> and \<open>srid\<close> are \<^verbatim>\<open>None\<close> before round 3, and using them raises.\<close>

definition keygen_round_out ::
    "lib \<Rightarrow> curve \<Rightarrow> keygen \<Rightarrow> int \<Rightarrow> keygen_r3 \<Rightarrow> keygen_output_data res" where
  "keygen_round_out L ec s idj msg_j_r3 =
     ebind (sch_from_bytes L ec (k3_schX msg_j_r3)) (\<lambda>schXj.
     ebind (sch_from_bytes L ec (k3_schA msg_j_r3)) (\<lambda>schAj.
     case (kg_srid s, kg_Xj s, kg_Aj s) of
       (Some srid, Some Xj, Some Aj) \<Rightarrow>
         ebind (keygen_psi L idj srid schXj schAj) (\<lambda>expected_psij.
         ebind (eguard (k3_psi msg_j_r3 = expected_psij)
           (VerificationError ''Keygen Round 3 psi commitment verification failed.'')) (\<lambda>_.
         ebind (eguard (point_eq (sch_A schXj) Aj)
           (VerificationError ''Keygen Round 3 proof A value mismatch for schX.'')) (\<lambda>_.
         ebind (sch_verify L schXj srid ec Xj) (\<lambda>okX.
         ebind (if \<not> okX then Inr False else sch_verify L schAj srid ec Aj) (\<lambda>ok.
         ebind (eguard ok
           (VerificationError ''Keygen Round 3 Schnorr proof verification failed.'')) (\<lambda>_.
         ebind (point_add L ec (kg_Xi s) Xj) (\<lambda>X.
         Inr \<lparr> ko_ssid = srid, ko_xi = kg_xi s, ko_Xi = kg_Xi s, ko_Xj = Xj, ko_X = X \<rparr>)))))))
     | _ \<Rightarrow> Inl TypeError))"

section \<open>Two honest parties\<close>

definition keygen_session ::
    "lib \<Rightarrow> curve \<Rightarrow> int \<Rightarrow> int \<Rightarrow> (keygen_output_data \<times> keygen_output_data) rnd" where
  "keygen_session L ec i j =
     rbind (keygen_init L ec i) (\<lambda>si.
     rbind (keygen_init L ec j) (\<lambda>sj.
     rbind (keygen_round3 L ec si (keygen_round1 sj) (keygen_round2 sj)) (\<lambda>(mi, si).
     rbind (keygen_round3 L ec sj (keygen_round1 si) (keygen_round2 si)) (\<lambda>(mj, sj).
     rbind (rlift (keygen_round_out L ec si j mj)) (\<lambda>oi.
     rbind (rlift (keygen_round_out L ec sj i mi)) (\<lambda>oj.
     rret (oi, oj)))))))"

section \<open>Properties\<close>

text \<open>The state of a party after its constructor.\<close>

definition keygen_wf :: "lib \<Rightarrow> curve \<Rightarrow> keygen \<Rightarrow> bool" where
  "keygen_wf L ec s \<longleftrightarrow>
     0 < kg_xi s \<and> kg_xi s < cn ec \<and> kg_Xi s = ec_mult ec (kg_xi s) (generator ec)
     \<and> kg_Ai s = ec_mult ec (kg_alphai s) (generator ec)
     \<and> keygen_commitment L (kg_id s) (kg_rid s) (kg_Xi s) (kg_Ai s) = Inr (kg_Vi s)"

text \<open>The state after round 3 with peer \<open>p\<close>.\<close>

definition keygen_linked :: "keygen \<Rightarrow> keygen \<Rightarrow> bool" where
  "keygen_linked s p \<longleftrightarrow>
     kg_Xj s = Some (kg_Xi p) \<and> kg_Aj s = Some (kg_Ai p) \<and> kg_srid s = Some (kg_rid s XOR kg_rid p)"

context lib_ok
begin

lemma keygen_init_wf:
  assumes "ec_group ec" and "keygen_init L ec i t = Inr (s, t')"
  shows "keygen_wf L ec s \<and> kg_id s = i"
  using assms
  by (auto simp: keygen_init_def keygen_wf_def sch_new_alpha_def rnd_simps base_mult_eq
      dest: random_scalar_range)

lemma keygen_init_returns:
  assumes g: "ec_group ec" and t: "3 \<le> length t"
  shows "\<exists>s. keygen_init L ec i t = Inr (s, drop 3 t)"
proof -
  obtain a b c t' where t: "t = a # b # c # t'"
    using t by (auto simp: numeral_3_eq_3 Suc_le_length_iff)
  note draws = random_scalar_Cons [OF ec_group_n [OF g]] urandom_int_Cons base_mult_eq [OF g]
  let ?xi = "a mod (cn ec - 1) + 1" and ?al = "c mod (cn ec - 1) + 1"
  obtain V where "keygen_commitment L i (b mod 256 ^ 32) (ec_mult ec ?xi (generator ec))
      (ec_mult ec ?al (generator ec)) = Inr V"
    using sha512_256i_Inr by (metis keygen_commitment_def list.distinct(1))
  then show ?thesis
    unfolding t keygen_init_def sch_new_alpha_def by (simp add: rbind_app draws rret_def)
qed

lemma keygen_round3_links:
  assumes "keygen_round3 L ec s (keygen_round1 p) (keygen_round2 p) t = Inr ((m, s'), t')"
  shows "keygen_linked s' p \<and> keygen_wf L ec s = keygen_wf L ec s' \<and> keygen_round1 s' = keygen_round1 s
    \<and> keygen_round2 s' = keygen_round2 s \<and> kg_xi s' = kg_xi s \<and> kg_Xi s' = kg_Xi s \<and> kg_id s' = kg_id s
    \<and> kg_rid s' = kg_rid s \<and> kg_Ai s' = kg_Ai s"
  using assms
  by (auto simp: keygen_round3_def Let_def rnd_simps keygen_linked_def keygen_wf_def keygen_round1_def
      keygen_round2_def)

lemma keygen_round3_returns:
  assumes g: "ec_group ec" and wf: "keygen_wf L ec s" "keygen_wf L ec p" and t: "t \<noteq> []"
  shows "\<exists>m s'. keygen_round3 L ec s (keygen_round1 p) (keygen_round2 p) t = Inr ((m, s'), tl t)"
proof -
  obtain a t' where t: "t = a # t'" using t by (cases t) auto
  let ?srid = "kg_rid s XOR kg_rid p"
  obtain e1 where e1: "challenge L (cn ec) (sch_transcript ?srid ec (kg_Xi s) (kg_Ai s)) = Inr e1"
    using challenge_returns [of "cn ec"] ec_group_n [OF g] sch_transcript_ne by (metis less_trans zero_less_one)
  let ?A = "ec_mult ec (a mod (cn ec - 1) + 1) (generator ec)"
  obtain e2 where e2: "challenge L (cn ec) (sch_transcript ?srid ec (kg_Ai s) ?A) = Inr e2"
    using challenge_returns [of "cn ec"] ec_group_n [OF g] sch_transcript_ne by (metis less_trans zero_less_one)
  have psi: "\<exists>h. keygen_psi L (kg_id s) ?srid x y = Inr h" for x y
    using sha512_256i_Inr by (metis keygen_psi_def list.distinct(1))
  have V: "keygen_commitment L (kg_id p) (kg_rid p) (kg_Xi p) (kg_Ai p) = Inr (kg_Vi p)"
    using wf(2) unfolding keygen_wf_def by blast
  note draws = random_scalar_Cons [OF ec_group_n [OF g]] base_mult_eq [OF g]
  let ?x = "\<lparr>sch_A = kg_Ai s, sch_Z = (kg_alphai s + e1 * kg_xi s) mod cn ec\<rparr>"
  let ?y = "\<lparr>sch_A = ?A, sch_Z = (a mod (cn ec - 1) + 1 + e2 * kg_alphai s) mod cn ec\<rparr>"
  obtain h where "keygen_psi L (kg_id s) ?srid ?x ?y = Inr h" using psi by blast
  then show ?thesis
    unfolding t keygen_round3_def sch_new_proof_def sch_new_alpha_def sch_new_proof_with_alpha_def
      keygen_round1_def keygen_round2_def Let_def
    by (simp add: rbind_app draws V e1 e2 rret_def)
qed

text \<open>What round 3 sends is accepted by a peer linked to the sender.\<close>

lemma keygen_round_out_accepts:
  assumes g: "ec_group ec" and wf: "keygen_wf L ec s" "keygen_wf L ec p"
    and r3: "keygen_round3 L ec p (keygen_round1 s) (keygen_round2 s) t = Inr ((m, p'), t')"
    and linked: "keygen_linked s p"
  shows "keygen_round_out L ec s (kg_id p) m = Inr \<lparr> ko_ssid = kg_rid s XOR kg_rid p, ko_xi = kg_xi s,
    ko_Xi = kg_Xi s, ko_Xj = kg_Xi p, ko_X = ec_mult ec (kg_xi s + kg_xi p) (generator ec) \<rparr>"
proof -
  let ?srid = "kg_rid p XOR kg_rid s" and ?G = "generator ec"
  have G: "valid_point ec ?G" and n: "0 < cn ec" and p0: "0 < cp ec"
    using generator_valid [OF g] ec_group_n [OF g] g by (auto simp: ec_group_def valid_curve_def)
  have srid: "kg_rid s XOR kg_rid p = ?srid" by (rule xor.commute)
  from r3 obtain x y h t1 where
      x: "sch_new_proof_with_alpha L ?srid ec (kg_Xi p) (kg_Ai p) (kg_alphai p) (kg_xi p) = Inr x"
    and y: "sch_new_proof L ?srid ec (kg_Ai p) (kg_alphai p) t = Inr (y, t1)"
    and h: "keygen_psi L (kg_id p) ?srid x y = Inr h"
    and m: "m = \<lparr> k3_schX = sch_to_bytes_parts x, k3_schA = sch_to_bytes_parts y, k3_psi = h \<rparr>"
    by (auto simp: keygen_round3_def Let_def rnd_simps keygen_round1_def keygen_round2_def)
  have Xp: "kg_Xi p = ec_mult ec (kg_xi p) ?G" "kg_Ai p = ec_mult ec (kg_alphai p) ?G"
    "kg_Xi s = ec_mult ec (kg_xi s) ?G" using wf by (simp_all add: keygen_wf_def)
  note cx = sch_with_alpha_complete [OF g x [unfolded Xp]]
  note cy = sch_complete_wf [OF g y [unfolded Xp]]
  have wfx: "sch_wf L ec x"
    using cx(2,3) valid_point_wf [OF p0 ec_mult_valid [OF g G]] by (simp add: sch_wf_def)
  have dec: "sch_from_bytes L ec (sch_to_bytes_parts x) = Inr x"
    "sch_from_bytes L ec (sch_to_bytes_parts y) = Inr y"
    using wfx cy(2) sch_wire.round_trip by auto
  have "point_add L ec (kg_Xi s) (kg_Xi p) = Inr (ec_mult ec (kg_xi s + kg_xi p) ?G)"
    using g G by (simp add: Xp group_point_add_eq ec_mult_valid ec_mult_add)
  then show ?thesis
    using linked h cx cy(1) dec
    by (simp add: keygen_round_out_def m keygen_linked_def srid Xp)
qed

text \<open>
  On every tape of eight draws the session of two honest parties ends, and the parties hold the
  same session id and the same public key, whose secret is the sum of their shares.
\<close>

lemma keygen_session_agrees:
  assumes g: "ec_group ec" and t: "8 \<le> length t"
  shows "\<exists>oi oj t'. keygen_session L ec i j t = Inr ((oi, oj), t')
    \<and> ko_ssid oi = ko_ssid oj \<and> ko_X oi = ko_X oj
    \<and> ko_X oi = ec_mult ec (ko_xi oi + ko_xi oj) (generator ec)
    \<and> ko_Xj oi = ec_mult ec (ko_xi oj) (generator ec) \<and> ko_Xj oj = ec_mult ec (ko_xi oi) (generator ec)
    \<and> 0 < ko_xi oi \<and> ko_xi oi < cn ec \<and> 0 < ko_xi oj \<and> ko_xi oj < cn ec"
proof -
  obtain si where si: "keygen_init L ec i t = Inr (si, drop 3 t)"
    using keygen_init_returns [OF g, of t i] t by auto
  obtain sj where sj: "keygen_init L ec j (drop 3 t) = Inr (sj, drop 6 t)"
  proof -
    have "3 \<le> length (drop 3 t)" using t by simp
    then show thesis using keygen_init_returns [OF g, of "drop 3 t" j] that by auto
  qed
  have wf: "keygen_wf L ec si" "keygen_wf L ec sj" and ids: "kg_id si = i" "kg_id sj = j"
    using keygen_init_wf [OF g si] keygen_init_wf [OF g sj] by auto
  have ne: "drop 6 t \<noteq> []" "drop 7 t \<noteq> []" using t by simp_all
  obtain mi si' where ri: "keygen_round3 L ec si (keygen_round1 sj) (keygen_round2 sj) (drop 6 t)
      = Inr ((mi, si'), drop 7 t)"
    using keygen_round3_returns [OF g wf ne(1)] by (auto simp: tl_drop drop_Suc [symmetric] drop_tl)
  note li = keygen_round3_links [OF ri]
  have wf': "keygen_wf L ec si'" using li wf(1) by simp
  obtain mj sj' where rj: "keygen_round3 L ec sj (keygen_round1 si') (keygen_round2 si') (drop 7 t)
      = Inr ((mj, sj'), tl (drop 7 t))"
    using keygen_round3_returns [OF g wf(2) wf' ne(2)] by auto
  note lj = keygen_round3_links [OF rj]
  have oi: "keygen_round_out L ec si' (kg_id sj) mj = Inr \<lparr> ko_ssid = kg_rid si' XOR kg_rid sj,
      ko_xi = kg_xi si', ko_Xi = kg_Xi si', ko_Xj = kg_Xi sj,
      ko_X = ec_mult ec (kg_xi si' + kg_xi sj) (generator ec) \<rparr>"
    using keygen_round_out_accepts [OF g wf' wf(2) rj] li by blast
  have "keygen_linked sj' si" using lj li by (simp add: keygen_linked_def)
  moreover have "keygen_round3 L ec si (keygen_round1 sj') (keygen_round2 sj') (drop 6 t)
      = Inr ((mi, si'), drop 7 t)" using ri lj by simp
  moreover have "keygen_wf L ec sj'" using lj wf(2) by simp
  ultimately have oj: "keygen_round_out L ec sj' (kg_id si) mi = Inr \<lparr> ko_ssid = kg_rid sj' XOR kg_rid si,
      ko_xi = kg_xi sj', ko_Xi = kg_Xi sj', ko_Xj = kg_Xi si,
      ko_X = ec_mult ec (kg_xi sj' + kg_xi si) (generator ec) \<rparr>"
    using keygen_round_out_accepts [OF g _ wf(1)] by blast
  have run: "keygen_session L ec i j t = Inr ((
      \<lparr> ko_ssid = kg_rid si' XOR kg_rid sj, ko_xi = kg_xi si', ko_Xi = kg_Xi si', ko_Xj = kg_Xi sj,
        ko_X = ec_mult ec (kg_xi si' + kg_xi sj) (generator ec) \<rparr>,
      \<lparr> ko_ssid = kg_rid sj' XOR kg_rid si, ko_xi = kg_xi sj', ko_Xi = kg_Xi sj', ko_Xj = kg_Xi si,
        ko_X = ec_mult ec (kg_xi sj' + kg_xi si) (generator ec) \<rparr>), tl (drop 7 t))"
    unfolding keygen_session_def
    using si sj ri rj oi oj ids by (simp add: rbind_app rret_def)
  moreover have "kg_rid si' XOR kg_rid sj = kg_rid sj' XOR kg_rid si"
    using li lj by (simp add: xor.commute)
  moreover have "kg_xi si' + kg_xi sj = kg_xi sj' + kg_xi si" using li lj by simp
  ultimately show ?thesis using wf li lj by (simp add: keygen_wf_def add.commute)
qed

end

end
