(* ===== verification/Decimal.thy ===== *)
theory Decimal
  imports Json
begin

text \<open>
  Decimal text: Python's \<^verbatim>\<open>str(i)\<close> and \<^verbatim>\<open>int(v)\<close>, and the proof that reading inverts writing up to the
  interpreter's limit of 4300 digits.
\<close>

section \<open>Writing\<close>

definition dec_digit :: "int \<Rightarrow> char" where
  "dec_digit d = ''0123456789'' ! nat d"

text \<open>\<^verbatim>\<open>str(n)\<close>, for a natural number and for an integer.\<close>

function decimal :: "int \<Rightarrow> string" where
  "decimal n = (if n < 10 then [dec_digit n] else decimal (n div 10) @ [dec_digit (n mod 10)])"
  by pat_completeness auto
termination
  by (relation "measure nat") auto

declare decimal.simps [simp del]

definition show_int :: "int \<Rightarrow> string" where
  "show_int i = (if i < 0 then ''-'' @ decimal (- i) else decimal i)"

section \<open>Reading\<close>

definition dec_value :: "char \<Rightarrow> int option" where
  "dec_value c = map_of (zip ''0123456789'' [0..9]) c"

fun dec_digits :: "int \<Rightarrow> string \<Rightarrow> int res" where
  "dec_digits acc [] = Inr acc"
| "dec_digits acc [c] =
     (case dec_value c of None \<Rightarrow> Inl ValueError | Some v \<Rightarrow> Inr (acc * 10 + v))"
| "dec_digits acc (c # d # cs) =
     (if c = CHR ''_'' then
        (case dec_value d of None \<Rightarrow> Inl ValueError | Some v \<Rightarrow> dec_digits (acc * 10 + v) cs)
      else
        (case dec_value c of None \<Rightarrow> Inl ValueError | Some v \<Rightarrow> dec_digits (acc * 10 + v) (d # cs)))"

text \<open>The interpreter refuses numbers of more than 4300 digits.\<close>

definition MAX_STR_DIGITS :: nat where
  "MAX_STR_DIGITS = 4300"

definition dec_number :: "string \<Rightarrow> int res" where
  "dec_number s =
     (case s of
        [] \<Rightarrow> Inl ValueError
      | c # cs \<Rightarrow>
          if MAX_STR_DIGITS < length (filter (\<lambda>c. dec_value c \<noteq> None) s) then Inl ValueError
          else (case dec_value c of None \<Rightarrow> Inl ValueError | Some v \<Rightarrow> dec_digits v cs))"

text \<open>\<^verbatim>\<open>int(v)\<close> of a JSON value; a float is truncated towards zero.\<close>

definition py_int :: "json \<Rightarrow> int res" where
  "py_int v =
     (case v of
        JInt i \<Rightarrow> Inr i
      | JBool b \<Rightarrow> Inr (if b then 1 else 0)
      | JFloat r \<Rightarrow> Inr (if 0 \<le> r then \<lfloor>r\<rfloor> else \<lceil>r\<rceil>)
      | JStr s \<Rightarrow>
          (case py_strip s of
             [] \<Rightarrow> Inl ValueError
           | c # cs \<Rightarrow>
               if c = CHR ''-'' then ebind (dec_number cs) (\<lambda>n. Inr (- n))
               else if c = CHR ''+'' then dec_number cs
               else dec_number (c # cs))
      | _ \<Rightarrow> Inl TypeError)"

section \<open>Round trip\<close>

lemma ten_cases:
  fixes d :: int
  assumes "0 \<le> d" and "d < 10"
  shows "d \<in> {0, 1, 2, 3, 4, 5, 6, 7, 8, 9}"
  using assms unfolding insert_iff empty_iff by presburger

lemma dec_digit_props:
  assumes "0 \<le> d" and "d < 10"
  shows "dec_value (dec_digit d) = Some d \<and> \<not> is_space (dec_digit d) \<and> dec_digit d \<noteq> CHR ''_''
    \<and> dec_digit d \<noteq> CHR ''-'' \<and> dec_digit d \<noteq> CHR ''+''"
  using ten_cases [OF assms]
  by (elim insertE) (simp_all add: dec_value_def dec_digit_def is_space_def of_char_def upto.simps)

lemma dec_value_underscore: "dec_value CHR ''_'' = None"
  by (simp add: dec_value_def upto.simps)

lemma decimal_digits: "0 \<le> n \<Longrightarrow> c \<in> set (decimal n) \<Longrightarrow> \<exists>d. 0 \<le> d \<and> d < 10 \<and> c = dec_digit d"
proof (induction n rule: decimal.induct)
  case (1 n)
  then show ?case
    by (cases "n < 10") (auto simp: decimal.simps [of n] intro: exI [of _ n] exI [of _ "n mod 10"])
qed

lemma decimal_ne [simp]: "decimal n \<noteq> []"
  by (subst decimal.simps) simp

definition dec_fold :: "int \<Rightarrow> string \<Rightarrow> int" where
  "dec_fold = foldl (\<lambda>a c. a * 10 + the (dec_value c))"

lemma dec_digits_clean:
  "\<forall>c\<in>set s. dec_value c \<noteq> None \<Longrightarrow> dec_digits acc s = Inr (dec_fold acc s)"
  by (induction acc s rule: dec_digits.induct)
    (auto simp: dec_fold_def dec_value_underscore split: option.splits)

lemma dec_fold_decimal: "0 \<le> n \<Longrightarrow> dec_fold 0 (decimal n) = n"
proof (induction n rule: decimal.induct)
  case (1 n)
  then show ?case
    by (cases "n < 10") (auto simp: decimal.simps [of n] dec_fold_def dec_digit_props)
qed

lemma decimal_length: "0 \<le> n \<Longrightarrow> n < 10 ^ k \<Longrightarrow> 0 < k \<Longrightarrow> length (decimal n) \<le> k"
proof (induction n arbitrary: k rule: decimal.induct)
  case (1 n)
  show ?case
  proof (cases "n < 10")
    case False
    then obtain j where k: "k = Suc j" "0 < j" using "1.prems" by (cases k; cases "k = 1") auto
    then have "n div 10 < 10 ^ j" using "1.prems" by auto
    then show ?thesis using 1 False k by (simp add: decimal.simps [of n])
  qed (use "1.prems" in \<open>simp add: decimal.simps [of n]\<close>)
qed

lemma max_pos: "0 < MAX_STR_DIGITS"
  by (simp add: MAX_STR_DIGITS_def)

lemma dec_number_decimal:
  assumes "0 \<le> n" and "n < 10 ^ MAX_STR_DIGITS"
  shows "dec_number (decimal n) = Inr n"
proof -
  have clean: "\<forall>c\<in>set (decimal n). dec_value c \<noteq> None"
    using decimal_digits [OF assms(1)] dec_digit_props by fastforce
  obtain c cs where c: "decimal n = c # cs" by (cases "decimal n") auto
  then obtain v where v: "dec_value c = Some v" using clean by auto
  have "dec_digits v cs = Inr (dec_fold v cs)" using clean c by (intro dec_digits_clean) simp
  moreover have "dec_fold v cs = n" using dec_fold_decimal [OF assms(1)] v by (simp add: c dec_fold_def)
  moreover have "length (filter (\<lambda>c. dec_value c \<noteq> None) (decimal n)) \<le> MAX_STR_DIGITS"
    using length_filter_le [of "\<lambda>c. dec_value c \<noteq> None" "decimal n"] decimal_length [OF assms max_pos] by linarith
  ultimately show ?thesis using v by (simp add: dec_number_def c)
qed

lemma decimal_ends:
  assumes "0 \<le> n"
  shows "\<not> is_space (hd (decimal n)) \<and> \<not> is_space (last (decimal n))
    \<and> hd (decimal n) \<noteq> CHR ''-'' \<and> hd (decimal n) \<noteq> CHR ''+''"
  using decimal_digits [OF assms, of "hd (decimal n)"] decimal_digits [OF assms, of "last (decimal n)"]
    dec_digit_props by force

lemma py_int_show:
  assumes "\<bar>i\<bar> < 10 ^ MAX_STR_DIGITS"
  shows "py_int (JStr (show_int i)) = Inr i"
proof (cases "i < 0")
  case True
  have "\<not> is_space CHR ''-''" by (simp add: is_space_def of_char_def)
  then have "py_strip (show_int i) = show_int i"
    using True decimal_ends [of "- i"] by (intro strip_id) (simp_all add: show_int_def)
  moreover have "dec_number (decimal (- i)) = Inr (- i)" using True assms by (intro dec_number_decimal) simp_all
  ultimately show ?thesis using True by (simp add: py_int_def show_int_def)
next
  case False
  then have "py_strip (show_int i) = show_int i"
    using decimal_ends [of i] by (intro strip_id) (simp_all add: show_int_def)
  moreover have "dec_number (decimal i) = Inr i" using False assms by (intro dec_number_decimal) simp_all
  ultimately show ?thesis using False decimal_ends [of i]
    by (cases "decimal i") (simp_all add: py_int_def show_int_def)
qed

end
