(* ===== verification/ZkPrm.thy ===== *)
theory ZkPrm
  imports ZkCommon
begin

text \<open>
  \<^verbatim>\<open>crypto/zkp/prm.py\<close>: the proof that \<open>s\<close> is a power of \<open>t\<close> modulo \<open>N\<close>, by eighty parallel
  rounds whose one-bit challenges are the low bits of one hash.
\<close>

section \<open>The code\<close>

record proof_prm =
  prm_A :: "int list"
  prm_Z :: "int list"

definition prm_Iterations :: nat where
  "prm_Iterations = 80"

definition ProofPrmBytesParts :: nat where
  "ProofPrmBytesParts = prm_Iterations * 2"

definition bit_of :: "int \<Rightarrow> nat \<Rightarrow> int" where
  "bit_of e i = drop_bit i e AND 1"

definition prm_response :: "int \<Rightarrow> int \<Rightarrow> int \<Rightarrow> int list \<Rightarrow> int list" where
  "prm_response e lam Phi a = map (\<lambda>i. (a ! i + bit_of e i * lam) mod Phi) [0..<prm_Iterations]"

definition prm_new_proof :: "lib \<Rightarrow> int \<Rightarrow> int \<Rightarrow> int \<Rightarrow> int \<Rightarrow> int \<Rightarrow> int \<Rightarrow> proof_prm rnd" where
  "prm_new_proof L ssid s t N Phi lam =
     (if s = 0 \<or> t = 0 \<or> N = 0 \<or> Phi = 0 \<or> lam = 0 then rlift (Inl ValueError)
      else
        rbind (rtimes prm_Iterations (random_nonnegative_int Phi)) (\<lambda>a.
        rlift (
          ebind (emap (\<lambda>ai. powmod L t ai N) a) (\<lambda>A.
          ebind (sha512_256i L ([ssid, s, t, N] @ A)) (\<lambda>e.
          Inr \<lparr> prm_A = A, prm_Z = prm_response e lam Phi a \<rparr>)))))"

definition prm_from_bytes :: "bytes list \<Rightarrow> proof_prm res" where
  "prm_from_bytes parts =
     (if parts = [] \<or> length parts \<noteq> ProofPrmBytesParts then Inl ValueError
      else let bis = map int_from_bytes parts in
        Inr \<lparr> prm_A = take prm_Iterations bis, prm_Z = drop prm_Iterations bis \<rparr>)"

definition prm_to_bytes_parts :: "proof_prm \<Rightarrow> bytes list" where
  "prm_to_bytes_parts pf = map int_to_bytes (prm_A pf) @ map int_to_bytes (prm_Z pf)"

text \<open>The rounds of the final loop, from round \<open>i\<close> on; indexing past a list raises \<^verbatim>\<open>IndexError\<close>.\<close>

definition py_nth :: "'a list \<Rightarrow> nat \<Rightarrow> 'a res" where
  "py_nth xs i = (if i < length xs then Inr (xs ! i) else Inl IndexError)"

fun prm_rounds :: "lib \<Rightarrow> int \<Rightarrow> int \<Rightarrow> int \<Rightarrow> int \<Rightarrow> int list \<Rightarrow> int list \<Rightarrow> nat list \<Rightarrow> bool res" where
  "prm_rounds L e s t N A Z [] = Inr True"
| "prm_rounds L e s t N A Z (i # is) =
     ebind (py_nth Z i) (\<lambda>Zi.
     ebind (powmod L t Zi N) (\<lambda>left.
     ebind (powmod L s (bit_of e i) N) (\<lambda>right_term.
     ebind (py_nth A i) (\<lambda>Ai.
     if left \<noteq> Ai * right_term mod N then Inr False
     else prm_rounds L e s t N A Z is))))"

definition prm_verify :: "lib \<Rightarrow> proof_prm \<Rightarrow> int \<Rightarrow> int \<Rightarrow> int \<Rightarrow> int \<Rightarrow> bool res" where
  "prm_verify L pf ssid s t N =
     (if s = 0 \<or> t = 0 \<or> N = 0 \<or> N \<le> 0 then Inr False
      else
        ebind (sha512_256i L ([ssid, s, t, N] @ prm_A pf)) (\<lambda>e.
        let s' = s mod N; t' = t mod N in
        if \<not> (1 < s' \<and> s' < N) \<or> \<not> (1 < t' \<and> t' < N) \<or> s' = t' then Inr False
        else if list_ex (\<lambda>a. \<not> (1 < a \<and> a < N)) (prm_A pf) then Inr False
        else if list_ex (\<lambda>z. z < 0) (prm_Z pf) then Inr False
        else prm_rounds L e s t N (prm_A pf) (prm_Z pf) [0..<prm_Iterations]))"

section \<open>Properties\<close>

lemma bit_of_01: "bit_of e i = 0 \<or> bit_of e i = 1"
  by (auto simp: bit_of_def and_one_eq)

definition prm_round_ok :: "int \<Rightarrow> int \<Rightarrow> int \<Rightarrow> int \<Rightarrow> int \<Rightarrow> int \<Rightarrow> bool" where
  "prm_round_ok s t N b A z \<longleftrightarrow> t ^ nat z mod N = A * (s ^ nat b mod N) mod N"

text \<open>Two accepting rounds with one commitment and both challenge bits show that \<open>s\<close> is a power of \<open>t\<close>.\<close>

lemma prm_extract:
  assumes "coprime t N" and "1 < N"
    and "prm_round_ok s t N 0 A z0" and "prm_round_ok s t N 1 A z1"
    and "0 \<le> z0" "0 \<le> z1"
  shows "s mod N = ipow N t (z1 - z0)"
proof -
  have A: "A mod N = t ^ nat z0 mod N" using assms(2,3) by (simp add: prm_round_ok_def)
  have "t ^ nat z0 * s mod N = t ^ nat z1 mod N"
  proof -
    have "t ^ nat z0 * s mod N = (A mod N) * s mod N" unfolding A by (rule mod_mult_left_eq [symmetric])
    also have "\<dots> = A * (s mod N) mod N" by (simp add: mod_mult_left_eq mod_mult_right_eq)
    finally show ?thesis using assms(4) by (simp add: prm_round_ok_def)
  qed
  moreover have "t ^ nat z0 * ipow N t (z1 - z0) mod N = t ^ nat z1 mod N"
    using ipow_add [OF assms(1,2), of z0 "z1 - z0"] assms(5,6)
    by (simp add: ipow_nonneg mod_mult_left_eq)
  ultimately have "t ^ nat z0 * s mod N = t ^ nat z0 * ipow N t (z1 - z0) mod N" by simp
  then have "s mod N = ipow N t (z1 - z0) mod N"
    by (rule mult_cancel_mod [rotated]) (use assms(1) in simp)
  then show ?thesis by (simp add: ipow_def)
qed

context lib_ok
begin

lemma prm_rounds_ok:
  assumes "0 < N" and "\<forall>i\<in>set is. i < length A \<and> i < length Z \<and> 0 \<le> Z ! i"
  shows "prm_rounds L e s t N A Z is
    = Inr (\<forall>i\<in>set is. prm_round_ok s t N (bit_of e i) (A ! i) (Z ! i))"
  using assms(2)
proof (induction "is")
  case (Cons i "is")
  have "0 \<le> bit_of e i" using bit_of_01 [of e i] by auto
  with Cons assms(1) show ?case
    by (simp add: py_nth_def powmod_nonneg prm_round_ok_def)
qed simp

text \<open>What an accepted proof says.\<close>

lemma prm_verify_meaning:
  assumes "length (prm_A pf) = prm_Iterations" "length (prm_Z pf) = prm_Iterations"
    and e: "sha512_256i L ([ssid, s, t, N] @ prm_A pf) = Inr e"
  shows "prm_verify L pf ssid s t N = Inr
    (s \<noteq> 0 \<and> t \<noteq> 0 \<and> 0 < N \<and> 1 < s mod N \<and> 1 < t mod N \<and> s mod N \<noteq> t mod N
     \<and> (\<forall>a\<in>set (prm_A pf). 1 < a \<and> a < N) \<and> (\<forall>z\<in>set (prm_Z pf). 0 \<le> z)
     \<and> (\<forall>i < prm_Iterations. prm_round_ok s t N (bit_of e i) (prm_A pf ! i) (prm_Z pf ! i)))"
proof (cases "0 < N \<and> list_all (\<lambda>z. 0 \<le> z) (prm_Z pf)")
  case True
  then have "\<forall>i\<in>set [0..<prm_Iterations]. i < length (prm_A pf) \<and> i < length (prm_Z pf) \<and> 0 \<le> prm_Z pf ! i"
    using assms by (auto simp: list_all_length)
  then have rounds: "prm_rounds L e s t N (prm_A pf) (prm_Z pf) [0..<prm_Iterations]
      = Inr (\<forall>i < prm_Iterations. prm_round_ok s t N (bit_of e i) (prm_A pf ! i) (prm_Z pf ! i))"
    using True by (subst prm_rounds_ok) (auto simp: Ball_def)
  have "list_ex (\<lambda>z. z < 0) (prm_Z pf) = False" "(\<forall>z\<in>set (prm_Z pf). 0 \<le> z) = True"
    using True by (auto simp: list_all_iff list_ex_iff)
  then show ?thesis
    unfolding prm_verify_def Let_def e ebind_Inr rounds
    using True by (auto simp: list_ex_iff)
next
  case False
  then show ?thesis
    unfolding prm_verify_def Let_def e ebind_Inr
    by (auto simp: list_ex_iff list_all_iff)
qed

lemma prm_complete:
  assumes new: "prm_new_proof L ssid (t ^ nat lam mod N) t N Phi lam tp = Inr (pf, tp')"
    and t: "coprime t N" "1 < t" "t < N" "t ^ nat Phi mod N = 1" and lam: "0 \<le> lam"
    and s: "1 < t ^ nat lam mod N" "t ^ nat lam mod N \<noteq> t" and A: "\<forall>a\<in>set (prm_A pf). 1 < a"
  shows "prm_verify L pf ssid (t ^ nat lam mod N) t N = Inr True"
proof -
  let ?s = "t ^ nat lam mod N"
  have N: "0 < N" using t by simp
  from new obtain a A e where a: "rtimes prm_Iterations (random_nonnegative_int Phi) tp = Inr (a, tp')"
    and A': "emap (\<lambda>ai. powmod L t ai N) a = Inr A"
    and e: "sha512_256i L ([ssid, ?s, t, N] @ A) = Inr e"
    and pf: "pf = \<lparr> prm_A = A, prm_Z = prm_response e lam Phi a \<rparr>"
    by (auto simp: prm_new_proof_def rnd_simps res_simps split: if_splits)
  have la: "length a = prm_Iterations" using a by (rule rtimes_length)
  have ra: "0 \<le> x \<and> x < Phi" if "x \<in> set a" for x
    using a that by (rule rtimes_all [rotated]) (rule random_nonnegative_int_range)
  have mapA: "A = map (\<lambda>ai. t ^ nat ai mod N) a"
    using A' emap_Inr [of a "\<lambda>ai. powmod L t ai N" "\<lambda>ai. t ^ nat ai mod N"] ra N
    by (simp add: powmod_nonneg)
  have Phi: "0 < Phi"
    using ra [of "a ! 0"] la by (force simp: prm_Iterations_def)
  have round: "prm_round_ok ?s t N (bit_of e i) (A ! i) (prm_response e lam Phi a ! i)"
    if i: "i < prm_Iterations" for i
  proof -
    let ?b = "bit_of e i"
    have ai: "0 \<le> a ! i" using ra la i by simp
    have b: "0 \<le> ?b" using bit_of_01 [of e i] by auto
    have "t ^ nat ((a ! i + ?b * lam) mod Phi) mod N = t ^ nat (a ! i + ?b * lam) mod N"
    proof -
      let ?k = "a ! i + ?b * lam"
      have k0: "0 \<le> ?k" using ai b lam by simp
      then have "nat ?k = nat Phi * nat (?k div Phi) + nat (?k mod Phi)"
        using Phi by (simp flip: nat_mult_distrib nat_add_distrib add: pos_imp_zdiv_nonneg_iff)
      then have "t ^ nat ?k mod N = ((t ^ nat Phi) ^ nat (?k div Phi) * t ^ nat (?k mod Phi)) mod N"
        by (simp add: power_add power_mult)
      also have "\<dots> = ((t ^ nat Phi mod N) ^ nat (?k div Phi) * t ^ nat (?k mod Phi)) mod N"
        by (intro mod_mult_cong) (simp_all add: power_mod)
      finally show ?thesis using t(4) by simp
    qed
    also have "\<dots> = (t ^ nat (a ! i) mod N) * (?s ^ nat ?b mod N) mod N"
      using ai b lam bit_of_01 [of e i]
      by (auto simp: nat_add_distrib power_add mod_mult_left_eq mod_mult_right_eq)
    finally show ?thesis using i la by (simp add: prm_round_ok_def mapA prm_response_def)
  qed
  have "\<forall>a\<in>set A. 1 < a \<and> a < N" using A N by (auto simp: pf mapA)
  moreover have "\<forall>z\<in>set (prm_response e lam Phi a). 0 \<le> z" using Phi by (auto simp: prm_response_def)
  ultimately show ?thesis
    using prm_verify_meaning [of pf ssid ?s t N e] e la round t s N
    by (simp add: pf mapA [symmetric] prm_response_def) (simp add: mapA prm_Iterations_def)
qed

end

section \<open>Wire format\<close>

definition prm_wf :: "proof_prm \<Rightarrow> bool" where
  "prm_wf pf \<longleftrightarrow> length (prm_A pf) = prm_Iterations \<and> length (prm_Z pf) = prm_Iterations
     \<and> (\<forall>a\<in>set (prm_A pf). 0 \<le> a) \<and> (\<forall>z\<in>set (prm_Z pf). 0 \<le> z)"

interpretation prm_wire: wire_codec prm_to_bytes_parts prm_from_bytes prm_wf ProofPrmBytesParts
proof (unfold_locales, goal_cases)
  case (2 p)
  then have "map (int_from_bytes \<circ> int_to_bytes) (prm_A p) = prm_A p"
    "map (int_from_bytes \<circ> int_to_bytes) (prm_Z p) = prm_Z p"
    by (auto simp: prm_wf_def intro!: map_idI)
  with 2 show ?case
    by (auto simp: prm_to_bytes_parts_def prm_from_bytes_def ProofPrmBytesParts_def prm_wf_def
        prm_Iterations_def Let_def)
qed (auto simp: prm_to_bytes_parts_def prm_from_bytes_def ProofPrmBytesParts_def prm_wf_def)

end
