(* ===== verification/Blum.thy ===== *)
theory Blum
  imports Libs
begin

text \<open>
  Quadratic residues modulo primes \<open>p\<close> with \<open>(p - 1) div 2\<close> odd, the only case the proof of
  \<^verbatim>\<open>crypto/zkp/mod.py\<close> needs: the residues are the elements whose power \<open>(p - 1) div 2\<close> is one,
  exactly one of \<open>a\<close> and \<open>- a\<close> is a residue, and fourth roots are computed by one power.
\<close>

definition half :: "int \<Rightarrow> nat" where
  "half p = nat ((p - 1) div 2)"

definition blum_prime :: "int \<Rightarrow> bool" where
  "blum_prime p \<longleftrightarrow> is_prime p \<and> p mod 4 = 3"

definition qr :: "int \<Rightarrow> int \<Rightarrow> bool" where
  "qr p a \<longleftrightarrow> a ^ half p mod p = 1"

lemma blum_half:
  assumes "blum_prime p"
  shows "p = 2 * int (half p) + 1" and "odd (half p)" and "2 < p" and "odd p"
proof -
  have g: "1 < p" using assms is_prime_gt1 by (auto simp: blum_prime_def)
  define k where "k = p div 4"
  have "p mod 4 = 3" using assms by (simp add: blum_prime_def)
  then have p: "p = 4 * k + 3" unfolding k_def by presburger
  with g have k: "0 \<le> k" by simp
  have "(p - 1) div 2 = 2 * k + 1" using p by simp
  then have h: "half p = 2 * nat k + 1" using k by (simp add: half_def)
  then show "p = 2 * int (half p) + 1" and "odd (half p)" using p k by simp_all
  show "2 < p" and "odd p" using p k by simp_all
qed

lemma blum_prime_odd: "blum_prime p \<Longrightarrow> is_prime p"
  by (simp add: blum_prime_def)

lemma half_power:
  assumes "blum_prime p" and "\<not> p dvd a"
  shows "a ^ half p mod p = 1 \<or> a ^ half p mod p = p - 1"
proof -
  let ?x = "a ^ half p"
  have pr: "is_prime p" and g: "2 < p" using assms blum_half by (auto simp: blum_prime_def)
  have "nat (p - 1) = half p * 2" using blum_half(1) [OF assms(1)] by linarith
  then have "?x * ?x mod p = 1"
    using fermat [OF pr assms(2)] by (simp add: power_mult power2_eq_square)
  then have "p dvd (?x - 1) * (?x + 1)"
    using g by (simp add: algebra_simps) (metis mod_eq_dvd_iff mod_pos_pos_trivial one_less_numeral_iff
        order_less_trans semiring_norm(76) zero_le_one)
  then consider "p dvd ?x - 1" | "p dvd ?x + 1" using is_prime_dvd_mult [OF pr] by blast
  then show ?thesis
  proof cases
    case 1
    then have "?x mod p = 1 mod p" by (simp add: mod_eq_dvd_iff)
    with g show ?thesis by simp
  next
    case 2
    then have "?x mod p = - 1 mod p" by (simp add: mod_eq_dvd_iff)
    with g show ?thesis by (simp add: zmod_minus1)
  qed
qed

lemma qr_neg:
  assumes "blum_prime p" and "\<not> p dvd a"
  shows "qr p (- a) \<longleftrightarrow> \<not> qr p a"
proof -
  have g: "2 < p" and o: "odd (half p)" using blum_half [OF assms(1)] by auto
  have neg: "(- a) ^ half p mod p = (- (a ^ half p mod p)) mod p"
    using o by (simp add: mod_minus_eq)
  consider "a ^ half p mod p = 1" | "a ^ half p mod p = p - 1" using half_power [OF assms] by blast
  then show ?thesis
  proof cases
    case 1
    then have "(- a) ^ half p mod p = p - 1"
      using g neg zmod_zminus1_eq_if [of 1 p] by simp
    with 1 g show ?thesis by (simp add: qr_def)
  next
    case 2
    then have "(- a) ^ half p mod p = 1"
      using g neg zmod_zminus1_eq_if [of "p - 1" p] by simp
    with 2 g show ?thesis by (simp add: qr_def)
  qed
qed

lemma qr_mult:
  assumes "blum_prime p" and "\<not> p dvd a" and "\<not> p dvd b"
  shows "qr p (a * b) \<longleftrightarrow> (qr p a \<longleftrightarrow> qr p b)"
proof -
  have g: "2 < p" using blum_half [OF assms(1)] by auto
  let ?a = "a ^ half p mod p" and ?b = "b ^ half p mod p"
  have ab: "(a * b) ^ half p mod p = ?a * ?b mod p"
    by (simp add: power_mult_distrib mod_mult_eq)
  have "(p - 1) * (p - 1) mod p = 1"
  proof -
    have "(p - 1) * (p - 1) = 1 + p * (p - 2)" by (simp add: algebra_simps)
    then show ?thesis using g by (metis mod_mult_self2 mod_pos_pos_trivial less_trans one_less_numeral_iff
          semiring_norm(76) zero_le_one)
  qed
  then show ?thesis
    using half_power [OF assms(1,2)] half_power [OF assms(1,3)] ab g
    by (auto simp: qr_def zmod_minus1)
qed

lemma legendre_blum:
  assumes "blum_prime p" and nd: "\<not> p dvd a"
  shows "legendre a p = (if qr p a then 1 else - 1)"
proof -
  have pr: "is_prime p" and g: "2 < p" and o: "odd (half p)" and h: "p = 2 * int (half p) + 1"
    using assms blum_half by (auto simp: blum_prime_def)
  have "list_ex (\<lambda>x. x * x mod p = a mod p) [1..p - 1] \<longleftrightarrow> qr p a"
  proof
    assume "list_ex (\<lambda>x. x * x mod p = a mod p) [1..p - 1]"
    then obtain x where x: "1 \<le> x" "x \<le> p - 1" "x * x mod p = a mod p" by (auto simp: list_ex_iff)
    then have "\<not> p dvd x" by (auto dest: zdvd_imp_le)
    have "a ^ half p mod p = (x * x) ^ half p mod p" using x(3) by (intro mod_power_cong) simp
    also have "(x * x) ^ half p = x ^ nat (p - 1)"
    proof -
      have "nat (p - 1) = 2 * half p" using h by linarith
      then show ?thesis by (simp add: power_mult power2_eq_square)
    qed
    also have "x ^ nat (p - 1) mod p = 1" using pr \<open>\<not> p dvd x\<close> by (rule fermat)
    finally show "qr p a" by (simp add: qr_def)
  next
    assume q: "qr p a"
    let ?r = "a ^ ((half p + 1) div 2) mod p"
    have "(half p + 1) div 2 + (half p + 1) div 2 = half p + 1" using o by presburger
    then have "?r * ?r mod p = a ^ half p * a mod p"
      by (simp add: mod_mult_eq mult.commute flip: power_add)
    also have "\<dots> = (a ^ half p mod p) * a mod p" by (simp add: mod_mult_left_eq)
    also have "\<dots> = a mod p" using q by (simp add: qr_def)
    finally have "?r * ?r mod p = a mod p" .
    moreover have "?r \<noteq> 0"
      using is_prime_dvd_power [OF pr] nd by (auto simp: mod_eq_0_iff_dvd)
    moreover have "0 \<le> ?r" "?r < p" using g by simp_all
    ultimately have "?r \<in> set [1..p - 1]" by auto
    with \<open>?r * ?r mod p = a mod p\<close> show "list_ex (\<lambda>x. x * x mod p = a mod p) [1..p - 1]"
      unfolding list_ex_iff by blast
  qed
  with nd show ?thesis by (simp add: legendre_def)
qed

text \<open>
  For \<open>y\<close> coprime to \<open>N = P Q\<close> and \<open>W\<close> with opposite characters modulo the two primes, one of
  \<open>\<plusminus> y\<close>, \<open>\<plusminus> W y\<close> is a residue modulo both.
\<close>

definition twist :: "int \<Rightarrow> int \<Rightarrow> int \<Rightarrow> int \<Rightarrow> int \<Rightarrow> int" where
  "twist N W a b y =
     (let y1 = if 0 < a then (- y) mod N else y in if 0 < b then W * y1 mod N else y1)"

lemma qr_mod: "p dvd n \<Longrightarrow> qr p (a mod n) \<longleftrightarrow> qr p a"
  by (metis mod_mod_cancel power_mod qr_def)

lemma twist_residue:
  assumes "blum_prime P" "blum_prime Q" and N: "N = P * Q"
    and y: "\<not> P dvd y" "\<not> Q dvd y" and W: "\<not> P dvd W" "\<not> Q dvd W" and "qr P W \<noteq> qr Q W"
  shows "\<exists>a\<in>{0, 1}. \<exists>b\<in>{0, 1}. qr P (twist N W a b y) \<and> qr Q (twist N W a b y)"
proof -
  have d: "P dvd N" "Q dvd N" by (simp_all add: N)
  have m: "qr P (- y mod N) = (\<not> qr P y)" "qr Q (- y mod N) = (\<not> qr Q y)"
    using assms qr_neg qr_mod d by auto
  have w: "qr P (W * y1 mod N) = (qr P W = qr P y1)" "qr Q (W * y1 mod N) = (qr Q W = qr Q y1)"
    if "\<not> P dvd y1" "\<not> Q dvd y1" for y1
    using assms qr_mult qr_mod d that by auto
  have ny: "\<not> P dvd - y mod N" "\<not> Q dvd - y mod N" using y d by (simp_all add: dvd_mod_iff)
  show ?thesis
    using assms(8) m w [OF y] w [OF ny] by (cases "qr P y"; cases "qr Q y"; cases "qr P W") (auto simp: twist_def)
qed

text \<open>Fourth roots of residues by one power.\<close>

lemma fourth_root:
  assumes P: "blum_prime P" and Q: "blum_prime Q" and "P \<noteq> Q" and y: "qr P y" "qr Q y"
    and Phi: "Phi = (P - 1) * (Q - 1)"
  shows "(y ^ nat (((Phi + 4) div 8) ^ 2 mod Phi)) ^ 4 mod (P * Q) = y mod (P * Q)"
proof -
  let ?m = "half P * half Q" and ?h = "(half P * half Q + 1) div 2"
  have hP: "P = 2 * int (half P) + 1" "odd (half P)" "2 < P"
    and hQ: "Q = 2 * int (half Q) + 1" "odd (half Q)" "2 < Q"
    using blum_half [OF P] blum_half [OF Q] by auto
  have "P - 1 = 2 * int (half P)" "Q - 1 = 2 * int (half Q)" using hP(1) hQ(1) by simp_all
  then have Phi4: "Phi = int (4 * ?m)" by (simp add: Phi)
  have odd: "odd ?m" using hP hQ by simp
  have h2: "2 * ?h = ?m + 1" using odd by presburger
  have "(Phi + 4) div 8 = int ?h"
    using Phi4 h2 by linarith
  then have exp: "nat (((Phi + 4) div 8) ^ 2 mod Phi) = ?h ^ 2 mod (4 * ?m)"
    by (simp add: Phi4 nat_mod_distrib flip: of_nat_power of_nat_mult of_nat_mod zmod_int)
  have pow: "y ^ (half R * k) mod R = 1 mod R" if "qr R y" for R k
  proof -
    have "y ^ (half R * k) mod R = (y ^ half R mod R) ^ k mod R" by (simp add: power_mult power_mod)
    with that show ?thesis by (simp add: qr_def)
  qed
  have root: "(y ^ (?h ^ 2 mod (4 * ?m))) ^ 4 mod R = y mod R" if "?m = half R * k" "qr R y" for R k
  proof -
    let ?e = "?h ^ 2 mod (4 * ?m)" and ?d = "?h ^ 2 div (4 * ?m)"
    have "4 * ?h ^ 2 = (2 * ?h) ^ 2" by (simp add: power2_eq_square)
    then have "4 * ?h ^ 2 = ?m * (?m + 2) + 1" unfolding h2 by (simp add: power2_eq_square)
    moreover have "?h ^ 2 = 4 * ?m * ?d + ?e" by simp
    ultimately have "4 * ?e + half R * (16 * k * ?d) = half R * (k * (?m + 2)) + 1"
      using that(1) by (simp add: algebra_simps)
    then have "y ^ (4 * ?e) * y ^ (half R * (16 * k * ?d)) = y ^ (half R * (k * (?m + 2))) * y"
      by (simp flip: power_add)
    then have "y ^ (4 * ?e) * (y ^ (half R * (16 * k * ?d)) mod R) mod R
        = (y ^ (half R * (k * (?m + 2))) mod R) * y mod R"
      by (simp add: mod_mult_left_eq mod_mult_right_eq)
    then show ?thesis
      by (simp add: pow [OF that(2)] mod_mult_left_eq mod_mult_right_eq mult.commute flip: power_mult)
  qed
  have "coprime P Q" using P Q assms(3) by (intro distinct_primes_coprime) (auto simp: blum_prime_def)
  then show ?thesis
    unfolding exp
    by (rule crt_eq) (use root [of P "half Q"] root [of Q "half P"] y in \<open>simp_all add: mult.commute\<close>)
qed

end
