(* ===== verification/ZkMod.thy ===== *)
theory ZkMod
  imports ZkPrm Blum
begin

text \<open>
  \<^verbatim>\<open>crypto/zkp/mod.py\<close>: the proof that a modulus is a Paillier-Blum modulus. Eighty challenges
  are derived from a running hash; for each the prover shows an \<open>N\<close>-th root and a fourth root of
  the challenge twisted by \<open>-1\<close> and \<open>W\<close>. The twist bits travel as bytes of two large integers.
\<close>

section \<open>The code\<close>

record proof_mod =
  md_W :: int
  md_X :: "int list"
  md_A :: int
  md_B :: int
  md_Z :: "int list"

definition mod_Iterations :: nat where
  "mod_Iterations = 80"

definition ProofModBytesParts :: nat where
  "ProofModBytesParts = mod_Iterations * 2 + 3"

text \<open>\<^verbatim>\<open>Y[i]\<close> is the hash of \<^verbatim>\<open>[ssid, W, N] + Y[:i]\<close> reduced modulo \<open>N\<close>.\<close>

fun mod_challenges :: "lib \<Rightarrow> int \<Rightarrow> int \<Rightarrow> int \<Rightarrow> nat \<Rightarrow> int list \<Rightarrow> int list res" where
  "mod_challenges L ssid W N 0 Y = Inr Y"
| "mod_challenges L ssid W N (Suc k) Y =
     ebind (challenge L N ([ssid, W, N] @ Y)) (\<lambda>y. mod_challenges L ssid W N k (Y @ [y]))"

text \<open>The inner loop of the prover: the first of the four twists that is a residue.\<close>

fun mod_try :: "lib \<Rightarrow> int \<Rightarrow> int \<Rightarrow> int \<Rightarrow> int \<Rightarrow> int \<Rightarrow> int list \<Rightarrow> (int \<times> int \<times> int) option res" where
  "mod_try L N P Q W y [] = Inr None"
| "mod_try L N P Q W y (j # js) =
     (let a = j AND 1; b = drop_bit 1 (j AND 2);
          y1 = (if a > 0 then - y mod N else y);
          y2 = (if b > 0 then W * y1 mod N else y1) in
      ebind (is_quadratic_residue L y2 P) (\<lambda>rP.
      ebind (if rP then is_quadratic_residue L y2 Q else Inr False) (\<lambda>rQ.
      if rQ then Inr (Some (a, b, y2)) else mod_try L N P Q W y js)))"

fun mod_prove_rounds ::
    "lib \<Rightarrow> int \<Rightarrow> int \<Rightarrow> int \<Rightarrow> int \<Rightarrow> int \<Rightarrow> int \<Rightarrow> int list \<Rightarrow> int \<Rightarrow> int
      \<Rightarrow> (int list \<times> int \<times> int \<times> int list) res" where
  "mod_prove_rounds L N P Q W expo invN [] A B = Inr ([], A, B, [])"
| "mod_prove_rounds L N P Q W expo invN (y # ys) A B =
     ebind (mod_try L N P Q W y [0, 1, 2, 3]) (\<lambda>choice.
     case choice of
       None \<Rightarrow>
         ebind (mod_prove_rounds L N P Q W expo invN ys A B) (\<lambda>(X, A, B, Z).
         Inr (0 # X, A, B, 0 # Z))
     | Some (a, b, yi) \<Rightarrow>
         ebind (powmod L yi expo N) (\<lambda>x.
         ebind (powmod L y invN N) (\<lambda>z.
         ebind (mod_prove_rounds L N P Q W expo invN ys (push_bit 8 A OR a) (push_bit 8 B OR b))
           (\<lambda>(X, A, B, Z). Inr (x # X, A, B, z # Z)))))"

definition mod_prove :: "lib \<Rightarrow> int \<Rightarrow> int \<Rightarrow> int \<Rightarrow> int \<Rightarrow> int \<Rightarrow> proof_mod res" where
  "mod_prove L ssid N P Q W =
     (let Phi = (P - 1) * (Q - 1) in
      ebind (mod_challenges L ssid W N mod_Iterations []) (\<lambda>Y.
      case invert L N Phi of
        Inl ZeroDivisionError \<Rightarrow> Inl ValueError
      | Inl err \<Rightarrow> Inl err
      | Inr invN \<Rightarrow>
          ebind (powmod L (drop_bit 3 (Phi + 4)) 2 Phi) (\<lambda>expo.
          ebind (mod_prove_rounds L N P Q W expo invN Y 255 255) (\<lambda>(X, A, B, Z).
          Inr \<lparr> md_W = W, md_X = X, md_A = A, md_B = B, md_Z = Z \<rparr>))))"

definition mod_new_proof :: "lib \<Rightarrow> int \<Rightarrow> int \<Rightarrow> int \<Rightarrow> int \<Rightarrow> proof_mod rnd" where
  "mod_new_proof L ssid N P Q =
     (if N = 0 \<or> P = 0 \<or> Q = 0 then rlift (Inl ValueError)
      else rbind (sample_invertible_with_neg_jacobi L N) (\<lambda>W. rlift (mod_prove L ssid N P Q W)))"

definition mod_from_bytes :: "bytes list \<Rightarrow> proof_mod res" where
  "mod_from_bytes parts =
     (if parts = [] \<or> length parts \<noteq> ProofModBytesParts then Inl ValueError
      else let ints = map int_from_bytes parts in
        Inr \<lparr> md_W = ints ! 0, md_X = drop 1 (take (mod_Iterations + 1) ints),
              md_A = ints ! (mod_Iterations + 1), md_B = ints ! (mod_Iterations + 2),
              md_Z = drop (mod_Iterations + 3) ints \<rparr>)"

definition mod_to_bytes_parts :: "proof_mod \<Rightarrow> bytes list" where
  "mod_to_bytes_parts pf =
     [int_to_bytes (md_W pf)] @ map int_to_bytes (md_X pf)
     @ [int_to_bytes (md_A pf)] @ [int_to_bytes (md_B pf)] @ map int_to_bytes (md_Z pf)"

definition twist_byte :: "int \<Rightarrow> nat \<Rightarrow> int" where
  "twist_byte A i = drop_bit (8 * (mod_Iterations - 1 - i)) A AND 255"

fun mod_verify_rounds ::
    "lib \<Rightarrow> int \<Rightarrow> int \<Rightarrow> int \<Rightarrow> int \<Rightarrow> int list \<Rightarrow> int list \<Rightarrow> int list \<Rightarrow> nat list \<Rightarrow> bool res" where
  "mod_verify_rounds L N W A B X Z Y [] = Inr True"
| "mod_verify_rounds L N W A B X Z Y (i # is) =
     ebind (py_nth Z i) (\<lambda>Zi.
     ebind (powmod L Zi N N) (\<lambda>zN.
     ebind (py_nth Y i) (\<lambda>Yi.
     if zN \<noteq> Yi then Inr False
     else
       let a = twist_byte A i; b = twist_byte B i in
       if a \<notin> {0, 1} \<or> b \<notin> {0, 1} then Inr False
       else
         ebind (py_nth X i) (\<lambda>Xi.
         ebind (powmod L Xi 4 N) (\<lambda>left.
         let r1 = (if a > 0 then - Yi mod N else Yi);
             r2 = (if b > 0 then W * r1 mod N else r1) in
         if left \<noteq> r2 then Inr False
         else mod_verify_rounds L N W A B X Z Y is)))))"

definition mod_verify :: "lib \<Rightarrow> proof_mod \<Rightarrow> int \<Rightarrow> int \<Rightarrow> bool res" where
  "mod_verify L pf ssid N =
     (if N = 0 then Inr False
      else
        let W = md_W pf; A = md_A pf; B = md_B pf; X = md_X pf; Z = md_Z pf;
            expected_len_in_bits = 8 * (mod_Iterations + 1) in
        ebind (is_quadratic_residue L W N) (\<lambda>r.
        if r then Inr False
        else if \<not> (0 < W \<and> W < N \<and> list_all (\<lambda>z. 0 < z \<and> z < N) Z
                  \<and> list_all (\<lambda>x. 0 < x \<and> x < N) X) then Inr False
        else if \<not> (expected_len_in_bits - 8 < bit_length A \<and> bit_length A \<le> expected_len_in_bits)
          then Inr False
        else if \<not> (expected_len_in_bits - 8 < bit_length B \<and> bit_length B \<le> expected_len_in_bits)
          then Inr False
        else
          ebind (mod_challenges L ssid W N mod_Iterations []) (\<lambda>Y.
          if even N then Inr False
          else mod_verify_rounds L N W A B X Z Y [0..<mod_Iterations])))"

section \<open>Properties\<close>

definition mod_round_ok :: "int \<Rightarrow> int \<Rightarrow> int \<Rightarrow> int \<Rightarrow> int \<Rightarrow> int \<Rightarrow> int \<Rightarrow> bool" where
  "mod_round_ok N W y a b x z \<longleftrightarrow>
     z ^ nat N mod N = y \<and> a \<in> {0, 1} \<and> b \<in> {0, 1} \<and> x ^ 4 mod N = twist N W a b y"

lemma mod_challenges_length:
  "mod_challenges L ssid W N k Y = Inr Y' \<Longrightarrow> length Y' = length Y + k"
  by (induction k arbitrary: Y) (auto simp: res_simps)

lemma mod_challenges_range:
  "mod_challenges L ssid W N k Y = Inr Y' \<Longrightarrow> \<forall>y\<in>set Y. 0 \<le> y \<and> y < N
    \<Longrightarrow> \<forall>y\<in>set Y'. 0 \<le> y \<and> y < N"
proof (induction k arbitrary: Y)
  case (Suc k)
  then obtain y where y: "challenge L N ([ssid, W, N] @ Y) = Inr y"
    and "mod_challenges L ssid W N k (Y @ [y]) = Inr Y'" by (auto simp: res_simps)
  then show ?case using challenge_range [OF y] Suc.prems(2) by (intro Suc.IH [of "Y @ [y]"]) simp_all
qed simp

lemma and_255: "x AND 255 = x mod 256" for x :: int
  using take_bit_eq_mask [of 8 x] by (simp add: take_bit_eq_mod mask_eq_exp_minus_1)

lemma shift_or: "0 \<le> a \<Longrightarrow> a < 256 \<Longrightarrow> push_bit 8 A OR a = A * 256 + a" for A a :: int
proof -
  assume "0 \<le> a" "a < 256"
  then have t: "take_bit 8 a = a" by (simp add: take_bit_int_eq_self)
  have "push_bit 8 A AND take_bit 8 a = 0"
    by (rule bit_eqI) (auto simp: bit_simps)
  then have "push_bit 8 A OR a = push_bit 8 A + a" by (simp add: t disjunctive_add_eq_or)
  then show ?thesis by (simp add: push_bit_eq_mult)
qed

lemma twist_byte_eq: "twist_byte A i = A div 256 ^ (mod_Iterations - 1 - i) mod 256"
  by (simp add: twist_byte_def and_255 drop_bit_eq_div power_mult)

lemma twist_index:
  "j \<in> {0, 1, 2, 3} \<Longrightarrow> j AND 1 \<in> {0, 1} \<and> drop_bit 1 (j AND 2) \<in> {0, 1}" for j :: int
  by auto

lemma twist_indices:
  "a \<in> {0, 1} \<Longrightarrow> b \<in> {0, 1} \<Longrightarrow> \<exists>j \<in> {0, 1, 2, 3}. j AND 1 = a \<and> drop_bit 1 (j AND 2) = b" for a b :: int
  by auto

text \<open>A twist keeps the challenge a unit.\<close>

lemma twist_unit:
  assumes "1 < N" and "coprime y N" and "coprime W N" and "0 \<le> y" "y < N"
  shows "unit_mod N (twist N W a b y)"
proof -
  have "coprime (- y mod N) N" using assms by (simp add: gcd_mod_eq_1)
  then show ?thesis
    using assms coprime_mod_pos [of y N] coprime_mod_pos [of "- y" N]
      coprime_mod_pos [of "W * y" N] coprime_mod_pos [of "W * (- y mod N)" N]
    by (simp add: unit_mod_def twist_def Let_def gcd_mod_eq_1)
qed

context lib_ok
begin

lemma mod_verify_rounds_ok:
  assumes "0 < N" and "\<forall>i\<in>set is. i < length X \<and> i < length Z \<and> i < length Y"
  shows "mod_verify_rounds L N W A B X Z Y is = Inr
    (\<forall>i\<in>set is. mod_round_ok N W (Y ! i) (twist_byte A i) (twist_byte B i) (X ! i) (Z ! i))"
  using assms(2)
proof (induction "is")
  case (Cons i "is")
  then show ?case
    using assms(1)
    by (simp add: py_nth_def powmod_nonneg mod_round_ok_def Let_def twist_def)
qed simp

text \<open>Over a Blum modulus the inner loop finds a twist that is a residue modulo both primes.\<close>

lemma mod_try_finds:
  assumes P: "blum_prime P" and Q: "blum_prime Q" and N: "N = P * Q"
    and y: "coprime y N" "0 \<le> y" "y < N" and W: "coprime W N"
    and js: "set js \<subseteq> {0, 1, 2, 3}"
    and ex: "\<exists>j\<in>set js. qr P (twist N W (j AND 1) (drop_bit 1 (j AND 2)) y)
      \<and> qr Q (twist N W (j AND 1) (drop_bit 1 (j AND 2)) y)"
  shows "\<exists>a b. mod_try L N P Q W y js = Inr (Some (a, b, twist N W a b y)) \<and> a \<in> {0, 1} \<and> b \<in> {0, 1}
    \<and> qr P (twist N W a b y) \<and> qr Q (twist N W a b y)"
  using js ex
proof (induction js)
  case (Cons j js)
  let ?a = "j AND 1" and ?b = "drop_bit 1 (j AND 2)"
  let ?y = "twist N W ?a ?b y"
  have gt: "1 < P" "1 < Q" using P Q blum_half by fastforce+
  then have N1: "1 < N" using less_1_mult by (simp add: N)
  have "coprime ?y N" using twist_unit [OF N1 y(1) W y(2,3)] by (simp add: unit_mod_def)
  then have nd: "\<not> P dvd ?y" "\<not> Q dvd ?y" using gt by (simp_all add: N coprime_not_dvd)
  have res: "is_quadratic_residue L ?y P = Inr (qr P ?y)" "is_quadratic_residue L ?y Q = Inr (qr Q ?y)"
    using P Q nd blum_half [of P] blum_half [of Q]
    by (auto simp: is_quadratic_residue_def jacobi_symbol_def jacobi_prime blum_prime_odd legendre_blum)
  have step: "mod_try L N P Q W y (j # js)
    = (if qr P ?y \<and> qr Q ?y then Inr (Some (?a, ?b, ?y)) else mod_try L N P Q W y js)"
    using res by (simp add: twist_def Let_def)
  show ?case
  proof (cases "qr P ?y \<and> qr Q ?y")
    case True
    then show ?thesis using step twist_index [of j] Cons.prems(1) by auto
  next
    case False
    then show ?thesis using step Cons by (simp add: if_not_P) blast
  qed
qed simp

text \<open>
  One pass of the prover. Reading the bytes of \<open>A\<close> and \<open>B\<close> from the top gives the twist bits of
  the rounds in their order.
\<close>

definition rounds_ok ::
    "int \<Rightarrow> int \<Rightarrow> int list \<Rightarrow> int \<Rightarrow> int \<Rightarrow> int list \<Rightarrow> int \<Rightarrow> int \<Rightarrow> int list \<Rightarrow> bool" where
  "rounds_ok N W ys A B X A' B' Z \<longleftrightarrow>
     length X = length ys \<and> length Z = length ys
     \<and> A' div 256 ^ length ys = A \<and> B' div 256 ^ length ys = B
     \<and> (\<forall>i < length ys. unit_mod N (X ! i) \<and> unit_mod N (Z ! i)
         \<and> mod_round_ok N W (ys ! i) (A' div 256 ^ (length ys - 1 - i) mod 256)
             (B' div 256 ^ (length ys - 1 - i) mod 256) (X ! i) (Z ! i))"

lemma rounds_ok_Cons:
  assumes tl: "rounds_ok N W ys (A * 256 + a) (B * 256 + b) X A' B' Z"
    and hd: "mod_round_ok N W y a b x z" "unit_mod N x" "unit_mod N z"
  shows "rounds_ok N W (y # ys) A B (x # X) A' B' (z # Z)"
proof -
  have ab: "0 \<le> a" "a < 256" "0 \<le> b" "b < 256" using hd(1) by (auto simp: mod_round_ok_def)
  have d: "A' div 256 ^ length ys = A * 256 + a" "B' div 256 ^ length ys = B * 256 + b"
    using tl by (simp_all add: rounds_ok_def)
  have "A' div 256 ^ length (y # ys) = A' div 256 ^ length ys div 256"
    "B' div 256 ^ length (y # ys) = B' div 256 ^ length ys div 256"
    by (simp_all only: length_Cons power_Suc2 zdiv_zmult2_eq zero_le_numeral)
  then have top: "A' div 256 ^ length (y # ys) = A" "B' div 256 ^ length (y # ys) = B"
    using ab by (simp_all add: d)
  have byte: "A' div 256 ^ length ys mod 256 = a" "B' div 256 ^ length ys mod 256 = b"
    using ab by (simp_all add: d)
  show ?thesis
    unfolding rounds_ok_def
  proof (intro conjI allI impI, goal_cases)
    case (5 i)
    then show ?case using hd tl by (cases i) (simp_all add: rounds_ok_def)
  next
    case (6 i)
    then show ?case using hd tl by (cases i) (simp_all add: rounds_ok_def)
  next
    case (7 i)
    then show ?case using hd tl ab by (cases i) (simp_all add: rounds_ok_def byte)
  qed (use tl top in \<open>simp_all add: rounds_ok_def\<close>)
qed

lemma mod_prove_rounds_ok:
  assumes P: "blum_prime P" and Q: "blum_prime Q" and N: "N = P * Q" "1 < N"
    and W: "coprime W N" "qr P W \<noteq> qr Q W"
    and exps: "0 \<le> expo" "0 \<le> invN"
    and fourth: "\<And>u. qr P u \<Longrightarrow> qr Q u \<Longrightarrow> (u ^ nat expo) ^ 4 mod N = u mod N"
    and root: "\<And>y. coprime y N \<Longrightarrow> (y ^ nat invN) ^ nat N mod N = y mod N"
    and ys: "\<forall>y\<in>set ys. coprime y N \<and> 0 \<le> y \<and> y < N"
  shows "\<exists>X A' B' Z. mod_prove_rounds L N P Q W expo invN ys A B = Inr (X, A', B', Z)
    \<and> rounds_ok N W ys A B X A' B' Z"
  using ys
proof (induction ys arbitrary: A B)
  case Nil
  then show ?case by (simp add: rounds_ok_def)
next
  case (Cons y ys)
  have gt: "1 < P" "1 < Q" using P Q blum_half by fastforce+
  have y: "coprime y N" "0 \<le> y" "y < N" using Cons.prems by simp_all
  have nd: "\<not> P dvd y" "\<not> Q dvd y" "\<not> P dvd W" "\<not> Q dvd W"
    using y(1) W(1) gt by (simp_all add: N coprime_not_dvd)
  obtain a0 b0 where ab0: "a0 \<in> {0, 1}" "b0 \<in> {0, 1}"
    "qr P (twist N W a0 b0 y)" "qr Q (twist N W a0 b0 y)"
    using twist_residue [OF P Q N(1) nd W(2)] by blast
  obtain j where j: "j \<in> {0, 1, 2, 3}" "j AND 1 = a0" "drop_bit 1 (j AND 2) = b0"
    using twist_indices [OF ab0(1,2)] by blast
  have "\<exists>j\<in>set [0, 1, 2, 3]. qr P (twist N W (j AND 1) (drop_bit 1 (j AND 2)) y)
      \<and> qr Q (twist N W (j AND 1) (drop_bit 1 (j AND 2)) y)"
    using j ab0 by (intro bexI [of _ j]) simp_all
  then obtain a b where pick: "mod_try L N P Q W y [0, 1, 2, 3] = Inr (Some (a, b, twist N W a b y))"
    and ab: "a \<in> {0, 1}" "b \<in> {0, 1}" and q: "qr P (twist N W a b y)" "qr Q (twist N W a b y)"
    using mod_try_finds [OF P Q N(1) y W(1), of "[0, 1, 2, 3]"] by auto
  let ?u = "twist N W a b y"
  let ?x = "?u ^ nat expo mod N" and ?z = "y ^ nat invN mod N"
  have uu: "unit_mod N ?u" using twist_unit [OF N(2) y(1) W(1) y(2,3)] .
  have x: "unit_mod N ?x" and z: "unit_mod N ?z"
    using uu y(1) N(2) by (simp_all add: unit_mod_def gcd_mod_eq_1 coprime_mod_pos)
  have "?x ^ 4 mod N = ?u" using fourth [OF q] uu by (simp add: power_mod unit_mod_def)
  moreover have "?z ^ nat N mod N = y" using root [OF y(1)] y by (simp add: power_mod)
  ultimately have hd: "mod_round_ok N W y a b ?x ?z" using ab by (simp add: mod_round_ok_def)
  have sh: "push_bit 8 A OR a = A * 256 + a" "push_bit 8 B OR b = B * 256 + b"
    using ab by (auto intro: shift_or)
  obtain X A' B' Z where
    IH: "mod_prove_rounds L N P Q W expo invN ys (A * 256 + a) (B * 256 + b) = Inr (X, A', B', Z)"
    "rounds_ok N W ys (A * 256 + a) (B * 256 + b) X A' B' Z"
    using Cons.IH [of "A * 256 + a" "B * 256 + b"] Cons.prems by auto
  have "mod_prove_rounds L N P Q W expo invN (y # ys) A B = Inr (?x # X, A', B', ?z # Z)"
    using pick exps N(2) IH(1) sh by (simp add: powmod_nonneg)
  with rounds_ok_Cons [OF IH(2) hd x z] show ?case by blast
qed

end

lemma twist_word_length:
  assumes "A div 256 ^ mod_Iterations = 255"
  shows "8 * (mod_Iterations + 1) - 8 < bit_length A \<and> bit_length A \<le> 8 * (mod_Iterations + 1)"
proof -
  let ?p = "(256::int) ^ mod_Iterations"
  have "A = ?p * 255 + A mod ?p" using mult_div_mod_eq [of ?p A] by (simp add: assms)
  moreover have "0 \<le> A mod ?p" "A mod ?p < ?p" by simp_all
  ultimately have A: "255 * ?p \<le> A" "A < 256 * ?p" by linarith+
  have p: "?p = 2 ^ 640" by (simp add: mod_Iterations_def)
  have pos: "0 < A" using A(1) p by simp
  note b = bit_len_bounds [OF pos]
  have "0 < ?p" by simp
  then have "?p < 2 ^ bit_len A" using A(1) b by linarith
  then have "(2::int) ^ 640 < 2 ^ bit_len A" by (simp only: p)
  then have "640 < bit_len A" by (rule power_less_imp_less_exp [rotated]) simp
  moreover have "2 ^ (bit_len A - 1) < 256 * ?p" using A(2) b by linarith
  then have "(2::int) ^ (bit_len A - 1) < 2 ^ 648" by (simp add: p)
  then have "bit_len A - 1 < 648" by (rule power_less_imp_less_exp [rotated]) simp
  ultimately show ?thesis using pos by (simp add: bit_length_def mod_Iterations_def)
qed

section \<open>Completeness\<close>

lemma power_Phi:
  assumes "is_prime P" "is_prime Q" "P \<noteq> Q" and "coprime y (P * Q)" and "1 < P" "1 < Q"
    and "(P - 1) * (Q - 1) dvd k" and "0 \<le> k"
  shows "y ^ nat k mod (P * Q) = 1 mod (P * Q)"
proof (rule crt_eq [OF distinct_primes_coprime [OF assms(1-3)]])
  have nd: "\<not> P dvd y" "\<not> Q dvd y" using assms by (simp_all add: coprime_not_dvd)
  have d: "P - 1 dvd k" "Q - 1 dvd k"
    using assms(7) by (auto intro: dvd_mult_left dvd_mult_right)
  show "y ^ nat k mod P = 1 mod P" using fermat_multiple [OF assms(1) nd(1) d(1) assms(8)] assms(5) by simp
  show "y ^ nat k mod Q = 1 mod Q" using fermat_multiple [OF assms(2) nd(2) d(2) assms(8)] assms(6) by simp
qed

lemma nth_root:
  assumes "is_prime P" "is_prime Q" "P \<noteq> Q" and N: "N = P * Q" and y: "coprime y N"
    and Phi: "Phi = (P - 1) * (Q - 1)" and i: "N * i mod Phi = 1" "0 \<le> i"
  shows "(y ^ nat i) ^ nat N mod N = y mod N"
proof -
  have gt: "1 < P" "1 < Q" using assms is_prime_gt1 by auto
  then have N0: "0 < N" and Phi0: "0 < Phi" by (simp_all add: N Phi)
  let ?k = "N * i - 1"
  have "Phi dvd ?k" using i(1) by (metis dvd_minus_mod)
  moreover have "0 < N * i" using i N0 by (cases "i = 0") (auto simp: zero_less_mult_iff)
  ultimately have "y ^ nat ?k mod N = 1 mod N"
    using power_Phi [OF assms(1-3) y [unfolded N] gt, of ?k] by (simp add: N Phi)
  then have "y ^ nat ?k * y mod N = y mod N" by (metis mod_mult_left_eq mult_1)
  moreover have "nat i * nat N = Suc (nat ?k)"
    using \<open>0 < N * i\<close> N0 i by (simp add: nat_mult_distrib [symmetric] mult.commute Suc_nat_eq_nat_zadd1)
  ultimately show ?thesis by (simp add: power_mult [symmetric] mult.commute)
qed

context lib_ok
begin

lemma neg_jacobi_draw:
  assumes "blum_prime P" "blum_prime Q" "P \<noteq> Q"
    and "sample_invertible_with_neg_jacobi L (P * Q) t = Inr (W, t')"
  shows "0 < W \<and> W < P * Q \<and> coprime W (P * Q) \<and> qr P W \<noteq> qr Q W
    \<and> is_quadratic_residue L W (P * Q) = Inr False"
proof -
  have pr: "is_prime P" "is_prime Q" "odd P" "odd Q"
    using assms blum_half by (auto simp: blum_prime_def)
  have range: "0 < W" "W < P * Q" and j: "legendre W P * legendre W Q = - 1"
    using assms(4) pr
    by (auto simp: sample_invertible_with_neg_jacobi_def rnd_simps jacobi_symbol_def jacobi_semiprime
        dest!: draw_until_sound)
  have nd: "\<not> P dvd W" "\<not> Q dvd W" using j by (auto simp: legendre_def)
  then have "coprime W (P * Q)" using pr is_prime_coprime by simp
  moreover have "qr P W \<noteq> qr Q W"
    using j legendre_blum [OF assms(1) nd(1)] legendre_blum [OF assms(2) nd(2)]
    by (auto split: if_splits)
  ultimately show ?thesis
    using range j pr
    by (simp add: is_quadratic_residue_def jacobi_symbol_def jacobi_semiprime)
qed

lemma mod_complete:
  assumes P: "blum_prime P" and Q: "blum_prime Q" and PQ: "P \<noteq> Q"
    and cop: "coprime (P * Q) ((P - 1) * (Q - 1))"
    and new: "mod_new_proof L ssid (P * Q) P Q tp = Inr (pf, tp')"
    and chal: "mod_challenges L ssid (md_W pf) (P * Q) mod_Iterations [] = Inr Y"
      "\<forall>y\<in>set Y. coprime y (P * Q)"
  shows "mod_verify L pf ssid (P * Q) = Inr True"
proof -
  let ?N = "P * Q" and ?Phi = "(P - 1) * (Q - 1)"
  have gt: "2 < P" "2 < Q" "odd P" "odd Q" "is_prime P" "is_prime Q"
    using P Q blum_half by (auto simp: blum_prime_def)
  then have N: "1 < ?N" using less_1_mult [of P Q] by simp
  have Phi: "1 < ?Phi" using gt less_1_mult [of "P - 1" "Q - 1"] by simp
  from new obtain W where W: "sample_invertible_with_neg_jacobi L ?N tp = Inr (W, tp')"
    and prove: "mod_prove L ssid ?N P Q W = Inr pf"
    by (auto simp: mod_new_proof_def rnd_simps split: if_splits)
  have Wp: "0 < W" "W < ?N" "coprime W ?N" "qr P W \<noteq> qr Q W" "is_quadratic_residue L W ?N = Inr False"
    using neg_jacobi_draw [OF P Q PQ W] by auto
  let ?i = "minv ?N ?Phi" and ?e = "(?Phi + 4) div 8"
  have i: "?N * ?i mod ?Phi = 1" "0 \<le> ?i" "invert L ?N ?Phi = Inr ?i"
    using minv_right [OF cop] minv_range [of ?Phi ?N] Phi invert_minv [OF cop Phi] by simp_all
  have expo: "powmod L (drop_bit 3 (?Phi + 4)) 2 ?Phi = Inr (?e ^ 2 mod ?Phi)"
    using Phi by (simp add: powmod_nonneg drop_bit_eq_div)
  from prove obtain Y' X A B Z where
    Y': "mod_challenges L ssid W ?N mod_Iterations [] = Inr Y'"
    and r: "mod_prove_rounds L ?N P Q W (?e ^ 2 mod ?Phi) ?i Y' 255 255 = Inr (X, A, B, Z)"
    and pf: "pf = \<lparr> md_W = W, md_X = X, md_A = A, md_B = B, md_Z = Z \<rparr>"
    by (auto simp: mod_prove_def Let_def i(3) expo res_simps)
  have YY: "Y' = Y" using Y' chal(1) by (simp add: pf)
  have lY: "length Y = mod_Iterations" using mod_challenges_length [OF chal(1)] by simp
  have Yr: "\<forall>y\<in>set Y. coprime y ?N \<and> 0 \<le> y \<and> y < ?N"
    using chal mod_challenges_range [of L ssid W ?N mod_Iterations "[]" Y] by (simp add: pf)
  have "0 \<le> ?e ^ 2 mod ?Phi" using Phi by simp
  then have ok: "rounds_ok ?N W Y 255 255 X A B Z"
    using mod_prove_rounds_ok [OF P Q refl N Wp(3,4) _ i(2) fourth_root [OF P Q PQ _ _ refl]
        nth_root [OF gt(5,6) PQ refl _ refl i(1,2)] Yr, of 255 255] r
    by (auto simp: YY)
  then have len: "length X = mod_Iterations" "length Z = mod_Iterations"
    and top: "A div 256 ^ mod_Iterations = 255" "B div 256 ^ mod_Iterations = 255"
    by (simp_all add: rounds_ok_def lY)
  have "mod_verify_rounds L ?N W A B X Z Y [0..<mod_Iterations] = Inr True"
    using ok N by (subst mod_verify_rounds_ok) (simp_all add: rounds_ok_def lY twist_byte_eq)
  moreover have "list_all (\<lambda>z. 0 < z \<and> z < ?N) Z" "list_all (\<lambda>x. 0 < x \<and> x < ?N) X"
    using ok by (simp_all add: rounds_ok_def lY list_all_length unit_mod_def)
  ultimately show ?thesis
    using Wp N gt twist_word_length [OF top(1)] twist_word_length [OF top(2)] Y'
    unfolding mod_verify_def Let_def pf YY by simp
qed

end

section \<open>Wire format\<close>

definition mod_wf :: "proof_mod \<Rightarrow> bool" where
  "mod_wf pf \<longleftrightarrow> length (md_X pf) = mod_Iterations \<and> length (md_Z pf) = mod_Iterations
     \<and> 0 \<le> md_W pf \<and> 0 \<le> md_A pf \<and> 0 \<le> md_B pf
     \<and> (\<forall>x\<in>set (md_X pf). 0 \<le> x) \<and> (\<forall>z\<in>set (md_Z pf). 0 \<le> z)"

interpretation mod_wire: wire_codec mod_to_bytes_parts mod_from_bytes mod_wf ProofModBytesParts
proof (unfold_locales, goal_cases)
  case (2 p)
  then have "map (int_from_bytes \<circ> int_to_bytes) (md_X p) = md_X p"
    "map (int_from_bytes \<circ> int_to_bytes) (md_Z p) = md_Z p"
    by (auto simp: mod_wf_def intro!: map_idI)
  with 2 show ?case
    by (auto simp: mod_to_bytes_parts_def mod_from_bytes_def ProofModBytesParts_def mod_wf_def
        mod_Iterations_def Let_def nth_append)
qed (auto simp: mod_to_bytes_parts_def mod_from_bytes_def ProofModBytesParts_def mod_wf_def)

end
