(* ===== verification/ZkFac.thy ===== *)
theory ZkFac
  imports ZkCommon
begin

text \<open>
  \<^verbatim>\<open>crypto/zkp/fac.py\<close>: the proof that a Paillier modulus has no small factor. The response \<open>V\<close>
  is the only one that can be negative: \<^verbatim>\<open>powmod\<close> then takes the power of the inverse, which
  \<open>ipow\<close> describes.
\<close>

section \<open>The code\<close>

record proof_fac =
  fac_P :: int
  fac_Q :: int
  fac_A :: int
  fac_B :: int
  fac_T :: int
  fac_Sigma :: int
  fac_Z1 :: int
  fac_Z2 :: int
  fac_W1 :: int
  fac_W2 :: int
  fac_V :: int

definition ProofFacBytesParts :: nat where
  "ProofFacBytesParts = 11"

definition fac_transcript ::
    "int \<Rightarrow> curve \<Rightarrow> int \<Rightarrow> int \<Rightarrow> int \<Rightarrow> int \<Rightarrow> int \<Rightarrow> int \<Rightarrow> int \<Rightarrow> int \<Rightarrow> int \<Rightarrow> int \<Rightarrow> int list" where
  "fac_transcript ssid ec N0 NCap s t P Q A B T sigma =
     [ssid, N0, NCap, s, t, P, Q, A, B, T, sigma, cb ec, cn ec, cp ec]"

definition fac_prove ::
    "lib \<Rightarrow> int \<Rightarrow> curve \<Rightarrow> int \<Rightarrow> int \<Rightarrow> int \<Rightarrow> int \<Rightarrow> int \<Rightarrow> int
      \<Rightarrow> int \<Rightarrow> int \<Rightarrow> int \<Rightarrow> int \<Rightarrow> int \<Rightarrow> int \<Rightarrow> int \<Rightarrow> int \<Rightarrow> proof_fac res" where
  "fac_prove L ssid ec N0 NCap s t N0p N0q alpha beta mu nu sigma x y r =
     ebind (pow2 L NCap s N0p t mu) (\<lambda>P.
     ebind (pow2 L NCap s N0q t nu) (\<lambda>Q.
     ebind (pow2 L NCap s alpha t x) (\<lambda>A.
     ebind (pow2 L NCap s beta t y) (\<lambda>B.
     ebind (pow2 L NCap Q alpha t r) (\<lambda>T.
     ebind (challenge L (cn ec) (fac_transcript ssid ec N0 NCap s t P Q A B T sigma)) (\<lambda>e.
     Inr \<lparr> fac_P = P, fac_Q = Q, fac_A = A, fac_B = B, fac_T = T, fac_Sigma = sigma,
           fac_Z1 = e * N0p + alpha, fac_Z2 = e * N0q + beta,
           fac_W1 = e * mu + x, fac_W2 = e * nu + y,
           fac_V = e * (sigma - nu * N0p) + r \<rparr>))))))"

definition fac_new_proof ::
    "lib \<Rightarrow> int \<Rightarrow> curve \<Rightarrow> int \<Rightarrow> int \<Rightarrow> int \<Rightarrow> int \<Rightarrow> int \<Rightarrow> int \<Rightarrow> proof_fac rnd" where
  "fac_new_proof L ssid ec N0 NCap s t N0p N0q =
     (if N0 = 0 \<or> NCap = 0 \<or> s = 0 \<or> t = 0 \<or> N0p = 0 \<or> N0q = 0 then rlift (Inl ValueError)
      else
        let q = cn ec; q3 = q ^ 3 in
        rbind (rlift (isqrt L N0)) (\<lambda>sqrtN0.
        rbind (random_nonnegative_int (q3 * sqrtN0)) (\<lambda>alpha.
        rbind (random_nonnegative_int (q3 * sqrtN0)) (\<lambda>beta.
        rbind (random_nonnegative_int (q * NCap)) (\<lambda>mu.
        rbind (random_nonnegative_int (q * NCap)) (\<lambda>nu.
        rbind (random_nonnegative_int (q * N0 * NCap)) (\<lambda>sigma.
        rbind (random_nonnegative_int (q3 * NCap)) (\<lambda>x.
        rbind (random_nonnegative_int (q3 * NCap)) (\<lambda>y.
        rbind (random_nonnegative_int (q3 * N0 * NCap)) (\<lambda>r.
        rlift (fac_prove L ssid ec N0 NCap s t N0p N0q alpha beta mu nu sigma x y r)))))))))))"

definition fac_from_bytes :: "bytes list \<Rightarrow> proof_fac res" where
  "fac_from_bytes parts =
     (if parts = [] \<or> length parts \<noteq> ProofFacBytesParts then Inl ValueError
      else Inr \<lparr> fac_P = int_from_bytes (parts ! 0), fac_Q = int_from_bytes (parts ! 1),
                 fac_A = int_from_bytes (parts ! 2), fac_B = int_from_bytes (parts ! 3),
                 fac_T = int_from_bytes (parts ! 4), fac_Sigma = int_from_bytes (parts ! 5),
                 fac_Z1 = int_from_bytes (parts ! 6), fac_Z2 = int_from_bytes (parts ! 7),
                 fac_W1 = int_from_bytes (parts ! 8), fac_W2 = int_from_bytes (parts ! 9),
                 fac_V = int_from_bytes (parts ! 10) \<rparr>)"

definition fac_to_bytes_parts :: "proof_fac \<Rightarrow> bytes list" where
  "fac_to_bytes_parts pf =
     [int_to_bytes (fac_P pf), int_to_bytes (fac_Q pf), int_to_bytes (fac_A pf),
      int_to_bytes (fac_B pf), int_to_bytes (fac_T pf), int_to_bytes (fac_Sigma pf),
      int_to_bytes (fac_Z1 pf), int_to_bytes (fac_Z2 pf), int_to_bytes (fac_W1 pf),
      int_to_bytes (fac_W2 pf), int_to_bytes (fac_V pf)]"

definition fac_verify ::
    "lib \<Rightarrow> proof_fac \<Rightarrow> int \<Rightarrow> curve \<Rightarrow> int \<Rightarrow> int \<Rightarrow> int \<Rightarrow> int \<Rightarrow> bool res" where
  "fac_verify L pf ssid ec N0 NCap s t =
     (if N0 = 0 \<or> NCap = 0 \<or> s = 0 \<or> t = 0 then Inr False
      else if N0 \<le> 0 \<or> NCap \<le> 0 then Inr False
      else
        let q = cn ec; q3 = q ^ 3;
            P = fac_P pf; Q = fac_Q pf; A = fac_A pf; B = fac_B pf; T = fac_T pf;
            Sigma = fac_Sigma pf; Z1 = fac_Z1 pf; Z2 = fac_Z2 pf;
            W1 = fac_W1 pf; W2 = fac_W2 pf; V = fac_V pf in
        ebind (isqrt L N0) (\<lambda>sqrtN0.
        if \<not> is_in_interval Z1 (q3 * sqrtN0) then Inr False
        else if \<not> is_in_interval Z2 (q3 * sqrtN0) then Inr False
        else if \<not> check_invertible_and_valid_mod L NCap [P, Q, A, B, T] then Inr False
        else
          ebind (challenge L q (fac_transcript ssid ec N0 NCap s t P Q A B T Sigma)) (\<lambda>e.
          ebind (pow2 L NCap s Z1 t W1) (\<lambda>LHS1.
          ebind (mulpow L NCap A P e) (\<lambda>RHS1.
          if LHS1 \<noteq> RHS1 then Inr False
          else
            ebind (pow2 L NCap s Z2 t W2) (\<lambda>LHS2.
            ebind (mulpow L NCap B Q e) (\<lambda>RHS2.
            if LHS2 \<noteq> RHS2 then Inr False
            else
              ebind (pow2 L NCap s N0 t Sigma) (\<lambda>R.
              ebind (pow2 L NCap Q Z1 t V) (\<lambda>LHS3.
              ebind (mulpow L NCap T R e) (\<lambda>RHS3.
              if LHS3 \<noteq> RHS3 then Inr False else Inr True))))))))))"

section \<open>Properties\<close>

text \<open>Commitments with exponents of either sign.\<close>

definition iped :: "int \<Rightarrow> int \<Rightarrow> int \<Rightarrow> int \<Rightarrow> int \<Rightarrow> int" where
  "iped m s t a b = ipow m s a * ipow m t b mod m"

lemma iped_nonneg: "0 \<le> a \<Longrightarrow> 0 \<le> b \<Longrightarrow> iped m s t a b = ped m s t a b"
  by (simp add: iped_def ipow_nonneg ped_eq)

definition fac_accepts :: "proof_fac \<Rightarrow> int \<Rightarrow> int \<Rightarrow> int \<Rightarrow> int \<Rightarrow> int \<Rightarrow> int \<Rightarrow> bool" where
  "fac_accepts pf bound N0 NCap s t e \<longleftrightarrow>
     (0 \<le> fac_Z1 pf \<and> fac_Z1 pf < bound) \<and> (0 \<le> fac_Z2 pf \<and> fac_Z2 pf < bound)
     \<and> (unit_mod NCap (fac_P pf) \<and> unit_mod NCap (fac_Q pf) \<and> unit_mod NCap (fac_A pf)
       \<and> unit_mod NCap (fac_B pf) \<and> unit_mod NCap (fac_T pf))
     \<and> ped NCap s t (fac_Z1 pf) (fac_W1 pf) = fac_A pf * (fac_P pf ^ nat e mod NCap) mod NCap
     \<and> ped NCap s t (fac_Z2 pf) (fac_W2 pf) = fac_B pf * (fac_Q pf ^ nat e mod NCap) mod NCap
     \<and> iped NCap (fac_Q pf) t (fac_Z1 pf) (fac_V pf)
       = fac_T pf * (ped NCap s t N0 (fac_Sigma pf) ^ nat e mod NCap) mod NCap"

text \<open>
  The third equation: with \<open>Q = s\<^sup>q t\<^sup>\<nu>\<close> and \<open>n = p q\<close>,
  \<open>Q\<^sup>e\<^sup>p\<^sup>+\<^sup>\<alpha> t\<^sup>e\<^sup>(\<^sup>\<sigma>\<^sup>-\<^sup>\<nu>\<^sup>p\<^sup>)\<^sup>+\<^sup>r = Q\<^sup>\<alpha> t\<^sup>r (s\<^sup>n t\<^sup>\<sigma>)\<^sup>e\<close>.
\<close>

lemma fac_third:
  assumes c: "coprime s m" "coprime t m" and m: "1 < m"
    and n: "0 \<le> e" "0 \<le> p" "0 \<le> q" "0 \<le> alpha" "0 \<le> nu" "0 \<le> sigma" "0 \<le> r"
  shows "iped m (ped m s t q nu) t (e * p + alpha) (e * (sigma - nu * p) + r)
    = ped m (ped m s t q nu) t alpha r * (ped m s t (p * q) sigma ^ nat e mod m) mod m"
proof -
  let ?Q = "ped m s t q nu" and ?v = "e * (sigma - nu * p) + r"
  have ep: "nat (e * p + alpha) = nat p * nat e + nat alpha"
    using n by (simp add: nat_add_distrib nat_mult_distrib mult.commute)
  have Qe: "?Q ^ nat (e * p + alpha) mod m
      = (?Q ^ nat alpha * s ^ nat (e * p * q)) * t ^ nat (e * nu * p) mod m"
  proof -
    have "?Q ^ (nat p * nat e) mod m = (s ^ nat q * t ^ nat nu) ^ (nat p * nat e) mod m"
      by (simp add: ped_def power_mod)
    also have "(s ^ nat q * t ^ nat nu) ^ (nat p * nat e) = s ^ nat (e * p * q) * t ^ nat (e * nu * p)"
      using n by (simp add: power_mult_distrib nat_mult_distrib mult_nonneg_nonneg ac_simps flip: power_mult)
    finally have "?Q ^ nat alpha * (?Q ^ (nat p * nat e) mod m) mod m
        = ?Q ^ nat alpha * (s ^ nat (e * p * q) * t ^ nat (e * nu * p) mod m) mod m" by simp
    then show ?thesis unfolding ep power_add by (simp add: mod_mult_right_eq ac_simps)
  qed
  have tv: "t ^ nat (e * nu * p) * ipow m t ?v mod m = t ^ nat (e * sigma + r) mod m"
  proof -
    have "ipow m t (e * nu * p) * ipow m t ?v mod m = ipow m t (e * nu * p + ?v)"
      using ipow_add [OF c(2) m, of "e * nu * p" ?v] by simp
    also have "e * nu * p + ?v = e * sigma + r" by (simp add: algebra_simps)
    finally show ?thesis using n by (simp add: ipow_nonneg mod_mult_left_eq)
  qed
  have "iped m ?Q t (e * p + alpha) ?v = (?Q ^ nat (e * p + alpha) mod m) * ipow m t ?v mod m"
    using n by (simp add: iped_def ipow_nonneg)
  also have "\<dots> = (?Q ^ nat alpha * s ^ nat (e * p * q)) * (t ^ nat (e * nu * p) * ipow m t ?v mod m) mod m"
    unfolding Qe mod_mult_left_eq mod_mult_right_eq by (simp only: mult.assoc)
  also have "\<dots> = ?Q ^ nat alpha * s ^ nat (e * p * q) * t ^ nat (e * sigma + r) mod m"
    unfolding tv by (rule mod_mult_right_eq)
  also have "\<dots> = (?Q ^ nat alpha * t ^ nat r) * (s ^ nat (p * q) * t ^ nat sigma) ^ nat e mod m"
    using n by (simp add: power_mult_distrib nat_mult_distrib nat_add_distrib power_add
        mult_nonneg_nonneg ac_simps flip: power_mult)
  also have "\<dots> = ped m ?Q t alpha r * (ped m s t (p * q) sigma ^ nat e mod m) mod m"
    by (simp add: ped_def power_mod mod_mult_left_eq mod_mult_right_eq)
  finally show ?thesis .
qed

context lib_ok
begin

lemma pow2_iped:
  "coprime s m \<Longrightarrow> coprime t m \<Longrightarrow> 1 < m \<Longrightarrow> pow2 L m s a t b = Inr (iped m s t a b)"
  by (simp add: pow2_def powmod_ipow iped_def)

lemma fac_verify_meaning:
  assumes "0 < N0" "1 < NCap" "s \<noteq> 0" "coprime t NCap" "t \<noteq> 0"
    and W: "0 \<le> fac_W1 pf" "0 \<le> fac_W2 pf" "0 \<le> fac_Sigma pf"
    and root: "isqrt L N0 = Inr w"
    and c: "challenge L (cn ec) (fac_transcript ssid ec N0 NCap s t (fac_P pf) (fac_Q pf)
      (fac_A pf) (fac_B pf) (fac_T pf) (fac_Sigma pf)) = Inr e"
  shows "fac_verify L pf ssid ec N0 NCap s t
    = Inr (fac_accepts pf (cn ec ^ 3 * w) N0 NCap s t e)"
proof -
  have e: "0 \<le> e" using challenge_range [OF c] by simp
  have pos: "0 < NCap" "0 \<le> N0" using assms by simp_all
  show ?thesis
  proof (cases "0 \<le> fac_Z1 pf \<and> 0 \<le> fac_Z2 pf \<and> unit_mod NCap (fac_Q pf)")
    case True
    then have third: "pow2 L NCap (fac_Q pf) (fac_Z1 pf) t (fac_V pf)
        = Inr (iped NCap (fac_Q pf) t (fac_Z1 pf) (fac_V pf))"
      using assms by (intro pow2_iped) (simp_all add: unit_mod_def)
    from True assms e pos show ?thesis
      unfolding fac_verify_def fac_accepts_def Let_def is_in_interval_def root ebind_Inr third
      by (simp only: zk_eval) (simp; blast)
  next
    case False
    with assms pos show ?thesis
      unfolding fac_verify_def fac_accepts_def Let_def is_in_interval_def root ebind_Inr
      by (simp only: check_units) auto
  qed
qed

lemma fac_new_proof_draws:
  assumes "fac_new_proof L ssid ec N0 NCap s t N0p N0q tp = Inr (pf, tp')"
  obtains alpha beta mu nu sigma x y r where "0 \<le> alpha" "0 \<le> beta" "0 \<le> mu" "0 \<le> nu"
    and "0 \<le> sigma" "0 \<le> x" "0 \<le> y" "0 \<le> r"
    and "fac_prove L ssid ec N0 NCap s t N0p N0q alpha beta mu nu sigma x y r = Inr pf"
proof -
  have "\<not> (N0 = 0 \<or> NCap = 0 \<or> s = 0 \<or> t = 0 \<or> N0p = 0 \<or> N0q = 0)"
    using assms by (auto simp: fac_new_proof_def rnd_simps)
  then show thesis
    using assms
    apply (simp only: fac_new_proof_def Let_def if_False rbind_eq_Inr rlift_eq_Inr)
    by (elim exE conjE) (rule that; (assumption | metis random_nonnegative_int_range))
qed

lemma fac_complete:
  assumes new: "fac_new_proof L ssid ec (p * q) NCap s t p q tp = Inr (pf, tp')"
    and pq: "0 < p" "0 < q" and NCap: "1 < NCap"
    and st: "coprime s NCap" "coprime t NCap"
    and root: "isqrt L (p * q) = Inr w"
    and range: "fac_Z1 pf < cn ec ^ 3 * w" "fac_Z2 pf < cn ec ^ 3 * w"
  shows "fac_verify L pf ssid ec (p * q) NCap s t = Inr True"
proof -
  have pos: "0 < NCap" "0 < p * q" using pq NCap by simp_all
  from new obtain alpha beta mu nu sigma x y r where
      a: "0 \<le> alpha" "0 \<le> beta" "0 \<le> mu" "0 \<le> nu" "0 \<le> sigma" "0 \<le> x" "0 \<le> y" "0 \<le> r"
    and prove: "fac_prove L ssid ec (p * q) NCap s t p q alpha beta mu nu sigma x y r = Inr pf"
    by (rule fac_new_proof_draws)
  let ?Q = "ped NCap s t q nu"
  from prove obtain e where
    e: "challenge L (cn ec) (fac_transcript ssid ec (p * q) NCap s t (ped NCap s t p mu) ?Q
      (ped NCap s t alpha x) (ped NCap s t beta y) (ped NCap ?Q t alpha r) sigma) = Inr e"
    and pf: "pf = \<lparr> fac_P = ped NCap s t p mu, fac_Q = ?Q, fac_A = ped NCap s t alpha x,
        fac_B = ped NCap s t beta y, fac_T = ped NCap ?Q t alpha r, fac_Sigma = sigma,
        fac_Z1 = e * p + alpha, fac_Z2 = e * q + beta, fac_W1 = e * mu + x, fac_W2 = e * nu + y,
        fac_V = e * (sigma - nu * p) + r \<rparr>"
    using pos pq a by (auto simp: fac_prove_def pow2_ped res_simps)
  have e0: "0 \<le> e" using challenge_range [OF e] by simp
  note u = ped_unit [OF st NCap]
  have "s \<noteq> 0" "t \<noteq> 0" using st NCap by auto
  moreover have "fac_accepts pf (cn ec ^ 3 * w) (p * q) NCap s t e"
    using range e0 a pq u ped_unit [of ?Q NCap t alpha r] st NCap
      ped_response [OF e0 _ a(3) a(1) a(6), of p NCap s t]
      ped_response [OF e0 _ a(4) a(2) a(7), of q NCap s t]
      fac_third [OF st NCap e0 _ _ a(1) a(4) a(5) a(8), of p q]
    by (simp add: fac_accepts_def unit_mod_def pf)
  ultimately show ?thesis
    using fac_verify_meaning [of "p * q" NCap s t pf w ec ssid e] pos NCap st root e a e0 pq
    by (simp add: pf)
qed

end

section \<open>Wire format\<close>

definition fac_wf :: "proof_fac \<Rightarrow> bool" where
  "fac_wf pf \<longleftrightarrow> 0 \<le> fac_P pf \<and> 0 \<le> fac_Q pf \<and> 0 \<le> fac_A pf \<and> 0 \<le> fac_B pf \<and> 0 \<le> fac_T pf
     \<and> 0 \<le> fac_Sigma pf \<and> 0 \<le> fac_Z1 pf \<and> 0 \<le> fac_Z2 pf \<and> 0 \<le> fac_W1 pf \<and> 0 \<le> fac_W2 pf
     \<and> 0 \<le> fac_V pf"

interpretation fac_wire: wire_codec fac_to_bytes_parts fac_from_bytes fac_wf ProofFacBytesParts
  by unfold_locales
    (auto simp: fac_to_bytes_parts_def fac_from_bytes_def ProofFacBytesParts_def fac_wf_def)

text \<open>Outside \<open>fac_wf\<close> the encoding loses the sign of the response \<open>V\<close>.\<close>

lemma fac_wire_sign:
  assumes "fac_wf (pf\<lparr> fac_V := 0 \<rparr>)"
  shows "fac_from_bytes (fac_to_bytes_parts pf) = Inr (pf\<lparr> fac_V := \<bar>fac_V pf\<bar> \<rparr>)"
  using assms
  by (simp add: fac_to_bytes_parts_def fac_from_bytes_def ProofFacBytesParts_def fac_wf_def
      int_from_to_bytes)

end
