(* ===== verification/AuxPhase.thy ===== *)
theory AuxPhase
  imports Messages Decimal SmallPrimes ZkPrm ZkMod ZkFac
begin

text \<open>
  \<^verbatim>\<open>ecdsa/aux.py\<close>: the second phase. Each party generates a Paillier
  key and ring-Pedersen parameters, commits to them, opens them with a proof that \<open>s\<close> is a power
  of \<open>t\<close>, and proves that its modulus is a Blum integer without small factors. The modulus of the
  peer is checked for its length and for factors in the table of \<open>SmallPrimes\<close> first.
\<close>

section \<open>The code\<close>

definition PAILLIER_MODULUS_BITS :: int where
  "PAILLIER_MODULUS_BITS = 2048"

fun find_factor :: "int \<Rightarrow> int list \<Rightarrow> int option" where
  "find_factor n [] = None"
| "find_factor n (prime # primes) = (if n mod prime = 0 then Some prime else find_factor n primes)"

definition find_small_prime_factor :: "int \<Rightarrow> int option" where
  "find_small_prime_factor n = find_factor n SMALL_PRIMES"

record aux_state =
  ax_id :: int
  ax_ssid :: int
  ax_priv_i :: private_key
  ax_pub_i :: public_key
  ax_p :: int
  ax_q :: int
  ax_lamd :: int
  ax_rhoi :: int
  ax_ti :: int
  ax_si :: int
  ax_prm_parts_i :: "bytes list"
  ax_pub_j :: "public_key option"
  ax_sj :: "int option"
  ax_tj :: "int option"
  ax_rho :: "int option"

definition aux_init :: "lib \<Rightarrow> curve \<Rightarrow> int \<Rightarrow> int \<Rightarrow> aux_state rnd" where
  "aux_init L ec party_id ssid =
     rbind (generate_key_pair L PAILLIER_MODULUS_BITS) (\<lambda>(priv, pub, p, q).
     rbind (random_positive_int (phi_n priv)) (\<lambda>lamd.
     rbind (get_random_positive_relatively_prime_int L (pk_n pub)) (\<lambda>r.
     rbind (random_positive_int (pk_n priv)) (\<lambda>rhoi.
     rbind (rlift (powmod L r 2 (pk_n pub))) (\<lambda>ti.
     rbind (rlift (powmod L ti lamd (pk_n pub))) (\<lambda>si.
     rbind (prm_new_proof L ssid si ti (pk_n priv) (phi_n priv) lamd) (\<lambda>prm.
     rret \<lparr> ax_id = party_id, ax_ssid = ssid, ax_priv_i = priv, ax_pub_i = pub, ax_p = p, ax_q = q,
            ax_lamd = lamd, ax_rhoi = rhoi, ax_ti = ti, ax_si = si,
            ax_prm_parts_i = prm_to_bytes_parts prm,
            ax_pub_j = None, ax_sj = None, ax_tj = None, ax_rho = None \<rparr>)))))))"

definition aux_commitment :: "lib \<Rightarrow> int \<Rightarrow> int \<Rightarrow> int \<Rightarrow> int \<Rightarrow> int \<Rightarrow> bytes list \<Rightarrow> int \<Rightarrow> int res" where
  "aux_commitment L ssid i n s t prm rho =
     sha512_256i L ([ssid, i, n, s, t] @ map from_bytes_big prm @ [rho])"

definition aux_round1 :: "lib \<Rightarrow> aux_state \<Rightarrow> aux_r1 res" where
  "aux_round1 L st =
     ebind (aux_commitment L (ax_ssid st) (ax_id st) (pk_n (ax_pub_i st)) (ax_si st) (ax_ti st)
              (ax_prm_parts_i st) (ax_rhoi st)) (\<lambda>Vi.
     Inr \<lparr> a1_id = ax_id st, a1_V = Vi \<rparr>)"

definition aux_round2 :: "aux_state \<Rightarrow> aux_r2" where
  "aux_round2 st =
     \<lparr> a2_n = pk_n (ax_pub_i st), a2_s = ax_si st, a2_t = ax_ti st, a2_prm = ax_prm_parts_i st,
       a2_rho = ax_rhoi st \<rparr>"

text \<open>The checks of round 3 that need no randomness, in the order of the code.\<close>

definition aux_check_modulus :: "int \<Rightarrow> unit res" where
  "aux_check_modulus n =
     (let modulus_bits = int (bit_length n) in
      ebind (eguard (\<not> (n \<le> 0 \<or> modulus_bits \<noteq> PAILLIER_MODULUS_BITS))
        (VerificationError (''Other party's Paillier N must be 2048 bits, got ''
           @ decimal modulus_bits @ '' bits''))) (\<lambda>_.
      case find_small_prime_factor n of
        None \<Rightarrow> Inr ()
      | Some f \<Rightarrow>
          Inl (VerificationError (''Other party's Paillier N is divisible by small prime '' @ decimal f))))"

definition aux_check_peer :: "lib \<Rightarrow> aux_state \<Rightarrow> aux_r1 \<Rightarrow> aux_r2 \<Rightarrow> unit res" where
  "aux_check_peer L st msg_j_r1 msg_j_r2 =
     ebind (aux_check_modulus (a2_n msg_j_r2)) (\<lambda>_.
     ebind (aux_commitment L (ax_ssid st) (a1_id msg_j_r1) (a2_n msg_j_r2) (a2_s msg_j_r2)
              (a2_t msg_j_r2) (a2_prm msg_j_r2) (a2_rho msg_j_r2)) (\<lambda>expected_Vj.
     ebind (eguard (a1_V msg_j_r1 = expected_Vj)
       (VerificationError ''Aux Round 1 commitment verification failed.'')) (\<lambda>_.
     ebind (prm_from_bytes (a2_prm msg_j_r2)) (\<lambda>prm_j.
     ebind (prm_verify L prm_j (ax_ssid st) (a2_s msg_j_r2) (a2_t msg_j_r2) (a2_n msg_j_r2)) (\<lambda>ok.
     eguard ok (VerificationError ''Other party's Prm proof verification failed.''))))))"

definition aux_round3 ::
    "lib \<Rightarrow> curve \<Rightarrow> aux_state \<Rightarrow> aux_r1 \<Rightarrow> aux_r2 \<Rightarrow> (aux_r3 \<times> aux_state) rnd" where
  "aux_round3 L ec st msg_j_r1 msg_j_r2 =
     rbind (rlift (aux_check_peer L st msg_j_r1 msg_j_r2)) (\<lambda>_.
     let rho = ax_rhoi st XOR a2_rho msg_j_r2; n_i = pk_n (ax_pub_i st); ssid' = ax_ssid st XOR rho in
     rbind (mod_new_proof L ssid' n_i (ax_p st) (ax_q st)) (\<lambda>md.
     rbind (fac_new_proof L ssid' ec n_i (a2_n msg_j_r2) (a2_s msg_j_r2) (a2_t msg_j_r2)
              (ax_p st) (ax_q st)) (\<lambda>fac.
     rret (\<lparr> a3_mod = mod_to_bytes_parts md, a3_fac = fac_to_bytes_parts fac \<rparr>,
           st\<lparr> ax_sj := Some (a2_s msg_j_r2), ax_tj := Some (a2_t msg_j_r2),
               ax_pub_j := Some \<lparr> pk_n = a2_n msg_j_r2 \<rparr>, ax_rho := Some rho \<rparr>))))"

definition aux_round_out :: "lib \<Rightarrow> curve \<Rightarrow> aux_state \<Rightarrow> aux_r3 \<Rightarrow> aux_output_data res" where
  "aux_round_out L ec st msg_j_r3 =
     ebind (mod_from_bytes (a3_mod msg_j_r3)) (\<lambda>mod_j.
     case (ax_rho st, ax_pub_j st, ax_sj st, ax_tj st) of
       (Some rho, Some pub_j, Some sj, Some tj) \<Rightarrow>
         let ssid' = ax_ssid st XOR rho in
         ebind (mod_verify L mod_j ssid' (pk_n pub_j)) (\<lambda>ok.
         ebind (eguard ok (VerificationError ''Other party's Mod proof verification failed.'')) (\<lambda>_.
         ebind (fac_from_bytes (a3_fac msg_j_r3)) (\<lambda>fac_j.
         ebind (fac_verify L fac_j ssid' ec (pk_n pub_j) (pk_n (ax_pub_i st)) (ax_si st) (ax_ti st)) (\<lambda>ok.
         ebind (eguard ok (VerificationError ''Other party's Fac proof verification failed.'')) (\<lambda>_.
         Inr \<lparr> ao_paillier_priv_i = ax_priv_i st, ao_paillier_pub_i = ax_pub_i st, ao_si = ax_si st,
               ao_ti = ax_ti st, ao_paillier_pub_j = pub_j, ao_sj = sj, ao_tj = tj \<rparr>)))))
     | _ \<Rightarrow> Inl TypeError)"

section \<open>Properties\<close>

lemma find_factor_None: "find_factor n ps = None \<longleftrightarrow> (\<forall>p\<in>set ps. \<not> p dvd n)"
  by (induction ps) (auto simp: mod_eq_0_iff_dvd)

lemma find_factor_Some: "find_factor n ps = Some p \<Longrightarrow> p \<in> set ps \<and> p dvd n"
  by (induction ps) (auto simp: mod_eq_0_iff_dvd split: if_splits)

text \<open>A modulus is accepted exactly when it has 2048 bits and no factor in the table.\<close>

lemma aux_check_modulus_iff:
  "aux_check_modulus n = Inr () \<longleftrightarrow>
     0 < n \<and> bit_length n = 2048 \<and> (\<forall>p \<in> set SMALL_PRIMES. \<not> p dvd n)"
  unfolding find_factor_None [symmetric]
  by (auto simp: aux_check_modulus_def find_small_prime_factor_def Let_def res_simps PAILLIER_MODULUS_BITS_def
      split: option.splits)

lemma aux_round3_checked:
  assumes "aux_round3 L ec st m1 m2 t = Inr ((m3, st'), t')"
  shows "aux_check_peer L st m1 m2 = Inr () \<and> ax_pub_j st' = Some \<lparr> pk_n = a2_n m2 \<rparr>
    \<and> ax_rho st' = Some (ax_rhoi st XOR a2_rho m2)"
  using assms by (auto simp: aux_round3_def rnd_simps Let_def)

end
