(* ===== verification/ZkEnc.thy ===== *)
theory ZkEnc
  imports ZkSch
begin

text \<open>
  \<^verbatim>\<open>crypto/zkp/enc.py\<close>: the proof that the plaintext of a Paillier ciphertext is in range.
  \<open>enc_new_proof\<close> draws the masks and \<open>enc_prove\<close> is the rest of \<^verbatim>\<open>new_proof\<close>.
\<close>

section \<open>The code\<close>

record proof_enc =
  enc_S :: int
  enc_A :: int
  enc_C :: int
  enc_Z1 :: int
  enc_Z2 :: int
  enc_Z3 :: int

definition ProofEncBytesParts :: nat where
  "ProofEncBytesParts = 6"

definition enc_transcript ::
    "int \<Rightarrow> curve \<Rightarrow> public_key \<Rightarrow> int \<Rightarrow> int \<Rightarrow> int \<Rightarrow> int \<Rightarrow> int \<Rightarrow> int \<Rightarrow> int \<Rightarrow> int list" where
  "enc_transcript ssid ec pk NCap s t K S A C =
     [ssid, pk_n pk, gamma pk, cb ec, cn ec, cp ec, NCap, s, t, K, S, A, C]"

definition enc_prove ::
    "lib \<Rightarrow> int \<Rightarrow> curve \<Rightarrow> public_key \<Rightarrow> int \<Rightarrow> int \<Rightarrow> int \<Rightarrow> int \<Rightarrow> int \<Rightarrow> int
      \<Rightarrow> int \<Rightarrow> int \<Rightarrow> int \<Rightarrow> int \<Rightarrow> proof_enc res" where
  "enc_prove L ssid ec pk K NCap s t k rho alpha mu gam r =
     (let q = cn ec; N = pk_n pk; NSq = n_square pk in
      ebind (pow2 L NCap s k t mu) (\<lambda>S.
      ebind (pow2 L NSq (gamma pk) alpha r N) (\<lambda>A.
      ebind (pow2 L NCap s alpha t gam) (\<lambda>C.
      ebind (challenge L q (enc_transcript ssid ec pk NCap s t K S A C)) (\<lambda>e.
      ebind (mulpow L N r rho e) (\<lambda>z2.
      Inr \<lparr> enc_S = S, enc_A = A, enc_C = C, enc_Z1 = e * k + alpha, enc_Z2 = z2,
            enc_Z3 = e * mu + gam \<rparr>))))))"

text \<open>
  The loop that redraws \<open>r\<close> until it is a unit modulo \<open>N\<close> is the one of
  \<open>get_random_positive_relatively_prime_int\<close>; both raise \<^verbatim>\<open>ValueError\<close> for \<open>N \<le> 1\<close>.
\<close>

definition enc_new_proof ::
    "lib \<Rightarrow> int \<Rightarrow> curve \<Rightarrow> public_key \<Rightarrow> int \<Rightarrow> int \<Rightarrow> int \<Rightarrow> int \<Rightarrow> int \<Rightarrow> int \<Rightarrow> proof_enc rnd" where
  "enc_new_proof L ssid ec pk K NCap s t k rho =
     (let q = cn ec; q3 = q ^ 3; qNCap = q * NCap; q3NCap = q3 * NCap in
      rbind (random_nonnegative_int q3) (\<lambda>alpha.
      rbind (random_nonnegative_int qNCap) (\<lambda>mu.
      rbind (random_nonnegative_int q3NCap) (\<lambda>gam.
      rbind (get_random_positive_relatively_prime_int L (pk_n pk)) (\<lambda>r.
      rlift (enc_prove L ssid ec pk K NCap s t k rho alpha mu gam r))))))"

definition enc_from_bytes :: "bytes list \<Rightarrow> proof_enc res" where
  "enc_from_bytes parts =
     (if parts = [] \<or> length parts \<noteq> ProofEncBytesParts then Inl ValueError
      else Inr \<lparr> enc_S = int_from_bytes (parts ! 0), enc_A = int_from_bytes (parts ! 1),
                 enc_C = int_from_bytes (parts ! 2), enc_Z1 = int_from_bytes (parts ! 3),
                 enc_Z2 = int_from_bytes (parts ! 4), enc_Z3 = int_from_bytes (parts ! 5) \<rparr>)"

definition enc_to_bytes_parts :: "proof_enc \<Rightarrow> bytes list" where
  "enc_to_bytes_parts pf =
     [int_to_bytes (enc_S pf), int_to_bytes (enc_A pf), int_to_bytes (enc_C pf),
      int_to_bytes (enc_Z1 pf), int_to_bytes (enc_Z2 pf), int_to_bytes (enc_Z3 pf)]"

definition enc_verify ::
    "lib \<Rightarrow> proof_enc \<Rightarrow> int \<Rightarrow> curve \<Rightarrow> public_key \<Rightarrow> int \<Rightarrow> int \<Rightarrow> int \<Rightarrow> int \<Rightarrow> bool res" where
  "enc_verify L pf ssid ec pk NCap s t K =
     (if NCap = 0 \<or> s = 0 \<or> t = 0 \<or> K = 0 then Inr False
      else
        let q = cn ec; N = pk_n pk; NSq = n_square pk;
            S = enc_S pf; A = enc_A pf; C = enc_C pf;
            Z1 = enc_Z1 pf; Z2 = enc_Z2 pf; Z3 = enc_Z3 pf in
        if \<not> is_in_interval Z1 (q ^ 3) then Inr False
        else if \<not> check_invertible_and_valid_mod L NCap [S, C] then Inr False
        else if \<not> check_invertible_and_valid_mod L NSq [A] then Inr False
        else if \<not> check_invertible_and_valid_mod L N [Z2] then Inr False
        else
          ebind (challenge L q (enc_transcript ssid ec pk NCap s t K S A C)) (\<lambda>e.
          ebind (pow2 L NSq (gamma pk) Z1 Z2 N) (\<lambda>left1.
          ebind (mulpow L NSq A K e) (\<lambda>right1.
          if left1 \<noteq> right1 then Inr False
          else
            ebind (pow2 L NCap s Z1 t Z3) (\<lambda>left2.
            ebind (mulpow L NCap C S e) (\<lambda>right2.
            if left2 \<noteq> right2 then Inr False else Inr True))))))"

section \<open>Properties\<close>

lemma enc_transcript_ne [simp]: "enc_transcript ssid ec pk NCap s t K S A C \<noteq> []"
  by (simp add: enc_transcript_def)

text \<open>The verification equations over the specification of ciphertexts and commitments.\<close>

definition enc_accepts :: "proof_enc \<Rightarrow> int \<Rightarrow> int \<Rightarrow> int \<Rightarrow> int \<Rightarrow> int \<Rightarrow> int \<Rightarrow> int \<Rightarrow> bool" where
  "enc_accepts pf q N NCap s t K e \<longleftrightarrow>
     (0 \<le> enc_Z1 pf \<and> enc_Z1 pf < q ^ 3)
     \<and> (unit_mod NCap (enc_S pf) \<and> unit_mod NCap (enc_C pf))
     \<and> unit_mod (N * N) (enc_A pf) \<and> unit_mod N (enc_Z2 pf)
     \<and> enc N (enc_Z1 pf) (enc_Z2 pf) = enc_A pf * (K ^ nat e mod (N * N)) mod (N * N)
     \<and> ped NCap s t (enc_Z1 pf) (enc_Z3 pf) = enc_C pf * (enc_S pf ^ nat e mod NCap) mod NCap"

context lib_ok
begin

lemma enc_verify_meaning:
  assumes "0 < NCap" "0 < pk_n pk" "s \<noteq> 0" "t \<noteq> 0" "K \<noteq> 0" "0 \<le> enc_Z3 pf"
    and c: "challenge L (cn ec) (enc_transcript ssid ec pk NCap s t K (enc_S pf) (enc_A pf) (enc_C pf)) = Inr e"
  shows "enc_verify L pf ssid ec pk NCap s t K
    = Inr (enc_accepts pf (cn ec) (pk_n pk) NCap s t K e)"
proof -
  have e: "0 \<le> e" using challenge_range [OF c] by simp
  show ?thesis
  proof (cases "0 \<le> enc_Z1 pf")
    case True
    with assms e show ?thesis
      unfolding enc_verify_def enc_accepts_def Let_def is_in_interval_def
      by (simp only: zk_eval) simp
  qed (use assms in \<open>simp add: enc_verify_def enc_accepts_def Let_def is_in_interval_def\<close>)
qed

lemma enc_new_proof_draws:
  assumes "enc_new_proof L ssid ec pk K NCap s t k rho tp = Inr (pf, tp')"
  obtains alpha mu gam r where "0 \<le> alpha" "0 \<le> mu" "0 \<le> gam" "alpha < cn ec ^ 3"
    and "0 < r" "r < pk_n pk" "coprime r (pk_n pk)"
    and "enc_prove L ssid ec pk K NCap s t k rho alpha mu gam r = Inr pf"
  using assms unfolding enc_new_proof_def Let_def rbind_eq_Inr rlift_eq_Inr
  by (elim exE conjE) (metis random_nonnegative_int_range relatively_prime_draw)

lemma enc_complete:
  assumes new: "enc_new_proof L ssid ec pk K NCap s t k rho tp = Inr (pf, tp')"
    and N: "1 < pk_n pk" and NCap: "1 < NCap"
    and st: "coprime s NCap" "coprime t NCap"
    and K: "K = enc (pk_n pk) k rho" "coprime rho (pk_n pk)" "0 \<le> k"
    and range: "enc_Z1 pf < cn ec ^ 3"
  shows "enc_verify L pf ssid ec pk NCap s t K = Inr True"
proof -
  let ?N = "pk_n pk"
  have pos: "0 < NCap" "0 < ?N" using N NCap by simp_all
  from new obtain alpha mu gam r where a: "0 \<le> alpha" "0 \<le> mu" "0 \<le> gam"
    and r: "0 < r" "r < ?N" "coprime r ?N"
    and prove: "enc_prove L ssid ec pk K NCap s t k rho alpha mu gam r = Inr pf"
    by (rule enc_new_proof_draws)
  from prove obtain e where
    e: "challenge L (cn ec) (enc_transcript ssid ec pk NCap s t K
        (ped NCap s t k mu) (enc ?N alpha r) (ped NCap s t alpha gam)) = Inr e"
    and z2: "mulpow L ?N r rho e = Inr (enc_Z2 pf)"
    and pf: "pf = \<lparr> enc_S = ped NCap s t k mu, enc_A = enc ?N alpha r,
        enc_C = ped NCap s t alpha gam, enc_Z1 = e * k + alpha,
        enc_Z2 = enc_Z2 pf, enc_Z3 = e * mu + gam \<rparr>"
    using pos K(3) a
    by (auto simp: enc_prove_def Let_def pow2_ped n_square_def gamma_def res_simps)
  have e0: "0 \<le> e" using challenge_range [OF e] by simp
  have z2: "enc_Z2 pf = (rho ^ nat e mod ?N) * r mod ?N"
    using z2 e0 pos by (simp add: mulpow_eq mult.commute)
  have nz: "s \<noteq> 0" "t \<noteq> 0" "K \<noteq> 0"
    using st NCap enc_unit [OF N K(2), of k] K(1) by auto
  define z where "z = enc_Z2 pf"
  have pf': "pf = \<lparr> enc_S = ped NCap s t k mu, enc_A = enc ?N alpha r,
        enc_C = ped NCap s t alpha gam, enc_Z1 = e * k + alpha,
        enc_Z2 = z, enc_Z3 = e * mu + gam \<rparr>" unfolding z_def by (rule pf)
  have zu: "unit_mod ?N z"
    using z2 response_unit [OF K(2) r(3) N] by (simp add: unit_mod_def z_def)
  have "enc_accepts pf (cn ec) ?N NCap s t K e"
    using range e0 a K(3) zu
      ped_unit [OF st NCap] enc_unit [OF N r(3)]
      enc_response [OF pos(2) e0 K(3) a(1), of rho r]
      ped_response [OF e0 K(3) a(2) a(1) a(3), of NCap s t]
    unfolding z2 [symmetric] z_def [symmetric]
    by (simp add: enc_accepts_def unit_mod_def pf' K(1))
  moreover have "0 \<le> enc_Z3 pf" using a e0 by (simp add: pf')
  moreover have "challenge L (cn ec)
      (enc_transcript ssid ec pk NCap s t K (enc_S pf) (enc_A pf) (enc_C pf)) = Inr e"
    using e by (simp add: pf')
  ultimately show ?thesis using pos nz by (simp add: enc_verify_meaning)
qed

end

definition enc_wf :: "proof_enc \<Rightarrow> bool" where
  "enc_wf pf \<longleftrightarrow> 0 \<le> enc_S pf \<and> 0 \<le> enc_A pf \<and> 0 \<le> enc_C pf
     \<and> 0 \<le> enc_Z1 pf \<and> 0 \<le> enc_Z2 pf \<and> 0 \<le> enc_Z3 pf"

context lib_ok
begin

lemma enc_new_wf:
  assumes new: "enc_new_proof L ssid ec pk K NCap s t k rho tp = Inr (pf, tp')"
    and pos: "0 < pk_n pk" "0 < NCap" "0 \<le> k"
  shows "enc_wf pf"
proof -
  from new obtain alpha mu gam r where a: "0 \<le> alpha" "0 \<le> mu" "0 \<le> gam"
    and prove: "enc_prove L ssid ec pk K NCap s t k rho alpha mu gam r = Inr pf"
    by (rule enc_new_proof_draws)
  have sq: "0 < pk_n pk * pk_n pk" using pos by simp
  have "0 \<le> e" if "challenge L (cn ec) tr = Inr e" for tr e using challenge_range [OF that] by simp
  with prove show ?thesis using pos sq a
    by (auto simp: enc_prove_def Let_def res_simps enc_wf_def pow2_ped mulpow_eq n_square_def
        gamma_def ped_range enc_range)
qed

end

interpretation enc_wire: wire_codec enc_to_bytes_parts enc_from_bytes enc_wf ProofEncBytesParts
  by unfold_locales
    (auto simp: enc_to_bytes_parts_def enc_from_bytes_def ProofEncBytesParts_def enc_wf_def
      int_from_to_bytes)

end
