(* ===== verification/ZkAffg.thy ===== *)
theory ZkAffg
  imports ZkEnc
begin

text \<open>
  \<^verbatim>\<open>crypto/zkp/affg.py\<close>: the proof of an affine operation on a ciphertext, whose factor is the
  discrete logarithm of a curve point and whose summand is encrypted under the prover's key.
  \<open>affg_new_proof\<close> draws the masks and \<open>affg_prove\<close> is the rest of \<^verbatim>\<open>new_proof\<close>.
\<close>

section \<open>The code\<close>

record proof_affg =
  ag_S :: int
  ag_T :: int
  ag_A :: int
  ag_Bx :: point
  ag_By :: int
  ag_E :: int
  ag_F :: int
  ag_Z1 :: int
  ag_Z2 :: int
  ag_Z3 :: int
  ag_Z4 :: int
  ag_W :: int
  ag_Wy :: int

definition ProofAffgBytesParts :: nat where
  "ProofAffgBytesParts = 14"

definition affg_transcript ::
    "int \<Rightarrow> curve \<Rightarrow> public_key \<Rightarrow> public_key \<Rightarrow> int \<Rightarrow> int \<Rightarrow> int \<Rightarrow> int \<Rightarrow> int \<Rightarrow> int \<Rightarrow> point
      \<Rightarrow> int \<Rightarrow> int \<Rightarrow> int \<Rightarrow> point \<Rightarrow> int \<Rightarrow> int \<Rightarrow> int \<Rightarrow> int list" where
  "affg_transcript ssid ec pk0 pk1 NCap s t C D Y X S T A Bx By E F =
     [ssid, cb ec, cn ec, cp ec, pk_n pk0, pk_n pk1, NCap, s, t, C, D, Y, px X, py X,
      S, T, A, px Bx, py Bx, By, E, F]"

definition affg_prove ::
    "lib \<Rightarrow> int \<Rightarrow> curve \<Rightarrow> public_key \<Rightarrow> public_key \<Rightarrow> int \<Rightarrow> int \<Rightarrow> int \<Rightarrow> int \<Rightarrow> int \<Rightarrow> int \<Rightarrow> point
      \<Rightarrow> int \<Rightarrow> int \<Rightarrow> int \<Rightarrow> int \<Rightarrow> int \<Rightarrow> int \<Rightarrow> int \<Rightarrow> int \<Rightarrow> int \<Rightarrow> int \<Rightarrow> int \<Rightarrow> int \<Rightarrow> proof_affg res" where
  "affg_prove L ssid ec pk0 pk1 NCap s t C D Y X x y rho rhoy alpha beta r ry gam m delta mu =
     (let q = cn ec; N0 = pk_n pk0; NSq0 = n_square pk0; N1 = pk_n pk1; NSq1 = n_square pk1 in
      ebind (powmod L C alpha NSq0) (\<lambda>A_term1.
      ebind (powmod L (gamma pk0) beta NSq0) (\<lambda>A_term2.
      ebind (powmod L r N0 NSq0) (\<lambda>A_term3.
      let A = A_term1 * A_term2 * A_term3 mod NSq0 in
      ebind (base_mult L ec (alpha mod q)) (\<lambda>Bx.
      ebind (pow2 L NSq1 (gamma pk1) beta ry N1) (\<lambda>By.
      ebind (pow2 L NCap s alpha t gam) (\<lambda>E.
      ebind (pow2 L NCap s x t m) (\<lambda>S.
      ebind (pow2 L NCap s beta t delta) (\<lambda>F.
      ebind (pow2 L NCap s y t mu) (\<lambda>T.
      ebind (challenge L q (affg_transcript ssid ec pk0 pk1 NCap s t C D Y X S T A Bx By E F)) (\<lambda>e.
      ebind (mulpow L N0 r rho e) (\<lambda>w.
      ebind (mulpow L N1 ry rhoy e) (\<lambda>wy.
      Inr \<lparr> ag_S = S, ag_T = T, ag_A = A, ag_Bx = Bx, ag_By = By, ag_E = E, ag_F = F,
            ag_Z1 = e * x + alpha, ag_Z2 = e * y + beta, ag_Z3 = e * m + gam,
            ag_Z4 = e * mu + delta, ag_W = w, ag_Wy = wy \<rparr>)))))))))))))"

definition affg_new_proof ::
    "lib \<Rightarrow> int \<Rightarrow> curve \<Rightarrow> public_key \<Rightarrow> public_key \<Rightarrow> int \<Rightarrow> int \<Rightarrow> int \<Rightarrow> int \<Rightarrow> int \<Rightarrow> int \<Rightarrow> point
      \<Rightarrow> int \<Rightarrow> int \<Rightarrow> int \<Rightarrow> int \<Rightarrow> proof_affg rnd" where
  "affg_new_proof L ssid ec pk0 pk1 NCap s t C D Y X x y rho rhoy =
     (if NCap = 0 \<or> s = 0 \<or> t = 0 \<or> C = 0 \<or> D = 0 \<or> Y = 0 \<or> x = 0 \<or> y = 0 \<or> rho = 0 \<or> rhoy = 0
      then rlift (Inl ValueError)
      else
        let q = cn ec; q3 = q ^ 3; qNCap = q * NCap; q3NCap = q3 * NCap in
        rbind (random_nonnegative_int q3) (\<lambda>alpha.
        rbind (get_random_positive_relatively_prime_int L (pk_n pk0)) (\<lambda>beta.
        rbind (get_random_positive_relatively_prime_int L (pk_n pk0)) (\<lambda>r.
        rbind (get_random_positive_relatively_prime_int L (pk_n pk1)) (\<lambda>ry.
        rbind (random_nonnegative_int q3NCap) (\<lambda>gam.
        rbind (random_nonnegative_int qNCap) (\<lambda>m.
        rbind (random_nonnegative_int q3NCap) (\<lambda>delta.
        rbind (random_nonnegative_int qNCap) (\<lambda>mu.
        rlift (affg_prove L ssid ec pk0 pk1 NCap s t C D Y X x y rho rhoy
                 alpha beta r ry gam m delta mu))))))))))"

definition affg_from_bytes :: "lib \<Rightarrow> curve \<Rightarrow> bytes list \<Rightarrow> proof_affg res" where
  "affg_from_bytes L ec parts =
     (if parts = [] \<or> length parts \<noteq> ProofAffgBytesParts then Inl ValueError
      else
        ebind (mk_point L ec (int_from_bytes (parts ! 3)) (int_from_bytes (parts ! 4))) (\<lambda>Bx.
        Inr \<lparr> ag_S = int_from_bytes (parts ! 0), ag_T = int_from_bytes (parts ! 1),
              ag_A = int_from_bytes (parts ! 2), ag_Bx = Bx,
              ag_By = int_from_bytes (parts ! 5), ag_E = int_from_bytes (parts ! 6),
              ag_F = int_from_bytes (parts ! 7), ag_Z1 = int_from_bytes (parts ! 8),
              ag_Z2 = int_from_bytes (parts ! 9), ag_Z3 = int_from_bytes (parts ! 10),
              ag_Z4 = int_from_bytes (parts ! 11), ag_W = int_from_bytes (parts ! 12),
              ag_Wy = int_from_bytes (parts ! 13) \<rparr>))"

definition affg_to_bytes_parts :: "proof_affg \<Rightarrow> bytes list" where
  "affg_to_bytes_parts pf =
     [int_to_bytes (ag_S pf), int_to_bytes (ag_T pf), int_to_bytes (ag_A pf),
      int_to_bytes (px (ag_Bx pf)), int_to_bytes (py (ag_Bx pf)), int_to_bytes (ag_By pf),
      int_to_bytes (ag_E pf), int_to_bytes (ag_F pf), int_to_bytes (ag_Z1 pf),
      int_to_bytes (ag_Z2 pf), int_to_bytes (ag_Z3 pf), int_to_bytes (ag_Z4 pf),
      int_to_bytes (ag_W pf), int_to_bytes (ag_Wy pf)]"

definition affg_verify ::
    "lib \<Rightarrow> proof_affg \<Rightarrow> int \<Rightarrow> curve \<Rightarrow> public_key \<Rightarrow> public_key \<Rightarrow> int \<Rightarrow> int \<Rightarrow> int \<Rightarrow> int \<Rightarrow> int \<Rightarrow> int
      \<Rightarrow> point \<Rightarrow> bool res" where
  "affg_verify L pf ssid ec pk0 pk1 NCap s t C D Y X =
     (let q = cn ec; N0 = pk_n pk0; NSq0 = n_square pk0; N1 = pk_n pk1; NSq1 = n_square pk1;
          S = ag_S pf; T = ag_T pf; A = ag_A pf; By = ag_By pf; E = ag_E pf; F = ag_F pf;
          W = ag_W pf; Wy = ag_Wy pf;
          Z1 = ag_Z1 pf; Z2 = ag_Z2 pf; Z3 = ag_Z3 pf; Z4 = ag_Z4 pf in
      if \<not> is_in_interval Z1 (q ^ 3) then Inr False
      else if \<not> check_invertible_and_valid_mod L NSq0 [A] then Inr False
      else if \<not> check_invertible_and_valid_mod L NSq1 [By] then Inr False
      else if \<not> check_invertible_and_valid_mod L N0 [W] then Inr False
      else if \<not> check_invertible_and_valid_mod L N1 [Wy] then Inr False
      else if \<not> check_invertible_and_valid_mod L NCap [E, F, S, T] then Inr False
      else if min (min Z1 Z2) (min Z3 Z4) \<le> 0 then Inr False
      else
        ebind (challenge L q
          (affg_transcript ssid ec pk0 pk1 NCap s t C D Y X S T A (ag_Bx pf) By E F)) (\<lambda>e.
        ebind (powmod L C Z1 NSq0) (\<lambda>left1a.
        ebind (mulpow L NSq0 left1a (gamma pk0) Z2) (\<lambda>left1b.
        ebind (mulpow L NSq0 left1b W N0) (\<lambda>left1.
        ebind (mulpow L NSq0 A D e) (\<lambda>right1.
        if left1 \<noteq> right1 then Inr False
        else
          ebind (base_mult L ec (Z1 mod q)) (\<lambda>g_exp_z1.
          ebind (scalar_mult L ec e X) (\<lambda>x_exp_e.
          ebind (point_add L ec x_exp_e (ag_Bx pf)) (\<lambda>bx_sum.
          if \<not> point_eq g_exp_z1 bx_sum then Inr False
          else
            ebind (pow2 L NSq1 (gamma pk1) Z2 Wy N1) (\<lambda>left3.
            ebind (mulpow L NSq1 By Y e) (\<lambda>right3.
            if left3 \<noteq> right3 then Inr False
            else
              ebind (pow2 L NCap s Z1 t Z3) (\<lambda>left4a.
              ebind (mulpow L NCap E S e) (\<lambda>right4a.
              if left4a \<noteq> right4a then Inr False
              else
                ebind (pow2 L NCap s Z2 t Z4) (\<lambda>left4b.
                ebind (mulpow L NCap F T e) (\<lambda>right4b.
                if left4b \<noteq> right4b then Inr False else Inr True)))))))))))))))"

section \<open>Properties\<close>

text \<open>The affine operation on a ciphertext \<open>C\<close>: \<open>C\<^sup>x\<close> times an encryption of \<open>y\<close>.\<close>

definition aff :: "int \<Rightarrow> int \<Rightarrow> int \<Rightarrow> int \<Rightarrow> int \<Rightarrow> int" where
  "aff n C x y rho = (C ^ nat x mod (n * n)) * enc n y rho mod (n * n)"

lemma aff_unit:
  assumes "1 < n" "coprime C n" "coprime rho n"
  shows "unit_mod (n * n) (aff n C x y rho)"
proof -
  have "1 < n * n" using assms(1) less_1_mult by blast
  moreover have "coprime (C ^ nat x mod (n * n)) (n * n)"
    using assms gcd_mod_eq_1 [of "n * n" "C ^ nat x"] \<open>1 < n * n\<close> by simp
  then have "coprime (C ^ nat x mod (n * n) * enc n y rho) (n * n)"
    using enc_unit [OF assms(1,3), of y] by simp
  ultimately show ?thesis
    by (simp add: unit_mod_def aff_def gcd_mod_eq_1 coprime_mod_pos del: coprime_mult_left_iff
        coprime_mult_right_iff)
qed

lemma aff_response:
  assumes n: "0 < n" and e: "0 \<le> e" and v: "0 \<le> x" "0 \<le> y" "0 \<le> alpha" "0 \<le> beta"
  shows "aff n C (e * x + alpha) (e * y + beta) ((rho ^ nat e mod n) * r mod n)
    = aff n C alpha beta r * (aff n C x y rho ^ nat e mod (n * n)) mod (n * n)"
proof -
  let ?m = "n * n"
  have ex: "nat (e * x + alpha) = nat x * nat e + nat alpha"
    using e v by (simp add: nat_add_distrib nat_mult_distrib mult.commute)
  have "aff n C (e * x + alpha) (e * y + beta) ((rho ^ nat e mod n) * r mod n)
      = (C ^ (nat x * nat e + nat alpha)) * (enc n beta r * enc n y rho ^ nat e) mod ?m"
    unfolding aff_def ex enc_response [OF n e v(2,4)]
    by (simp add: mod_mult_left_eq mod_mult_right_eq)
  also have "\<dots> = (C ^ nat alpha * enc n beta r) * (C ^ nat x * enc n y rho) ^ nat e mod ?m"
    unfolding power_add power_mult power_mult_distrib by (simp only: ac_simps)
  also have "\<dots> = aff n C alpha beta r * (aff n C x y rho ^ nat e mod ?m) mod ?m"
    unfolding aff_def by (simp add: mod_mult_left_eq mod_mult_right_eq power_mod)
  finally show ?thesis .
qed

definition affg_accepts ::
    "proof_affg \<Rightarrow> curve \<Rightarrow> int \<Rightarrow> int \<Rightarrow> int \<Rightarrow> int \<Rightarrow> int \<Rightarrow> int \<Rightarrow> int \<Rightarrow> int \<Rightarrow> point \<Rightarrow> int \<Rightarrow> bool" where
  "affg_accepts pf ec N0 N1 NCap s t C D Y X e \<longleftrightarrow>
     ag_Z1 pf < cn ec ^ 3
     \<and> unit_mod (N0 * N0) (ag_A pf) \<and> unit_mod (N1 * N1) (ag_By pf)
     \<and> unit_mod N0 (ag_W pf) \<and> unit_mod N1 (ag_Wy pf)
     \<and> (\<forall>v\<in>set [ag_E pf, ag_F pf, ag_S pf, ag_T pf]. unit_mod NCap v)
     \<and> (0 < ag_Z1 pf \<and> 0 < ag_Z2 pf \<and> 0 < ag_Z3 pf \<and> 0 < ag_Z4 pf)
     \<and> aff N0 C (ag_Z1 pf) (ag_Z2 pf) (ag_W pf) = ag_A pf * (D ^ nat e mod (N0 * N0)) mod (N0 * N0)
     \<and> ec_mult ec (ag_Z1 pf) (generator ec) = ec_add ec (ec_mult ec e X) (ag_Bx pf)
     \<and> enc N1 (ag_Z2 pf) (ag_Wy pf) = ag_By pf * (Y ^ nat e mod (N1 * N1)) mod (N1 * N1)
     \<and> ped NCap s t (ag_Z1 pf) (ag_Z3 pf) = ag_E pf * (ag_S pf ^ nat e mod NCap) mod NCap
     \<and> ped NCap s t (ag_Z2 pf) (ag_Z4 pf) = ag_F pf * (ag_T pf ^ nat e mod NCap) mod NCap"

lemma aff_left:
  "((C ^ nat z1 mod (n * n)) * ((n + 1) ^ nat z2 mod (n * n)) mod (n * n))
     * (w ^ nat n mod (n * n)) mod (n * n) = aff n C z1 z2 w"
  by (simp add: aff_def enc_def mod_mult_left_eq mod_mult_right_eq mult.assoc)

context lib_ok
begin

lemma affg_verify_meaning:
  assumes "0 < NCap" "0 < pk_n pk0" "0 < pk_n pk1"
    and g: "ec_group ec" "valid_point ec X" "valid_point ec (ag_Bx pf)"
    and c: "challenge L (cn ec) (affg_transcript ssid ec pk0 pk1 NCap s t C D Y X
      (ag_S pf) (ag_T pf) (ag_A pf) (ag_Bx pf) (ag_By pf) (ag_E pf) (ag_F pf)) = Inr e"
  shows "affg_verify L pf ssid ec pk0 pk1 NCap s t C D Y X
    = Inr (affg_accepts pf ec (pk_n pk0) (pk_n pk1) NCap s t C D Y X e)"
proof -
  have e: "0 \<le> e" using challenge_range [OF c] by simp
  show ?thesis
  proof (cases "0 < ag_Z1 pf \<and> 0 < ag_Z2 pf \<and> 0 < ag_Z3 pf \<and> 0 < ag_Z4 pf")
    case True
    then have "(min (min (ag_Z1 pf) (ag_Z2 pf)) (min (ag_Z3 pf) (ag_Z4 pf)) \<le> 0) = False"
      by auto
    with True assms e show ?thesis
      unfolding affg_verify_def affg_accepts_def Let_def is_in_interval_def
      by (simp only: zk_eval powmod_nonneg ec_eqs aff_left not_not) simp
  next
    case False
    then have "(min (min (ag_Z1 pf) (ag_Z2 pf)) (min (ag_Z3 pf) (ag_Z4 pf)) \<le> 0) = True"
      by auto
    then have "affg_verify L pf ssid ec pk0 pk1 NCap s t C D Y X = Inr False"
      by (simp only: affg_verify_def Let_def if_True if_cancel)
    moreover have "\<not> affg_accepts pf ec (pk_n pk0) (pk_n pk1) NCap s t C D Y X e"
      using False by (simp only: affg_accepts_def) blast
    ultimately show ?thesis by simp
  qed
qed

lemma affg_new_proof_draws:
  assumes "affg_new_proof L ssid ec pk0 pk1 NCap s t C D Y X x y rho rhoy tp = Inr (pf, tp')"
  obtains alpha beta r ry gam m delta mu
    where "0 \<le> alpha" "0 < beta" "coprime r (pk_n pk0)" "coprime ry (pk_n pk1)"
    and "0 \<le> gam" "0 \<le> m" "0 \<le> delta" "0 \<le> mu"
    and "affg_prove L ssid ec pk0 pk1 NCap s t C D Y X x y rho rhoy
      alpha beta r ry gam m delta mu = Inr pf"
proof -
  have "\<not> (NCap = 0 \<or> s = 0 \<or> t = 0 \<or> C = 0 \<or> D = 0 \<or> Y = 0 \<or> x = 0 \<or> y = 0 \<or> rho = 0 \<or> rhoy = 0)"
    using assms by (auto simp: affg_new_proof_def rnd_simps)
  then show thesis
    using assms
    apply (simp only: affg_new_proof_def Let_def if_False rbind_eq_Inr rlift_eq_Inr)
    by (elim exE conjE)
      (rule that; (assumption | metis random_nonnegative_int_range relatively_prime_draw))
qed

text \<open>
  Completeness for an honest statement \<open>D = C\<^sup>x Enc\<^sub>0(y)\<close>, \<open>Y = Enc\<^sub>1(y)\<close>, \<open>X = x G\<close>. Besides the
  range check on \<open>Z1\<close>, the verifier rejects responses that happen to be zero.
\<close>

lemma affg_complete:
  assumes new: "affg_new_proof L ssid ec pk0 pk1 NCap s t C D Y (ec_mult ec x (generator ec))
      x y rho rhoy tp = Inr (pf, tp')"
    and N: "1 < pk_n pk0" "1 < pk_n pk1" and NCap: "1 < NCap"
    and st: "coprime s NCap" "coprime t NCap"
    and g: "ec_group ec" and C: "coprime C (pk_n pk0)"
    and D: "D = aff (pk_n pk0) C x y rho" "coprime rho (pk_n pk0)"
    and Y: "Y = enc (pk_n pk1) y rhoy" "coprime rhoy (pk_n pk1)"
    and xy: "0 \<le> x" "0 \<le> y"
    and range: "0 < ag_Z1 pf" "ag_Z1 pf < cn ec ^ 3" "0 < ag_Z3 pf" "0 < ag_Z4 pf"
  shows "affg_verify L pf ssid ec pk0 pk1 NCap s t C D Y (ec_mult ec x (generator ec)) = Inr True"
proof -
  let ?N0 = "pk_n pk0" and ?N1 = "pk_n pk1" and ?G = "generator ec"
  have pos: "0 < NCap" "0 < ?N0" "0 < ?N1" using N NCap by simp_all
  have G: "valid_point ec ?G" using g by (rule generator_valid)
  from new obtain alpha beta r ry gam m delta mu
    where a: "0 \<le> alpha" "0 < beta" "0 \<le> gam" "0 \<le> m" "0 \<le> delta" "0 \<le> mu"
    and r: "coprime r ?N0" "coprime ry ?N1"
    and prove: "affg_prove L ssid ec pk0 pk1 NCap s t C D Y (ec_mult ec x ?G) x y rho rhoy
      alpha beta r ry gam m delta mu = Inr pf"
    by (rule affg_new_proof_draws)
  have A: "(C ^ nat alpha mod (?N0 * ?N0)) * ((?N0 + 1) ^ nat beta mod (?N0 * ?N0))
      * (r ^ nat ?N0 mod (?N0 * ?N0)) mod (?N0 * ?N0) = aff ?N0 C alpha beta r"
    unfolding aff_left [symmetric] by (rule mod_mult_left_eq [symmetric])
  have beta: "0 \<le> beta" using a by simp
  from prove obtain e w wy where
    e: "challenge L (cn ec) (affg_transcript ssid ec pk0 pk1 NCap s t C D Y (ec_mult ec x ?G)
        (ped NCap s t x m) (ped NCap s t y mu) (aff ?N0 C alpha beta r) (ec_mult ec alpha ?G)
        (enc ?N1 beta ry) (ped NCap s t alpha gam) (ped NCap s t beta delta)) = Inr e"
    and w: "mulpow L ?N0 r rho e = Inr w" "mulpow L ?N1 ry rhoy e = Inr wy"
    and pf: "pf = \<lparr> ag_S = ped NCap s t x m, ag_T = ped NCap s t y mu,
        ag_A = aff ?N0 C alpha beta r, ag_Bx = ec_mult ec alpha ?G, ag_By = enc ?N1 beta ry,
        ag_E = ped NCap s t alpha gam, ag_F = ped NCap s t beta delta,
        ag_Z1 = e * x + alpha, ag_Z2 = e * y + beta, ag_Z3 = e * m + gam,
        ag_Z4 = e * mu + delta, ag_W = w, ag_Wy = wy \<rparr>"
    using pos xy a beta g A
    by (auto simp: affg_prove_def Let_def pow2_ped powmod_nonneg n_square_def gamma_def
        res_simps ec_eqs)
  have e0: "0 \<le> e" using challenge_range [OF e] by simp
  have W: "w = (rho ^ nat e mod ?N0) * r mod ?N0" "wy = (rhoy ^ nat e mod ?N1) * ry mod ?N1"
    using w e0 pos by (simp_all add: mulpow_eq mult.commute)
  have u: "unit_mod ?N0 w" "unit_mod ?N1 wy"
    using W response_unit [OF D(2) r(1) N(1)] response_unit [OF Y(2) r(2) N(2)]
    by (simp_all add: unit_mod_def)
  have z2: "0 < e * y + beta" using e0 xy a by (simp add: add_nonneg_pos)
  note eqs = aff_response [OF pos(2) e0 xy a(1) beta, of C rho r]
    enc_response [OF pos(3) e0 xy(2) beta, of rhoy ry]
    ped_response [OF e0 xy(1) a(4) a(1) a(3), of NCap s t]
    ped_response [OF e0 xy(2) a(6) beta a(5), of NCap s t]
    ec_response [OF g G, of e x alpha]
  have "affg_accepts pf ec ?N0 ?N1 NCap s t C D Y (ec_mult ec x ?G) e"
    using range u z2 ped_unit [OF st NCap] enc_unit [OF N(2) r(2)] aff_unit [OF N(1) C r(1)] eqs
    unfolding W [symmetric] unfolding affg_accepts_def unit_mod_def pf D(1) Y(1)
    by simp
  then show ?thesis
    using affg_verify_meaning [of NCap pk0 pk1 ec "ec_mult ec x ?G" pf ssid s t C D Y e] pos e g G
    by (simp add: pf ec_mult_valid)
qed

end

section \<open>Wire format\<close>

definition affg_wf :: "lib \<Rightarrow> curve \<Rightarrow> proof_affg \<Rightarrow> bool" where
  "affg_wf L ec pf \<longleftrightarrow> point_on L ec (ag_Bx pf) \<and> 0 \<le> ag_S pf \<and> 0 \<le> ag_T pf \<and> 0 \<le> ag_A pf
     \<and> 0 \<le> ag_By pf \<and> 0 \<le> ag_E pf \<and> 0 \<le> ag_F pf \<and> 0 \<le> ag_Z1 pf \<and> 0 \<le> ag_Z2 pf
     \<and> 0 \<le> ag_Z3 pf \<and> 0 \<le> ag_Z4 pf \<and> 0 \<le> ag_W pf \<and> 0 \<le> ag_Wy pf"

interpretation affg_wire: wire_codec affg_to_bytes_parts "affg_from_bytes L ec"
  "affg_wf L ec" ProofAffgBytesParts for L ec
  by unfold_locales
    (auto simp: affg_to_bytes_parts_def affg_from_bytes_def ProofAffgBytesParts_def
      affg_wf_def point_on_def)

end
