(* ===== verification/ZkMta.thy ===== *)
theory ZkMta
  imports ZkAffg
begin

text \<open>
  \<^verbatim>\<open>crypto/zkp/mta.py\<close>: the conversion of a product of two secrets into a sum, and its
  correctness: what the peer decrypts and the sender's share add up to the product modulo \<open>q\<close>,
  as long as the masked product does not exceed the peer's modulus.
\<close>

section \<open>The code\<close>

record mta_out =
  mo_Dji :: int
  mo_Fji :: int
  mo_sij :: int
  mo_rij :: int
  mo_beta :: int
  mo_Proofji :: proof_affg

definition new_mta ::
    "lib \<Rightarrow> int \<Rightarrow> curve \<Rightarrow> int \<Rightarrow> int \<Rightarrow> point \<Rightarrow> public_key \<Rightarrow> public_key \<Rightarrow> int \<Rightarrow> int \<Rightarrow> int
      \<Rightarrow> mta_out rnd" where
  "new_mta L ssid ec Kj gamma_i BigGamma_i pkj pki NCap s t =
     (let q = cn ec in
      rbind (random_positive_int (pk_n pkj)) (\<lambda>beta_neg.
      let beta = (- beta_neg) mod q in
      rbind (rlift (homo_mult L pkj (gamma_i mod pk_n pkj) Kj)) (\<lambda>gammaK.
      rbind (encrypt_and_return_randomness L pkj beta_neg) (\<lambda>(Dji0, sij).
      rbind (rlift (homo_add pkj gammaK Dji0)) (\<lambda>Dji.
      rbind (encrypt_and_return_randomness L pki (beta_neg mod pk_n pki)) (\<lambda>(Fji, rij).
      rbind (affg_new_proof L ssid ec pkj pki NCap s t Kj Dji Fji BigGamma_i
               (gamma_i mod q) beta_neg sij rij) (\<lambda>proof.
      rret \<lparr> mo_Dji = Dji, mo_Fji = Fji, mo_sij = sij, mo_rij = rij, mo_beta = beta,
             mo_Proofji = proof \<rparr>)))))))"

section \<open>Properties\<close>

lemma enc_mod:
  assumes "0 < n" and "0 \<le> m"
  shows "enc n (m mod n) x = enc n m x"
proof -
  have b: "(n + 1) ^ nat k mod (n * n) = (1 + n * k) mod (n * n)" if "0 \<le> k" for k
    using binomial_square [of n 1 "nat k"] that by (simp add: add.commute)
  have "n * m mod (n * n) = n * (m mod n) mod (n * n)" by (simp flip: mult_mod_right)
  then have "(1 + n * (m mod n)) mod (n * n) = (1 + n * m) mod (n * n)"
    by (intro mod_add_cong) simp_all
  then have "(n + 1) ^ nat (m mod n) mod (n * n) = (n + 1) ^ nat m mod (n * n)"
    using assms by (simp add: b)
  then show ?thesis unfolding enc_def by (intro mod_mult_cong) simp_all
qed

context lib_ok
begin

lemma new_mta_shape:
  assumes new: "new_mta L ssid ec (enc (pk_n pkj) k rho) gamma_i X pkj pki NCap s t tp = Inr (out, tp')"
    and k: "0 \<le> k" and g: "0 \<le> gamma_i"
  obtains b tp1 where "0 < b" "b < pk_n pkj" and "mo_beta out = (- b) mod cn ec"
    and "coprime (mo_sij out) (pk_n pkj)" "coprime (mo_rij out) (pk_n pki)"
    and "mo_Dji out = enc (pk_n pkj) (k * (gamma_i mod pk_n pkj) + b)
      (rho ^ nat (gamma_i mod pk_n pkj) * mo_sij out)"
    and "mo_Fji out = enc (pk_n pki) (b mod pk_n pki) (mo_rij out)"
    and "affg_new_proof L ssid ec pkj pki NCap s t (enc (pk_n pkj) k rho) (mo_Dji out) (mo_Fji out) X
      (gamma_i mod cn ec) b (mo_sij out) (mo_rij out) tp1 = Inr (mo_Proofji out, tp')"
proof -
  from new obtain b t1 gK Dji0 sij t2 Dji Fji rij t3 pf where
      b: "random_positive_int (pk_n pkj) tp = Inr (b, t1)"
    and gK: "homo_mult L pkj (gamma_i mod pk_n pkj) (enc (pk_n pkj) k rho) = Inr gK"
    and D0: "encrypt_and_return_randomness L pkj b t1 = Inr ((Dji0, sij), t2)"
    and D: "homo_add pkj gK Dji0 = Inr Dji"
    and F: "encrypt_and_return_randomness L pki (b mod pk_n pki) t2 = Inr ((Fji, rij), t3)"
    and pf: "affg_new_proof L ssid ec pkj pki NCap s t (enc (pk_n pkj) k rho) Dji Fji X
      (gamma_i mod cn ec) b sij rij t3 = Inr (pf, tp')"
    and out: "out = \<lparr> mo_Dji = Dji, mo_Fji = Fji, mo_sij = sij, mo_rij = rij,
      mo_beta = (- b) mod cn ec, mo_Proofji = pf \<rparr>"
    unfolding new_mta_def Let_def rbind_eq_Inr rlift_eq_Inr rret_eq
    by (auto simp: rbind_eq_Inr rlift_eq_Inr rret_eq)
  have br: "0 < b" "b < pk_n pkj" using random_positive_int_range [OF b] by auto
  note e0 = encrypt_and_return_randomness_enc [OF D0] and f0 = encrypt_and_return_randomness_enc [OF F]
  have "gK = enc (pk_n pkj) (k * (gamma_i mod pk_n pkj)) (rho ^ nat (gamma_i mod pk_n pkj))"
    using gK homo_mult_enc [of "gamma_i mod pk_n pkj" pkj k rho] br k by simp
  then have "Dji = enc (pk_n pkj) (k * (gamma_i mod pk_n pkj) + b)
      (rho ^ nat (gamma_i mod pk_n pkj) * sij)"
    using D e0 homo_add_enc [of pkj "k * (gamma_i mod pk_n pkj)" b] br k by simp
  then show thesis using br e0 f0 pf by (intro that [of b t3]) (simp_all add: out)
qed

lemma mta_correct:
  assumes new: "new_mta L ssid ec (enc (pk_n pkj) k rho) gamma_i X pkj pki NCap s t tp = Inr (out, tp')"
    and key: "key_of_primes p q sk" "pk_n sk = pk_n pkj"
    and k: "0 \<le> k" and g: "0 \<le> gamma_i" and rho: "coprime rho (pk_n pkj)"
  shows "\<exists>b alpha sk'. 0 < b \<and> b < pk_n pkj \<and> mo_beta out = (- b) mod cn ec
    \<and> decrypt L sk (mo_Dji out) = Inr (alpha, sk') \<and> key_of_primes p q sk' \<and> pk_n sk' = pk_n pkj
    \<and> alpha = (gamma_i * k + b) mod pk_n pkj
    \<and> (gamma_i * k + b < pk_n pkj \<longrightarrow> (alpha + mo_beta out) mod cn ec = gamma_i * k mod cn ec)"
proof -
  let ?n = "pk_n pkj"
  obtain b tp1 where b: "0 < b" "b < ?n" and beta: "mo_beta out = (- b) mod cn ec"
    and s: "coprime (mo_sij out) ?n"
    and D: "mo_Dji out = enc ?n (k * (gamma_i mod ?n) + b) (rho ^ nat (gamma_i mod ?n) * mo_sij out)"
    using new_mta_shape [OF new k g] by metis
  have "coprime (rho ^ nat (gamma_i mod ?n) * mo_sij out) (pk_n sk)"
    using rho s key(2) by simp
  moreover have "0 \<le> k * (gamma_i mod ?n) + b" using k b by simp
  ultimately obtain sk' where
    "decrypt L sk (mo_Dji out) = Inr ((k * (gamma_i mod ?n) + b) mod ?n, sk')"
    and sk': "key_of_primes p q sk'" "pk_n sk' = ?n"
    using decrypt_enc [OF key(1), of "rho ^ nat (gamma_i mod ?n) * mo_sij out"
        "k * (gamma_i mod ?n) + b"] D key(2)
    by (auto simp: public_key.truncate_def)
  moreover have "(k * (gamma_i mod ?n) + b) mod ?n = (gamma_i * k + b) mod ?n"
    unfolding mult.commute [of gamma_i k] by (intro mod_congs) simp_all
  moreover have "((gamma_i * k + b) mod ?n + (- b) mod cn ec) mod cn ec = gamma_i * k mod cn ec"
    if "gamma_i * k + b < ?n"
  proof -
    have "(gamma_i * k + b) mod ?n = gamma_i * k + b" using that g k b by simp
    then show ?thesis by (simp add: mod_add_right_eq)
  qed
  ultimately show ?thesis
    using b beta sk' by (intro exI [of _ b] exI [of _ "(gamma_i * k + b) mod ?n"] exI [of _ sk']) simp
qed

lemma mta_proof_verifies:
  assumes new: "new_mta L ssid ec (enc (pk_n pkj) k rho) gamma_i (ec_mult ec gamma_i (generator ec))
      pkj pki NCap s t tp = Inr (out, tp')"
    and N: "1 < pk_n pkj" "1 < pk_n pki" and NCap: "1 < NCap"
    and st: "coprime s NCap" "coprime t NCap"
    and g: "ec_group ec" and k: "0 \<le> k" "coprime rho (pk_n pkj)"
    and gam: "0 \<le> gamma_i" "gamma_i < cn ec" "cn ec \<le> pk_n pkj"
    and range: "0 < ag_Z1 (mo_Proofji out)" "ag_Z1 (mo_Proofji out) < cn ec ^ 3"
      "0 < ag_Z3 (mo_Proofji out)" "0 < ag_Z4 (mo_Proofji out)"
  shows "affg_verify L (mo_Proofji out) ssid ec pkj pki NCap s t (enc (pk_n pkj) k rho)
    (mo_Dji out) (mo_Fji out) (ec_mult ec gamma_i (generator ec)) = Inr True"
proof -
  let ?n = "pk_n pkj" and ?K = "enc (pk_n pkj) k rho"
  obtain b tp1 where b: "0 < b" "b < ?n"
    and c: "coprime (mo_sij out) ?n" "coprime (mo_rij out) (pk_n pki)"
    and D: "mo_Dji out = enc ?n (k * (gamma_i mod ?n) + b) (rho ^ nat (gamma_i mod ?n) * mo_sij out)"
    and F: "mo_Fji out = enc (pk_n pki) (b mod pk_n pki) (mo_rij out)"
    and pf: "affg_new_proof L ssid ec pkj pki NCap s t ?K (mo_Dji out) (mo_Fji out)
      (ec_mult ec gamma_i (generator ec)) (gamma_i mod cn ec) b (mo_sij out) (mo_rij out) tp1
      = Inr (mo_Proofji out, tp')"
    using new_mta_shape [OF new k(1) gam(1)] by metis
  have g1: "gamma_i mod ?n = gamma_i" "gamma_i mod cn ec = gamma_i" using gam by simp_all
  have "mo_Dji out = aff ?n ?K gamma_i b (mo_sij out)"
    using D k b gam enc_power [OF k(1), of ?n rho "nat gamma_i"]
      enc_mult [of "k * gamma_i" b ?n "rho ^ nat gamma_i" "mo_sij out"]
    by (simp add: aff_def g1)
  moreover have "mo_Fji out = enc (pk_n pki) b (mo_rij out)" using F N b by (simp add: enc_mod)
  moreover have "coprime ?K ?n" using N k enc_coprime by blast
  ultimately show ?thesis
    using affg_complete [OF pf [unfolded g1] N NCap st g] c gam b range by simp
qed

end

end
