(* ===== verification/ZkLogstar.thy ===== *)
theory ZkLogstar
  imports ZkEnc
begin

text \<open>
  \<^verbatim>\<open>crypto/zkp/logstar.py\<close>: the proof that the plaintext of a Paillier ciphertext is the discrete
  logarithm of a curve point. \<open>logstar_new_proof\<close> draws the masks and \<open>logstar_prove\<close> is the rest
  of \<^verbatim>\<open>new_proof\<close>.
\<close>

section \<open>The code\<close>

record proof_logstar =
  ls_S :: int
  ls_A :: int
  ls_Y :: point
  ls_D :: int
  ls_Z1 :: int
  ls_Z2 :: int
  ls_Z3 :: int

definition ProofLogstarBytesParts :: nat where
  "ProofLogstarBytesParts = 8"

definition logstar_transcript ::
    "int \<Rightarrow> curve \<Rightarrow> public_key \<Rightarrow> int \<Rightarrow> point \<Rightarrow> point \<Rightarrow> int \<Rightarrow> int \<Rightarrow> int
      \<Rightarrow> int \<Rightarrow> int \<Rightarrow> point \<Rightarrow> int \<Rightarrow> int list" where
  "logstar_transcript ssid ec pk C X g NCap s t S A Y D =
     [ssid, pk_n pk, gamma pk, cb ec, cn ec, cp ec, C, px X, py X, px g, py g,
      S, A, px Y, py Y, D, NCap, s, t]"

definition logstar_prove ::
    "lib \<Rightarrow> int \<Rightarrow> curve \<Rightarrow> public_key \<Rightarrow> int \<Rightarrow> point \<Rightarrow> point \<Rightarrow> int \<Rightarrow> int \<Rightarrow> int \<Rightarrow> int \<Rightarrow> int
      \<Rightarrow> int \<Rightarrow> int \<Rightarrow> int \<Rightarrow> int \<Rightarrow> proof_logstar res" where
  "logstar_prove L ssid ec pk C X g rho x NCap s t alpha mu gam r =
     (let q = cn ec; N = pk_n pk; NSq = n_square pk in
      ebind (pow2 L NCap s x t mu) (\<lambda>S.
      ebind (pow2 L NSq (gamma pk) alpha r N) (\<lambda>A.
      ebind (scalar_mult L ec (alpha mod q) g) (\<lambda>Y.
      ebind (pow2 L NCap s alpha t gam) (\<lambda>D.
      ebind (challenge L q (logstar_transcript ssid ec pk C X g NCap s t S A Y D)) (\<lambda>e.
      ebind (mulpow L N r rho e) (\<lambda>z2.
      Inr \<lparr> ls_S = S, ls_A = A, ls_Y = Y, ls_D = D, ls_Z1 = e * x + alpha, ls_Z2 = z2,
            ls_Z3 = e * mu + gam \<rparr>)))))))"

definition logstar_new_proof ::
    "lib \<Rightarrow> int \<Rightarrow> curve \<Rightarrow> public_key \<Rightarrow> int \<Rightarrow> point \<Rightarrow> point \<Rightarrow> int \<Rightarrow> int \<Rightarrow> int \<Rightarrow> int \<Rightarrow> int
      \<Rightarrow> proof_logstar rnd" where
  "logstar_new_proof L ssid ec pk C X g rho x NCap s t =
     (let q = cn ec; q3 = q ^ 3; qNCap = q * NCap; q3NCap = q3 * NCap in
      rbind (random_nonnegative_int q3) (\<lambda>alpha.
      rbind (random_nonnegative_int qNCap) (\<lambda>mu.
      rbind (random_nonnegative_int q3NCap) (\<lambda>gam.
      rbind (get_random_positive_relatively_prime_int L (pk_n pk)) (\<lambda>r.
      rlift (logstar_prove L ssid ec pk C X g rho x NCap s t alpha mu gam r))))))"

definition logstar_from_bytes :: "lib \<Rightarrow> curve \<Rightarrow> bytes list \<Rightarrow> proof_logstar res" where
  "logstar_from_bytes L ec parts =
     (if parts = [] \<or> length parts \<noteq> ProofLogstarBytesParts then Inl ValueError
      else
        ebind (mk_point L ec (int_from_bytes (parts ! 2)) (int_from_bytes (parts ! 3))) (\<lambda>Y.
        Inr \<lparr> ls_S = int_from_bytes (parts ! 0), ls_A = int_from_bytes (parts ! 1), ls_Y = Y,
              ls_D = int_from_bytes (parts ! 4), ls_Z1 = int_from_bytes (parts ! 5),
              ls_Z2 = int_from_bytes (parts ! 6), ls_Z3 = int_from_bytes (parts ! 7) \<rparr>))"

definition logstar_to_bytes_parts :: "proof_logstar \<Rightarrow> bytes list" where
  "logstar_to_bytes_parts pf =
     [int_to_bytes (ls_S pf), int_to_bytes (ls_A pf), int_to_bytes (px (ls_Y pf)),
      int_to_bytes (py (ls_Y pf)), int_to_bytes (ls_D pf), int_to_bytes (ls_Z1 pf),
      int_to_bytes (ls_Z2 pf), int_to_bytes (ls_Z3 pf)]"

definition logstar_verify ::
    "lib \<Rightarrow> proof_logstar \<Rightarrow> int \<Rightarrow> curve \<Rightarrow> public_key \<Rightarrow> int \<Rightarrow> point \<Rightarrow> point \<Rightarrow> int \<Rightarrow> int \<Rightarrow> int
      \<Rightarrow> bool res" where
  "logstar_verify L pf ssid ec pk C X g NCap s t =
     (if C = 0 \<or> NCap = 0 \<or> s = 0 \<or> t = 0 then Inr False
      else
        let q = cn ec; N = pk_n pk; NSq = n_square pk;
            S = ls_S pf; A = ls_A pf; D = ls_D pf;
            Z1 = ls_Z1 pf; Z2 = ls_Z2 pf; Z3 = ls_Z3 pf in
        if \<not> is_in_interval Z1 (q ^ 3) then Inr False
        else if \<not> check_invertible_and_valid_mod L NCap [S, D] then Inr False
        else if \<not> check_invertible_and_valid_mod L NSq [A] then Inr False
        else if \<not> check_invertible_and_valid_mod L N [Z2] then Inr False
        else
          ebind (challenge L q (logstar_transcript ssid ec pk C X g NCap s t S A (ls_Y pf) D)) (\<lambda>e.
          ebind (pow2 L NSq (gamma pk) Z1 Z2 N) (\<lambda>left1.
          ebind (mulpow L NSq A C e) (\<lambda>right1.
          if left1 \<noteq> right1 then Inr False
          else
            ebind (scalar_mult L ec (Z1 mod q) g) (\<lambda>left2.
            ebind (scalar_mult L ec e X) (\<lambda>eX.
            ebind (point_add L ec eX (ls_Y pf)) (\<lambda>right2.
            if \<not> point_eq left2 right2 then Inr False
            else
              ebind (pow2 L NCap s Z1 t Z3) (\<lambda>left3.
              ebind (mulpow L NCap D S e) (\<lambda>right3.
              if left3 \<noteq> right3 then Inr False else Inr True)))))))))"

section \<open>Properties\<close>

definition logstar_accepts ::
    "proof_logstar \<Rightarrow> curve \<Rightarrow> int \<Rightarrow> int \<Rightarrow> int \<Rightarrow> int \<Rightarrow> int \<Rightarrow> point \<Rightarrow> point \<Rightarrow> int \<Rightarrow> bool" where
  "logstar_accepts pf ec N NCap s t C X g e \<longleftrightarrow>
     (0 \<le> ls_Z1 pf \<and> ls_Z1 pf < cn ec ^ 3)
     \<and> (unit_mod NCap (ls_S pf) \<and> unit_mod NCap (ls_D pf))
     \<and> unit_mod (N * N) (ls_A pf) \<and> unit_mod N (ls_Z2 pf)
     \<and> enc N (ls_Z1 pf) (ls_Z2 pf) = ls_A pf * (C ^ nat e mod (N * N)) mod (N * N)
     \<and> ec_mult ec (ls_Z1 pf) g = ec_add ec (ec_mult ec e X) (ls_Y pf)
     \<and> ped NCap s t (ls_Z1 pf) (ls_Z3 pf) = ls_D pf * (ls_S pf ^ nat e mod NCap) mod NCap"

context lib_ok
begin

lemma logstar_verify_meaning:
  assumes "0 < NCap" "0 < pk_n pk" "s \<noteq> 0" "t \<noteq> 0" "C \<noteq> 0" "0 \<le> ls_Z3 pf"
    and g: "ec_group ec" "valid_point ec X" "valid_point ec g" "valid_point ec (ls_Y pf)"
    and c: "challenge L (cn ec) (logstar_transcript ssid ec pk C X g NCap s t
      (ls_S pf) (ls_A pf) (ls_Y pf) (ls_D pf)) = Inr e"
  shows "logstar_verify L pf ssid ec pk C X g NCap s t
    = Inr (logstar_accepts pf ec (pk_n pk) NCap s t C X g e)"
proof -
  have e: "0 \<le> e" using challenge_range [OF c] by simp
  show ?thesis
  proof (cases "0 \<le> ls_Z1 pf")
    case True
    with assms e show ?thesis
      unfolding logstar_verify_def logstar_accepts_def Let_def is_in_interval_def
      by (simp only: zk_eval ec_eqs) simp
  qed (use assms in \<open>simp add: logstar_verify_def logstar_accepts_def Let_def is_in_interval_def\<close>)
qed

lemma logstar_new_proof_draws:
  assumes "logstar_new_proof L ssid ec pk C X g rho x NCap s t tp = Inr (pf, tp')"
  obtains alpha mu gam r where "0 \<le> alpha" "0 \<le> mu" "0 \<le> gam" "alpha < cn ec ^ 3"
    and "0 < r" "r < pk_n pk" "coprime r (pk_n pk)"
    and "logstar_prove L ssid ec pk C X g rho x NCap s t alpha mu gam r = Inr pf"
  using assms unfolding logstar_new_proof_def Let_def rbind_eq_Inr rlift_eq_Inr
  by (elim exE conjE) (metis random_nonnegative_int_range relatively_prime_draw)

lemma logstar_complete:
  assumes new: "logstar_new_proof L ssid ec pk C (ec_mult ec x g) g rho x NCap s t tp = Inr (pf, tp')"
    and N: "1 < pk_n pk" and NCap: "1 < NCap"
    and st: "coprime s NCap" "coprime t NCap"
    and g: "ec_group ec" "valid_point ec g"
    and C: "C = enc (pk_n pk) x rho" "coprime rho (pk_n pk)" "0 \<le> x"
    and range: "ls_Z1 pf < cn ec ^ 3"
  shows "logstar_verify L pf ssid ec pk C (ec_mult ec x g) g NCap s t = Inr True"
proof -
  let ?N = "pk_n pk" and ?X = "ec_mult ec x g"
  have pos: "0 < NCap" "0 < ?N" using N NCap by simp_all
  from new obtain alpha mu gam r where a: "0 \<le> alpha" "0 \<le> mu" "0 \<le> gam"
    and r: "0 < r" "r < ?N" "coprime r ?N"
    and prove: "logstar_prove L ssid ec pk C ?X g rho x NCap s t alpha mu gam r = Inr pf"
    by (rule logstar_new_proof_draws)
  from prove obtain e z where
    e: "challenge L (cn ec) (logstar_transcript ssid ec pk C ?X g NCap s t
        (ped NCap s t x mu) (enc ?N alpha r) (ec_mult ec alpha g) (ped NCap s t alpha gam)) = Inr e"
    and z: "mulpow L ?N r rho e = Inr z"
    and pf: "pf = \<lparr> ls_S = ped NCap s t x mu, ls_A = enc ?N alpha r, ls_Y = ec_mult ec alpha g,
        ls_D = ped NCap s t alpha gam, ls_Z1 = e * x + alpha, ls_Z2 = z, ls_Z3 = e * mu + gam \<rparr>"
    using pos C(3) a g
    by (auto simp: logstar_prove_def Let_def pow2_ped n_square_def gamma_def res_simps ec_eqs)
  have e0: "0 \<le> e" using challenge_range [OF e] by simp
  have z2: "z = (rho ^ nat e mod ?N) * r mod ?N"
    using z e0 pos by (simp add: mulpow_eq mult.commute)
  have nz: "s \<noteq> 0" "t \<noteq> 0" "C \<noteq> 0"
    using st NCap enc_unit [OF N C(2), of x] C(1) by auto
  have zu: "unit_mod ?N z"
    using z2 response_unit [OF C(2) r(3) N] by (simp add: unit_mod_def)
  have "logstar_accepts pf ec ?N NCap s t C ?X g e"
    using range e0 a C(3) zu
      ped_unit [OF st NCap] enc_unit [OF N r(3)]
      enc_response [OF pos(2) e0 C(3) a(1), of rho r]
      ped_response [OF e0 C(3) a(2) a(1) a(3), of NCap s t]
      ec_response [OF g, of e x alpha]
    unfolding z2 [symmetric]
    by (simp add: logstar_accepts_def unit_mod_def pf C(1))
  then show ?thesis
    using logstar_verify_meaning [of NCap pk s t C pf ec ?X g ssid e] pos nz e a e0 g
    by (simp add: pf ec_mult_valid)
qed

end

section \<open>Wire format\<close>

definition logstar_wf :: "lib \<Rightarrow> curve \<Rightarrow> proof_logstar \<Rightarrow> bool" where
  "logstar_wf L ec pf \<longleftrightarrow> point_on L ec (ls_Y pf) \<and> 0 \<le> ls_S pf \<and> 0 \<le> ls_A pf \<and> 0 \<le> ls_D pf
     \<and> 0 \<le> ls_Z1 pf \<and> 0 \<le> ls_Z2 pf \<and> 0 \<le> ls_Z3 pf"

context lib_ok
begin

lemma logstar_new_wf:
  assumes new: "logstar_new_proof L ssid ec pk C X g rho x NCap s t tp = Inr (pf, tp')"
    and g: "ec_group ec" "valid_point ec g" and pos: "0 < pk_n pk" "0 < NCap" "0 \<le> x"
  shows "logstar_wf L ec pf"
proof -
  from new obtain alpha mu gam r where a: "0 \<le> alpha" "0 \<le> mu" "0 \<le> gam"
    and prove: "logstar_prove L ssid ec pk C X g rho x NCap s t alpha mu gam r = Inr pf"
    by (rule logstar_new_proof_draws)
  have p: "0 < cp ec" using g by (simp add: ec_group_def valid_curve_def)
  have "valid_point ec (ec_mult ec alpha g)" using g by (simp add: ec_mult_valid)
  moreover have "0 \<le> z" if "0 \<le> e" "mulpow L (pk_n pk) r rho e = Inr z" for e z
    using that pos by (auto simp: mulpow_eq)
  ultimately show ?thesis
    using prove pos a g valid_point_on [OF p] ped_range [OF pos(2)] enc_range [OF pos(1)]
    by (auto simp: logstar_prove_def Let_def pow2_ped n_square_def gamma_def res_simps ec_eqs
        logstar_wf_def dest!: challenge_range)
qed

end

interpretation logstar_wire: wire_codec logstar_to_bytes_parts "logstar_from_bytes L ec"
  "logstar_wf L ec" ProofLogstarBytesParts for L ec
  by unfold_locales
    (auto simp: logstar_to_bytes_parts_def logstar_from_bytes_def ProofLogstarBytesParts_def
      logstar_wf_def point_on_def)

end
