(* ===== verification/Presigning.thy ===== *)
theory Presigning
  imports Messages ZkMta ZkLogstar
begin

text \<open>
  \<^verbatim>\<open>ecdsa/presigning.py\<close>: the third phase. The parties share a nonce \<open>k\<close> and a mask \<open>\<gamma>\<close>,
  convert the products \<open>k \<gamma>\<close> and \<open>k x\<close> into sums, open the masked product and obtain the point
  \<open>R = k\<^sup>-\<^sup>1 G\<close>. Ciphertext fields set in the constructor are plain; fields set by a later round are
  options.
\<close>

section \<open>The code\<close>

record presigning =
  ps_id :: int
  ps_ssid :: int
  ps_xi :: int
  ps_Xi :: point
  ps_Xj :: point
  ps_pub_i :: public_key
  ps_priv_i :: private_key
  ps_si :: int
  ps_ti :: int
  ps_pub_j :: public_key
  ps_sj :: int
  ps_tj :: int
  ps_k_i :: int
  ps_gamma_i :: int
  ps_K_i_ct :: int
  ps_rho_i :: int
  ps_G_i_ct :: int
  ps_nu_i :: int
  ps_Gamma_i :: point
  ps_K_j_ct :: "int option"
  ps_beta_ij :: "int option"
  ps_beta'_ij :: "int option"
  ps_Gamma :: "point option"
  ps_vdelta_i :: "point option"
  ps_delta_i :: "int option"
  ps_chi_i :: "int option"

definition presigning_init ::
    "lib \<Rightarrow> curve \<Rightarrow> int \<Rightarrow> keygen_output_data \<Rightarrow> aux_output_data \<Rightarrow> presigning rnd" where
  "presigning_init L ec party_id kd ad =
     (let pub_i = ao_paillier_pub_i ad in
      rbind (random_scalar ec) (\<lambda>k_i.
      rbind (random_scalar ec) (\<lambda>gamma_i.
      rbind (encrypt_and_return_randomness L pub_i k_i) (\<lambda>(K_i_ct, rho_i).
      rbind (encrypt_and_return_randomness L pub_i gamma_i) (\<lambda>(G_i_ct, nu_i).
      rbind (rlift (base_mult L ec gamma_i)) (\<lambda>Gamma_i.
      rret \<lparr> ps_id = party_id, ps_ssid = ko_ssid kd, ps_xi = ko_xi kd, ps_Xi = ko_Xi kd,
             ps_Xj = ko_Xj kd, ps_pub_i = pub_i, ps_priv_i = ao_paillier_priv_i ad,
             ps_si = ao_si ad, ps_ti = ao_ti ad, ps_pub_j = ao_paillier_pub_j ad,
             ps_sj = ao_sj ad, ps_tj = ao_tj ad, ps_k_i = k_i, ps_gamma_i = gamma_i,
             ps_K_i_ct = K_i_ct, ps_rho_i = rho_i, ps_G_i_ct = G_i_ct, ps_nu_i = nu_i,
             ps_Gamma_i = Gamma_i, ps_K_j_ct = None, ps_beta_ij = None, ps_beta'_ij = None,
             ps_Gamma = None, ps_vdelta_i = None, ps_delta_i = None, ps_chi_i = None \<rparr>))))))"

definition presigning_round1 :: "lib \<Rightarrow> curve \<Rightarrow> presigning \<Rightarrow> presign_r1 rnd" where
  "presigning_round1 L ec s =
     rbind (enc_new_proof L (ps_ssid s) ec (ps_pub_i s) (ps_K_i_ct s) (pk_n (ps_pub_j s))
              (ps_sj s) (ps_tj s) (ps_k_i s) (ps_rho_i s)) (\<lambda>pf.
     rret \<lparr> p1_K_ct = ps_K_i_ct s, p1_G_ct = ps_G_i_ct s, p1_proofenc = enc_to_bytes_parts pf \<rparr>)"

definition presigning_round2 ::
    "lib \<Rightarrow> curve \<Rightarrow> presigning \<Rightarrow> presign_r1 \<Rightarrow> (presign_r2 \<times> presigning) rnd" where
  "presigning_round2 L ec s msg_j_r1 =
     (let N_j = pk_n (ps_pub_j s) in
      rbind (rlift (enc_from_bytes (p1_proofenc msg_j_r1))) (\<lambda>pf_j.
      rbind (rlift (enc_verify L pf_j (ps_ssid s) ec (ps_pub_j s) (pk_n (ps_pub_i s))
               (ps_si s) (ps_ti s) (p1_K_ct msg_j_r1))) (\<lambda>ok.
      rbind (rlift (eguard ok
        (VerificationError ''ProofEnc verification failed for other party.''))) (\<lambda>_.
      let K_j_ct = p1_K_ct msg_j_r1 in
      rbind (new_mta L (ps_ssid s) ec K_j_ct (ps_gamma_i s) (ps_Gamma_i s) (ps_pub_j s) (ps_pub_i s)
               N_j (ps_sj s) (ps_tj s)) (\<lambda>mtaG.
      rbind (new_mta L (ps_ssid s) ec K_j_ct (ps_xi s) (ps_Xi s) (ps_pub_j s) (ps_pub_i s)
               N_j (ps_sj s) (ps_tj s)) (\<lambda>mtaX.
      rbind (logstar_new_proof L (ps_ssid s) ec (ps_pub_i s) (ps_G_i_ct s) (ps_Gamma_i s)
               (generator ec) (ps_nu_i s) (ps_gamma_i s) N_j (ps_sj s) (ps_tj s)) (\<lambda>pf.
      rret (\<lparr> p2_Gamma = ps_Gamma_i s, p2_D = mo_Dji mtaG, p2_D' = mo_Dji mtaX,
              p2_F = mo_Fji mtaG, p2_F' = mo_Fji mtaX,
              p2_psi_affg_gamma = affg_to_bytes_parts (mo_Proofji mtaG),
              p2_psi_affg_xi = affg_to_bytes_parts (mo_Proofji mtaX),
              p2_psi_logstar_gamma = logstar_to_bytes_parts pf \<rparr>,
            s\<lparr> ps_K_j_ct := Some K_j_ct, ps_beta_ij := Some (mo_beta mtaG),
               ps_beta'_ij := Some (mo_beta mtaX) \<rparr>))))))))"

text \<open>The three proofs checked by round 3, in order; decoding comes before each check.\<close>

definition presigning_check2 :: "lib \<Rightarrow> curve \<Rightarrow> presigning \<Rightarrow> int \<Rightarrow> presign_r2 \<Rightarrow> unit res" where
  "presigning_check2 L ec s G_j_ct m =
     (let N_i = pk_n (ps_pub_i s) in
      ebind (affg_from_bytes L ec (p2_psi_affg_gamma m)) (\<lambda>pf.
      ebind (affg_verify L pf (ps_ssid s) ec (ps_pub_i s) (ps_pub_j s) N_i (ps_si s) (ps_ti s)
               (ps_K_i_ct s) (p2_D m) (p2_F m) (p2_Gamma m)) (\<lambda>ok.
      ebind (eguard ok (VerificationError ''First ProofAffg verification failed.'')) (\<lambda>_.
      ebind (affg_from_bytes L ec (p2_psi_affg_xi m)) (\<lambda>pf.
      ebind (affg_verify L pf (ps_ssid s) ec (ps_pub_i s) (ps_pub_j s) N_i (ps_si s) (ps_ti s)
               (ps_K_i_ct s) (p2_D' m) (p2_F' m) (ps_Xj s)) (\<lambda>ok.
      ebind (eguard ok (VerificationError ''Second ProofAffg verification failed.'')) (\<lambda>_.
      ebind (logstar_from_bytes L ec (p2_psi_logstar_gamma m)) (\<lambda>pf.
      ebind (logstar_verify L pf (ps_ssid s) ec (ps_pub_j s) G_j_ct (p2_Gamma m) (generator ec) N_i
               (ps_si s) (ps_ti s)) (\<lambda>ok.
      eguard ok (VerificationError ''ProofLogstar verification failed.''))))))))))"

definition presigning_round3 ::
    "lib \<Rightarrow> curve \<Rightarrow> presigning \<Rightarrow> int \<Rightarrow> presign_r2 \<Rightarrow> (presign_r3 \<times> presigning) rnd" where
  "presigning_round3 L ec s G_j_ct m =
     rbind (rlift (presigning_check2 L ec s G_j_ct m)) (\<lambda>_.
     rbind (rlift (point_add L ec (ps_Gamma_i s) (p2_Gamma m))) (\<lambda>Gamma.
     rbind (rlift (scalar_mult L ec (ps_k_i s) Gamma)) (\<lambda>vdelta_i.
     rbind (rlift (decrypt L (ps_priv_i s) (p2_D m))) (\<lambda>(alpha_ij, priv).
     rbind (rlift (decrypt L priv (p2_D' m))) (\<lambda>(alpha'_ij, priv).
     case (ps_beta_ij s, ps_beta'_ij s) of
       (Some beta_ij, Some beta'_ij) \<Rightarrow>
         let q = cn ec;
             delta_i = (ps_gamma_i s * ps_k_i s + alpha_ij + beta_ij) mod q;
             chi_i = (ps_xi s * ps_k_i s + alpha'_ij + beta'_ij) mod q in
         rbind (logstar_new_proof L (ps_ssid s) ec (ps_pub_i s) (ps_K_i_ct s) vdelta_i Gamma
                  (ps_rho_i s) (ps_k_i s) (pk_n (ps_pub_j s)) (ps_sj s) (ps_tj s)) (\<lambda>pf.
         rret (\<lparr> p3_delta = delta_i, p3_vdelta = vdelta_i, p3_psi = logstar_to_bytes_parts pf \<rparr>,
               s\<lparr> ps_priv_i := priv, ps_Gamma := Some Gamma, ps_vdelta_i := Some vdelta_i,
                  ps_delta_i := Some delta_i, ps_chi_i := Some chi_i \<rparr>))
     | _ \<Rightarrow> rlift (Inl AttributeError))))))"

definition presigning_round_out :: "lib \<Rightarrow> curve \<Rightarrow> presigning \<Rightarrow> presign_r3 \<Rightarrow> presig_output_data res" where
  "presigning_round_out L ec s m =
     ebind (logstar_from_bytes L ec (p3_psi m)) (\<lambda>psi_ij.
     case (ps_K_j_ct s, ps_Gamma s, ps_vdelta_i s, ps_delta_i s, ps_chi_i s) of
       (Some K_j_ct, Some Gamma, Some vdelta_i, Some delta_i, Some chi_i) \<Rightarrow>
         ebind (logstar_verify L psi_ij (ps_ssid s) ec (ps_pub_j s) K_j_ct (p3_vdelta m) Gamma
                  (pk_n (ps_pub_i s)) (ps_si s) (ps_ti s)) (\<lambda>ok.
         ebind (eguard ok (VerificationError ''Final ProofLogstar verification failed.'')) (\<lambda>_.
         let delta = (delta_i + p3_delta m) mod cn ec in
         ebind (point_add L ec vdelta_i (p3_vdelta m)) (\<lambda>expected_point.
         ebind (base_mult L ec delta) (\<lambda>dG.
         ebind (eguard (point_eq dG expected_point)
           (VerificationError ''Final delta verification failed.'')) (\<lambda>_.
         ebind (invert L delta (cn ec)) (\<lambda>delta_inv.
         ebind (scalar_mult L ec delta_inv Gamma) (\<lambda>R.
         ebind (scalar_mult L ec (ps_k_i s) R) (\<lambda>R_k_i.
         ebind (scalar_mult L ec chi_i R) (\<lambda>R_chi_i.
         Inr \<lparr> po_R = R, po_k_i = ps_k_i s, po_chi_i = chi_i, po_ssid = ps_ssid s,
               po_R_k_i = Some R_k_i, po_R_chi_i = Some R_chi_i, po_K_i_ct = ps_K_i_ct s,
               po_K_j_ct = K_j_ct, po_rho_i = ps_rho_i s, po_paillier_pub_i = ps_pub_i s,
               po_paillier_pub_j = ps_pub_j s, po_si = ps_si s, po_ti = ps_ti s,
               po_sj = ps_sj s, po_tj = ps_tj s \<rparr>)))))))))
     | _ \<Rightarrow> Inl TypeError)"

section \<open>Properties\<close>

text \<open>
  \<open>additive_share a b g k N q\<close>: the decrypted \<open>a\<close> and the sender's share \<open>b\<close> add up to \<open>g k\<close> modulo
  \<open>q\<close>, for a mask that did not push the product past the modulus \<open>N\<close>.
\<close>

definition additive_share :: "int \<Rightarrow> int \<Rightarrow> int \<Rightarrow> int \<Rightarrow> int \<Rightarrow> int \<Rightarrow> bool" where
  "additive_share a b g k N q \<longleftrightarrow>
     (\<exists>mask. 0 < mask \<and> mask < N \<and> b = (- mask) mod q \<and> a = (g * k + mask) mod N
       \<and> (g * k + mask < N \<longrightarrow> (a + b) mod q = g * k mod q))"

text \<open>Without the wrap the sum is exact.\<close>

definition exact_share :: "int \<Rightarrow> int \<Rightarrow> int \<Rightarrow> int \<Rightarrow> int \<Rightarrow> bool" where
  "exact_share a b g k q \<longleftrightarrow> (a + b) mod q = g * k mod q"

text \<open>The sums of the shares the two parties compute in round 3.\<close>

lemma shares_sum:
  assumes "exact_share a_ij b_ji g_j k_i q" and "exact_share a_ji b_ij g_i k_j q"
  shows "((g_i * k_i + a_ij + b_ij) mod q + (g_j * k_j + a_ji + b_ji) mod q) mod q
    = (g_i + g_j) * (k_i + k_j) mod q"
proof -
  have "((g_i * k_i + a_ij + b_ij) mod q + (g_j * k_j + a_ji + b_ji) mod q) mod q
      = (g_i * k_i + g_j * k_j + ((a_ij + b_ji) + (a_ji + b_ij))) mod q"
    by (simp add: mod_add_eq ac_simps)
  also have "\<dots> = (g_i * k_i + g_j * k_j + (g_j * k_i + g_i * k_j)) mod q"
    using assms unfolding exact_share_def by (intro mod_congs) simp_all
  finally show ?thesis by (simp add: algebra_simps)
qed

context lib_ok
begin

lemma presigning_round2_products:
  assumes r2: "presigning_round2 L ec p m1 t = Inr ((m2, p'), t')"
    and key: "key_of_primes P Q sk" "pk_n sk = pk_n (ps_pub_j p)"
    and K: "p1_K_ct m1 = enc (pk_n sk) k rho" "coprime rho (pk_n sk)" "0 \<le> k"
    and pos: "0 \<le> ps_gamma_i p" "0 \<le> ps_xi p"
  shows "\<exists>aG aX bG bX sk1 sk2. decrypt L sk (p2_D m2) = Inr (aG, sk1) \<and> decrypt L sk1 (p2_D' m2) = Inr (aX, sk2)
    \<and> ps_beta_ij p' = Some bG \<and> ps_beta'_ij p' = Some bX
    \<and> additive_share aG bG (ps_gamma_i p) k (pk_n sk) (cn ec)
    \<and> additive_share aX bX (ps_xi p) k (pk_n sk) (cn ec)"
proof -
  from r2 obtain mG mX t1 t2 t3 where
      G: "new_mta L (ps_ssid p) ec (p1_K_ct m1) (ps_gamma_i p) (ps_Gamma_i p) (ps_pub_j p) (ps_pub_i p)
        (pk_n (ps_pub_j p)) (ps_sj p) (ps_tj p) t1 = Inr (mG, t2)"
    and X: "new_mta L (ps_ssid p) ec (p1_K_ct m1) (ps_xi p) (ps_Xi p) (ps_pub_j p) (ps_pub_i p)
        (pk_n (ps_pub_j p)) (ps_sj p) (ps_tj p) t2 = Inr (mX, t3)"
    and m2: "p2_D m2 = mo_Dji mG" "p2_D' m2 = mo_Dji mX"
    and p': "ps_beta_ij p' = Some (mo_beta mG)" "ps_beta'_ij p' = Some (mo_beta mX)"
    unfolding presigning_round2_def Let_def rbind_eq_Inr rlift_eq_Inr rret_eq
    by (elim exE conjE) auto
  have rho: "coprime rho (pk_n (ps_pub_j p))" using K(2) key(2) by simp
  obtain bG aG sk1 where g: "0 < bG" "bG < pk_n (ps_pub_j p)" "mo_beta mG = (- bG) mod cn ec"
      "decrypt L sk (mo_Dji mG) = Inr (aG, sk1)" "key_of_primes P Q sk1" "pk_n sk1 = pk_n (ps_pub_j p)"
      "aG = (ps_gamma_i p * k + bG) mod pk_n (ps_pub_j p)"
      "ps_gamma_i p * k + bG < pk_n (ps_pub_j p) \<longrightarrow>
        (aG + mo_beta mG) mod cn ec = ps_gamma_i p * k mod cn ec"
    using mta_correct [OF G [unfolded K(1) key(2)] key K(3) pos(1) rho] by blast
  obtain bX aX sk2 where x: "0 < bX" "bX < pk_n (ps_pub_j p)" "mo_beta mX = (- bX) mod cn ec"
      "decrypt L sk1 (mo_Dji mX) = Inr (aX, sk2)"
      "aX = (ps_xi p * k + bX) mod pk_n (ps_pub_j p)"
      "ps_xi p * k + bX < pk_n (ps_pub_j p) \<longrightarrow>
        (aX + mo_beta mX) mod cn ec = ps_xi p * k mod cn ec"
    using mta_correct [OF X [unfolded K(1) key(2)] g(5,6) K(3) pos(2) rho] by blast
  have "additive_share aG (mo_beta mG) (ps_gamma_i p) k (pk_n sk) (cn ec)"
    unfolding additive_share_def key(2) using g(1-3,7,8) by blast
  moreover have "additive_share aX (mo_beta mX) (ps_xi p) k (pk_n sk) (cn ec)"
    unfolding additive_share_def key(2) using x(1-3,5,6) by blast
  ultimately show ?thesis unfolding m2 p' using g(4) x(4) by blast
qed

text \<open>
  Final round: when the delta check passes, the nonce point inverts the opened product. With
  \<open>\<Gamma> = \<gamma> G\<close> and \<open>\<delta> = k \<gamma>\<close> this is \<open>R = k\<^sup>-\<^sup>1 G\<close>.
\<close>

lemma nonce_point:
  assumes g: "ec_group ec" and d: "(delta - k * gam) mod cn ec = 0" and c: "coprime delta (cn ec)"
  shows "ec_mult ec k (ec_mult ec (minv delta (cn ec)) (ec_mult ec gam (generator ec))) = generator ec"
proof -
  let ?n = "cn ec" and ?G = "generator ec"
  have G: "valid_point ec ?G" and n: "1 < ?n" using generator_valid [OF g] ec_group_n [OF g] by auto
  have "k * minv delta ?n * gam mod ?n = minv delta ?n * (k * gam) mod ?n" by (simp add: ac_simps)
  also have "\<dots> = minv delta ?n * delta mod ?n"
    using d by (intro mod_mult_cong refl) (simp add: mod_eq_dvd_iff mod_0_imp_dvd dvd_diff_commute)
  also have "\<dots> = 1 mod ?n" using minv_right [OF c] n by (simp add: mult.commute)
  finally have "ec_mult ec (k * minv delta ?n * gam) ?G = ec_mult ec 1 ?G" by (rule ec_mult_cong)
  then show ?thesis using g G by (simp add: ec_mult_mult ec_mult_1 mult.assoc)
qed

lemma presigning_round_out_R:
  assumes g: "ec_group ec" and out: "presigning_round_out L ec s m = Inr od"
    and Gam: "ps_Gamma s = Some (ec_mult ec gam (generator ec))"
    and del: "ps_delta_i s = Some d" "(d + p3_delta m) mod cn ec = k * gam mod cn ec"
    and ne: "k * gam mod cn ec \<noteq> 0"
  shows "ec_mult ec k (po_R od) = generator ec
    \<and> po_R_k_i od = Some (ec_mult ec (ps_k_i s) (po_R od))
    \<and> ps_chi_i s = Some (po_chi_i od) \<and> po_R_chi_i od = Some (ec_mult ec (po_chi_i od) (po_R od))
    \<and> po_k_i od = ps_k_i s \<and> valid_point ec (po_R od)"
proof -
  let ?n = "cn ec" and ?delta = "(d + p3_delta m) mod cn ec"
  let ?R = "ec_mult ec (minv ?delta ?n) (ec_mult ec gam (generator ec))"
  have n: "1 < ?n" and G: "valid_point ec (generator ec)"
    using ec_group_n [OF g] generator_valid [OF g] by auto
  have "0 < k * gam mod ?n \<and> k * gam mod ?n < ?n" using ne n mod_nonzero_range by simp
  then have co: "coprime ?delta ?n"
    using g del(2) by (intro is_prime_coprime) (auto simp: ec_group_def dest: zdvd_imp_le)
  have "(?delta - k * gam) mod ?n = 0" unfolding del(2) by (simp add: mod_diff_left_eq)
  then have R: "ec_mult ec k ?R = generator ec" by (rule nonce_point [OF g _ co])
  have V: "valid_point ec ?R" using g G by (simp add: ec_mult_valid)
  have "po_R od = ?R \<and> po_R_k_i od = Some (ec_mult ec (ps_k_i s) ?R) \<and> ps_chi_i s = Some (po_chi_i od)
    \<and> po_R_chi_i od = Some (ec_mult ec (po_chi_i od) ?R) \<and> po_k_i od = ps_k_i s"
    using out g G V unfolding presigning_round_out_def Gam del(1)
    by (cases "ps_K_j_ct s"; cases "ps_vdelta_i s"; cases "ps_chi_i s")
      (auto simp: res_simps Let_def scalar_mult_eq ec_mult_valid invert_minv [OF co n])
  with R V show ?thesis by simp
qed

end

end
