(* ===== verification/ZkHv.thy ===== *)
theory ZkHv
  imports ZkSch
begin

text \<open>
  \<^verbatim>\<open>crypto/zkp/hv.py\<close>: the proof that a signature share is the exponent of two points, and the
  second base point it blinds with.
\<close>

section \<open>The code\<close>

record proof_st =
  st_Alpha :: point
  st_Beta :: point
  st_T :: int
  st_U :: int

definition ProofSTBytesParts :: nat where
  "ProofSTBytesParts = 6"

definition second_base_point :: "lib \<Rightarrow> curve \<Rightarrow> point res" where
  "second_base_point L ec =
     ebind (sha512_256i L [cb ec, cn ec, cp ec, 2]) (\<lambda>hash.
     ebind (rejection_sample (cn ec) hash) (\<lambda>h.
     base_mult L ec (if h = 0 then 1 else h)))"

definition st_challenge :: "lib \<Rightarrow> curve \<Rightarrow> point \<Rightarrow> point \<Rightarrow> point \<Rightarrow> point \<Rightarrow> int res" where
  "st_challenge L ec T_commit H Alpha Beta =
     (let g = generator ec in
      challenge L (cn ec)
        [px T_commit, py T_commit, px H, py H, px g, py g, px Alpha, py Alpha, px Beta, py Beta])"

definition st_new_proof ::
    "lib \<Rightarrow> curve \<Rightarrow> point \<Rightarrow> point \<Rightarrow> point \<Rightarrow> point \<Rightarrow> int \<Rightarrow> int \<Rightarrow> proof_st rnd" where
  "st_new_proof L ec S T_commit R H sigma blind =
     rbind (random_scalar ec) (\<lambda>a.
     rbind (random_scalar ec) (\<lambda>b.
     rlift (
       ebind (scalar_mult L ec a R) (\<lambda>alpha.
       ebind (base_mult L ec a) (\<lambda>aG.
       ebind (scalar_mult L ec b H) (\<lambda>bH.
       ebind (point_add L ec aG bH) (\<lambda>beta.
       ebind (st_challenge L ec T_commit H alpha beta) (\<lambda>c.
       Inr \<lparr> st_Alpha = alpha, st_Beta = beta, st_T = (a + c * sigma) mod cn ec,
             st_U = (b + c * blind) mod cn ec \<rparr>))))))))"

definition st_from_bytes :: "lib \<Rightarrow> curve \<Rightarrow> bytes list \<Rightarrow> proof_st res" where
  "st_from_bytes L ec parts =
     (if parts = [] \<or> length parts \<noteq> ProofSTBytesParts then Inl ValueError
      else
        ebind (mk_point L ec (int_from_bytes (parts ! 0)) (int_from_bytes (parts ! 1))) (\<lambda>alpha.
        ebind (mk_point L ec (int_from_bytes (parts ! 2)) (int_from_bytes (parts ! 3))) (\<lambda>beta.
        Inr \<lparr> st_Alpha = alpha, st_Beta = beta, st_T = int_from_bytes (parts ! 4),
              st_U = int_from_bytes (parts ! 5) \<rparr>)))"

definition st_to_bytes_parts :: "proof_st \<Rightarrow> bytes list" where
  "st_to_bytes_parts pf =
     [int_to_bytes (px (st_Alpha pf)), int_to_bytes (py (st_Alpha pf)),
      int_to_bytes (px (st_Beta pf)), int_to_bytes (py (st_Beta pf)),
      int_to_bytes (st_T pf), int_to_bytes (st_U pf)]"

definition st_verify ::
    "lib \<Rightarrow> proof_st \<Rightarrow> curve \<Rightarrow> point \<Rightarrow> point \<Rightarrow> point \<Rightarrow> point \<Rightarrow> bool res" where
  "st_verify L pf ec S T_commit R H =
     ebind (st_challenge L ec T_commit H (st_Alpha pf) (st_Beta pf)) (\<lambda>c.
     ebind (scalar_mult L ec (st_T pf) R) (\<lambda>left1.
     ebind (scalar_mult L ec c S) (\<lambda>cS.
     ebind (point_add L ec (st_Alpha pf) cS) (\<lambda>right1.
     if \<not> point_eq left1 right1 then Inr False
     else
       ebind (base_mult L ec (st_T pf)) (\<lambda>TG.
       ebind (scalar_mult L ec (st_U pf) H) (\<lambda>UH.
       ebind (point_add L ec TG UH) (\<lambda>left2.
       ebind (scalar_mult L ec c T_commit) (\<lambda>cT.
       ebind (point_add L ec (st_Beta pf) cT) (\<lambda>right2.
       Inr (point_eq left2 right2))))))))))"

section \<open>Properties\<close>

lemma ec_add_medial:
  assumes g: "ec_group C" and "valid_point C P" "valid_point C Q" "valid_point C R" "valid_point C S"
  shows "ec_add C (ec_add C P Q) (ec_add C R S) = ec_add C (ec_add C P R) (ec_add C Q S)"
  using assms(2-) ec_group_carrier [OF g]
  by (simp add: comm_carrier.assoc comm_carrier.left_comm comm_carrier.closed)

definition st_accepts :: "curve \<Rightarrow> proof_st \<Rightarrow> point \<Rightarrow> point \<Rightarrow> point \<Rightarrow> point \<Rightarrow> int \<Rightarrow> bool" where
  "st_accepts C pf S T_commit R H c \<longleftrightarrow>
     ec_mult C (st_T pf) R = ec_add C (st_Alpha pf) (ec_mult C c S)
     \<and> ec_add C (ec_mult C (st_T pf) (generator C)) (ec_mult C (st_U pf) H)
       = ec_add C (st_Beta pf) (ec_mult C c T_commit)"

context lib_ok
begin

lemma st_verify_meaning:
  assumes g: "ec_group C" and v: "valid_point C S" "valid_point C T_commit" "valid_point C R" "valid_point C H"
    and pf: "valid_point C (st_Alpha pf)" "valid_point C (st_Beta pf)"
    and c: "st_challenge L C T_commit H (st_Alpha pf) (st_Beta pf) = Inr c"
  shows "st_verify L pf C S T_commit R H = Inr (st_accepts C pf S T_commit R H c)"
proof -
  have "valid_curve C" using g by (simp add: ec_group_def)
  with assms show ?thesis
    unfolding st_verify_def st_accepts_def
    by (simp only: ec_eqs ebind_Inr ec_add_valid) simp
qed

lemma st_complete:
  assumes g: "ec_group C" and R: "valid_point C R" and H: "valid_point C H"
    and new: "st_new_proof L C (ec_mult C sigma R)
      (ec_add C (ec_mult C sigma (generator C)) (ec_mult C blind H)) R H sigma blind tp = Inr (pf, tp')"
  shows "st_verify L pf C (ec_mult C sigma R)
      (ec_add C (ec_mult C sigma (generator C)) (ec_mult C blind H)) R H = Inr True"
proof -
  let ?G = "generator C"
  let ?T = "ec_add C (ec_mult C sigma ?G) (ec_mult C blind H)"
  have G: "valid_point C ?G" using g by (rule generator_valid)
  have vc: "valid_curve C" using g by (simp add: ec_group_def)
  note m = ec_mult_valid [OF g] and a = ec_add_valid [OF vc]
  from new obtain x y c where
    c: "st_challenge L C ?T H (ec_mult C x R) (ec_add C (ec_mult C x ?G) (ec_mult C y H)) = Inr c"
    and pf: "pf = \<lparr> st_Alpha = ec_mult C x R, st_Beta = ec_add C (ec_mult C x ?G) (ec_mult C y H),
        st_T = (x + c * sigma) mod cn C, st_U = (y + c * blind) mod cn C \<rparr>"
    using g R H G m a vc
    by (auto simp: st_new_proof_def rnd_simps res_simps ec_eqs)
  have "st_accepts C pf (ec_mult C sigma R) ?T R H c"
    using g R H G m a
    by (simp add: st_accepts_def pf ec_mult_mod ec_mult_add ec_mult_mult ec_mult_distrib ec_add_medial)
  then show ?thesis
    using st_verify_meaning [OF g, of "ec_mult C sigma R" ?T R H pf c] R H G m a c by (simp add: pf)
qed

end

section \<open>Wire format\<close>

definition st_wf :: "lib \<Rightarrow> curve \<Rightarrow> proof_st \<Rightarrow> bool" where
  "st_wf L ec pf \<longleftrightarrow> point_on L ec (st_Alpha pf) \<and> point_on L ec (st_Beta pf) \<and> 0 \<le> st_T pf \<and> 0 \<le> st_U pf"

context lib_ok
begin

lemma st_new_wf:
  assumes g: "ec_group C" and R: "valid_point C R" and H: "valid_point C H"
    and new: "st_new_proof L C S T_commit R H sigma blind tp = Inr (pf, tp')"
  shows "st_wf L C pf"
proof -
  have vc: "valid_curve C" and n: "0 < cn C" using g ec_group_n [OF g] by (auto simp: ec_group_def)
  then have p: "0 < cp C" by (simp add: valid_curve_def)
  have G: "valid_point C (generator C)" using g by (rule generator_valid)
  note m = ec_mult_valid [OF g] and a = ec_add_valid [OF vc]
  show ?thesis
    using new g R H G m a n valid_point_on [OF p]
    by (auto simp: st_new_proof_def rnd_simps res_simps ec_eqs st_wf_def)
qed

end

interpretation st_wire: wire_codec st_to_bytes_parts "st_from_bytes L ec" "st_wf L ec"
  ProofSTBytesParts for L ec
  by unfold_locales
    (auto simp: st_to_bytes_parts_def st_from_bytes_def ProofSTBytesParts_def st_wf_def point_on_def)

end
