(* ===== verification/Signing.thy ===== *)
theory Signing
  imports Messages ZkHv ZkLogstar
begin

text \<open>
  \<^verbatim>\<open>ecdsa/signing.py\<close>: the fourth phase. Each party publishes its signature share with proofs that
  the share is consistent with the presignature; the shares add up to an ECDSA signature.
\<close>

section \<open>The code\<close>

record signing =
  sn_id :: int
  sn_X :: point
  sn_R :: point
  sn_H :: point
  sn_ssid :: int
  sn_r :: int
  sn_k_i :: int
  sn_chi_i :: int
  sn_R_k_i :: point
  sn_R_chi_i :: point
  sn_K_i_ct :: int
  sn_K_j_ct :: int
  sn_rho_i :: int
  sn_pub_i :: public_key
  sn_pub_j :: public_key
  sn_si :: int
  sn_ti :: int
  sn_sj :: int
  sn_tj :: int
  sn_sigma_i :: "int option"

definition signing_init :: "lib \<Rightarrow> curve \<Rightarrow> int \<Rightarrow> presig_output_data \<Rightarrow> point \<Rightarrow> signing res" where
  "signing_init L ec i pd X =
     (let R = po_R pd in
      ebind (second_base_point L ec) (\<lambda>H.
      let r = px R mod cn ec in
      ebind (eguard (r \<noteq> 0) ValueError) (\<lambda>_.
      ebind (case po_R_k_i pd of Some P \<Rightarrow> Inr P | None \<Rightarrow> scalar_mult L ec (po_k_i pd) R) (\<lambda>R_k_i.
      ebind (case po_R_chi_i pd of Some P \<Rightarrow> Inr P | None \<Rightarrow> scalar_mult L ec (po_chi_i pd) R)
        (\<lambda>R_chi_i.
      Inr \<lparr> sn_id = i, sn_X = X, sn_R = R, sn_H = H, sn_ssid = po_ssid pd, sn_r = r,
            sn_k_i = po_k_i pd, sn_chi_i = po_chi_i pd, sn_R_k_i = R_k_i, sn_R_chi_i = R_chi_i,
            sn_K_i_ct = po_K_i_ct pd, sn_K_j_ct = po_K_j_ct pd, sn_rho_i = po_rho_i pd,
            sn_pub_i = po_paillier_pub_i pd, sn_pub_j = po_paillier_pub_j pd, sn_si = po_si pd,
            sn_ti = po_ti pd, sn_sj = po_sj pd, sn_tj = po_tj pd, sn_sigma_i = None \<rparr>)))))"

definition message_hash :: "lib \<Rightarrow> bytes \<Rightarrow> int" where
  "message_hash L message = from_bytes_big (digest256 L message)"

definition signing_share :: "curve \<Rightarrow> signing \<Rightarrow> int \<Rightarrow> int" where
  "signing_share ec s h = (sn_k_i s * h + sn_chi_i s * sn_r s) mod cn ec"

definition signing_sign :: "lib \<Rightarrow> curve \<Rightarrow> signing \<Rightarrow> bytes \<Rightarrow> (signing_msg \<times> signing) rnd" where
  "signing_sign L ec s message =
     (let sigma_i = signing_share ec s (message_hash L message) in
      rbind (rlift (scalar_mult L ec sigma_i (sn_R s))) (\<lambda>sigma_point.
      rbind (random_scalar ec) (\<lambda>blind.
      rbind (rlift (base_mult L ec sigma_i)) (\<lambda>sG.
      rbind (rlift (scalar_mult L ec blind (sn_H s))) (\<lambda>bH.
      rbind (rlift (point_add L ec sG bH)) (\<lambda>t_commit.
      rbind (st_new_proof L ec sigma_point t_commit (sn_R s) (sn_H s) sigma_i blind) (\<lambda>st.
      rbind (logstar_new_proof L (sn_ssid s) ec (sn_pub_i s) (sn_K_i_ct s) (sn_R_k_i s) (sn_R s)
               (sn_rho_i s) (sn_k_i s) (pk_n (sn_pub_j s)) (sn_sj s) (sn_tj s)) (\<lambda>ls.
      rret (\<lparr> sg_sigma = sigma_i, sg_sigma_point = Some sigma_point, sg_R_k = Some (sn_R_k_i s),
              sg_R_chi = Some (sn_R_chi_i s), sg_t_commit = Some t_commit,
              sg_proof_st = Some (st_to_bytes_parts st),
              sg_proof_logstar_k = Some (logstar_to_bytes_parts ls) \<rparr>,
            s\<lparr> sn_sigma_i := Some sigma_i \<rparr>)))))))))"

definition verify_peer_zk :: "lib \<Rightarrow> curve \<Rightarrow> signing \<Rightarrow> bytes \<Rightarrow> signing_msg \<Rightarrow> unit res" where
  "verify_peer_zk L ec s message msg_j =
     ebind (eguard (sn_sigma_i s \<noteq> None)
       (VerificationError ''Local signature share has not been computed.'')) (\<lambda>_.
     case (sg_sigma_point msg_j, sg_R_k msg_j, sg_R_chi msg_j, sg_t_commit msg_j, sg_proof_st msg_j,
           sg_proof_logstar_k msg_j) of
       (Some sigma_point, Some R_k, Some R_chi, Some t_commit, Some st_parts, Some ls_parts) \<Rightarrow>
         ebind (scalar_mult L ec (sg_sigma msg_j) (sn_R s)) (\<lambda>sR.
         ebind (eguard (point_eq sR sigma_point)
           (VerificationError ''Peer sigma point does not match sigma scalar.'')) (\<lambda>_.
         ebind (st_from_bytes L ec st_parts) (\<lambda>st.
         ebind (st_verify L st ec sigma_point t_commit (sn_R s) (sn_H s)) (\<lambda>ok.
         ebind (eguard ok (VerificationError ''Peer ST proof verification failed.'')) (\<lambda>_.
         ebind (logstar_from_bytes L ec ls_parts) (\<lambda>ls.
         ebind (logstar_verify L ls (sn_ssid s) ec (sn_pub_j s) (sn_K_j_ct s) R_k (sn_R s)
                  (pk_n (sn_pub_i s)) (sn_si s) (sn_ti s)) (\<lambda>ok.
         ebind (eguard ok (VerificationError ''Peer nonce Logstar proof verification failed.'')) (\<lambda>_.
         let h = message_hash L message mod cn ec in
         ebind (scalar_mult L ec h R_k) (\<lambda>hRk.
         ebind (scalar_mult L ec (sn_r s) R_chi) (\<lambda>rRchi.
         ebind (point_add L ec hRk rRchi) (\<lambda>expected_sigma_point.
         eguard (point_eq expected_sigma_point sigma_point)
           (VerificationError ''Peer signature share point equation failed.''))))))))))))
     | _ \<Rightarrow> Inl (VerificationError ''Signing message is missing ZK consistency data.''))"

definition signing_verify :: "lib \<Rightarrow> curve \<Rightarrow> signing \<Rightarrow> bytes \<Rightarrow> signing_msg \<Rightarrow> bool res" where
  "signing_verify L ec s message msg_j =
     ebind (verify_peer_zk L ec s message msg_j) (\<lambda>_.
     let h = message_hash L message in
     case sn_sigma_i s of
       None \<Rightarrow> Inl TypeError
     | Some sigma_i \<Rightarrow>
         let sg = (sigma_i + sg_sigma msg_j) mod cn ec in
         ebind (eguard (sg \<noteq> 0) (VerificationError ''Signature S cannot be 0.'')) (\<lambda>_.
         ebind (ec_verify L ec (sn_X s) h (sn_r s, sg)) (\<lambda>ok.
         ebind (eguard ok (VerificationError ''Signature verification failed.'')) (\<lambda>_.
         Inr True))))"

section \<open>Properties\<close>

text \<open>A verified message is a signature: nothing else makes \<open>signing_verify\<close> return.\<close>

lemma signing_verify_Inr:
  assumes "signing_verify L ec s message msg_j = Inr b"
  shows "b \<and> (\<exists>sigma_i. sn_sigma_i s = Some sigma_i
    \<and> (sigma_i + sg_sigma msg_j) mod cn ec \<noteq> 0
    \<and> ec_verify L ec (sn_X s) (message_hash L message)
        (sn_r s, (sigma_i + sg_sigma msg_j) mod cn ec) = Inr True)"
  using assms by (auto simp: signing_verify_def res_simps Let_def split: option.splits)

text \<open>The local state \<open>s\<close> and the peer state \<open>p\<close> come from one presignature.\<close>

definition signing_linked :: "curve \<Rightarrow> signing \<Rightarrow> signing \<Rightarrow> bool" where
  "signing_linked C s p \<longleftrightarrow>
     sn_R p = sn_R s \<and> sn_H p = sn_H s \<and> sn_r p = sn_r s \<and> sn_ssid p = sn_ssid s
     \<and> sn_pub_i p = sn_pub_j s \<and> sn_pub_j p = sn_pub_i s \<and> sn_sj p = sn_si s \<and> sn_tj p = sn_ti s
     \<and> sn_K_i_ct p = sn_K_j_ct s
     \<and> sn_K_j_ct s = enc (pk_n (sn_pub_j s)) (sn_k_i p) (sn_rho_i p)
     \<and> coprime (sn_rho_i p) (pk_n (sn_pub_j s)) \<and> 0 \<le> sn_k_i p
     \<and> sn_R_k_i p = ec_mult C (sn_k_i p) (sn_R s) \<and> sn_R_chi_i p = ec_mult C (sn_chi_i p) (sn_R s)
     \<and> valid_point C (sn_R s) \<and> valid_point C (sn_H s)
     \<and> 1 < pk_n (sn_pub_j s) \<and> 1 < pk_n (sn_pub_i s)
     \<and> coprime (sn_si s) (pk_n (sn_pub_i s)) \<and> coprime (sn_ti s) (pk_n (sn_pub_i s))"

definition logstar_in_range :: "lib \<Rightarrow> curve \<Rightarrow> signing_msg \<Rightarrow> bool" where
  "logstar_in_range L ec m \<longleftrightarrow>
     (case sg_proof_logstar_k m of None \<Rightarrow> False
      | Some parts \<Rightarrow> (case logstar_from_bytes L ec parts of Inl _ \<Rightarrow> False
          | Inr ls \<Rightarrow> ls_Z1 ls < cn ec ^ 3))"

context lib_ok
begin

lemma threshold_equation:
  fixes n :: int
  assumes "((k_i * h + chi_i * r) mod n + (k_j * h + chi_j * r) mod n) mod n = s"
    and "(chi_i + chi_j) mod n = (k_i + k_j) * d mod n"
  shows "s = (k_i + k_j) * (h + r * d) mod n"
proof -
  have "s = ((k_i + k_j) * h + (chi_i + chi_j) * r) mod n"
    unfolding assms(1) [symmetric] by (simp add: mod_add_eq algebra_simps)
  also have "\<dots> = ((k_i + k_j) * h + (k_i + k_j) * d * r) mod n"
    using assms(2) by (intro mod_congs refl) simp
  finally show ?thesis by (simp add: algebra_simps)
qed

text \<open>The two shares of a presignature add up to a valid signature.\<close>

lemma signing_combine:
  assumes g: "ec_group C" and R: "valid_point C R" "ec_mult C (k_i + k_j) R = generator C"
    and r: "r = px R mod cn C" "r \<noteq> 0"
    and chi: "(chi_i + chi_j) mod cn C = (k_i + k_j) * d mod cn C" and d: "d mod cn C \<noteq> 0"
    and s: "s = ((k_i * h + chi_i * r) mod cn C + (k_j * h + chi_j * r) mod cn C) mod cn C" "s \<noteq> 0"
  shows "ec_verify L C (ec_mult C d (generator C)) h (r, s) = Inr True"
proof -
  let ?n = "cn C" and ?G = "generator C" and ?k = "k_i + k_j"
  have G: "valid_point C ?G" and n: "1 < ?n" using generator_valid [OF g] ec_group_n [OF g] by auto
  have k0: "?k mod ?n \<noteq> 0"
  proof
    assume "?k mod ?n = 0"
    then have "ec_mult C ?k R = ec_mult C 0 R" by (intro ec_mult_cong) simp
    then show False using R(2) generator_not_infinity [OF g] by simp
  qed
  then have co: "coprime ?k ?n" using g by (intro is_prime_coprime) (auto simp: ec_group_def)
  let ?i = "minv ?k ?n"
  have ik: "?i * ?k mod ?n = 1 mod ?n" using minv_right [OF co] n by (simp add: mult.commute)
  have "ec_mult C ?i ?G = ec_mult C (?i * ?k) R" using g R by (simp add: ec_mult_mult flip: R(2))
  also have "\<dots> = R" using ec_mult_cong [OF ik, of R] ec_mult_1 [OF g R(1)] by simp
  finally have Ri: "ec_mult C ?i ?G = R" .
  have seq: "s = ?k * (h + r * d) mod ?n" by (rule threshold_equation [OF s(1) [symmetric] chi])
  have "s * ?i mod ?n = (?i * ?k mod ?n) * (h + r * d) mod ?n"
    unfolding seq by (simp add: mod_mult_left_eq mod_mult_right_eq ac_simps)
  also have "\<dots> = (h + r * d) mod ?n" unfolding ik by (simp add: mod_mult_left_eq)
  finally have "s * ?i mod ?n = (h + r * d) mod ?n" .
  moreover have "0 < s" "s < ?n" using s n mod_nonzero_range by auto
  ultimately show ?thesis using verify_equation [OF g d, of r ?i s h] r by (simp add: Ri)
qed

text \<open>
  Every check of an honest peer's message succeeds, but for one: the answer of its range proof is \<open>alpha + e k\<close> with
  \<open>alpha\<close> below \<open>q\<^sup>3\<close>, and may leave the interval.
\<close>

lemma verify_peer_zk_honest:
  assumes g: "ec_group C" and lk: "signing_linked C s p"
    and sign: "signing_sign L C p message t = Inr ((m, p'), t')"
    and own: "sn_sigma_i s \<noteq> None"
  shows "verify_peer_zk L C s message m
      = (if logstar_in_range L C m then Inr ()
         else Inl (VerificationError ''Peer nonce Logstar proof verification failed.''))
    \<and> sg_sigma m = signing_share C p (message_hash L message)"
proof -
  let ?h = "message_hash L message" and ?G = "generator C"
  let ?sig = "signing_share C p ?h" and ?R = "sn_R s" and ?H = "sn_H s"
  have G: "valid_point C ?G" using g by (rule generator_valid)
  have vc: "valid_curve C" using g by (simp add: ec_group_def)
  note l = lk [unfolded signing_linked_def]
  have R: "valid_point C ?R" and H: "valid_point C ?H" using l by simp_all
  note pts = G R H ec_mult_valid [OF g] ec_add_valid [OF vc]
  from sign obtain blind st ls t1 t2 t3 where
    st: "st_new_proof L C (ec_mult C ?sig ?R) (ec_add C (ec_mult C ?sig ?G) (ec_mult C blind ?H))
      ?R ?H ?sig blind t1 = Inr (st, t2)"
    and ls: "logstar_new_proof L (sn_ssid s) C (sn_pub_j s) (sn_K_j_ct s)
      (ec_mult C (sn_k_i p) ?R) ?R (sn_rho_i p) (sn_k_i p) (pk_n (sn_pub_i s)) (sn_si s) (sn_ti s) t2
      = Inr (ls, t3)"
    and m: "m = \<lparr> sg_sigma = ?sig, sg_sigma_point = Some (ec_mult C ?sig ?R),
      sg_R_k = Some (ec_mult C (sn_k_i p) ?R), sg_R_chi = Some (ec_mult C (sn_chi_i p) ?R),
      sg_t_commit = Some (ec_add C (ec_mult C ?sig ?G) (ec_mult C blind ?H)),
      sg_proof_st = Some (st_to_bytes_parts st), sg_proof_logstar_k = Some (logstar_to_bytes_parts ls) \<rparr>"
    using g pts l
    by (auto simp: signing_sign_def Let_def rnd_simps ec_eqs)
  have st': "st_from_bytes L C (st_to_bytes_parts st) = Inr st"
    by (rule st_wire.round_trip [OF st_new_wf [OF g R H st]])
  have ls': "logstar_from_bytes L C (logstar_to_bytes_parts ls) = Inr ls"
    using l by (intro logstar_wire.round_trip [OF logstar_new_wf [OF ls g R]]) simp_all
  have ok1: "st_verify L st C (ec_mult C ?sig ?R) (ec_add C (ec_mult C ?sig ?G) (ec_mult C blind ?H)) ?R ?H
      = Inr True" by (rule st_complete [OF g R H st])
  have range: "logstar_in_range L C m \<longleftrightarrow> ls_Z1 ls < cn C ^ 3" using ls' by (simp add: logstar_in_range_def m)
  have ok2: "logstar_verify L ls (sn_ssid s) C (sn_pub_j s) (sn_K_j_ct s)
      (ec_mult C (sn_k_i p) ?R) ?R (pk_n (sn_pub_i s)) (sn_si s) (sn_ti s) = Inr (logstar_in_range L C m)"
  proof (cases "ls_Z1 ls < cn C ^ 3")
    case True
    then show ?thesis using l range logstar_complete [OF ls _ _ _ _ g R _ _ _ True] by simp
  next
    case False
    then show ?thesis using range by (simp add: logstar_verify_def is_in_interval_def Let_def)
  qed
  have "(?h * sn_k_i p + sn_r s * sn_chi_i p) mod cn C = ?sig mod cn C"
    using l by (simp add: signing_share_def ac_simps)
  then have "ec_mult C (?h * sn_k_i p + sn_r s * sn_chi_i p) ?R = ec_mult C ?sig ?R"
    by (rule ec_mult_cong)
  then have eq: "ec_add C (ec_mult C ?h (ec_mult C (sn_k_i p) ?R))
      (ec_mult C (sn_r s) (ec_mult C (sn_chi_i p) ?R)) = ec_mult C ?sig ?R"
    by (simp add: ec_mult_mult [OF g R] ec_mult_add [OF g R])
  obtain b where b: "logstar_in_range L C m = b" by blast
  show ?thesis
    unfolding b unfolding verify_peer_zk_def m
    using own st' ls' ok1 ok2 [unfolded b] eq g pts by (cases b) (simp_all add: Let_def ec_eqs)
qed

text \<open>So the honest run of the last phase returns \<^verbatim>\<open>True\<close>, or raises for one of two reasons.\<close>

lemma signing_verify_honest:
  assumes g: "ec_group C" and lk: "signing_linked C s p"
    and sign: "signing_sign L C p message t = Inr ((m, p'), t')"
    and own: "sn_sigma_i s = Some (signing_share C s (message_hash L message))"
    and X: "sn_X s = ec_mult C d (generator C)" "d mod cn C \<noteq> 0"
    and R: "ec_mult C (sn_k_i s + sn_k_i p) (sn_R s) = generator C"
    and chi: "(sn_chi_i s + sn_chi_i p) mod cn C = (sn_k_i s + sn_k_i p) * d mod cn C"
    and r: "sn_r s = px (sn_R s) mod cn C" "sn_r s \<noteq> 0"
  shows "signing_verify L C s message m =
    (if \<not> logstar_in_range L C m then Inl (VerificationError ''Peer nonce Logstar proof verification failed.'')
     else if (signing_share C s (message_hash L message) + signing_share C p (message_hash L message)) mod cn C = 0
     then Inl (VerificationError ''Signature S cannot be 0.'')
     else Inr True)"
proof (cases "logstar_in_range L C m
    \<and> (signing_share C s (message_hash L message) + signing_share C p (message_hash L message)) mod cn C \<noteq> 0")
  case False
  then show ?thesis
    using verify_peer_zk_honest [OF g lk sign] own by (auto simp: signing_verify_def Let_def)
next
  case True
  then have s0: "(signing_share C s (message_hash L message) + signing_share C p (message_hash L message)) mod cn C \<noteq> 0"
    by simp
  have zk: "verify_peer_zk L C s message m = Inr ()"
    and sig: "sg_sigma m = signing_share C p (message_hash L message)"
    using verify_peer_zk_honest [OF g lk sign] own True by simp_all
  have "valid_point C (sn_R s)" "sn_r p = sn_r s" using lk by (simp_all add: signing_linked_def)
  then have "ec_verify L C (ec_mult C d (generator C)) (message_hash L message)
      (sn_r s, (signing_share C s (message_hash L message)
        + signing_share C p (message_hash L message)) mod cn C) = Inr True"
    using s0 by (intro signing_combine [OF g _ R r chi X(2) _ s0]) (simp_all add: signing_share_def)
  then show ?thesis using zk sig own s0 True by (simp add: signing_verify_def Let_def X(1))
qed

text \<open>A message that is sent can be read by the other side.\<close>

lemma signing_sign_fits:
  assumes g: "ec_group C" and R: "valid_point C (sn_R s)" "valid_point C (sn_H s)"
    and own: "valid_point C (sn_R_k_i s)" "valid_point C (sn_R_chi_i s)"
    and sign: "signing_sign L C s message t = Inr ((m, s'), t')"
  shows "list_all2 (\<lambda>h v. fits L C (fst (snd h)) v) signing_hints (signing_fields m)"
proof -
  have vc: "valid_curve C" using g by (simp add: ec_group_def)
  then have p0: "0 < cp C" by (simp add: valid_curve_def)
  note pts = generator_valid [OF g] R own ec_mult_valid [OF g] ec_add_valid [OF vc]
  have fits: "fits L C TPoint (opt_point (Some P))" if "valid_point C P" for P
    using mk_point_of_valid [OF p0 that] by (simp add: fits_def opt_point_def)
  have "\<exists>P Q T st ls. m = \<lparr> sg_sigma = signing_share C s (message_hash L message), sg_sigma_point = Some P, sg_R_k = Some (sn_R_k_i s),
      sg_R_chi = Some (sn_R_chi_i s), sg_t_commit = Some T, sg_proof_st = Some st, sg_proof_logstar_k = Some ls \<rparr>
      \<and> valid_point C P \<and> valid_point C T"
    using sign g pts by (auto simp: signing_sign_def Let_def rnd_simps ec_eqs)
  moreover have "fits L C TInt (FInt x)" "fits L C TBytes (opt_bytes (Some bs))" for x bs
    by (simp_all add: fits_def opt_bytes_def)
  ultimately show ?thesis using fits own by (auto simp: signing_hints_def signing_fields_def)
qed

end

end
