(* ===== verification/Party.thy ===== *)
theory Party
  imports Keygen AuxPhase Presigning Signing
begin

text \<open>
  \<^verbatim>\<open>party.py\<close>: one party of the protocol. It holds at most one running protocol object per phase
  and the data of the finished phases. Calling a method of an object that is \<^verbatim>\<open>None\<close> raises
  \<^verbatim>\<open>AttributeError\<close>.
\<close>

section \<open>State\<close>

text \<open>\<^verbatim>\<open>p_other_msg_r1\<close> holds the first-round message of the running phase.\<close>

datatype r1_msg = MKeygen keygen_r1 | MAux aux_r1 | MPresign presign_r1

record party =
  pt_id :: int
  pt_keygen_protocol :: "keygen option"
  pt_aux_protocol :: "aux_state option"
  pt_presigning_protocol :: "presigning option"
  pt_signing_protocol :: "signing option"
  pt_p_other_msg_r1 :: "r1_msg option"
  pt_keygen_data :: "keygen_output_data option"
  pt_aux_data :: "aux_output_data option"
  pt_presig_data :: "presig_output_data option"

definition party_init :: "int \<Rightarrow> party" where
  "party_init i =
     \<lparr> pt_id = i, pt_keygen_protocol = None, pt_aux_protocol = None, pt_presigning_protocol = None,
       pt_signing_protocol = None, pt_p_other_msg_r1 = None, pt_keygen_data = None,
       pt_aux_data = None, pt_presig_data = None \<rparr>"

definition need :: "'a option \<Rightarrow> 'a res" where
  "need x = (case x of None \<Rightarrow> Inl AttributeError | Some a \<Rightarrow> Inr a)"

lemma need_simps [simp]: "need None = Inl AttributeError" "need (Some a) = Inr a"
  by (simp_all add: need_def)

lemma need_eq_Inr [res_simps]: "need x = Inr a \<longleftrightarrow> x = Some a"
  by (cases x) simp_all

text \<open>The first-round messages of the first two phases have the same fields.\<close>

fun as_keygen_r1 :: "r1_msg \<Rightarrow> keygen_r1 res" where
  "as_keygen_r1 (MKeygen m) = Inr m"
| "as_keygen_r1 (MAux m) = Inr \<lparr> k1_id = a1_id m, k1_V = a1_V m \<rparr>"
| "as_keygen_r1 (MPresign m) = Inl AttributeError"

fun as_aux_r1 :: "r1_msg \<Rightarrow> aux_r1 res" where
  "as_aux_r1 (MAux m) = Inr m"
| "as_aux_r1 (MKeygen m) = Inr \<lparr> a1_id = k1_id m, a1_V = k1_V m \<rparr>"
| "as_aux_r1 (MPresign m) = Inl AttributeError"

fun r1_G_ct :: "r1_msg \<Rightarrow> int res" where
  "r1_G_ct (MPresign m) = Inr (p1_G_ct m)"
| "r1_G_ct _ = Inl AttributeError"

section \<open>Phase 1\<close>

definition start_phase1 :: "lib \<Rightarrow> curve \<Rightarrow> party \<Rightarrow> party rnd" where
  "start_phase1 L ec p =
     rbind (keygen_init L ec (pt_id p)) (\<lambda>k. rret (p\<lparr> pt_keygen_protocol := Some k \<rparr>))"

definition phase1_round1 :: "party \<Rightarrow> keygen_r1 res" where
  "phase1_round1 p = ebind (need (pt_keygen_protocol p)) (\<lambda>k. Inr (keygen_round1 k))"

definition phase1_round2 :: "party \<Rightarrow> keygen_r1 \<Rightarrow> (keygen_r2 \<times> party) res" where
  "phase1_round2 p msg_j_r1 =
     ebind (need (pt_keygen_protocol p)) (\<lambda>k.
     Inr (keygen_round2 k, p\<lparr> pt_p_other_msg_r1 := Some (MKeygen msg_j_r1) \<rparr>))"

definition phase1_round3 :: "lib \<Rightarrow> curve \<Rightarrow> party \<Rightarrow> keygen_r2 \<Rightarrow> (keygen_r3 \<times> party) rnd" where
  "phase1_round3 L ec p msg_j_r2 =
     rbind (rlift (need (pt_keygen_protocol p))) (\<lambda>k.
     rbind (rlift (ebind (need (pt_p_other_msg_r1 p)) as_keygen_r1)) (\<lambda>m1.
     rbind (keygen_round3 L ec k m1 msg_j_r2) (\<lambda>(m3, k).
     rret (m3, p\<lparr> pt_keygen_protocol := Some k \<rparr>))))"

definition phase1_round_out :: "lib \<Rightarrow> curve \<Rightarrow> party \<Rightarrow> keygen_r3 \<Rightarrow> (point \<times> party) res" where
  "phase1_round_out L ec p msg_j_r3 =
     ebind (ebind (need (pt_p_other_msg_r1 p)) as_keygen_r1) (\<lambda>m1.
     ebind (need (pt_keygen_protocol p)) (\<lambda>k.
     ebind (keygen_round_out L ec k (k1_id m1) msg_j_r3) (\<lambda>d.
     Inr (ko_X d, p\<lparr> pt_keygen_data := Some d, pt_keygen_protocol := None,
                     pt_p_other_msg_r1 := None \<rparr>))))"

section \<open>Phase 2\<close>

definition start_phase2 :: "lib \<Rightarrow> curve \<Rightarrow> party \<Rightarrow> party rnd" where
  "start_phase2 L ec p =
     rbind (rlift (need (pt_keygen_data p))) (\<lambda>d.
     rbind (aux_init L ec (pt_id p) (ko_ssid d)) (\<lambda>a.
     rret (p\<lparr> pt_aux_protocol := Some a \<rparr>)))"

definition phase2_round1 :: "lib \<Rightarrow> party \<Rightarrow> aux_r1 res" where
  "phase2_round1 L p = ebind (need (pt_aux_protocol p)) (\<lambda>a. aux_round1 L a)"

definition phase2_round2 :: "party \<Rightarrow> aux_r1 \<Rightarrow> (aux_r2 \<times> party) res" where
  "phase2_round2 p msg_j_r1 =
     ebind (need (pt_aux_protocol p)) (\<lambda>a.
     Inr (aux_round2 a, p\<lparr> pt_p_other_msg_r1 := Some (MAux msg_j_r1) \<rparr>))"

definition phase2_round3 :: "lib \<Rightarrow> curve \<Rightarrow> party \<Rightarrow> aux_r2 \<Rightarrow> (aux_r3 \<times> party) rnd" where
  "phase2_round3 L ec p msg_j_r2 =
     rbind (rlift (need (pt_aux_protocol p))) (\<lambda>a.
     rbind (rlift (ebind (need (pt_p_other_msg_r1 p)) as_aux_r1)) (\<lambda>m1.
     rbind (aux_round3 L ec a m1 msg_j_r2) (\<lambda>(m3, a).
     rret (m3, p\<lparr> pt_aux_protocol := Some a \<rparr>))))"

definition phase2_round_out :: "lib \<Rightarrow> curve \<Rightarrow> party \<Rightarrow> aux_r3 \<Rightarrow> (int \<times> party) res" where
  "phase2_round_out L ec p msg_j_r3 =
     ebind (need (pt_aux_protocol p)) (\<lambda>a.
     ebind (aux_round_out L ec a msg_j_r3) (\<lambda>d.
     Inr (pk_n (ao_paillier_pub_j d),
          p\<lparr> pt_aux_data := Some d, pt_aux_protocol := None, pt_p_other_msg_r1 := None \<rparr>)))"

section \<open>Phase 3\<close>

definition start_phase3 :: "lib \<Rightarrow> curve \<Rightarrow> party \<Rightarrow> party rnd" where
  "start_phase3 L ec p =
     (case (pt_keygen_data p, pt_aux_data p) of
        (Some kd, Some ad) \<Rightarrow>
          rbind (presigning_init L ec (pt_id p) kd ad) (\<lambda>s.
          rret (p\<lparr> pt_presigning_protocol := Some s \<rparr>))
      | _ \<Rightarrow> rlift (Inl RuntimeError))"

definition phase3_round1 :: "lib \<Rightarrow> curve \<Rightarrow> party \<Rightarrow> presign_r1 rnd" where
  "phase3_round1 L ec p =
     rbind (rlift (need (pt_presigning_protocol p))) (\<lambda>s. presigning_round1 L ec s)"

definition phase3_round2 :: "lib \<Rightarrow> curve \<Rightarrow> party \<Rightarrow> presign_r1 \<Rightarrow> (presign_r2 \<times> party) rnd" where
  "phase3_round2 L ec p msg_j_r1 =
     rbind (rlift (need (pt_presigning_protocol p))) (\<lambda>s.
     rbind (presigning_round2 L ec s msg_j_r1) (\<lambda>(m2, s).
     rret (m2, p\<lparr> pt_p_other_msg_r1 := Some (MPresign msg_j_r1),
                  pt_presigning_protocol := Some s \<rparr>)))"

definition phase3_round3 :: "lib \<Rightarrow> curve \<Rightarrow> party \<Rightarrow> presign_r2 \<Rightarrow> (presign_r3 \<times> party) rnd" where
  "phase3_round3 L ec p msg_j_r2 =
     rbind (rlift (ebind (need (pt_p_other_msg_r1 p)) r1_G_ct)) (\<lambda>G_j_ct.
     rbind (rlift (need (pt_presigning_protocol p))) (\<lambda>s.
     rbind (presigning_round3 L ec s G_j_ct msg_j_r2) (\<lambda>(m3, s).
     rret (m3, p\<lparr> pt_presigning_protocol := Some s \<rparr>))))"

definition phase3_round_out :: "lib \<Rightarrow> curve \<Rightarrow> party \<Rightarrow> presign_r3 \<Rightarrow> (point \<times> party) res" where
  "phase3_round_out L ec p msg_j_r3 =
     ebind (need (pt_presigning_protocol p)) (\<lambda>s.
     ebind (presigning_round_out L ec s msg_j_r3) (\<lambda>d.
     Inr (po_R d, p\<lparr> pt_presig_data := Some d, pt_presigning_protocol := None,
                     pt_p_other_msg_r1 := None \<rparr>)))"

section \<open>Phase 4\<close>

definition start_phase4 :: "lib \<Rightarrow> curve \<Rightarrow> party \<Rightarrow> party res" where
  "start_phase4 L ec p =
     (case (pt_keygen_data p, pt_presig_data p) of
        (Some kd, Some pd) \<Rightarrow>
          ebind (signing_init L ec (pt_id p) pd (ko_X kd)) (\<lambda>s.
          Inr (p\<lparr> pt_signing_protocol := Some s \<rparr>))
      | _ \<Rightarrow> Inl RuntimeError)"

definition phase4_sign :: "lib \<Rightarrow> curve \<Rightarrow> party \<Rightarrow> bytes \<Rightarrow> (signing_msg \<times> party) rnd" where
  "phase4_sign L ec p message =
     rbind (rlift (need (pt_signing_protocol p))) (\<lambda>s.
     rbind (signing_sign L ec s message) (\<lambda>(m, s).
     rret (m, p\<lparr> pt_signing_protocol := Some s \<rparr>)))"

definition phase4_verify :: "lib \<Rightarrow> curve \<Rightarrow> party \<Rightarrow> bytes \<Rightarrow> signing_msg \<Rightarrow> (bool \<times> party) res" where
  "phase4_verify L ec p message msg_j =
     ebind (need (pt_signing_protocol p)) (\<lambda>s.
     ebind (signing_verify L ec s message msg_j) (\<lambda>result.
     Inr (result, p\<lparr> pt_signing_protocol := None, pt_presig_data := None \<rparr>)))"

definition get_secret_key_xi :: "party \<Rightarrow> int option" where
  "get_secret_key_xi p = (case pt_keygen_data p of None \<Rightarrow> None | Some d \<Rightarrow> Some (ko_xi d))"

end
