(* ===== verification/Pow.thy ===== *)
theory Pow
  imports Libs
begin

text \<open>
  \<^verbatim>\<open>proof_of_work.py\<close>: leading zero bits of a digest, and the search for a nonce. The test is
  proved to be a numeric comparison, and the search to return the least nonce that verifies.
\<close>

section \<open>The code\<close>

definition has_leading_zero_bits :: "bytes \<Rightarrow> int \<Rightarrow> bool res" where
  "has_leading_zero_bits digest difficulty =
     (if \<not> (0 \<le> difficulty \<and> difficulty \<le> int (length digest) * 8) then Inl ValueError
      else
        let full_bytes = nat (difficulty div 8); remaining_bits = nat (difficulty mod 8) in
        if list_ex (\<lambda>b. b \<noteq> 0) (take full_bytes digest) then Inr False
        else if remaining_bits = 0 then Inr True
        else if full_bytes < length digest
          then Inr (drop_bit (8 - remaining_bits) (digest ! full_bytes) = 0)
          else Inl IndexError)"

definition pow_digest :: "lib \<Rightarrow> bytes \<Rightarrow> int \<Rightarrow> bytes res" where
  "pow_digest L challenge nonce =
     (if \<not> (0 \<le> nonce \<and> nonce < push_bit 64 1) then Inl ValueError
      else Inr (digest256 L (challenge @ to_bytes_big 8 nonce)))"

definition verify_pow :: "lib \<Rightarrow> bytes \<Rightarrow> int \<Rightarrow> int \<Rightarrow> bool res" where
  "verify_pow L challenge nonce difficulty =
     ebind (pow_digest L challenge nonce) (\<lambda>d. has_leading_zero_bits d difficulty)"

text \<open>The loop over \<^verbatim>\<open>range(1 << 64)\<close>, from \<open>nonce\<close> on.\<close>

function solve_from :: "lib \<Rightarrow> bytes \<Rightarrow> int \<Rightarrow> int \<Rightarrow> int res" where
  "solve_from L challenge difficulty nonce =
     (if push_bit 64 1 \<le> nonce then Inl RuntimeError
      else
        (case has_leading_zero_bits (digest256 L (challenge @ to_bytes_big 8 nonce)) difficulty of
           Inl e \<Rightarrow> Inl e
         | Inr b \<Rightarrow> if b then Inr nonce else solve_from L challenge difficulty (nonce + 1)))"
  by pat_completeness auto
termination
  by (relation "measure (\<lambda>(L, c, d, n). nat (push_bit 64 1 - n))") auto

declare solve_from.simps [simp del]

definition solve_pow :: "lib \<Rightarrow> bytes \<Rightarrow> int \<Rightarrow> int res" where
  "solve_pow L challenge difficulty = solve_from L challenge difficulty 0"

section \<open>Properties\<close>

lemma from_bytes_zero: "from_bytes_big bs = 0 \<longleftrightarrow> \<not> list_ex (\<lambda>b. b \<noteq> 0) bs"
proof (induction bs rule: rev_induct)
  case Nil
  then show ?case by (simp add: from_bytes_big_def)
next
  case (snoc b bs)
  have one: "from_bytes_big [b] = uint b" by (simp add: from_bytes_big_def)
  have "from_bytes_big bs * 256 + uint b = 0 \<longleftrightarrow> from_bytes_big bs = 0 \<and> uint b = 0"
    using from_bytes_big_nonneg [of bs] by (auto simp: add_nonneg_eq_0_iff)
  then show ?case using snoc.IH by (simp add: from_bytes_big_append one uint_0_iff)
qed

lemma uint_drop_bit_byte: "uint (drop_bit k b) = uint b div 2 ^ k"
  for b :: byte
proof -
  have "take_bit 8 (uint b) = uint b"
    using unsigned_take_bit_eq [of 8 b, where ?'a = int] by (simp add: take_bit_word_eq_self)
  then show ?thesis unfolding unsigned_drop_bit_eq by (simp add: drop_bit_eq_div)
qed

lemma drop_bit_byte_zero:
  fixes b :: byte
  assumes "k \<le> 8"
  shows "drop_bit k b = 0 \<longleftrightarrow> uint b < 2 ^ k"
proof -
  have "drop_bit k b = 0 \<longleftrightarrow> uint (drop_bit k b) = 0" by (simp add: uint_0_iff)
  also have "uint (drop_bit k b) = uint b div 2 ^ k"
    by (simp add: uint_drop_bit_byte)
  finally show ?thesis using uint_nonnegative [of b] by (auto simp: zdiv_eq_0_iff)
qed

text \<open>The leading bits are zero exactly when the digest, as a number, is below the threshold.\<close>

lemma leading_zero_bits_iff:
  assumes "0 \<le> k" and "k \<le> int (length d) * 8"
  shows "has_leading_zero_bits d k = Inr (from_bytes_big d < 2 ^ nat (int (length d) * 8 - k))"
proof -
  define f where "f = nat (k div 8)"
  define r where "r = nat (k mod 8)"
  have k: "k = int f * 8 + int r" and r8: "r < 8" using assms(1) by (auto simp: f_def r_def)
  have fl: "f \<le> length d" using assms(2) k by linarith
  let ?hi = "take f d" and ?lo = "drop f d"
  have split: "from_bytes_big d = from_bytes_big ?hi * 256 ^ length ?lo + from_bytes_big ?lo"
    by (metis append_take_drop_id from_bytes_big_append)
  have lo: "0 \<le> from_bytes_big ?lo" "from_bytes_big ?lo < 256 ^ length ?lo"
    using from_bytes_big_range [of ?lo] by (simp_all only:)
  have e: "nat (int (length d) * 8 - k) = length ?lo * 8 - r" using k fl by simp
  have thr: "(2::int) ^ (length ?lo * 8 - r) \<le> 256 ^ length ?lo"
  proof -
    have "(2::int) ^ (length ?lo * 8 - r) \<le> 2 ^ (8 * length ?lo)" by (rule power_increasing) simp_all
    then show ?thesis by (simp add: power_mult)
  qed
  show ?thesis
  proof (cases "list_ex (\<lambda>b. b \<noteq> 0) ?hi")
    case True
    then have "1 \<le> from_bytes_big ?hi"
      using from_bytes_zero [of ?hi] from_bytes_big_nonneg [of ?hi] by linarith
    then have "256 ^ length ?lo \<le> from_bytes_big ?hi * 256 ^ length ?lo" by simp
    then have "\<not> from_bytes_big d < 2 ^ (length ?lo * 8 - r)" using split lo thr by linarith
    then show ?thesis using True assms e by (simp add: has_leading_zero_bits_def f_def Let_def)
  next
    case False
    then have d: "from_bytes_big d = from_bytes_big ?lo" using split from_bytes_zero [of ?hi] by simp
    show ?thesis
    proof (cases "r = 0")
      case True
      then have "from_bytes_big d < 2 ^ (length ?lo * 8 - r)"
        using lo d by (simp add: power_mult mult.commute [of _ 8])
      then show ?thesis using False True assms e
        by (simp add: has_leading_zero_bits_def f_def r_def Let_def)
    next
      case r0: False
      then have "f < length d" using assms(2) k by linarith
      then obtain b bs where lo': "?lo = b # bs" and b: "b = d ! f"
        by (metis Cons_nth_drop_Suc)
      have bs: "0 \<le> from_bytes_big bs" "from_bytes_big bs < 256 ^ length bs"
        using from_bytes_big_range by auto
      have one: "from_bytes_big [b] = uint b" by (simp add: from_bytes_big_def)
      have val: "from_bytes_big d = uint b * 256 ^ length bs + from_bytes_big bs"
        using from_bytes_big_append [of "[b]" bs] one d lo' by simp
      have ex: "length ?lo * 8 - r = (8 - r) + 8 * length bs" using lo' r8 by simp
      have p: "(2::int) ^ (length ?lo * 8 - r) = 2 ^ (8 - r) * 256 ^ length bs"
        unfolding ex power_add by (simp add: power_mult)
      have "uint b < 2 ^ (8 - r) \<longleftrightarrow> from_bytes_big d < 2 ^ (length ?lo * 8 - r)"
      proof
        assume "uint b < 2 ^ (8 - r)"
        then have "(uint b + 1) * 256 ^ length bs \<le> 2 ^ (8 - r) * 256 ^ length bs"
          by (intro mult_right_mono) simp_all
        then show "from_bytes_big d < 2 ^ (length ?lo * 8 - r)"
          unfolding p val using bs by (simp add: distrib_right)
      next
        assume "from_bytes_big d < 2 ^ (length ?lo * 8 - r)"
        then have "uint b * 256 ^ length bs < 2 ^ (8 - r) * 256 ^ length bs"
          unfolding p val using bs by linarith
        then show "uint b < 2 ^ (8 - r)" by (simp add: mult_less_cancel_right)
      qed
      then have "drop_bit (8 - r) b = 0 \<longleftrightarrow> from_bytes_big d < 2 ^ (length ?lo * 8 - r)"
        by (simp add: drop_bit_byte_zero)
      then show ?thesis using False r0 assms e \<open>f < length d\<close> b
        by (simp add: has_leading_zero_bits_def f_def [symmetric] r_def [symmetric] Let_def)
    qed
  qed
qed

context lib_ok
begin

lemma verify_pow_iff:
  assumes "0 \<le> k" and "k \<le> 256" and "0 \<le> nonce" and "nonce < 2 ^ 64"
  shows "verify_pow L c nonce k
    = Inr (from_bytes_big (digest256 L (c @ to_bytes_big 8 nonce)) < 2 ^ nat (256 - k))"
  using assms leading_zero_bits_iff [of k "digest256 L (c @ to_bytes_big 8 nonce)"]
  by (simp add: verify_pow_def pow_digest_def digest256_length)

end

lemma solve_from_least:
  assumes "solve_from L c k n = Inr r" and "0 \<le> n"
  shows "n \<le> r \<and> r < 2 ^ 64 \<and> verify_pow L c r k = Inr True
    \<and> (\<forall>m. n \<le> m \<and> m < r \<longrightarrow> verify_pow L c m k = Inr False)"
  using assms
proof (induction L c k n rule: solve_from.induct)
  case (1 L c k n)
  have lt: "n < 2 ^ 64" using "1.prems" by (auto simp: solve_from.simps [of L c k n] split: if_splits)
  have v: "verify_pow L c n k = has_leading_zero_bits (digest256 L (c @ to_bytes_big 8 n)) k"
    using lt "1.prems"(2) by (simp add: verify_pow_def pow_digest_def)
  show ?case
  proof (cases "verify_pow L c n k")
    case (Inl e)
    with "1.prems" lt show ?thesis by (simp add: solve_from.simps [of L c k n] v)
  next
    case (Inr b)
    show ?thesis
    proof (cases b)
      case True
      then have "r = n" using "1.prems" lt Inr by (simp add: solve_from.simps [of L c k n] v)
      with True Inr lt show ?thesis by auto
    next
      case False
      then have rec: "solve_from L c k (n + 1) = Inr r"
        using "1.prems" lt Inr by (simp add: solve_from.simps [of L c k n] v)
      have "n + 1 \<le> r \<and> r < 2 ^ 64 \<and> verify_pow L c r k = Inr True
        \<and> (\<forall>m. n + 1 \<le> m \<and> m < r \<longrightarrow> verify_pow L c m k = Inr False)"
        using "1.IH" [of b] lt Inr False rec "1.prems"(2) by (simp add: v)
      moreover have "verify_pow L c n k = Inr False" using Inr False by simp
      ultimately show ?thesis by (metis add1_zle_eq order_le_less order_trans zle_add1_eq_le)
    qed
  qed
qed

end
