(* ===== verification/Service.thy ===== *)
theory Service
  imports Party Pow
begin

text \<open>
  \<^verbatim>\<open>main.py\<close>: the command loop around one \<^verbatim>\<open>Party\<close>. A line of input is represented by what
  \<^verbatim>\<open>json.loads\<close> makes of it, the operating system by the record \<open>env\<close>. The first response that is
  not \<^verbatim>\<open>ok\<close> ends the session. A command that raises leaves attributes set up to the point where it raised;
  no line is read after it, so \<open>process_command\<close> gives no client in that case.
\<close>

section \<open>State\<close>

record env =
  en_flag :: "string option"
  en_traceback :: "pyerr \<Rightarrow> string"
  en_difficulty :: int

record client =
  cl_party :: party
  cl_phase :: int
  cl_action :: string
  cl_cache :: "bytes option"
  cl_done :: bool

definition client_init :: client where
  "client_init =
     \<lparr> cl_party = party_init 1, cl_phase = 1, cl_action = ''start_phase'', cl_cache = None,
       cl_done = False \<rparr>"

section \<open>Guessing the key\<close>

definition json_type :: "json \<Rightarrow> string" where
  "json_type v =
     (case v of
        JNull \<Rightarrow> ''<class 'NoneType'>'' | JBool _ \<Rightarrow> ''<class 'bool'>'' | JInt _ \<Rightarrow> ''<class 'int'>''
      | JFloat _ \<Rightarrow> ''<class 'float'>'' | JStr _ \<Rightarrow> ''<class 'str'>'' | JList _ \<Rightarrow> ''<class 'list'>''
      | JObj _ \<Rightarrow> ''<class 'dict'>'')"

definition incorrect :: "string \<Rightarrow> json" where
  "incorrect m = JObj [(''correct'', JBool False), (''message'', JStr m)]"

definition handle_guess_key :: "env \<Rightarrow> client \<Rightarrow> json \<Rightarrow> json res" where
  "handle_guess_key en c data =
     (if \<not> cl_done c
      then Inr (incorrect ''You must complete at least one successful signing round before guessing.'')
      else
        ebind (py_get data ''guess'' JNull) (\<lambda>guess.
        if guess = JNull then Inr (incorrect ''No 'guess' key provided in data.'')
        else
          (case get_secret_key_xi (cl_party c) of
             None \<Rightarrow> Inr (incorrect ''Party1's key (phase 1) has not been generated yet.'')
           | Some secret_key \<Rightarrow>
               (case py_int guess of
                  Inl e \<Rightarrow> Inr (incorrect (''Guess must be an integer, but got: '' @ json_type guess))
                | Inr guessed_key \<Rightarrow>
                    if guessed_key = secret_key then
                      (case en_flag en of
                         Some flag \<Rightarrow>
                           Inr (JObj [(''correct'', JBool True), (''flag'', JStr (py_strip flag))])
                       | None \<Rightarrow>
                           Inr (JObj [(''correct'', JBool True), (''flag'', JStr ''FLAG_FILE_NOT_FOUND'')]))
                    else Inr (incorrect ''Incorrect guess.'')))))"

section \<open>Commands\<close>

text \<open>\<^verbatim>\<open>getattr(self.party, f"start_phase{phase}")()\<close>: only an integer spells an existing method.\<close>

definition start_phase :: "lib \<Rightarrow> curve \<Rightarrow> json \<Rightarrow> party \<Rightarrow> party rnd" where
  "start_phase L ec phase p =
     (case phase of
        JInt i \<Rightarrow>
          if i = 1 then start_phase1 L ec p
          else if i = 2 then start_phase2 L ec p
          else if i = 3 then start_phase3 L ec p
          else if i = 4 then rlift (start_phase4 L ec p)
          else rlift (Inl AttributeError)
      | _ \<Rightarrow> rlift (Inl AttributeError))"

definition decode_msg :: "lib \<Rightarrow> curve \<Rightarrow> hints \<Rightarrow> (field_val list \<Rightarrow> 'm res) \<Rightarrow> json \<Rightarrow> 'm res" where
  "decode_msg L ec hs of_fields data = ebind (from_dict L ec hs data) of_fields"

text \<open>A round: the method by name, its argument by \<^verbatim>\<open>REQUEST_DTO_MAP\<close>, the result by \<^verbatim>\<open>to_dict\<close>.\<close>

definition keygen_method :: "lib \<Rightarrow> curve \<Rightarrow> string \<Rightarrow> json \<Rightarrow> party \<Rightarrow> (json \<times> party) rnd" where
  "keygen_method L ec action data p =
     (if action = ''round1'' then
        rbind (rlift (phase1_round1 p)) (\<lambda>m. rret (to_dict keygen_r1_hints (keygen_r1_fields m), p))
      else if action = ''round2'' then
        rbind (rlift (decode_msg L ec keygen_r1_hints keygen_r1_make data)) (\<lambda>mj.
        rbind (rlift (phase1_round2 p mj)) (\<lambda>(m, p).
        rret (to_dict keygen_r2_hints (keygen_r2_fields m), p)))
      else if action = ''round3'' then
        rbind (rlift (decode_msg L ec keygen_r2_hints keygen_r2_make data)) (\<lambda>mj.
        rbind (phase1_round3 L ec p mj) (\<lambda>(m, p).
        rret (to_dict keygen_r3_hints (keygen_r3_fields m), p)))
      else if action = ''round_out'' then
        rbind (rlift (decode_msg L ec keygen_r3_hints keygen_r3_make data)) (\<lambda>mj.
        rbind (rlift (phase1_round_out L ec p mj)) (\<lambda>(X, p). rret (keygen_output_dict X, p)))
      else rlift (Inl AttributeError))"

definition aux_method :: "lib \<Rightarrow> curve \<Rightarrow> string \<Rightarrow> json \<Rightarrow> party \<Rightarrow> (json \<times> party) rnd" where
  "aux_method L ec action data p =
     (if action = ''round1'' then
        rbind (rlift (phase2_round1 L p)) (\<lambda>m. rret (to_dict aux_r1_hints (aux_r1_fields m), p))
      else if action = ''round2'' then
        rbind (rlift (decode_msg L ec aux_r1_hints aux_r1_make data)) (\<lambda>mj.
        rbind (rlift (phase2_round2 p mj)) (\<lambda>(m, p).
        rret (to_dict aux_r2_hints (aux_r2_fields m), p)))
      else if action = ''round3'' then
        rbind (rlift (decode_msg L ec aux_r2_hints aux_r2_make data)) (\<lambda>mj.
        rbind (phase2_round3 L ec p mj) (\<lambda>(m, p).
        rret (to_dict aux_r3_hints (aux_r3_fields m), p)))
      else if action = ''round_out'' then
        rbind (rlift (decode_msg L ec aux_r3_hints aux_r3_make data)) (\<lambda>mj.
        rbind (rlift (phase2_round_out L ec p mj)) (\<lambda>(n, p). rret (aux_output_dict n, p)))
      else rlift (Inl AttributeError))"

definition presign_method :: "lib \<Rightarrow> curve \<Rightarrow> string \<Rightarrow> json \<Rightarrow> party \<Rightarrow> (json \<times> party) rnd" where
  "presign_method L ec action data p =
     (if action = ''round1'' then
        rbind (phase3_round1 L ec p) (\<lambda>m. rret (to_dict presign_r1_hints (presign_r1_fields m), p))
      else if action = ''round2'' then
        rbind (rlift (decode_msg L ec presign_r1_hints presign_r1_make data)) (\<lambda>mj.
        rbind (phase3_round2 L ec p mj) (\<lambda>(m, p).
        rret (to_dict presign_r2_hints (presign_r2_fields m), p)))
      else if action = ''round3'' then
        rbind (rlift (decode_msg L ec presign_r2_hints presign_r2_make data)) (\<lambda>mj.
        rbind (phase3_round3 L ec p mj) (\<lambda>(m, p).
        rret (to_dict presign_r3_hints (presign_r3_fields m), p)))
      else if action = ''round_out'' then
        rbind (rlift (decode_msg L ec presign_r3_hints presign_r3_make data)) (\<lambda>mj.
        rbind (rlift (phase3_round_out L ec p mj)) (\<lambda>(R, p). rret (presigning_output_dict R, p)))
      else rlift (Inl AttributeError))"

definition run_method :: "lib \<Rightarrow> curve \<Rightarrow> json \<Rightarrow> string \<Rightarrow> json \<Rightarrow> party \<Rightarrow> (json \<times> party) rnd" where
  "run_method L ec phase action data p =
     (case phase of
        JInt i \<Rightarrow>
          if i = 1 then keygen_method L ec action data p
          else if i = 2 then aux_method L ec action data p
          else if i = 3 then presign_method L ec action data p
          else rlift (Inl AttributeError)
      | _ \<Rightarrow> rlift (Inl AttributeError))"

definition advance_round :: "int \<Rightarrow> string \<Rightarrow> client \<Rightarrow> client" where
  "advance_round next_phase action c =
     (if action = ''start_phase'' then c\<lparr> cl_action := ''round1'' \<rparr>
      else if action = ''round1'' then c\<lparr> cl_action := ''round2'' \<rparr>
      else if action = ''round2'' then c\<lparr> cl_action := ''round3'' \<rparr>
      else if action = ''round3'' then c\<lparr> cl_action := ''round_out'' \<rparr>
      else if action = ''round_out'' then c\<lparr> cl_phase := next_phase, cl_action := ''start_phase'' \<rparr>
      else c)"

definition advance :: "json \<Rightarrow> string \<Rightarrow> client \<Rightarrow> client" where
  "advance phase action c =
     (if py_eq_int phase 1 then advance_round 2 action c
      else if py_eq_int phase 2 then advance_round 3 action c
      else if py_eq_int phase 3 then advance_round 4 action c
      else if py_eq_int phase 4 then
        (if action = ''start_phase'' then c\<lparr> cl_action := ''sign'' \<rparr>
         else if action = ''sign'' then c\<lparr> cl_action := ''verify'' \<rparr>
         else if action = ''verify'' then c\<lparr> cl_phase := 3, cl_action := ''start_phase'' \<rparr>
         else c)
      else c)"

definition json_phase :: "json \<Rightarrow> string" where
  "json_phase phase = (case phase of JInt i \<Rightarrow> decimal i | _ \<Rightarrow> [])"

definition sign_command :: "lib \<Rightarrow> curve \<Rightarrow> json \<Rightarrow> client \<Rightarrow> (json \<times> client) rnd" where
  "sign_command L ec data c =
     rbind (rlift (py_get data ''message'' (JStr ''''))) (\<lambda>message_hex.
     rbind (rlift (json_bytes message_hex)) (\<lambda>message.
     rbind (phase4_sign L ec (cl_party c) message) (\<lambda>(m, p).
     rret (to_dict signing_hints (signing_fields m),
           c\<lparr> cl_cache := Some message, cl_party := p \<rparr>))))"

definition verify_command :: "lib \<Rightarrow> curve \<Rightarrow> json \<Rightarrow> client \<Rightarrow> (json \<times> client) rnd" where
  "verify_command L ec data c =
     rbind (rlift (decode_msg L ec signing_hints signing_make data)) (\<lambda>msg_j.
     rbind (rlift (case cl_cache c of None \<Rightarrow> Inl TypeError | Some m \<Rightarrow> Inr m)) (\<lambda>message.
     rbind (rlift (phase4_verify L ec (cl_party c) message msg_j)) (\<lambda>(result, p).
     let c = c\<lparr> cl_party := p, cl_cache := None \<rparr> in
     rret (JObj [(''verify'', JBool result)], if result then c\<lparr> cl_done := True \<rparr> else c))))"

text \<open>The part of \<^verbatim>\<open>process_command\<close> that runs the action once phase and action are as expected.\<close>

definition perform :: "lib \<Rightarrow> curve \<Rightarrow> json \<Rightarrow> string \<Rightarrow> json \<Rightarrow> client \<Rightarrow> (json \<times> client) rnd" where
  "perform L ec phase action data c =
     (if action = ''start_phase'' then
        rbind (start_phase L ec phase (cl_party c)) (\<lambda>p.
        rret (JObj [(''message'', JStr (''Started phase '' @ json_phase phase))], c\<lparr> cl_party := p \<rparr>))
      else if py_eq_int phase 4 \<and> action = ''sign'' then sign_command L ec data c
      else if py_eq_int phase 4 \<and> action = ''verify'' then verify_command L ec data c
      else
        rbind (run_method L ec phase action data (cl_party c)) (\<lambda>(result, p).
        rret (result, c\<lparr> cl_party := p \<rparr>)))"

definition ok_response :: "string \<Rightarrow> json \<Rightarrow> json \<Rightarrow> json" where
  "ok_response action phase result =
     JObj [(''status'', JStr ''ok''), (''action'', JStr action), (''phase'', phase), (''result'', result)]"

definition guess_response :: "json \<Rightarrow> json" where
  "guess_response result =
     JObj [(''status'', JStr ''ok''), (''action'', JStr ''guess_key''), (''result'', result)]"

definition flow_violation :: "client \<Rightarrow> json \<Rightarrow> json \<Rightarrow> json" where
  "flow_violation c phase action =
     JObj [(''status'', JStr ''error''), (''message'', JStr ''Protocol flow violation.''),
           (''expected_phase'', JInt (cl_phase c)), (''expected_action'', JStr (cl_action c)),
           (''received_phase'', phase), (''received_action'', action)]"

definition error_response :: "env \<Rightarrow> pyerr \<Rightarrow> json" where
  "error_response en e =
     (case e of
        VerificationError m \<Rightarrow>
          JObj [(''status'', JStr ''error''),
                (''message'', JStr (''Protocol verification failed: '' @ m)),
                (''type'', JStr ''VerificationError'')]
      | _ \<Rightarrow>
          JObj [(''status'', JStr ''error''), (''message'', JStr ''An unexpected server error occurred.''),
                (''traceback'', JStr (en_traceback en e))])"

definition command_body :: "lib \<Rightarrow> curve \<Rightarrow> env \<Rightarrow> client \<Rightarrow> json res \<Rightarrow> (json \<times> client) rnd" where
  "command_body L ec en c text =
     rbind (rlift text) (\<lambda>command.
     rbind (rlift (py_get command ''phase'' JNull)) (\<lambda>phase.
     rbind (rlift (py_get command ''action'' JNull)) (\<lambda>action.
     rbind (rlift (py_get command ''data'' (JObj []))) (\<lambda>data.
     if action = JStr ''guess_key'' then
       rbind (rlift (handle_guess_key en c data)) (\<lambda>result. rret (guess_response result, c))
     else if \<not> py_eq_int phase (cl_phase c) \<or> action \<noteq> JStr (cl_action c) then
       rret (flow_violation c phase action, c)
     else
       rbind (perform L ec phase (cl_action c) data c) (\<lambda>(result, c').
       rret (ok_response (cl_action c) phase result, advance phase (cl_action c) c'))))))"

text \<open>The response, and the client to go on with, unless an exception was caught.\<close>

definition process_command ::
    "lib \<Rightarrow> curve \<Rightarrow> env \<Rightarrow> client \<Rightarrow> json res \<Rightarrow> tape \<Rightarrow> json \<times> (client \<times> tape) option" where
  "process_command L ec en c text t =
     (case command_body L ec en c text t of
        Inr ((response, c'), t') \<Rightarrow> (response, Some (c', t'))
      | Inl e \<Rightarrow> (error_response en e, None))"

section \<open>The session\<close>

definition status_ok :: "json \<Rightarrow> bool" where
  "status_ok response \<longleftrightarrow> py_item response ''status'' = Inr (JStr ''ok'')"

text \<open>What the loop receives: a blank line, a line of JSON text, or the timer's signal.\<close>

datatype input = Blank | Text "json res" | Alarm

definition timeout_response :: json where
  "timeout_response =
     JObj [(''status'', JStr ''error''), (''message'', JStr ''protocol timeout exceeded.'')]"

fun serve :: "lib \<Rightarrow> curve \<Rightarrow> env \<Rightarrow> client \<Rightarrow> tape \<Rightarrow> input list \<Rightarrow> json list" where
  "serve L ec en c t [] = []"
| "serve L ec en c t (Blank # rest) = serve L ec en c t rest"
| "serve L ec en c t (Alarm # rest) = [timeout_response]"
| "serve L ec en c t (Text text # rest) =
     (case process_command L ec en c text t of
        (response, None) \<Rightarrow> [response]
      | (response, Some (c', t')) \<Rightarrow> response # (if status_ok response then serve L ec en c' t' rest else []))"

definition pow_request :: "env \<Rightarrow> bytes \<Rightarrow> json" where
  "pow_request en c =
     JObj [(''type'', JStr ''pow''), (''algorithm'', JStr ''sha256''),
           (''challenge'', JStr (bytes_hex c)), (''difficulty'', JInt (en_difficulty en))]"

text \<open>The client's answer to the challenge: \<^verbatim>\<open>None\<close> is the end of the input.\<close>

definition pow_valid :: "lib \<Rightarrow> env \<Rightarrow> bytes \<Rightarrow> json res \<Rightarrow> bool res" where
  "pow_valid L en c text =
     (case ebind text (\<lambda>response. ebind (py_item response ''nonce'') (\<lambda>v. ebind (py_int v) (\<lambda>nonce.
        verify_pow L c nonce (en_difficulty en)))) of
        Inl e \<Rightarrow> if e \<in> {KeyError, TypeError, ValueError} then Inr False else Inl e
      | Inr valid \<Rightarrow> Inr valid)"

definition run_pow :: "lib \<Rightarrow> env \<Rightarrow> (bytes \<Rightarrow> json res option) \<Rightarrow> (bool \<times> json list) rnd" where
  "run_pow L en answer =
     rbind (urandom_int 16) (\<lambda>x.
     let c = to_bytes_big 16 x in
     case answer c of
       None \<Rightarrow> rret (False, [pow_request en c])
     | Some text \<Rightarrow>
         rbind (rlift (pow_valid L en c text)) (\<lambda>valid.
         if \<not> valid then
           rret (False, [pow_request en c,
             JObj [(''status'', JStr ''error''), (''action'', JStr ''pow''),
                   (''message'', JStr ''Invalid PoW.'')]])
         else
           rret (True, [pow_request en c,
             JObj [(''status'', JStr ''ok''), (''action'', JStr ''pow'')]])))"

definition main_session ::
    "lib \<Rightarrow> curve \<Rightarrow> env \<Rightarrow> (bytes \<Rightarrow> json res option) \<Rightarrow> input list \<Rightarrow> tape \<Rightarrow> json list res" where
  "main_session L ec en answer inputs t =
     ebind (run_pow L en answer t) (\<lambda>((passed, sent), t').
     Inr (sent @ (if passed then serve L ec en client_init t' inputs else [])))"

section \<open>The effect of a command on the party\<close>

lemma keygen_method_effect:
  assumes "keygen_method L ec a data p t = Inr ((r, p'), t')"
  shows "(a = ''round1'' \<and> p' = p)
    \<or> (a = ''round2'' \<and> (\<exists>m. p' = p\<lparr> pt_p_other_msg_r1 := Some (MKeygen m) \<rparr>))
    \<or> (a = ''round3'' \<and> (\<exists>k. p' = p\<lparr> pt_keygen_protocol := Some k \<rparr>))
    \<or> (a = ''round_out'' \<and> (\<exists>d. p' = p\<lparr> pt_keygen_data := Some d, pt_keygen_protocol := None,
          pt_p_other_msg_r1 := None \<rparr>))"
  using assms
  by (auto simp: keygen_method_def phase1_round1_def phase1_round2_def phase1_round3_def
      phase1_round_out_def rnd_simps res_simps split: if_splits)

lemma aux_method_effect:
  assumes "aux_method L ec a data p t = Inr ((r, p'), t')"
  shows "(a = ''round1'' \<and> p' = p)
    \<or> (a = ''round2'' \<and> (\<exists>m. p' = p\<lparr> pt_p_other_msg_r1 := Some (MAux m) \<rparr>))
    \<or> (a = ''round3'' \<and> (\<exists>k. p' = p\<lparr> pt_aux_protocol := Some k \<rparr>))
    \<or> (a = ''round_out'' \<and> (\<exists>d. p' = p\<lparr> pt_aux_data := Some d, pt_aux_protocol := None,
          pt_p_other_msg_r1 := None \<rparr>))"
  using assms
  by (auto simp: aux_method_def phase2_round1_def phase2_round2_def phase2_round3_def
      phase2_round_out_def rnd_simps res_simps split: if_splits)

lemma presign_method_effect:
  assumes "presign_method L ec a data p t = Inr ((r, p'), t')"
  shows "(a = ''round1'' \<and> p' = p)
    \<or> (a = ''round2'' \<and> (\<exists>m s. p' = p\<lparr> pt_p_other_msg_r1 := Some (MPresign m),
          pt_presigning_protocol := Some s \<rparr>))
    \<or> (a = ''round3'' \<and> (\<exists>k. p' = p\<lparr> pt_presigning_protocol := Some k \<rparr>))
    \<or> (a = ''round_out'' \<and> (\<exists>d. p' = p\<lparr> pt_presig_data := Some d, pt_presigning_protocol := None,
          pt_p_other_msg_r1 := None \<rparr>))"
  using assms
  by (auto simp: presign_method_def phase3_round1_def phase3_round2_def phase3_round3_def
      phase3_round_out_def rnd_simps res_simps split: if_splits)

lemma start_phase_effect:
  assumes "start_phase L ec phase p t = Inr (p', t')"
  shows "(phase = JInt 1 \<and> (\<exists>k. p' = p\<lparr> pt_keygen_protocol := Some k \<rparr>))
    \<or> (phase = JInt 2 \<and> (\<exists>a. p' = p\<lparr> pt_aux_protocol := Some a \<rparr>))
    \<or> (phase = JInt 3 \<and> (\<exists>s. p' = p\<lparr> pt_presigning_protocol := Some s \<rparr>))
    \<or> (phase = JInt 4 \<and> (\<exists>s kd. p' = p\<lparr> pt_signing_protocol := Some s \<rparr>
          \<and> pt_keygen_data p = Some kd \<and> sn_X s = ko_X kd))"
  using assms
  by (auto simp: start_phase_def start_phase1_def start_phase2_def start_phase3_def start_phase4_def
      signing_init_def Let_def rnd_simps res_simps split: json.splits if_splits option.splits)

lemma sign_command_effect:
  assumes "sign_command L ec data c t = Inr ((r, c'), t')"
  shows "\<exists>m s s' x. pt_signing_protocol (cl_party c) = Some s \<and> s' = s\<lparr> sn_sigma_i := Some x \<rparr>
    \<and> c' = c\<lparr> cl_cache := Some m,
        cl_party := (cl_party c)\<lparr> pt_signing_protocol := Some s' \<rparr> \<rparr>"
  using assms
  by (auto simp: sign_command_def phase4_sign_def signing_sign_def Let_def rnd_simps res_simps)

lemma verify_command_effect:
  assumes "verify_command L ec data c t = Inr ((r, c'), t')"
  shows "\<exists>m s mj. decode_msg L ec signing_hints signing_make data = Inr mj \<and> cl_cache c = Some m
    \<and> pt_signing_protocol (cl_party c) = Some s \<and> signing_verify L ec s m mj = Inr True \<and> r = JObj [(''verify'', JBool True)]
    \<and> c' = c\<lparr> cl_party := (cl_party c)\<lparr> pt_signing_protocol := None, pt_presig_data := None \<rparr>,
        cl_cache := None, cl_done := True \<rparr>"
  using assms signing_verify_Inr
  by (fastforce simp: verify_command_def phase4_verify_def Let_def rnd_simps res_simps
      split: option.splits)

section \<open>The invariant\<close>

definition round_actions :: "string set" where
  "round_actions = {''start_phase'', ''round1'', ''round2'', ''round3'', ''round_out''}"

definition has_r1 :: "string \<Rightarrow> bool" where
  "has_r1 a \<longleftrightarrow> a = ''round3'' \<or> a = ''round_out''"

text \<open>
  What is present in which phase: the running protocol object, the peer's first message, the data
  of the finished phases, and, while signing, the public key of the key generation.
\<close>

definition party_inv :: "int \<Rightarrow> string \<Rightarrow> party \<Rightarrow> bool" where
  "party_inv ph a p \<longleftrightarrow>
     (ph = 1 \<and> a \<noteq> ''start_phase'' \<longrightarrow> pt_keygen_protocol p \<noteq> None)
     \<and> (ph = 2 \<and> a \<noteq> ''start_phase'' \<longrightarrow> pt_aux_protocol p \<noteq> None)
     \<and> (ph = 3 \<and> a \<noteq> ''start_phase'' \<longrightarrow> pt_presigning_protocol p \<noteq> None)
     \<and> (ph = 1 \<and> has_r1 a \<longrightarrow> (\<exists>m. pt_p_other_msg_r1 p = Some (MKeygen m)))
     \<and> (ph = 2 \<and> has_r1 a \<longrightarrow> (\<exists>m. pt_p_other_msg_r1 p = Some (MAux m)))
     \<and> (ph = 3 \<and> has_r1 a \<longrightarrow> (\<exists>m. pt_p_other_msg_r1 p = Some (MPresign m)))
     \<and> (2 \<le> ph \<longrightarrow> pt_keygen_data p \<noteq> None)
     \<and> (3 \<le> ph \<longrightarrow> pt_aux_data p \<noteq> None)
     \<and> (ph = 4 \<longrightarrow> pt_presig_data p \<noteq> None)
     \<and> (ph = 4 \<and> a \<noteq> ''start_phase'' \<longrightarrow>
         (\<exists>s kd. pt_signing_protocol p = Some s \<and> pt_keygen_data p = Some kd \<and> sn_X s = ko_X kd
            \<and> (a = ''verify'' \<longrightarrow> sn_sigma_i s \<noteq> None)))"

definition flow_state :: "int \<Rightarrow> string \<Rightarrow> bool" where
  "flow_state ph a \<longleftrightarrow> ph \<in> {1, 2, 3} \<and> a \<in> round_actions
     \<or> ph = 4 \<and> a \<in> {''start_phase'', ''sign'', ''verify''}"

definition client_inv :: "client \<Rightarrow> bool" where
  "client_inv c \<longleftrightarrow>
     flow_state (cl_phase c) (cl_action c)
     \<and> party_inv (cl_phase c) (cl_action c) (cl_party c)
     \<and> (cl_action c = ''verify'' \<longrightarrow> cl_cache c \<noteq> None)
     \<and> (cl_done c \<longrightarrow> 3 \<le> cl_phase c)"

lemma client_init_inv: "client_inv client_init"
  by (simp add: client_inv_def client_init_def party_inv_def has_r1_def round_actions_def
      flow_state_def)

lemma py_eq_int_fun: "py_eq_int v m \<Longrightarrow> py_eq_int v n \<longleftrightarrow> m = n"
  by (cases v) auto

section \<open>The flow of a session\<close>

text \<open>The abstract protocol: which phase and action follow which.\<close>

definition flow_table :: "((int \<times> string) \<times> (int \<times> string)) list" where
  "flow_table =
     concat (map (\<lambda>ph.
       [((ph, ''start_phase''), (ph, ''round1'')), ((ph, ''round1''), (ph, ''round2'')),
        ((ph, ''round2''), (ph, ''round3'')), ((ph, ''round3''), (ph, ''round_out'')),
        ((ph, ''round_out''), (ph + 1, ''start_phase''))]) [1, 2, 3])
     @ [((4, ''start_phase''), (4, ''sign'')), ((4, ''sign''), (4, ''verify'')),
        ((4, ''verify''), (3, ''start_phase''))]"

definition flow_next :: "int \<times> string \<Rightarrow> (int \<times> string) option" where
  "flow_next = map_of flow_table"

definition flow_of :: "client \<Rightarrow> int \<times> string" where
  "flow_of c = (cl_phase c, cl_action c)"

lemma flow_next_simps [simp]:
  "flow_next (1, ''start_phase'') = Some (1, ''round1'')"
  "flow_next (1, ''round1'') = Some (1, ''round2'')"
  "flow_next (1, ''round2'') = Some (1, ''round3'')"
  "flow_next (1, ''round3'') = Some (1, ''round_out'')"
  "flow_next (1, ''round_out'') = Some (2, ''start_phase'')"
  "flow_next (2, ''start_phase'') = Some (2, ''round1'')"
  "flow_next (2, ''round1'') = Some (2, ''round2'')"
  "flow_next (2, ''round2'') = Some (2, ''round3'')"
  "flow_next (2, ''round3'') = Some (2, ''round_out'')"
  "flow_next (2, ''round_out'') = Some (3, ''start_phase'')"
  "flow_next (3, ''start_phase'') = Some (3, ''round1'')"
  "flow_next (3, ''round1'') = Some (3, ''round2'')"
  "flow_next (3, ''round2'') = Some (3, ''round3'')"
  "flow_next (3, ''round3'') = Some (3, ''round_out'')"
  "flow_next (3, ''round_out'') = Some (4, ''start_phase'')"
  "flow_next (4, ''start_phase'') = Some (4, ''sign'')"
  "flow_next (4, ''sign'') = Some (4, ''verify'')"
  "flow_next (4, ''verify'') = Some (3, ''start_phase'')"
  by (simp_all add: flow_next_def flow_table_def)

lemma flow_next_states:
  assumes "flow_next x = Some (ph, a)"
  shows "flow_state ph a"
proof -
  have "list_all (\<lambda>(x, ph, a). flow_state ph a) flow_table"
    by (simp add: flow_table_def flow_state_def round_actions_def)
  moreover have "(x, ph, a) \<in> set flow_table"
    using assms unfolding flow_next_def by (rule map_of_SomeD)
  ultimately show ?thesis by (auto simp: list_all_iff)
qed

lemma start_perform:
  assumes "start_phase L ec phase p t = Inr (p', t')" and "py_eq_int phase ph"
    and "party_inv ph ''start_phase'' p" and "ph \<in> {1, 2, 3, 4}"
  shows "party_inv ph (if ph = 4 then ''sign'' else ''round1'') p'"
  using start_phase_effect [OF assms(1)] assms(2-4)
  by (elim disjE conjE exE) (simp_all add: party_inv_def has_r1_def)

lemma keygen_perform:
  assumes "keygen_method L ec a data p t = Inr ((r, p'), t')" and "party_inv 1 a p"
  shows "\<exists>ph' a'. flow_next (1, a) = Some (ph', a') \<and> party_inv ph' a' p'"
  using keygen_method_effect [OF assms(1)] assms(2)
  by (elim disjE conjE exE) (simp_all add: party_inv_def has_r1_def)

lemma aux_perform:
  assumes "aux_method L ec a data p t = Inr ((r, p'), t')" and "party_inv 2 a p"
  shows "\<exists>ph' a'. flow_next (2, a) = Some (ph', a') \<and> party_inv ph' a' p'"
  using aux_method_effect [OF assms(1)] assms(2)
  by (elim disjE conjE exE) (simp_all add: party_inv_def has_r1_def)

lemma presign_perform:
  assumes "presign_method L ec a data p t = Inr ((r, p'), t')" and "party_inv 3 a p"
  shows "\<exists>ph' a'. flow_next (3, a) = Some (ph', a') \<and> party_inv ph' a' p'"
  using presign_method_effect [OF assms(1)] assms(2)
  by (elim disjE conjE exE) (simp_all add: party_inv_def has_r1_def)

lemma run_perform:
  assumes "run_method L ec phase a data p t = Inr ((r, p'), t')" and "py_eq_int phase ph"
    and "party_inv ph a p"
  shows "ph \<in> {1, 2, 3} \<and> (\<exists>ph' a'. flow_next (ph, a) = Some (ph', a') \<and> party_inv ph' a' p')"
proof -
  obtain i where i: "phase = JInt i" using assms(1)
    by (auto simp: run_method_def rnd_simps split: json.splits)
  with assms(2) have ph: "i = ph" by simp
  consider (k) "ph = 1" "keygen_method L ec a data p t = Inr ((r, p'), t')"
    | (a) "ph = 2" "aux_method L ec a data p t = Inr ((r, p'), t')"
    | (p) "ph = 3" "presign_method L ec a data p t = Inr ((r, p'), t')"
    using assms(1) by (auto simp: run_method_def rnd_simps i ph split: if_splits)
  then show ?thesis
    using assms(3) keygen_perform [of L ec a data p t r p' t'] aux_perform [of L ec a data p t r p' t']
      presign_perform [of L ec a data p t r p' t'] by cases simp_all
qed

text \<open>The second half of \<^verbatim>\<open>process_command\<close> follows the table.\<close>

lemma advance_flow:
  assumes "client_inv c" and "py_eq_int phase (cl_phase c)"
    and "cl_phase c' = cl_phase c" and "cl_action c' = cl_action c"
  shows "flow_next (flow_of c) = Some (flow_of (advance phase (cl_action c) c'))
    \<and> cl_party (advance phase (cl_action c) c') = cl_party c'
    \<and> cl_cache (advance phase (cl_action c) c') = cl_cache c'
    \<and> cl_done (advance phase (cl_action c) c') = cl_done c'"
proof -
  note eq = py_eq_int_fun [OF assms(2)]
  from assms(1) have "cl_phase c \<in> {1, 2, 3} \<and> cl_action c \<in> round_actions
      \<or> cl_phase c = 4 \<and> cl_action c \<in> {''start_phase'', ''sign'', ''verify''}"
    by (simp add: client_inv_def flow_state_def)
  then show ?thesis
    using assms(3,4)
    by (elim disjE conjE) (auto simp: round_actions_def advance_def advance_round_def eq flow_of_def)
qed

lemma perform_inv:
  assumes inv: "client_inv c" and ph: "py_eq_int phase (cl_phase c)"
    and run: "perform L ec phase (cl_action c) data c t = Inr ((r, c'), t')"
  shows "client_inv (advance phase (cl_action c) c')
    \<and> flow_next (flow_of c) = Some (flow_of (advance phase (cl_action c) c'))"
proof -
  note eq = py_eq_int_fun [OF ph]
  let ?a = "cl_action c" and ?p = "cl_party c"
  have fin: ?thesis
    if same: "cl_phase c' = cl_phase c" "cl_action c' = cl_action c"
      and nxt: "flow_next (flow_of c) = Some (ph', a')" "party_inv ph' a' (cl_party c')"
      and cache: "a' = ''verify'' \<Longrightarrow> cl_cache c' \<noteq> None" and fin: "cl_done c' \<Longrightarrow> 3 \<le> ph'" for ph' a'
  proof -
    note adv = advance_flow [OF inv ph same]
    then have "flow_of (advance phase ?a c') = (ph', a')" using nxt(1) by simp
    moreover note flow_next_states [OF nxt(1)]
    ultimately show ?thesis using adv nxt cache fin
      by (auto simp: client_inv_def flow_of_def flow_state_def)
  qed
  have st: "party_inv (cl_phase c) ?a ?p" "flow_state (cl_phase c) ?a"
    "cl_done c \<longrightarrow> 3 \<le> cl_phase c" using inv by (simp_all add: client_inv_def flow_state_def)
  consider (start) p' t1 where "?a = ''start_phase''"
      "start_phase L ec phase ?p t = Inr (p', t1)" "c' = c\<lparr> cl_party := p' \<rparr>"
    | (sign) "cl_phase c = 4" "?a = ''sign''" "sign_command L ec data c t = Inr ((r, c'), t')"
    | (verify) "cl_phase c = 4" "?a = ''verify''" "verify_command L ec data c t = Inr ((r, c'), t')"
    | (meth) p' t1 where "run_method L ec phase ?a data ?p t = Inr ((r, p'), t1)"
      "c' = c\<lparr> cl_party := p' \<rparr>"
    using run by (auto simp: perform_def eq rnd_simps split: if_splits)
  then show ?thesis
  proof cases
    case start
    then have "party_inv (cl_phase c) (if cl_phase c = 4 then ''sign'' else ''round1'') p'"
      using start_perform [OF start(2) ph] st by (auto simp: flow_state_def)
    then show ?thesis using start st
      by (intro fin [of "cl_phase c" "if cl_phase c = 4 then ''sign'' else ''round1''"])
        (auto simp: flow_state_def flow_of_def split: if_splits)
  next
    case sign
    then show ?thesis using sign_command_effect [OF sign(3)] st
      by (intro fin [of 4 "''verify''"]) (auto simp: flow_of_def party_inv_def has_r1_def)
  next
    case verify
    then show ?thesis using verify_command_effect [OF verify(3)] st
      by (intro fin [of 3 "''start_phase''"]) (auto simp: flow_of_def party_inv_def has_r1_def)
  next
    case meth
    obtain ph' a' where nx: "flow_next (cl_phase c, ?a) = Some (ph', a')" "party_inv ph' a' p'"
      and le: "cl_phase c \<in> {1, 2, 3}"
      using run_perform [OF meth(1) ph st(1)] by auto
    have "cl_phase c \<le> ph' \<and> a' \<noteq> ''verify''"
      using nx(1) le st(2) by (auto simp: flow_state_def round_actions_def)
    then show ?thesis using nx meth st by (intro fin [OF _ _ nx(1) [folded flow_of_def]]) auto
  qed
qed

section \<open>Responses\<close>

lemma status_simps [simp]:
  "status_ok (ok_response a ph x)" "status_ok (guess_response x)"
  "\<not> status_ok (flow_violation c ph act)" "\<not> status_ok (error_response en e)"
  by (simp_all add: status_ok_def ok_response_def guess_response_def flow_violation_def
      error_response_def split: pyerr.splits)

definition is_guess :: "json res \<Rightarrow> bool" where
  "is_guess text \<longleftrightarrow> ebind text (\<lambda>cmd. py_get cmd ''action'' JNull) = Inr (JStr ''guess_key'')"

text \<open>What a command does: four outcomes.\<close>

lemma process_command_cases:
  assumes "process_command L ec en c text t = (r, after)"
  obtains (guess) cmd data res t' where "text = Inr cmd" "is_guess text" "after = Some (c, t')"
      "py_get cmd ''data'' (JObj []) = Inr data" "handle_guess_key en c data = Inr res"
      "r = guess_response res"
  | (violation) ph act t' where "\<not> is_guess text" "after = Some (c, t')" "r = flow_violation c ph act"
      "\<not> py_eq_int ph (cl_phase c) \<or> act \<noteq> JStr (cl_action c)"
  | (failed) e where "after = None" "r = error_response en e"
  | (performed) cmd ph data res c1 t' where "text = Inr cmd" "\<not> is_guess text" "py_eq_int ph (cl_phase c)"
      "py_get cmd ''data'' (JObj []) = Inr data"
      "perform L ec ph (cl_action c) data c t = Inr ((res, c1), t')"
      "after = Some (advance ph (cl_action c) c1, t')" "r = ok_response (cl_action c) ph res"
proof (cases "command_body L ec en c text t")
  case (Inl e)
  then have "after = None" "r = error_response en e" using assms by (simp_all add: process_command_def)
  then show thesis by (rule failed)
next
  case (Inr y)
  then obtain c' t' where after: "after = Some (c', t')" and body: "command_body L ec en c text t = Inr ((r, c'), t')"
    using assms by (cases y) (auto simp: process_command_def)
  then obtain cmd ph act data where cmd: "text = Inr cmd" "py_get cmd ''phase'' JNull = Inr ph"
      "py_get cmd ''action'' JNull = Inr act" "py_get cmd ''data'' (JObj []) = Inr data"
    by (auto simp: command_body_def rnd_simps)
  then have ig: "is_guess text \<longleftrightarrow> act = JStr ''guess_key''" by (simp add: is_guess_def)
  consider "act = JStr ''guess_key''" | "act \<noteq> JStr ''guess_key''"
      "\<not> py_eq_int ph (cl_phase c) \<or> act \<noteq> JStr (cl_action c)"
    | "act \<noteq> JStr ''guess_key''" "py_eq_int ph (cl_phase c)" "act = JStr (cl_action c)" by blast
  then show thesis
  proof cases
    case 1
    then show thesis using body cmd ig after by (auto simp: command_body_def rnd_simps intro: guess)
  next
    case 2
    then show thesis using body cmd ig after by (auto simp: command_body_def rnd_simps intro: violation)
  next
    case 3
    then show thesis using body cmd ig after performed by (auto simp: command_body_def rnd_simps)
  qed
qed

text \<open>
  The service refines the abstract protocol. A command answered \<^verbatim>\<open>ok\<close> that is no guess follows the table; a
  guess or a violation of the flow changes nothing; a command that raised is answered by an error, and no client
  remains.
\<close>

lemma process_command_flow:
  assumes "client_inv c" and "process_command L ec en c text t = (r, after)"
  shows "case after of
      None \<Rightarrow> \<not> status_ok r
    | Some (c', t') \<Rightarrow> client_inv c' \<and> (if status_ok r \<and> \<not> is_guess text
        then flow_next (flow_of c) = Some (flow_of c') else c' = c)"
  using assms(2)
proof (cases rule: process_command_cases)
  case (performed cmd ph data res c1 t')
  then show ?thesis using perform_inv [OF assms(1) performed(3,5)] by simp
qed (use assms(1) in simp_all)

lemma process_command_inv:
  assumes "client_inv c" and "process_command L ec en c text t = (r, Some (c', t'))"
  shows "client_inv c'"
  using process_command_flow [OF assms] by simp

text \<open>
  One command of a list. The session is over once a command raised; the step then keeps the last client there was, so
  that lists that go on are covered as well.
\<close>

definition client_step :: "lib \<Rightarrow> curve \<Rightarrow> env \<Rightarrow> client \<times> tape \<Rightarrow> json res \<Rightarrow> client \<times> tape" where
  "client_step L ec en s text =
     (case process_command L ec en (fst s) text (snd s) of (r, None) \<Rightarrow> s | (r, Some s') \<Rightarrow> s')"

interpretation service: transition_system "client_step L ec en" "\<lambda>s. client_inv (fst s)" for L ec en
  by unfold_locales (auto simp: client_step_def split: prod.splits option.splits dest: process_command_inv)

section \<open>The flag\<close>

definition verify_result :: "bool \<Rightarrow> json" where
  "verify_result b = JObj [(''verify'', JBool b)]"

text \<open>A response that carries a flag.\<close>

definition discloses :: "json \<Rightarrow> bool" where
  "discloses r \<longleftrightarrow> (\<exists>f. ebind (py_item r ''result'') (\<lambda>res. py_item res ''flag'') = Inr f)"

lemma no_flag_key:
  assumes "''flag'' \<notin> set (map fst hs)"
  shows "py_item (to_dict hs vs) ''flag'' = Inl KeyError"
proof -
  have "fst ` set (zip (map fst hs) ys) \<subseteq> set (map fst hs)" for ys :: "json list"
    by (auto dest: set_zip_leftD)
  then have "map_of (zip (map fst hs) (map field_json vs)) ''flag'' = None"
    using assms unfolding map_of_eq_None_iff by blast
  then show ?thesis by (simp add: to_dict_def)
qed

lemmas message_hints = keygen_r1_hints_def keygen_r2_hints_def keygen_r3_hints_def aux_r1_hints_def
  aux_r2_hints_def aux_r3_hints_def presign_r1_hints_def presign_r2_hints_def presign_r3_hints_def
  signing_hints_def

lemma run_method_no_flag:
  assumes "run_method L ec phase a data p t = Inr ((r, p'), t')"
  shows "py_item r ''flag'' = Inl KeyError"
  using assms
  by (auto simp: run_method_def keygen_method_def aux_method_def presign_method_def rnd_simps
      no_flag_key message_hints keygen_output_dict_def aux_output_dict_def presigning_output_dict_def
      split: json.splits if_splits)

lemma no_flag_simps [simp]:
  "\<not> discloses (flow_violation c ph act)" "\<not> discloses (error_response en e)"
  "discloses (ok_response a ph res) \<longleftrightarrow> (\<exists>f. py_item res ''flag'' = Inr f)"
  "discloses (guess_response res) \<longleftrightarrow> (\<exists>f. py_item res ''flag'' = Inr f)"
  by (simp_all add: discloses_def flow_violation_def error_response_def ok_response_def
      guess_response_def split: pyerr.splits)

lemma perform_no_flag:
  assumes "perform L ec phase a data c t = Inr ((r, c'), t')"
  shows "py_item r ''flag'' = Inl KeyError"
  using assms run_method_no_flag verify_command_effect [of L ec data c t r c' t']
  by (auto simp: perform_def sign_command_def rnd_simps no_flag_key message_hints split: if_splits)

text \<open>The flag answers a correct guess, after a completed signature.\<close>

lemma handle_guess_key_flag:
  assumes "handle_guess_key en c data = Inr res" and "py_item res ''flag'' = Inr f"
  shows "cl_done c \<and> (\<exists>v xi. py_get data ''guess'' JNull = Inr v \<and> py_int v = Inr xi
    \<and> get_secret_key_xi (cl_party c) = Some xi)"
  using assms
  by (auto simp: handle_guess_key_def incorrect_def res_simps split: if_splits option.splits sum.splits)

lemma process_command_flag:
  assumes "process_command L ec en c text t = (r, after)" and "discloses r"
  shows "cl_done c \<and> is_guess text \<and> (\<exists>cmd data v xi. text = Inr cmd
    \<and> py_get cmd ''data'' (JObj []) = Inr data \<and> py_get data ''guess'' JNull = Inr v
    \<and> py_int v = Inr xi \<and> get_secret_key_xi (cl_party c) = Some xi)"
  using assms(1)
proof (cases rule: process_command_cases)
  case (guess cmd data res t')
  then show ?thesis using assms(2) handle_guess_key_flag [OF guess(5)] by auto
next
  case (performed cmd ph data res c1 t')
  then show ?thesis using assms(2) perform_no_flag [OF performed(5)] by simp
qed (use assms(2) in simp_all)

text \<open>
  Only the verify action completes a signature. What it accepts is the pair of \<open>r\<close> and the sum of the own share and
  the share in the peer's message: an ECDSA signature of the message signed before, under the public key of the key
  generation.
\<close>

definition verified_by :: "lib \<Rightarrow> curve \<Rightarrow> client \<Rightarrow> json \<Rightarrow> bool" where
  "verified_by L ec c data \<longleftrightarrow>
     (\<exists>msg m kd s sigma_i. decode_msg L ec signing_hints signing_make data = Inr msg \<and> cl_cache c = Some m
        \<and> pt_keygen_data (cl_party c) = Some kd \<and> pt_signing_protocol (cl_party c) = Some s \<and> sn_sigma_i s = Some sigma_i
        \<and> verify_peer_zk L ec s m msg = Inr ()
        \<and> ec_verify L ec (ko_X kd) (message_hash L m) (sn_r s, (sigma_i + sg_sigma msg) mod cn ec) = Inr True)"

lemma verify_signed:
  assumes inv: "client_inv c" and a: "cl_phase c = 4" "cl_action c = ''verify''"
    and run: "verify_command L ec data c t = Inr ((r, c'), t')"
  shows "verified_by L ec c data \<and> r = verify_result True"
proof -
  obtain msg m s where d: "decode_msg L ec signing_hints signing_make data = Inr msg" and c: "cl_cache c = Some m"
      and s: "pt_signing_protocol (cl_party c) = Some s" and v: "signing_verify L ec s m msg = Inr True"
      and r: "r = JObj [(''verify'', JBool True)]"
    using verify_command_effect [OF run] by blast
  obtain kd where "pt_keygen_data (cl_party c) = Some kd" "sn_X s = ko_X kd"
    using inv a s by (auto simp: client_inv_def party_inv_def)
  moreover have "verify_peer_zk L ec s m msg = Inr ()" using v by (auto simp: signing_verify_def res_simps)
  moreover obtain x where "sn_sigma_i s = Some x"
      "ec_verify L ec (sn_X s) (message_hash L m) (sn_r s, (x + sg_sigma msg) mod cn ec) = Inr True"
    using signing_verify_Inr [OF v] by blast
  ultimately have "verified_by L ec c data" unfolding verified_by_def using d c s by auto
  then show ?thesis using r by (simp add: verify_result_def)
qed

lemma advance_done: "cl_done (advance phase a c) = cl_done c"
  by (simp add: advance_def advance_round_def)

lemma process_command_done:
  assumes inv: "client_inv c" and run: "process_command L ec en c text t = (r, Some (c', t'))"
    and d: "cl_done c'" "\<not> cl_done c"
  shows "cl_phase c = 4 \<and> cl_action c = ''verify'' \<and> (\<exists>cmd data ph. text = Inr cmd \<and> py_get cmd ''data'' (JObj []) = Inr data
    \<and> verified_by L ec c data \<and> r = ok_response ''verify'' ph (verify_result True))"
  using run
proof (cases rule: process_command_cases)
  case (performed cmd ph data res c1 t1)
  have d1: "cl_done c1" using d performed(6) by (simp add: advance_done)
  have four: "py_eq_int ph 4 \<longleftrightarrow> cl_phase c = 4" by (rule py_eq_int_fun [OF performed(3)])
  have "cl_phase c = 4 \<and> cl_action c = ''verify'' \<and> verify_command L ec data c t = Inr ((res, c1), t1)"
    using performed(5) d1 d(2)
    by (auto simp: perform_def sign_command_def four rnd_simps split: if_splits)
  then show ?thesis using verify_signed [OF inv] performed(1,4,7) by auto
qed (use d in simp_all)

lemma process_command_keeps_done:
  assumes "process_command L ec en c line t = (r, Some (c', t'))" and "cl_done c"
  shows "cl_done c'"
  using assms(1)
proof (cases rule: process_command_cases)
  case (performed cmd ph data res c1 t1)
  then show ?thesis using assms(2) verify_command_effect [of L ec data c t res c1 t1]
    by (auto simp: advance_done perform_def sign_command_def rnd_simps split: if_splits)
qed (use assms(2) in simp_all)

lemma process_command_verified:
  assumes run: "process_command L ec en c text t = (r, Some (c', t'))"
    and a: "cl_phase c = 4" "cl_action c = ''verify''" "r = ok_response ''verify'' ph (verify_result True)"
  shows "cl_done c'"
  using run
proof (cases rule: process_command_cases)
  case (performed cmd ph data res c1 t1)
  have "py_eq_int ph 4" using performed(3) a(1) by simp
  then have "verify_command L ec data c t = Inr ((res, c1), t1)"
    using performed(5) by (simp add: perform_def a(2))
  then show ?thesis using verify_command_effect [of L ec data c t res c1 t1] performed(6) by (auto simp: advance_done)
qed (use a(3) in \<open>simp_all add: guess_response_def flow_violation_def ok_response_def\<close>)

section \<open>Sessions\<close>

text \<open>The clients a session reaches, with the responses sent so far.\<close>

inductive session :: "lib \<Rightarrow> curve \<Rightarrow> env \<Rightarrow> client \<Rightarrow> json list \<Rightarrow> bool" for L ec en where
  session_start: "session L ec en client_init []"
| session_command: "session L ec en c rs \<Longrightarrow> process_command L ec en c text t = (r, Some (c', t')) \<Longrightarrow>
    status_ok r \<Longrightarrow> session L ec en c' (rs @ [r])"

lemma session_inv: "session L ec en c rs \<Longrightarrow> client_inv c"
  by (induction rule: session.induct) (auto simp: client_init_inv dest: process_command_inv)

lemma session_done:
  assumes "session L ec en c rs" and "cl_done c"
  shows "\<exists>ph. ok_response ''verify'' ph (verify_result True) \<in> set rs"
  using assms
proof (induction rule: session.induct)
  case session_start
  then show ?case by (simp add: client_init_def)
next
  case (session_command c rs line t r c' t')
  then show ?case
    using process_command_done [OF session_inv [OF session_command.hyps(1)] session_command.hyps(2)]
    by (cases "cl_done c") auto
qed

lemma serve_session:
  assumes "session L ec en c rs" and "serve L ec en c t inputs = pre @ r # post"
  shows "r = timeout_response \<or> (\<exists>c' text t' after. session L ec en c' (rs @ pre)
    \<and> process_command L ec en c' text t' = (r, after))"
  using assms
proof (induction L ec en c t inputs arbitrary: rs pre rule: serve.induct)
  case (4 L ec en c t line rest)
  obtain r1 after where p: "process_command L ec en c line t = (r1, after)"
    by (cases "process_command L ec en c line t")
  show ?case
  proof (cases pre)
    case Nil
    then have "r = r1" using "4.prems"(2) p by (auto split: option.splits)
    then show ?thesis using "4.prems"(1) p Nil by auto
  next
    case (Cons x pre')
    then obtain c1 t1 where after: "after = Some (c1, t1)" and x: "x = r1" "status_ok r1"
        and rest: "serve L ec en c1 t1 rest = pre' @ r # post"
      using "4.prems"(2) p by (auto split: option.splits if_splits)
    have "session L ec en c1 (rs @ [r1])"
      using session_command [OF "4.prems"(1) p [unfolded after]] x(2) by simp
    then show ?thesis using "4.IH" [OF p [symmetric] after refl x(2), of "rs @ [r1]" pre'] rest Cons x
      by auto
  qed
qed (auto simp: Cons_eq_append_conv)

lemma serve_flag:
  assumes "serve L ec en client_init t inputs = pre @ r # post" and "discloses r"
  shows "\<exists>ph. ok_response ''verify'' ph (verify_result True) \<in> set pre"
proof -
  have "\<not> discloses timeout_response" by (simp add: discloses_def timeout_response_def)
  then obtain c line t' after where "session L ec en c pre"
      "process_command L ec en c line t' = (r, after)"
    using serve_session [OF session_start assms(1)] assms(2) by auto
  then show ?thesis using process_command_flag session_done assms(2) by blast
qed

end
