(* ===== verification/Provers.thy ===== *)
theory Provers
  imports ZkMta ZkHv ZkLogstar ZkFac ZkMod Presigning Signing
begin

text \<open>
  The provers return: on a tape that holds enough draws, each \<^verbatim>\<open>new_proof\<close> produces a proof, with
  the bound on its first response that the verifier's range check needs.
\<close>

context lib_ok
begin

lemma nonneg_Cons: "0 < b \<Longrightarrow> random_nonnegative_int b (x # t) = Inr (x mod b, t)"
  by (simp add: random_nonnegative_int_eq_Inr)

lemma positive_Cons: "1 < b \<Longrightarrow> random_positive_int b (x # t) = Inr (x mod (b - 1) + 1, t)"
  by (simp add: random_positive_int_eq_Inr)

lemma unit_Cons:
  assumes "1 < n" and "coprime (x mod (n - 1) + 1) n"
  shows "get_random_positive_relatively_prime_int L n (x # t) = Inr (x mod (n - 1) + 1, t)"
  using assms
  by (simp add: get_random_positive_relatively_prime_int_def rbind_app randbelow_def rret_def ggcd
      coprime_iff_gcd_eq_1)

lemma enc_prove_returns:
  assumes "0 < cn ec" "0 < NCap" "0 < pk_n pk" "0 \<le> k" "0 \<le> alpha" "0 \<le> mu" "0 \<le> gam"
  shows "\<exists>pf. enc_prove L ssid ec pk K NCap s t k rho alpha mu gam r = Inr pf
    \<and> enc_Z1 pf \<le> (cn ec - 1) * k + alpha"
proof -
  let ?S = "ped NCap s t k mu" and ?A = "enc (pk_n pk) alpha r" and ?C = "ped NCap s t alpha gam"
  obtain e where e: "challenge L (cn ec) (enc_transcript ssid ec pk NCap s t K ?S ?A ?C) = Inr e"
      "0 \<le> e" "e < cn ec" using challenge_returns [OF assms(1) enc_transcript_ne] by blast
  have "e * k \<le> (cn ec - 1) * k" using e assms(4) by (intro mult_right_mono) simp_all
  then show ?thesis using assms e
    by (simp add: enc_prove_def Let_def pow2_ped mulpow_eq n_square_def gamma_def)
qed

lemma enc_new_proof_returns:
  assumes "0 < cn ec" "0 < NCap" "1 < pk_n pk" "0 \<le> k" and "coprime (d mod (pk_n pk - 1) + 1) (pk_n pk)"
  shows "\<exists>pf. enc_new_proof L ssid ec pk K NCap s t k rho (a # b # c # d # tp) = Inr (pf, tp)
    \<and> enc_Z1 pf \<le> (cn ec - 1) * k + a mod cn ec ^ 3"
  using assms enc_prove_returns [of ec NCap pk k "a mod cn ec ^ 3" "b mod (cn ec * NCap)"
      "c mod (cn ec ^ 3 * NCap)" ssid K s t rho "d mod (pk_n pk - 1) + 1"]
  by (auto simp: enc_new_proof_def Let_def rbind_app nonneg_Cons unit_Cons rlift_def)

lemma sch_new_proof_returns:
  assumes "ec_group ec"
  shows "\<exists>pf. sch_new_proof L ssid ec X x (a # tp) = Inr (pf, tp)"
proof -
  obtain e where "challenge L (cn ec) (sch_transcript ssid ec X
      (ec_mult ec (a mod (cn ec - 1) + 1) (generator ec))) = Inr e"
    using challenge_returns [of "cn ec"] ec_group_n [OF assms] sch_transcript_ne
    by (metis less_trans zero_less_one)
  then show ?thesis using assms ec_group_n [OF assms]
    by (simp add: sch_new_proof_def sch_new_alpha_def sch_new_proof_with_alpha_def rbind_app
        random_scalar_Cons base_mult_eq rret_def rlift_def)
qed

lemma logstar_prove_returns:
  assumes "ec_group ec" "valid_point ec g" "0 < NCap" "0 < pk_n pk" "0 \<le> x" "0 \<le> alpha" "0 \<le> mu" "0 \<le> gam"
  shows "\<exists>pf. logstar_prove L ssid ec pk C X g rho x NCap s t alpha mu gam r = Inr pf
    \<and> ls_Z1 pf \<le> (cn ec - 1) * x + alpha"
proof -
  let ?S = "ped NCap s t x mu" and ?A = "enc (pk_n pk) alpha r" and ?D = "ped NCap s t alpha gam"
    and ?Y = "ec_mult ec (alpha mod cn ec) g"
  have q: "0 < cn ec" using ec_group_n [OF assms(1)] by simp
  obtain e where e: "challenge L (cn ec) (logstar_transcript ssid ec pk C X g NCap s t ?S ?A ?Y ?D) = Inr e"
      "0 \<le> e" "e < cn ec" using challenge_returns [OF q] by (metis logstar_transcript_def list.distinct(1))
  have "e * x \<le> (cn ec - 1) * x" using e assms(5) by (intro mult_right_mono) simp_all
  then show ?thesis using assms e
    by (simp add: logstar_prove_def Let_def pow2_ped mulpow_eq n_square_def gamma_def ec_eqs)
qed

lemma logstar_new_proof_returns:
  assumes "ec_group ec" "valid_point ec g" "0 < NCap" "1 < pk_n pk" "0 \<le> x"
    and "coprime (d mod (pk_n pk - 1) + 1) (pk_n pk)"
  shows "\<exists>pf. logstar_new_proof L ssid ec pk C X g rho x NCap s t (a # b # c # d # tp) = Inr (pf, tp)
    \<and> ls_Z1 pf \<le> (cn ec - 1) * x + a mod cn ec ^ 3"
  using assms ec_group_n [OF assms(1)]
    logstar_prove_returns [of ec g NCap pk x "a mod cn ec ^ 3" "b mod (cn ec * NCap)"
      "c mod (cn ec ^ 3 * NCap)" ssid C X rho s t "d mod (pk_n pk - 1) + 1"]
  by (auto simp: logstar_new_proof_def Let_def rbind_app nonneg_Cons unit_Cons rlift_def)

lemma st_new_proof_returns:
  assumes g: "ec_group ec" and "valid_point ec R" "valid_point ec H"
  shows "\<exists>pf. st_new_proof L ec S T R H sigma blind (a # b # tp) = Inr (pf, tp)"
proof -
  let ?a = "a mod (cn ec - 1) + 1" and ?b = "b mod (cn ec - 1) + 1"
  let ?beta = "ec_add ec (ec_mult ec ?a (generator ec)) (ec_mult ec ?b H)"
  have q: "0 < cn ec" using ec_group_n [OF g] by simp
  obtain c where "st_challenge L ec T H (ec_mult ec ?a R) ?beta = Inr c"
    unfolding st_challenge_def Let_def using challenge_returns [OF q] by (metis list.distinct(1))
  then show ?thesis using assms ec_group_n [OF g]
    by (simp add: st_new_proof_def rbind_app random_scalar_Cons ec_eqs rlift_def)
qed

lemma fac_new_proof_returns:
  assumes q: "0 < cn ec" and NCap: "1 < NCap" "coprime s NCap" "coprime t NCap"
    and pq: "0 < p" "0 < q" and w: "isqrt L (p * q) = Inr w" "0 < w"
  shows "\<exists>pf. fac_new_proof L ssid ec (p * q) NCap s t p q
      (a # b # c # d # z # x # y # r # tp) = Inr (pf, tp)
    \<and> fac_Z1 pf \<le> (cn ec - 1) * p + a mod (cn ec ^ 3 * w)
    \<and> fac_Z2 pf \<le> (cn ec - 1) * q + b mod (cn ec ^ 3 * w)"
proof -
  let ?N = "p * q"
  let ?a = "a mod (cn ec ^ 3 * w)" and ?b = "b mod (cn ec ^ 3 * w)" and ?mu = "c mod (cn ec * NCap)"
    and ?nu = "d mod (cn ec * NCap)" and ?sg = "z mod (cn ec * ?N * NCap)"
    and ?x = "x mod (cn ec ^ 3 * NCap)" and ?y = "y mod (cn ec ^ 3 * NCap)"
    and ?r = "r mod (cn ec ^ 3 * ?N * NCap)"
  let ?P = "ped NCap s t p ?mu" and ?Q = "ped NCap s t q ?nu" and ?A = "ped NCap s t ?a ?x"
    and ?B = "ped NCap s t ?b ?y"
  let ?T = "ped NCap ?Q t ?a ?r"
  have nz: "s \<noteq> 0" "t \<noteq> 0" using NCap by auto
  have pos: "0 < ?N" "0 < cn ec ^ 3 * w" "0 < cn ec * NCap" "0 < cn ec * ?N * NCap"
    "0 < cn ec ^ 3 * NCap" "0 < cn ec ^ 3 * ?N * NCap" using assms by simp_all
  obtain e where e: "challenge L (cn ec) (fac_transcript ssid ec ?N NCap s t ?P ?Q ?A ?B ?T ?sg) = Inr e"
      "0 \<le> e" "e < cn ec"
    using challenge_returns [OF q] by (metis fac_transcript_def list.distinct(1))
  have "e * p \<le> (cn ec - 1) * p" "e * q \<le> (cn ec - 1) * q"
    using e pq by (auto intro!: mult_right_mono)
  moreover have "fac_prove L ssid ec ?N NCap s t p q ?a ?b ?mu ?nu ?sg ?x ?y ?r = Inr
      \<lparr> fac_P = ?P, fac_Q = ?Q, fac_A = ?A, fac_B = ?B, fac_T = ?T, fac_Sigma = ?sg,
        fac_Z1 = e * p + ?a, fac_Z2 = e * q + ?b, fac_W1 = e * ?mu + ?x, fac_W2 = e * ?nu + ?y,
        fac_V = e * (?sg - ?nu * p) + ?r \<rparr>"
    using pos pq NCap e(1) by (simp add: fac_prove_def pow2_ped)
  ultimately show ?thesis using pos nz NCap pq w
    by (simp add: fac_new_proof_def Let_def rbind_app nonneg_Cons rlift_def)
qed

lemma encrypt_Cons:
  assumes "1 < pk_n pk" "0 \<le> m" "m < pk_n pk" and "coprime (x mod (pk_n pk - 1) + 1) (pk_n pk)"
  shows "encrypt_and_return_randomness L pk m (x # t)
    = Inr ((enc (pk_n pk) m (x mod (pk_n pk - 1) + 1), x mod (pk_n pk - 1) + 1), t)"
proof -
  have "0 < pk_n pk * pk_n pk" using assms(1) by simp
  then show ?thesis using assms
    by (simp add: encrypt_and_return_randomness_def rbind_app unit_Cons powmod_nonneg n_square_def
        gamma_def rret_def enc_eq)
qed

lemma affg_prove_returns:
  assumes g: "ec_group ec" and N: "0 < pk_n pk0" "0 < pk_n pk1" "0 < NCap" and xy: "0 \<le> x" "0 \<le> y"
    and r: "0 \<le> alpha" "0 \<le> beta" "0 \<le> gam" "0 \<le> m" "0 \<le> delta" "0 \<le> mu"
  shows "\<exists>pf. affg_prove L ssid ec pk0 pk1 NCap s t C D Y X x y rho rhoy alpha beta r ry gam m delta mu
      = Inr pf \<and> ag_Z1 pf \<le> (cn ec - 1) * x + alpha \<and> alpha \<le> ag_Z1 pf
    \<and> gam \<le> ag_Z3 pf \<and> delta \<le> ag_Z4 pf"
proof -
  let ?n0 = "pk_n pk0" and ?n1 = "pk_n pk1"
  define A where "A = (C ^ nat alpha mod (?n0 * ?n0)) * ((?n0 + 1) ^ nat beta mod (?n0 * ?n0))
      * (r ^ nat ?n0 mod (?n0 * ?n0)) mod (?n0 * ?n0)"
  define Bx where "Bx = ec_mult ec (alpha mod cn ec) (generator ec)"
  let ?By = "enc ?n1 beta ry" and ?E = "ped NCap s t alpha gam" and ?S = "ped NCap s t x m"
    and ?F = "ped NCap s t beta delta" and ?T = "ped NCap s t y mu"
  have q: "0 < cn ec" using ec_group_n [OF g] by simp
  have n: "0 < ?n0 * ?n0" "0 < ?n1 * ?n1" using N by simp_all
  obtain e where e: "challenge L (cn ec)
      (affg_transcript ssid ec pk0 pk1 NCap s t C D Y X ?S ?T A Bx ?By ?E ?F) = Inr e"
      "0 \<le> e" "e < cn ec" using challenge_returns [OF q] by (metis affg_transcript_def list.distinct(1))
  have ex: "e * x \<le> (cn ec - 1) * x" "0 \<le> e * x" "0 \<le> e * m" "0 \<le> e * mu"
    using e xy r by (auto intro!: mult_right_mono)
  have A': "powmod L C alpha (?n0 * ?n0) = Inr (C ^ nat alpha mod (?n0 * ?n0))"
    "powmod L (?n0 + 1) beta (?n0 * ?n0) = Inr ((?n0 + 1) ^ nat beta mod (?n0 * ?n0))"
    "powmod L r ?n0 (?n0 * ?n0) = Inr (r ^ nat ?n0 mod (?n0 * ?n0))"
    using N r n by (simp_all add: powmod_nonneg)
  have mp: "\<exists>w. mulpow L ?n0 r rho e = Inr w" "\<exists>w. mulpow L ?n1 ry rhoy e = Inr w"
    using N e by (simp_all add: mulpow_eq)
  have ped: "pow2 L (?n1 * ?n1) (?n1 + 1) beta ry ?n1 = Inr ?By" "pow2 L NCap s alpha t gam = Inr ?E"
    "pow2 L NCap s x t m = Inr ?S" "pow2 L NCap s beta t delta = Inr ?F" "pow2 L NCap s y t mu = Inr ?T"
    using N r xy n by (simp_all add: pow2_ped)
  from mp ex e(1) ped A' base_mult_eq [OF g, of "alpha mod cn ec"] show ?thesis
    unfolding affg_prove_def Let_def n_square_def gamma_def A_def Bx_def by (elim exE) simp
qed

lemma affg_new_proof_returns:
  assumes g: "ec_group ec" and N: "1 < pk_n pk0" "1 < pk_n pk1" "0 < NCap"
    and nz: "s \<noteq> 0" "t \<noteq> 0" "C \<noteq> 0" "D \<noteq> 0" "Y \<noteq> 0" "rho \<noteq> 0" "rhoy \<noteq> 0" "0 < x" "0 < y"
    and u: "coprime (b mod (pk_n pk0 - 1) + 1) (pk_n pk0)" "coprime (c mod (pk_n pk0 - 1) + 1) (pk_n pk0)"
      "coprime (d mod (pk_n pk1 - 1) + 1) (pk_n pk1)"
  shows "\<exists>pf. affg_new_proof L ssid ec pk0 pk1 NCap s t C D Y X x y rho rhoy
      (a # b # c # d # f # m # dl # mu # tp) = Inr (pf, tp)
    \<and> ag_Z1 pf \<le> (cn ec - 1) * x + a mod cn ec ^ 3 \<and> a mod cn ec ^ 3 \<le> ag_Z1 pf
    \<and> f mod (cn ec ^ 3 * NCap) \<le> ag_Z3 pf \<and> dl mod (cn ec ^ 3 * NCap) \<le> ag_Z4 pf"
proof -
  let ?be = "b mod (pk_n pk0 - 1) + 1"
  have q: "0 < cn ec" using ec_group_n [OF g] by simp
  have "0 \<le> ?be" using N(1) by (simp add: add_nonneg_nonneg)
  then obtain pf where "affg_prove L ssid ec pk0 pk1 NCap s t C D Y X x y rho rhoy (a mod cn ec ^ 3) ?be
      (c mod (pk_n pk0 - 1) + 1) (d mod (pk_n pk1 - 1) + 1) (f mod (cn ec ^ 3 * NCap))
      (m mod (cn ec * NCap)) (dl mod (cn ec ^ 3 * NCap)) (mu mod (cn ec * NCap)) = Inr pf"
    and "ag_Z1 pf \<le> (cn ec - 1) * x + a mod cn ec ^ 3" "a mod cn ec ^ 3 \<le> ag_Z1 pf"
      "f mod (cn ec ^ 3 * NCap) \<le> ag_Z3 pf" "dl mod (cn ec ^ 3 * NCap) \<le> ag_Z4 pf"
    using affg_prove_returns [OF g, of pk0 pk1 NCap x y "a mod cn ec ^ 3" ?be
        "f mod (cn ec ^ 3 * NCap)" "m mod (cn ec * NCap)" "dl mod (cn ec ^ 3 * NCap)"
        "mu mod (cn ec * NCap)" ssid s t C D Y X rho rhoy "c mod (pk_n pk0 - 1) + 1"
        "d mod (pk_n pk1 - 1) + 1"] N nz q by auto
  moreover have "0 < cn ec ^ 3" "0 < cn ec ^ 3 * NCap" "0 < cn ec * NCap" using q N by simp_all
  ultimately show ?thesis using N nz u
    by (simp add: affg_new_proof_def Let_def rbind_app nonneg_Cons unit_Cons rlift_def)
qed

text \<open>So does the signing step; its proof is in range when the masks leave room for the nonce share.\<close>

lemma signing_sign_returns:
  assumes g: "ec_group ec" and R: "valid_point ec (sn_R s)" and H: "valid_point ec (sn_H s)"
    and N: "1 < pk_n (sn_pub_i s)" "1 < pk_n (sn_pub_j s)"
      "coprime (d mod (pk_n (sn_pub_i s) - 1) + 1) (pk_n (sn_pub_i s))"
    and k: "0 \<le> sn_k_i s" "(cn ec - 1) * sn_k_i s + a mod cn ec ^ 3 < cn ec ^ 3"
    and rho: "sn_R_k_i s = ec_mult ec (sn_k_i s) (sn_R s)" "sn_K_i_ct s = enc (pk_n (sn_pub_i s)) (sn_k_i s) (sn_rho_i s)"
  shows "\<exists>m s'. signing_sign L ec s message (x # y # z # a # b # c # d # tp) = Inr ((m, s'), tp)
    \<and> logstar_in_range L ec m"
proof -
  let ?sg = "signing_share ec s (message_hash L message)" and ?G = "generator ec"
  let ?bl = "x mod (cn ec - 1) + 1"
  let ?T = "ec_add ec (ec_mult ec ?sg ?G) (ec_mult ec ?bl (sn_H s))"
  obtain st where st: "st_new_proof L ec (ec_mult ec ?sg (sn_R s)) ?T (sn_R s) (sn_H s) ?sg ?bl
      (y # z # a # b # c # d # tp) = Inr (st, a # b # c # d # tp)"
    using st_new_proof_returns [OF g R H] by blast
  obtain ls where ls: "logstar_new_proof L (sn_ssid s) ec (sn_pub_i s) (sn_K_i_ct s)
      (ec_mult ec (sn_k_i s) (sn_R s)) (sn_R s) (sn_rho_i s) (sn_k_i s) (pk_n (sn_pub_j s)) (sn_sj s)
      (sn_tj s) (a # b # c # d # tp) = Inr (ls, tp)"
    and z: "ls_Z1 ls \<le> (cn ec - 1) * sn_k_i s + a mod cn ec ^ 3"
    using logstar_new_proof_returns [OF g R _ N(1) k(1) N(3), of "pk_n (sn_pub_j s)"] N(2) by fastforce
  have dec: "logstar_from_bytes L ec (logstar_to_bytes_parts ls) = Inr ls"
    using N k by (intro logstar_wire.round_trip [OF logstar_new_wf [OF ls g R]]) simp_all
  show ?thesis using g R H st ls z k dec ec_group_n [OF g] rho
    by (simp add: signing_sign_def Let_def rbind_app random_scalar_Cons ec_eqs rret_def
        logstar_in_range_def)
qed

lemma new_mta_returns:
  assumes g: "ec_group ec" and N: "1 < pk_n pkj" "1 < pk_n pki" "0 < NCap" and nz: "s \<noteq> 0" "t \<noteq> 0"
    and gam: "0 < gamma_i" "gamma_i < cn ec" and k: "0 \<le> k" "coprime rho (pk_n pkj)"
  shows "\<exists>out. new_mta L ssid ec (enc (pk_n pkj) k rho) gamma_i X pkj pki NCap s t
      (b # 0 # 0 # a # 0 # 0 # 0 # f # m # dl # mu # tp) = Inr (out, tp)
    \<and> ag_Z1 (mo_Proofji out) \<le> (cn ec - 1) * gamma_i + a mod cn ec ^ 3
    \<and> a mod cn ec ^ 3 \<le> ag_Z1 (mo_Proofji out)
    \<and> f mod (cn ec ^ 3 * NCap) \<le> ag_Z3 (mo_Proofji out)
    \<and> dl mod (cn ec ^ 3 * NCap) \<le> ag_Z4 (mo_Proofji out)"
proof -
  let ?nj = "pk_n pkj" and ?ni = "pk_n pki"
  define be where "be = b mod (?nj - 1) + 1"
  define K where "K = enc ?nj k rho"
  have be: "0 < be" "be < ?nj"
  proof -
    have "b mod (?nj - 1) < ?nj - 1" "0 \<le> b mod (?nj - 1)" using N(1) by simp_all
    then show "0 < be" "be < ?nj" unfolding be_def by linarith+
  qed
  have gm: "0 \<le> gamma_i mod ?nj" "gamma_i mod ?nj < ?nj" using N(1) by simp_all
  let ?gK = "enc ?nj (k * (gamma_i mod ?nj)) (rho ^ nat (gamma_i mod ?nj))"
  have gK: "homo_mult L pkj (gamma_i mod ?nj) K = Inr ?gK"
    using homo_mult_enc [OF gm k(1)] by (simp add: K_def)
  define D where "D = enc ?nj (k * (gamma_i mod ?nj) + be) (rho ^ nat (gamma_i mod ?nj) * 1)"
  have D: "homo_add pkj ?gK (enc ?nj be 1) = Inr D"
    unfolding D_def using N(1) k(1) gm be by (intro homo_add_enc) simp_all
  define Y where "Y = enc ?ni (be mod ?ni) 1"
  have unz: "K \<noteq> 0" "D \<noteq> 0" "Y \<noteq> 0"
    using enc_unit [OF N(1) k(2), of k] enc_unit [OF N(2), of 1 "be mod ?ni"] k(2)
      enc_unit [OF N(1), of "rho ^ nat (gamma_i mod ?nj) * 1" "k * (gamma_i mod ?nj) + be"]
    by (auto simp: K_def D_def Y_def)
  have e1: "encrypt_and_return_randomness L pkj be (0 # u) = Inr ((enc ?nj be 1, 1), u)" for u
    using encrypt_Cons [of pkj be 0 u] N be by simp
  have e2: "encrypt_and_return_randomness L pki (be mod ?ni) (0 # u) = Inr ((Y, 1), u)" for u
    using encrypt_Cons [of pki "be mod ?ni" 0 u] N by (simp add: Y_def)
  obtain pf where pf: "affg_new_proof L ssid ec pkj pki NCap s t K D Y X (gamma_i mod cn ec) be 1 1
      (a # 0 # 0 # 0 # f # m # dl # mu # tp) = Inr (pf, tp)"
    and z: "ag_Z1 pf \<le> (cn ec - 1) * gamma_i + a mod cn ec ^ 3" "a mod cn ec ^ 3 \<le> ag_Z1 pf"
      "f mod (cn ec ^ 3 * NCap) \<le> ag_Z3 pf" "dl mod (cn ec ^ 3 * NCap) \<le> ag_Z4 pf"
    using affg_new_proof_returns [OF g N nz unz, of 1 1 gamma_i be 0 0 0 ssid X a f m dl mu tp] gam be by auto
  have "random_positive_int ?nj (b # u) = Inr (be, u)" for u
    using N(1) by (simp add: positive_Cons be_def)
  then show ?thesis unfolding K_def [symmetric]
    using gK D e1 e2 pf z by (simp add: new_mta_def Let_def rbind_app rret_def)
qed

lemma presigning_round2_returns:
  assumes g: "ec_group ec" and N: "1 < pk_n (ps_pub_j s)" "1 < pk_n (ps_pub_i s)"
    and st: "ps_sj s \<noteq> 0" "ps_tj s \<noteq> 0"
    and gam: "0 < ps_gamma_i s" "ps_gamma_i s < cn ec" and xi: "0 < ps_xi s" "ps_xi s < cn ec"
    and k: "0 \<le> k" "coprime rho (pk_n (ps_pub_j s))" "p1_K_ct m1 = enc (pk_n (ps_pub_j s)) k rho"
    and pf: "p1_proofenc m1 = enc_to_bytes_parts pf" "enc_wf pf"
    and ok: "enc_verify L pf (ps_ssid s) ec (ps_pub_j s) (pk_n (ps_pub_i s)) (ps_si s) (ps_ti s)
      (p1_K_ct m1) = Inr True"
    and t: "t = replicate 26 0 @ tp"
  shows "\<exists>m2 s'. presigning_round2 L ec s m1 t = Inr ((m2, s'), tp)"
proof -
  have dec: "enc_from_bytes (p1_proofenc m1) = Inr pf" using pf enc_wire.round_trip by simp
  have G: "valid_point ec (generator ec)" using g by (rule generator_valid)
  have t': "t = 0 # 0 # 0 # 0 # 0 # 0 # 0 # 0 # 0 # 0 # 0 #
      0 # 0 # 0 # 0 # 0 # 0 # 0 # 0 # 0 # 0 # 0 # 0 # 0 # 0 # 0 # tp"
    by (simp add: t eval_nat_numeral)
  have N0: "0 < pk_n (ps_pub_j s)" using N by simp
  note mta = new_mta_returns [OF g N N0 st _ _ k(1,2)]
  obtain o1 where o1: "new_mta L (ps_ssid s) ec (p1_K_ct m1) (ps_gamma_i s) (ps_Gamma_i s) (ps_pub_j s)
      (ps_pub_i s) (pk_n (ps_pub_j s)) (ps_sj s) (ps_tj s) t
    = Inr (o1, 0 # 0 # 0 # 0 # 0 # 0 # 0 # 0 # 0 # 0 # 0 # 0 # 0 # 0 # 0 # tp)"
    unfolding k(3) t' using mta [OF gam] by blast
  obtain o2 where o2: "new_mta L (ps_ssid s) ec (p1_K_ct m1) (ps_xi s) (ps_Xi s) (ps_pub_j s)
      (ps_pub_i s) (pk_n (ps_pub_j s)) (ps_sj s) (ps_tj s)
      (0 # 0 # 0 # 0 # 0 # 0 # 0 # 0 # 0 # 0 # 0 # 0 # 0 # 0 # 0 # tp) = Inr (o2, 0 # 0 # 0 # 0 # tp)"
    unfolding k(3) using mta [OF xi] by blast
  obtain ls where "logstar_new_proof L (ps_ssid s) ec (ps_pub_i s) (ps_G_i_ct s) (ps_Gamma_i s)
      (generator ec) (ps_nu_i s) (ps_gamma_i s) (pk_n (ps_pub_j s)) (ps_sj s) (ps_tj s)
      (0 # 0 # 0 # 0 # tp) = Inr (ls, tp)"
    using logstar_new_proof_returns [OF g G N0 N(2), of "ps_gamma_i s" 0] gam by fastforce
  with o1 o2 dec ok show ?thesis by (simp add: presigning_round2_def Let_def rbind_app rret_def)
qed

end

end
