(* ===== verification/Samples.thy ===== *)
theory Samples
  imports Service Provers
begin

text \<open>Small instances of the curve, the keys and a presigning state, on which properties are tried out.\<close>

lemma sample_points:
  "generator toy_curve = Point 7 5" "valid_point toy_curve (Point 8 5)" "valid_point toy_curve (Point 7 5)"
  "ec_mult toy_curve 2 (Point 7 5) = Point 8 5" "ec_mult toy_curve 4 (Point 8 5) = Point 7 5"
  "cn toy_curve = 7"
  by code_simp+

lemma sample_units: "coprime (2::int) 35" "coprime (4::int) 35"
  by code_simp+

definition sample_key :: private_key where
  "sample_key = private_key_of 35 12 24"

lemma sample_key: "key_of_primes 5 7 sample_key" "pk_n sample_key = 35"
  by code_simp+

definition sample_presigning :: presigning where
  "sample_presigning =
     \<lparr> ps_id = 0, ps_ssid = 5, ps_xi = 3, ps_Xi = Point 7 5, ps_Xj = Point 7 5, ps_pub_i = \<lparr>pk_n = 35\<rparr>,
       ps_priv_i = sample_key, ps_si = 2, ps_ti = 4, ps_pub_j = \<lparr>pk_n = 35\<rparr>, ps_sj = 2, ps_tj = 4,
       ps_k_i = 2, ps_gamma_i = 2, ps_K_i_ct = enc 35 2 2, ps_rho_i = 2, ps_G_i_ct = enc 35 2 2,
       ps_nu_i = 2, ps_Gamma_i = Point 7 5, ps_K_j_ct = None, ps_beta_ij = None, ps_beta'_ij = None,
       ps_Gamma = None, ps_vdelta_i = None, ps_delta_i = None, ps_chi_i = None \<rparr>"

text \<open>The last phase of two parties that share one presignature; and a client that waits for the message of the other.\<close>

definition sample_signing :: "int \<Rightarrow> int \<Rightarrow> int option \<Rightarrow> signing" where
  "sample_signing k chi sg =
     \<lparr> sn_id = 0, sn_X = Point 8 5, sn_R = Point 8 5, sn_H = Point 7 5, sn_ssid = 5, sn_r = 1,
       sn_k_i = k, sn_chi_i = chi, sn_R_k_i = ec_mult toy_curve k (Point 8 5),
       sn_R_chi_i = ec_mult toy_curve chi (Point 8 5), sn_K_i_ct = enc 35 k 2,
       sn_K_j_ct = enc 35 (4 - k) 2, sn_rho_i = 2, sn_pub_i = \<lparr>pk_n = 35\<rparr>, sn_pub_j = \<lparr>pk_n = 35\<rparr>,
       sn_si = 2, sn_ti = 4, sn_sj = 2, sn_tj = 4, sn_sigma_i = sg \<rparr>"

lemma sample_hash: "message_hash lib_ref [] = 13"
  by (simp add: message_hash_def lib_ref_def from_to_bytes_big) (simp add: from_bytes_big_def)

lemma sample_linked: "signing_linked toy_curve (sample_signing 1 3 (Some 2)) (sample_signing 3 5 None)"
  by (simp add: signing_linked_def sample_signing_def sample_points sample_units)

lemma sample_message:
  obtains m p' where "signing_sign lib_ref toy_curve (sample_signing 3 5 None) [] [0, 0, 0, 0, 0, 0, 0] = Inr ((m, p'), [])"
    and "logstar_in_range lib_ref toy_curve m"
  using lib_ok.signing_sign_returns [OF lib_ref_ok toy_ec_group, of "sample_signing 3 5 None" 0 0 "[]" 0 0 0 0 0 "[]"]
  by (auto simp: sample_signing_def sample_points)

lemma sample_verifies:
  assumes "signing_sign lib_ref toy_curve (sample_signing 3 5 None) [] [0, 0, 0, 0, 0, 0, 0] = Inr ((m, p'), [])"
    and "logstar_in_range lib_ref toy_curve m"
  shows "signing_verify lib_ref toy_curve (sample_signing 1 3 (Some 2)) [] m = Inr True"
  using lib_ok.signing_verify_honest [OF lib_ref_ok toy_ec_group sample_linked assms(1), of 2] assms(2)
  by (simp add: sample_signing_def sample_points sample_hash signing_share_def)

definition sample_client :: client where
  "sample_client =
     \<lparr> cl_party = (party_init 1)\<lparr> pt_signing_protocol := Some (sample_signing 1 3 (Some 2)),
         pt_keygen_data := Some \<lparr> ko_ssid = 5, ko_xi = 1, ko_Xi = Point 7 5, ko_Xj = Point 7 5, ko_X = Point 8 5 \<rparr>,
         pt_aux_data := Some \<lparr> ao_paillier_priv_i = sample_key, ao_paillier_pub_i = \<lparr>pk_n = 35\<rparr>, ao_si = 2, ao_ti = 4,
           ao_paillier_pub_j = \<lparr>pk_n = 35\<rparr>, ao_sj = 2, ao_tj = 4 \<rparr>,
         pt_presig_data := Some \<lparr> po_R = Point 8 5, po_k_i = 1, po_chi_i = 3, po_ssid = 5, po_R_k_i = None, po_R_chi_i = None,
           po_K_i_ct = enc 35 1 2, po_K_j_ct = enc 35 3 2, po_rho_i = 2, po_paillier_pub_i = \<lparr>pk_n = 35\<rparr>,
           po_paillier_pub_j = \<lparr>pk_n = 35\<rparr>, po_si = 2, po_ti = 4, po_sj = 2, po_tj = 4 \<rparr> \<rparr>,
       cl_phase = 4, cl_action = ''verify'', cl_cache = Some [], cl_done = False \<rparr>"

lemma sample_client_inv: "client_inv sample_client"
  by (simp add: client_inv_def party_inv_def flow_state_def has_r1_def sample_client_def party_init_def sample_signing_def)

lemma sample_message_fits:
  assumes "signing_sign lib_ref toy_curve (sample_signing 3 5 None) [] [0, 0, 0, 0, 0, 0, 0] = Inr ((m, p'), [])"
  shows "decode_msg lib_ref toy_curve signing_hints signing_make (to_dict signing_hints (signing_fields m)) = Inr m"
proof -
  have "list_all2 (\<lambda>h v. fits lib_ref toy_curve (fst (snd h)) v) signing_hints (signing_fields m)"
    by (rule lib_ok.signing_sign_fits [OF lib_ref_ok toy_ec_group _ _ _ _ assms])
      (use sample_points ec_mult_valid [OF toy_ec_group] in \<open>simp_all add: sample_signing_def\<close>)
  then show ?thesis unfolding decode_msg_def by (rule signing_msg.codec_round_trip)
qed

end
