(* ===== verification/Soundness.thy ===== *)
theory Soundness
  imports Provers
begin

unbundle bit_operations_syntax

text \<open>
  Special soundness of the verifiers: two runs that accept the same commitment under two hash
  functions, as in the rewinding argument of the random oracle model, determine the witness.
  \<open>lib_digest v\<close> is the concrete provider whose transcript hash is the constant \<open>v\<close>; with it the
  verifiers evaluate on concrete inputs.
\<close>

definition lib_digest :: "int \<Rightarrow> lib" where
  "lib_digest v = lib_ref\<lparr> digest512_256 := (\<lambda>b. to_bytes_big 32 v) \<rparr>"

lemma lib_digest_ok: "lib_ok (lib_digest v)"
  using lib_ref_ok unfolding lib_ok_def lib_digest_def by simp

lemma lib_digest_hash: "xs \<noteq> [] \<Longrightarrow> sha512_256i (lib_digest v) xs = Inr (v mod 256 ^ 32)"
  by (cases xs) (simp_all add: sha512_256i_Cons lib_digest_def from_to_bytes_big)

lemma lib_digest_challenge:
  "xs \<noteq> [] \<Longrightarrow> 0 < q \<Longrightarrow> challenge (lib_digest v) q xs = Inr (v mod 256 ^ 32 mod q)"
  by (simp add: challenge_def lib_digest_hash rejection_sample_def)

section \<open>Schnorr proofs\<close>

lemma sch_fork:
  assumes L: "lib_ok L" "lib_ok L'" and g: "ec_group C" and X: "valid_point C X"
    and A: "valid_point C (sch_A pf)" "sch_A pf' = sch_A pf"
    and acc: "sch_verify L pf ssid C X = Inr True" "sch_verify L' pf' ssid C X = Inr True"
    and e: "challenge L (cn C) (sch_transcript ssid C X (sch_A pf)) = Inr e"
      "challenge L' (cn C) (sch_transcript ssid C X (sch_A pf)) = Inr e'" and ne: "e \<noteq> e'"
  shows "X = ec_mult C ((sch_Z pf - sch_Z pf') * minv (e - e') (cn C)) (generator C)"
proof (rule sch_extract [OF g X A(1)])
  show "sch_accepts C X (sch_A pf) e (sch_Z pf)"
    using acc(1) lib_ok.sch_verify_meaning [OF L(1) g X A(1) e(1)] by simp
  have "valid_point C (sch_A pf')" "challenge L' (cn C) (sch_transcript ssid C X (sch_A pf')) = Inr e'"
    using A e by simp_all
  from lib_ok.sch_verify_meaning [OF L(2) g X this] acc(2) A(2)
  show "sch_accepts C X (sch_A pf) e' (sch_Z pf')" by simp
  show "e mod cn C \<noteq> e' mod cn C" using ne challenge_range [OF e(1)] challenge_range [OF e(2)] by simp
qed

section \<open>Ring-Pedersen parameters\<close>

lemma prm_fork:
  assumes L: "lib_ok L" "lib_ok L'" and t: "coprime t N" and N: "1 < N"
    and len: "length (prm_A pf) = prm_Iterations" "length (prm_Z pf) = prm_Iterations"
      "length (prm_Z pf') = prm_Iterations" and A: "prm_A pf' = prm_A pf"
    and acc: "prm_verify L pf ssid s t N = Inr True" "prm_verify L' pf' ssid s t N = Inr True"
    and e: "sha512_256i L ([ssid, s, t, N] @ prm_A pf) = Inr e"
      "sha512_256i L' ([ssid, s, t, N] @ prm_A pf) = Inr e'"
    and i: "i < prm_Iterations" "bit_of e i = 0" "bit_of e' i = 1"
  shows "s mod N = ipow N t (prm_Z pf' ! i - prm_Z pf ! i)"
proof (rule prm_extract [OF t N])
  note m = lib_ok.prm_verify_meaning [OF L(1) len(1,2) e(1)]
  have "length (prm_A pf') = prm_Iterations" "sha512_256i L' ([ssid, s, t, N] @ prm_A pf') = Inr e'"
    using len A e by simp_all
  note m' = lib_ok.prm_verify_meaning [OF L(2) this(1) len(3) this(2)]
  show "prm_round_ok s t N 0 (prm_A pf ! i) (prm_Z pf ! i)" "0 \<le> prm_Z pf ! i"
    using acc(1) i len unfolding m by (auto simp: all_set_conv_all_nth)
  show "prm_round_ok s t N 1 (prm_A pf ! i) (prm_Z pf' ! i)" "0 \<le> prm_Z pf' ! i"
    using acc(2) i len unfolding m' A by (auto simp: all_set_conv_all_nth)
qed

section \<open>Blum moduli\<close>

text \<open>With a constant hash every challenge of the modulus proof is the same residue.\<close>

lemma mod_challenges_digest:
  "0 < N \<Longrightarrow> mod_challenges (lib_digest v) ssid W N k Y = Inr (Y @ replicate k (v mod 256 ^ 32 mod N))"
  by (induction k arbitrary: Y) (simp_all add: lib_digest_challenge replicate_append_same)

lemma mod_prove_rounds_returns:
  assumes "lib_ok L" and "mod_try L N P Q W y [0, 1, 2, 3] = Inr (Some (a, b, yi))"
    and "0 < N" "0 \<le> expo" "0 \<le> invN"
  shows "\<exists>r. mod_prove_rounds L N P Q W expo invN (replicate k y) A B = Inr r"
proof (induction k arbitrary: A B)
  case (Suc k)
  then obtain r where "mod_prove_rounds L N P Q W expo invN (replicate k y) (push_bit 8 A OR a)
    (push_bit 8 B OR b) = Inr r" by blast
  then show ?case using assms by (cases r) (simp add: lib_ok.powmod_nonneg)
qed simp

end
