(* ===== verification/TeamFlags.thy ===== *)
theory TeamFlags
  imports Decimal "HOL-Library.AList"
begin

text \<open>
  \<^verbatim>\<open>whisper/deploy/judge/team_flags.py\<close>: the flags of the teams, kept in a JSON file that is read and
  written whole. The file is the object \<^verbatim>\<open>json.load\<close> makes of it, its keys the decimal team numbers;
  \<open>None\<close> is a missing file. \<^verbatim>\<open>str(v)\<close> of a value that is not a string is not modelled: the flags that
  the program writes are strings.
\<close>

type_synonym flag_file = "(string \<times> string) list option"

section \<open>The code\<close>

text \<open>A dictionary comprehension: a later entry replaces the value of an earlier one with its key.\<close>

fun parse_flags :: "(int \<times> string) list \<Rightarrow> (string \<times> string) list \<Rightarrow> (int \<times> string) list res" where
  "parse_flags d [] = Inr d"
| "parse_flags d ((k, v) # kvs) = ebind (py_int (JStr k)) (\<lambda>t. parse_flags (AList.update t v d) kvs)"

definition load_flags :: "flag_file \<Rightarrow> (int \<times> string) list res" where
  "load_flags f = (case f of None \<Rightarrow> Inr [] | Some kvs \<Rightarrow> parse_flags [] kvs)"

definition save_flags :: "(int \<times> string) list \<Rightarrow> flag_file" where
  "save_flags flags = Some (map (\<lambda>(t, v). (show_int t, v)) flags)"

definition set_team_flag :: "flag_file \<Rightarrow> int \<Rightarrow> string \<Rightarrow> flag_file res" where
  "set_team_flag f team_id flag =
     ebind (load_flags f) (\<lambda>flags. Inr (save_flags (AList.update team_id flag flags)))"

definition get_team_flag :: "flag_file \<Rightarrow> int \<Rightarrow> string option res" where
  "get_team_flag f team_id = ebind (load_flags f) (\<lambda>flags. Inr (map_of flags team_id))"

definition all_team_flags :: "flag_file \<Rightarrow> (int \<times> string) list res" where
  "all_team_flags f = load_flags f"

section \<open>Properties\<close>

text \<open>Team numbers the interpreter can print.\<close>

definition printable :: "(int \<times> string) list \<Rightarrow> bool" where
  "printable flags \<longleftrightarrow> (\<forall>t \<in> set (map fst flags). \<bar>t\<bar> < 10 ^ MAX_STR_DIGITS)"

lemma update_new: "k \<notin> fst ` set d \<Longrightarrow> AList.update k v d = d @ [(k, v)]"
  by (induction d) auto

lemma parse_saved:
  assumes "printable flags" and "distinct (map fst (d @ flags))"
  shows "parse_flags d (map (\<lambda>(t, v). (show_int t, v)) flags) = Inr (d @ flags)"
  using assms
proof (induction flags arbitrary: d)
  case (Cons x flags)
  obtain t v where x: "x = (t, v)" by (cases x)
  have t: "py_int (JStr (show_int t)) = Inr t" using Cons.prems by (intro py_int_show) (simp add: printable_def x)
  have "AList.update t v d = d @ [(t, v)]" using Cons.prems by (intro update_new) (auto simp: x)
  then show ?case using Cons.IH [of "d @ [(t, v)]"] Cons.prems t by (simp add: x printable_def)
qed simp

lemma load_save: "printable flags \<Longrightarrow> distinct (map fst flags) \<Longrightarrow> load_flags (save_flags flags) = Inr flags"
  using parse_saved [of flags "[]"] by (simp add: load_flags_def save_flags_def)

lemma parse_distinct: "parse_flags d kvs = Inr flags \<Longrightarrow> distinct (map fst d) \<Longrightarrow> distinct (map fst flags)"
  by (induction d kvs rule: parse_flags.induct) (auto simp: res_simps distinct_update)

lemma load_distinct: "load_flags f = Inr flags \<Longrightarrow> distinct (map fst flags)"
  by (auto simp: load_flags_def intro: parse_distinct split: option.splits)

text \<open>A flag that was set is the one a later read returns, and the other teams keep theirs.\<close>

lemma get_set_flag:
  assumes "set_team_flag f team flag = Inr f'" and "load_flags f = Inr flags" and "printable flags"
    and "\<bar>team\<bar> < 10 ^ MAX_STR_DIGITS"
  shows "get_team_flag f' t = (if t = team then Inr (Some flag) else get_team_flag f t)"
proof -
  let ?u = "AList.update team flag flags"
  have f': "f' = save_flags ?u" using assms by (simp add: set_team_flag_def)
  have "printable ?u" using assms(3,4)
    by (auto simp only: printable_def update_keys set_append list.set split: if_splits)
  moreover have "distinct (map fst ?u)" using load_distinct [OF assms(2)] by (rule distinct_update)
  ultimately have "load_flags f' = Inr ?u" unfolding f' by (rule load_save)
  then show ?thesis using assms(2) by (simp add: get_team_flag_def update_conv)
qed

end
