(* ===== verification/JudgePool.thy ===== *)
theory JudgePool
  imports TeamFlags
begin

text \<open>
  \<^verbatim>\<open>whisper/deploy/judge/pool.py\<close>: the pool of victim instances that the judge leases to teams, with
  its waiting queue, rate limit, cooldown and reaper. The module's globals are the record \<open>pool\<close>. An
  operation reads the clocks once (\<open>now\<close> is \<^verbatim>\<open>time.time()\<close>, \<open>mn\<close> is \<^verbatim>\<open>time.monotonic()\<close>), and holds the
  lock for as long as one definition here runs. The threads it starts are recorded as jobs: their HTTP
  requests change nothing in the pool. An operation that raises keeps the changes made before, so
  every operation returns its outcome and the pool.

  \<^verbatim>\<open>_teams\<close> is a total function: \<^verbatim>\<open>_team_state\<close> creates the default record of an absent team, and nothing
  iterates over the dictionary.
\<close>

section \<open>State\<close>

type_synonym time = rat

datatype lifecycle = Booting | Idle | OnLease

record inst =
  in_id :: string
  in_runner :: string
  in_victim :: string
  in_team :: "int option"
  in_expires :: "time option"
  in_handle :: "string option"
  in_phone :: "string option"
  in_lifecycle :: lifecycle
  in_booting_since :: "time option"
  in_flag :: "string option"

record team =
  tm_instance :: "string option"
  tm_expires :: "time option"
  tm_release :: "time option"
  tm_acquisitions :: "time list"
  tm_handle :: "string option"
  tm_backend :: "string option"
  tm_flag :: "string option"
  tm_password :: "string option"

text \<open>A thread that was started: the reset of a live instance or the recycling of a copied one.\<close>

datatype job = ResetJob string | RecycleJob inst

record pool =
  pl_instances :: "(string \<times> inst) list"
  pl_teams :: "int \<Rightarrow> team"
  pl_queue :: "int list"
  pl_initialized :: bool
  pl_flags :: flag_file
  pl_jobs :: "job list"
  pl_entropy :: "nat \<Rightarrow> int"
  pl_drawn :: nat

record entry =
  en_id :: string
  en_runner :: string
  en_victim :: "string option"

record config =
  cf_lease :: int
  cf_rate_max :: int
  cf_cooldown :: int
  cf_boot_deadline :: int
  cf_boot_typical :: int
  cf_pool :: "entry list"

datatype pool_error = Raised pyerr | RateLimitError string int string

type_synonym 'a op = "(pool_error + 'a) \<times> pool"

definition team_init :: team where
  "team_init =
     \<lparr> tm_instance = None, tm_expires = None, tm_release = None, tm_acquisitions = [], tm_handle = None,
       tm_backend = None, tm_flag = None, tm_password = None \<rparr>"

definition pool_empty :: "flag_file \<Rightarrow> (nat \<Rightarrow> int) \<Rightarrow> pool" where
  "pool_empty flags entropy =
     \<lparr> pl_instances = [], pl_teams = (\<lambda>t. team_init), pl_queue = [], pl_initialized = False,
       pl_flags = flags, pl_jobs = [], pl_entropy = entropy, pl_drawn = 0 \<rparr>"

definition upd_team :: "int \<Rightarrow> (team \<Rightarrow> team) \<Rightarrow> pool \<Rightarrow> pool" where
  "upd_team t f p = p\<lparr> pl_teams := (pl_teams p)(t := f (pl_teams p t)) \<rparr>"

definition upd_inst :: "string \<Rightarrow> (inst \<Rightarrow> inst) \<Rightarrow> pool \<Rightarrow> pool" where
  "upd_inst i f p = p\<lparr> pl_instances := AList.map_entry i f (pl_instances p) \<rparr>"

definition find_inst :: "pool \<Rightarrow> string \<Rightarrow> inst option" where
  "find_inst p i = map_of (pl_instances p) i"

text \<open>\<^verbatim>\<open>int(x)\<close> of a float.\<close>

definition trunc :: "rat \<Rightarrow> int" where
  "trunc x = (if 0 \<le> x then \<lfloor>x\<rfloor> else \<lceil>x\<rceil>)"

section \<open>Initialisation\<close>

definition new_inst :: "time \<Rightarrow> entry \<Rightarrow> inst" where
  "new_inst mn e =
     \<lparr> in_id = en_id e, in_runner = en_runner e,
       in_victim = (case en_victim e of Some v \<Rightarrow> v | None \<Rightarrow> ''victim-'' @ en_id e),
       in_team = None, in_expires = None, in_handle = None, in_phone = None, in_lifecycle = Booting,
       in_booting_since = Some mn, in_flag = None \<rparr>"

definition init_pool :: "config \<Rightarrow> time \<Rightarrow> pool \<Rightarrow> pool" where
  "init_pool cf mn p =
     (if pl_initialized p then p
      else p\<lparr> pl_instances := foldl (\<lambda>is e. AList.update (en_id e) (new_inst mn e) is) (pl_instances p) (cf_pool cf),
              pl_initialized := True \<rparr>)"

section \<open>Queries\<close>

definition current_lease :: "pool \<Rightarrow> int \<Rightarrow> inst option" where
  "current_lease p t =
     (case tm_instance (pl_teams p t) of
        None \<Rightarrow> None
      | Some iid \<Rightarrow>
          if iid = [] then None
          else (case find_inst p iid of
                  None \<Rightarrow> None
                | Some i \<Rightarrow> if in_team i = Some t then Some i else None))"

definition is_free :: "inst \<Rightarrow> bool" where
  "is_free i \<longleftrightarrow> in_lifecycle i = Idle \<and> in_team i = None"

definition free_instances :: "pool \<Rightarrow> inst list" where
  "free_instances p = filter is_free (map snd (pl_instances p))"

definition in_cooldown :: "config \<Rightarrow> time \<Rightarrow> pool \<Rightarrow> int \<Rightarrow> bool \<times> int" where
  "in_cooldown cf now p t =
     (case tm_release (pl_teams p t) of
        None \<Rightarrow> (False, 0)
      | Some release_at \<Rightarrow>
          let elapsed = now - release_at in
          if elapsed < of_int (cf_cooldown cf)
          then (True, trunc (of_int (cf_cooldown cf) - elapsed) + 1)
          else (False, 0))"

text \<open>With a maximum of zero the oldest of no acquisitions is asked for, which is an \<^verbatim>\<open>IndexError\<close>.\<close>

definition rate_limited :: "config \<Rightarrow> time \<Rightarrow> int \<Rightarrow> pool \<Rightarrow> (bool \<times> int) op" where
  "rate_limited cf now t p =
     (let p = upd_team t (\<lambda>ts. ts\<lparr> tm_acquisitions := filter (\<lambda>x. now - 3600 < x) (tm_acquisitions ts) \<rparr>) p;
          acq = tm_acquisitions (pl_teams p t) in
      if cf_rate_max cf \<le> int (length acq)
      then (case acq of
              [] \<Rightarrow> (Inl (Raised IndexError), p)
            | oldest # _ \<Rightarrow> (Inr (True, trunc (oldest + 3600 - now) + 1), p))
      else (Inr (False, 0), p))"

fun position_from :: "int \<Rightarrow> int \<Rightarrow> int list \<Rightarrow> int" where
  "position_from k t [] = 0"
| "position_from k t (x # xs) = (if x = t then k + 1 else position_from (k + 1) t xs)"

definition queue_position :: "pool \<Rightarrow> int \<Rightarrow> int" where
  "queue_position p t = position_from 0 t (pl_queue p)"

section \<open>Assigning and releasing\<close>

definition draw :: "int \<Rightarrow> pool \<Rightarrow> int \<times> pool" where
  "draw n p = (pl_entropy p (pl_drawn p) mod n, p\<lparr> pl_drawn := Suc (pl_drawn p) \<rparr>)"

definition zfill :: "nat \<Rightarrow> string \<Rightarrow> string" where
  "zfill w s = replicate (w - length s) CHR ''0'' @ s"

definition make_victim_identity :: "pool \<Rightarrow> (string \<times> string) \<times> pool" where
  "make_victim_identity p =
     (let (x, p) = draw (256 ^ 12) p; (y, p) = draw (10 ^ 9) p in
      ((''v'' @ bytes_hex (to_bytes_big 12 x), ''+1555'' @ zfill 9 (decimal y)), p))"

definition do_assign :: "config \<Rightarrow> time \<Rightarrow> int \<Rightarrow> string \<Rightarrow> pool \<Rightarrow> unit op" where
  "do_assign cf now t iid p =
     (case get_team_flag (pl_flags p) t of
        Inl e \<Rightarrow> (Inl (Raised e), p)
      | Inr None \<Rightarrow> (Inl (Raised RuntimeError), p)
      | Inr (Some flag) \<Rightarrow>
          let ((handle, phone), p) = make_victim_identity p;
              expires = now + of_int (cf_lease cf);
              p = upd_inst iid (\<lambda>i. i\<lparr> in_team := Some t, in_lifecycle := OnLease, in_expires := Some expires,
                    in_handle := Some handle, in_phone := Some phone, in_flag := Some flag \<rparr>) p;
              p = upd_team t (\<lambda>ts. ts\<lparr> tm_flag := Some flag, tm_password := None, tm_instance := Some iid,
                    tm_expires := Some expires, tm_handle := Some handle,
                    tm_acquisitions := tm_acquisitions ts @ [now] \<rparr>) p
          in (Inr (), p\<lparr> pl_jobs := pl_jobs p @ [ResetJob iid] \<rparr>))"

definition do_release :: "time \<Rightarrow> int \<Rightarrow> pool \<Rightarrow> string option \<times> pool" where
  "do_release now t p =
     (case tm_instance (pl_teams p t) of
        None \<Rightarrow> (None, p)
      | Some iid \<Rightarrow>
          (case find_inst p iid of
             None \<Rightarrow> (None, p)
           | Some _ \<Rightarrow>
               let p = upd_inst iid (\<lambda>i. i\<lparr> in_team := None, in_expires := None \<rparr>) p;
                   p = upd_team t (\<lambda>ts. ts\<lparr> tm_instance := None, tm_expires := None, tm_release := Some now,
                         tm_handle := None, tm_backend := None \<rparr>) p
               in (Some iid, p)))"

text \<open>What both callers of \<open>do_release\<close> do with the freed instance.\<close>

definition mark_booting :: "time \<Rightarrow> string \<Rightarrow> pool \<Rightarrow> pool" where
  "mark_booting mn iid p =
     upd_inst iid (\<lambda>i. i\<lparr> in_lifecycle := Booting, in_booting_since := Some mn, in_handle := None,
                           in_phone := None \<rparr>) p"

text \<open>The queue is popped before the candidate is examined.\<close>

fun promote_from :: "config \<Rightarrow> time \<Rightarrow> string \<Rightarrow> int list \<Rightarrow> pool \<Rightarrow> unit op" where
  "promote_from cf now iid [] p = (Inr (), p\<lparr> pl_queue := [] \<rparr>)"
| "promote_from cf now iid (c # q) p =
     (let p = p\<lparr> pl_queue := q \<rparr> in
      if tm_instance (pl_teams p c) \<noteq> None then promote_from cf now iid q p
      else if fst (in_cooldown cf now p c) then promote_from cf now iid q p
      else do_assign cf now c iid p)"

definition promote_next :: "config \<Rightarrow> time \<Rightarrow> pool \<Rightarrow> unit op" where
  "promote_next cf now p =
     (case free_instances p of
        [] \<Rightarrow> (Inr (), p)
      | i # _ \<Rightarrow>
          if pl_queue p = [] then (Inr (), p) else promote_from cf now (in_id i) (pl_queue p) p)"

lemma do_assign_queue: "pl_queue (snd (do_assign cf now t iid p)) = pl_queue p"
  by (simp add: do_assign_def make_victim_identity_def draw_def upd_inst_def upd_team_def Let_def
      split: sum.split option.split)

lemma promote_from_queue:
  "pl_queue (snd (promote_from cf now iid q p)) = drop (length q - length (pl_queue (snd (promote_from cf now iid q p)))) q
   \<and> (q \<noteq> [] \<longrightarrow> length (pl_queue (snd (promote_from cf now iid q p))) < length q)"
  by (induction cf now iid q p rule: promote_from.induct)
    (auto simp: Let_def do_assign_queue Suc_diff_le less_imp_le)

lemma promote_next_shorter:
  "free_instances p \<noteq> [] \<Longrightarrow> pl_queue p \<noteq> [] \<Longrightarrow> length (pl_queue (snd (promote_next cf now p))) < length (pl_queue p)"
  using promote_from_queue [of cf now _ "pl_queue p" p]
  by (cases "free_instances p") (simp_all add: promote_next_def)

text \<open>\<^verbatim>\<open>while _free_instances() and _queue: _promote_next()\<close>.\<close>

function promote_all :: "config \<Rightarrow> time \<Rightarrow> pool \<Rightarrow> unit op" where
  "promote_all cf now p =
     (if free_instances p = [] \<or> pl_queue p = [] then (Inr (), p)
      else (case promote_next cf now p of
              (Inl e, p') \<Rightarrow> (Inl e, p')
            | (Inr _, p') \<Rightarrow> promote_all cf now p'))"
  by pat_completeness auto
termination
  by (relation "measure (\<lambda>(cf, now, p). length (pl_queue p))") (simp, metis in_measure old.prod.case promote_next_shorter sndI)

declare promote_all.simps [simp del]

section \<open>The operations\<close>

datatype lease_reply =
    Leased string "string option" "string option" int int
  | Queued int

definition pool_lease :: "config \<Rightarrow> time \<Rightarrow> time \<Rightarrow> int \<Rightarrow> pool \<Rightarrow> lease_reply op" where
  "pool_lease cf now mn t p =
     (let p = init_pool cf mn p in
      case current_lease p t of
        Some i \<Rightarrow>
          (case in_expires i of
             None \<Rightarrow> (Inl (Raised TypeError), p)
           | Some x \<Rightarrow>
               (Inr (Leased (in_id i) (tm_handle (pl_teams p t)) (tm_backend (pl_teams p t)) (trunc x)
                      (max 0 (trunc (x - now)))), p))
      | None \<Rightarrow>
          let pos = queue_position p t in
          if 0 < pos then (Inr (Queued pos), p)
          else
            case rate_limited cf now t p of
              (Inl e, p) \<Rightarrow> (Inl e, p)
            | (Inr (limited, retry_after), p) \<Rightarrow>
            if limited then
              (Inl (RateLimitError (''Acquisition rate limit: max '' @ show_int (cf_rate_max cf) @ '' leases per hour.'')
                      retry_after ''rate_limited''), p)
            else
              let (cooling, left) = in_cooldown cf now p t in
              if cooling then
                (Inl (RateLimitError (''Cooldown active: wait '' @ show_int left @ ''s before re-leasing.'')
                        left ''cooldown''), p)
              else
                (case free_instances p of
                   i # _ \<Rightarrow>
                     (case do_assign cf now t (in_id i) p of
                        (Inl e, p) \<Rightarrow> (Inl e, p)
                      | (Inr _, p) \<Rightarrow>
                          (Inr (Leased (in_id i) (tm_handle (pl_teams p t)) (tm_backend (pl_teams p t))
                                 (trunc (now + of_int (cf_lease cf))) (cf_lease cf)), p))
                 | [] \<Rightarrow>
                     let p = p\<lparr> pl_queue := pl_queue p @ [t] \<rparr> in
                     (Inr (Queued (queue_position p t)), p)))"

definition pool_release :: "config \<Rightarrow> time \<Rightarrow> time \<Rightarrow> int \<Rightarrow> pool \<Rightarrow> bool \<times> pool" where
  "pool_release cf now mn t p =
     (let p = init_pool cf mn p in
      case current_lease p t of
        None \<Rightarrow> (False, p\<lparr> pl_queue := remove1 t (pl_queue p) \<rparr>)
      | Some _ \<Rightarrow>
          (case do_release now t p of
             (None, p) \<Rightarrow> (True, p)
           | (Some iid, p) \<Rightarrow>
               let p = mark_booting mn iid p in
               (True, (case find_inst p iid of
                         None \<Rightarrow> p
                       | Some i \<Rightarrow> p\<lparr> pl_jobs := pl_jobs p @ [RecycleJob i] \<rparr>))))"

record counts =
  ct_total :: int
  ct_idle :: int
  ct_leased :: int
  ct_booting :: int

definition count_state :: "lifecycle \<Rightarrow> pool \<Rightarrow> int" where
  "count_state l p = int (length (filter (\<lambda>i. in_lifecycle i = l) (map snd (pl_instances p))))"

definition pool_counts :: "pool \<Rightarrow> counts" where
  "pool_counts p =
     \<lparr> ct_total = int (length (pl_instances p)), ct_idle = count_state Idle p,
       ct_leased = count_state OnLease p, ct_booting = count_state Booting p \<rparr>"

fun min_opt :: "rat option \<Rightarrow> rat list \<Rightarrow> rat option" where
  "min_opt m [] = m"
| "min_opt None (x # xs) = min_opt (Some x) xs"
| "min_opt (Some m) (x # xs) = min_opt (Some (if x < m then x else m)) xs"

definition est_wait_seconds :: "config \<Rightarrow> time \<Rightarrow> time \<Rightarrow> int \<Rightarrow> pool \<Rightarrow> int" where
  "est_wait_seconds cf now mn pos p =
     (let is = map snd (pl_instances p);
          lefts = concat (map (\<lambda>i. case in_expires i of
             Some x \<Rightarrow> if in_lifecycle i = OnLease then [x - now] else [] | None \<Rightarrow> []) is);
          boots = concat (map (\<lambda>i. case in_booting_since i of
             Some b \<Rightarrow> if in_lifecycle i = Booting then [max 0 (of_int (cf_boot_typical cf) - (mn - b))] else []
             | None \<Rightarrow> []) is);
          candidates =
            (case min_opt None lefts of None \<Rightarrow> [] | Some m \<Rightarrow> [max 30 (trunc m)])
            @ (if boots = [] then [] else [max 30 (trunc (sum_list boots / of_nat (length boots)))]);
          candidates = (if candidates = [] then [cf_boot_typical cf] else candidates)
      in pos * Min (set candidates))"

datatype status =
    StLeased string "string option" "string option" int int counts
  | StQueued int int counts
  | StIdle bool bool "(int \<times> string) option" counts

definition pool_status :: "config \<Rightarrow> time \<Rightarrow> time \<Rightarrow> int \<Rightarrow> pool \<Rightarrow> status op" where
  "pool_status cf now mn t p =
     (let p = init_pool cf mn p; counts = pool_counts p in
      case current_lease p t of
        Some i \<Rightarrow>
          (case in_expires i of
             None \<Rightarrow> (Inl (Raised TypeError), p)
           | Some x \<Rightarrow>
               (Inr (StLeased (in_id i) (tm_handle (pl_teams p t)) (tm_backend (pl_teams p t)) (trunc x)
                      (max 0 (trunc (x - now))) counts), p))
      | None \<Rightarrow>
          let pos = queue_position p t in
          if 0 < pos then (Inr (StQueued pos (est_wait_seconds cf now mn pos p) counts), p)
          else
            case rate_limited cf now t p of
              (Inl e, p) \<Rightarrow> (Inl e, p)
            | (Inr (limited, retry), p) \<Rightarrow>
            let (cooling, left) = in_cooldown cf now p t in
            (Inr (StIdle limited cooling
                   (if limited then Some (retry, ''rate_limited'')
                    else if cooling then Some (left, ''cooldown'') else None) counts), p))"

record instance_info =
  ii_id :: string
  ii_lifecycle :: lifecycle
  ii_team_active :: bool
  ii_handle :: "string option"
  ii_seconds_left :: "int option"
  ii_booting_elapsed :: "int option"

definition instance_summary :: "time \<Rightarrow> time \<Rightarrow> inst \<Rightarrow> instance_info" where
  "instance_summary now mn i =
     \<lparr> ii_id = in_id i, ii_lifecycle = in_lifecycle i, ii_team_active = (in_team i \<noteq> None),
       ii_handle = in_handle i,
       ii_seconds_left = map_option (\<lambda>x. max 0 (trunc (x - now))) (in_expires i),
       ii_booting_elapsed =
         (if in_lifecycle i = Booting then map_option (\<lambda>b. trunc (mn - b)) (in_booting_since i) else None) \<rparr>"

definition pool_info :: "config \<Rightarrow> time \<Rightarrow> time \<Rightarrow> pool \<Rightarrow> (counts \<times> int \<times> instance_info list) \<times> pool" where
  "pool_info cf now mn p =
     (let p = init_pool cf mn p in
      ((pool_counts p, int (length (pl_queue p)), map (instance_summary now mn) (map snd (pl_instances p))), p))"

section \<open>The reaper\<close>

definition expired_teams :: "time \<Rightarrow> pool \<Rightarrow> int list" where
  "expired_teams now p =
     concat (map (\<lambda>i. case (in_team i, in_expires i) of
       (Some t, Some x) \<Rightarrow> if in_lifecycle i = OnLease \<and> x \<le> now then [t] else []
     | _ \<Rightarrow> []) (map snd (pl_instances p)))"

text \<open>The instances released, as copied for the recycling threads.\<close>

fun expire_all :: "time \<Rightarrow> time \<Rightarrow> int list \<Rightarrow> pool \<Rightarrow> inst list \<times> pool" where
  "expire_all now mn [] p = ([], p)"
| "expire_all now mn (t # ts) p =
     (case do_release now t p of
        (None, p) \<Rightarrow> expire_all now mn ts p
      | (Some iid, p) \<Rightarrow>
          let p = mark_booting mn iid p; (rs, p') = expire_all now mn ts p in
          (case find_inst p iid of None \<Rightarrow> (rs, p') | Some i \<Rightarrow> (i # rs, p')))"

text \<open>
  The part of \<^verbatim>\<open>_reaper_tick\<close> under the lock, and the start of the recycling threads after it; an
  exception while promoting skips the latter. The result is the list of booting instances to poll.
\<close>

definition reaper_locked :: "config \<Rightarrow> time \<Rightarrow> time \<Rightarrow> pool \<Rightarrow> inst list op" where
  "reaper_locked cf now mn p =
     (let (recycled, p) = expire_all now mn (expired_teams now p) p;
          booting = filter (\<lambda>i. in_lifecycle i = Booting) (map snd (pl_instances p)) in
      case promote_all cf now p of
        (Inl e, p) \<Rightarrow> (Inl e, p)
      | (Inr _, p) \<Rightarrow> (Inr booting, p\<lparr> pl_jobs := pl_jobs p @ map RecycleJob recycled \<rparr>))"

text \<open>What the reaper does when the health check of a polled instance reports that it has booted.\<close>

definition instance_booted :: "config \<Rightarrow> time \<Rightarrow> string \<Rightarrow> pool \<Rightarrow> unit op" where
  "instance_booted cf now iid p =
     (case find_inst p iid of
        None \<Rightarrow> (Inr (), p)
      | Some i \<Rightarrow>
          if in_lifecycle i = Booting then
            promote_next cf now (upd_inst iid (\<lambda>i. i\<lparr> in_lifecycle := Idle, in_booting_since := None \<rparr>) p)
          else (Inr (), p))"

text \<open>The whole tick; \<open>health\<close> is the answer of the runner's HTTP service.\<close>

fun poll_all :: "config \<Rightarrow> time \<Rightarrow> (inst \<Rightarrow> bool) \<Rightarrow> inst list \<Rightarrow> pool \<Rightarrow> unit op" where
  "poll_all cf now health [] p = (Inr (), p)"
| "poll_all cf now health (i # is) p =
     (if health i then
        (case instance_booted cf now (in_id i) p of
           (Inl e, p) \<Rightarrow> (Inl e, p)
         | (Inr _, p) \<Rightarrow> poll_all cf now health is p)
      else poll_all cf now health is p)"

definition reaper_tick :: "config \<Rightarrow> time \<Rightarrow> time \<Rightarrow> (inst \<Rightarrow> bool) \<Rightarrow> pool \<Rightarrow> unit op" where
  "reaper_tick cf now mn health p =
     (case reaper_locked cf now mn p of
        (Inl e, p) \<Rightarrow> (Inl e, p)
      | (Inr booting, p) \<Rightarrow> poll_all cf now health booting p)"

end
