(* ===== verification/PoolInv.thy ===== *)
theory PoolInv
  imports JudgePool
begin

text \<open>
  The invariants of the instance pool: which instance each team holds, who waits, how often a team may
  lease, and in what order the queue is served. Every operation of \<^verbatim>\<open>pool.py\<close> keeps them, so they
  hold after every sequence of operations.
\<close>

section \<open>Reading the updated pool\<close>

lemma keys_map_entry: "map fst (AList.map_entry k f xs) = map fst xs"
  by (induction xs) auto

lemma map_entry_conv: "map_of (AList.map_entry k f xs) j = (if j = k then map_option f (map_of xs j) else map_of xs j)"
  by (cases "map_of xs k") (auto simp: AList.map_of_map_entry)

lemma find_upd_inst [simp]:
  "find_inst (upd_inst i f p) k = (if k = i then map_option f (find_inst p k) else find_inst p k)"
  by (simp add: find_inst_def upd_inst_def map_entry_conv)

lemma find_upd_team [simp]: "find_inst (upd_team t f p) k = find_inst p k"
  by (simp add: find_inst_def upd_team_def)

lemma upd_inst_fields [simp]:
  "pl_teams (upd_inst i f p) = pl_teams p" "pl_queue (upd_inst i f p) = pl_queue p"
  "pl_flags (upd_inst i f p) = pl_flags p" "pl_jobs (upd_inst i f p) = pl_jobs p"
  "pl_initialized (upd_inst i f p) = pl_initialized p"
  "map fst (pl_instances (upd_inst i f p)) = map fst (pl_instances p)"
  by (simp_all add: upd_inst_def keys_map_entry)

lemma upd_team_fields [simp]:
  "pl_teams (upd_team t f p) = (pl_teams p)(t := f (pl_teams p t))" "pl_queue (upd_team t f p) = pl_queue p"
  "pl_flags (upd_team t f p) = pl_flags p" "pl_jobs (upd_team t f p) = pl_jobs p"
  "pl_initialized (upd_team t f p) = pl_initialized p"
  "pl_instances (upd_team t f p) = pl_instances p"
  by (simp_all add: upd_team_def)

lemma find_fields [simp]:
  "find_inst (p\<lparr> pl_queue := q \<rparr>) = find_inst p" "find_inst (p\<lparr> pl_jobs := js \<rparr>) = find_inst p"
  "find_inst (p\<lparr> pl_drawn := n \<rparr>) = find_inst p" "find_inst (p\<lparr> pl_flags := fl \<rparr>) = find_inst p"
  "find_inst (p\<lparr> pl_teams := ts \<rparr>) = find_inst p"
  by (simp_all add: find_inst_def fun_eq_iff)

lemma find_in_set: "distinct (map fst (pl_instances p)) \<Longrightarrow> (k, i) \<in> set (pl_instances p) \<longleftrightarrow> find_inst p k = Some i"
  by (auto simp: find_inst_def map_of_is_SomeI dest: map_of_SomeD)

section \<open>The invariant of leases and queue\<close>

text \<open>
  An instance is on lease exactly when a team holds it and its expiry is known; a team's record and the
  instance's record name each other; a team waits at most once, and not while it holds a lease.
\<close>

definition inst_ok :: "string \<Rightarrow> inst \<Rightarrow> bool" where
  "inst_ok k i \<longleftrightarrow> in_id i = k \<and> k \<noteq> [] \<and> (in_lifecycle i = OnLease \<longleftrightarrow> in_team i \<noteq> None)
     \<and> (in_expires i \<noteq> None \<longleftrightarrow> in_team i \<noteq> None)"

definition pool_wf :: "pool \<Rightarrow> bool" where
  "pool_wf p \<longleftrightarrow>
     distinct (map fst (pl_instances p))
     \<and> (\<forall>k i. find_inst p k = Some i \<longrightarrow> inst_ok k i)
     \<and> (\<forall>t k. tm_instance (pl_teams p t) = Some k \<longleftrightarrow> (\<exists>i. find_inst p k = Some i \<and> in_team i = Some t))
     \<and> distinct (pl_queue p)
     \<and> (\<forall>t \<in> set (pl_queue p). tm_instance (pl_teams p t) = None)
     \<and> (\<not> pl_initialized p \<longrightarrow> pl_instances p = [])"

lemma pool_wfD:
  assumes "pool_wf p"
  shows "distinct (map fst (pl_instances p))" "find_inst p k = Some i \<Longrightarrow> inst_ok k i"
    "tm_instance (pl_teams p t) = Some k \<longleftrightarrow> (\<exists>i. find_inst p k = Some i \<and> in_team i = Some t)"
    "distinct (pl_queue p)" "t \<in> set (pl_queue p) \<Longrightarrow> tm_instance (pl_teams p t) = None"
    "\<not> pl_initialized p \<Longrightarrow> pl_instances p = []"
  using assms by (auto simp: pool_wf_def)

lemma free_member:
  assumes "pool_wf p" and "i \<in> set (free_instances p)"
  shows "find_inst p (in_id i) = Some i \<and> in_team i = None \<and> in_lifecycle i = Idle"
proof -
  obtain k where k: "(k, i) \<in> set (pl_instances p)" using assms(2) by (auto simp: free_instances_def)
  then have "find_inst p k = Some i" using pool_wfD(1) [OF assms(1)] by (simp add: find_in_set)
  moreover from this have "in_id i = k" using pool_wfD(2) [OF assms(1)] by (simp add: inst_ok_def)
  ultimately show ?thesis using assms(2) by (auto simp: free_instances_def is_free_def)
qed

lemma current_lease_wf:
  assumes "pool_wf p"
  shows "current_lease p t = (case tm_instance (pl_teams p t) of None \<Rightarrow> None | Some k \<Rightarrow> find_inst p k)"
proof (cases "tm_instance (pl_teams p t)")
  case (Some k)
  then obtain i where "find_inst p k = Some i" "in_team i = Some t" using pool_wfD(3) [OF assms] by blast
  moreover from this(1) have "k \<noteq> []" using pool_wfD(2) [OF assms] by (auto simp: inst_ok_def)
  ultimately show ?thesis using Some by (simp add: current_lease_def)
qed (simp add: current_lease_def)

lemma current_lease_None:
  assumes "pool_wf p"
  shows "current_lease p t = None \<longleftrightarrow> tm_instance (pl_teams p t) = None"
proof (cases "tm_instance (pl_teams p t)")
  case (Some k)
  then have "find_inst p k \<noteq> None" using pool_wfD(3) [OF assms, of t k] by blast
  then show ?thesis by (simp add: current_lease_wf [OF assms] Some)
qed (simp add: current_lease_wf [OF assms])

lemma queue_position_0: "queue_position p t = 0 \<longleftrightarrow> t \<notin> set (pl_queue p)"
proof -
  have "0 \<le> k \<Longrightarrow> (position_from k t q = 0 \<longleftrightarrow> t \<notin> set q) \<and> 0 \<le> position_from k t q" for k q
    by (induction k t q rule: position_from.induct) auto
  then show ?thesis by (simp add: queue_position_def)
qed

section \<open>Each step keeps it\<close>

text \<open>What a successful assignment writes.\<close>

definition leased_inst :: "config \<Rightarrow> time \<Rightarrow> int \<Rightarrow> string \<Rightarrow> string \<Rightarrow> string \<Rightarrow> inst \<Rightarrow> inst" where
  "leased_inst cf now t h ph flag i =
     i\<lparr> in_team := Some t, in_lifecycle := OnLease, in_expires := Some (now + of_int (cf_lease cf)),
        in_handle := Some h, in_phone := Some ph, in_flag := Some flag \<rparr>"

definition leased_team :: "config \<Rightarrow> time \<Rightarrow> string \<Rightarrow> string \<Rightarrow> string \<Rightarrow> team \<Rightarrow> team" where
  "leased_team cf now iid h flag ts =
     ts\<lparr> tm_flag := Some flag, tm_password := None, tm_instance := Some iid,
         tm_expires := Some (now + of_int (cf_lease cf)), tm_handle := Some h,
         tm_acquisitions := tm_acquisitions ts @ [now] \<rparr>"

lemma do_assign_cases:
  obtains (err) e where "do_assign cf now t iid p = (Inl (Raised e), p)"
      "\<And>f. get_team_flag (pl_flags p) t \<noteq> Inr (Some f)"
  | (ok) flag h ph p' where "do_assign cf now t iid p = (Inr (), p')"
      "get_team_flag (pl_flags p) t = Inr (Some flag)"
      "map fst (pl_instances p') = map fst (pl_instances p)"
      "\<And>k. find_inst p' k = (if k = iid then map_option (leased_inst cf now t h ph flag) (find_inst p k) else find_inst p k)"
      "pl_teams p' = (pl_teams p)(t := leased_team cf now iid h flag (pl_teams p t))"
      "pl_queue p' = pl_queue p" "pl_initialized p' = pl_initialized p" "pl_flags p' = pl_flags p"
      "pl_instances p' = AList.map_entry iid (leased_inst cf now t h ph flag) (pl_instances p)"
proof (cases "get_team_flag (pl_flags p) t")
  case (Inl e)
  then show ?thesis using err [of e] by (simp add: do_assign_def)
next
  case (Inr fo)
  show ?thesis
  proof (cases fo)
    case None
    then show ?thesis using Inr err [of RuntimeError] by (simp add: do_assign_def)
  next
    case (Some flag)
    obtain h ph p0 where m: "make_victim_identity p = ((h, ph), p0)" by (metis surj_pair)
    have p0: "pl_instances p0 = pl_instances p" "pl_teams p0 = pl_teams p" "pl_queue p0 = pl_queue p"
      "pl_initialized p0 = pl_initialized p" "pl_flags p0 = pl_flags p"
      using m by (auto simp: make_victim_identity_def draw_def Let_def)
    from p0(1) have f: "find_inst p0 = find_inst p" by (simp add: find_inst_def fun_eq_iff)
    show ?thesis
      by (rule ok [of "snd (do_assign cf now t iid p)" flag h ph])
        (auto simp: do_assign_def Inr Some m p0 f Let_def leased_inst_def [abs_def] leased_team_def upd_inst_def upd_team_def
          find_inst_def keys_map_entry map_entry_conv)
  qed
qed

lemma wf_congr:
  assumes "pool_wf p" and "pl_instances p' = pl_instances p"
    and "\<And>t. tm_instance (pl_teams p' t) = tm_instance (pl_teams p t)"
    and "pl_initialized p' = pl_initialized p"
    and "distinct (pl_queue p')" and "\<And>t. t \<in> set (pl_queue p') \<Longrightarrow> tm_instance (pl_teams p t) = None"
  shows "pool_wf p'"
proof -
  have "find_inst p' = find_inst p" using assms(2) by (simp add: find_inst_def fun_eq_iff)
  then show ?thesis using assms unfolding pool_wf_def by (simp only: simp_thms) blast
qed

lemma wf_assign:
  assumes wf: "pool_wf p" and i: "find_inst p iid = Some i" "in_team i = None"
    and t: "tm_instance (pl_teams p t) = None" "t \<notin> set (pl_queue p)"
  shows "pool_wf (snd (do_assign cf now t iid p))"
proof (cases rule: do_assign_cases [of cf now t iid p])
  case (err e)
  then show ?thesis using wf by simp
next
  case (ok flag h ph p')
  have iok: "inst_ok iid i" using pool_wfD(2) [OF wf i(1)] .
  have "pool_wf p'" unfolding pool_wf_def
  proof (intro conjI allI impI ballI)
    fix k j assume "find_inst p' k = Some j"
    then show "inst_ok k j" using iok pool_wfD(2) [OF wf] i(1)
      by (auto simp: ok inst_ok_def leased_inst_def split: if_splits)
  next
    fix u k
    have old: "tm_instance (pl_teams p u) = Some k \<longleftrightarrow> (\<exists>i. find_inst p k = Some i \<and> in_team i = Some u)" for u k
      by (rule pool_wfD(3) [OF wf])
    show "tm_instance (pl_teams p' u) = Some k \<longleftrightarrow> (\<exists>i. find_inst p' k = Some i \<and> in_team i = Some u)"
      using old [of u k] old [of t k] old [of u iid] i t(1)
      by (auto simp: ok leased_inst_def leased_team_def)
  next
    fix u assume "u \<in> set (pl_queue p')"
    then show "tm_instance (pl_teams p' u) = None" using t pool_wfD(5) [OF wf] by (auto simp: ok)
  qed (use pool_wfD(1,4,6) [OF wf] in \<open>auto simp: ok keys_map_entry\<close>)
  then show ?thesis by (simp add: ok)
qed

text \<open>Releasing and marking the instance as booting happen together under the lock.\<close>

definition freed_inst :: "time \<Rightarrow> inst \<Rightarrow> inst" where
  "freed_inst mn i =
     i\<lparr> in_team := None, in_expires := None, in_lifecycle := Booting, in_booting_since := Some mn,
        in_handle := None, in_phone := None \<rparr>"

definition freed_team :: "time \<Rightarrow> team \<Rightarrow> team" where
  "freed_team now ts =
     ts\<lparr> tm_instance := None, tm_expires := None, tm_release := Some now, tm_handle := None, tm_backend := None \<rparr>"

lemma do_release_wf:
  assumes "pool_wf p"
  shows "do_release now t p =
    (case tm_instance (pl_teams p t) of None \<Rightarrow> (None, p) | Some k \<Rightarrow> (Some k, snd (do_release now t p)))"
proof (cases "tm_instance (pl_teams p t)")
  case (Some k)
  then obtain i where "find_inst p k = Some i" using pool_wfD(3) [OF assms, of t k] by blast
  then show ?thesis by (simp add: Some do_release_def)
qed (simp add: do_release_def)

lemma map_entry_twice: "AList.map_entry k f (AList.map_entry k g xs) = AList.map_entry k (f \<circ> g) xs"
  by (induction xs) auto

lemma release_mark:
  assumes "pool_wf p" and "tm_instance (pl_teams p t) = Some k"
  shows "mark_booting mn k (snd (do_release now t p)) =
    p\<lparr> pl_instances := AList.map_entry k (freed_inst mn) (pl_instances p),
       pl_teams := (pl_teams p)(t := freed_team now (pl_teams p t)) \<rparr>"
proof -
  obtain i where "find_inst p k = Some i" using assms pool_wfD(3) [OF assms(1), of t k] by blast
  then show ?thesis
    by (simp add: assms(2) do_release_def mark_booting_def upd_inst_def upd_team_def Let_def map_entry_twice comp_def
        freed_inst_def [abs_def] freed_team_def)
qed

lemma wf_release:
  assumes wf: "pool_wf p" and t: "tm_instance (pl_teams p t) = Some k"
  shows "pool_wf (mark_booting mn k (snd (do_release now t p)))" (is "pool_wf ?p")
proof -
  have p: "?p = p\<lparr> pl_instances := AList.map_entry k (freed_inst mn) (pl_instances p),
       pl_teams := (pl_teams p)(t := freed_team now (pl_teams p t)) \<rparr>" by (rule release_mark [OF wf t])
  have f: "find_inst ?p j = (if j = k then map_option (freed_inst mn) (find_inst p k) else find_inst p j)" for j
    by (simp add: p find_inst_def map_entry_conv)
  have old: "tm_instance (pl_teams p u) = Some j \<longleftrightarrow> (\<exists>i. find_inst p j = Some i \<and> in_team i = Some u)" for u j
    by (rule pool_wfD(3) [OF wf])
  obtain i where i: "find_inst p k = Some i" "in_team i = Some t" using t old by blast
  show ?thesis unfolding pool_wf_def
  proof (intro conjI allI impI ballI)
    fix j x assume "find_inst ?p j = Some x"
    then show "inst_ok j x" using pool_wfD(2) [OF wf]
      by (auto simp: f inst_ok_def freed_inst_def split: if_splits)
  next
    fix u j
    show "tm_instance (pl_teams ?p u) = Some j \<longleftrightarrow> (\<exists>i. find_inst ?p j = Some i \<and> in_team i = Some u)"
      unfolding f using old [of u j] old [of t j] i t by (auto simp: p freed_inst_def freed_team_def)
  next
    fix u assume "u \<in> set (pl_queue ?p)"
    then show "tm_instance (pl_teams ?p u) = None" using t pool_wfD(5) [OF wf] by (auto simp: p freed_team_def)
  qed (use pool_wfD(1,4,6) [OF wf] in \<open>auto simp: p keys_map_entry\<close>)
qed

section \<open>Serving the queue\<close>

text \<open>A waiting team may be served when it holds no lease and its cooldown is over.\<close>

definition eligible :: "config \<Rightarrow> time \<Rightarrow> pool \<Rightarrow> int \<Rightarrow> bool" where
  "eligible cf now p c \<longleftrightarrow> tm_instance (pl_teams p c) = None \<and> \<not> fst (in_cooldown cf now p c)"

lemma in_cooldown_queue [simp]: "in_cooldown cf now (p\<lparr> pl_queue := q \<rparr>) = in_cooldown cf now p"
  by (simp add: in_cooldown_def fun_eq_iff)

lemma eligible_queue [simp]: "eligible cf now (p\<lparr> pl_queue := q \<rparr>) = eligible cf now p"
  by (simp add: eligible_def fun_eq_iff)

text \<open>The first eligible team is served, those before it leave the queue.\<close>

lemma promote_from_eq:
  "promote_from cf now iid q p =
     (case dropWhile (\<lambda>c. \<not> eligible cf now p c) q of
        [] \<Rightarrow> (Inr (), p\<lparr> pl_queue := [] \<rparr>)
      | c # rest \<Rightarrow> do_assign cf now c iid (p\<lparr> pl_queue := rest \<rparr>))"
  by (induction cf now iid q p rule: promote_from.induct) (auto simp: eligible_def Let_def simp del: dropWhile_eq_Nil_conv split: list.split)

lemma promote_next_eq:
  "promote_next cf now p =
     (case free_instances p of [] \<Rightarrow> (Inr (), p)
      | i # _ \<Rightarrow>
          (case dropWhile (\<lambda>c. \<not> eligible cf now p c) (pl_queue p) of
             [] \<Rightarrow> (Inr (), p\<lparr> pl_queue := [] \<rparr>)
           | c # rest \<Rightarrow> do_assign cf now c (in_id i) (p\<lparr> pl_queue := rest \<rparr>)))"
proof -
  have "pl_queue p = [] \<Longrightarrow> p\<lparr> pl_queue := [] \<rparr> = p" by (cases p) simp
  then show ?thesis
    by (cases "free_instances p") (auto simp: promote_next_def promote_from_eq simp del: dropWhile_eq_Nil_conv)
qed

lemma dropWhile_Cons:
  "dropWhile P q = c # rest \<Longrightarrow> \<exists>pre. q = pre @ c # rest \<and> (\<forall>x \<in> set pre. P x) \<and> \<not> P c"
  by (metis dropWhile_eq_Cons_conv set_takeWhileD takeWhile_dropWhile_id)

lemma wf_queue: "pool_wf p \<Longrightarrow> pl_queue p = pre @ q \<Longrightarrow> pool_wf (p\<lparr> pl_queue := q \<rparr>)"
  by (rule wf_congr [of p]) (use pool_wfD(4,5) [of p] in auto)

lemma wf_promote_next:
  assumes wf: "pool_wf p"
  shows "pool_wf (snd (promote_next cf now p))"
proof (cases "free_instances p")
  case (Cons i others)
  have i: "find_inst p (in_id i) = Some i" "in_team i = None" using free_member [OF wf, of i] Cons by auto
  show ?thesis
  proof (cases "dropWhile (\<lambda>c. \<not> eligible cf now p c) (pl_queue p)")
    case Nil
    moreover have "pool_wf (p\<lparr> pl_queue := [] \<rparr>)" by (rule wf_queue [OF wf, of "pl_queue p"]) simp
    ultimately show ?thesis using wf using \<open>free_instances p = i # others\<close> by (simp add: promote_next_eq Nil del: dropWhile_eq_Nil_conv)
  next
    case (Cons c rest)
    obtain pre where q: "pl_queue p = pre @ c # rest" "eligible cf now p c" using dropWhile_Cons [OF Cons] by auto
    have "pool_wf (p\<lparr> pl_queue := rest \<rparr>)" by (rule wf_queue [OF wf, of "pre @ [c]"]) (simp add: q)
    then have "pool_wf (snd (do_assign cf now c (in_id i) (p\<lparr> pl_queue := rest \<rparr>)))"
      using pool_wfD(4) [OF wf] q i by (intro wf_assign) (auto simp: eligible_def)
    then show ?thesis using \<open>free_instances p = i # others\<close> by (simp add: promote_next_eq Cons)
  qed
qed (use wf in \<open>simp add: promote_next_def\<close>)

lemma promote_all_step:
  "promote_all cf now p =
     (if free_instances p = [] \<or> pl_queue p = [] then (Inr (), p)
      else (case fst (promote_next cf now p) of Inl e \<Rightarrow> (Inl e, snd (promote_next cf now p))
            | Inr _ \<Rightarrow> promote_all cf now (snd (promote_next cf now p))))"
  by (subst promote_all.simps) (auto split: prod.split sum.split)

text \<open>Whatever each promotion keeps, the loop keeps.\<close>

lemma promote_all_keeps:
  assumes "Q p" and "\<And>p. Q p \<Longrightarrow> Q (snd (promote_next cf now p))"
  shows "Q (snd (promote_all cf now p))"
  using assms(1)
proof (induction "length (pl_queue p)" arbitrary: p rule: less_induct)
  case less
  show ?case
  proof (cases "free_instances p = [] \<or> pl_queue p = []")
    case True
    then show ?thesis using less.prems by (subst promote_all_step) simp
  next
    case False
    then have "Q (snd (promote_all cf now (snd (promote_next cf now p))))"
      using promote_next_shorter [of p cf now] assms(2) [OF less.prems] by (intro less.hyps) auto
    then show ?thesis using False assms(2) [OF less.prems] by (subst promote_all_step) (auto split: sum.split)
  qed
qed

lemma promote_all_end:
  "fst (promote_all cf now p) = Inr u \<Longrightarrow>
   free_instances (snd (promote_all cf now p)) = [] \<or> pl_queue (snd (promote_all cf now p)) = []"
proof (induction "length (pl_queue p)" arbitrary: p rule: less_induct)
  case less
  show ?case
  proof (cases "free_instances p = [] \<or> pl_queue p = []")
    case True
    then show ?thesis by (subst (1 2) promote_all_step) auto
  next
    case False
    then obtain v where v: "fst (promote_next cf now p) = Inr v"
      using less.prems by (subst (asm) promote_all_step) (auto split: sum.splits)
    have e: "promote_all cf now p = promote_all cf now (snd (promote_next cf now p))"
      using False v by (subst promote_all_step) simp
    show ?thesis unfolding e
      using False less.prems promote_next_shorter [of p cf now] by (intro less.hyps) (auto simp: e)
  qed
qed

lemma wf_promote_all: "pool_wf p \<Longrightarrow> pool_wf (snd (promote_all cf now p))"
  by (rule promote_all_keeps [where Q = pool_wf]) (auto intro: wf_promote_next)

section \<open>The operations keep the invariant\<close>

definition config_ok :: "config \<Rightarrow> bool" where
  "config_ok cf \<longleftrightarrow> (\<forall>e \<in> set (cf_pool cf). en_id e \<noteq> [])"

definition fresh_list :: "(string \<times> inst) list \<Rightarrow> bool" where
  "fresh_list xs \<longleftrightarrow> distinct (map fst xs) \<and>
     (\<forall>k i. map_of xs k = Some i \<longrightarrow> inst_ok k i \<and> in_team i = None \<and> in_lifecycle i = Booting)"

lemma fresh_init:
  "fresh_list xs \<Longrightarrow> \<forall>e \<in> set es. en_id e \<noteq> [] \<Longrightarrow>
   fresh_list (foldl (\<lambda>is e. AList.update (en_id e) (new_inst mn e) is) xs es)"
proof (induction es arbitrary: xs)
  case (Cons e es)
  have "fresh_list (AList.update (en_id e) (new_inst mn e) xs)" using Cons.prems
    by (auto simp: fresh_list_def update_conv' distinct_update inst_ok_def new_inst_def)
  then show ?case using Cons.IH Cons.prems by simp
qed simp

lemma wf_init_pool:
  assumes wf: "pool_wf p" and cf: "config_ok cf"
  shows "pool_wf (init_pool cf mn p)"
proof (cases "pl_initialized p")
  case False
  let ?xs = "foldl (\<lambda>is e. AList.update (en_id e) (new_inst mn e) is) [] (cf_pool cf)"
  have e: "pl_instances p = []" using pool_wfD(6) [OF wf False] .
  then have none: "tm_instance (pl_teams p t) = None" for t
    using pool_wfD(3) [OF wf, of t] by (cases "tm_instance (pl_teams p t)") (auto simp: find_inst_def)
  have fr: "fresh_list ?xs" by (rule fresh_init) (use cf in \<open>auto simp: fresh_list_def config_ok_def\<close>)
  have "init_pool cf mn p = p\<lparr> pl_instances := ?xs, pl_initialized := True \<rparr>" by (simp add: init_pool_def False e)
  then show ?thesis using fr none pool_wfD(4) [OF wf] unfolding pool_wf_def fresh_list_def
    by (auto simp: find_inst_def)
qed (use wf in \<open>simp add: init_pool_def\<close>)

lemma rate_limited_eq:
  "snd (rate_limited cf now t p) = upd_team t (\<lambda>ts. ts\<lparr> tm_acquisitions := filter (\<lambda>x. now - 3600 < x) (tm_acquisitions ts) \<rparr>) p"
  by (simp add: rate_limited_def Let_def split: list.split)

lemma wf_rate_limited: "pool_wf p \<Longrightarrow> pool_wf (snd (rate_limited cf now t p))"
  unfolding rate_limited_eq by (rule wf_congr [of p]) (use pool_wfD(4,5) [of p] in auto)

text \<open>How a lease request ends, for a team without lease or queue slot: the pool it leaves.\<close>

lemma pool_lease_cases:
  fixes cf now mn t p
  defines "p1 \<equiv> init_pool cf mn p" and "p2 \<equiv> snd (rate_limited cf now t (init_pool cf mn p))"
  obtains (keep) "snd (pool_lease cf now mn t p) = p1"
    | (purge) "snd (pool_lease cf now mn t p) = p2" "current_lease p1 t = None" "t \<notin> set (pl_queue p1)"
    | (assign) i others where "free_instances p2 = i # others" "current_lease p1 t = None" "t \<notin> set (pl_queue p1)"
        "fst (rate_limited cf now t p1) = Inr (False, 0)" "\<not> fst (in_cooldown cf now p2 t)"
        "snd (pool_lease cf now mn t p) = snd (do_assign cf now t (in_id i) p2)"
    | (enqueue) "free_instances p2 = []" "current_lease p1 t = None" "t \<notin> set (pl_queue p1)"
        "fst (rate_limited cf now t p1) = Inr (False, 0)" "\<not> fst (in_cooldown cf now p2 t)"
        "snd (pool_lease cf now mn t p) = p2\<lparr> pl_queue := pl_queue p2 @ [t] \<rparr>"
proof -
  consider (a) "current_lease p1 t \<noteq> None \<or> t \<in> set (pl_queue p1)"
    | (b) "current_lease p1 t = None" "t \<notin> set (pl_queue p1)" by blast
  then show ?thesis
  proof cases
    case a
    have "0 < queue_position p1 t" if "t \<in> set (pl_queue p1)"
    proof -
      have "0 \<le> k \<Longrightarrow> t \<in> set q \<Longrightarrow> 0 < position_from k t q" for k q
        by (induction k t q rule: position_from.induct) auto
      then show ?thesis using that by (simp add: queue_position_def)
    qed
    then have "snd (pool_lease cf now mn t p) = p1" using a
      by (auto simp: pool_lease_def p1_def Let_def split: option.splits)
    then show ?thesis by (rule keep)
  next
    case b
    have pos: "queue_position p1 t = 0" using b(2) by (simp add: queue_position_0)
    obtain r p3 where r: "rate_limited cf now t p1 = (r, p3)" by (cases "rate_limited cf now t p1")
    have p3: "p3 = p2" using r by (simp add: p2_def p1_def)
    show ?thesis
    proof (cases "r = Inr (False, 0) \<and> \<not> fst (in_cooldown cf now p2 t)")
      case False
      have "\<not> (case r of Inl e \<Rightarrow> True | Inr (l, x) \<Rightarrow> l) \<Longrightarrow> r = Inr (False, 0)"
        using arg_cong [OF r, of fst] by (auto simp: rate_limited_def Let_def split: list.splits if_splits)
      then have "snd (pool_lease cf now mn t p) = p2" using False b r pos
        by (cases r) (auto simp: pool_lease_def p1_def [symmetric] p3 Let_def split: prod.splits)
      then show ?thesis using b by (rule purge)
    next
      case True
      show ?thesis
      proof (cases "free_instances p2")
        case Nil
        have "snd (pool_lease cf now mn t p) = p2\<lparr> pl_queue := pl_queue p2 @ [t] \<rparr>"
          using True b r pos Nil by (auto simp: pool_lease_def p1_def [symmetric] p3 Let_def split: prod.splits)
        then show ?thesis using True b r Nil by (intro enqueue) auto
      next
        case (Cons i others)
        have "snd (pool_lease cf now mn t p) = snd (do_assign cf now t (in_id i) p2)"
          using True b r pos Cons
          by (auto simp: pool_lease_def p1_def [symmetric] p3 Let_def split: prod.splits sum.splits)
        then show ?thesis using True b r Cons by (intro assign) auto
      qed
    qed
  qed
qed

section \<open>The moves of the pool\<close>

text \<open>
  An abstract protocol: what may happen to the pool in one indivisible move, with the conditions under
  which it may happen. The operations refine it: each is a sequence of moves.
\<close>

definition recent :: "time \<Rightarrow> pool \<Rightarrow> int \<Rightarrow> int" where
  "recent now p t = int (length (filter (\<lambda>x. now - 3600 < x) (tm_acquisitions (pl_teams p t))))"

inductive pool_move :: "config \<Rightarrow> time \<Rightarrow> time \<Rightarrow> pool \<Rightarrow> pool \<Rightarrow> bool" for cf now mn where
  init_move: "pool_move cf now mn p (init_pool cf mn p)"
| purge_move: "pool_move cf now mn p (snd (rate_limited cf now t p))"
| jobs_move: "pool_move cf now mn p (p\<lparr> pl_jobs := js \<rparr>)"
| flags_move: "pool_move cf now mn p (p\<lparr> pl_flags := fl \<rparr>)"
| skip_move: "pl_queue p = pre @ q \<Longrightarrow> \<forall>x \<in> set pre. \<not> eligible cf now p x \<Longrightarrow>
    pool_move cf now mn p (p\<lparr> pl_queue := q \<rparr>)"
| lose_move: "pl_queue p = c # q \<Longrightarrow> (\<And>f. get_team_flag (pl_flags p) c \<noteq> Inr (Some f)) \<Longrightarrow>
    pool_move cf now mn p (p\<lparr> pl_queue := q \<rparr>)"
| leave_move: "pool_move cf now mn p (p\<lparr> pl_queue := remove1 t (pl_queue p) \<rparr>)"
| enqueue_move: "tm_instance (pl_teams p t) = None \<Longrightarrow> t \<notin> set (pl_queue p) \<Longrightarrow> recent now p t < cf_rate_max cf \<Longrightarrow>
    \<not> fst (in_cooldown cf now p t) \<Longrightarrow> free_instances p = [] \<Longrightarrow>
    pool_move cf now mn p (p\<lparr> pl_queue := pl_queue p @ [t] \<rparr>)"
| grant_move: "free_instances p = i # others \<Longrightarrow> tm_instance (pl_teams p t) = None \<Longrightarrow> t \<notin> set (pl_queue p) \<Longrightarrow>
    recent now p t < cf_rate_max cf \<Longrightarrow> \<not> fst (in_cooldown cf now p t) \<Longrightarrow>
    pool_move cf now mn p (snd (do_assign cf now t (in_id i) p))"
| serve_move: "free_instances p = i # others \<Longrightarrow> pl_queue p = t # q \<Longrightarrow> eligible cf now p t \<Longrightarrow>
    get_team_flag (pl_flags p) t = Inr (Some f) \<Longrightarrow>
    pool_move cf now mn p (snd (do_assign cf now t (in_id i) (p\<lparr> pl_queue := q \<rparr>)))"
| release_move: "tm_instance (pl_teams p t) = Some k \<Longrightarrow>
    pool_move cf now mn p (mark_booting mn k (snd (do_release now t p)))"
| boot_move: "find_inst p k = Some i \<Longrightarrow> in_lifecycle i = Booting \<Longrightarrow>
    pool_move cf now mn p (upd_inst k (\<lambda>i. i\<lparr> in_lifecycle := Idle, in_booting_since := None \<rparr>) p)"

abbreviation moves :: "config \<Rightarrow> time \<Rightarrow> time \<Rightarrow> pool \<Rightarrow> pool \<Rightarrow> bool" where
  "moves cf now mn \<equiv> (pool_move cf now mn)\<^sup>*\<^sup>*"

lemma boot_wf:
  assumes wf: "pool_wf p" and i: "find_inst p k = Some i" "in_lifecycle i = Booting"
  shows "pool_wf (upd_inst k (\<lambda>i. i\<lparr> in_lifecycle := Idle, in_booting_since := None \<rparr>) p)" (is "pool_wf ?p")
  unfolding pool_wf_def
proof (intro conjI allI impI ballI)
  fix j x assume "find_inst ?p j = Some x"
  then show "inst_ok j x" using pool_wfD(2) [OF wf, of j] pool_wfD(2) [OF wf i(1)] i(2)
    by (auto simp: inst_ok_def i(1) split: if_splits)
next
  fix u j
  show "tm_instance (pl_teams ?p u) = Some j \<longleftrightarrow> (\<exists>i. find_inst ?p j = Some i \<and> in_team i = Some u)"
    using pool_wfD(3) [OF wf, of u j] i by auto
qed (use pool_wfD(1,4,5,6) [OF wf] in \<open>auto simp: upd_inst_def keys_map_entry\<close>)

lemma pool_move_wf:
  assumes "pool_move cf now mn p p'" and wf: "pool_wf p" and cf: "config_ok cf"
  shows "pool_wf p'"
  using assms(1)
proof cases
  case init_move
  then show ?thesis using wf_init_pool [OF wf cf] by simp
next
  case (purge_move t)
  then show ?thesis using wf_rate_limited [OF wf] by simp
next
  case (skip_move pre q)
  then show ?thesis using wf_queue [OF wf] by blast
next
  case (lose_move c q)
  then show ?thesis using wf_queue [OF wf, of "[c]" q] by simp
next
  case (grant_move i others t)
  have "find_inst p (in_id i) = Some i" "in_team i = None" using free_member [OF wf, of i] grant_move by auto
  then show ?thesis using wf_assign [OF wf] grant_move by simp
next
  case (serve_move i others t q f)
  have "find_inst p (in_id i) = Some i" "in_team i = None" using free_member [OF wf, of i] serve_move by auto
  moreover have "pool_wf (p\<lparr> pl_queue := q \<rparr>)" using wf_queue [OF wf, of "[t]" q] serve_move by simp
  ultimately show ?thesis using wf_assign [of "p\<lparr> pl_queue := q \<rparr>" "in_id i" i t] serve_move pool_wfD(4) [OF wf]
    by (simp add: eligible_def)
next
  case (release_move t k)
  then show ?thesis using wf_release [OF wf] by simp
next
  case (boot_move k i)
  then show ?thesis using boot_wf [OF wf] by simp
qed (use wf pool_wfD(4,5) [OF wf] in \<open>auto intro!: wf_congr [OF wf] dest: notin_set_remove1\<close>)

section \<open>The operations are sequences of moves\<close>

lemma one_move: "pool_move cf now mn p p' \<Longrightarrow> moves cf now mn p p'"
  by (rule r_into_rtranclp)

lemmas first_move = one_move [OF init_move] one_move [OF purge_move]

lemma moves_wf: "moves cf now mn p p' \<Longrightarrow> pool_wf p \<Longrightarrow> config_ok cf \<Longrightarrow> pool_wf p'"
  by (induction rule: rtranclp_induct) (auto intro: pool_move_wf)

lemma rate_limited_recent:
  assumes "fst (rate_limited cf now t p) = Inr (False, x)"
  shows "recent now (snd (rate_limited cf now t p)) t < cf_rate_max cf"
  using assms by (auto simp: rate_limited_def recent_def Let_def upd_team_def split: if_splits list.splits)

lemma lease_moves:
  assumes wf: "pool_wf p" and cf: "config_ok cf"
  shows "moves cf now mn p (snd (pool_lease cf now mn t p))"
proof -
  let ?p1 = "init_pool cf mn p" and ?p2 = "snd (rate_limited cf now t (init_pool cf mn p))"
  have wf1: "pool_wf ?p1" using wf cf by (rule wf_init_pool)
  have m2: "moves cf now mn p ?p2" by (rule rtranclp_trans [OF first_move(1) first_move(2)])
  have teams: "tm_instance (pl_teams ?p2 t) = tm_instance (pl_teams ?p1 t)" "pl_queue ?p2 = pl_queue ?p1"
    by (simp_all add: rate_limited_eq)
  show ?thesis
  proof (cases rule: pool_lease_cases [where cf = cf and now = now and mn = mn and t = t and p = p])
    case keep
    then show ?thesis using first_move(1) [of cf now mn p] by simp
  next
    case purge
    then show ?thesis using m2 by simp
  next
    case (assign i others)
    then have "pool_move cf now mn ?p2 (snd (do_assign cf now t (in_id i) ?p2))"
      using rate_limited_recent by (intro grant_move) (auto simp: teams current_lease_None [OF wf1])
    then show ?thesis using m2 assign(6) by simp
  next
    case enqueue
    then have "pool_move cf now mn ?p2 (?p2\<lparr> pl_queue := pl_queue ?p2 @ [t] \<rparr>)"
      using rate_limited_recent by (intro enqueue_move) (auto simp: teams current_lease_None [OF wf1])
    then show ?thesis using m2 enqueue(6) by simp
  qed
qed

lemma release_moves:
  assumes wf: "pool_wf p" and cf: "config_ok cf"
  shows "moves cf now mn p (snd (pool_release cf now mn t p))"
proof -
  let ?p1 = "init_pool cf mn p"
  have wf1: "pool_wf ?p1" using wf cf by (rule wf_init_pool)
  have m1: "moves cf now mn p ?p1" by (rule first_move(1))
  show ?thesis
  proof (cases "tm_instance (pl_teams ?p1 t)")
    case None
    then have "snd (pool_release cf now mn t p) = ?p1\<lparr> pl_queue := remove1 t (pl_queue ?p1) \<rparr>"
      using current_lease_None [OF wf1, of t] by (simp add: pool_release_def Let_def)
    then show ?thesis using m1 leave_move [of cf now mn ?p1 t] by simp
  next
    case (Some k)
    let ?p2 = "mark_booting mn k (snd (do_release now t ?p1))"
    have "current_lease ?p1 t \<noteq> None" using current_lease_None [OF wf1] Some by simp
    then have "snd (pool_release cf now mn t p) =
        (case find_inst ?p2 k of None \<Rightarrow> ?p2 | Some i \<Rightarrow> ?p2\<lparr> pl_jobs := pl_jobs ?p2 @ [RecycleJob i] \<rparr>)"
      using do_release_wf [OF wf1, of now t] Some
      by (auto simp: pool_release_def Let_def split: option.splits prod.splits)
    moreover have "moves cf now mn p ?p2" using m1 release_move [OF Some, of cf now mn] by simp
    ultimately show ?thesis using jobs_move [of cf now mn ?p2]
      by (auto split: option.split intro: rtranclp.rtrancl_into_rtrancl)
  qed
qed

lemma status_moves: "moves cf now mn p (snd (pool_status cf now mn t p))"
proof -
  have "snd (pool_status cf now mn t p) \<in> {init_pool cf mn p, snd (rate_limited cf now t (init_pool cf mn p))}"
    by (auto simp: pool_status_def Let_def split: option.splits prod.splits sum.splits if_splits)
  then show ?thesis using first_move(1) [of cf now mn p] first_move(2) [of cf now mn "init_pool cf mn p" t] by auto
qed

lemma info_moves: "moves cf now mn p (snd (pool_info cf now mn p))"
  using first_move(1) [of cf now mn p] by (simp add: pool_info_def Let_def)

lemma promote_next_moves:
  assumes wf: "pool_wf p"
  shows "moves cf now mn p (snd (promote_next cf now p))"
proof (cases "free_instances p")
  case (Cons i others)
  note free = Cons
  show ?thesis
  proof (cases "dropWhile (\<lambda>c. \<not> eligible cf now p c) (pl_queue p)")
    case Nil
    then have "\<forall>x \<in> set (pl_queue p). \<not> eligible cf now p x" by simp
    then have "pool_move cf now mn p (p\<lparr> pl_queue := [] \<rparr>)" by (intro skip_move [of p "pl_queue p"]) auto
    then show ?thesis by (simp add: promote_next_eq free Nil del: dropWhile_eq_Nil_conv)
  next
    case (Cons c rest)
    obtain pre where q: "pl_queue p = pre @ c # rest" "\<forall>x \<in> set pre. \<not> eligible cf now p x" "eligible cf now p c"
      using dropWhile_Cons [OF Cons] by auto
    let ?p1 = "p\<lparr> pl_queue := c # rest \<rparr>"
    have m1: "moves cf now mn p ?p1" using skip_move [of p pre "c # rest"] q by blast
    have e: "snd (promote_next cf now p) = snd (do_assign cf now c (in_id i) (p\<lparr> pl_queue := rest \<rparr>))"
      using free by (simp add: promote_next_eq Cons)
    show ?thesis
    proof (cases "\<exists>f. get_team_flag (pl_flags p) c = Inr (Some f)")
      case True
      then obtain f where f: "get_team_flag (pl_flags ?p1) c = Inr (Some f)" by auto
      have "free_instances ?p1 = i # others" using free by (simp add: free_instances_def)
      then have "pool_move cf now mn ?p1 (snd (do_assign cf now c (in_id i) (?p1\<lparr> pl_queue := rest \<rparr>)))"
        by (rule serve_move) (use q f in auto)
      then show ?thesis using m1 by (simp add: e)
    next
      case False
      then have "pool_move cf now mn ?p1 (?p1\<lparr> pl_queue := rest \<rparr>)" by (intro lose_move [of _ c]) auto
      moreover have "snd (do_assign cf now c (in_id i) (p\<lparr> pl_queue := rest \<rparr>)) = p\<lparr> pl_queue := rest \<rparr>"
        using False by (cases rule: do_assign_cases [of cf now c "in_id i" "p\<lparr> pl_queue := rest \<rparr>"]) auto
      ultimately show ?thesis using m1 by (simp add: e)
    qed
  qed
qed (simp add: promote_next_eq)

lemma promote_all_moves: "pool_wf p \<Longrightarrow> moves cf now mn p (snd (promote_all cf now p))"
proof -
  assume wf: "pool_wf p"
  have "pool_wf (snd (promote_all cf now p)) \<and> moves cf now mn p (snd (promote_all cf now p))"
  proof (rule promote_all_keeps [where Q = "\<lambda>p'. pool_wf p' \<and> moves cf now mn p p'"])
    fix p' assume a: "pool_wf p' \<and> moves cf now mn p p'"
    then have "moves cf now mn p (snd (promote_next cf now p'))"
      using promote_next_moves [of p' cf now mn] rtranclp_trans [of "pool_move cf now mn" p p'] by blast
    then show "pool_wf (snd (promote_next cf now p')) \<and> moves cf now mn p (snd (promote_next cf now p'))"
      using a wf_promote_next by blast
  qed (simp add: wf)
  then show ?thesis ..
qed

lemma instance_booted_moves:
  assumes wf: "pool_wf p"
  shows "moves cf now mn p (snd (instance_booted cf now iid p))"
proof (cases "find_inst p iid")
  case (Some i)
  show ?thesis
  proof (cases "in_lifecycle i = Booting")
    case True
    let ?p1 = "upd_inst iid (\<lambda>i. i\<lparr> in_lifecycle := Idle, in_booting_since := None \<rparr>) p"
    have "pool_wf ?p1" using wf Some True by (rule boot_wf)
    then have "moves cf now mn ?p1 (snd (promote_next cf now ?p1))" by (rule promote_next_moves)
    then show ?thesis using one_move [OF boot_move [OF Some True, of cf now mn]] Some True
      by (simp add: instance_booted_def)
  qed (simp add: Some instance_booted_def)
qed (simp add: instance_booted_def)

lemma poll_all_moves:
  "pool_wf p \<Longrightarrow> config_ok cf \<Longrightarrow> moves cf now mn p (snd (poll_all cf now health is p))"
proof (induction "is" arbitrary: p)
  case (Cons i "is")
  have m: "moves cf now mn p (snd (instance_booted cf now (in_id i) p))" using Cons.prems(1) by (rule instance_booted_moves)
  then have "pool_wf (snd (instance_booted cf now (in_id i) p))" using Cons.prems by (rule moves_wf)
  from Cons.IH [OF this Cons.prems(2)] m Cons.IH [OF Cons.prems] show ?case
    by (auto split: prod.split sum.split dest: rtranclp_trans)
qed simp

lemma expire_all_moves:
  "pool_wf p \<Longrightarrow> config_ok cf \<Longrightarrow> moves cf now mn p (snd (expire_all now mn ts p))"
proof (induction ts arbitrary: p)
  case (Cons t ts)
  show ?case
  proof (cases "tm_instance (pl_teams p t)")
    case None
    then show ?thesis using Cons by (simp add: do_release_def)
  next
    case (Some k)
    let ?p1 = "mark_booting mn k (snd (do_release now t p))"
    have "pool_wf ?p1" using wf_release [OF Cons.prems(1) Some] .
    from Cons.IH [OF this Cons.prems(2)] have "moves cf now mn p (snd (expire_all now mn ts ?p1))"
      using release_move [OF Some, of cf now mn] by (meson converse_rtranclp_into_rtranclp)
    moreover have "do_release now t p = (Some k, snd (do_release now t p))"
      using do_release_wf [OF Cons.prems(1), of now t] Some by simp
    then have "snd (expire_all now mn (t # ts) p) = snd (expire_all now mn ts ?p1)"
      by (auto simp: Let_def split: prod.splits option.splits)
    ultimately show ?thesis by simp
  qed
qed simp

lemma reaper_locked_moves:
  assumes wf: "pool_wf p" and cf: "config_ok cf"
  shows "moves cf now mn p (snd (reaper_locked cf now mn p))"
proof -
  let ?p1 = "snd (expire_all now mn (expired_teams now p) p)"
  have m1: "moves cf now mn p ?p1" using wf cf by (rule expire_all_moves)
  have "pool_wf ?p1" using m1 wf cf by (rule moves_wf)
  then have "moves cf now mn ?p1 (snd (promote_all cf now ?p1))" by (rule promote_all_moves)
  with m1 have m: "moves cf now mn p (snd (promote_all cf now ?p1))" by (rule rtranclp_trans)
  have "\<exists>js. snd (reaper_locked cf now mn p) \<in> {snd (promote_all cf now ?p1), (snd (promote_all cf now ?p1))\<lparr> pl_jobs := js \<rparr>}"
    by (auto simp: reaper_locked_def Let_def split: prod.split sum.split)
  then show ?thesis using m jobs_move [of cf now mn "snd (promote_all cf now ?p1)"]
    by (auto intro: rtranclp.rtrancl_into_rtrancl)
qed

lemma reaper_tick_moves:
  assumes wf: "pool_wf p" and cf: "config_ok cf"
  shows "moves cf now mn p (snd (reaper_tick cf now mn health p))"
proof -
  have m: "moves cf now mn p (snd (reaper_locked cf now mn p))" using assms by (rule reaper_locked_moves)
  then have "pool_wf (snd (reaper_locked cf now mn p))" using wf cf by (rule moves_wf)
  from poll_all_moves [OF this cf] m show ?thesis
    by (auto simp: reaper_tick_def split: prod.split sum.split intro: rtranclp_trans [of "pool_move cf now mn"])
qed

section \<open>Runs\<close>

text \<open>
  The calls of the judge's web handlers and of the reaper, in the order in which they take the lock. The
  reaper gives the lock up between its parts, so other calls may come in between.
\<close>

datatype event =
    Lease int | Release int | Status int | Info
  | ReaperLocked | Booted string | ReaperTick "inst \<Rightarrow> bool" | PushFlag int string

definition set_flag :: "int \<Rightarrow> string \<Rightarrow> pool \<Rightarrow> pool" where
  "set_flag t flag p = (case set_team_flag (pl_flags p) t flag of Inl e \<Rightarrow> p | Inr f \<Rightarrow> p\<lparr> pl_flags := f \<rparr>)"

fun pool_step :: "config \<Rightarrow> pool \<Rightarrow> time \<times> time \<times> event \<Rightarrow> pool" where
  "pool_step cf p (now, mn, Lease t) = snd (pool_lease cf now mn t p)"
| "pool_step cf p (now, mn, Release t) = snd (pool_release cf now mn t p)"
| "pool_step cf p (now, mn, Status t) = snd (pool_status cf now mn t p)"
| "pool_step cf p (now, mn, Info) = snd (pool_info cf now mn p)"
| "pool_step cf p (now, mn, ReaperLocked) = snd (reaper_locked cf now mn p)"
| "pool_step cf p (now, mn, Booted iid) = snd (instance_booted cf now iid p)"
| "pool_step cf p (now, mn, ReaperTick health) = snd (reaper_tick cf now mn health p)"
| "pool_step cf p (now, mn, PushFlag t flag) = set_flag t flag p"

lemma set_flag_moves: "moves cf now mn p (set_flag t flag p)"
  using flags_move [of cf now mn p] by (auto simp: set_flag_def split: sum.split)

lemma pool_step_moves:
  "pool_wf p \<Longrightarrow> config_ok cf \<Longrightarrow> moves cf (fst e) (fst (snd e)) p (pool_step cf p e)"
  by (cases "(cf, p, e)" rule: pool_step.cases)
    (auto intro: lease_moves release_moves status_moves info_moves reaper_locked_moves instance_booted_moves
      reaper_tick_moves set_flag_moves)

lemma pool_step_wf: "pool_wf p \<Longrightarrow> config_ok cf \<Longrightarrow> pool_wf (pool_step cf p e)"
  using pool_step_moves moves_wf by blast

interpretation pool: transition_system "pool_step cf" "\<lambda>p. pool_wf p \<and> config_ok cf" for cf
  by unfold_locales (auto intro: pool_step_wf)

lemma pool_empty_wf: "pool_wf (pool_empty flags entropy)"
  by (simp add: pool_wf_def pool_empty_def team_init_def find_inst_def)

lemma pool_run_wf: "config_ok cf \<Longrightarrow> pool_wf (foldl (pool_step cf) (pool_empty flags entropy) es)"
  using pool.run_Inv [of "pool_empty flags entropy" cf es] pool_empty_wf by blast

end
