(* ===== verification/PoolProps.thy ===== *)
theory PoolProps
  imports PoolInv
begin

text \<open>
  What the pool promises its teams: the hourly limit, the cooldown, the order of the queue, and that the
  reaper leaves no expired lease and no idle instance beside a waiting team. Each is proved for a move
  and carried to the operations.
\<close>

section \<open>The hourly limit\<close>

definition rate_ok :: "config \<Rightarrow> time \<Rightarrow> pool \<Rightarrow> bool" where
  "rate_ok cf now p \<longleftrightarrow>
     (\<forall>t. recent now p t \<le> cf_rate_max cf \<and> (t \<in> set (pl_queue p) \<longrightarrow> recent now p t < cf_rate_max cf))"

lemma filter_le: "(\<And>x. P x \<Longrightarrow> Q x) \<Longrightarrow> length (filter P xs) \<le> length (filter Q xs)"
  by (induction xs) (auto intro: le_SucI)

lemma recent_mono: "now \<le> now' \<Longrightarrow> recent now' p t \<le> recent now p t"
  unfolding recent_def by (auto intro!: filter_le)

lemma rate_ok_later: "rate_ok cf now p \<Longrightarrow> now \<le> now' \<Longrightarrow> rate_ok cf now' p"
  unfolding rate_ok_def using recent_mono by (meson le_less_trans order_trans)

lemma recent_assign:
  "recent now (snd (do_assign cf now t iid p)) u =
     recent now p u + (if u = t \<and> (\<exists>f. get_team_flag (pl_flags p) t = Inr (Some f)) then 1 else 0)"
  by (cases rule: do_assign_cases [of cf now t iid p]) (auto simp: recent_def leased_team_def)

lemma rate_ok_less:
  "(\<And>t. recent now p' t \<le> recent now p t) \<Longrightarrow> set (pl_queue p') \<subseteq> set (pl_queue p) \<Longrightarrow> rate_ok cf now p \<Longrightarrow> rate_ok cf now p'"
  unfolding rate_ok_def by (meson le_less_trans order_trans subsetD)

lemma rate_move:
  assumes "pool_move cf now mn p p'" and wf: "pool_wf p" and ok: "rate_ok cf now p"
  shows "rate_ok cf now p'"
  using assms(1)
proof cases
  case (purge_move t)
  then show ?thesis by (intro rate_ok_less [OF _ _ ok]) (auto simp: rate_limited_eq recent_def filter_filter [abs_def])
next
  case (enqueue_move t)
  then show ?thesis using ok by (auto simp: rate_ok_def recent_def)
next
  case (grant_move i others t)
  then show ?thesis using ok by (auto simp: rate_ok_def recent_assign do_assign_queue)
next
  case (serve_move i others t q f)
  have "recent now (p\<lparr> pl_queue := q \<rparr>) u = recent now p u" for u by (simp add: recent_def)
  then show ?thesis using ok pool_wfD(4) [OF wf] serve_move by (auto simp: rate_ok_def recent_assign do_assign_queue)
next
  case (release_move t k)
  then show ?thesis using release_mark [OF wf]
    by (intro rate_ok_less [OF _ _ ok]) (auto simp: recent_def freed_team_def)
next
  case init_move
  then show ?thesis by (intro rate_ok_less [OF _ _ ok]) (auto simp: recent_def init_pool_def)
next
  case (leave_move t)
  then show ?thesis by (intro rate_ok_less [OF _ _ ok]) (auto simp: recent_def dest: set_mp [OF set_remove1_subset])
qed (intro rate_ok_less [OF _ _ ok]; force simp: recent_def)+

lemma moves_keep:
  assumes "moves cf now mn p p'" and "pool_wf p" and "config_ok cf" and "Q p"
    and "\<And>p p'. pool_move cf now mn p p' \<Longrightarrow> pool_wf p \<Longrightarrow> Q p \<Longrightarrow> Q p'"
  shows "Q p'"
  using assms(1)
proof (induction rule: rtranclp_induct)
  case (step y z)
  then show ?case using assms moves_wf by blast
qed (rule assms)

lemma rate_run:
  assumes cf: "config_ok cf" and "0 \<le> cf_rate_max cf" and "sorted (map fst es)"
  shows "rate_ok cf (if es = [] then now else fst (last es)) (foldl (pool_step cf) (pool_empty flags entropy) es)"
  using assms(3)
proof (induction es rule: rev_induct)
  case Nil
  then show ?case using assms(2) by (simp add: rate_ok_def recent_def pool_empty_def team_init_def)
next
  case (snoc e es)
  let ?p = "foldl (pool_step cf) (pool_empty flags entropy) es"
  have wf: "pool_wf ?p" using cf by (rule pool_run_wf)
  have "rate_ok cf (fst e) ?p"
  proof (cases "es = []")
    case True
    then show ?thesis using assms(2) by (simp add: rate_ok_def recent_def pool_empty_def team_init_def)
  next
    case False
    then have "fst (last es) \<le> fst e" using snoc.prems by (auto simp: sorted_append)
    then show ?thesis using snoc False by (auto simp: sorted_append intro: rate_ok_later)
  qed
  from moves_keep [where Q = "rate_ok cf (fst e)", OF pool_step_moves [OF wf cf] wf cf this rate_move]
  show ?case by simp
qed

section \<open>The cooldown\<close>

text \<open>A team without a lease that is in its cooldown keeps waiting, whatever the others do.\<close>

lemma assign_other:
  "u \<noteq> t \<Longrightarrow> pl_teams (snd (do_assign cf now t iid p)) u = pl_teams p u"
  by (cases rule: do_assign_cases [of cf now t iid p]) auto

lemma cooldown_move:
  assumes "pool_move cf now mn p p'" and wf: "pool_wf p"
    and t: "tm_instance (pl_teams p t) = None" "fst (in_cooldown cf now p t)"
  shows "tm_instance (pl_teams p' t) = None \<and> tm_release (pl_teams p' t) = tm_release (pl_teams p t)"
  using assms(1)
proof cases
  case (grant_move i others u)
  then have "t \<noteq> u" using t by auto
  then show ?thesis using t assign_other grant_move(1) by simp
next
  case (serve_move i others u q f)
  then have "t \<noteq> u" using t by (auto simp: eligible_def)
  then show ?thesis using t assign_other serve_move(1) by simp
next
  case (release_move u k)
  then show ?thesis using t release_mark [OF wf, of u k mn now] by auto
next
  case (init_move)
  then show ?thesis using t by (simp add: init_pool_def)
qed (use t in \<open>auto simp: rate_limited_eq\<close>)

lemma cooldown_moves:
  assumes "moves cf now mn p p'" and "pool_wf p" and "config_ok cf"
    and "tm_instance (pl_teams p t) = None" and "tm_release (pl_teams p t) = Some r" and "now - r < of_int (cf_cooldown cf)"
  shows "tm_instance (pl_teams p' t) = None \<and> tm_release (pl_teams p' t) = Some r"
proof (rule moves_keep [OF assms(1-3), where Q = "\<lambda>p. tm_instance (pl_teams p t) = None \<and> tm_release (pl_teams p t) = Some r"])
  fix x y assume "pool_move cf now mn x y" "pool_wf x" "tm_instance (pl_teams x t) = None \<and> tm_release (pl_teams x t) = Some r"
  then show "tm_instance (pl_teams y t) = None \<and> tm_release (pl_teams y t) = Some r"
    using cooldown_move [of cf now mn x y t] assms(6) by (auto simp: in_cooldown_def Let_def)
qed (use assms in simp)

lemma cooldown_run:
  assumes "config_ok cf" and "pool_wf p" and "tm_instance (pl_teams p t) = None"
    and "tm_release (pl_teams p t) = Some r" and "\<forall>e \<in> set es. fst e - r < of_int (cf_cooldown cf)"
  shows "tm_instance (pl_teams (foldl (pool_step cf) p es) t) = None"
  using assms(2-)
proof (induction es arbitrary: p)
  case (Cons e es)
  have "tm_instance (pl_teams (pool_step cf p e) t) = None \<and> tm_release (pl_teams (pool_step cf p e) t) = Some r"
    by (rule cooldown_moves [OF pool_step_moves [OF Cons.prems(1) assms(1)] Cons.prems(1) assms(1)]) (use Cons.prems in auto)
  then show ?case using Cons.IH [of "pool_step cf p e"] Cons.prems pool_step_wf [OF Cons.prems(1) assms(1)] by simp
qed simp

section \<open>The order of the queue\<close>

lemma promote_outcome:
  assumes "pool_wf p" and "free_instances p = i # others" and "promote_next cf now p = (Inr (), p')"
  shows "(\<exists>pre c rest. pl_queue p = pre @ c # rest \<and> (\<forall>x \<in> set pre. \<not> eligible cf now p x) \<and> eligible cf now p c
            \<and> tm_instance (pl_teams p' c) = Some (in_id i) \<and> pl_queue p' = rest)
       \<or> (\<forall>x \<in> set (pl_queue p). \<not> eligible cf now p x) \<and> pl_queue p' = []"
proof (cases "dropWhile (\<lambda>c. \<not> eligible cf now p c) (pl_queue p)")
  case Nil
  then have "p' = p\<lparr> pl_queue := [] \<rparr>" using assms by (simp add: promote_next_eq del: dropWhile_eq_Nil_conv)
  then show ?thesis using Nil by auto
next
  case (Cons c rest)
  then have d: "do_assign cf now c (in_id i) (p\<lparr> pl_queue := rest \<rparr>) = (Inr (), p')"
    using assms by (simp add: promote_next_eq)
  have "tm_instance (pl_teams p' c) = Some (in_id i) \<and> pl_queue p' = rest"
    using d by (cases rule: do_assign_cases [of cf now c "in_id i" "p\<lparr> pl_queue := rest \<rparr>"]) (auto simp: leased_team_def)
  then show ?thesis using dropWhile_Cons [OF Cons] by blast
qed

section \<open>The reaper\<close>

text \<open>What expiring a list of teams does.\<close>

lemma release_find:
  assumes "pool_wf p" and "tm_instance (pl_teams p t) = Some k"
  shows "find_inst (mark_booting mn k (snd (do_release now t p))) j =
    (if j = k then map_option (freed_inst mn) (find_inst p j) else find_inst p j)"
  by (simp add: release_mark [OF assms] find_inst_def map_entry_conv)

lemma expire_Cons:
  assumes "pool_wf p"
  shows "expire_all now mn (t # ts) p =
    (case tm_instance (pl_teams p t) of
       None \<Rightarrow> expire_all now mn ts p
     | Some k \<Rightarrow>
         let p1 = mark_booting mn k (snd (do_release now t p)); (rs, p') = expire_all now mn ts p1 in
         (map (freed_inst mn) (case find_inst p k of None \<Rightarrow> [] | Some i \<Rightarrow> [i]) @ rs, p'))"
proof (cases "tm_instance (pl_teams p t)")
  case None
  then show ?thesis by (simp add: do_release_def)
next
  case (Some k)
  then have "do_release now t p = (Some k, snd (do_release now t p))" using do_release_wf [OF assms, of now t] by simp
  then show ?thesis using release_find [OF assms Some, of mn now k] Some
    by (auto simp: Let_def split: prod.splits option.splits)
qed

lemma expire_frame:
  "pool_wf p \<Longrightarrow> pl_queue (snd (expire_all now mn ts p)) = pl_queue p
     \<and> pl_flags (snd (expire_all now mn ts p)) = pl_flags p \<and> pl_jobs (snd (expire_all now mn ts p)) = pl_jobs p
     \<and> (\<forall>u. u \<notin> set ts \<longrightarrow> pl_teams (snd (expire_all now mn ts p)) u = pl_teams p u)
     \<and> (\<forall>u. u \<in> set ts \<or> tm_instance (pl_teams p u) = None \<longrightarrow> tm_instance (pl_teams (snd (expire_all now mn ts p)) u) = None)"
proof (induction ts arbitrary: p)
  case (Cons t ts)
  show ?case
  proof (cases "tm_instance (pl_teams p t)")
    case None
    then show ?thesis using Cons.IH [OF Cons.prems] by (auto simp: expire_Cons [OF Cons.prems] simp del: expire_all.simps)
  next
    case (Some k)
    have "pool_wf (mark_booting mn k (snd (do_release now t p)))" using wf_release [OF Cons.prems Some] .
    from Cons.IH [OF this] show ?thesis
      by (auto simp: expire_Cons [OF Cons.prems] Some release_mark [OF Cons.prems Some] freed_team_def Let_def
          simp del: expire_all.simps split: prod.split)
  qed
qed simp

lemma expire_find:
  "pool_wf p \<Longrightarrow> find_inst p k = Some i \<Longrightarrow>
   (\<forall>t \<in> set ts. in_team i \<noteq> Some t) \<and> find_inst (snd (expire_all now mn ts p)) k = Some i
   \<or> (\<exists>t \<in> set ts. in_team i = Some t) \<and> find_inst (snd (expire_all now mn ts p)) k = Some (freed_inst mn i)
       \<and> freed_inst mn i \<in> set (fst (expire_all now mn ts p))"
proof (induction ts arbitrary: p i)
  case (Cons t ts)
  note wf = Cons.prems(1)
  show ?case
  proof (cases "tm_instance (pl_teams p t)")
    case None
    then have "in_team i \<noteq> Some t" using pool_wfD(3) [OF wf, of t k] Cons.prems(2) by auto
    then show ?thesis using Cons.IH [OF Cons.prems] None by (auto simp: expire_Cons [OF wf] simp del: expire_all.simps)
  next
    case (Some j)
    let ?p1 = "mark_booting mn j (snd (do_release now t p))"
    have wf1: "pool_wf ?p1" using wf_release [OF wf Some] .
    have fst: "fst (expire_all now mn (t # ts) p) =
        map (freed_inst mn) (case find_inst p j of None \<Rightarrow> [] | Some i \<Rightarrow> [i]) @ fst (expire_all now mn ts ?p1)"
      and snd: "snd (expire_all now mn (t # ts) p) = snd (expire_all now mn ts ?p1)"
      by (auto simp: expire_Cons [OF wf] Some Let_def simp del: expire_all.simps split: prod.split)
    show ?thesis
    proof (cases "j = k")
      case True
      then have t: "in_team i = Some t" using pool_wfD(3) [OF wf, of t k] Some Cons.prems(2) by auto
      have "find_inst ?p1 k = Some (freed_inst mn i)" using release_find [OF wf Some] True Cons.prems(2) by simp
      from Cons.IH [OF wf1 this] have "find_inst (snd (expire_all now mn ts ?p1)) k = Some (freed_inst mn i)"
        by (auto simp: freed_inst_def)
      then show ?thesis using t True Cons.prems(2) by (simp add: fst snd del: expire_all.simps)
    next
      case False
      then have t: "in_team i \<noteq> Some t" using pool_wfD(3) [OF wf, of t k] Some Cons.prems(2) by auto
      have "find_inst ?p1 k = Some i" using release_find [OF wf Some] False Cons.prems(2) by simp
      from Cons.IH [OF wf1 this] t show ?thesis by (auto simp: fst snd simp del: expire_all.simps)
    qed
  qed
qed simp

lemma expired_iff:
  assumes wf: "pool_wf p"
  shows "t \<in> set (expired_teams now p) \<longleftrightarrow>
    (\<exists>k i x. find_inst p k = Some i \<and> in_team i = Some t \<and> in_expires i = Some x \<and> x \<le> now)"
proof -
  have "t \<in> set (expired_teams now p) \<longleftrightarrow>
      (\<exists>(k, i) \<in> set (pl_instances p). in_lifecycle i = OnLease \<and> in_team i = Some t \<and> (\<exists>x. in_expires i = Some x \<and> x \<le> now))"
    by (force simp: expired_teams_def split: option.splits if_splits)
  also have "\<dots> \<longleftrightarrow> (\<exists>k i x. find_inst p k = Some i \<and> in_team i = Some t \<and> in_expires i = Some x \<and> x \<le> now)"
    using pool_wfD(2) [OF wf] by (fastforce simp: find_in_set [OF pool_wfD(1) [OF wf]] inst_ok_def)
  finally show ?thesis .
qed

definition no_expired :: "time \<Rightarrow> pool \<Rightarrow> bool" where
  "no_expired now p \<longleftrightarrow> (\<forall>k i x. find_inst p k = Some i \<longrightarrow> in_expires i = Some x \<longrightarrow> now < x)"

definition flagged :: "pool \<Rightarrow> bool" where
  "flagged p \<longleftrightarrow> (\<forall>t \<in> set (pl_queue p). \<exists>f. get_team_flag (pl_flags p) t = Inr (Some f))"

lemma expire_no_expired:
  assumes wf: "pool_wf p" and cf: "config_ok cf"
  shows "no_expired now (snd (expire_all now mn (expired_teams now p) p))" (is "no_expired now ?p")
  unfolding no_expired_def
proof (intro allI impI)
  fix k j x assume j: "find_inst ?p k = Some j" "in_expires j = Some x"
  have dom: "find_inst q k \<noteq> None" if "find_inst (snd (expire_all now mn ts q)) k \<noteq> None" "pool_wf q" for q ts
    using that
  proof (induction ts arbitrary: q)
    case (Cons t ts)
    show ?case
    proof (cases "tm_instance (pl_teams q t)")
      case None
      then show ?thesis using Cons by (simp add: expire_Cons del: expire_all.simps)
    next
      case (Some m)
      let ?q = "mark_booting mn m (snd (do_release now t q))"
      have "find_inst (snd (expire_all now mn ts ?q)) k \<noteq> None" using Cons.prems(1) Some
        by (simp add: expire_Cons [OF Cons.prems(2)] Let_def del: expire_all.simps split: prod.splits)
      then have "find_inst ?q k \<noteq> None" using wf_release [OF Cons.prems(2) Some] by (rule Cons.IH)
      then show ?thesis by (auto simp: release_find [OF Cons.prems(2) Some] split: if_splits)
    qed
  qed simp
  obtain i where i: "find_inst p k = Some i" using dom [OF _ wf] j(1) by blast
  from expire_find [OF wf i, of "expired_teams now p" now mn] j
  have "i = j" "\<forall>t \<in> set (expired_teams now p). in_team i \<noteq> Some t" by (auto simp: freed_inst_def)
  moreover have "in_team i \<noteq> None" using pool_wfD(2) [OF wf i] j(2) \<open>i = j\<close> by (auto simp: inst_ok_def)
  ultimately show "now < x" using i j(2) by (force simp: expired_iff [OF wf])
qed

lemma assign_no_expired:
  "no_expired now p \<Longrightarrow> 0 < cf_lease cf \<Longrightarrow> no_expired now (snd (do_assign cf now t iid p))"
  by (cases rule: do_assign_cases [of cf now t iid p])
    (auto simp: no_expired_def leased_inst_def split: if_splits)

lemma promote_no_expired:
  "no_expired now p \<Longrightarrow> 0 < cf_lease cf \<Longrightarrow> no_expired now (snd (promote_next cf now p))"
  by (auto simp: promote_next_eq assign_no_expired no_expired_def simp del: dropWhile_eq_Nil_conv split: list.split)
    (metis assign_no_expired find_fields(1) no_expired_def)

lemma promote_flagged:
  assumes "flagged p"
  shows "fst (promote_next cf now p) = Inr () \<and> flagged (snd (promote_next cf now p))"
proof (cases "free_instances p")
  case (Cons i others)
  note free = Cons
  show ?thesis
  proof (cases "dropWhile (\<lambda>c. \<not> eligible cf now p c) (pl_queue p)")
    case Nil
    then show ?thesis by (simp add: promote_next_eq free flagged_def del: dropWhile_eq_Nil_conv)
  next
    case (Cons c rest)
    then have "c \<in> set (pl_queue p)" "set rest \<subseteq> set (pl_queue p)" using dropWhile_Cons [OF Cons] by auto
    then show ?thesis using assms
      by (cases rule: do_assign_cases [of cf now c "in_id i" "p\<lparr> pl_queue := rest \<rparr>"])
        (auto simp: promote_next_eq free Cons flagged_def)
  qed
qed (use assms in \<open>simp add: promote_next_eq\<close>)

lemma promote_all_flagged: "flagged p \<Longrightarrow> fst (promote_all cf now p) = Inr ()"
proof (induction "length (pl_queue p)" arbitrary: p rule: less_induct)
  case less
  show ?case
  proof (cases "free_instances p = [] \<or> pl_queue p = []")
    case False
    then have "fst (promote_all cf now (snd (promote_next cf now p))) = Inr ()"
      using promote_next_shorter [of p cf now] promote_flagged [OF less.prems] by (intro less.hyps) auto
    then show ?thesis using False promote_flagged [OF less.prems] by (subst promote_all_step) simp
  qed (auto simp: promote_all.simps)
qed

lemma reaper_locked_eq:
  "reaper_locked cf now mn p =
     (let e = expire_all now mn (expired_teams now p) p; r = promote_all cf now (snd e) in
      case fst r of
        Inl x \<Rightarrow> (Inl x, snd r)
      | Inr _ \<Rightarrow> (Inr (filter (\<lambda>i. in_lifecycle i = Booting) (map snd (pl_instances (snd e)))),
                  (snd r)\<lparr> pl_jobs := pl_jobs (snd r) @ map RecycleJob (fst e) \<rparr>))"
  by (simp add: reaper_locked_def Let_def split: prod.split sum.split)

text \<open>When every waiting team has its flag, the reaper does its whole work.\<close>

lemma reaper_serves:
  assumes wf: "pool_wf p" and cf: "config_ok cf" and "0 < cf_lease cf" and "flagged p"
  obtains booting p' where "reaper_locked cf now mn p = (Inr booting, p')" "free_instances p' = [] \<or> pl_queue p' = []"
    "no_expired now p'"
    "\<And>k i x. find_inst p k = Some i \<Longrightarrow> in_expires i = Some x \<Longrightarrow> x \<le> now \<Longrightarrow> RecycleJob (freed_inst mn i) \<in> set (pl_jobs p')"
proof -
  let ?e = "expire_all now mn (expired_teams now p) p"
  let ?r = "promote_all cf now (snd ?e)"
  have "flagged (snd ?e)" using assms(4) expire_frame [OF wf, of now mn "expired_teams now p"] by (simp add: flagged_def)
  then have r: "fst ?r = Inr ()" by (rule promote_all_flagged)
  let ?p = "(snd ?r)\<lparr> pl_jobs := pl_jobs (snd ?r) @ map RecycleJob (fst ?e) \<rparr>"
  have "no_expired now (snd ?r)"
    using expire_no_expired [OF wf cf] assms(3)
    by (intro promote_all_keeps [where Q = "no_expired now"]) (auto intro: promote_no_expired)
  then have "no_expired now ?p" by (simp add: no_expired_def)
  moreover have "free_instances ?p = [] \<or> pl_queue ?p = []" using promote_all_end [OF r] by (simp add: free_instances_def)
  moreover have "RecycleJob (freed_inst mn i) \<in> set (pl_jobs ?p)"
    if i: "find_inst p k = Some i" "in_expires i = Some x" "x \<le> now" for k i x
  proof -
    obtain t where t: "in_team i = Some t" using pool_wfD(2) [OF wf i(1)] i(2) by (auto simp: inst_ok_def)
    then have "t \<in> set (expired_teams now p)" using i by (auto simp: expired_iff [OF wf])
    then have "freed_inst mn i \<in> set (fst ?e)" using expire_find [OF wf i(1)] t by auto
    then show ?thesis by simp
  qed
  moreover have "\<exists>bs. reaper_locked cf now mn p = (Inr bs, ?p)" using r by (simp add: reaper_locked_eq Let_def)
  ultimately show ?thesis using that by blast
qed

text \<open>When the first eligible team has none, the reaper stops and starts no recycling.\<close>

lemma free_iff: "pool_wf p \<Longrightarrow> find_inst p k = Some i \<Longrightarrow> is_free i \<Longrightarrow> i \<in> set (free_instances p)"
  using find_in_set [OF pool_wfD(1), of p k i] by (force simp: free_instances_def)

lemma reaper_stopped:
  assumes wf: "pool_wf p" and cf: "config_ok cf" and free: "free_instances p \<noteq> []" and q: "pl_queue p = c # q"
    and c: "eligible cf now p c" "\<And>f. get_team_flag (pl_flags p) c \<noteq> Inr (Some f)"
  obtains e p' where "reaper_locked cf now mn p = (Inl e, p')" "pl_jobs p' = pl_jobs p" "pl_queue p' = q"
    "\<And>k i x. find_inst p k = Some i \<Longrightarrow> in_expires i = Some x \<Longrightarrow> x \<le> now \<Longrightarrow> find_inst p' k = Some (freed_inst mn i)"
proof -
  let ?e = "expire_all now mn (expired_teams now p) p"
  let ?p = "snd ?e"
  note fr = expire_frame [OF wf, of now mn "expired_teams now p"]
  have wfe: "pool_wf ?p" using expire_all_moves [OF wf cf] wf cf by (rule moves_wf)
  have "tm_instance (pl_teams p c) = None" using c(1) by (simp add: eligible_def)
  then have "c \<notin> set (expired_teams now p)" using pool_wfD(3) [OF wf, of c] by (auto simp: expired_iff [OF wf])
  then have "eligible cf now ?p c" using c(1) fr by (simp add: eligible_def in_cooldown_def)
  then have dw: "dropWhile (\<lambda>c. \<not> eligible cf now ?p c) (pl_queue ?p) = c # q" using fr q by simp
  obtain i0 where i0: "i0 \<in> set (free_instances p)" using free by (cases "free_instances p") auto
  then have "find_inst p (in_id i0) = Some i0" "in_team i0 = None" "is_free i0"
    using free_member [OF wf i0] by (auto simp: is_free_def)
  then have "find_inst ?p (in_id i0) = Some i0" using expire_find [OF wf, of "in_id i0" i0] by auto
  then have "i0 \<in> set (free_instances ?p)" using free_iff [OF wfe] \<open>is_free i0\<close> by blast
  then obtain j others where free': "free_instances ?p = j # others" by (cases "free_instances ?p") auto
  obtain e where da: "do_assign cf now c (in_id j) (?p\<lparr> pl_queue := q \<rparr>) = (Inl (Raised e), ?p\<lparr> pl_queue := q \<rparr>)"
    using c(2) fr by (cases rule: do_assign_cases [of cf now c "in_id j" "?p\<lparr> pl_queue := q \<rparr>"]) auto
  have "promote_all cf now ?p = (Inl (Raised e), ?p\<lparr> pl_queue := q \<rparr>)"
    using free' fr q dw da by (subst promote_all_step) (simp add: promote_next_eq del: dropWhile.simps)
  then have "reaper_locked cf now mn p = (Inl (Raised e), ?p\<lparr> pl_queue := q \<rparr>)" by (simp add: reaper_locked_eq Let_def)
  moreover have "find_inst (?p\<lparr> pl_queue := q \<rparr>) k = Some (freed_inst mn i)"
    if i: "find_inst p k = Some i" "in_expires i = Some x" "x \<le> now" for k i x
  proof -
    obtain t where t: "in_team i = Some t" using pool_wfD(2) [OF wf i(1)] i(2) by (auto simp: inst_ok_def)
    then have "t \<in> set (expired_teams now p)" using i by (auto simp: expired_iff [OF wf])
    then show ?thesis using expire_find [OF wf i(1)] t by auto
  qed
  moreover have "pl_jobs (?p\<lparr> pl_queue := q \<rparr>) = pl_jobs p" "pl_queue (?p\<lparr> pl_queue := q \<rparr>) = q" using fr by simp_all
  ultimately show ?thesis using that by blast
qed

section \<open>Releasing a lease\<close>

lemma release_ok:
  assumes wf: "pool_wf p" and "pl_initialized p" and i: "find_inst p k = Some i" "in_team i = Some t"
  obtains p' where "pool_release cf now mn t p = (True, p')" "find_inst p' k = Some (freed_inst mn i)"
    "pl_jobs p' = pl_jobs p @ [RecycleJob (freed_inst mn i)]" "tm_instance (pl_teams p' t) = None"
    "tm_release (pl_teams p' t) = Some now"
proof -
  have t: "tm_instance (pl_teams p t) = Some k" using pool_wfD(3) [OF wf] i by blast
  obtain p2 where d: "do_release now t p = (Some k, p2)"
    using do_release_wf [OF wf, of now t] t by (cases "do_release now t p") auto
  let ?p1 = "mark_booting mn k p2"
  have f: "find_inst ?p1 k = Some (freed_inst mn i)" using release_find [OF wf t, of mn now k] i d by simp
  have p1: "?p1 = p\<lparr> pl_instances := AList.map_entry k (freed_inst mn) (pl_instances p),
       pl_teams := (pl_teams p)(t := freed_team now (pl_teams p t)) \<rparr>"
    using release_mark [OF wf t, of mn now] d by simp
  have "current_lease p t = Some i" using current_lease_wf [OF wf] t i by simp
  then have r: "pool_release cf now mn t p = (True, ?p1\<lparr> pl_jobs := pl_jobs ?p1 @ [RecycleJob (freed_inst mn i)] \<rparr>)"
    using assms(2) f by (simp add: pool_release_def init_pool_def Let_def d)
  show ?thesis by (rule that [OF r]) (use f p1 in \<open>simp_all add: freed_team_def\<close>)
qed

end
