(* ===== verification/Fhe.thy ===== *)
theory Fhe
  imports Prelude
begin

unbundle bit_operations_syntax

text \<open>
  \<^verbatim>\<open>encrypted-activation/attachment/fhe_core.py\<close>: LWE and GLWE encryption modulo \<open>2 ^ 64\<close>, the
  bootstrapping and key-switching keys, polynomial multiplication by packing the coefficients into one
  large integer, and the serialisation. A random draw takes the next element of the tape; for the noise
  it is the rounded Gaussian itself, so that \<open>\<sigma>\<close> plays no part. The extendable digest of \<^verbatim>\<open>hashlib\<close> is the
  argument \<open>xof\<close>.
\<close>

section \<open>Parameters\<close>

definition Q_BITS :: nat where "Q_BITS = 64"
definition Q_mod :: int where "Q_mod = push_bit Q_BITS 1"
definition MASK :: int where "MASK = Q_mod - 1"
definition Lvl0_n :: nat where "Lvl0_n = 622"
definition Lvl1_n :: nat where "Lvl1_n = 1024"
definition glwe_k :: nat where "glwe_k = 2"
definition poly_n :: nat where "poly_n = 512"
definition plain_P :: int where "plain_P = 5"
definition Delta :: int where "Delta = Q_mod div plain_P"
definition Bgbit :: nat where "Bgbit = 19"
definition bsk_l :: nat where "bsk_l = 1"
definition basebit :: nat where "basebit = 12"
definition ksk_t :: nat where "ksk_t = 2"
definition alpha0_u64 :: int where "alpha0_u64 = 2 ^ 19"
definition alpha1_u64 :: int where "alpha1_u64 = 2 ^ 12"
definition SEED_BYTES :: nat where "SEED_BYTES = 32"
definition SLOT :: nat where "SLOT = 128"
definition SLOTMASK :: int where "SLOTMASK = push_bit SLOT 1 - 1"

section \<open>Randomness\<close>

fun rmap :: "('a \<Rightarrow> 'b rnd) \<Rightarrow> 'a list \<Rightarrow> 'b list rnd" where
  "rmap f [] = rret []"
| "rmap f (x # xs) = rbind (f x) (\<lambda>y. rbind (rmap f xs) (\<lambda>ys. rret (y # ys)))"

fun noise :: "int \<Rightarrow> int rnd" where
  "noise \<sigma> [] = Inl EntropyExhausted"
| "noise \<sigma> (r # t) = Inr (r, t)"

definition u64 :: "int \<Rightarrow> int" where
  "u64 x = x AND MASK"

definition rand_u64 :: "int rnd" where
  "rand_u64 = randbelow (2 ^ 64)"

definition rand_bit :: "int rnd" where
  "rand_bit = randbelow 2"

definition rand_seed :: "bytes rnd" where
  "rand_seed = rbind (rtimes SEED_BYTES (randbelow 256)) (\<lambda>bs. rret (map word_of_int bs))"

definition decompress :: "(bytes \<Rightarrow> nat \<Rightarrow> bytes) \<Rightarrow> bytes \<Rightarrow> int list res" where
  "decompress xof seed =
     (if length seed \<noteq> SEED_BYTES then Inl ValueError
      else
        let stream = xof (seed @ to_bytes_little 8 (int Lvl1_n)) (8 * Lvl1_n) in
        Inr (map (\<lambda>i. from_bytes_little (take 8 (drop (8 * i) stream))) [0..<Lvl1_n]))"

section \<open>Polynomials\<close>

definition poly_add :: "int list \<Rightarrow> int list \<Rightarrow> int list" where
  "poly_add a b = map2 (\<lambda>x y. u64 (x + y)) a b"

definition pack :: "int list \<Rightarrow> int" where
  "pack p = foldl (\<lambda>x i. push_bit SLOT x OR (p ! i AND SLOTMASK)) 0 (rev [0..<poly_n])"

definition poly_mul_step :: "int \<Rightarrow> int list \<Rightarrow> nat \<Rightarrow> int list" where
  "poly_mul_step C out i =
     (let c = drop_bit (i * SLOT) C AND SLOTMASK in
      if c = 0 then out
      else if i < poly_n then out[i := (out ! i + c) AND MASK]
      else out[i - poly_n := (out ! (i - poly_n) - c) AND MASK])"

text \<open>A polynomial with fewer than \<open>n\<close> coefficients is an \<^verbatim>\<open>IndexError\<close>.\<close>

definition poly_mul :: "int list \<Rightarrow> int list \<Rightarrow> int list res" where
  "poly_mul a b =
     (if length a < poly_n \<or> length b < poly_n then Inl IndexError
      else
        let C = pack a * pack b in
        Inr (foldl (poly_mul_step C) (replicate poly_n 0) [0..<2 * poly_n - 1]))"

section \<open>Keys and ciphertexts\<close>

record secret_key =
  sk_lvl0 :: "int list"
  sk_lvl1 :: "int list"

record lwe =
  lwe_a :: "int list"
  lwe_b :: int

record glwe =
  glwe_a :: "int list list"
  glwe_b :: "int list"

record bootstrap_key =
  bsk_rows :: "glwe list list"
  bsk_Bgbit :: nat
  bsk_level :: nat

record key_switch_key =
  ksk_rows :: "lwe list list"
  ksk_basebit :: nat
  ksk_level :: nat

definition lwe_encrypt :: "int list \<Rightarrow> int list \<Rightarrow> int \<Rightarrow> int \<Rightarrow> lwe rnd" where
  "lwe_encrypt a s \<mu> \<sigma> =
     rbind (noise \<sigma>) (\<lambda>e.
     let b = foldl (\<lambda>b (ai, si). (b + ai * si) AND MASK) (\<mu> + e) (zip a s) in
     rret \<lparr> lwe_a = a, lwe_b = u64 b \<rparr>)"

fun mask_product :: "int list \<Rightarrow> (int list \<times> int list) list \<Rightarrow> int list res" where
  "mask_product acc [] = Inr acc"
| "mask_product acc ((a, s) # ps) = ebind (poly_mul a s) (\<lambda>p. mask_product (poly_add acc p) ps)"

definition glwe_encrypt :: "int list list \<Rightarrow> int list \<Rightarrow> int \<Rightarrow> glwe rnd" where
  "glwe_encrypt s \<mu> \<sigma> =
     rbind (rtimes glwe_k (rtimes poly_n rand_u64)) (\<lambda>a.
     rbind (rlift (mask_product (replicate poly_n 0) (zip a s))) (\<lambda>aS.
     rbind (rmap (\<lambda>i. rbind (noise \<sigma>) (\<lambda>e. rret ((aS ! i + \<mu> ! i + e) AND MASK))) [0..<poly_n]) (\<lambda>b.
     rret \<lparr> glwe_a = a, glwe_b = b \<rparr>)))"

definition gen_bsk :: "secret_key \<Rightarrow> bootstrap_key rnd" where
  "gen_bsk sk =
     (let Bg = push_bit Bgbit (1 :: int);
          gadget = map (\<lambda>j. Q_mod div Bg ^ j) [1..<bsk_l + 1];
          poly_sk = map (\<lambda>i. take poly_n (drop (i * poly_n) (sk_lvl1 sk))) [0..<glwe_k];
          mu = (\<lambda>si part g.
            if part < glwe_k then (let scaled = u64 (- (si * g)) in map (\<lambda>c. u64 (scaled * c)) (poly_sk ! part))
            else u64 (si * g) # replicate (poly_n - 1) 0)
      in rbind (rmap (\<lambda>si. rmap (\<lambda>(part, g). glwe_encrypt poly_sk (mu si part g) alpha1_u64)
                              (List.product [0..<glwe_k + 1] gadget)) (sk_lvl0 sk))
           (\<lambda>rows. rret \<lparr> bsk_rows = rows, bsk_Bgbit = Bgbit, bsk_level = bsk_l \<rparr>))"

definition gen_ksk :: "secret_key \<Rightarrow> key_switch_key rnd" where
  "gen_ksk sk =
     (let Bk = push_bit basebit (1 :: int) in
      rbind (rmap (\<lambda>si. rmap (\<lambda>j.
          let scaled = u64 (si * (Q_mod div Bk ^ j)) in
          rbind (rtimes Lvl0_n rand_u64) (\<lambda>a. lwe_encrypt a (sk_lvl0 sk) scaled alpha0_u64))
        [1..<ksk_t + 1]) (sk_lvl1 sk))
      (\<lambda>rows. rret \<lparr> ksk_rows = rows, ksk_basebit = basebit, ksk_level = ksk_t \<rparr>))"

definition fhe_keygen :: "(secret_key \<times> bootstrap_key \<times> key_switch_key) rnd" where
  "fhe_keygen =
     rbind (rtimes Lvl0_n rand_bit) (\<lambda>lvl0.
     rbind (rtimes Lvl1_n rand_bit) (\<lambda>lvl1.
     let sk = \<lparr> sk_lvl0 = lvl0, sk_lvl1 = lvl1 \<rparr> in
     rbind (gen_bsk sk) (\<lambda>bsk. rbind (gen_ksk sk) (\<lambda>ksk. rret (sk, bsk, ksk)))))"

section \<open>Messages\<close>

text \<open>The seed is drawn unless it is given.\<close>

definition encrypt_ciphertext ::
  "(bytes \<Rightarrow> nat \<Rightarrow> bytes) \<Rightarrow> secret_key \<Rightarrow> int \<Rightarrow> bytes option \<Rightarrow> (bytes \<times> lwe) rnd" where
  "encrypt_ciphertext xof sk m seed =
     (let \<mu> = (Delta * (m mod plain_P)) AND MASK in
      rbind (case seed of None \<Rightarrow> rand_seed | Some s \<Rightarrow> rret s) (\<lambda>seed.
      rbind (rlift (decompress xof seed)) (\<lambda>a.
      rbind (lwe_encrypt a (sk_lvl1 sk) \<mu> alpha1_u64) (\<lambda>ct. rret (seed, ct)))))"

definition decrypt_ciphertext :: "secret_key \<Rightarrow> lwe \<Rightarrow> int" where
  "decrypt_ciphertext sk ct =
     (let phase = foldl (\<lambda>ph (ai, si). (ph - ai * si) AND MASK) (lwe_b ct) (zip (lwe_a ct) (sk_lvl1 sk)) in
      drop_bit Q_BITS ((phase AND MASK) * plain_P + drop_bit 1 Q_mod) mod plain_P)"

section \<open>Serialisation\<close>

definition u64le :: "int \<Rightarrow> bytes" where
  "u64le v = to_bytes_little 8 (v AND MASK)"

definition rd :: "bytes \<Rightarrow> nat \<Rightarrow> int \<times> nat" where
  "rd buf off = (from_bytes_little (take 8 (drop off buf)), off + 8)"

definition serialize_client_key :: "secret_key \<Rightarrow> bytes" where
  "serialize_client_key sk =
     u64le (int Lvl0_n) @ u64le (int Lvl1_n) @ concat (map u64le (sk_lvl0 sk)) @ concat (map u64le (sk_lvl1 sk))"

definition serialize_lwe_ciphertext :: "lwe \<Rightarrow> bytes" where
  "serialize_lwe_ciphertext c =
     u64le (int (length (lwe_a c))) @ u64le 0 @ concat (map u64le (lwe_a c)) @ u64le (lwe_b c)"

definition serialize_glwe :: "glwe \<Rightarrow> bytes" where
  "serialize_glwe ct =
     u64le (int (length (glwe_a ct))) @ u64le (int (length (glwe_b ct)))
     @ concat (map (\<lambda>poly. concat (map u64le poly)) (glwe_a ct)) @ concat (map u64le (glwe_b ct))"

definition serialize_bsk :: "bootstrap_key \<Rightarrow> bytes" where
  "serialize_bsk bsk =
     u64le (int (bsk_Bgbit bsk)) @ u64le (int (bsk_level bsk)) @ u64le (int (length (bsk_rows bsk)))
     @ concat (map (\<lambda>trgsw. u64le (int (length trgsw)) @ concat (map serialize_glwe trgsw)) (bsk_rows bsk))"

definition serialize_ksk :: "key_switch_key \<Rightarrow> bytes" where
  "serialize_ksk ksk =
     u64le (int (ksk_basebit ksk)) @ u64le (int (ksk_level ksk)) @ u64le (int (length (ksk_rows ksk)))
     @ concat (map (\<lambda>per_level. u64le (int (length per_level)) @ concat (map serialize_lwe_ciphertext per_level))
         (ksk_rows ksk))"

fun rd_many :: "nat \<Rightarrow> bytes \<Rightarrow> nat \<Rightarrow> int list \<times> nat" where
  "rd_many 0 buf off = ([], off)"
| "rd_many (Suc k) buf off =
     (let (v, off) = rd buf off; (vs, off) = rd_many k buf off in (v # vs, off))"

definition parse_lwe_ciphertext :: "bytes \<Rightarrow> lwe" where
  "parse_lwe_ciphertext buf =
     (let off = 0; (lwe_dim, off) = rd buf off; (_, off) = rd buf off;
          (a, off) = rd_many (nat lwe_dim) buf off; (b, off) = rd buf off
      in \<lparr> lwe_a = a, lwe_b = b \<rparr>)"

definition parse_client_key :: "bytes \<Rightarrow> secret_key" where
  "parse_client_key buf =
     (let off = 0; (lvl0_n, off) = rd buf off; (lvl1_n, off) = rd buf off;
          (lvl0, off) = rd_many (nat lvl0_n) buf off; (lvl1, off) = rd_many (nat lvl1_n) buf off
      in \<lparr> sk_lvl0 = lvl0, sk_lvl1 = lvl1 \<rparr>)"

section \<open>Decryption inverts encryption while the noise is small\<close>

abbreviation Q64 :: int where "Q64 \<equiv> 18446744073709551616"

lemma and_MASK: "x AND MASK = x mod Q64"
proof -
  have "x AND MASK = take_bit 64 x" by (simp add: MASK_def Q_mod_def Q_BITS_def take_bit_eq_mask mask_eq_exp_minus_1)
  then show ?thesis by (simp add: take_bit_eq_mod)
qed

lemma Q_eq: "Q_mod = Q64"
  by (simp add: Q_mod_def Q_BITS_def)

lemma add_products:
  "foldl (\<lambda>b (ai, si). (b + ai * si) AND MASK) b ps mod Q64 = (b + (\<Sum>(ai, si) \<leftarrow> ps. ai * si)) mod Q64"
proof (induction ps arbitrary: b)
  case (Cons p ps)
  show ?case using Cons [of "(b + fst p * snd p) AND MASK"]
    by (cases p) (simp add: and_MASK mod_add_left_eq add.assoc)
qed simp

lemma sub_products:
  "foldl (\<lambda>b (ai, si). (b - ai * si) AND MASK) b ps mod Q64 = (b - (\<Sum>(ai, si) \<leftarrow> ps. ai * si)) mod Q64"
proof (induction ps arbitrary: b)
  case (Cons p ps)
  show ?case using Cons [of "(b - fst p * snd p) AND MASK"]
    by (cases p) (simp add: and_MASK mod_diff_left_eq diff_diff_eq)
qed simp

lemma decode_phase:
  fixes r e :: int
  assumes "0 \<le> r" and "r < 5" and "\<bar>e\<bar> \<le> 2 ^ 60"
  shows "((Delta * r + e) mod Q64 * 5 + 9223372036854775808) div Q64 mod 5 = r"
proof -
  have D: "Delta = 3689348814741910323" by (simp add: Delta_def Q_eq plain_P_def)
  have e: "- 1152921504606846976 \<le> e" "e \<le> 1152921504606846976" using assms(3) by auto
  show ?thesis
  proof (cases "0 \<le> Delta * r + e")
    case True
    have "Delta * r + e < Q64" using assms e by (simp add: D)
    then have m: "(Delta * r + e) mod Q64 = Delta * r + e" using True by simp
    have "((Delta * r + e) * 5 + 9223372036854775808) div Q64 = r + (5 * e - r + 9223372036854775808) div Q64"
    proof -
      have "(Delta * r + e) * 5 + 9223372036854775808 = Q64 * r + (5 * e - r + 9223372036854775808)" by (simp add: D)
      then show ?thesis by (simp only: div_mult_self4)
    qed
    moreover have "(5 * e - r + 9223372036854775808) div Q64 = 0" using assms e by (intro div_pos_pos_trivial) auto
    ultimately show ?thesis using assms m by simp
  next
    case False
    then have r: "r = 0" using assms e by (cases "r = 0") (auto simp: D)
    then have "e < 0" using False by simp
    then have "(e + Q64) mod Q64 = e + Q64" using e by (intro mod_pos_pos_trivial) auto
    then have "e mod Q64 = e + Q64" by simp
    then have "(e mod Q64 * 5 + 9223372036854775808) div Q64 = 5 + (5 * e + 9223372036854775808) div Q64" by simp
    moreover have "(5 * e + 9223372036854775808) div Q64 = 0" using e by (intro div_pos_pos_trivial) auto
    ultimately show ?thesis using r by simp
  qed
qed

lemma lwe_decrypts:
  assumes "lwe_encrypt a (sk_lvl1 sk) \<mu> \<sigma> (e # t) = Inr (ct, t')"
    and "\<mu> = (Delta * (m mod plain_P)) AND MASK" and "\<bar>e\<bar> \<le> 2 ^ 60"
  shows "decrypt_ciphertext sk ct = m mod 5 \<and> lwe_a ct = a \<and> t' = t"
proof -
  let ?ps = "zip a (sk_lvl1 sk)"
  let ?S = "\<Sum>(ai, si) \<leftarrow> ?ps. ai * si"
  define B where "B = foldl (\<lambda>b (ai, si). (b + ai * si) AND MASK) (\<mu> + e) ?ps"
  have ct: "ct = \<lparr> lwe_a = a, lwe_b = u64 B \<rparr>" "t' = t"
    using assms(1) by (simp_all add: lwe_encrypt_def rbind_app rret_def B_def)
  have B: "B mod Q64 = (\<mu> + e + ?S) mod Q64" unfolding B_def by (rule add_products)
  have "lwe_b ct mod Q64 = (\<mu> + e + ?S) mod Q64" by (simp only: ct lwe.select_convs u64_def and_MASK mod_mod_trivial B)
  then have "(lwe_b ct - ?S) mod Q64 = (\<mu> + e) mod Q64" using mod_diff_cong [of "lwe_b ct" Q64 "\<mu> + e + ?S" ?S ?S] by simp
  also have "\<dots> = (Delta * (m mod 5) + e) mod Q64" by (simp add: assms(2) plain_P_def and_MASK mod_add_left_eq)
  finally have S: "(lwe_b ct - ?S) mod Q64 = (Delta * (m mod 5) + e) mod Q64" .
  define ph where "ph = foldl (\<lambda>ph (ai, si). (ph - ai * si) AND MASK) (lwe_b ct) ?ps"
  have "decrypt_ciphertext sk ct = ((Delta * (m mod 5) + e) mod Q64 * 5 + 9223372036854775808) div Q64 mod 5"
  proof -
    have "ph mod Q64 = (Delta * (m mod 5) + e) mod Q64" unfolding ph_def sub_products by (rule S)
    moreover have "decrypt_ciphertext sk ct = (ph mod Q64 * 5 + 9223372036854775808) div Q64 mod 5"
      unfolding decrypt_ciphertext_def Let_def ph_def
      by (simp only: ct lwe.select_convs and_MASK plain_P_def Q_eq drop_bit_eq_div Q_BITS_def) simp
    ultimately show ?thesis by (simp only:)
  qed
  also have "\<dots> = m mod 5" by (rule decode_phase) (use assms(3) in simp_all)
  finally show ?thesis using ct by simp
qed

lemma decrypt_encrypt_fhe:
  assumes "encrypt_ciphertext xof sk m (Some seed) (e # t) = Inr ((seed', ct), t')" and "\<bar>e\<bar> \<le> 2 ^ 60"
  shows "decrypt_ciphertext sk ct = m mod 5 \<and> decompress xof seed = Inr (lwe_a ct) \<and> seed' = seed"
  using assms(1) lwe_decrypts [OF _ refl assms(2), of _ sk m alpha1_u64 t ct t']
  by (auto simp: encrypt_ciphertext_def Let_def rnd_simps)

lemma encrypt_returns:
  assumes "length seed = SEED_BYTES" and "\<bar>e\<bar> \<le> 2 ^ 60"
  obtains ct where "encrypt_ciphertext xof sk m (Some seed) (e # t) = Inr ((seed, ct), t)" "decrypt_ciphertext sk ct = m mod 5"
proof -
  obtain a where "decompress xof seed = Inr a" using assms(1) by (simp add: decompress_def Let_def)
  then have "\<exists>ct. encrypt_ciphertext xof sk m (Some seed) (e # t) = Inr ((seed, ct), t)"
    by (simp add: encrypt_ciphertext_def lwe_encrypt_def rbind_app rret_def Let_def)
  then show ?thesis using that decrypt_encrypt_fhe [OF _ assms(2)] by blast
qed

section \<open>Serialisation round trips\<close>

lemma length_u64le [simp]: "length (u64le v) = 8"
  by (simp add: u64le_def)

lemma rd_u64le:
  assumes "0 \<le> v" and "v < Q64" and "length pre = off"
  shows "rd (pre @ u64le v @ rest) off = (v, off + 8)"
  using assms by (simp add: rd_def u64le_def from_to_bytes_little and_MASK)

lemma rd_many_u64le:
  assumes "\<forall>v \<in> set vs. 0 \<le> v \<and> v < Q64" and "length pre = off"
  shows "rd_many (length vs) (pre @ concat (map u64le vs) @ rest) off = (vs, off + 8 * length vs)"
  using assms
proof (induction vs arbitrary: pre off)
  case (Cons v vs)
  have "rd (pre @ u64le v @ (concat (map u64le vs) @ rest)) off = (v, off + 8)"
    using Cons.prems by (intro rd_u64le) auto
  moreover have "rd_many (length vs) ((pre @ u64le v) @ concat (map u64le vs) @ rest) (off + 8) = (vs, off + 8 + 8 * length vs)"
    using Cons.prems by (intro Cons.IH) auto
  ultimately show ?case by simp
qed simp

definition words64 :: "int list \<Rightarrow> bool" where
  "words64 vs \<longleftrightarrow> int (length vs) < Q64 \<and> (\<forall>v \<in> set vs. 0 \<le> v \<and> v < Q64)"

lemma parse_serialize_lwe:
  assumes "words64 (lwe_a c)" and "0 \<le> lwe_b c" and "lwe_b c < Q64"
  shows "parse_lwe_ciphertext (serialize_lwe_ciphertext c) = c"
proof -
  let ?a = "lwe_a c"
  let ?n = "u64le (int (length ?a))"
  have 1: "rd ([] @ ?n @ u64le 0 @ concat (map u64le ?a) @ u64le (lwe_b c)) 0 = (int (length ?a), 0 + 8)"
    using assms(1) by (intro rd_u64le) (auto simp: words64_def)
  have 2: "rd (?n @ u64le 0 @ concat (map u64le ?a) @ u64le (lwe_b c)) 8 = (0, 8 + 8)"
    by (intro rd_u64le) auto
  have 3: "rd_many (length ?a) ((?n @ u64le 0) @ concat (map u64le ?a) @ u64le (lwe_b c)) 16 = (?a, 16 + 8 * length ?a)"
    using assms(1) by (intro rd_many_u64le) (auto simp: words64_def)
  have l: "length (concat (map u64le vs)) = 8 * length vs" for vs by (induction vs) simp_all
  have 4: "rd ((?n @ u64le 0 @ concat (map u64le ?a)) @ u64le (lwe_b c) @ []) (16 + 8 * length ?a) = (lwe_b c, 16 + 8 * length ?a + 8)"
    using assms by (intro rd_u64le) (auto simp: l)
  show ?thesis using 1 2 3 4 by (simp add: parse_lwe_ciphertext_def serialize_lwe_ciphertext_def Let_def)
qed

lemma parse_serialize_client_key:
  assumes "words64 (sk_lvl0 sk)" and "words64 (sk_lvl1 sk)" and "length (sk_lvl0 sk) = Lvl0_n" and "length (sk_lvl1 sk) = Lvl1_n"
  shows "parse_client_key (serialize_client_key sk) = sk"
proof -
  let ?a = "sk_lvl0 sk" and ?b = "sk_lvl1 sk"
  let ?m = "u64le (int Lvl0_n)" and ?n = "u64le (int Lvl1_n)"
  have 1: "rd ([] @ ?m @ ?n @ concat (map u64le ?a) @ concat (map u64le ?b)) 0 = (int Lvl0_n, 0 + 8)"
    by (intro rd_u64le) (auto simp: Lvl0_n_def)
  have 2: "rd (?m @ ?n @ concat (map u64le ?a) @ concat (map u64le ?b)) 8 = (int Lvl1_n, 8 + 8)"
    by (intro rd_u64le) (auto simp: Lvl1_n_def)
  have 3: "rd_many (length ?a) ((?m @ ?n) @ concat (map u64le ?a) @ concat (map u64le ?b)) 16 = (?a, 16 + 8 * length ?a)"
    using assms(1) by (intro rd_many_u64le) (auto simp: words64_def)
  have l: "length (concat (map u64le vs)) = 8 * length vs" for vs by (induction vs) simp_all
  have 4: "rd_many (length ?b) ((?m @ ?n @ concat (map u64le ?a)) @ concat (map u64le ?b) @ []) (16 + 8 * length ?a)
      = (?b, 16 + 8 * length ?a + 8 * length ?b)"
    using assms(2) by (intro rd_many_u64le) (auto simp: words64_def l)
  show ?thesis using 1 2 3 4 assms(3,4)
    by (simp add: parse_client_key_def serialize_client_key_def Let_def)
qed

end
