(* ===== verification/FhePoly.thy ===== *)
theory FhePoly
  imports Fhe
begin

unbundle bit_operations_syntax

text \<open>
  Why \<open>poly_mul\<close> of \<^verbatim>\<open>fhe_core.py\<close> is the product of polynomials modulo \<open>X ^ n + 1\<close> and \<open>2 ^ 64\<close>: the
  coefficients are the digits, to the base \<open>2 ^ 128\<close>, of a product of two integers, as long as no
  coefficient of the product reaches the base. The key polynomials, whose coefficients are bits, keep
  far below this bound.
\<close>

section \<open>Digits\<close>

abbreviation slot_base :: int where
  "slot_base \<equiv> 2 ^ SLOT"

lemma digit_of_sum:
  fixes c :: "nat \<Rightarrow> int"
  assumes "0 < B" and "\<And>r. r \<le> N \<Longrightarrow> 0 \<le> c r \<and> c r < B" and "i \<le> N"
  shows "(\<Sum>r\<le>N. c r * B ^ r) div B ^ i mod B = c i"
  using assms(2,3)
proof (induction i arbitrary: c N)
  case 0
  have split: "(\<Sum>r\<le>N. c r * B ^ r) = c 0 + B * (\<Sum>r\<in>{1..N}. c r * B ^ (r - 1))"
  proof -
    have "(\<Sum>r\<le>N. c r * B ^ r) = c 0 + (\<Sum>r\<in>{1..N}. c r * B ^ r)"
      by (simp add: sum.atLeast_Suc_atMost [of 0 N] atMost_atLeast0)
    also have "(\<Sum>r\<in>{1..N}. c r * B ^ r) = (\<Sum>r\<in>{1..N}. B * (c r * B ^ (r - 1)))"
    proof (rule sum.cong)
      fix r :: nat assume "r \<in> {1..N}"
      then have "B ^ r = B * B ^ (r - 1)" by (cases r) auto
      then show "c r * B ^ r = B * (c r * B ^ (r - 1))" by simp
    qed simp
    finally show ?thesis by (simp add: sum_distrib_left)
  qed
  show ?case using "0.prems"(1) [of 0] by (simp add: split)
next
  case (Suc i)
  then obtain M where N: "N = Suc M" by (cases N) auto
  have "(\<Sum>r\<le>N. c r * B ^ r) = c 0 + B * (\<Sum>r\<le>M. c (Suc r) * B ^ r)"
    by (simp add: N sum.atMost_Suc_shift sum_distrib_left algebra_simps del: sum.atMost_Suc)
  moreover have "c 0 div B = 0" using Suc.prems(1) [of 0] by (intro div_pos_pos_trivial) auto
  ultimately have "(\<Sum>r\<le>N. c r * B ^ r) div B = (\<Sum>r\<le>M. c (Suc r) * B ^ r)" using assms(1) by simp
  moreover have "(\<Sum>r\<le>M. c (Suc r) * B ^ r) div B ^ i mod B = c (Suc i)"
    using Suc.prems N by (intro Suc.IH) auto
  ultimately show ?case using assms(1) by (simp add: zdiv_zmult2_eq)
qed

lemma and_take: "x AND SLOTMASK = take_bit SLOT x"
  by (simp add: SLOTMASK_def take_bit_eq_mask mask_eq_exp_minus_1)

lemma and_SLOTMASK: "x AND SLOTMASK = x mod slot_base"
  by (simp add: and_take take_bit_eq_mod)

lemma slot_or: "push_bit SLOT x OR (y AND SLOTMASK) = y mod slot_base + slot_base * x"
proof -
  have "push_bit SLOT x OR (y AND SLOTMASK) = concat_bit SLOT y x" by (simp add: and_take concat_bit_def or.commute)
  then show ?thesis by (simp add: concat_bit_eq take_bit_eq_mod push_bit_eq_mult mult.commute)
qed

lemma pack_sum: "pack p = (\<Sum>i<poly_n. p ! i mod slot_base * slot_base ^ i)"
proof -
  have "pack p = horner_sum (\<lambda>i. p ! i mod slot_base) slot_base [0..<poly_n]"
    by (simp add: pack_def slot_or foldl_conv_foldr horner_sum_foldr)
  then show ?thesis by (simp add: horner_sum_eq_sum atLeast0LessThan)
qed

section \<open>The product\<close>

definition coeff :: "int list \<Rightarrow> nat \<Rightarrow> int" where
  "coeff p i = (if i < poly_n then p ! i else 0)"

definition conv :: "int list \<Rightarrow> int list \<Rightarrow> nat \<Rightarrow> int" where
  "conv a b k = (\<Sum>i\<le>k. coeff a i * coeff b (k - i))"

text \<open>The product modulo \<open>X ^ n + 1\<close>: what overflows comes back with the opposite sign.\<close>

definition negacyclic :: "int list \<Rightarrow> int list \<Rightarrow> nat \<Rightarrow> int" where
  "negacyclic a b i =
     ((\<Sum>j\<le>i. a ! j * b ! (i - j)) - (\<Sum>j\<in>{i<..<poly_n}. a ! j * b ! (poly_n + i - j))) mod Q64"

lemma poly_n_pos: "0 < poly_n"
  by (simp add: poly_n_def)

lemma conv_low: "i < poly_n \<Longrightarrow> conv a b i = (\<Sum>j\<le>i. a ! j * b ! (i - j))"
  unfolding conv_def by (rule sum.cong) (auto simp: coeff_def)

lemma conv_high:
  assumes "i < poly_n"
  shows "conv a b (poly_n + i) = (\<Sum>j\<in>{i<..<poly_n}. a ! j * b ! (poly_n + i - j))"
proof -
  have "conv a b (poly_n + i) = (\<Sum>j\<in>{i<..<poly_n}. coeff a j * coeff b (poly_n + i - j))"
    unfolding conv_def by (rule sum.mono_neutral_right) (auto simp: coeff_def)
  also have "\<dots> = (\<Sum>j\<in>{i<..<poly_n}. a ! j * b ! (poly_n + i - j))"
    by (rule sum.cong) (auto simp: coeff_def)
  finally show ?thesis .
qed

lemma product_sum:
  assumes "\<forall>x \<in> set a. 0 \<le> x \<and> x < slot_base" and "\<forall>x \<in> set b. 0 \<le> x \<and> x < slot_base"
    and "length a = poly_n" and "length b = poly_n"
  shows "pack a * pack b = (\<Sum>r\<le>2 * poly_n - 2. conv a b r * slot_base ^ r)"
proof -
  have p: "pack p = (\<Sum>i\<le>poly_n - 1. coeff p i * slot_base ^ i)"
    if "\<forall>x \<in> set p. 0 \<le> x \<and> x < slot_base" "length p = poly_n" for p
  proof -
    have "{..<poly_n} = {..poly_n - 1}" using poly_n_pos by auto
    then show ?thesis using that unfolding pack_sum by (intro sum.cong) (auto simp: coeff_def)
  qed
  have "poly_n - 1 + (poly_n - 1) = 2 * poly_n - 2" by simp
  then show ?thesis unfolding p [OF assms(1,3)] p [OF assms(2,4)] conv_def
    by (subst polynomial_product) (auto simp: coeff_def)
qed

lemma mul_steps:
  assumes C: "\<And>i. i < 2 * poly_n - 1 \<Longrightarrow> drop_bit (i * SLOT) C AND SLOTMASK = c i" and "m \<le> 2 * poly_n - 1"
  shows "length (foldl (poly_mul_step C) (replicate poly_n 0) [0..<m]) = poly_n \<and>
    (\<forall>j < poly_n. foldl (poly_mul_step C) (replicate poly_n 0) [0..<m] ! j =
       ((if j < m then c j else 0) - (if poly_n + j < m then c (poly_n + j) else 0)) mod Q64)"
  using assms(2)
proof (induction m)
  case (Suc m)
  let ?w = "foldl (poly_mul_step C) (replicate poly_n 0) [0..<m]"
  have IH: "length ?w = poly_n" "\<And>j. j < poly_n \<Longrightarrow> ?w ! j =
      ((if j < m then c j else 0) - (if poly_n + j < m then c (poly_n + j) else 0)) mod Q64"
    using Suc by simp_all
  have cm: "drop_bit (m * SLOT) C AND SLOTMASK = c m" using Suc.prems by (intro C) simp
  have step: "poly_mul_step C ?w m =
      (if m < poly_n then ?w[m := (?w ! m + c m) mod Q64] else ?w[m - poly_n := (?w ! (m - poly_n) - c m) mod Q64])"
  proof (cases "c m = 0")
    case True
    have "?w ! j mod Q64 = ?w ! j" if "j < poly_n" for j using IH(2) [OF that] by simp
    moreover have "m - poly_n < poly_n" using Suc.prems poly_n_pos by linarith
    ultimately show ?thesis using True by (simp add: poly_mul_step_def cm Let_def)
  qed (simp add: poly_mul_step_def cm Let_def and_MASK)
  have bound: "m - poly_n < poly_n" using Suc.prems poly_n_pos by linarith
  show ?case
  proof (intro conjI allI impI)
    fix j assume j: "j < poly_n"
    show "foldl (poly_mul_step C) (replicate poly_n 0) [0..<Suc m] ! j =
       ((if j < Suc m then c j else 0) - (if poly_n + j < Suc m then c (poly_n + j) else 0)) mod Q64"
    proof (cases "m < poly_n")
      case True
      then show ?thesis using IH j by (cases "j = m") (auto simp: step)
    next
      case False
      then show ?thesis using IH j bound by (cases "j = m - poly_n") (auto simp: step mod_diff_left_eq)
    qed
  qed (use IH(1) in \<open>simp add: step\<close>)
qed simp

lemma poly_mul_negacyclic:
  assumes a: "length a = poly_n" "\<forall>x \<in> set a. 0 \<le> x \<and> x < M" and b: "length b = poly_n" "\<forall>y \<in> set b. 0 \<le> y \<and> y < N"
    and bound: "int poly_n * (M * N) \<le> slot_base"
  shows "poly_mul a b = Inr (map (negacyclic a b) [0..<poly_n])"
proof -
  have MN: "0 < M" "0 < N"
    using a b poly_n_pos by (metis hd_in_set le_less_trans length_greater_0_conv)+
  have "M \<le> M * N" "N \<le> M * N" using MN by (simp_all add: mult_le_cancel_left1 mult_le_cancel_right1)
  moreover have "M * N \<le> int poly_n * (M * N)" using mult_right_mono [of 1 "int poly_n" "M * N"] mult_pos_pos [OF MN] poly_n_pos by simp
  ultimately have le: "M \<le> slot_base" "N \<le> slot_base" using bound by linarith+
  have prod: "pack a * pack b = (\<Sum>r\<le>2 * poly_n - 2. conv a b r * slot_base ^ r)"
    using a b le by (intro product_sum) fastforce+
  have ca: "0 \<le> coeff a i" "coeff a i < M" for i using a MN by (auto simp: coeff_def)
  have cb: "0 \<le> coeff b i" "coeff b i < N" for i using b MN by (auto simp: coeff_def)
  have c: "0 \<le> conv a b r \<and> conv a b r < slot_base" for r
  proof
    show "0 \<le> conv a b r" unfolding conv_def using ca cb by (intro sum_nonneg) simp
    have "conv a b r = (\<Sum>i\<in>{..r} \<inter> {..<poly_n}. coeff a i * coeff b (r - i))"
      unfolding conv_def by (rule sum.mono_neutral_right) (auto simp: coeff_def)
    also have "\<dots> \<le> (\<Sum>i\<in>{..r} \<inter> {..<poly_n}. M * N - 1)"
    proof (rule sum_mono)
      fix i
      have "coeff a i * coeff b (r - i) \<le> (M - 1) * (N - 1)" using ca cb MN by (intro mult_mono) (simp_all add: zle_diff1_eq)
      also have "\<dots> \<le> M * N - 1" using MN by (simp add: algebra_simps)
      finally show "coeff a i * coeff b (r - i) \<le> M * N - 1" .
    qed
    also have "\<dots> = int (card ({..r} \<inter> {..<poly_n})) * (M * N - 1)" by simp
    also have "\<dots> \<le> int poly_n * (M * N - 1)"
    proof (rule mult_right_mono)
      have "card ({..r} \<inter> {..<poly_n}) \<le> card {..<poly_n}" by (intro card_mono) auto
      then show "int (card ({..r} \<inter> {..<poly_n})) \<le> int poly_n" by simp
      have "0 < M * N" using MN by simp
      then show "0 \<le> M * N - 1" by linarith
    qed
    also have "\<dots> < slot_base" using bound poly_n_pos by (simp add: right_diff_distrib)
    finally show "conv a b r < slot_base" .
  qed
  have "drop_bit (i * SLOT) (pack a * pack b) AND SLOTMASK = conv a b i" if "i < 2 * poly_n - 1" for i
  proof -
    have "drop_bit (i * SLOT) (pack a * pack b) AND SLOTMASK = pack a * pack b div slot_base ^ i mod slot_base"
      by (simp add: and_SLOTMASK drop_bit_eq_div mult.commute flip: power_mult)
    also have "\<dots> = conv a b i" unfolding prod by (rule digit_of_sum) (use c that in auto)
    finally show ?thesis .
  qed
  note st = mul_steps [of "pack a * pack b" "conv a b" "2 * poly_n - 1", OF this order_refl]
  let ?w = "foldl (poly_mul_step (pack a * pack b)) (replicate poly_n 0) [0..<2 * poly_n - 1]"
  have "?w = map (negacyclic a b) [0..<poly_n]"
  proof (rule nth_equalityI)
    fix j assume "j < length ?w"
    then have j: "j < poly_n" using st by simp
    have z: "conv a b (poly_n + j) = 0" if "\<not> poly_n + j < 2 * poly_n - 1"
    proof -
      have "{j<..<poly_n} = {}" using that by auto
      then show ?thesis by (simp add: conv_high [OF j])
    qed
    have "?w ! j = (conv a b j - conv a b (poly_n + j)) mod Q64" using st j z by auto
    then show "?w ! j = map (negacyclic a b) [0..<poly_n] ! j"
      using j by (simp add: negacyclic_def conv_low conv_high)
  qed (use st in simp)
  then show ?thesis using a(1) b(1) by (simp add: poly_mul_def Let_def)
qed

end
