(* ===== verification/Further.thy ===== *)
theory Further
  imports Samples Soundness PoolProps FhePoly
begin

text \<open>
  Further theorems about single components, each applied to an instance: completeness of the remaining
  proofs, homomorphic operations, encodings, and the proof of work.
\<close>

text \<open>Presigning, last round: when the opened sum \<open>\<delta>\<close> is the product \<open>k \<gamma>\<close>, the round computes the nonce
  point \<open>R\<close> with \<open>k R = G\<close>, and hands over the shares \<open>k\<^sub>i R\<close> and \<open>\<chi>\<^sub>i R\<close> that signing publishes.\<close>

theorem presigning_nonce_point:
  assumes "lib_ok L" and "ec_group ec" and "presigning_round_out L ec s m = Inr od"
    and "ps_Gamma s = Some (ec_mult ec gam (generator ec))"
    and "ps_delta_i s = Some d" "(d + p3_delta m) mod cn ec = k * gam mod cn ec"
    and "k * gam mod cn ec \<noteq> 0"
  shows "ec_mult ec k (po_R od) = generator ec
    \<and> po_R_k_i od = Some (ec_mult ec (ps_k_i s) (po_R od))
    \<and> ps_chi_i s = Some (po_chi_i od) \<and> po_R_chi_i od = Some (ec_mult ec (po_chi_i od) (po_R od))
    \<and> po_k_i od = ps_k_i s \<and> valid_point ec (po_R od)"
  using assms by (rule lib_ok.presigning_round_out_R)

theorem presigning_nonce_point_witness:
  "\<exists>s m od. presigning_round_out lib_ref toy_curve s m = Inr od
    \<and> ec_mult toy_curve 4 (po_R od) = generator toy_curve"
proof -
  let ?s = "sample_presigning\<lparr> ps_K_j_ct := Some (enc 35 3 2), ps_Gamma := Some (Point 8 5),
      ps_vdelta_i := Some (Point 8 5), ps_delta_i := Some 4, ps_chi_i := Some 3, ps_k_i := 1 \<rparr>"
  have pts: "ec_mult toy_curve 3 (Point 8 5) = Point 7 8" "ec_add toy_curve (Point 8 5) (Point 7 8) = Point 7 5"
    "ec_mult toy_curve 1 (Point 7 5) = Point 7 5" "valid_point toy_curve (Point 7 8)"
    "invert lib_ref 1 7 = Inr 1" "ec_mult toy_curve 1 (Point 8 5) = Point 8 5"
    by code_simp+
  obtain ls where new: "logstar_new_proof lib_ref 5 toy_curve \<lparr>pk_n = 35\<rparr> (enc 35 3 2)
      (ec_mult toy_curve 3 (Point 8 5)) (Point 8 5) 2 3 35 2 4 [0, 0, 0, 0] = Inr (ls, [])"
    and z: "ls_Z1 ls \<le> 18"
    using lib_ok.logstar_new_proof_returns [OF lib_ref_ok toy_ec_group, of "Point 8 5" 35 "\<lparr>pk_n = 35\<rparr>" 3 0
        5 "enc 35 3 2" "ec_mult toy_curve 3 (Point 8 5)" 2 2 4 0 0 0 "[]"]
    by (auto simp: sample_points)
  have ok: "logstar_verify lib_ref ls 5 toy_curve \<lparr>pk_n = 35\<rparr> (enc 35 3 2)
      (ec_mult toy_curve 3 (Point 8 5)) (Point 8 5) 35 2 4 = Inr True"
    using z by (intro lib_ok.logstar_complete [OF lib_ref_ok new]) (simp_all add: sample_units sample_points)
  have wf: "logstar_wf lib_ref toy_curve ls"
    by (rule lib_ok.logstar_new_wf [OF lib_ref_ok new]) (simp_all add: sample_points)
  let ?m = "\<lparr> p3_delta = 4, p3_vdelta = Point 7 8, p3_psi = logstar_to_bytes_parts ls \<rparr>"
  have ex: "\<exists>od. presigning_round_out lib_ref toy_curve ?s ?m = Inr od"
    using ok logstar_wire.round_trip [OF wf]
    by (simp add: presigning_round_out_def sample_presigning_def pts sample_points point_eq_def
        lib_ok.ec_eqs [OF lib_ref_ok])
  then obtain od where od: "presigning_round_out lib_ref toy_curve ?s ?m = Inr od" by blast
  show ?thesis
    using presigning_nonce_point [OF lib_ref_ok toy_ec_group od, of 2 4 4] od
    by (auto simp: sample_points)
qed

text \<open>Multiplicative-to-additive conversion: the proof that an honest sender attaches to its two
  ciphertexts is accepted by the affine-operation verifier of the receiver.\<close>

theorem mta_proof_accepted:
  assumes "lib_ok L"
    and "new_mta L ssid ec (enc (pk_n pkj) k rho) gamma_i (ec_mult ec gamma_i (generator ec))
      pkj pki NCap s t tp = Inr (out, tp')"
    and "1 < pk_n pkj" "1 < pk_n pki" "1 < NCap" "coprime s NCap" "coprime t NCap"
    and "ec_group ec" "0 \<le> k" "coprime rho (pk_n pkj)"
    and "0 \<le> gamma_i" "gamma_i < cn ec" "cn ec \<le> pk_n pkj"
    and "0 < ag_Z1 (mo_Proofji out)" "ag_Z1 (mo_Proofji out) < cn ec ^ 3"
      "0 < ag_Z3 (mo_Proofji out)" "0 < ag_Z4 (mo_Proofji out)"
  shows "affg_verify L (mo_Proofji out) ssid ec pkj pki NCap s t (enc (pk_n pkj) k rho)
    (mo_Dji out) (mo_Fji out) (ec_mult ec gamma_i (generator ec)) = Inr True"
  using assms by (rule lib_ok.mta_proof_verifies)

theorem mta_proof_accepted_witness:
  "\<exists>out. new_mta lib_ref 5 toy_curve (enc 35 3 2) 2 (ec_mult toy_curve 2 (generator toy_curve))
      \<lparr>pk_n = 35\<rparr> \<lparr>pk_n = 35\<rparr> 35 2 4 [4, 0, 0, 1, 0, 0, 0, 1, 0, 1, 0] = Inr (out, [])
    \<and> affg_verify lib_ref (mo_Proofji out) 5 toy_curve \<lparr>pk_n = 35\<rparr> \<lparr>pk_n = 35\<rparr> 35 2 4 (enc 35 3 2)
        (mo_Dji out) (mo_Fji out) (ec_mult toy_curve 2 (generator toy_curve)) = Inr True"
proof -
  let ?X = "ec_mult toy_curve 2 (generator toy_curve)" and ?pk = "\<lparr>pk_n = 35\<rparr> :: public_key"
  obtain out where new: "new_mta lib_ref 5 toy_curve (enc 35 3 2) 2 ?X ?pk ?pk 35 2 4
      [4, 0, 0, 1, 0, 0, 0, 1, 0, 1, 0] = Inr (out, [])"
    and z: "ag_Z1 (mo_Proofji out) \<le> 13" "1 \<le> ag_Z1 (mo_Proofji out)" "1 \<le> ag_Z3 (mo_Proofji out)"
      "1 \<le> ag_Z4 (mo_Proofji out)"
    using lib_ok.new_mta_returns [OF lib_ref_ok toy_ec_group, of ?pk ?pk 35 2 4 2 3 2 5 ?X 4 1 1 0 1 0 "[]"]
    by (auto simp: sample_points sample_units)
  have "affg_verify lib_ref (mo_Proofji out) 5 toy_curve ?pk ?pk 35 2 4 (enc 35 3 2)
      (mo_Dji out) (mo_Fji out) ?X = Inr True"
    using z mta_proof_accepted [OF lib_ref_ok, of 5 toy_curve ?pk 3 2 2 ?pk 35 2 4 _ out "[]"] new
    by (simp add: sample_points sample_units)
  with new show ?thesis by blast
qed

text \<open>Schnorr proofs: an honest proof of knowledge of \<open>x\<close> for \<open>X = x G\<close> verifies.\<close>

theorem schnorr_complete:
  assumes "lib_ok L" and "ec_group C"
    and "sch_new_proof L ssid C (ec_mult C x (generator C)) x t = Inr (pf, t')"
  shows "sch_verify L pf ssid C (ec_mult C x (generator C)) = Inr True"
  using assms by (rule lib_ok.sch_complete)

theorem schnorr_complete_witness:
  "\<exists>pf. sch_new_proof lib_ref 5 toy_curve (ec_mult toy_curve 3 (generator toy_curve)) 3 [4] = Inr (pf, [])
    \<and> sch_verify lib_ref pf 5 toy_curve (ec_mult toy_curve 3 (generator toy_curve)) = Inr True"
proof -
  let ?X = "ec_mult toy_curve 3 (generator toy_curve)"
  obtain pf where pf: "sch_new_proof lib_ref 5 toy_curve ?X 3 [4] = Inr (pf, [])"
    using lib_ok.sch_new_proof_returns [OF lib_ref_ok toy_ec_group] by blast
  with schnorr_complete [OF lib_ref_ok toy_ec_group pf] show ?thesis by blast
qed

text \<open>Range proof: an honest proof that the plaintext of a Paillier ciphertext is in range verifies when
  its first response is below \<open>q\<^sup>3\<close>, the only case the verifier's range check can refuse.\<close>

theorem range_proof_complete:
  assumes "lib_ok L" and "enc_new_proof L ssid ec pk K NCap s t k rho tp = Inr (pf, tp')"
    and "1 < pk_n pk" "1 < NCap" "coprime s NCap" "coprime t NCap"
    and "K = enc (pk_n pk) k rho" "coprime rho (pk_n pk)" "0 \<le> k"
    and "enc_Z1 pf < cn ec ^ 3"
  shows "enc_verify L pf ssid ec pk NCap s t K = Inr True"
  using assms by (rule lib_ok.enc_complete)

theorem range_proof_complete_witness:
  "\<exists>pf. enc_new_proof lib_ref 5 toy_curve \<lparr>pk_n = 35\<rparr> (enc 35 3 2) 35 2 4 3 2 [1, 2, 3, 0] = Inr (pf, [])
    \<and> enc_verify lib_ref pf 5 toy_curve \<lparr>pk_n = 35\<rparr> 35 2 4 (enc 35 3 2) = Inr True"
proof -
  obtain pf where new: "enc_new_proof lib_ref 5 toy_curve \<lparr>pk_n = 35\<rparr> (enc 35 3 2) 35 2 4 3 2 [1, 2, 3, 0] = Inr (pf, [])"
    and z: "enc_Z1 pf \<le> 19"
    using lib_ok.enc_new_proof_returns [OF lib_ref_ok, of toy_curve 35 "\<lparr>pk_n = 35\<rparr>" 3 0 5 "enc 35 3 2" 2 4 2 1 2 3 "[]"]
    by (auto simp: sample_points)
  then show ?thesis
    using range_proof_complete [OF lib_ref_ok new] by (simp add: sample_units sample_points)
qed

text \<open>No-small-factor proof: the honest proof for \<open>N\<^sub>0 = p q\<close> verifies, including the runs in which the
  response \<open>V\<close> is negative.\<close>

theorem factor_proof_complete:
  assumes "lib_ok L" and "fac_new_proof L ssid ec (p * q) NCap s t p q tp = Inr (pf, tp')"
    and "0 < p" "0 < q" "1 < NCap" "coprime s NCap" "coprime t NCap"
    and "isqrt L (p * q) = Inr w"
    and "fac_Z1 pf < cn ec ^ 3 * w" "fac_Z2 pf < cn ec ^ 3 * w"
  shows "fac_verify L pf ssid ec (p * q) NCap s t = Inr True"
  using assms by (rule lib_ok.fac_complete)

theorem factor_proof_complete_witness:
  "\<exists>pf. fac_new_proof lib_ref 5 toy_curve (5 * 7) 35 2 4 5 7 [1, 2, 3, 4, 5, 6, 7, 8] = Inr (pf, [])
    \<and> fac_verify lib_ref pf 5 toy_curve (5 * 7) 35 2 4 = Inr True"
proof -
  have w: "isqrt lib_ref (5 * 7) = Inr 5" by code_simp
  obtain pf where new: "fac_new_proof lib_ref 5 toy_curve (5 * 7) 35 2 4 5 7 [1, 2, 3, 4, 5, 6, 7, 8] = Inr (pf, [])"
    and z: "fac_Z1 pf \<le> 31" "fac_Z2 pf \<le> 44"
    using lib_ok.fac_new_proof_returns [OF lib_ref_ok, of toy_curve 35 2 4 5 7 5 5 1 2 3 4 5 6 7 8 "[]"] w
    by (auto simp: sample_points sample_units)
  then show ?thesis
    using factor_proof_complete [OF lib_ref_ok new _ _ _ _ _ w] by (simp add: sample_units sample_points)
qed

text \<open>The Blum-modulus proof: for a product of two Blum primes the prover finds a quadratic residue among the
  four twists of every challenge, and the verifier accepts what it sends; the only condition is
  that every challenge is a unit.\<close>

theorem modulus_proof_complete:
  assumes "lib_ok L" and "blum_prime P" "blum_prime Q" "P \<noteq> Q"
    and "coprime (P * Q) ((P - 1) * (Q - 1))"
    and "mod_new_proof L ssid (P * Q) P Q tp = Inr (pf, tp')"
    and "mod_challenges L ssid (md_W pf) (P * Q) mod_Iterations [] = Inr Y"
      "\<forall>y\<in>set Y. coprime y (P * Q)"
  shows "mod_verify L pf ssid (P * Q) = Inr True"
  using assms by (rule lib_ok.mod_complete)

theorem modulus_proof_complete_witness:
  "\<exists>pf. mod_new_proof (lib_digest 1) 5 (7 * 11) 7 11 [1] = Inr (pf, [])
    \<and> mod_verify (lib_digest 1) pf 5 (7 * 11) = Inr True"
proof -
  let ?L = "lib_digest 1"
  have ev: "jacobi lib_ref 2 77 = Inr (-1)" "mod_try lib_ref 77 7 11 2 1 [0, 1, 2, 3] = Inr (Some (0, 0, 1))"
    "invert lib_ref 77 60 = Inr 53" "blum_prime 7" "blum_prime 11" "coprime (7 * 11) ((7 - 1) * (11 - 1) :: int)"
    by code_simp+
  have q: "is_quadratic_residue ?L = is_quadratic_residue lib_ref"
    by (simp add: fun_eq_iff is_quadratic_residue_def jacobi_symbol_def lib_digest_def)
  have tries: "mod_try ?L 77 7 11 2 1 [0, 1, 2, 3] = Inr (Some (0, 0, 1))"
    using ev(2) by (simp only: mod_try.simps q)
  have ch: "mod_challenges ?L 5 W 77 k [] = Inr (replicate k 1)" for W k
    by (simp add: mod_challenges_digest)
  have jac: "jacobi ?L 2 77 = Inr (-1)" and inv: "invert ?L 77 60 = Inr 53"
    using ev by (simp_all add: lib_digest_def)
  have expo: "powmod ?L (drop_bit 3 (60 + 4)) 2 60 = Inr 4"
    by (simp add: lib_ok.powmod_nonneg [OF lib_digest_ok])
  obtain X A B Z where rounds: "mod_prove_rounds ?L 77 7 11 2 4 53 (replicate mod_Iterations 1) 255 255
      = Inr (X, A, B, Z)"
    using mod_prove_rounds_returns [OF lib_digest_ok tries, of 4 53] by (metis prod_cases4 zero_le_numeral zero_less_numeral)
  have num: "7 * 11 = (77::int)" "(7 - 1) * (11 - 1) = (60::int)" by simp_all
  have prove: "mod_prove ?L 5 77 7 11 2 = Inr \<lparr> md_W = 2, md_X = X, md_A = A, md_B = B, md_Z = Z \<rparr>"
    unfolding mod_prove_def Let_def num ch ebind_Inr inv sum.case expo rounds prod.case by (rule refl)
  have "sample_invertible_with_neg_jacobi ?L 77 [1] = Inr (2, [])"
    using jac by (simp add: sample_invertible_with_neg_jacobi_def jacobi_symbol_def randbelow_def rret_def
        rbind_app)
  then have "\<exists>pf. mod_new_proof ?L 5 (7 * 11) 7 11 [1] = Inr (pf, []) \<and> md_W pf = 2"
    using prove by (simp add: mod_new_proof_def num rbind_app rlift_def)
  then obtain pf where new: "mod_new_proof ?L 5 (7 * 11) 7 11 [1] = Inr (pf, [])" and W: "md_W pf = 2" by blast
  have "mod_verify ?L pf 5 (7 * 11) = Inr True"
    using modulus_proof_complete [OF lib_digest_ok ev(4,5) _ ev(6) new] ch [of "md_W pf" mod_Iterations] by simp
  with new show ?thesis by blast
qed

text \<open>The homomorphic operations: adding two ciphertexts and multiplying the sum by a constant gives a
  ciphertext of the combined plaintext, which decryption returns modulo \<open>n\<close>.\<close>

theorem homomorphic_decrypt:
  assumes "lib_ok L" and "key_of_primes p q sk" and "coprime x (pk_n sk)" "coprime y (pk_n sk)"
    and "0 \<le> a" "0 \<le> b" "0 \<le> k" "k < pk_n sk"
  shows "\<exists>c c' sk'. homo_add \<lparr>pk_n = pk_n sk\<rparr> (enc (pk_n sk) a x) (enc (pk_n sk) b y) = Inr c
    \<and> homo_mult L \<lparr>pk_n = pk_n sk\<rparr> k c = Inr c' \<and> decrypt L sk c' = Inr ((a + b) * k mod pk_n sk, sk')"
proof -
  let ?n = "pk_n sk" and ?pk = "\<lparr>pk_n = pk_n sk\<rparr> :: public_key"
  have n: "0 < pk_n ?pk" using assms(7,8) by simp
  have k: "0 \<le> k" "k < pk_n ?pk" using assms(7,8) by simp_all
  have "homo_add ?pk (enc ?n a x) (enc ?n b y) = Inr (enc ?n (a + b) (x * y))"
    using lib_ok.homo_add_enc [OF assms(1) n assms(5,6)] by simp
  moreover have "homo_mult L ?pk k (enc ?n (a + b) (x * y)) = Inr (enc ?n ((a + b) * k) ((x * y) ^ nat k))"
    using lib_ok.homo_mult_enc [OF assms(1) k] assms(5,6) by simp
  ultimately show ?thesis
    using lib_ok.decrypt_enc [OF assms(1,2), of "(x * y) ^ nat k" "(a + b) * k"] assms(3-7) by auto
qed

theorem homomorphic_decrypt_witness:
  "\<exists>c c' sk'. homo_add \<lparr>pk_n = 35\<rparr> (enc 35 3 2) (enc 35 4 4) = Inr c
    \<and> homo_mult lib_ref \<lparr>pk_n = 35\<rparr> 6 c = Inr c' \<and> decrypt lib_ref sample_key c' = Inr (7, sk')"
  using homomorphic_decrypt [OF lib_ref_ok sample_key(1), of 2 4 3 4 6]
  by (simp add: sample_key sample_units)

text \<open>The byte encoding of integers is read back as the absolute value.\<close>

theorem int_bytes_round_trip: "int_from_bytes (int_to_bytes i) = \<bar>i\<bar>"
  by (rule int_from_to_bytes)

text \<open>Messages: a dataclass value whose fields fit their declared types is recovered from its JSON object.\<close>

theorem message_round_trip:
  assumes "distinct (map fst hs)" and "list_all2 (\<lambda>h v. fits L ec (fst (snd h)) v) hs vs"
  shows "from_dict L ec hs (to_dict hs vs) = Inr vs"
  using assms by (rule from_to_dict)

theorem message_round_trip_witness:
  "from_dict lib_ref toy_curve keygen_r3_hints
     (to_dict keygen_r3_hints [FBytes [[1, 2], []], FBytes [], FInt (-17)])
   = Inr [FBytes [[1, 2], []], FBytes [], FInt (-17)]"
  by (rule message_round_trip) (simp_all add: keygen_r3_hints_def fits_def)

text \<open>A nonce is accepted exactly when the digest, read as a number, is below \<open>2\<^sup>2\<^sup>5\<^sup>6\<^sup>-\<^sup>k\<close>.\<close>

theorem pow_threshold:
  assumes "lib_ok L" and "0 \<le> k" and "k \<le> 256" and "0 \<le> nonce" and "nonce < 2 ^ 64"
  shows "verify_pow L c nonce k
    = Inr (from_bytes_big (digest256 L (c @ to_bytes_big 8 nonce)) < 2 ^ nat (256 - k))"
  using assms by (rule lib_ok.verify_pow_iff)

theorem pow_threshold_witness:
  "verify_pow lib_ref [] 3 0
    = Inr (from_bytes_big (digest256 lib_ref (to_bytes_big 8 3)) < 2 ^ 256)"
  using pow_threshold [OF lib_ref_ok, of 0 3 "[]"] by simp

text \<open>The search returns the least nonce that verifies.\<close>

theorem pow_search_least:
  assumes "solve_pow L c k = Inr r"
  shows "0 \<le> r \<and> r < 2 ^ 64 \<and> verify_pow L c r k = Inr True
    \<and> (\<forall>m. 0 \<le> m \<and> m < r \<longrightarrow> verify_pow L c m k = Inr False)"
  using solve_from_least [of L c k 0 r] assms by (simp add: solve_pow_def)

theorem pow_search_least_witness: "solve_pow lib_ref [] 0 = Inr 0 \<and> verify_pow lib_ref [] 0 0 = Inr True"
proof -
  have "solve_pow lib_ref [] 0 = Inr 0"
    by (simp add: solve_pow_def solve_from.simps [of lib_ref "[]" 0 0] has_leading_zero_bits_def)
  with pow_search_least [OF this] show ?thesis by blast
qed

text \<open>A flag that was pushed is the one the next lease of the team reads, and no other team's flag changes.\<close>

theorem team_flag_round_trip:
  assumes "set_team_flag f team flag = Inr f'" and "load_flags f = Inr flags" and "printable flags"
    and "\<bar>team\<bar> < 10 ^ MAX_STR_DIGITS"
  shows "get_team_flag f' t = (if t = team then Inr (Some flag) else get_team_flag f t)"
  using assms by (rule get_set_flag)

theorem team_flag_round_trip_witness:
  "set_team_flag None 7 ''flag'' = Inr (Some [(show_int 7, ''flag'')])
   \<and> get_team_flag (Some [(show_int 7, ''flag'')]) 7 = Inr (Some ''flag'')"
proof -
  have s: "set_team_flag None 7 ''flag'' = Inr (Some [(show_int 7, ''flag'')])"
    by (simp add: set_team_flag_def load_flags_def save_flags_def)
  have "(7::int) < 10 ^ 1" by simp
  also have "\<dots> \<le> 10 ^ MAX_STR_DIGITS" by (rule power_increasing) (simp_all add: MAX_STR_DIGITS_def)
  finally show ?thesis
    using s team_flag_round_trip [OF s, of "[]" 7] by (simp add: load_flags_def printable_def)
qed

text \<open>A ciphertext whose words fit 64 bits is read back from its serialisation.\<close>

theorem ciphertext_round_trip:
  assumes "words64 (lwe_a c)" and "0 \<le> lwe_b c" and "lwe_b c < 2 ^ 64"
  shows "parse_lwe_ciphertext (serialize_lwe_ciphertext c) = c"
  by (rule parse_serialize_lwe) (use assms in simp_all)

theorem ciphertext_round_trip_witness:
  "parse_lwe_ciphertext (serialize_lwe_ciphertext \<lparr> lwe_a = [1, 2 ^ 64 - 1], lwe_b = 300 \<rparr>) = \<lparr> lwe_a = [1, 2 ^ 64 - 1], lwe_b = 300 \<rparr>"
  by (rule ciphertext_round_trip) (simp_all add: words64_def)

end
