(* ===== verification/Xxtea.thy ===== *)
theory Xxtea
  imports Prelude
begin

unbundle bit_operations_syntax

text \<open>
  The block cipher of \<^verbatim>\<open>speedrun/deploy/checker/uuid_stego.py\<close>: XXTEA on lists of 32-bit words, which the
  code keeps as Python integers and masks after each addition, and the packing of bytes into words.
  Decryption undoes encryption for two words or more, and its loop, which runs until the running sum is
  zero, makes as many rounds as the encryption did.
\<close>

section \<open>Bytes and words\<close>

definition DELTA :: int where
  "DELTA = 0x9E3779B9"

definition MASK32 :: int where
  "MASK32 = 0xFFFFFFFF"

definition put_byte :: "bytes \<Rightarrow> int list \<Rightarrow> nat \<Rightarrow> int list" where
  "put_byte dat v i = v[i div 4 := v ! (i div 4) OR push_bit (8 * (i mod 4)) (uint (dat ! i))]"

definition to_u32 :: "bytes \<Rightarrow> bool \<Rightarrow> int list" where
  "to_u32 dat include_length =
     (let n = length dat div 4 + (if length dat mod 4 \<noteq> 0 then 1 else 0);
          v = (if include_length then replicate n 0 @ [int (length dat)] else replicate n 0)
      in foldl (put_byte dat) v [0..<length dat])"

definition get_byte :: "int list \<Rightarrow> nat \<Rightarrow> byte" where
  "get_byte v i = word_of_int (drop_bit (8 * (i mod 4)) (v ! (i div 4)) AND 0xFF)"

definition to_bytes_u32 :: "int list \<Rightarrow> bool \<Rightarrow> bytes res" where
  "to_bytes_u32 v include_length =
     (let n = 4 * int (length v) in
      if include_length then
        (if v = [] then Inl IndexError
         else
           let m = last v; n = n - 4 in
           if m < n - 3 \<or> n < m then Inl AssertionError
           else if m < 0 then Inl ValueError
           else Inr (map (get_byte v) [0..<nat m]))
      else Inr (map (get_byte v) [0..<nat n]))"

section \<open>The cipher\<close>

definition mx :: "int \<Rightarrow> int \<Rightarrow> int \<Rightarrow> nat \<Rightarrow> int \<Rightarrow> int list \<Rightarrow> int" where
  "mx s y z p e k =
     (((drop_bit 5 z XOR push_bit 2 y) + (drop_bit 3 y XOR push_bit 4 z))
      XOR ((s XOR y) + (k ! nat ((int p AND 3) XOR e) XOR z))) AND MASK32"

definition fixk :: "int list \<Rightarrow> int list" where
  "fixk k = k @ replicate (4 - length k) 0"

text \<open>The inner loop of a round of encryption, for one \<open>p\<close>, and the round.\<close>

definition enc_step :: "int \<Rightarrow> int \<Rightarrow> int list \<Rightarrow> int list \<times> int \<Rightarrow> nat \<Rightarrow> int list \<times> int" where
  "enc_step s e key st p =
     (let (v, z) = st; y = v ! (p + 1); x = (v ! p + mx s y z p e key) AND MASK32 in (v[p := x], x))"

definition enc_round :: "nat \<Rightarrow> int list \<Rightarrow> int list \<times> int \<times> int \<Rightarrow> int list \<times> int \<times> int" where
  "enc_round n key st =
     (let (v, z, s) = st;
          s = (s + DELTA) AND MASK32;
          e = drop_bit 2 s AND 3;
          (v, z) = foldl (enc_step s e key) (v, z) [0..<n];
          y = v ! 0;
          x = (v ! n + mx s y z n e key) AND MASK32
      in (v[n := x], x, s))"

fun enc_rounds :: "nat \<Rightarrow> nat \<Rightarrow> int list \<Rightarrow> int list \<times> int \<times> int \<Rightarrow> int list" where
  "enc_rounds 0 n key (v, z, s) = v"
| "enc_rounds (Suc q) n key st = enc_rounds q n key (enc_round n key st)"

definition xxtea_encrypt_words :: "int list \<Rightarrow> int list \<Rightarrow> int list res" where
  "xxtea_encrypt_words v k =
     (if v = [] then Inl IndexError
      else
        let n = length v - 1; key = fixk k; z = v ! n; q = 6 + 52 div length v in
        Inr (enc_rounds q n key (v, z, 0)))"

definition dec_step :: "int \<Rightarrow> int \<Rightarrow> int list \<Rightarrow> int list \<times> int \<Rightarrow> nat \<Rightarrow> int list \<times> int" where
  "dec_step s e key st p =
     (let (v, y) = st; z = v ! (p - 1); x = (v ! p - mx s y z p e key) AND MASK32 in (v[p := x], x))"

definition dec_round :: "nat \<Rightarrow> int list \<Rightarrow> int list \<times> int \<times> int \<Rightarrow> int list \<times> int \<times> int" where
  "dec_round n key st =
     (let (v, y, s) = st;
          e = drop_bit 2 s AND 3;
          (v, y) = foldl (dec_step s e key) (v, y) (rev [1..<Suc n]);
          z = v ! n;
          x = (v ! 0 - mx s y z 0 e key) AND MASK32
      in (v[0 := x], x, (s - DELTA) AND MASK32))"

lemma mask32: "x AND MASK32 = x mod 4294967296"
proof -
  have "x AND MASK32 = take_bit 32 x" by (simp add: MASK32_def take_bit_eq_mask mask_eq_exp_minus_1)
  then show ?thesis by (simp add: take_bit_eq_mod)
qed

text \<open>The inverse of \<open>DELTA\<close> modulo \<open>2 ^ 32\<close>, by which the rounds left are counted.\<close>

definition DELTA_INV :: int where
  "DELTA_INV = 0x144CBC89"

lemma DELTA_inv: "DELTA * DELTA_INV mod 4294967296 = 1"
  by (simp add: DELTA_def DELTA_INV_def)

definition rounds_left :: "int \<Rightarrow> nat" where
  "rounds_left s = (if 0 \<le> s \<and> s < 4294967296 then nat (s * DELTA_INV mod 4294967296) else 4294967296)"

lemma rounds_left_less:
  assumes "s \<noteq> 0"
  shows "rounds_left ((s - DELTA) mod 4294967296) < rounds_left s"
proof -
  let ?M = "4294967296 :: int"
  let ?t = "s * DELTA_INV mod ?M"
  have r: "rounds_left ((s - DELTA) mod ?M) = nat ((s * DELTA_INV - 1) mod ?M)"
  proof -
    have "(s - DELTA) mod ?M * DELTA_INV mod ?M = (s * DELTA_INV - DELTA * DELTA_INV) mod ?M"
      by (simp add: mod_mult_left_eq left_diff_distrib)
    also have "\<dots> = (s * DELTA_INV - 1) mod ?M" by (metis DELTA_inv mod_diff_right_eq)
    finally show ?thesis by (simp add: rounds_left_def)
  qed
  show ?thesis
  proof (cases "0 \<le> s \<and> s < ?M")
    case True
    have "?t \<noteq> 0"
    proof
      assume "?t = 0"
      then have "s * DELTA_INV * DELTA mod ?M = 0" by (metis mod_mult_left_eq mult_zero_left mod_0)
      moreover have "s * DELTA_INV * DELTA mod ?M = s mod ?M"
        using mod_mult_right_eq [of s "DELTA * DELTA_INV" ?M] by (simp add: DELTA_inv ac_simps)
      ultimately show False using assms True by simp
    qed
    moreover have "0 \<le> ?t" "?t < ?M" by simp_all
    ultimately have "(?t - 1) mod ?M = ?t - 1" by (intro mod_pos_pos_trivial) linarith+
    then have "(s * DELTA_INV - 1) mod ?M = ?t - 1" by (simp add: mod_diff_left_eq)
    then show ?thesis using True \<open>?t \<noteq> 0\<close> \<open>0 \<le> ?t\<close> by (simp add: r) (simp add: rounds_left_def)
  next
    case False
    then have "rounds_left s = 4294967296" unfolding rounds_left_def by (rule if_not_P)
    moreover have "nat ((s * DELTA_INV - 1) mod ?M) < 4294967296" by (simp add: nat_less_iff)
    ultimately show ?thesis by (simp add: r)
  qed
qed

text \<open>\<^verbatim>\<open>while sum_ != 0\<close>\<close>

function dec_rounds :: "nat \<Rightarrow> int list \<Rightarrow> int list \<times> int \<times> int \<Rightarrow> int list" where
  "dec_rounds n key (v, y, s) =
     (if s = 0 then v else dec_rounds n key (dec_round n key (v, y, s)))"
  by pat_completeness auto
termination
  by (relation "measure (\<lambda>(n, key, v, y, s). rounds_left s)")
    (auto simp: dec_round_def Let_def mask32 rounds_left_less split: prod.split)

declare dec_rounds.simps [simp del]

definition xxtea_decrypt_words :: "int list \<Rightarrow> int list \<Rightarrow> int list res" where
  "xxtea_decrypt_words v k =
     (if v = [] then Inl IndexError
      else
        let n = length v - 1; key = fixk k; y = v ! 0; q = 6 + 52 div length v in
        Inr (dec_rounds n key (v, y, (int q * DELTA) AND MASK32)))"

text \<open>The key is the UTF-8 encoding of the key string.\<close>

definition xxtea_encrypt :: "bytes \<Rightarrow> bytes \<Rightarrow> bytes res" where
  "xxtea_encrypt dat key =
     ebind (xxtea_encrypt_words (to_u32 dat False) (to_u32 key False)) (\<lambda>v. to_bytes_u32 v False)"

definition xxtea_decrypt :: "bytes \<Rightarrow> bytes \<Rightarrow> bytes res" where
  "xxtea_decrypt dat key =
     ebind (xxtea_decrypt_words (to_u32 dat False) (to_u32 key False)) (\<lambda>v. to_bytes_u32 v False)"

section \<open>Decryption undoes encryption\<close>

text \<open>
  A round of encryption replaces the words in turn, each with a value that depends on its two neighbours;
  a round of decryption replaces them in the opposite order.
\<close>

definition neighbour_mx :: "int \<Rightarrow> int \<Rightarrow> int list \<Rightarrow> nat \<Rightarrow> nat \<Rightarrow> int list \<Rightarrow> int" where
  "neighbour_mx s e key n p v =
     mx s (v ! (if p = n then 0 else p + 1)) (v ! (if p = 0 then n else p - 1)) p e key"

definition up :: "int \<Rightarrow> int \<Rightarrow> int list \<Rightarrow> nat \<Rightarrow> nat \<Rightarrow> int list \<Rightarrow> int list" where
  "up s e key n p v = v[p := (v ! p + neighbour_mx s e key n p v) mod 4294967296]"

definition down :: "int \<Rightarrow> int \<Rightarrow> int list \<Rightarrow> nat \<Rightarrow> nat \<Rightarrow> int list \<Rightarrow> int list" where
  "down s e key n p v = v[p := (v ! p - neighbour_mx s e key n p v) mod 4294967296]"

definition words32 :: "nat \<Rightarrow> int list \<Rightarrow> bool" where
  "words32 n v \<longleftrightarrow> length v = Suc n \<and> (\<forall>x \<in> set v. 0 \<le> x \<and> x < 4294967296)"

lemma words32_up: "words32 n v \<Longrightarrow> words32 n (up s e key n p v)"
  by (auto simp: words32_def up_def dest!: set_mp [OF set_update_subset_insert])

lemma words32_fold_up: "words32 n v \<Longrightarrow> words32 n (fold (up s e key n) ps v)"
  by (induction ps arbitrary: v) (simp_all add: words32_up)

lemma down_up:
  assumes v: "words32 n v" and "p \<le> n" and "0 < n"
  shows "down s e key n p (up s e key n p v) = v"
proof -
  have p: "p < length v" using assms by (simp add: words32_def)
  then have "0 \<le> v ! p" "v ! p < 4294967296" using v nth_mem [OF p] by (auto simp: words32_def)
  then have "((v ! p + m) mod 4294967296 - m) mod 4294967296 = v ! p" for m by (simp add: mod_diff_left_eq)
  moreover have "neighbour_mx s e key n p (v[p := x]) = neighbour_mx s e key n p v" for x
    using assms by (auto simp: neighbour_mx_def)
  ultimately show ?thesis using p by (simp add: down_def up_def)
qed

lemma fold_down_up:
  "words32 n v \<Longrightarrow> \<forall>p \<in> set ps. p \<le> n \<Longrightarrow> 0 < n \<Longrightarrow>
   fold (down s e key n) (rev ps) (fold (up s e key n) ps v) = v"
  by (induction ps arbitrary: v) (simp_all add: words32_up down_up)

lemma length_fold_up [simp]: "length (fold (up s e key n) ps v) = length v"
  by (induction ps arbitrary: v) (simp_all add: up_def)

lemma length_fold_down [simp]: "length (fold (down s e key n) ps v) = length v"
  by (induction ps arbitrary: v) (simp_all add: down_def)

lemma length_up [simp]: "length (up s e key n p v) = length v"
  by (simp add: up_def)

lemma enc_step_up:
  "p < n \<Longrightarrow> length v = Suc n \<Longrightarrow>
   enc_step s e key (v, v ! (if p = 0 then n else p - 1)) p = (up s e key n p v, up s e key n p v ! p)"
  by (simp add: enc_step_def up_def neighbour_mx_def mask32 Let_def)

lemma enc_inner:
  assumes "length v = Suc n" and "m \<le> n"
  shows "foldl (enc_step s e key) (v, v ! n) [0..<m] =
    (fold (up s e key n) [0..<m] v, fold (up s e key n) [0..<m] v ! (if m = 0 then n else m - 1))"
  using assms(2)
proof (induction m)
  case (Suc m)
  then have "foldl (enc_step s e key) (v, v ! n) [0..<Suc m] =
      enc_step s e key (fold (up s e key n) [0..<m] v, fold (up s e key n) [0..<m] v ! (if m = 0 then n else m - 1)) m"
    by simp
  also have "\<dots> = (up s e key n m (fold (up s e key n) [0..<m] v), up s e key n m (fold (up s e key n) [0..<m] v) ! m)"
    by (rule enc_step_up) (use Suc.prems assms(1) in simp_all)
  finally show ?case by simp
qed simp

lemma enc_round_eq:
  assumes "length v = Suc n" and "0 < n"
  shows "enc_round n key (v, v ! n, s) =
    (let s = (s + DELTA) mod 4294967296; w = fold (up s (drop_bit 2 s AND 3) key n) [0..<Suc n] v in (w, w ! n, s))"
proof -
  let ?s = "(s + DELTA) mod 4294967296"
  let ?e = "drop_bit 2 ?s AND 3"
  let ?w = "fold (up ?s ?e key n) [0..<n] v"
  have last: "up ?s ?e key n n w = w[n := (w ! n + mx ?s (w ! 0) (w ! (n - 1)) n ?e key) mod 4294967296]" for w
    using assms(2) by (simp add: up_def neighbour_mx_def)
  have "foldl (enc_step ?s ?e key) (v, v ! n) [0..<n] = (?w, ?w ! (n - 1))"
    using enc_inner [OF assms(1), of n ?s ?e key] assms(2) by simp
  then have "enc_round n key (v, v ! n, s) = (up ?s ?e key n n ?w, (up ?s ?e key n n ?w) ! n, ?s)"
    unfolding last by (simp add: enc_round_def mask32 Let_def assms(1))
  then show ?thesis by (simp add: Let_def)
qed

lemma dec_step_down:
  "0 < p \<Longrightarrow> p \<le> n \<Longrightarrow> length v = Suc n \<Longrightarrow>
   dec_step s e key (v, v ! (if p = n then 0 else p + 1)) p = (down s e key n p v, down s e key n p v ! p)"
  by (simp add: dec_step_def down_def neighbour_mx_def mask32 Let_def)

lemma dec_inner:
  assumes "length v = Suc n" and "m \<le> n"
  shows "foldl (dec_step s e key) (v, v ! 0) (rev [Suc (n - m)..<Suc n]) =
    (fold (down s e key n) (rev [Suc (n - m)..<Suc n]) v,
     fold (down s e key n) (rev [Suc (n - m)..<Suc n]) v ! (if m = 0 then 0 else Suc (n - m)))"
  using assms(2)
proof (induction m)
  case (Suc m)
  let ?p = "n - m"
  let ?w = "fold (down s e key n) (rev [Suc ?p..<Suc n]) v"
  have "[Suc (n - Suc m)..<Suc n] = ?p # [Suc ?p..<Suc n]" using Suc.prems by (simp add: Suc_diff_Suc upt_conv_Cons del: upt_Suc)
  then have r: "rev [Suc (n - Suc m)..<Suc n] = rev [Suc ?p..<Suc n] @ [?p]" by (simp only: rev.simps)
  have "foldl (dec_step s e key) (v, v ! 0) (rev [Suc ?p..<Suc n]) = (?w, ?w ! (if m = 0 then 0 else Suc ?p))"
    using Suc.prems by (intro Suc.IH) simp
  also have "(if m = 0 then 0 else Suc ?p) = (if ?p = n then 0 else ?p + 1)" using Suc.prems by auto
  finally have "foldl (dec_step s e key) (v, v ! 0) (rev [Suc (n - Suc m)..<Suc n]) =
      dec_step s e key (?w, ?w ! (if ?p = n then 0 else ?p + 1)) ?p" unfolding r by (simp only: foldl_append foldl.simps)
  also have "\<dots> = (down s e key n ?p ?w, down s e key n ?p ?w ! ?p)"
    by (rule dec_step_down) (use Suc.prems assms(1) in simp_all)
  also have "down s e key n ?p ?w = fold (down s e key n) (rev [Suc (n - Suc m)..<Suc n]) v"
    unfolding r by (simp only: fold_append fold.simps comp_apply id_apply)
  finally show ?case using Suc.prems by (simp add: Suc_diff_Suc)
qed simp

lemma dec_round_eq:
  assumes "length v = Suc n" and "0 < n"
  shows "dec_round n key (v, v ! 0, s) =
    (let w = fold (down s (drop_bit 2 s AND 3) key n) (rev [0..<Suc n]) v in (w, w ! 0, (s - DELTA) mod 4294967296))"
proof -
  let ?e = "drop_bit 2 s AND 3"
  let ?w = "fold (down s ?e key n) (rev [1..<Suc n]) v"
  have r: "rev [0..<Suc n] = rev [1..<Suc n] @ [0]" by (simp add: upt_conv_Cons del: upt_Suc)
  have first: "down s ?e key n 0 w = w[0 := (w ! 0 - mx s (w ! 1) (w ! n) 0 ?e key) mod 4294967296]" for w
    using assms(2) by (simp add: down_def neighbour_mx_def)
  have "foldl (dec_step s ?e key) (v, v ! 0) (rev [1..<Suc n]) = (?w, ?w ! 1)"
    using dec_inner [OF assms(1), of n s ?e key] assms(2) by simp
  then have "dec_round n key (v, v ! 0, s) = (down s ?e key n 0 ?w, down s ?e key n 0 ?w ! 0, (s - DELTA) mod 4294967296)"
    unfolding first using assms(2) by (simp add: dec_round_def mask32 Let_def assms(1) del: upt_Suc)
  then show ?thesis unfolding r by (simp add: Let_def del: upt_Suc)
qed

text \<open>The running sum after \<open>j\<close> rounds, and the words.\<close>

definition sum_at :: "nat \<Rightarrow> int" where
  "sum_at j = int j * DELTA mod 4294967296"

lemma sum_at_0 [simp]: "sum_at 0 = 0"
  by (simp add: sum_at_def)

lemma sum_at_Suc: "(sum_at j + DELTA) mod 4294967296 = sum_at (Suc j)"
  by (simp add: sum_at_def mod_add_right_eq algebra_simps)

lemma sum_at_pred: "(sum_at (Suc j) - DELTA) mod 4294967296 = sum_at j"
  by (simp add: sum_at_def mod_diff_left_eq algebra_simps)

lemma sum_at_nonzero:
  assumes "j < 4294967296" and "0 < j"
  shows "sum_at j \<noteq> 0"
proof
  assume "sum_at j = 0"
  then have "int j * DELTA * DELTA_INV mod 4294967296 = 0"
    by (metis sum_at_def mod_mult_left_eq mult_zero_left mod_0)
  moreover have "int j * DELTA * DELTA_INV mod 4294967296 = int j mod 4294967296"
    using mod_mult_right_eq [of "int j" "DELTA * DELTA_INV" 4294967296] by (simp add: DELTA_inv ac_simps)
  ultimately show False using assms by simp
qed

fun rounds :: "nat \<Rightarrow> nat \<Rightarrow> int list \<Rightarrow> nat \<Rightarrow> int list \<Rightarrow> int list" where
  "rounds j n key 0 v = v"
| "rounds j n key (Suc q) v =
     rounds (Suc j) n key q (fold (up (sum_at (Suc j)) (drop_bit 2 (sum_at (Suc j)) AND 3) key n) [0..<Suc n] v)"

lemma rounds_words: "words32 n v \<Longrightarrow> words32 n (rounds j n key q v)"
  by (induction j n key q v rule: rounds.induct) (simp_all add: words32_fold_up del: upt_Suc)

lemma enc_rounds_eq:
  "length v = Suc n \<Longrightarrow> 0 < n \<Longrightarrow> enc_rounds q n key (v, v ! n, sum_at j) = rounds j n key q v"
  by (induction q arbitrary: v j) (simp_all add: enc_round_eq sum_at_Suc Let_def del: upt_Suc)

lemma dec_rounds_eq:
  assumes "words32 n v" and "0 < n" and "j + q < 4294967296"
  shows "dec_rounds n key (rounds j n key q v, rounds j n key q v ! 0, sum_at (j + q)) = dec_rounds n key (v, v ! 0, sum_at j)"
  using assms
proof (induction q arbitrary: v j)
  case (Suc q)
  let ?s = "sum_at (Suc j)"
  let ?e = "drop_bit 2 ?s AND 3"
  let ?w = "fold (up ?s ?e key n) [0..<Suc n] v"
  have w: "words32 n ?w" using Suc.prems by (intro words32_fold_up)
  have "dec_rounds n key (rounds j n key (Suc q) v, rounds j n key (Suc q) v ! 0, sum_at (j + Suc q)) = dec_rounds n key (?w, ?w ! 0, ?s)"
    using Suc.IH [OF w Suc.prems(2), of "Suc j"] Suc.prems(3) by (simp del: upt_Suc)
  also have "\<dots> = dec_rounds n key (dec_round n key (?w, ?w ! 0, ?s))"
    using sum_at_nonzero [of "Suc j"] Suc.prems by (subst dec_rounds.simps) simp
  also have "dec_round n key (?w, ?w ! 0, ?s) = (v, v ! 0, sum_at j)"
    using w Suc.prems fold_down_up [OF Suc.prems(1), of "[0..<Suc n]" ?s ?e key]
    by (simp add: words32_def dec_round_eq Let_def sum_at_pred del: upt_Suc)
  finally show ?case .
qed simp

lemma decrypt_encrypt_words:
  assumes "words32 n v" and "0 < n"
  obtains w where "xxtea_encrypt_words v k = Inr w" "words32 n w" "xxtea_decrypt_words w k = Inr v"
proof -
  let ?q = "6 + 52 div length v"
  let ?w = "rounds 0 n (fixk k) ?q v"
  have l: "length v = Suc n" using assms by (simp add: words32_def)
  have w: "words32 n ?w" using assms(1) by (rule rounds_words)
  then have lw: "length ?w = Suc n" by (simp add: words32_def)
  have e: "xxtea_encrypt_words v k = Inr ?w"
    using enc_rounds_eq [OF l assms(2), of ?q "fixk k" 0] l by (auto simp: xxtea_encrypt_words_def Let_def)
  have "?q < 4294967296" by (rule le_less_trans [of _ 58]) (use l in \<open>simp_all add: div_le_dividend\<close>)
  then have "dec_rounds n (fixk k) (?w, ?w ! 0, sum_at ?q) = dec_rounds n (fixk k) (v, v ! 0, 0)"
    using dec_rounds_eq [OF assms, of 0 ?q "fixk k"] by simp
  then have "xxtea_decrypt_words ?w k = Inr v" using lw l
    by (auto simp: xxtea_decrypt_words_def mask32 sum_at_def Let_def dec_rounds.simps [of n "fixk k" v "v ! 0" 0])
  then show ?thesis using that e w by blast
qed

section \<open>Packing\<close>

lemma length_put_bytes: "length (foldl (put_byte dat) v is) = length v"
  by (induction "is" arbitrary: v) (simp_all add: put_byte_def)

lemma put_bytes_bit:
  assumes "m \<le> 4 * n" and "j < n"
  shows "bit (foldl (put_byte dat) (replicate n 0) [0..<m] ! j) b \<longleftrightarrow>
    b < 32 \<and> 4 * j + b div 8 < m \<and> bit (dat ! (4 * j + b div 8)) (b mod 8)"
  using assms
proof (induction m)
  case (Suc m)
  let ?w = "foldl (put_byte dat) (replicate n 0) [0..<m]"
  have l: "length ?w = n" by (simp add: length_put_bytes)
  have IH: "bit (?w ! j) b \<longleftrightarrow> b < 32 \<and> 4 * j + b div 8 < m \<and> bit (dat ! (4 * j + b div 8)) (b mod 8)"
    using Suc by simp
  show ?case
  proof (cases "j = m div 4")
    case True
    have m: "m = 4 * j + m mod 4" using True by simp
    have byte: "bit (uint (dat ! m)) i \<longleftrightarrow> i < 8 \<and> bit (dat ! m) i" for i
      by (auto simp: bit_uint_iff dest: bit_imp_le_length)
    have "bit (push_bit (8 * (m mod 4)) (uint (dat ! m))) b \<longleftrightarrow>
        8 * (m mod 4) \<le> b \<and> b - 8 * (m mod 4) < 8 \<and> bit (dat ! m) (b - 8 * (m mod 4))"
      by (auto simp: bit_push_bit_iff byte)
    also have "\<dots> \<longleftrightarrow> b div 8 = m mod 4 \<and> bit (dat ! m) (b mod 8)"
    proof (cases "b div 8 = m mod 4")
      case True
      then have "b = 8 * (m mod 4) + b mod 8" by (metis mult_div_mod_eq)
      then show ?thesis using True by (metis add_diff_cancel_left' le_add1 mod_less_divisor zero_less_numeral)
    next
      case False
      have "b div 8 = k" if "8 * k \<le> b" "b - 8 * k < 8" for k
        by (rule div_nat_eqI) (use that in simp_all)
      then show ?thesis using False by blast
    qed
    finally have new: "bit (push_bit (8 * (m mod 4)) (uint (dat ! m))) b \<longleftrightarrow> 4 * j + b div 8 = m \<and> bit (dat ! m) (b mod 8)"
      using m by auto
    have "bit (foldl (put_byte dat) (replicate n 0) [0..<Suc m] ! j) b \<longleftrightarrow>
        bit (?w ! j) b \<or> bit (push_bit (8 * (m mod 4)) (uint (dat ! m))) b"
      using l Suc.prems True by (simp add: put_byte_def bit_or_iff)
    moreover have "4 * j + b div 8 = m \<Longrightarrow> b < 32"
    proof -
      assume "4 * j + b div 8 = m"
      then have "b div 8 = m mod 4" using m by linarith
      then have "b div 8 < 4" by simp
      then show "b < 32" by linarith
    qed
    ultimately show ?thesis unfolding new IH by (auto simp: less_Suc_eq)
  next
    case False
    have "\<not> (b < 32 \<and> 4 * j + b div 8 = m)"
    proof
      assume a: "b < 32 \<and> 4 * j + b div 8 = m"
      then have "b div 8 < 4" by linarith
      then have "(4 * j + b div 8) div 4 = j" by simp
      then show False using False a by simp
    qed
    moreover have "foldl (put_byte dat) (replicate n 0) [0..<Suc m] ! j = ?w ! j"
      using False by (simp add: put_byte_def)
    ultimately show ?thesis using IH by (auto simp: less_Suc_eq)
  qed
qed simp

lemma to_u32_bit:
  assumes "length dat = 4 * n" and "j < n"
  shows "bit (to_u32 dat False ! j) b \<longleftrightarrow> b < 32 \<and> bit (dat ! (4 * j + b div 8)) (b mod 8)"
proof -
  have "b < 32 \<Longrightarrow> b div 8 < 4" by linarith
  then have "b < 32 \<Longrightarrow> 4 * j + b div 8 < 4 * n" using assms(2) by linarith
  then show ?thesis using put_bytes_bit [of "4 * n" n j dat b] assms by (auto simp: to_u32_def Let_def)
qed

lemma length_to_u32: "length dat = 4 * n \<Longrightarrow> length (to_u32 dat False) = n"
  by (simp add: to_u32_def Let_def length_put_bytes)

lemma get_byte_bit: "bit (get_byte v i) b \<longleftrightarrow> b < 8 \<and> bit (v ! (i div 4)) (8 * (i mod 4) + b)"
proof -
  have "x AND 255 = take_bit 8 x" for x :: int by (simp add: take_bit_eq_mask mask_eq_exp_minus_1)
  then show ?thesis by (auto simp: get_byte_def bit_word_of_int_iff bit_take_bit_iff bit_drop_bit_eq)
qed

lemma to_bytes_u32_eq: "to_bytes_u32 v False = Inr (map (get_byte v) [0..<4 * length v])"
  by (simp add: to_bytes_u32_def Let_def nat_mult_distrib)

lemma to_bytes_to_u32:
  assumes "length dat = 4 * n"
  shows "to_bytes_u32 (to_u32 dat False) False = Inr dat"
proof -
  have "get_byte (to_u32 dat False) i = dat ! i" if i: "i < 4 * n" for i
  proof (rule bit_eqI)
    fix b :: nat
    have "i div 4 < n" using i by linarith
    have e: "8 * (i mod 4) + b < 32" "(8 * (i mod 4) + b) div 8 = i mod 4" "(8 * (i mod 4) + b) mod 8 = b" if "b < 8"
    proof -
      have "i mod 4 \<le> 3" using mod_less_divisor [of 4 i] by linarith
      then show "8 * (i mod 4) + b < 32" using that by linarith
    qed (use that in auto)
    have "4 * (i div 4) + i mod 4 = i" by simp
    then show "bit (get_byte (to_u32 dat False) i) b = bit (dat ! i) b"
      using to_u32_bit [OF assms \<open>i div 4 < n\<close>, of "8 * (i mod 4) + b"] e
      by (cases "b < 8") (auto simp: get_byte_bit dest: bit_imp_le_length)
  qed
  then have "map (get_byte (to_u32 dat False)) [0..<4 * n] = dat" using assms by (intro nth_equalityI) auto
  then show ?thesis by (simp add: to_bytes_u32_eq length_to_u32 [OF assms])
qed

lemma word_bits: "0 \<le> x \<Longrightarrow> x < 4294967296 \<Longrightarrow> bit (x :: int) b \<longrightarrow> b < 32"
proof
  assume x: "0 \<le> x" "x < 4294967296" and "bit x b"
  have "take_bit 32 x = x" using x by (simp add: take_bit_eq_mod)
  then show "b < 32" using \<open>bit x b\<close> by (metis bit_take_bit_iff)
qed

lemma to_u32_to_bytes:
  assumes "words32 n v"
  shows "to_u32 (map (get_byte v) [0..<4 * length v]) False = v" (is "to_u32 ?b False = v")
proof (rule nth_equalityI)
  have l: "length ?b = 4 * Suc n" using assms by (simp add: words32_def)
  show len: "length (to_u32 ?b False) = length v" using length_to_u32 [OF l] assms by (simp add: words32_def)
  fix j assume "j < length (to_u32 ?b False)"
  then have j: "j < Suc n" "j < length v" using assms len by (auto simp: words32_def)
  show "to_u32 ?b False ! j = v ! j"
  proof (rule bit_eqI)
    fix b :: nat
    have "b < 32 \<Longrightarrow> b div 8 < 4" by simp
    then have i: "b < 32 \<Longrightarrow> 4 * j + b div 8 < 4 * length v" using j by linarith
    have "b < 32 \<Longrightarrow> (4 * j + b div 8) div 4 = j" "b < 32 \<Longrightarrow> (4 * j + b div 8) mod 4 = b div 8" by auto
    moreover have "8 * (b div 8) + b mod 8 = b" by simp
    ultimately have "bit (to_u32 ?b False ! j) b \<longleftrightarrow> b < 32 \<and> bit (v ! j) b"
      using to_u32_bit [OF l j(1), of b] i by (auto simp: get_byte_bit)
    then show "bit (to_u32 ?b False ! j) b = bit (v ! j) b"
      using word_bits [of "v ! j" b] nth_mem [OF j(2)] assms by (auto simp: words32_def)
  qed
qed

lemma to_u32_words:
  assumes "length dat = 4 * Suc n"
  shows "words32 n (to_u32 dat False)"
  unfolding words32_def
proof (intro conjI ballI)
  fix x assume "x \<in> set (to_u32 dat False)"
  then obtain j where j: "j < Suc n" "x = to_u32 dat False ! j"
    using length_to_u32 [OF assms] by (metis in_set_conv_nth)
  have "take_bit 32 x = x" by (rule bit_eqI) (auto simp: bit_take_bit_iff j(2) to_u32_bit [OF assms j(1)])
  then have "x = x mod 4294967296" by (simp add: take_bit_eq_mod)
  then show "0 \<le> x" "x < 4294967296" by (metis pos_mod_sign zero_less_numeral) (metis pos_mod_bound \<open>x = x mod 4294967296\<close> zero_less_numeral)
qed (simp add: length_to_u32 [OF assms])

lemma xxtea_decrypt_encrypt:
  assumes "length dat = 4 * Suc n" and "0 < n"
  obtains c where "xxtea_encrypt dat key = Inr c" "length c = length dat" "xxtea_decrypt c key = Inr dat"
proof -
  have w: "words32 n (to_u32 dat False)" using assms(1) by (rule to_u32_words)
  obtain v where v: "xxtea_encrypt_words (to_u32 dat False) (to_u32 key False) = Inr v" "words32 n v"
    "xxtea_decrypt_words v (to_u32 key False) = Inr (to_u32 dat False)"
    using decrypt_encrypt_words [OF w assms(2)] by metis
  let ?c = "map (get_byte v) [0..<4 * length v]"
  have "xxtea_encrypt dat key = Inr ?c" using v by (simp add: xxtea_encrypt_def to_bytes_u32_eq)
  moreover have "length ?c = length dat" using v(2) assms(1) by (simp add: words32_def)
  moreover have "xxtea_decrypt ?c key = Inr dat"
    using v(3) to_u32_to_bytes [OF v(2)] to_bytes_to_u32 [OF assms(1)] by (simp add: xxtea_decrypt_def)
  ultimately show ?thesis using that by blast
qed

end
