(* ===== verification/UuidStego.thy ===== *)
theory UuidStego
  imports Xxtea Decimal
begin

text \<open>
  \<^verbatim>\<open>speedrun/deploy/checker/uuid_stego.py\<close> and \<^verbatim>\<open>check_code.py\<close>: the team number is hidden in a UUID that
  is the flag of the team, and the checker gives the flag out for a team token and a speedrun code. A
  string is the list of its characters up to U+00FF. SHA-1, SHA-256 and the cipher of the package
  \<^verbatim>\<open>cryptography\<close> are the argument \<open>C\<close> of the definitions; the code uses of the cipher that it adds a key
  stream to its input, and of the digests their lengths.
\<close>

section \<open>UUIDs\<close>

record crypto =
  sha1 :: "bytes \<Rightarrow> bytes"
  sha256 :: "bytes \<Rightarrow> bytes"
  chacha20_poly1305 :: "bytes \<Rightarrow> bytes \<Rightarrow> bytes \<Rightarrow> bytes"

definition utf8 :: "string \<Rightarrow> bytes" where
  "utf8 s = concat (map (\<lambda>c. let n = of_char c :: int in
     if n < 128 then [word_of_int n] else [word_of_int (192 + n div 64), word_of_int (128 + n mod 64)]) s)"

text \<open>\<^verbatim>\<open>str(uuid.UUID(bytes=b))\<close> and \<^verbatim>\<open>.hex\<close>.\<close>

definition uuid_text :: "bytes \<Rightarrow> bool \<Rightarrow> string res" where
  "uuid_text b with_hyphen =
     (if length b \<noteq> 16 then Inl ValueError
      else
        let h = bytes_hex b in
        Inr (if with_hyphen
             then take 8 h @ ''-'' @ take 4 (drop 8 h) @ ''-'' @ take 4 (drop 12 h) @ ''-'' @ take 4 (drop 16 h) @ ''-''
                  @ drop 20 h
             else h))"

text \<open>\<^verbatim>\<open>s.replace(pat, '')\<close> for a pattern that is not empty.\<close>

function remove_str :: "string \<Rightarrow> string \<Rightarrow> string" where
  "remove_str pat [] = []"
| "remove_str pat (c # cs) =
     (if take (length pat) (c # cs) = pat \<and> pat \<noteq> [] then remove_str pat (drop (length pat - 1) cs)
      else c # remove_str pat cs)"
  by pat_completeness auto
termination
  by (relation "measure (\<lambda>(pat, s). length s)") auto

definition strip_braces :: "string \<Rightarrow> string" where
  "strip_braces s =
     (let brace = (\<lambda>c. c = CHR ''{'' \<or> c = CHR ''}'') in rev (dropWhile brace (rev (dropWhile brace s))))"

text \<open>\<^verbatim>\<open>uuid.UUID(s).bytes\<close>\<close>

definition uuid_bytes :: "string \<Rightarrow> bytes res" where
  "uuid_bytes s =
     (let h = remove_str ''-'' (strip_braces (remove_str ''uuid:'' (remove_str ''urn:'' s))) in
      if length h \<noteq> 32 then Inl ValueError
      else ebind (py_int16 h) (\<lambda>i. if 0 \<le> i \<and> i < 2 ^ 128 then Inr (to_bytes_big 16 i) else Inl ValueError))"

section \<open>Hiding and reading the team number\<close>

definition chacha20_poly1305_encrypt :: "crypto \<Rightarrow> bytes \<Rightarrow> bytes \<Rightarrow> bytes" where
  "chacha20_poly1305_encrypt C key dat =
     (let h = sha256 C key; chacha_key = take 32 h; nonce = drop (length h - 12) h in
      chacha20_poly1305 C chacha_key nonce dat)"

text \<open>\<^verbatim>\<open>struct.pack("<q", i)\<close> and \<^verbatim>\<open>struct.unpack("<q", b)[0]\<close>\<close>

definition pack_q :: "int \<Rightarrow> bytes res" where
  "pack_q i = (if - (2 ^ 63) \<le> i \<and> i < 2 ^ 63 then Inr (to_bytes_little 8 i) else Inl StructError)"

definition unpack_q :: "bytes \<Rightarrow> int res" where
  "unpack_q b =
     (if length b \<noteq> 8 then Inl StructError
      else let u = from_bytes_little b in Inr (if u < 2 ^ 63 then u else u - 2 ^ 64))"

definition rand_bytes :: bytes where
  "rand_bytes = [0, 0, 0, 0]"

definition hide_step :: "bytes \<Rightarrow> bytes \<Rightarrow> nat \<Rightarrow> bytes" where
  "hide_step encrypted_slice hash_slice i =
     (let hs = (if i mod 2 = 0 then hash_slice[i * 2 := hash_slice ! (i * 2) XOR rand_bytes ! (i div 2)] else hash_slice)
      in hs[i * 2 + 1 := hs ! (i * 2 + 1) XOR encrypted_slice ! i])"

definition encode_uuid :: "crypto \<Rightarrow> string \<Rightarrow> string \<Rightarrow> int \<Rightarrow> bool \<Rightarrow> string res" where
  "encode_uuid C template key team_id with_hyphen =
     (let hash_slice = take 16 (drop 2 (sha1 C (utf8 template))) in
      ebind (pack_q team_id) (\<lambda>team_id_bytes.
      ebind (xxtea_encrypt team_id_bytes (utf8 key)) (\<lambda>encrypted.
      let s = take 8 encrypted;
          encrypted_slice = s @ replicate (8 - length s) 0;
          hash_slice = foldl (hide_step encrypted_slice) hash_slice [0..<8];
          ct = chacha20_poly1305_encrypt C (utf8 key) hash_slice
      in uuid_text (take 16 ct) with_hyphen)))"

definition read_byte :: "bytes \<Rightarrow> bytes \<Rightarrow> nat \<Rightarrow> byte res" where
  "read_byte hash_slice block i =
     (if i mod 2 \<noteq> 0 \<and> hash_slice ! (i * 2) \<noteq> block ! (i * 2) then Inl ValueError
      else Inr (hash_slice ! (i * 2 + 1) XOR block ! (i * 2 + 1)))"

definition decode_uuid :: "crypto \<Rightarrow> string \<Rightarrow> string \<Rightarrow> string \<Rightarrow> int res" where
  "decode_uuid C template key flag =
     ebind (uuid_bytes flag) (\<lambda>data_slice.
     let block = take 16 (chacha20_poly1305_encrypt C (utf8 key) data_slice);
         hash_slice = take 16 (drop 2 (sha1 C (utf8 template)))
     in ebind (emap (read_byte hash_slice block) [0..<8]) (\<lambda>dec.
        ebind (xxtea_decrypt dec (utf8 key)) (\<lambda>decrypted. unpack_q (take 8 decrypted))))"

section \<open>The checker\<close>

text \<open>
  The answer of the team service: no answer (\<^verbatim>\<open>URLError\<close>, \<^verbatim>\<open>HTTPError\<close>, a time-out), a body that is not
  JSON, or a status with the value of the body.
\<close>

datatype api_reply = NoAnswer | BadBody | Reply int json

datatype query_error = NetworkError | Bad pyerr

definition query_team_id :: "(string \<Rightarrow> api_reply) \<Rightarrow> string \<Rightarrow> query_error + int" where
  "query_team_id api token =
     (case api token of
        NoAnswer \<Rightarrow> Inl NetworkError
      | BadBody \<Rightarrow> Inl (Bad ValueError)
      | Reply status body \<Rightarrow>
          if status \<noteq> 200 then Inl (Bad ValueError)
          else
            (case py_get body ''id'' JNull of
               Inl e \<Rightarrow> Inl (Bad e)
             | Inr (JInt i) \<Rightarrow> Inr i
             | Inr (JBool b) \<Rightarrow> Inr (if b then 1 else 0)
             | Inr _ \<Rightarrow> Inl (Bad ValueError)))"

text \<open>\<open>repr\<close> is \<^verbatim>\<open>str\<close> of a float or a container, which the codes file is not meant to hold.\<close>

definition code_text :: "(json \<Rightarrow> string) \<Rightarrow> json \<Rightarrow> string" where
  "code_text repr c =
     (case c of
        JStr s \<Rightarrow> s
      | JInt i \<Rightarrow> show_int i
      | JBool b \<Rightarrow> (if b then ''True'' else ''False'')
      | JNull \<Rightarrow> ''None''
      | _ \<Rightarrow> repr c)"

definition load_codes :: "(json \<Rightarrow> string) \<Rightarrow> json res \<Rightarrow> string list res" where
  "load_codes repr file =
     ebind file (\<lambda>raw. case raw of JList cs \<Rightarrow> Inr (map (code_text repr) cs) | _ \<Rightarrow> Inl ValueError)"

record checker_config =
  flag_template :: string
  flag_key :: string
  flag_prefix :: string
  invalid_message :: string

definition make_flag :: "crypto \<Rightarrow> checker_config \<Rightarrow> int \<Rightarrow> string res" where
  "make_flag C cfg team_id =
     ebind (encode_uuid C (flag_template cfg) (flag_key cfg) team_id True)
       (\<lambda>content. Inr (flag_prefix cfg @ ''{'' @ content @ ''}''))"

text \<open>The printed lines; the texts of exceptions are left out, and the line of the flag is told apart.\<close>

datatype out = Say string | CheckerError pyerr | InvalidToken query_error | Reveal string

definition read_line :: "string list \<Rightarrow> string \<times> string list" where
  "read_line lines = (case lines of [] \<Rightarrow> ([], []) | l # ls \<Rightarrow> (py_strip l, ls))"

text \<open>The exit code, or the exception that ends the program.\<close>

definition checker_main ::
  "crypto \<Rightarrow> checker_config \<Rightarrow> (json \<Rightarrow> string) \<Rightarrow> json res \<Rightarrow> (string \<Rightarrow> api_reply) \<Rightarrow> string list \<Rightarrow> out list \<times> (pyerr + int)"
where
  "checker_main C cfg repr file api lines =
     (if flag_template cfg = [] \<or> flag_key cfg = []
      then ([Say ''CHECKER ERROR: flag template/key not configured''], Inr 1)
      else
        (case load_codes repr file of
           Inl e \<Rightarrow> ([CheckerError e], Inr 1)
         | Inr codes \<Rightarrow>
             let (token, lines) = read_line lines; outs = [Say ''Enter your team token:''] in
             if token = [] then (outs @ [Say ''INVALID TOKEN''], Inr 0)
             else
               (case query_team_id api token of
                  Inl e \<Rightarrow>
                    (case e of
                       NetworkError \<Rightarrow> (outs @ [InvalidToken e], Inr 0)
                     | Bad x \<Rightarrow> if x = ValueError then (outs @ [InvalidToken e], Inr 0) else (outs, Inl x))
                | Inr team_id \<Rightarrow>
                    let (code, lines) = read_line lines; outs = outs @ [Say ''Enter code:''] in
                    if code = [] \<or> code \<notin> set codes then (outs @ [Say (invalid_message cfg)], Inr 0)
                    else
                      (case make_flag C cfg team_id of
                         Inl e \<Rightarrow> (outs, Inl e)
                       | Inr flag \<Rightarrow> (outs @ [Reveal flag], Inr 0)))))"

section \<open>UUID text is read back\<close>

lemma hex_char:
  assumes "c \<in> set (bytes_hex b)"
  shows "hex_value c \<noteq> None \<and> \<not> is_space c \<and> c \<notin> set ''-:{}xX+''"
proof -
  obtain d where "0 \<le> d" "d < 16" "c = hex_digit d"
  proof -
    from assms obtain x where "x \<in> set b" "c \<in> {hex_digit (uint x div 16), hex_digit (uint x mod 16)}"
      by (auto simp: bytes_hex_def)
    moreover have "0 \<le> uint x" "uint x < 256" using uint_bounded [of x] by simp_all
    then have "0 \<le> uint x div 16" "uint x div 16 < 16" "0 \<le> uint x mod 16" "uint x mod 16 < 16" by presburger+
    ultimately show ?thesis using that by blast
  qed
  moreover have "hex_digit d \<notin> set ''-:{}xX+''" if "0 \<le> d" "d < 16" for d
    using that by (elim sixteen_cases) (simp_all add: hex_digit_def)
  ultimately show ?thesis using hex_value_digit digit_not_space by auto
qed

lemma length_bytes_hex: "length (bytes_hex b) = 2 * length b"
  by (induction b) (simp_all add: bytes_hex_def)

lemma remove_absent: "c \<in> set pat \<Longrightarrow> c \<notin> set s \<Longrightarrow> remove_str pat s = s"
proof (induction pat s rule: remove_str.induct)
  case (2 pat d cs)
  have "take (length pat) (d # cs) \<noteq> pat" using 2(3,4) by (metis in_set_takeD)
  then show ?case using 2 by simp
qed simp

lemma remove_char: "remove_str [c] s = filter (\<lambda>x. x \<noteq> c) s"
  by (induction s) auto

lemma strip_braces_id:
  "s \<noteq> [] \<Longrightarrow> hd s \<notin> set ''{}'' \<Longrightarrow> last s \<notin> set ''{}'' \<Longrightarrow> strip_braces s = s"
proof -
  assume s: "s \<noteq> []" "hd s \<notin> set ''{}''" "last s \<notin> set ''{}''"
  have d: "t \<noteq> [] \<Longrightarrow> hd t \<notin> set ''{}'' \<Longrightarrow> dropWhile (\<lambda>c. c = CHR ''{'' \<or> c = CHR ''}'') t = t" for t
    by (cases t) auto
  show ?thesis using s d [of s] d [of "rev s"] by (simp add: strip_braces_def Let_def hd_rev)
qed

lemma digits_value_hex: "digits_value a (bytes_hex b) = a * 256 ^ length b + from_bytes_big b"
proof (induction b arbitrary: a)
  case Nil
  then show ?case by (simp add: digits_value_def bytes_hex_def from_bytes_big_def)
next
  case (Cons x b)
  have u: "0 \<le> uint x" "uint x < 256" using uint_bounded [of x] by simp_all
  then have q: "0 \<le> uint x div 16" "uint x div 16 < 16" by linarith+
  have "digits_value a (bytes_hex (x # b)) = digits_value ((a * 16 + uint x div 16) * 16 + uint x mod 16) (bytes_hex b)"
    using q hex_value_digit by (simp add: digits_value_def bytes_hex_def)
  also have "(a * 16 + uint x div 16) * 16 + uint x mod 16 = a * 256 + uint x" by simp
  finally have "digits_value a (bytes_hex (x # b)) = (a * 256 + uint x) * 256 ^ length b + from_bytes_big b" by (simp add: Cons)
  moreover have "from_bytes_big (x # b) = uint x * 256 ^ length b + from_bytes_big b"
    using from_bytes_big_append [of "[x]" b] by (simp add: from_bytes_big_def)
  ultimately show ?case by (simp add: algebra_simps)
qed

lemma py_int16_bytes:
  assumes "b \<noteq> []"
  shows "py_int16 (bytes_hex b) = Inr (from_bytes_big b)"
proof -
  obtain c d cs where h: "bytes_hex b = c # d # cs" using assms by (cases b) (auto simp: bytes_hex_def)
  have all: "\<forall>x \<in> set (bytes_hex b). hex_value x \<noteq> None \<and> \<not> is_space x \<and> x \<notin> set ''-:{}xX+''" using hex_char by blast
  have "py_strip (bytes_hex b) = bytes_hex b" using all h last_in_set [of "bytes_hex b"] by (intro strip_id) auto
  moreover obtain v where v: "hex_value c = Some v" using all h by auto
  have "hex_digits v (d # cs) = Inr (digits_value v (d # cs))" using all h by (intro hex_digits_clean) auto
  moreover have "digits_value v (d # cs) = digits_value 0 (bytes_hex b)" using v by (simp add: h digits_value_def)
  ultimately show ?thesis using all h v digits_value_hex [of 0 b] by (auto simp: py_int16_def)
qed

lemma to_from_bytes_little: "to_bytes_little (length b) (from_bytes_little b) = b"
proof (induction b)
  case (Cons x b)
  have u: "0 \<le> uint x" "uint x < 256" using uint_bounded [of x] by simp_all
  have "word_of_int (uint x + 256 * from_bytes_little b) = x"
    using u uint_byte_of_int [of "uint x + 256 * from_bytes_little b"] by (simp add: word_uint_eq_iff)
  moreover have "(uint x + 256 * from_bytes_little b) div 256 = from_bytes_little b" using u by simp
  ultimately show ?case using Cons by simp
qed simp

lemma to_from_bytes_big: "to_bytes_big (length b) (from_bytes_big b) = b"
  using to_from_bytes_little [of "rev b"] from_bytes_big_rev [of "rev b"] by (simp add: to_bytes_big_def)

lemma uuid_bytes_text:
  assumes "length b = 16"
  obtains s where "uuid_text b hyphen = Inr s" "uuid_bytes s = Inr b"
proof -
  let ?h = "bytes_hex b"
  define s where "s = (if hyphen then take 8 ?h @ ''-'' @ take 4 (drop 8 ?h) @ ''-'' @ take 4 (drop 12 ?h) @ ''-'' @ take 4 (drop 16 ?h) @ ''-''
                  @ drop 20 ?h else ?h)"
  have l: "length ?h = 32" using assms by (simp add: length_bytes_hex)
  have mem: "c \<in> set ?h \<or> c = CHR ''-''" if "c \<in> set s" for c
    using that by (auto simp: s_def split: if_splits dest: in_set_takeD in_set_dropD)
  have ns: "c \<notin> set '':{}''" if "c \<in> set s" for c using mem [OF that] hex_char [of c b] by auto
  have ne: "s \<noteq> []" using l by (auto simp: s_def)
  have "CHR '':'' \<notin> set s" using ns by auto
  then have "remove_str ''urn:'' s = s" "remove_str ''uuid:'' s = s" by (simp_all add: remove_absent [of "CHR '':''"])
  moreover have "strip_braces s = s"
    using ne ns [OF hd_in_set [OF ne]] ns [OF last_in_set [OF ne]] by (intro strip_braces_id) auto
  moreover have "filter (\<lambda>x. x \<noteq> CHR ''-'') s = ?h"
  proof -
    have f: "filter (\<lambda>x. x \<noteq> CHR ''-'') t = t" if "set t \<subseteq> set ?h" for t
      using that hex_char by (intro filter_True) (metis list.set_intros(1) subsetD)
    have split: "take 8 ?h @ take 4 (drop 8 ?h) @ take 4 (drop 12 ?h) @ take 4 (drop 16 ?h) @ drop 20 ?h = ?h"
    proof -
      have "take 4 (drop n ?h) @ drop (4 + n) ?h = drop n ?h" for n
        using append_take_drop_id [of 4 "drop n ?h"] by simp
      from this [of 8] this [of 12] this [of 16] show ?thesis by simp
    qed
    show ?thesis
    proof (cases hyphen)
      case True
      have "filter (\<lambda>x. x \<noteq> CHR ''-'') s =
          take 8 ?h @ take 4 (drop 8 ?h) @ take 4 (drop 12 ?h) @ take 4 (drop 16 ?h) @ drop 20 ?h"
        using True f [of "take 8 ?h"] f [of "take 4 (drop 8 ?h)"] f [of "take 4 (drop 12 ?h)"]
          f [of "take 4 (drop 16 ?h)"] f [of "drop 20 ?h"]
        by (simp add: s_def set_take_subset set_drop_subset subset_trans [OF set_take_subset set_drop_subset])
      then show ?thesis by (simp only: split)
    next
      case False
      then show ?thesis using f [of ?h] by (simp add: s_def)
    qed
  qed
  moreover have "from_bytes_big b < 2 ^ 128" using from_bytes_big_range [of b] assms by simp
  moreover have "to_bytes_big 16 (from_bytes_big b) = b" using to_from_bytes_big [of b] assms by simp
  moreover have "py_int16 ?h = Inr (from_bytes_big b)" using assms by (intro py_int16_bytes) auto
  ultimately have "uuid_bytes s = Inr b" using l by (simp add: uuid_bytes_def remove_char Let_def)
  moreover have "uuid_text b hyphen = Inr s" using assms by (simp add: uuid_text_def s_def Let_def)
  ultimately show ?thesis using that by blast
qed

section \<open>The team number is read back\<close>

text \<open>
  What the code relies on: the lengths of the digests, and that the first bytes of the ciphertext are the
  input added to a key stream that depends on the key and the nonce only.
\<close>

definition crypto_ok :: "crypto \<Rightarrow> bool" where
  "crypto_ok C \<longleftrightarrow> (\<forall>b. length (sha1 C b) = 20) \<and> (\<forall>b. length (sha256 C b) = 32)
     \<and> (\<forall>k n. length k = 32 \<longrightarrow> length n = 12 \<longrightarrow>
          (\<exists>ks. length ks = 16 \<and> (\<forall>d. length d = 16 \<longrightarrow> take 16 (chacha20_poly1305 C k n d) = map2 (XOR) d ks)))"

lemma unpack_pack: "pack_q i = Inr b \<Longrightarrow> unpack_q b = Inr i \<and> length b = 8"
proof -
  assume "pack_q i = Inr b"
  then have i: "- 9223372036854775808 \<le> i" "i < 9223372036854775808" and b: "b = to_bytes_little 8 i"
    by (auto simp: pack_q_def split: if_splits)
  have "from_bytes_little b = i mod 18446744073709551616" by (simp add: b from_to_bytes_little)
  moreover have "i mod 18446744073709551616 = (if 0 \<le> i then i else i + 18446744073709551616)"
  proof (cases "0 \<le> i")
    case False
    then have "(i + 18446744073709551616) mod 18446744073709551616 = i + 18446744073709551616"
      using i by (intro mod_pos_pos_trivial) auto
    then show ?thesis using False by simp
  qed (use i in simp)
  moreover have "length b = 8" by (simp add: b)
  ultimately show ?thesis using i by (simp add: unpack_q_def Let_def)
qed

lemma double_stream: "length d = length ks \<Longrightarrow> map2 (XOR) (map2 (XOR) d ks) ks = (d :: bytes)"
  by (intro nth_equalityI) (simp_all add: xor.assoc)

lemma hide_steps:
  assumes "length h = 16" and "m \<le> 8"
  shows "length (foldl (hide_step e) h [0..<m]) = 16
    \<and> (\<forall>j < 16. foldl (hide_step e) h [0..<m] ! j = (if odd j \<and> j div 2 < m then h ! j XOR e ! (j div 2) else h ! j))"
  using assms(2)
proof (induction m)
  case (Suc m)
  let ?w = "foldl (hide_step e) h [0..<m]"
  have IH: "length ?w = 16" "\<And>j. j < 16 \<Longrightarrow> ?w ! j = (if odd j \<and> j div 2 < m then h ! j XOR e ! (j div 2) else h ! j)"
    using Suc by simp_all
  have z: "even m \<Longrightarrow> rand_bytes ! (m div 2) = 0"
  proof -
    have "m div 2 < 4" using Suc.prems by simp
    then show ?thesis by (auto simp: rand_bytes_def less_Suc_eq numeral_eq_Suc)
  qed
  have step: "hide_step e ?w m = ?w[m * 2 + 1 := ?w ! (m * 2 + 1) XOR e ! m]"
    using z by (auto simp: hide_step_def Let_def even_iff_mod_2_eq_zero list_update_id)
  have at: "Suc (j div 2 * 2) = j" if "odd j" for j :: nat using that by presburger
  show ?case
  proof (intro conjI allI impI)
    fix j :: nat assume "j < 16"
    then show "foldl (hide_step e) h [0..<Suc m] ! j = (if odd j \<and> j div 2 < Suc m then h ! j XOR e ! (j div 2) else h ! j)"
      using IH at [of j] by (cases "j = m * 2 + 1") (auto simp: step less_Suc_eq)
  qed (use IH(1) in \<open>simp add: step\<close>)
qed (use assms(1) in simp)

lemma stego_round_trip:
  assumes C: "crypto_ok C" and i: "- (2 ^ 63) \<le> team" "team < 2 ^ 63"
  obtains f where "encode_uuid C template key team hyphen = Inr f" "decode_uuid C template key f = Inr team"
proof -
  let ?k = "utf8 key"
  let ?h = "take 16 (drop 2 (sha1 C (utf8 template)))"
  have lh: "length ?h = 16" using C by (simp add: crypto_ok_def)
  let ?ck = "take 32 (sha256 C ?k)" and ?n = "drop (length (sha256 C ?k) - 12) (sha256 C ?k)"
  have "length ?ck = 32" "length ?n = 12" using C by (simp_all add: crypto_ok_def)
  then obtain ks where ks: "length ks = 16" "\<And>d. length d = 16 \<Longrightarrow> take 16 (chacha20_poly1305 C ?ck ?n d) = map2 (XOR) d ks"
    using C unfolding crypto_ok_def by metis
  have ch: "length d = 16 \<Longrightarrow> take 16 (chacha20_poly1305_encrypt C ?k d) = map2 (XOR) d ks" for d
    using ks(2) by (simp add: chacha20_poly1305_encrypt_def Let_def)
  obtain b where b: "pack_q team = Inr b" using i by (simp add: pack_q_def)
  have lb: "length b = 4 * Suc 1" and ub: "unpack_q b = Inr team" using unpack_pack [OF b] by simp_all
  obtain c where c: "xxtea_encrypt b ?k = Inr c" "length c = length b" "xxtea_decrypt c ?k = Inr b"
    using xxtea_decrypt_encrypt [OF lb zero_less_one, of ?k] by blast
  have lc: "length c = 8" using c(2) lb by simp
  let ?w = "foldl (hide_step c) ?h [0..<8]"
  have w: "length ?w = 16" "\<And>j. j < 16 \<Longrightarrow> ?w ! j = (if odd j \<and> j div 2 < 8 then ?h ! j XOR c ! (j div 2) else ?h ! j)"
    using hide_steps [OF lh, of 8 c] by simp_all
  let ?u = "map2 (XOR) ?w ks"
  have lu: "length ?u = 16" using w ks by simp
  obtain f where f: "uuid_text ?u hyphen = Inr f" "uuid_bytes f = Inr ?u" using uuid_bytes_text [OF lu] by metis
  have e: "encode_uuid C template key team hyphen = Inr f"
    using b c(1) lc f(1) ch [OF w(1)] by (simp add: encode_uuid_def Let_def del: upt.simps)
  have "take 16 (chacha20_poly1305_encrypt C ?k ?u) = ?w" using ch [OF lu] w(1) ks(1) by (simp add: double_stream)
  moreover have "emap (read_byte ?h ?w) [0..<8] = Inr (map (\<lambda>i. c ! i) [0..<8])"
  proof (rule emap_Inr)
    fix i assume "i \<in> set [0..<8::nat]"
    then have "i < 8" by simp
    then show "read_byte ?h ?w i = Inr (c ! i)"
      using w(2) [of "i * 2"] w(2) [of "i * 2 + 1"] by (simp add: read_byte_def flip: xor.assoc)
  qed
  moreover have "map (\<lambda>i. c ! i) [0..<8] = c" using lc by (metis map_nth)
  ultimately have "decode_uuid C template key f = Inr team"
    using f(2) c(3) ub lb by (simp add: decode_uuid_def Let_def del: upt.simps)
  then show ?thesis using that e by blast
qed

section \<open>The flag is given out for a valid token and code\<close>

lemma reveal_iff:
  "Reveal f \<in> set (fst (checker_main C cfg repr file api lines)) \<longleftrightarrow>
   flag_template cfg \<noteq> [] \<and> flag_key cfg \<noteq> [] \<and>
   (\<exists>codes team token code rest. load_codes repr file = Inr codes \<and> read_line lines = (token, rest) \<and> token \<noteq> []
      \<and> query_team_id api token = Inr team \<and> code = fst (read_line rest) \<and> code \<noteq> [] \<and> code \<in> set codes
      \<and> make_flag C cfg team = Inr f)"
  by (auto simp: checker_main_def Let_def split: sum.splits prod.splits query_error.splits if_splits)

lemma reveal_own_flag:
  assumes C: "crypto_ok C" and r: "Reveal f \<in> set (fst (checker_main C cfg repr file api lines))"
  obtains codes team content where "load_codes repr file = Inr codes" "2 \<le> length lines"
    "query_team_id api (py_strip (lines ! 0)) = Inr team" "py_strip (lines ! 1) \<in> set codes"
    "f = flag_prefix cfg @ ''{'' @ content @ ''}''"
    "decode_uuid C (flag_template cfg) (flag_key cfg) content = Inr team"
proof -
  obtain codes team token code rest where r: "load_codes repr file = Inr codes" "read_line lines = (token, rest)" "token \<noteq> []"
    "query_team_id api token = Inr team" "code = fst (read_line rest)" "code \<noteq> []" "code \<in> set codes" "make_flag C cfg team = Inr f"
    using r unfolding reveal_iff by blast
  obtain l1 l2 ls where lines: "lines = l1 # l2 # ls" "token = py_strip l1" "code = py_strip l2"
    using r(2,3,5,6) by (cases lines; cases rest) (auto simp: read_line_def)
  obtain content where c: "encode_uuid C (flag_template cfg) (flag_key cfg) team True = Inr content"
    "f = flag_prefix cfg @ ''{'' @ content @ ''}''" using r(8) by (auto simp: make_flag_def res_simps)
  have "- (2 ^ 63) \<le> team \<and> team < 2 ^ 63" using c(1) by (auto simp: encode_uuid_def Let_def res_simps pack_q_def split: if_splits)
  then have "decode_uuid C (flag_template cfg) (flag_key cfg) content = Inr team"
    using stego_round_trip [OF C, of team "flag_template cfg" "flag_key cfg" True] c(1) by (metis sum.inject(2))
  then show ?thesis using that r lines c(2) by simp
qed

end
