(* ===== verification/Primality.thy ===== *)
theory Primality
  imports Libs
begin

text \<open>
  The primality test of \<^verbatim>\<open>rECp1cG/deploy/challenge.py\<close>: trial division by the primes below 100,
  then Miller-Rabin with the first 18 primes as bases. \<^verbatim>\<open>pow(b, e, x)\<close> of Python's integers is
  \<open>modpow\<close>. A prime always passes; below \<open>101\<^sup>2\<close>, where trial division settles the matter, nothing
  else passes.
\<close>

section \<open>The test\<close>

definition small_primes :: "int list" where
  "small_primes = [2, 3, 5, 7, 11, 13, 17, 19, 23, 29, 31, 37, 41, 43,
     47, 53, 59, 61, 67, 71, 73, 79, 83, 89, 97]"

text \<open>The loop over \<^verbatim>\<open>small\<close>: it returns from the function, or falls through as \<open>None\<close>.\<close>

fun small_screen :: "int \<Rightarrow> int list \<Rightarrow> bool option" where
  "small_screen x [] = None"
| "small_screen x (q # qs) =
     (if x = q then Some True else if x mod q = 0 then Some False else small_screen x qs)"

text \<open>The loop that halves \<^verbatim>\<open>odd\<close>; it is entered with a positive number only.\<close>

function split_odd :: "int \<Rightarrow> nat \<Rightarrow> int \<times> nat" where
  "split_odd od pw =
     (if 0 < od \<and> od mod 2 = 0 then split_odd (od div 2) (pw + 1) else (od, pw))"
  by pat_completeness auto
termination
  by (relation "measure (\<lambda>(od, pw). nat od)") auto

declare split_odd.simps [simp del]

definition mr_bases :: "int list" where
  "mr_bases = [2, 3, 5, 7, 11, 13, 17, 19, 23, 29, 31, 37, 41, 43, 47, 53, 59, 61]"

text \<open>The inner loop: \<open>True\<close> when it breaks, \<open>False\<close> when its \<^verbatim>\<open>else\<close> branch is reached.\<close>

fun mr_squares :: "int \<Rightarrow> int \<Rightarrow> nat \<Rightarrow> bool" where
  "mr_squares x y 0 = False"
| "mr_squares x y (Suc n) = (let y = modpow y 2 x in if y = x - 1 then True else mr_squares x y n)"

definition mr_base :: "int \<Rightarrow> int \<Rightarrow> nat \<Rightarrow> int \<Rightarrow> bool" where
  "mr_base x od pw base =
     (if base mod x = 0 then True
      else let y = modpow base od x in
           if y = 1 \<or> y = x - 1 then True else mr_squares x y (pw - 1))"

definition is_prime_test :: "int \<Rightarrow> bool" where
  "is_prime_test x =
     (if x < 2 then False
      else case small_screen x small_primes of
             Some b \<Rightarrow> b
           | None \<Rightarrow>
               let (od, pw) = split_odd (x - 1) 0
               in list_all (mr_base x od pw) mr_bases)"

section \<open>A prime passes\<close>

lemma split_odd_spec:
  "0 < n \<Longrightarrow> split_odd n k = (d, j) \<Longrightarrow> 0 < d \<and> odd d \<and> k \<le> j \<and> n = d * 2 ^ (j - k)"
proof (induction n k rule: split_odd.induct)
  case (1 n k)
  show ?case
  proof (cases "n mod 2 = 0")
    case True
    then have rec: "split_odd (n div 2) (k + 1) = (d, j)"
      using 1(2,3) by (simp add: split_odd.simps [of n k])
    have "0 < n div 2" using 1(2) True by presburger
    with 1(1) [OF _ _ rec] 1(2) True
    have IH: "0 < d" "odd d" "k + 1 \<le> j" "n div 2 = d * 2 ^ (j - (k + 1))" by auto
    have "j - k = Suc (j - (k + 1))" using IH(3) by simp
    moreover have "n = 2 * (n div 2)" using True by presburger
    ultimately have "n = d * 2 ^ (j - k)" using IH(4) by (metis power_Suc mult.left_commute)
    with IH show ?thesis by simp
  next
    case False
    then have "d = n \<and> j = k" using 1(3) by (simp add: split_odd.simps [of n k])
    with False 1(2) show ?thesis by (auto simp: odd_iff_mod_2_eq_one)
  qed
qed

text \<open>A square root of one modulo a prime is one or minus one.\<close>

lemma sqrt_one_prime:
  assumes "is_prime p" and "y * y mod p = 1" and "0 \<le> y" and "y < p"
  shows "y = 1 \<or> y = p - 1"
proof -
  have "p dvd y * y - 1"
    using assms(1,2) is_prime_gt1 [of p] by (simp add: mod_eq_dvd_iff [symmetric])
  then have "p dvd (y - 1) * (y + 1)" by (simp add: algebra_simps)
  then consider "p dvd y - 1" | "p dvd y + 1" using is_prime_dvd_mult [OF assms(1)] by blast
  then show ?thesis
  proof cases
    case 1
    then show ?thesis using assms zdvd_imp_le [of p "y - 1"] zdvd_not_zless [of 1 p]
      is_prime_gt1 [OF assms(1)] by (cases "y = 0") (force, force)
  next
    case 2
    then show ?thesis using assms zdvd_imp_le [of p "y + 1"] by auto
  qed
qed

text \<open>
  Squaring \<open>y\<close> repeatedly reaches one; just before the first one stands minus one, which the
  loop has seen unless it was \<open>y\<close> itself.
\<close>

lemma mr_squares_prime:
  assumes "is_prime p" and "0 \<le> y" and "y < p" and "y \<noteq> 1" and "y \<noteq> p - 1"
    and "y ^ (2 ^ Suc n) mod p = 1"
  shows "mr_squares p y n"
  using assms(2-)
proof (induction n arbitrary: y)
  case 0
  then show ?case using sqrt_one_prime [OF assms(1), of y] by (simp add: power2_eq_square)
next
  case (Suc n)
  define z where "z = modpow y 2 p"
  have gt: "1 < p" using is_prime_gt1 [OF assms(1)] .
  have z: "z = y * y mod p" by (simp add: z_def modpow_eq power2_eq_square)
  have "z \<noteq> 1" using sqrt_one_prime [OF assms(1), of y] Suc.prems z by auto
  moreover have "z ^ (2 ^ Suc n) mod p = 1"
  proof -
    have "z ^ (2 ^ Suc n) mod p = (y * y) ^ (2 ^ Suc n) mod p" by (simp add: z power_mod)
    also have "(y * y) ^ (2 ^ Suc n) = y ^ (2 ^ Suc (Suc n))"
      by (simp add: power_mult [symmetric] power2_eq_square [symmetric])
    finally show ?thesis using Suc.prems by simp
  qed
  moreover have "0 \<le> z" "z < p" using gt by (simp_all add: z)
  ultimately show ?case using Suc.IH [of z] by (auto simp: z_def [symmetric] Let_def)
qed

lemma mr_base_prime:
  assumes pr: "is_prime p" and "2 < p" and "split_odd (p - 1) 0 = (d, j)"
  shows "mr_base p d j b"
proof (cases "b mod p = 0")
  case True
  then show ?thesis by (simp add: mr_base_def)
next
  case False
  note spec = split_odd_spec [OF _ assms(3)]
  have d: "0 < d" "odd d" "p - 1 = d * 2 ^ j" using spec assms(2) by simp_all
  have "odd p"
    using is_prime_divisor [OF pr, of 2] assms(2) by auto
  have "j \<noteq> 0"
  proof
    assume "j = 0"
    then have "p - 1 = d" using d(3) by simp
    with \<open>odd p\<close> d(2) show False by auto
  qed
  then obtain n where j: "j = Suc n" by (cases j) auto
  define y where "y = modpow b d p"
  have y: "y = b ^ nat d mod p" by (simp add: y_def modpow_eq)
  have "y ^ (2 ^ j) mod p = b ^ (nat d * 2 ^ j) mod p" by (simp add: y power_mod power_mult)
  also have "nat d * 2 ^ j = nat (p - 1)" using d by (simp add: nat_mult_distrib nat_power_eq)
  also have "b ^ nat (p - 1) mod p = 1"
    using fermat_multiple [OF pr, of b "p - 1"] False assms(2) by (simp add: dvd_eq_mod_eq_0)
  finally have one: "y ^ (2 ^ Suc n) mod p = 1" by (simp only: j)
  show ?thesis
  proof (cases "y = 1 \<or> y = p - 1")
    case True
    then show ?thesis by (simp add: mr_base_def y_def [symmetric] Let_def)
  next
    case no: False
    have "mr_squares p y n"
      by (rule mr_squares_prime [OF pr _ _ _ _ one]) (use no assms(2) in \<open>auto simp: y\<close>)
    then show ?thesis by (simp add: mr_base_def y_def [symmetric] Let_def j)
  qed
qed

lemma small_screen_prime:
  assumes "is_prime x" and "\<forall>q \<in> set qs. 1 < q"
  shows "small_screen x qs \<noteq> Some False"
  using assms(2)
proof (induction qs)
  case Nil
  then show ?case by simp
next
  case (Cons q qs)
  then show ?case using is_prime_divisor [OF assms(1), of q] by (auto simp: mod_eq_0_iff_dvd)
qed

lemma small_screen_None:
  "small_screen x qs = None \<longleftrightarrow> (\<forall>q \<in> set qs. x \<noteq> q \<and> \<not> q dvd x)"
  by (induction qs) (auto simp: mod_eq_0_iff_dvd)

lemma small_screen_True: "small_screen x qs = Some True \<Longrightarrow> x \<in> set qs"
  by (induction qs) (auto split: if_splits)

lemma prime_passes:
  assumes "is_prime x"
  shows "is_prime_test x"
proof (cases "small_screen x small_primes")
  case None
  then have "x \<noteq> 2" by (auto simp: small_screen_None small_primes_def)
  then have "2 < x" using is_prime_gt1 [OF assms] by simp
  moreover obtain d j where s: "split_odd (x - 1) 0 = (d, j)" by (cases "split_odd (x - 1) 0") auto
  ultimately show ?thesis
    using None mr_base_prime [OF assms _ s] by (simp add: is_prime_test_def list_all_iff)
next
  case (Some b)
  moreover have "\<forall>q \<in> set small_primes. 1 < q" by (simp add: small_primes_def)
  then have "small_screen x small_primes \<noteq> Some False" by (rule small_screen_prime [OF assms])
  ultimately show ?thesis using is_prime_gt1 [OF assms] by (cases b) (auto simp: is_prime_test_def)
qed

section \<open>Below \<open>101\<^sup>2\<close> the test is exact\<close>

lemma small_primes_prime: "q \<in> set small_primes \<Longrightarrow> is_prime q"
proof -
  have "list_all is_prime small_primes" by code_simp
  then show "q \<in> set small_primes \<Longrightarrow> is_prime q" by (simp add: list_all_iff)
qed

lemma small_primes_complete:
  assumes "1 < d" and "d \<le> 100"
  shows "\<exists>q \<in> set small_primes. q dvd d"
proof -
  have "list_all (\<lambda>d. list_ex (\<lambda>q. d mod q = 0) small_primes) [2..100]" by code_simp
  moreover have "d \<in> set [2..100]" using assms by (simp del: upto_rec_numeral)
  ultimately show ?thesis
    by (auto simp del: upto_rec_numeral set_upto simp: list_all_iff list_ex_iff mod_eq_0_iff_dvd)
qed

lemma composite_small_divisor:
  assumes "1 < x" and "\<not> is_prime x"
  shows "\<exists>d. 1 < d \<and> d * d \<le> x \<and> d dvd x"
proof -
  obtain d where d: "2 \<le> d" "d \<le> x - 1" "d dvd x" using assms by (auto simp: is_prime_def list_all_iff)
  then obtain e where e: "x = d * e" by (auto elim: dvdE)
  have "0 < d * e" using e assms(1) by simp
  then have "0 < e" using d(1) by (simp add: zero_less_mult_iff)
  moreover have "e \<noteq> 1" using d(2) e by auto
  ultimately have "1 < e" by simp
  show ?thesis
  proof (cases "d \<le> e")
    case True
    then show ?thesis using d e mult_left_mono [of d e d] by (intro exI [of _ d]) auto
  next
    case False
    then show ?thesis using d e \<open>1 < e\<close> mult_right_mono [of e d e] by (intro exI [of _ e]) auto
  qed
qed

lemma passes_small_prime:
  assumes "x < 10201" and "is_prime_test x"
  shows "is_prime x"
proof (rule ccontr)
  assume "\<not> is_prime x"
  moreover have x: "1 < x" using assms(2) by (auto simp: is_prime_test_def split: if_splits)
  ultimately obtain d where d: "1 < d" "d * d \<le> x" "d dvd x" using composite_small_divisor by blast
  have "d \<le> 100"
  proof (rule ccontr)
    assume "\<not> d \<le> 100"
    then have "101 * 101 \<le> d * d" by (intro mult_mono) auto
    with d assms(1) show False by simp
  qed
  then obtain q where q: "q \<in> set small_primes" "q dvd x"
    using small_primes_complete d dvd_trans by blast
  then have "small_screen x small_primes \<noteq> None" by (auto simp: small_screen_None)
  then have "small_screen x small_primes = Some True"
    using assms(2) x by (auto simp: is_prime_test_def split: option.splits)
  then have "x \<in> set small_primes" by (rule small_screen_True)
  with small_primes_prime \<open>\<not> is_prime x\<close> show False by blast
qed

end
