(* ===== verification/Text.thy ===== *)
theory Text
  imports Prelude
begin

text \<open>Text in the ways the components share: letters in either case, pieces between separators.\<close>

section \<open>Case\<close>

definition ascii_lower :: "char \<Rightarrow> char" where
  "ascii_lower c = (let n = of_char c :: nat in if 65 \<le> n \<and> n \<le> 90 then char_of (n + 32) else c)"

section \<open>Splitting at white space\<close>

fun split_ws :: "(char \<Rightarrow> bool) \<Rightarrow> string \<Rightarrow> string \<Rightarrow> string list" where
  "split_ws ws cur [] = (if cur = [] then [] else [rev cur])"
| "split_ws ws cur (c # cs) =
     (if ws c then (if cur = [] then [] else [rev cur]) @ split_ws ws [] cs else split_ws ws (c # cur) cs)"

lemma split_ws_token:
  "\<forall>c \<in> set t. \<not> ws c \<Longrightarrow> split_ws ws cur (t @ rest) = split_ws ws (rev t @ cur) rest"
  by (induction t arbitrary: cur) simp_all

text \<open>Tokens without white space that are put together with separators are found again.\<close>

lemma split_ws_join:
  assumes "\<forall>t \<in> set ts. t \<noteq> [] \<and> (\<forall>c \<in> set t. \<not> ws c)" and "ws sep"
  shows "split_ws ws [] (concat (map (\<lambda>t. t @ [sep]) ts)) = ts"
  using assms(1)
proof (induction ts)
  case (Cons t ts)
  then show ?case using assms(2) split_ws_token [of t ws "[]"] by simp
qed simp

section \<open>Searching\<close>

text \<open>\<^verbatim>\<open>find\<close> of strings and bytes: the first position of a pattern.\<close>

fun find_sub :: "'a list \<Rightarrow> 'a list \<Rightarrow> nat option" where
  "find_sub pat [] = (if pat = [] then Some 0 else None)"
| "find_sub pat (b # bs) = (if take (length pat) (b # bs) = pat then Some 0 else map_option Suc (find_sub pat bs))"

lemma find_sub_Some:
  "find_sub pat bs = Some i \<Longrightarrow> take (length pat) (drop i bs) = pat \<and> i + length pat \<le> length bs"
proof (induction bs arbitrary: i)
  case (Cons b bs)
  show ?case
  proof (cases "take (length pat) (b # bs) = pat")
    case True
    then have "length pat \<le> length (b # bs)" by (metis length_take min.cobounded1)
    then show ?thesis using Cons.prems True by simp
  next
    case False
    then obtain j where "find_sub pat bs = Some j" "i = Suc j" using Cons.prems by auto
    then show ?thesis using Cons.IH by auto
  qed
qed (simp split: if_splits)

section \<open>Encoding\<close>

text \<open>UTF-8 of the characters below 256, of which header text consists.\<close>

definition utf8_char :: "char \<Rightarrow> bytes" where
  "utf8_char c =
     (let n = of_char c :: nat in
      if n < 128 then [of_nat n] else [of_nat (192 + n div 64), of_nat (128 + n mod 64)])"

definition utf8_bytes :: "string \<Rightarrow> bytes" where
  "utf8_bytes s = concat (map utf8_char s)"

text \<open>SHA-256 is a function to words of 256 bits.\<close>

definition sha256_bytes :: "(bytes \<Rightarrow> 256 word) \<Rightarrow> bytes \<Rightarrow> bytes" where
  "sha256_bytes H b = to_bytes_big 32 (uint (H b))"

end
