(* ===== verification/Recp.thy ===== *)
theory Recp
  imports Primality Decimal Numbers Text
begin

text \<open>
  \<^verbatim>\<open>rECp1cG/deploy/challenge.py\<close>: a service that publishes noisy x-coordinates of points on a random
  curve and gives out the encrypted flag's key tag for the exact x-coordinate of the first one. The draws
  of \<^verbatim>\<open>SystemRandom\<close> are a tape; SHA-256 is the argument \<open>H\<close>, a function to 256-bit words. The alarm
  that ends a slow session is not modelled.
\<close>

section \<open>Parameters and random choices\<close>

definition p_bits :: nat where "p_bits = 1024"
definition k_points :: nat where "k_points = 21"
definition d_bits :: nat where "d_bits = 451"
definition Delta_bound :: int where "Delta_bound = push_bit d_bits 1"

definition prime_candidate :: "nat \<Rightarrow> int \<Rightarrow> int" where
  "prime_candidate bits r = or (or (r mod 2 ^ bits) (push_bit (bits - 1) 1)) 3"

definition make_prime :: "nat \<Rightarrow> int rnd" where
  "make_prime bits =
     rbind (draw_until (2 ^ bits) (\<lambda>r. Inr (is_prime_test (prime_candidate bits r))))
       (\<lambda>r. rret (prime_candidate bits r))"

text \<open>\<^verbatim>\<open>pow(z, -1, p)\<close>\<close>

definition inverse_mod :: "int \<Rightarrow> int \<Rightarrow> int res" where
  "inverse_mod z p = (if p \<noteq> 0 \<and> coprime z p then Inr (minv z p) else Inl ValueError)"

text \<open>A point is a pair of coordinates; the identity is \<^verbatim>\<open>None\<close>.\<close>

type_synonym affine = "int \<times> int"

definition add_points :: "affine option \<Rightarrow> affine option \<Rightarrow> int \<Rightarrow> int \<Rightarrow> affine option res" where
  "add_points P Q a p =
     (case P of None \<Rightarrow> Inr Q
      | Some (x1, y1) \<Rightarrow>
     (case Q of None \<Rightarrow> Inr P
      | Some (x2, y2) \<Rightarrow>
          if x1 = x2 \<and> (y1 + y2) mod p = 0 then Inr None
          else
            ebind
              (if P = Q then ebind (inverse_mod (2 * y1) p) (\<lambda>i. Inr ((3 * x1 * x1 + a) * i mod p))
               else ebind (inverse_mod (x2 - x1) p) (\<lambda>i. Inr ((y2 - y1) * i mod p)))
              (\<lambda>slope.
                 let x3 = (slope * slope - x1 - x2) mod p;
                     y3 = (slope * (x1 - x3) - y1) mod p
                 in Inr (Some (x3, y3)))))"

definition right_side :: "int \<Rightarrow> int \<Rightarrow> int \<Rightarrow> int \<Rightarrow> int" where
  "right_side a b p x = (x * x * x + a * x + b) mod p"

definition random_point :: "int \<Rightarrow> int \<Rightarrow> int \<Rightarrow> affine rnd" where
  "random_point a b p =
     rbind (draw_until (p - 1) (\<lambda>r.
              let y2 = right_side a b p (r + 1)
              in Inr (y2 \<noteq> 0 \<and> modpow y2 ((p - 1) div 2) p = 1)))
       (\<lambda>r. let x = r + 1; y = modpow (right_side a b p x) ((p + 1) div 4) p
            in rbind (randbelow 2) (\<lambda>bit. rret (if bit \<noteq> 0 then (x, (- y) mod p) else (x, y))))"

section \<open>The session's secrets\<close>

fun choose_curve :: "int \<Rightarrow> (int \<times> int) rnd" where
  "choose_curve p (r # s # t) =
     (if p \<le> 1 then Inl ValueError
      else let a = r mod (p - 1) + 1; b = s mod (p - 1) + 1 in
           if (4 * a * a * a + 27 * b * b) mod p \<noteq> 0 then Inr ((a, b), t) else choose_curve p t)"
| "choose_curve p t = (if p \<le> 1 then Inl ValueError else Inl EntropyExhausted)"

text \<open>The steps from \<open>u\<close>: the points appended, up to the first identity.\<close>

fun walk :: "nat \<Rightarrow> affine \<Rightarrow> affine \<Rightarrow> int \<Rightarrow> int \<Rightarrow> affine list res" where
  "walk 0 u g a p = Inr []"
| "walk (Suc n) u g a p =
     ebind (add_points (Some u) (Some g) a p) (\<lambda>r.
       case r of None \<Rightarrow> Inr []
       | Some v \<Rightarrow> ebind (walk n v g a p) (\<lambda>vs. Inr (v # vs)))"

lemma draw_until_shrinks: "draw_until n ok t = Inr (r, t') \<Longrightarrow> length t' < length t"
  by (induction t) (auto simp: res_simps randbelow_def split: if_splits)

lemma random_point_shrinks: "random_point a b p t = Inr (g, t') \<Longrightarrow> length t' < length t"
  by (auto simp: random_point_def rnd_simps Let_def split: if_splits dest!: draw_until_shrinks)

function choose_points :: "int \<Rightarrow> int \<Rightarrow> int \<Rightarrow> (affine \<times> affine list) rnd" where
  "choose_points a b p t =
     ebind (random_point a b p t) (\<lambda>(g, t1).
     ebind (random_point a b p t1) (\<lambda>(u, t2).
     ebind (walk (k_points - 1) u g a p) (\<lambda>vs.
       let points = u # vs in
       if length points = k_points \<and> length (remdups (map fst points)) = k_points
       then Inr ((g, points), t2) else choose_points a b p t2)))"
  by pat_completeness auto
termination
  by (relation "measure (\<lambda>(a, b, p, t). length t)")
    (auto dest!: random_point_shrinks)

declare choose_points.simps [simp del]

definition shown_state :: "int \<Rightarrow> int \<Rightarrow> int" where
  "shown_state x r = x - (r - Delta_bound)"

fun shown_states :: "int \<Rightarrow> affine list \<Rightarrow> int list rnd" where
  "shown_states p [] = rret []"
| "shown_states p ((x, y) # points) =
     rbind (draw_until (2 * Delta_bound + 1)
              (\<lambda>r. Inr (0 \<le> shown_state x r \<and> shown_state x r < p)))
       (\<lambda>r. rbind (shown_states p points) (\<lambda>ss. rret (shown_state x r # ss)))"

record session =
  key_tag :: string
  se_p :: int
  se_a :: int
  se_b :: int
  se_g :: affine
  se_points :: "affine list"
  se_states :: "int list"

text \<open>The size of the prime is the global constant \<open>p_bits\<close>, which \<open>challenge_main\<close> passes.\<close>

definition open_session :: "nat \<Rightarrow> session rnd" where
  "open_session bits =
     rbind (urandom_int 16) (\<lambda>tag.
     rbind (make_prime bits) (\<lambda>p.
     rbind (choose_curve p) (\<lambda>(a, b).
     rbind (choose_points a b p) (\<lambda>(g, points).
     rbind (shown_states p points) (\<lambda>states.
     rret \<lparr> key_tag = bytes_hex (to_bytes_big 16 tag), se_p = p, se_a = a, se_b = b, se_g = g,
            se_points = points, se_states = states \<rparr>)))))"

section \<open>The key and the encrypted flag\<close>

definition session_key ::
  "(bytes \<Rightarrow> 256 word) \<Rightarrow> string \<Rightarrow> int \<Rightarrow> int \<Rightarrow> int \<Rightarrow> affine \<Rightarrow> affine \<Rightarrow> bytes" where
  "session_key H tag p a b g P0 =
     (let size = (bit_length p + 7) div 8;
          nums = [a, b, fst g, snd g, fst P0, snd P0];
          material = concat (map (to_bytes_big size) nums)
      in sha256_bytes H (material @ [124] @ map (\<lambda>c. word_of_int (of_char c)) tag))"

text \<open>The counter fits its four bytes for flags of less than \<open>2\<^sup>3\<^sup>7\<close> bytes.\<close>

function keystream :: "(bytes \<Rightarrow> 256 word) \<Rightarrow> bytes \<Rightarrow> nat \<Rightarrow> bytes \<Rightarrow> int \<Rightarrow> bytes" where
  "keystream H key n pad ctr =
     (if length pad < n
      then keystream H key n (pad @ sha256_bytes H (key @ to_bytes_big 4 ctr)) (ctr + 1)
      else pad)"
  by pat_completeness auto
termination
  by (relation "measure (\<lambda>(H, key, n, pad, ctr). n - length pad)") (auto simp: sha256_bytes_def)

declare keystream.simps [simp del]

definition xor_bytes :: "bytes \<Rightarrow> bytes \<Rightarrow> bytes" where
  "xor_bytes xs ys = map2 xor xs ys"

definition encrypted_flag :: "(bytes \<Rightarrow> 256 word) \<Rightarrow> bytes \<Rightarrow> session \<Rightarrow> bytes" where
  "encrypted_flag H flag s =
     xor_bytes flag
       (keystream H (session_key H (key_tag s) (se_p s) (se_a s) (se_b s) (se_g s) (se_points s ! 0))
          (length flag) [] 0)"

section \<open>Reading the answer\<close>

text \<open>\<^verbatim>\<open>int(s, 0)\<close>: the base is read off a prefix; a decimal literal may not start with a zero.\<close>

definition base_value :: "int \<Rightarrow> char \<Rightarrow> int option" where
  "base_value base c =
     (case hex_value c of None \<Rightarrow> None | Some v \<Rightarrow> if v < base then Some v else None)"

fun base_digits :: "int \<Rightarrow> int \<Rightarrow> string \<Rightarrow> int res" where
  "base_digits base acc [] = Inr acc"
| "base_digits base acc [c] =
     (case base_value base c of None \<Rightarrow> Inl ValueError | Some v \<Rightarrow> Inr (acc * base + v))"
| "base_digits base acc (c # d # cs) =
     (if c = CHR ''_'' then
        (case base_value base d of None \<Rightarrow> Inl ValueError
         | Some v \<Rightarrow> base_digits base (acc * base + v) cs)
      else
        (case base_value base c of None \<Rightarrow> Inl ValueError
         | Some v \<Rightarrow> base_digits base (acc * base + v) (d # cs)))"

definition base_number :: "int \<Rightarrow> string \<Rightarrow> int res" where
  "base_number base s =
     (case s of [] \<Rightarrow> Inl ValueError
      | c # cs \<Rightarrow> (case base_value base c of None \<Rightarrow> Inl ValueError | Some v \<Rightarrow> base_digits base v cs))"

definition skip_underscore :: "string \<Rightarrow> string" where
  "skip_underscore s = (case s of c # cs \<Rightarrow> if c = CHR ''_'' then cs else s | [] \<Rightarrow> [])"

definition literal :: "string \<Rightarrow> int res" where
  "literal s =
     (case s of
        c # d # cs \<Rightarrow>
          if c \<noteq> CHR ''0'' then base_number 10 s
          else if d = CHR ''x'' \<or> d = CHR ''X'' then base_number 16 (skip_underscore cs)
          else if d = CHR ''o'' \<or> d = CHR ''O'' then base_number 8 (skip_underscore cs)
          else if d = CHR ''b'' \<or> d = CHR ''B'' then base_number 2 (skip_underscore cs)
          else ebind (base_number 10 s) (\<lambda>v. if v = 0 then Inr 0 else Inl ValueError)
      | _ \<Rightarrow> base_number 10 s)"

definition int_base0 :: "string \<Rightarrow> int res" where
  "int_base0 s =
     (case py_strip s of
        [] \<Rightarrow> Inl ValueError
      | c # cs \<Rightarrow>
          if c = CHR ''-'' then ebind (literal cs) (\<lambda>v. Inr (- v))
          else if c = CHR ''+'' then literal cs
          else literal (c # cs))"

section \<open>The conversation\<close>

definition joined :: "string \<Rightarrow> string list \<Rightarrow> string" where
  "joined sep xs = (case xs of [] \<Rightarrow> [] | y # ys \<Rightarrow> y @ concat (map (\<lambda>z. sep @ z) ys))"

definition banner :: "session \<Rightarrow> string list" where
  "banner s =
     [''p = '' @ show_int (se_p s), ''a = '' @ show_int (se_a s), ''b = '' @ show_int (se_b s),
      ''Delta = '' @ show_int Delta_bound,
      ''G = ('' @ show_int (fst (se_g s)) @ '', '' @ show_int (snd (se_g s)) @ '')'',
      ''states = ['' @ joined '', '' (map show_int (se_states s)) @ '']'',
      [], ''# submit P0.x'']"

definition quoted :: "string \<Rightarrow> string \<Rightarrow> string" where
  "quoted label s = label @ [CHR 0x27] @ s @ [CHR 0x27]"

text \<open>The lines printed for the player's line; \<open>None\<close> is the end of the input.\<close>

definition verdict :: "(bytes \<Rightarrow> 256 word) \<Rightarrow> bytes \<Rightarrow> session \<Rightarrow> string option \<Rightarrow> string list" where
  "verdict H flag s line =
     (case line of
        None \<Rightarrow> []
      | Some l \<Rightarrow>
          let answer = py_strip l in
          if length answer > 4096 then [''# wrong'']
          else (case int_base0 answer of
                  Inl e \<Rightarrow> [''# wrong'']
                | Inr recovered_x \<Rightarrow>
                    if recovered_x \<noteq> fst (se_points s ! 0) then [''# wrong'']
                    else [''# ok'', quoted ''key_tag = '' (key_tag s),
                          quoted ''ct = '' (bytes_hex (encrypted_flag H flag s))]))"

definition challenge_main :: "(bytes \<Rightarrow> 256 word) \<Rightarrow> bytes \<Rightarrow> string option \<Rightarrow> string list rnd" where
  "challenge_main H flag line =
     rbind (open_session p_bits) (\<lambda>s. rret (banner s @ verdict H flag s line))"

end
