(* ===== verification/RecpProps.thy ===== *)
theory RecpProps
  imports Recp CurveLaws
begin

text \<open>
  What the service of \<open>Recp\<close> guarantees: the prime search ends, the points it publishes about lie on
  the curve and follow each other by the group law, every shown state is within the announced distance,
  and exactly the right x-coordinate opens the flag.
\<close>

section \<open>The prime search\<close>

lemma or_3_mod_4: "or x 3 mod 4 = (3 :: int)"
proof -
  have "or x 3 mod 4 = take_bit 2 (or x 3)" by (simp add: take_bit_eq_mod)
  also have "\<dots> = or (x mod 4) (3 mod 4)" by (simp add: take_bit_or) (simp add: take_bit_eq_mod)
  finally have eq: "or x 3 mod 4 = or (x mod 4) 3" by simp
  have "x mod 4 = 0 \<or> x mod 4 = 1 \<or> x mod 4 = 2 \<or> x mod 4 = 3" by presburger
  with eq show ?thesis by (elim disjE) simp_all
qed

lemma prime_candidate_range:
  assumes "2 \<le> bits"
  shows "2 ^ (bits - 1) \<le> prime_candidate bits r" and "prime_candidate bits r < 2 ^ bits"
    and "prime_candidate bits r mod 4 = 3"
proof -
  have top: "push_bit (bits - 1) 1 = (2 :: int) ^ (bits - 1)" by (simp add: push_bit_eq_mult)
  let ?x = "or (r mod 2 ^ bits) (2 ^ (bits - 1))"
  have x: "?x = or (2 ^ (bits - 1)) (r mod 2 ^ bits)" by (rule or.commute)
  have "2 ^ (bits - 1) \<le> ?x" unfolding x by (rule or_greater_eq) simp
  moreover have "?x \<le> or ?x 3" by (rule or_greater_eq) simp
  ultimately show "2 ^ (bits - 1) \<le> prime_candidate bits r" by (simp add: prime_candidate_def top)
  have "(2 :: int) ^ (bits - 1) < 2 ^ bits" using assms by simp
  then have "?x < 2 ^ bits" using assms by (intro OR_upper) auto
  moreover have "(2 :: int) ^ 2 \<le> 2 ^ bits" using assms by (intro power_increasing) simp_all
  then have "(3 :: int) < 2 ^ bits" by simp
  ultimately have "or ?x 3 < 2 ^ bits" using assms by (intro OR_upper) (auto simp: or_nonnegative_int_iff)
  then show "prime_candidate bits r < 2 ^ bits" by (simp add: prime_candidate_def top)
  show "prime_candidate bits r mod 4 = 3" by (simp add: prime_candidate_def or_3_mod_4)
qed

lemma prime_candidate_mod: "prime_candidate bits (r mod 2 ^ bits) = prime_candidate bits r"
  by (simp add: prime_candidate_def)

text \<open>A rejection loop is over at the latest with the first good draw.\<close>

lemma draw_until_stops:
  assumes "0 < n" and "good (x mod n)"
  shows "\<exists>r rest. draw_until n (\<lambda>r. Inr (good r)) (before @ x # after) = Inr (r, rest @ after) \<and> good r"
proof (induction before)
  case Nil
  show ?case using assms by (intro exI [of _ "x mod n"] exI [of _ "[]"]) (simp add: randbelow_def)
next
  case (Cons y before)
  then obtain r rest where "draw_until n (\<lambda>r. Inr (good r)) (before @ x # after) = Inr (r, rest @ after)"
    "good r" by blast
  then show ?case
    using assms(1) by (cases "good (y mod n)") (auto simp: randbelow_def)
qed

lemma make_prime_result:
  assumes "2 \<le> bits" and "make_prime bits t = Inr (p, t')"
  shows "is_prime_test p \<and> 2 ^ (bits - 1) \<le> p \<and> p < 2 ^ bits \<and> p mod 4 = 3"
  using assms prime_candidate_range [OF assms(1)]
  by (auto simp: make_prime_def rnd_simps dest!: draw_until_sound)

lemma make_prime_stops:
  assumes "is_prime (prime_candidate bits r)"
  shows "\<exists>p rest. make_prime bits (before @ r # after) = Inr (p, rest @ after)"
proof -
  have "\<exists>q rest. draw_until (2 ^ bits) (\<lambda>r. Inr (is_prime_test (prime_candidate bits r)))
          (before @ r # after) = Inr (q, rest @ after) \<and> is_prime_test (prime_candidate bits q)"
    by (rule draw_until_stops) (simp_all add: prime_candidate_mod prime_passes assms)
  then show ?thesis by (auto simp: make_prime_def rbind_def rret_def)
qed

section \<open>Points of the curve\<close>

definition on_weierstrass :: "int \<Rightarrow> int \<Rightarrow> int \<Rightarrow> affine \<Rightarrow> bool" where
  "on_weierstrass a b p P \<longleftrightarrow>
     0 \<le> fst P \<and> fst P < p \<and> 0 \<le> snd P \<and> snd P < p \<and> snd P * snd P mod p = right_side a b p (fst P)"

lemma sqrt_3_mod_4:
  fixes p c :: int
  assumes "p mod 4 = 3" and "0 < p" and "c ^ nat ((p - 1) div 2) mod p = 1" and "c mod p = c"
  shows "c ^ nat ((p + 1) div 4) * c ^ nat ((p + 1) div 4) mod p = c"
proof -
  have "2 * ((p + 1) div 4) = (p - 1) div 2 + 1" using assms(1) by presburger
  then have "nat (2 * ((p + 1) div 4)) = nat ((p - 1) div 2 + 1)" by simp
  moreover have "0 \<le> (p + 1) div 4" "0 \<le> (p - 1) div 2" using assms(2) by simp_all
  ultimately have e: "nat ((p + 1) div 4) + nat ((p + 1) div 4) = Suc (nat ((p - 1) div 2))"
    by (simp add: nat_mult_distrib nat_add_distrib)
  have "c ^ nat ((p + 1) div 4) * c ^ nat ((p + 1) div 4) mod p = c ^ Suc (nat ((p - 1) div 2)) mod p"
    by (simp only: power_add [symmetric] e)
  also have "\<dots> = c * (c ^ nat ((p - 1) div 2) mod p) mod p" by (simp add: mod_mult_right_eq)
  finally show ?thesis using assms(3,4) by simp
qed

lemma random_point_valid:
  assumes "p mod 4 = 3" and "random_point a b p t = Inr (P, t')"
  shows "on_weierstrass a b p P"
proof -
  obtain r t1 bit where d: "draw_until (p - 1) (\<lambda>r.
              let y2 = right_side a b p (r + 1)
              in Inr (y2 \<noteq> 0 \<and> modpow y2 ((p - 1) div 2) p = 1)) t = Inr (r, t1)"
    and P: "P = (let y = modpow (right_side a b p (r + 1)) ((p + 1) div 4) p
                 in if bit \<noteq> (0 :: int) then (r + 1, (- y) mod p) else (r + 1, y))"
    using assms(2) by (auto simp: random_point_def rnd_simps Let_def)
  have r: "0 \<le> r" "r < p - 1" and c: "modpow (right_side a b p (r + 1)) ((p - 1) div 2) p = 1"
    using draw_until_sound [OF d] by (simp_all add: Let_def)
  define c where "c = right_side a b p (r + 1)"
  define y where "y = modpow c ((p + 1) div 4) p"
  have p: "0 < p" using r by simp
  have "y * y mod p = c"
  proof -
    have "c ^ nat ((p - 1) div 2) mod p = 1" using c p by (simp add: c_def modpow_eq)
    moreover have "c mod p = c" by (simp add: c_def right_side_def)
    ultimately have "c ^ nat ((p + 1) div 4) * c ^ nat ((p + 1) div 4) mod p = c" by (rule sqrt_3_mod_4 [OF assms(1) p])
    then show ?thesis using p by (simp only: y_def modpow_eq mod_mult_eq)
  qed
  moreover have "((- y) mod p) * ((- y) mod p) mod p = y * y mod p" by (simp add: mod_mult_eq)
  moreover have "0 \<le> y" "y < p" using p by (simp_all add: y_def modpow_eq)
  ultimately show ?thesis
    using r p by (auto simp: P on_weierstrass_def Let_def y_def [symmetric] c_def [symmetric])
qed

lemma on_weierstrass_dvd:
  "on_weierstrass a b p (x, y) \<Longrightarrow> p dvd x ^ 3 + a * x + b - y ^ 2"
  by (simp add: on_weierstrass_def right_side_def mod_eq_dvd_iff dvd_diff_commute
      power2_eq_square power3_eq_cube)

lemma third_root_general:
  fixes l x1 x2 y1 a b p :: int
  defines "x3 \<equiv> l * l - x1 - x2"
  assumes "p dvd x1 ^ 3 + a * x1 + b - y1 ^ 2"
    and "p dvd x2 ^ 2 + x2 * x1 + x1 ^ 2 + a - l ^ 2 * (x2 - x1) - 2 * l * y1"
  shows "(l * (x1 - x3) - y1) * (l * (x1 - x3) - y1) mod p = (x3 * x3 * x3 + a * x3 + b) mod p"
proof -
  have "x3 * x3 * x3 + a * x3 + b - (l * (x1 - x3) - y1) * (l * (x1 - x3) - y1)
      = (x3 - x1) * (x2 ^ 2 + x2 * x1 + x1 ^ 2 + a - l ^ 2 * (x2 - x1) - 2 * l * y1)
        + (x1 ^ 3 + a * x1 + b - y1 ^ 2)"
    unfolding x3_def by (simp add: power2_eq_square power3_eq_cube algebra_simps)
  also have "p dvd \<dots>" using assms(2,3) by (simp only: dvd_add dvd_mult)
  finally show ?thesis by (simp add: mod_eq_dvd_iff dvd_diff_commute)
qed

lemma third_point_valid:
  assumes "0 < p" and "on_weierstrass a b p (x1, y1)"
    and "p dvd x2 ^ 2 + x2 * x1 + x1 ^ 2 + a - l ^ 2 * (x2 - x1) - 2 * l * y1"
  shows "on_weierstrass a b p ((l * l - x1 - x2) mod p, (l * (x1 - (l * l - x1 - x2) mod p) - y1) mod p)"
proof -
  let ?x3 = "l * l - x1 - x2"
  let ?y3 = "l * (x1 - ?x3 mod p) - y1"
  have y: "?y3 mod p = (l * (x1 - ?x3) - y1) mod p" by (intro mod_congs) simp_all
  have "(?y3 mod p) * (?y3 mod p) mod p = (l * (x1 - ?x3) - y1) * (l * (x1 - ?x3) - y1) mod p"
    unfolding y by (simp add: mod_mult_eq)
  also have "\<dots> = (?x3 * ?x3 * ?x3 + a * ?x3 + b) mod p"
    using on_weierstrass_dvd [OF assms(2)] assms(3) by (rule third_root_general)
  also have "\<dots> = right_side a b p (?x3 mod p)"
    unfolding right_side_def by (intro mod_congs) simp_all
  finally show ?thesis using assms(1) by (simp add: on_weierstrass_def)
qed

lemma tangent_general:
  fixes x1 y1 l a p :: int
  assumes "p dvd l * (2 * y1) - (3 * x1 * x1 + a)"
  shows "p dvd x1 ^ 2 + x1 * x1 + x1 ^ 2 + a - l ^ 2 * (x1 - x1) - 2 * l * y1"
proof -
  have "x1 ^ 2 + x1 * x1 + x1 ^ 2 + a - l ^ 2 * (x1 - x1) - 2 * l * y1
      = - (l * (2 * y1) - (3 * x1 * x1 + a))"
    by (simp add: power2_eq_square algebra_simps)
  with assms show ?thesis by (metis dvd_minus_iff)
qed

lemma chord_general:
  fixes x1 x2 y1 y2 l a b p :: int
  assumes "coprime (x2 - x1) p" and "p dvd l * (x2 - x1) - (y2 - y1)"
    and "p dvd x1 ^ 3 + a * x1 + b - y1 ^ 2" and "p dvd x2 ^ 3 + a * x2 + b - y2 ^ 2"
  shows "p dvd x2 ^ 2 + x2 * x1 + x1 ^ 2 + a - l ^ 2 * (x2 - x1) - 2 * l * y1"
proof -
  have "(x2 - x1) * (x2 ^ 2 + x2 * x1 + x1 ^ 2 + a - l ^ 2 * (x2 - x1) - 2 * l * y1)
      = (x2 ^ 3 + a * x2 + b - y2 ^ 2) - (x1 ^ 3 + a * x1 + b - y1 ^ 2)
        - (l * (x2 - x1) - (y2 - y1)) * (l * (x2 - x1) + y1 + y2)"
    by (simp add: power2_eq_square power3_eq_cube algebra_simps)
  also have "p dvd \<dots>" by (rule dvd_diff [OF dvd_diff [OF assms(4,3)] dvd_mult2 [OF assms(2)]])
  finally show ?thesis using assms(1) by (metis coprime_commute coprime_dvd_mult_right_iff)
qed

text \<open>Two points of the curve with one x-coordinate are equal or opposite.\<close>

lemma same_x:
  assumes "is_prime p" and "on_weierstrass a b p (x, y1)" and "on_weierstrass a b p (x, y2)"
    and "(y1 + y2) mod p \<noteq> 0"
  shows "y1 = y2"
proof -
  have "p dvd y1 * y1 - y2 * y2"
    using assms(2,3) by (simp add: on_weierstrass_def mod_eq_dvd_iff [symmetric])
  also have "y1 * y1 - y2 * y2 = (y1 - y2) * (y1 + y2)" by (simp add: algebra_simps)
  finally have "p dvd y1 - y2"
    using is_prime_dvd_mult [OF assms(1)] assms(4) by (auto simp: mod_eq_0_iff_dvd)
  then have "y1 mod p = y2 mod p" by (simp add: mod_eq_dvd_iff)
  with assms(2,3) show ?thesis by (simp add: on_weierstrass_def)
qed

lemma inverse_mod_prime:
  "is_prime p \<Longrightarrow> z mod p \<noteq> 0 \<Longrightarrow> inverse_mod z p = Inr (minv z p) \<and> coprime z p"
  using is_prime_coprime [of p z] is_prime_gt1 [of p]
  by (auto simp: inverse_mod_def mod_eq_0_iff_dvd)

lemma add_points_valid:
  assumes pr: "is_prime p" and P: "on_weierstrass a b p P" and Q: "on_weierstrass a b p Q"
  shows "\<exists>r. add_points (Some P) (Some Q) a p = Inr r
      \<and> (\<forall>R. r = Some R \<longrightarrow> on_weierstrass a b p R)"
proof -
  obtain x1 y1 x2 y2 where PQ: "P = (x1, y1)" "Q = (x2, y2)" by (cases P; cases Q) auto
  have p: "0 < p" using is_prime_gt1 [OF pr] by simp
  note P' = P [unfolded PQ] and Q' = Q [unfolded PQ]
  consider (neg) "x1 = x2" "(y1 + y2) mod p = 0" | (dbl) "x1 = x2" "y1 = y2" "(y1 + y2) mod p \<noteq> 0"
    | (chord) "x1 \<noteq> x2"
    using same_x [OF pr, of a b x1 y1 y2] P' Q' by blast
  then show ?thesis
  proof cases
    case neg
    then show ?thesis by (simp add: add_points_def PQ)
  next
    case dbl
    then have "2 * y1 mod p \<noteq> 0" by (simp only: mult_2) simp
    note i = inverse_mod_prime [OF pr this]
    show ?thesis
      using dbl i third_point_valid [OF p P' tangent_general [OF slope_mult [OF conjunct2 [OF i] p]]]
      by (simp add: add_points_def PQ Let_def)
  next
    case chord
    have co: "coprime (x2 - x1) p"
      using chord P' Q' by (intro small_diff_coprime [OF pr]) (auto simp: on_weierstrass_def)
    then have i: "inverse_mod (x2 - x1) p = Inr (minv (x2 - x1) p)" using p by (simp add: inverse_mod_def)
    show ?thesis
      using chord third_point_valid [OF p P' chord_general [OF co slope_mult [OF co p]
          on_weierstrass_dvd [OF P'] on_weierstrass_dvd [OF Q']]]
      by (simp add: add_points_def PQ i Let_def)
  qed
qed

section \<open>The published session\<close>

text \<open>Every point of a walk is the previous one plus the generator.\<close>

lemma walk_valid:
  assumes "is_prime p" and "on_weierstrass a b p g"
  shows "on_weierstrass a b p u \<Longrightarrow>
    \<exists>vs. walk n u g a p = Inr vs \<and> list_all (on_weierstrass a b p) vs
      \<and> (\<forall>i < length vs. add_points (Some ((u # vs) ! i)) (Some g) a p = Inr (Some (vs ! i)))"
proof (induction n arbitrary: u)
  case 0
  show ?case by simp
next
  case (Suc n)
  obtain r where r: "add_points (Some u) (Some g) a p = Inr r"
    and on: "\<And>R. r = Some R \<Longrightarrow> on_weierstrass a b p R"
    using add_points_valid [OF assms(1) Suc.prems assms(2)] by blast
  show ?case
  proof (cases r)
    case None
    with r show ?thesis by simp
  next
    case (Some v)
    then obtain vs where vs: "walk n v g a p = Inr vs" "list_all (on_weierstrass a b p) vs"
      "\<forall>i < length vs. add_points (Some ((v # vs) ! i)) (Some g) a p = Inr (Some (vs ! i))"
      using Suc.IH [OF on [OF Some]] by blast
    have "add_points (Some ((u # v # vs) ! i)) (Some g) a p = Inr (Some ((v # vs) ! i))"
      if "i < length (v # vs)" for i
      using that vs(3) r Some by (cases i) auto
    with vs on [OF Some] r Some show ?thesis by simp
  qed
qed

definition consecutive :: "int \<Rightarrow> int \<Rightarrow> affine \<Rightarrow> affine list \<Rightarrow> bool" where
  "consecutive a p g ps \<longleftrightarrow>
     (\<forall>i < length ps - 1. add_points (Some (ps ! i)) (Some g) a p = Inr (Some (ps ! Suc i)))"

lemma choose_points_valid:
  assumes "is_prime p" and "p mod 4 = 3"
  shows "choose_points a b p t = Inr ((g, ps), t') \<Longrightarrow>
    on_weierstrass a b p g \<and> list_all (on_weierstrass a b p) ps \<and> length ps = k_points
    \<and> distinct (map fst ps) \<and> consecutive a p g ps"
proof (induction t rule: measure_induct_rule [of length])
  case (less t)
  obtain g1 t1 u t2 vs where
    d: "random_point a b p t = Inr (g1, t1)" "random_point a b p t1 = Inr (u, t2)"
    and w: "walk (k_points - 1) u g1 a p = Inr vs"
    using less.prems by (auto simp: choose_points.simps [of a b p t] res_simps)
  note on = random_point_valid [OF assms(2) d(1)] random_point_valid [OF assms(2) d(2)]
  have vs: "list_all (on_weierstrass a b p) vs" "consecutive a p g1 (u # vs)"
    using walk_valid [OF assms(1) on(1,2), of "k_points - 1"] w by (auto simp: consecutive_def)
  show ?case
  proof (cases "length (u # vs) = k_points \<and> length (remdups (map fst (u # vs))) = k_points")
    case True
    then have "g = g1" "ps = u # vs"
      using less.prems d w by (simp_all add: choose_points.simps [of a b p t] Let_def)
    moreover have "length (remdups (map fst (u # vs))) = length (map fst (u # vs))"
      using True by (simp only: length_map)
    then have "distinct (map fst (u # vs))" by (simp only: length_remdups_eq remdups_id_iff_distinct)
    ultimately show ?thesis using on vs True by simp
  next
    case False
    then have "choose_points a b p t2 = Inr ((g, ps), t')"
      using less.prems d w by (simp add: choose_points.simps [of a b p t] Let_def split: if_splits)
    moreover have "length t2 < length t" using d [THEN random_point_shrinks] by simp
    ultimately show ?thesis by (rule less.IH [rotated])
  qed
qed

lemma shown_states_near:
  "shown_states p ps t = Inr (ss, t') \<Longrightarrow>
     list_all2 (\<lambda>P s. \<bar>fst P - s\<bar> \<le> Delta_bound \<and> 0 \<le> s \<and> s < p) ps ss"
proof (induction p ps arbitrary: t ss rule: shown_states.induct)
  case (1 p)
  then show ?case by (simp add: rnd_simps)
next
  case (2 p x y ps)
  then obtain r t1 ss' where
    d: "draw_until (2 * Delta_bound + 1) (\<lambda>r. Inr (0 \<le> shown_state x r \<and> shown_state x r < p)) t = Inr (r, t1)"
    and ss: "shown_states p ps t1 = Inr (ss', t')" "ss = shown_state x r # ss'"
    by (auto simp: rnd_simps)
  note ok = draw_until_sound [OF d]
  then have "\<bar>x - shown_state x r\<bar> \<le> Delta_bound" by (simp add: shown_state_def abs_le_iff)
  with ok "2.IH" [OF ss(1)] ss(2) show ?case by simp
qed

lemma choose_curve_nonsingular:
  "choose_curve p t = Inr ((a, b), t') \<Longrightarrow> (4 * a * a * a + 27 * b * b) mod p \<noteq> 0 \<and> 0 < a \<and> a < p \<and> 0 < b \<and> b < p"
proof (induction p t rule: choose_curve.induct)
  case (1 p r s t)
  have "0 \<le> x mod (p - 1) \<and> x mod (p - 1) + 1 < p" if "1 < p" for x
    using pos_mod_bound [of "p - 1" x] pos_mod_sign [of "p - 1" x] that by linarith
  from this [of r] this [of s] 1 show ?case by (auto simp: Let_def split: if_splits)
qed (auto split: if_splits)

definition session_ok :: "nat \<Rightarrow> session \<Rightarrow> bool" where
  "session_ok bits s \<longleftrightarrow>
     (let a = se_a s; b = se_b s; p = se_p s; ps = se_points s in
      (4 * a * a * a + 27 * b * b) mod p \<noteq> 0
      \<and> 2 ^ (bits - 1) \<le> p \<and> p < 2 ^ bits
      \<and> on_weierstrass a b p (se_g s) \<and> list_all (on_weierstrass a b p) ps
      \<and> length ps = k_points \<and> distinct (map fst ps) \<and> consecutive a p (se_g s) ps
      \<and> list_all2 (\<lambda>P x. \<bar>fst P - x\<bar> \<le> Delta_bound \<and> 0 \<le> x \<and> x < p) ps (se_states s))"

lemma open_session_ok:
  assumes "2 \<le> bits" and "open_session bits t = Inr (s, t')" and "is_prime (se_p s)"
  shows "session_ok bits s"
proof -
  obtain tag t1 p t2 a b t3 g ps t4 states where
    p: "make_prime bits t1 = Inr (p, t2)" and ab: "choose_curve p t2 = Inr ((a, b), t3)"
    and g: "choose_points a b p t3 = Inr ((g, ps), t4)" and st: "shown_states p ps t4 = Inr (states, t')"
    and s: "s = \<lparr> key_tag = bytes_hex (to_bytes_big 16 tag), se_p = p, se_a = a, se_b = b, se_g = g,
            se_points = ps, se_states = states \<rparr>"
    using assms(2) by (auto simp: open_session_def rnd_simps)
  have pr: "is_prime p" using assms(3) s by simp
  note mp = make_prime_result [OF assms(1) p]
  show ?thesis
    using mp choose_curve_nonsingular [OF ab] choose_points_valid [OF pr _ g]
      shown_states_near [OF st] by (simp add: session_ok_def s Let_def)
qed

section \<open>The answer\<close>

lemma base_value_digit:
  assumes "0 \<le> d" and "d < 10"
  shows "base_value 10 (dec_digit d) = Some d"
  using ten_cases [OF assms]
  by (elim insertE) (simp_all add: dec_digit_def base_value_def hex_value_def upto.simps)

lemma base_value_underscore: "base_value b CHR ''_'' = None"
  by (simp add: base_value_def hex_value_def upto.simps)

definition ten_fold :: "int \<Rightarrow> string \<Rightarrow> int" where
  "ten_fold = foldl (\<lambda>a c. a * 10 + the (base_value 10 c))"

lemma base_digits_clean:
  "\<forall>c\<in>set s. base_value 10 c \<noteq> None \<Longrightarrow> base_digits 10 acc s = Inr (ten_fold acc s)"
proof (induction "10 :: int" acc s rule: base_digits.induct)
  case (3 acc c d cs)
  then show ?case by (cases "c = CHR ''_''") (auto simp: ten_fold_def base_value_underscore)
qed (auto simp: ten_fold_def)

lemma ten_fold_decimal: "0 \<le> n \<Longrightarrow> ten_fold 0 (decimal n) = n"
proof (induction n rule: decimal.induct)
  case (1 n)
  then show ?case
    by (cases "n < 10") (auto simp: decimal.simps [of n] ten_fold_def base_value_digit)
qed

lemma decimal_no_zero: "0 < n \<Longrightarrow> hd (decimal n) \<noteq> CHR ''0''"
proof (induction n rule: decimal.induct)
  case (1 n)
  show ?case
  proof (cases "n < 10")
    case True
    then have "n \<in> {0, 1, 2, 3, 4, 5, 6, 7, 8, 9}" using 1(2) by (intro ten_cases) simp_all
    moreover have "decimal n = [dec_digit n]" using True by (simp add: decimal.simps [of n])
    ultimately show ?thesis using 1(2) by (elim insertE) (simp_all add: dec_digit_def)
  next
    case False
    with 1 have "hd (decimal (n div 10)) \<noteq> CHR ''0''" by simp
    with False show ?thesis by (simp add: decimal.simps [of n])
  qed
qed

lemma base_number_decimal:
  assumes "0 \<le> n"
  shows "base_number 10 (decimal n) = Inr n"
proof -
  have clean: "\<forall>c\<in>set (decimal n). base_value 10 c \<noteq> None"
    using decimal_digits [OF assms] base_value_digit by fastforce
  obtain c cs where c: "decimal n = c # cs" by (cases "decimal n") auto
  then obtain v where v: "base_value 10 c = Some v" using clean by auto
  have "base_digits 10 v cs = Inr (ten_fold v cs)" using clean c by (intro base_digits_clean) simp
  moreover have "ten_fold v cs = n" using ten_fold_decimal [OF assms] v by (simp add: c ten_fold_def)
  ultimately show ?thesis using v by (simp add: base_number_def c)
qed

lemma literal_cases:
  obtains "s = []" | c where "s = [c]" | c d cs where "s = c # d # cs"
  by (cases s rule: list.exhaust) (metis neq_Nil_conv)+

lemma int_base0_decimal:
  assumes "0 \<le> n"
  shows "int_base0 (decimal n) = Inr n" and "py_strip (decimal n) = decimal n"
proof -
  show strip: "py_strip (decimal n) = decimal n"
    using decimal_ends [OF assms] by (intro strip_id) simp_all
  have "literal (decimal n) = base_number 10 (decimal n)"
  proof (cases "n = 0")
    case True
    then show ?thesis by (simp add: decimal.simps literal_def)
  next
    case False
    then have "hd (decimal n) \<noteq> CHR ''0''" using assms by (intro decimal_no_zero) simp
    then show ?thesis by (cases "decimal n" rule: literal_cases) (simp_all add: literal_def)
  qed
  then have "literal (decimal n) = Inr n" using base_number_decimal [OF assms] by simp
  then show "int_base0 (decimal n) = Inr n"
    using decimal_ends [OF assms] strip by (auto simp: int_base0_def split: list.splits)
qed

lemma length_keystream: "n \<le> length (keystream H key n pad ctr)"
  by (induction H key n pad ctr rule: keystream.induct) (subst keystream.simps, simp)

lemma xor_bytes_twice:
  "length xs \<le> length ys \<Longrightarrow> xor_bytes (xor_bytes xs ys) ys = xs"
  by (induction xs ys rule: list_induct2') (simp_all add: xor_bytes_def xor.assoc)

text \<open>The flag is read off the encrypted flag by whoever knows the session's secret.\<close>

lemma encrypted_flag_opens:
  "xor_bytes (encrypted_flag H flag s)
     (keystream H (session_key H (key_tag s) (se_p s) (se_a s) (se_b s) (se_g s) (se_points s ! 0))
        (length flag) [] 0) = flag"
  unfolding encrypted_flag_def by (rule xor_bytes_twice) (rule length_keystream)

lemma verdict_wrong_iff:
  "verdict H flag s (Some l) = [''# wrong''] \<longleftrightarrow>
     4096 < length (py_strip l) \<or> int_base0 (py_strip l) \<noteq> Inr (fst (se_points s ! 0))"
  by (auto simp: verdict_def Let_def split: sum.splits)

lemma honest_answer:
  assumes "session_ok bits s" and "0 < bits" and "bits \<le> 4096"
  shows "verdict H flag s (Some (show_int (fst (se_points s ! 0)))) =
    [''# ok'', quoted ''key_tag = '' (key_tag s), quoted ''ct = '' (bytes_hex (encrypted_flag H flag s))]"
proof -
  let ?x = "fst (se_points s ! 0)"
  have "se_points s ! 0 \<in> set (se_points s)"
    using assms(1) by (auto simp: session_ok_def Let_def k_points_def)
  then have x: "0 \<le> ?x" "?x < se_p s" and p: "se_p s < 2 ^ bits"
    using assms(1) by (auto simp: session_ok_def Let_def list_all_iff on_weierstrass_def)
  have "(2 :: int) ^ bits \<le> 10 ^ bits" by (rule power_mono) simp_all
  then have "length (decimal ?x) \<le> bits" using x p assms(2) by (intro decimal_length) linarith+
  then show ?thesis
    using x assms(3) int_base0_decimal [OF x(1)] by (simp add: verdict_def show_int_def Let_def)
qed

section \<open>A session on a small curve\<close>

text \<open>The curve \<open>y\<^sup>2 = x\<^sup>3 + x + 1\<close> modulo 1019 with the point \<open>(1, 375)\<close> as start and generator.\<close>

definition demo_tape :: tape where
  "demo_tape = [5, 1019, 0, 0, 0, 0, 0, 0] @ map (\<lambda>i. Delta_bound + i) [- 10..10]"

definition demo_session :: session where
  "demo_session =
     \<lparr> key_tag = bytes_hex (to_bytes_big 16 5), se_p = 1019, se_a = 1, se_b = 1, se_g = (1, 375),
       se_points = [(1, 375), (339, 721), (938, 740), (123, 516), (665, 929), (23, 730), (988, 234),
         (134, 663), (693, 471), (278, 529), (456, 277), (789, 218), (836, 747), (724, 400), (882, 653),
         (69, 589), (921, 506), (417, 124), (725, 248), (305, 900), (31, 438)],
       se_states = [11, 348, 946, 130, 671, 28, 992, 137, 695, 279, 456, 788, 834, 721, 878, 64, 915, 410, 717,
         296, 21] \<rparr>"

lemma demo_session_opens: "open_session 10 demo_tape = Inr (demo_session, [])"
  by code_simp

text \<open>Trial division up to the square root.\<close>

lemma prime_trial:
  assumes "1 < p" and "list_all (\<lambda>d. \<not> d dvd p) [2..k]" and "p < (k + 1) * (k + 1)" and "0 \<le> k"
  shows "is_prime p"
proof -
  have "\<not> d dvd p" if d: "2 \<le> d" "d < p" for d
  proof
    assume "d dvd p"
    then obtain e where e: "p = d * e" by blast
    have "0 < e" using e d assms(1) zero_less_mult_pos [of d e] by simp
    moreover have "e \<noteq> 1" using e d by auto
    ultimately have e2: "2 \<le> e" by simp
    have bound: "k < x" if "x dvd p" "2 \<le> x" for x
    proof (rule ccontr)
      assume "\<not> k < x"
      then have "x \<in> set [2..k]" using that(2) by simp
      with assms(2) that(1) show False unfolding list_all_iff by blast
    qed
    have "k < d" "k < e" using bound \<open>d dvd p\<close> d e2 e by simp_all
    then have "(k + 1) * (k + 1) \<le> d * e" using assms(4) by (intro mult_mono) simp_all
    with assms(3) e show False by simp
  qed
  with assms(1) show ?thesis by (simp add: is_prime_def list_all_iff)
qed

lemma demo_prime: "is_prime 1019"
  by (rule prime_trial [of _ 31]) code_simp+

end
