(* ===== verification/Base64.thy ===== *)
theory Base64
  imports Prelude
begin

text \<open>
  Python's strict Base64 decoder, \<^verbatim>\<open>base64.b64decode(s, validate=True)\<close>, as the loop of the standard
  library, and the encoding it inverts. \<open>split_ws\<close> is \<^verbatim>\<open>str.split\<close> for a given notion of white space.
\<close>

definition b64_alphabet :: string where
  "b64_alphabet = ''ABCDEFGHIJKLMNOPQRSTUVWXYZabcdefghijklmnopqrstuvwxyz0123456789+/''"

definition b64_value :: "char \<Rightarrow> int option" where
  "b64_value c = map_of (zip b64_alphabet [0..63]) c"

definition b64_char :: "int \<Rightarrow> char" where
  "b64_char v = b64_alphabet ! nat v"

text \<open>
  The loop keeps the position in the group of four, the bits left over, the padding characters seen
  since the last data character of an unfinished group, and whether padding has started.
\<close>

fun b64_loop :: "nat \<Rightarrow> int \<Rightarrow> nat \<Rightarrow> bool \<Rightarrow> string \<Rightarrow> bytes res" where
  "b64_loop q left pads started [] = (if q \<noteq> 0 then Inl ValueError else Inr [])"
| "b64_loop q left pads started (c # cs) =
     (if c = CHR ''='' then
        (if 2 \<le> q \<and> 4 \<le> q + (pads + 1) then (if cs \<noteq> [] then Inl ValueError else Inr [])
         else b64_loop q left (if 2 \<le> q then pads + 1 else pads) True cs)
      else
        (case b64_value c of
           None \<Rightarrow> Inl ValueError
         | Some v \<Rightarrow>
             if started then Inl ValueError
             else if q = 0 then b64_loop 1 v 0 False cs
             else if q = 1 then
               ebind (b64_loop 2 (v mod 16) 0 False cs) (\<lambda>bs. Inr (word_of_int (left * 4 + v div 16) # bs))
             else if q = 2 then
               ebind (b64_loop 3 (v mod 4) 0 False cs) (\<lambda>bs. Inr (word_of_int (left * 16 + v div 4) # bs))
             else ebind (b64_loop 0 0 0 False cs) (\<lambda>bs. Inr (word_of_int (left * 64 + v) # bs))))"

definition b64decode :: "string \<Rightarrow> bytes res" where
  "b64decode s =
     (case s of
        [] \<Rightarrow> Inr []
      | c # cs \<Rightarrow> if c = CHR ''='' then Inl ValueError else b64_loop 0 0 0 False s)"

text \<open>The encoding, three bytes at a time.\<close>

fun b64encode :: "bytes \<Rightarrow> string" where
  "b64encode [] = []"
| "b64encode [a] = [b64_char (uint a div 4), b64_char (uint a mod 4 * 16), CHR ''='', CHR ''='']"
| "b64encode [a, b] =
     [b64_char (uint a div 4), b64_char (uint a mod 4 * 16 + uint b div 16), b64_char (uint b mod 16 * 4), CHR ''='']"
| "b64encode (a # b # c # bs) =
     [b64_char (uint a div 4), b64_char (uint a mod 4 * 16 + uint b div 16),
      b64_char (uint b mod 16 * 4 + uint c div 64), b64_char (uint c mod 64)] @ b64encode bs"

lemma b64_char_value:
  assumes "0 \<le> v" and "v < 64"
  shows "b64_value (b64_char v) = Some v" and "b64_char v \<in> set b64_alphabet"
proof -
  have "list_all (\<lambda>v. b64_value (b64_char v) = Some v \<and> b64_char v \<in> set b64_alphabet) [0..63]" by code_simp
  moreover have "v \<in> set [0..63]" using assms by (simp del: upto_rec_numeral)
  ultimately have "b64_value (b64_char v) = Some v \<and> b64_char v \<in> set b64_alphabet" by (simp only: list_all_iff)
  then show "b64_value (b64_char v) = Some v" and "b64_char v \<in> set b64_alphabet" by simp_all
qed

lemma b64_pad: "CHR ''='' \<notin> set b64_alphabet"
  by code_simp

lemma b64_char_ne_pad: "0 \<le> v \<Longrightarrow> v < 64 \<Longrightarrow> b64_char v \<noteq> CHR ''=''"
  using b64_char_value(2) [of v] b64_pad by auto

lemma byte_bounds: "0 \<le> uint (b :: byte)" "uint (b :: byte) < 256"
  using uint_lt2p [of b] by simp_all

text \<open>One data character, at each position of its group.\<close>

lemma b64_loop_char:
  assumes "0 \<le> v \<and> v < 64"
  shows "b64_loop 0 l 0 False (b64_char v # cs) = b64_loop 1 v 0 False cs"
    and "b64_loop 1 l 0 False (b64_char v # cs) =
      ebind (b64_loop 2 (v mod 16) 0 False cs) (\<lambda>bs. Inr (word_of_int (l * 4 + v div 16) # bs))"
    and "b64_loop 2 l 0 False (b64_char v # cs) =
      ebind (b64_loop 3 (v mod 4) 0 False cs) (\<lambda>bs. Inr (word_of_int (l * 16 + v div 4) # bs))"
    and "b64_loop 3 l 0 False (b64_char v # cs) =
      ebind (b64_loop 0 0 0 False cs) (\<lambda>bs. Inr (word_of_int (l * 64 + v) # bs))"
  using assms by (simp_all add: b64_char_value b64_char_ne_pad)

lemma b64_parts:
  fixes a b c :: byte
  shows "0 \<le> uint a div 4 \<and> uint a div 4 < 64"
    and "0 \<le> uint a mod 4 * 16 + uint b div 16 \<and> uint a mod 4 * 16 + uint b div 16 < 64"
    and "0 \<le> uint b mod 16 * 4 + uint c div 64 \<and> uint b mod 16 * 4 + uint c div 64 < 64"
    and "0 \<le> uint a mod 4 * 16 \<and> uint a mod 4 * 16 < 64"
    and "0 \<le> uint b mod 16 * 4 \<and> uint b mod 16 * 4 < 64"
    and "0 \<le> uint c mod 64 \<and> uint c mod 64 < 64"
    and "uint a div 4 * 4 + (uint a mod 4 * 16 + uint b div 16) div 16 = uint a"
    and "uint a div 4 * 4 + uint a mod 4 * 16 div 16 = uint a"
    and "(uint a mod 4 * 16 + uint b div 16) mod 16 * 16 + (uint b mod 16 * 4 + uint c div 64) div 4 = uint b"
    and "(uint a mod 4 * 16 + uint b div 16) mod 16 * 16 + uint b mod 16 * 4 div 4 = uint b"
    and "(uint b mod 16 * 4 + uint c div 64) mod 4 * 64 + uint c mod 64 = uint c"
proof -
  have a: "0 \<le> uint a" "uint a < 256" and b: "0 \<le> uint b" "uint b < 256" and c: "0 \<le> uint c" "uint c < 256"
    by (rule byte_bounds)+
  have da: "0 \<le> uint a div 4" "uint a div 4 < 64" using a by presburger+
  have db: "0 \<le> uint b div 16" "uint b div 16 < 16" using b by presburger+
  have dc: "0 \<le> uint c div 64" "uint c div 64 < 4" using c by presburger+
  have ma: "0 \<le> uint a mod 4" "uint a mod 4 < 4" and mb: "0 \<le> uint b mod 16" "uint b mod 16 < 16" by simp_all
  show "0 \<le> uint a div 4 \<and> uint a div 4 < 64" using da by simp
  show "0 \<le> uint a mod 4 * 16 + uint b div 16 \<and> uint a mod 4 * 16 + uint b div 16 < 64" using ma db by linarith
  show "0 \<le> uint b mod 16 * 4 + uint c div 64 \<and> uint b mod 16 * 4 + uint c div 64 < 64" using mb dc by linarith
  show "0 \<le> uint a mod 4 * 16 \<and> uint a mod 4 * 16 < 64" using ma by linarith
  show "0 \<le> uint b mod 16 * 4 \<and> uint b mod 16 * 4 < 64" using mb by linarith
  show "0 \<le> uint c mod 64 \<and> uint c mod 64 < 64" by simp
  have q: "(uint a mod 4 * 16 + uint b div 16) div 16 = uint a mod 4" using db by simp
  have r: "(uint a mod 4 * 16 + uint b div 16) mod 16 = uint b div 16" using db by simp
  have s: "(uint b mod 16 * 4 + uint c div 64) div 4 = uint b mod 16" using dc by simp
  have u: "(uint b mod 16 * 4 + uint c div 64) mod 4 = uint c div 64" using dc by simp
  show "uint a div 4 * 4 + (uint a mod 4 * 16 + uint b div 16) div 16 = uint a" unfolding q by simp
  show "uint a div 4 * 4 + uint a mod 4 * 16 div 16 = uint a" by simp
  show "(uint a mod 4 * 16 + uint b div 16) mod 16 * 16 + (uint b mod 16 * 4 + uint c div 64) div 4 = uint b"
    unfolding r s by simp
  show "(uint a mod 4 * 16 + uint b div 16) mod 16 * 16 + uint b mod 16 * 4 div 4 = uint b"
    unfolding r by simp
  show "(uint b mod 16 * 4 + uint c div 64) mod 4 * 64 + uint c mod 64 = uint c" unfolding u by simp
qed

lemma b64_loop_pad: "b64_loop 2 l 0 False ''=='' = Inr []" "b64_loop 3 l 0 False ''='' = Inr []"
  by (simp_all add: numeral_eq_Suc)

lemma b64_loop_encode: "b64_loop 0 0 0 False (b64encode bs) = Inr bs"
proof (induction bs rule: b64encode.induct)
  case (4 a b c bs)
  then show ?case
    by (simp only: b64encode.simps append.simps b64_loop_char b64_parts ebind_Inr word_of_int_uint)
qed (simp only: b64encode.simps b64_loop.simps(1) not_False_eq_True if_False simp_thms
      b64_loop_char b64_loop_pad b64_parts ebind_Inr word_of_int_uint)+

lemma b64decode_encode: "b64decode (b64encode bs) = Inr bs"
proof -
  have "b64encode bs = [] \<or> (\<exists>c cs. b64encode bs = c # cs \<and> c \<noteq> CHR ''='')"
    by (cases bs rule: b64encode.cases) (use b64_parts b64_char_ne_pad in auto)
  then show ?thesis using b64_loop_encode [of bs] by (auto simp: b64decode_def)
qed

end
