(* ===== verification/Activation.thy ===== *)
theory Activation
  imports Fhe Base64 Decimal Text
begin

text \<open>
  \<^verbatim>\<open>encrypted-activation/attachment/task.py\<close>: the service encrypts the base-4 digits of a random input
  and wants the encrypted digits of the table entry back, sixteen times. The setup directory is a map
  from file names to contents. The alarm after 120 seconds is not modelled.
\<close>

section \<open>Digits\<close>

definition S_base :: int where "S_base = 4"
definition N_DIGITS :: nat where "N_DIGITS = 5"
definition LUT_SIZE :: nat where "LUT_SIZE = nat S_base ^ N_DIGITS"
definition ROUNDS :: nat where "ROUNDS = 16"

fun extract_radix :: "int \<Rightarrow> int \<Rightarrow> nat \<Rightarrow> int list" where
  "extract_radix v s 0 = []"
| "extract_radix v s (Suc n) = v mod s # extract_radix (v div s) s n"

definition combine_radix :: "int list \<Rightarrow> int \<Rightarrow> int" where
  "combine_radix d s = foldl (\<lambda>v x. v * s + x) 0 (rev d)"

section \<open>Setup\<close>

type_synonym files = "string \<Rightarrow> bytes option"

definition write_setup :: "files \<Rightarrow> files rnd" where
  "write_setup fs =
     rbind fhe_keygen (\<lambda>(sk, bsk, ksk).
     rret (fs(''client.bin'' := Some (serialize_client_key sk),
              ''bsk.bin'' := Some (serialize_bsk bsk),
              ''ksk.bin'' := Some (serialize_ksk ksk))))"

definition load_setup :: "files \<Rightarrow> (secret_key \<times> files) rnd" where
  "load_setup fs =
     rbind (if fs ''client.bin'' = None then write_setup fs else rret fs) (\<lambda>fs.
     case fs ''client.bin'' of
       None \<Rightarrow> rlift (Inl RuntimeError)
     | Some client_blob \<Rightarrow> rret (parse_client_key client_blob, fs))"

definition load_lut :: "string \<Rightarrow> int list res" where
  "load_lut text =
     ebind (emap (\<lambda>token. py_int (JStr token)) (split_ws is_space [] text)) (\<lambda>lut.
     if length lut \<noteq> LUT_SIZE then Inl ValueError else Inr lut)"

section \<open>A round\<close>

definition activation_tokens :: "string \<Rightarrow> string list" where
  "activation_tokens line =
     split_ws is_space [] (map (\<lambda>c. if c = CHR '','' then CHR '' '' else c) (py_strip line))"

definition bad_ciphertext :: "lwe \<Rightarrow> bool" where
  "bad_ciphertext c \<longleftrightarrow>
     length (lwe_a c) \<noteq> Lvl1_n
     \<or> 16 < length (filter (\<lambda>v. v = 0) (lwe_a c))
     \<or> length (remdups (lwe_a c)) = 1"

text \<open>Whether the round goes on; \<open>False\<close> stands for the line \<^verbatim>\<open>wrong\<close> and the end of the session.\<close>

definition round_accepts :: "secret_key \<Rightarrow> int list \<Rightarrow> int \<Rightarrow> string \<Rightarrow> bool" where
  "round_accepts sk lut x line =
     (let parts = activation_tokens line in
      if length parts \<noteq> N_DIGITS then False
      else case emap (\<lambda>t. ebind (b64decode t) (\<lambda>b. Inr (parse_lwe_ciphertext b))) parts of
             Inl e \<Rightarrow> False
           | Inr out_cts \<Rightarrow>
               if list_ex bad_ciphertext out_cts then False
               else let out_digits = map (decrypt_ciphertext sk) out_cts in
                    if list_ex (\<lambda>d. S_base \<le> d) out_digits then False
                    else combine_radix out_digits S_base = lut ! nat x)"

section \<open>The session\<close>

datatype activation_out = Payload json | Wrong | TheFlag

definition round_payload :: "nat \<Rightarrow> (bytes \<times> lwe) list \<Rightarrow> json" where
  "round_payload idx cts =
     JObj [(''round'', JInt (int idx + 1)),
           (''ciphertext'', JList (map (\<lambda>(seed, ct). JList [JInt (from_bytes_big seed), JInt (lwe_b ct)]) cts))]"

text \<open>The rounds left; the result is what is printed and the exit status. No line left is the end of the input.\<close>

fun play_rounds ::
  "(bytes \<Rightarrow> nat \<Rightarrow> bytes) \<Rightarrow> secret_key \<Rightarrow> int list \<Rightarrow> nat \<Rightarrow> nat \<Rightarrow> string list \<Rightarrow> (activation_out list \<times> int) rnd"
where
  "play_rounds xof sk lut 0 idx lines = rret ([TheFlag], 0)"
| "play_rounds xof sk lut (Suc n) idx lines =
     rbind (randbelow (int LUT_SIZE)) (\<lambda>x.
     rbind (rmap (\<lambda>d. encrypt_ciphertext xof sk d None) (extract_radix x S_base N_DIGITS)) (\<lambda>cts.
     let p = Payload (round_payload idx cts) in
     case lines of
       [] \<Rightarrow> rret ([p], 1)
     | line # lines \<Rightarrow>
         if round_accepts sk lut x line
         then rbind (play_rounds xof sk lut n (idx + 1) lines) (\<lambda>(out, status). rret (p # out, status))
         else rret ([p, Wrong], 0)))"

definition activation_main ::
  "(bytes \<Rightarrow> nat \<Rightarrow> bytes) \<Rightarrow> files \<Rightarrow> string \<Rightarrow> string list \<Rightarrow> ((activation_out list \<times> int) \<times> files) rnd"
where
  "activation_main xof fs lut_text lines =
     rbind (load_setup fs) (\<lambda>(sk, fs).
     rbind (rlift (load_lut lut_text)) (\<lambda>lut.
     rbind (play_rounds xof sk lut ROUNDS 0 lines) (\<lambda>r. rret (r, fs))))"

section \<open>Radix conversion\<close>

lemma combine_radix_Nil [simp]: "combine_radix [] s = 0"
  by (simp add: combine_radix_def)

lemma combine_radix_Cons [simp]: "combine_radix (d # ds) s = combine_radix ds s * s + d"
  by (simp add: combine_radix_def)

lemma length_extract_radix [simp]: "length (extract_radix v s n) = n"
  by (induction n arbitrary: v) simp_all

lemma combine_extract: "0 < s \<Longrightarrow> combine_radix (extract_radix v s n) s = v mod s ^ n"
  by (induction n arbitrary: v) (simp_all add: zmod_zmult2_eq)

lemma extract_combine:
  "0 < s \<Longrightarrow> \<forall>d \<in> set ds. 0 \<le> d \<and> d < s \<Longrightarrow> extract_radix (combine_radix ds s) s (length ds) = ds"
  by (induction ds) simp_all

lemma extract_radix_digits: "0 < s \<Longrightarrow> d \<in> set (extract_radix v s n) \<Longrightarrow> 0 \<le> d \<and> d < s"
  by (induction n arbitrary: v) auto

text \<open>Digits below the base represent one number only.\<close>

lemma combine_eq_iff:
  assumes "0 < s" and "length ds = n" and "\<forall>d \<in> set ds. 0 \<le> d" and "0 \<le> y" and "y < s ^ n"
  shows "(\<not> list_ex (\<lambda>d. s \<le> d) ds \<and> combine_radix ds s = y) \<longleftrightarrow> ds = extract_radix y s n"
proof
  assume "\<not> list_ex (\<lambda>d. s \<le> d) ds \<and> combine_radix ds s = y"
  then show "ds = extract_radix y s n"
    using assms extract_combine [of s ds] by (auto simp: list_ex_iff not_le)
next
  assume "ds = extract_radix y s n"
  then show "\<not> list_ex (\<lambda>d. s \<le> d) ds \<and> combine_radix ds s = y"
    using assms combine_extract [of s y n] extract_radix_digits [of s _ y n]
    by (auto simp: list_ex_iff not_le)
qed

section \<open>Answers\<close>

text \<open>The line a client sends for its output ciphertexts.\<close>

definition answer_line :: "lwe list \<Rightarrow> string" where
  "answer_line cts = concat (map (\<lambda>c. b64encode (serialize_lwe_ciphertext c) @ [CHR '','']) cts)"

definition wire_ok :: "lwe \<Rightarrow> bool" where
  "wire_ok c \<longleftrightarrow> words64 (lwe_a c) \<and> 0 \<le> lwe_b c \<and> lwe_b c < 2 ^ 64 \<and> \<not> bad_ciphertext c"

lemma b64encode_chars: "c \<in> set (b64encode bs) \<Longrightarrow> c \<in> set b64_alphabet \<or> c = CHR ''=''"
  by (induction bs rule: b64encode.induct) (use b64_char_value(2) b64_parts in auto)

lemma b64_chars_plain: "c \<in> set (b64encode bs) \<Longrightarrow> \<not> is_space c \<and> c \<noteq> CHR '',''"
proof -
  have "list_all (\<lambda>c. \<not> is_space c \<and> c \<noteq> CHR '','') (CHR ''='' # b64_alphabet)" by code_simp
  then show "c \<in> set (b64encode bs) \<Longrightarrow> \<not> is_space c \<and> c \<noteq> CHR '',''"
    using b64encode_chars [of c bs] by (auto simp: list_all_iff)
qed

lemma b64encode_Cons: "bs \<noteq> [] \<Longrightarrow> b64encode bs \<noteq> []"
  by (cases bs rule: b64encode.cases) simp_all

lemma serialize_ne: "serialize_lwe_ciphertext c \<noteq> []"
  by (simp add: serialize_lwe_ciphertext_def) (metis length_u64le list.size(3) zero_neq_numeral)

lemma activation_tokens_answer:
  "activation_tokens (answer_line cts) = map (\<lambda>c. b64encode (serialize_lwe_ciphertext c)) cts"
proof (cases cts)
  case Nil
  then show ?thesis by (simp add: activation_tokens_def answer_line_def py_strip_def)
next
  case (Cons c cs)
  let ?t = "\<lambda>c. b64encode (serialize_lwe_ciphertext c)"
  let ?sub = "map (\<lambda>c. if c = CHR '','' then CHR '' '' else c)"
  have ne: "?t c \<noteq> []" for c by (rule b64encode_Cons [OF serialize_ne])
  have comma: "\<not> is_space CHR '',''" by (simp add: is_space_def of_char_def)
  have "\<not> is_space (hd (answer_line cts))"
    using ne [of c] b64_chars_plain [OF hd_in_set [OF ne [of c]]] by (simp add: Cons answer_line_def)
  moreover have "last (answer_line cts) = CHR '',''"
    by (cases cts rule: rev_cases) (simp_all add: Cons answer_line_def)
  moreover have "answer_line cts \<noteq> []" by (simp add: Cons answer_line_def)
  ultimately have strip: "py_strip (answer_line cts) = answer_line cts"
    using comma by (intro strip_id) simp_all
  have sub: "?sub (?t c) = ?t c" for c
    by (rule map_idI) (use b64_chars_plain in auto)
  have "?sub (answer_line cts) = concat (map (\<lambda>t. t @ [CHR '' '']) (map ?t cts))"
    unfolding answer_line_def by (simp add: map_concat sub comp_def)
  moreover have "split_ws is_space [] (concat (map (\<lambda>t. t @ [CHR '' '']) (map ?t cts))) = map ?t cts"
    by (rule split_ws_join) (use ne b64_chars_plain in \<open>auto simp: is_space_def of_char_def\<close>)
  ultimately show ?thesis by (simp only: activation_tokens_def strip)
qed

lemma decrypt_range: "0 \<le> decrypt_ciphertext sk c \<and> decrypt_ciphertext sk c < 5"
  by (simp add: decrypt_ciphertext_def Let_def plain_P_def)

text \<open>Well-formed ciphertexts are accepted exactly if they decrypt to the digits of the table entry.\<close>

lemma round_accepts_answer:
  assumes "length cts = N_DIGITS" and "\<forall>c \<in> set cts. wire_ok c"
    and "0 \<le> lut ! nat x" and "lut ! nat x < int LUT_SIZE"
  shows "round_accepts sk lut x (answer_line cts) \<longleftrightarrow>
    map (decrypt_ciphertext sk) cts = extract_radix (lut ! nat x) S_base N_DIGITS"
proof -
  have "emap (\<lambda>t. ebind (b64decode t) (\<lambda>b. Inr (parse_lwe_ciphertext b)))
      (map (\<lambda>c. b64encode (serialize_lwe_ciphertext c)) cts) = Inr cts"
  proof (use assms(2) in \<open>induction cts\<close>)
    case (Cons c cts)
    then show ?case by (simp add: b64decode_encode wire_ok_def parse_serialize_lwe)
  qed simp
  moreover have "\<not> list_ex bad_ciphertext cts" using assms(2) by (auto simp: list_ex_iff wire_ok_def)
  ultimately have "round_accepts sk lut x (answer_line cts) \<longleftrightarrow>
      \<not> list_ex (\<lambda>d. S_base \<le> d) (map (decrypt_ciphertext sk) cts)
      \<and> combine_radix (map (decrypt_ciphertext sk) cts) S_base = lut ! nat x"
    by (simp add: round_accepts_def activation_tokens_answer assms(1) Let_def)
  also have "\<dots> \<longleftrightarrow> map (decrypt_ciphertext sk) cts = extract_radix (lut ! nat x) S_base N_DIGITS"
    by (rule combine_eq_iff)
      (use assms decrypt_range in \<open>auto simp: S_base_def LUT_SIZE_def N_DIGITS_def\<close>)
  finally show ?thesis .
qed

text \<open>The flag is printed only after every round was accepted.\<close>

lemma flag_rounds:
  "play_rounds xof sk lut n idx lines t = Inr ((out, status), t') \<Longrightarrow> TheFlag \<in> set out \<Longrightarrow>
     \<exists>xs. length xs = n \<and> n \<le> length lines
       \<and> (\<forall>i < n. 0 \<le> xs ! i \<and> xs ! i < int LUT_SIZE \<and> round_accepts sk lut (xs ! i) (lines ! i))"
proof (induction n arbitrary: idx lines t out status)
  case 0
  then show ?case by simp
next
  case (Suc n)
  from Suc.prems(1) obtain x t1 cts t2 where x: "randbelow (int LUT_SIZE) t = Inr (x, t1)"
    and rest: "(let p = Payload (round_payload idx cts) in
     case lines of
       [] \<Rightarrow> rret ([p], 1)
     | line # lines \<Rightarrow>
         if round_accepts sk lut x line
         then rbind (play_rounds xof sk lut n (idx + 1) lines) (\<lambda>(out, status). rret (p # out, status))
         else rret ([p, Wrong], 0)) t2 = Inr ((out, status), t')"
    by (auto simp: rnd_simps)
  show ?case
  proof (cases lines)
    case Nil
    with rest Suc.prems(2) show ?thesis by (auto simp: Let_def rnd_simps)
  next
    case (Cons line ls)
    show ?thesis
    proof (cases "round_accepts sk lut x line")
      case True
      then obtain out' status' where "play_rounds xof sk lut n (idx + 1) ls t2 = Inr ((out', status'), t')"
        and "TheFlag \<in> set out'"
        using rest Suc.prems(2) Cons by (auto simp: Let_def rnd_simps)
      from Suc.IH [OF this] obtain xs where xs: "length xs = n" "n \<le> length ls"
        "\<forall>i < n. 0 \<le> xs ! i \<and> xs ! i < int LUT_SIZE \<and> round_accepts sk lut (xs ! i) (ls ! i)" by blast
      then show ?thesis
        using Cons True randbelow_range [OF x] by (intro exI [of _ "x # xs"]) (auto simp: less_Suc_eq_0_disj)
    next
      case False
      with rest Suc.prems(2) Cons show ?thesis by (auto simp: Let_def rnd_simps)
    qed
  qed
qed

section \<open>The key persists\<close>

lemma rand_bits:
  assumes "rtimes n rand_bit t = Inr (bs, t')"
  shows "length bs = n" and "\<forall>b \<in> set bs. 0 \<le> b \<and> b < 2"
  using assms rtimes_length [of n rand_bit t bs t'] rtimes_all [of rand_bit "\<lambda>b. 0 \<le> b \<and> b < 2" n t bs t']
    randbelow_range by (auto simp: rand_bit_def)

text \<open>After the first start every further one loads the same key and leaves the files alone.\<close>

lemma setup_persists:
  assumes "load_setup fs t = Inr ((sk, fs'), t')" and "fs ''client.bin'' = None"
  shows "load_setup fs' t2 = Inr ((sk, fs'), t2) \<and> length (sk_lvl1 sk) = Lvl1_n"
proof -
  obtain sk0 bsk ksk where k: "fhe_keygen t = Inr ((sk0, bsk, ksk), t')"
    and fs': "fs' ''client.bin'' = Some (serialize_client_key sk0)"
    and sk: "sk = parse_client_key (serialize_client_key sk0)"
    using assms by (auto simp: load_setup_def write_setup_def rnd_simps)
  obtain t1 t2 where "rtimes Lvl0_n rand_bit t = Inr (sk_lvl0 sk0, t1)"
    "rtimes Lvl1_n rand_bit t1 = Inr (sk_lvl1 sk0, t2)"
    using k by (auto simp: fhe_keygen_def rnd_simps Let_def)
  note bits = rand_bits [OF this(1)] rand_bits [OF this(2)]
  then have "parse_client_key (serialize_client_key sk0) = sk0"
    by (intro parse_serialize_client_key) (force simp: words64_def Lvl0_n_def Lvl1_n_def)+
  then show ?thesis using fs' sk bits by (simp add: load_setup_def rbind_app rret_def)
qed

end
