(* ===== verification/Worker.thy ===== *)
theory Worker
  imports TeamFlags Text
begin

text \<open>
  \<^verbatim>\<open>whisper/deploy/judge/worker.py\<close>: the queue of attempts of the judge and the thread that works it off. An
  attempt registers the scanner account and looks for a flag in its conversations until a deadline. The
  module's globals are the record \<open>worker\<close>. What the backend answers is an argument: a poll is what one
  turn of the scanning loop receives, and the polls of an attempt are those started before its
  deadline. The reset helpers of the module, which nothing calls, are left out.
\<close>

section \<open>State\<close>

record worker_config =
  wc_real_flag :: string
  wc_backend_url :: string
  wc_victim_handle :: string

record attempt_result =
  ar_solved :: bool
  ar_mode :: string
  ar_log :: "string list"
  ar_finished :: "int option"
  ar_backend_url :: "string option"
  ar_victim_handle :: "string option"

text \<open>A queued attempt: its id, its mode and its team; the payload is always absent.\<close>

type_synonym attempt = "string \<times> string \<times> int option"

record worker =
  wk_queue :: "attempt list"
  wk_results :: "string \<Rightarrow> attempt_result option"
  wk_pending :: "string \<Rightarrow> string option"

definition worker_init :: worker where
  "worker_init = \<lparr> wk_queue = [], wk_results = (\<lambda>i. None), wk_pending = (\<lambda>i. None) \<rparr>"

definition QUEUE_MAX :: nat where "QUEUE_MAX = 20"
definition MODE_PLAYER :: string where "MODE_PLAYER = ''player''"

section \<open>Flags\<close>

text \<open>The pattern \<^verbatim>\<open>r3ctf\{[^}]+\}\<close>, ignoring case, at the start of a string and anywhere in it.\<close>

definition flag_match :: "string \<Rightarrow> string option" where
  "flag_match s =
     (if map ascii_lower (take 6 s) = ''r3ctf{'' then
        let body = takeWhile (\<lambda>c. c \<noteq> CHR ''}'') (drop 6 s);
            rest = dropWhile (\<lambda>c. c \<noteq> CHR ''}'') (drop 6 s)
        in if body \<noteq> [] \<and> rest \<noteq> [] then Some (take 6 s @ body @ [CHR ''}'']) else None
      else None)"

fun flag_search :: "string \<Rightarrow> string option" where
  "flag_search [] = flag_match []"
| "flag_search (c # cs) = (case flag_match (c # cs) of Some m \<Rightarrow> Some m | None \<Rightarrow> flag_search cs)"

text \<open>The module \<^verbatim>\<open>team_flags\<close> defines no \<^verbatim>\<open>get\<close>, so looking up a team's flag here raises.\<close>

definition flag_accepted :: "worker_config \<Rightarrow> string \<Rightarrow> int option \<Rightarrow> bool res" where
  "flag_accepted cf candidate team_id =
     (if flag_match candidate = None then Inr False
      else case team_id of
             Some t \<Rightarrow> Inl AttributeError
           | None \<Rightarrow> Inr (wc_real_flag cf \<noteq> [] \<and> candidate = wc_real_flag cf))"

section \<open>Scanning\<close>

text \<open>
  A message is its body, if it has one; a conversation is the outcome of polling its messages, a poll
  the outcome of listing the conversations.
\<close>

type_synonym conversation_poll = "string option list res"
type_synonym poll = "conversation_poll list res"

fun scan_messages :: "worker_config \<Rightarrow> int option \<Rightarrow> string option list \<Rightarrow> string option res" where
  "scan_messages cf team [] = Inr None"
| "scan_messages cf team (msg # msgs) =
     (case flag_search (case msg of Some body \<Rightarrow> body | None \<Rightarrow> []) of
        None \<Rightarrow> scan_messages cf team msgs
      | Some m \<Rightarrow>
          ebind (flag_accepted cf m team) (\<lambda>ok. if ok then Inr (Some m) else scan_messages cf team msgs))"

fun scan_conversations :: "worker_config \<Rightarrow> int option \<Rightarrow> conversation_poll list \<Rightarrow> string option res" where
  "scan_conversations cf team [] = Inr None"
| "scan_conversations cf team (conv # convs) =
     ebind conv (\<lambda>msgs. ebind (scan_messages cf team msgs) (\<lambda>found.
       case found of Some m \<Rightarrow> Inr (Some m) | None \<Rightarrow> scan_conversations cf team convs))"

text \<open>An exception ends the turn and is logged; the next turn starts over.\<close>

fun scan_for_flag :: "worker_config \<Rightarrow> int option \<Rightarrow> poll list \<Rightarrow> string option" where
  "scan_for_flag cf team [] = None"
| "scan_for_flag cf team (p # ps) =
     (case ebind p (scan_conversations cf team) of
        Inr (Some m) \<Rightarrow> Some m
      | _ \<Rightarrow> scan_for_flag cf team ps)"

section \<open>Attempts\<close>

definition finalize :: "string \<Rightarrow> string \<Rightarrow> string list \<Rightarrow> int \<Rightarrow> bool \<Rightarrow> string option \<Rightarrow> worker \<Rightarrow> worker" where
  "finalize attempt_id mode logs now solved flag w =
     (let w = w\<lparr> wk_results := (wk_results w)(attempt_id \<mapsto>
                 \<lparr> ar_solved = solved, ar_mode = mode, ar_log = logs, ar_finished = Some now,
                   ar_backend_url = None, ar_victim_handle = None \<rparr>) \<rparr>
      in case flag of
           Some f \<Rightarrow> if solved \<and> f \<noteq> [] then w\<lparr> wk_pending := (wk_pending w)(attempt_id \<mapsto> f) \<rparr> else w
         | None \<Rightarrow> w)"

text \<open>\<open>account\<close> is the outcome of registering the scanner, an error text or nothing of interest.\<close>

definition run_attempt ::
  "worker_config \<Rightarrow> (string + unit) \<Rightarrow> poll list \<Rightarrow> int \<Rightarrow> attempt \<Rightarrow> worker \<Rightarrow> worker" where
  "run_attempt cf account polls now a w =
     (let (attempt_id, mode, team_id) = a;
          logs = [''Attempt starting (mode='' @ mode @ '')'', ''Player mode: attaching scanner to live backend''] in
      case account of
        Inl exc \<Rightarrow> finalize attempt_id mode (logs @ [''Scanner account error: '' @ exc]) now False None w
      | Inr _ \<Rightarrow>
          let logs = logs @ [''Backend ready at '' @ wc_backend_url cf @ ''; victim handle: '' @ wc_victim_handle cf];
              w = (case wk_results w attempt_id of
                     None \<Rightarrow> w
                   | Some r \<Rightarrow> w\<lparr> wk_results := (wk_results w)(attempt_id \<mapsto>
                       r\<lparr> ar_backend_url := Some (wc_backend_url cf),
                          ar_victim_handle := Some (wc_victim_handle cf) \<rparr>) \<rparr>);
              flag = scan_for_flag cf team_id polls
          in finalize attempt_id mode logs now (case flag of Some f \<Rightarrow> f \<noteq> [] | None \<Rightarrow> False) flag w)"

text \<open>One turn of \<^verbatim>\<open>worker_loop\<close>; the thread waits while the queue is empty.\<close>

definition work_turn :: "worker_config \<Rightarrow> (string + unit) \<Rightarrow> poll list \<Rightarrow> int \<Rightarrow> worker \<Rightarrow> worker" where
  "work_turn cf account polls now w =
     (case wk_queue w of
        [] \<Rightarrow> w
      | a # q \<Rightarrow> run_attempt cf account polls now a (w\<lparr> wk_queue := q \<rparr>))"

text \<open>\<open>None\<close> is the exception \<^verbatim>\<open>queue.Full\<close>; the result entry has been made by then.\<close>

definition enqueue_attempt :: "string \<Rightarrow> string \<Rightarrow> int option \<Rightarrow> worker \<Rightarrow> string option \<times> worker" where
  "enqueue_attempt attempt_id mode team_id w =
     (let w = w\<lparr> wk_results := (wk_results w)(attempt_id \<mapsto>
                 \<lparr> ar_solved = False, ar_mode = mode, ar_log = [''Queued''], ar_finished = None,
                   ar_backend_url = None, ar_victim_handle = None \<rparr>) \<rparr>
      in if QUEUE_MAX \<le> length (wk_queue w) then (None, w)
         else (Some attempt_id, w\<lparr> wk_queue := wk_queue w @ [(attempt_id, mode, team_id)] \<rparr>))"

definition enqueue_player_attempt :: "string \<Rightarrow> int option \<Rightarrow> worker \<Rightarrow> string option \<times> worker" where
  "enqueue_player_attempt attempt_id team_id w = enqueue_attempt attempt_id MODE_PLAYER team_id w"

text \<open>The result as a client sees it, with the flag if it is due; asking takes the flag away.\<close>

definition get_result :: "string \<Rightarrow> worker \<Rightarrow> (attempt_result \<times> string option) option \<times> worker" where
  "get_result attempt_id w =
     (case wk_results w attempt_id of
        None \<Rightarrow> (None, w)
      | Some r \<Rightarrow>
          if ar_solved r then
            (Some (r, case wk_pending w attempt_id of Some f \<Rightarrow> if f \<noteq> [] then Some f else None | None \<Rightarrow> None),
             w\<lparr> wk_pending := (wk_pending w)(attempt_id := None) \<rparr>)
          else (Some (r, None), w))"

definition queue_depth :: "worker \<Rightarrow> int" where
  "queue_depth w = int (length (wk_queue w))"

section \<open>Properties\<close>

text \<open>The search finds what the match at some position finds.\<close>

lemma flag_search_Some: "flag_search s = Some m \<Longrightarrow> \<exists>pre post. s = pre @ post \<and> flag_match post = Some m"
proof (induction s)
  case Nil
  then show ?case by simp
next
  case (Cons c cs)
  show ?case
  proof (cases "flag_match (c # cs)")
    case None
    then obtain pre post where "cs = pre @ post" "flag_match post = Some m" using Cons by auto
    then show ?thesis by (intro exI [of _ "c # pre"] exI [of _ post]) simp
  next
    case (Some n)
    then show ?thesis using Cons.prems by (intro exI [of _ "[]"] exI [of _ "c # cs"]) simp
  qed
qed

lemma flag_match_ne: "flag_match s = Some m \<Longrightarrow> m \<noteq> [] \<and> (\<exists>rest. s = m @ rest)"
proof -
  assume *: "flag_match s = Some m"
  let ?b = "takeWhile (\<lambda>c. c \<noteq> CHR ''}'') (drop 6 s)"
  let ?r = "dropWhile (\<lambda>c. c \<noteq> CHR ''}'') (drop 6 s)"
  from * have m: "m = take 6 s @ ?b @ [CHR ''}'']" and r: "?r \<noteq> []"
    by (auto simp: flag_match_def Let_def split: if_splits)
  have "hd ?r = CHR ''}''" using hd_dropWhile [OF r] by simp
  then have "?r = CHR ''}'' # tl ?r" using r by (cases ?r) auto
  then have "s = m @ tl ?r" using m takeWhile_dropWhile_id [of "\<lambda>c. c \<noteq> CHR ''}''" "drop 6 s"]
    by (metis append.assoc append_Cons append_Nil append_take_drop_id)
  with m show "m \<noteq> [] \<and> (\<exists>rest. s = m @ rest)" by auto
qed

text \<open>What a scan without a team accepts is the configured flag, and it stands in a message.\<close>

lemma scan_messages_real:
  "scan_messages cf team msgs = Inr (Some m) \<Longrightarrow>
     team = None \<and> m = wc_real_flag cf \<and> m \<noteq> [] \<and> (\<exists>pre post. Some (pre @ m @ post) \<in> set msgs)"
proof (induction msgs)
  case (Cons msg msgs)
  show ?case
  proof (cases "flag_search (case msg of Some body \<Rightarrow> body | None \<Rightarrow> [])")
    case None
    with Cons show ?thesis by auto
  next
    case (Some n)
    obtain ok where ok: "flag_accepted cf n team = Inr ok"
      and rest: "(if ok then Inr (Some n) else scan_messages cf team msgs) = Inr (Some m)"
      using Cons.prems Some by (auto simp: res_simps)
    show ?thesis
    proof (cases ok)
      case True
      obtain pre post rest' where s: "(case msg of Some body \<Rightarrow> body | None \<Rightarrow> []) = pre @ post" "post = n @ rest'"
        and n: "n \<noteq> []" using flag_search_Some [OF Some] flag_match_ne by blast
      then have "msg = Some (pre @ n @ rest')" by (cases msg) auto
      then have "Some (pre @ n @ rest') \<in> set (msg # msgs)" by simp
      moreover have "team = None \<and> n = wc_real_flag cf"
        using ok True by (auto simp: flag_accepted_def split: if_splits option.splits)
      moreover have "m = n" using rest True by simp
      ultimately show ?thesis using n by blast
    next
      case False
      with rest have "scan_messages cf team msgs = Inr (Some m)" by simp
      from Cons.IH [OF this] show ?thesis by auto
    qed
  qed
qed simp

lemma scan_conversations_real:
  "scan_conversations cf team convs = Inr (Some m) \<Longrightarrow>
     team = None \<and> m = wc_real_flag cf \<and> m \<noteq> []
     \<and> (\<exists>msgs pre post. Inr msgs \<in> set convs \<and> Some (pre @ m @ post) \<in> set msgs)"
proof (induction convs)
  case (Cons c cs)
  then obtain msgs found where c: "c = Inr msgs" and f: "scan_messages cf team msgs = Inr found"
    and rest: "(case found of Some m \<Rightarrow> Inr (Some m) | None \<Rightarrow> scan_conversations cf team cs) = Inr (Some m)"
    by (auto simp: res_simps)
  show ?case
  proof (cases found)
    case None
    then show ?thesis using rest Cons.IH by auto
  next
    case (Some n)
    then show ?thesis using rest f c scan_messages_real [of cf team msgs n] by fastforce
  qed
qed simp

lemma scan_for_flag_real:
  "scan_for_flag cf team polls = Some m \<Longrightarrow>
     team = None \<and> m = wc_real_flag cf \<and> m \<noteq> []
     \<and> (\<exists>convs msgs pre post. Inr convs \<in> set polls \<and> Inr msgs \<in> set convs \<and> Some (pre @ m @ post) \<in> set msgs)"
proof (induction polls)
  case (Cons p ps)
  show ?case
  proof (cases "\<exists>n. ebind p (scan_conversations cf team) = Inr (Some n)")
    case True
    then obtain convs where "p = Inr convs" "scan_conversations cf team convs = Inr (Some m)"
      using Cons.prems by (auto simp: res_simps)
    from this(1) scan_conversations_real [OF this(2)] show ?thesis by (meson list.set_intros(1))
  next
    case False
    then have "scan_for_flag cf team ps = Some m" using Cons.prems
      by (auto split: sum.splits option.splits)
    from Cons.IH [OF this] show ?thesis by (meson list.set_intros(2))
  qed
qed simp

text \<open>The result of an attempt: solved exactly if the scan found a flag, and then the flag is pending.\<close>

lemma run_attempt_result:
  "wk_results (run_attempt cf account polls now (aid, mode, team) w) aid \<noteq> None
   \<and> (\<forall>r. wk_results (run_attempt cf account polls now (aid, mode, team) w) aid = Some r \<longrightarrow>
        (ar_solved r \<longleftrightarrow> account = Inr () \<and> scan_for_flag cf team polls \<noteq> None)
        \<and> (ar_solved r \<longrightarrow>
             wk_pending (run_attempt cf account polls now (aid, mode, team) w) aid = Some (wc_real_flag cf)))"
  using scan_for_flag_real [of cf team polls]
  by (auto simp: run_attempt_def finalize_def Let_def split: sum.splits option.splits)

text \<open>The queue never holds more than its bound, and what is queued has a result entry.\<close>

definition worker_wf :: "worker \<Rightarrow> bool" where
  "worker_wf w \<longleftrightarrow>
     length (wk_queue w) \<le> QUEUE_MAX
     \<and> (\<forall>(aid, mode, team) \<in> set (wk_queue w). wk_results w aid \<noteq> None)
     \<and> (\<forall>aid. wk_pending w aid \<noteq> None \<longrightarrow> wk_results w aid \<noteq> None)"

lemma worker_wf_init: "worker_wf worker_init"
  by (simp add: worker_wf_def worker_init_def)

lemma worker_wf_enqueue: "worker_wf w \<Longrightarrow> worker_wf (snd (enqueue_attempt aid mode team w))"
  by (auto simp: worker_wf_def enqueue_attempt_def Let_def split: if_splits)

lemma worker_wf_get: "worker_wf w \<Longrightarrow> worker_wf (snd (get_result aid w))"
  by (auto simp: worker_wf_def get_result_def split: option.splits)

lemma worker_wf_finalize:
  "worker_wf w \<Longrightarrow> worker_wf (finalize aid mode logs now solved flag w)"
  by (auto simp: worker_wf_def finalize_def Let_def split: option.splits)

lemma worker_wf_turn: "worker_wf w \<Longrightarrow> worker_wf (work_turn cf account polls now w)"
proof (cases "wk_queue w")
  case (Cons a q)
  obtain aid mode team where a: "a = (aid, mode, team)" by (cases a)
  assume "worker_wf w"
  then have "worker_wf (w\<lparr> wk_queue := q \<rparr>)" using Cons by (auto simp: worker_wf_def)
  then show ?thesis unfolding work_turn_def Cons a
    by (auto simp: run_attempt_def Let_def intro!: worker_wf_finalize split: sum.splits option.splits)
      (auto simp: worker_wf_def)
qed (simp add: work_turn_def)

text \<open>A flag is given out once.\<close>

lemma get_result_once:
  assumes "get_result aid w = (Some (r, Some f), w')"
  shows "ar_solved r \<and> wk_pending w aid = Some f \<and> get_result aid w' = (Some (r, None), w')"
  using assms by (auto simp: get_result_def fun_upd_idem split: option.splits if_splits)

end
