(* ===== verification/Web.thy ===== *)
theory Web
  imports Worker PoolInv
begin

text \<open>
  \<^verbatim>\<open>whisper/deploy/judge/web.py\<close>: the HTTP interface of the judge over the pool, the attempts and the APK it
  hands out. A handler takes the request and the state of the judge to its reply and the new state. An
  exception that a handler does not turn into a status is \<open>Crash\<close>: the framework answers 500. The clocks,
  the fresh identifier and the existence of files are the environment of a request.
\<close>

section \<open>State and requests\<close>

record apk =
  ak_path :: "string option"
  ak_url :: "string option"
  ak_available :: bool

record judge =
  jd_pool :: pool
  jd_worker :: worker
  jd_apk :: apk

record web_config =
  wb_admin_token :: string
  wb_max_rcard :: nat
  wb_template :: string
  wb_baked_dir :: string
  wb_public_url :: string
  wb_pool :: config
  wb_worker :: worker_config

record judge_env =
  ev_now :: time
  ev_mn :: time
  ev_id :: string
  ev_isfile :: "string \<Rightarrow> bool"
  ev_str :: "json \<Rightarrow> string"

datatype route =
    Health | DownloadApk | LeasePost | ReleasePost | StatusGet | ProvisionPost | SubmitPost | FlagPost
  | ResultGet string

text \<open>The headers with their defaults, the body as JSON and as bytes, and the query parameter \<^verbatim>\<open>team_id\<close>.\<close>

record request =
  rq_route :: route
  rq_authorization :: string
  rq_admin_token :: string
  rq_json :: "json res"
  rq_raw :: bytes
  rq_team_id :: "string option"

datatype content =
    HealthOk
  | HealthInfo counts int "instance_info list" int
  | ApkFile string
  | LeaseC lease_reply
  | ReleaseC bool
  | StatusC status
  | ProvisionC string string string
  | SubmitC string
  | FlagC int
  | ResultC attempt_result "string option"

datatype reply = Answer content | Refuse int string | RateLimited string int string | Crash pool_error

section \<open>Who may ask\<close>

definition starts_with :: "string \<Rightarrow> string \<Rightarrow> bool" where
  "starts_with p s \<longleftrightarrow> take (length p) s = p"

text \<open>\<open>Some\<close> is the exception raised.\<close>

definition require_admin :: "web_config \<Rightarrow> request \<Rightarrow> (int \<times> string) option" where
  "require_admin cf rq =
     (let auth_header = rq_authorization rq;
          x_token = rq_admin_token rq;
          provided = (if starts_with ''Bearer '' auth_header then Some (drop 7 auth_header)
                      else if x_token \<noteq> [] then Some x_token else None)
      in case provided of
           None \<Rightarrow> Some (401, ''Admin token required.'')
         | Some p \<Rightarrow> if p \<noteq> wb_admin_token cf then Some (403, ''Invalid admin token.'') else None)"

definition is_admin :: "web_config \<Rightarrow> request \<Rightarrow> bool" where
  "is_admin cf rq \<longleftrightarrow> require_admin cf rq = None"

definition admin_only ::
  "web_config \<Rightarrow> request \<Rightarrow> (judge \<Rightarrow> reply \<times> judge) \<Rightarrow> judge \<Rightarrow> reply \<times> judge" where
  "admin_only cf rq f j =
     (case require_admin cf rq of Some (status, detail) \<Rightarrow> (Refuse status detail, j) | None \<Rightarrow> f j)"

section \<open>The APK\<close>

definition apk_init :: apk where
  "apk_init = \<lparr> ak_path = None, ak_url = None, ak_available = False \<rparr>"

text \<open>\<open>baked\<close> says whether the tools succeed.\<close>

definition bake_apk_cached :: "web_config \<Rightarrow> (string \<Rightarrow> bool) \<Rightarrow> bool \<Rightarrow> apk \<Rightarrow> apk" where
  "bake_apk_cached cf isfile baked a =
     (if ak_url a = Some (wb_public_url cf) \<and> (case ak_path a of None \<Rightarrow> False | Some p \<Rightarrow> p \<noteq> [] \<and> isfile p)
      then a
      else
        let out_path = wb_baked_dir cf @ ''/whisper.apk'' in
        if \<not> isfile (wb_template cf) then a\<lparr> ak_available := False \<rparr>
        else if baked then \<lparr> ak_path = Some out_path, ak_url = Some (wb_public_url cf), ak_available = True \<rparr>
        else \<lparr> ak_path = Some (wb_template cf), ak_url = Some (wb_public_url cf), ak_available = True \<rparr>)"

definition download_apk :: "judge_env \<Rightarrow> judge \<Rightarrow> reply" where
  "download_apk ev j =
     (case ak_path (jd_apk j) of
        None \<Rightarrow> Refuse 503 ''APK not ready yet. Try again in a few seconds.''
      | Some path \<Rightarrow>
          if \<not> ak_available (jd_apk j) \<or> path = [] \<or> \<not> ev_isfile ev path
          then Refuse 503 ''APK not ready yet. Try again in a few seconds.'' else Answer (ApkFile path))"

text \<open>The start of the service: the pool is initialised; the threads and the bake run by themselves.\<close>

definition lifespan :: "web_config \<Rightarrow> time \<Rightarrow> judge \<Rightarrow> judge" where
  "lifespan cf mn j = j\<lparr> jd_pool := init_pool (wb_pool cf) mn (jd_pool j) \<rparr>"

section \<open>Handlers\<close>

definition health :: "web_config \<Rightarrow> judge_env \<Rightarrow> request \<Rightarrow> judge \<Rightarrow> reply \<times> judge" where
  "health cf ev rq j =
     (if is_admin cf rq then
        let ((counts, queued, infos), p) = pool_info (wb_pool cf) (ev_now ev) (ev_mn ev) (jd_pool j)
        in (Answer (HealthInfo counts queued infos (queue_depth (jd_worker j))), j\<lparr> jd_pool := p \<rparr>)
      else (Answer HealthOk, j))"

definition body_team :: "request \<Rightarrow> int res" where
  "body_team rq = ebind (rq_json rq) (\<lambda>b. ebind (py_item b ''team_id'') py_int)"

definition lease_handler :: "web_config \<Rightarrow> judge_env \<Rightarrow> request \<Rightarrow> judge \<Rightarrow> reply \<times> judge" where
  "lease_handler cf ev rq =
     admin_only cf rq (\<lambda>j.
       case body_team rq of
         Inl e \<Rightarrow> (Crash (Raised e), j)
       | Inr team_id \<Rightarrow>
           (case pool_lease (wb_pool cf) (ev_now ev) (ev_mn ev) team_id (jd_pool j) of
              (Inl (RateLimitError msg retry_after reason), p) \<Rightarrow>
                (RateLimited msg retry_after reason, j\<lparr> jd_pool := p \<rparr>)
            | (Inl (Raised e), p) \<Rightarrow> (Crash (Raised e), j\<lparr> jd_pool := p \<rparr>)
            | (Inr result, p) \<Rightarrow> (Answer (LeaseC result), j\<lparr> jd_pool := p \<rparr>)))"

definition release_handler :: "web_config \<Rightarrow> judge_env \<Rightarrow> request \<Rightarrow> judge \<Rightarrow> reply \<times> judge" where
  "release_handler cf ev rq =
     admin_only cf rq (\<lambda>j.
       case body_team rq of
         Inl e \<Rightarrow> (Crash (Raised e), j)
       | Inr team_id \<Rightarrow>
           let (result, p) = pool_release (wb_pool cf) (ev_now ev) (ev_mn ev) team_id (jd_pool j)
           in (Answer (ReleaseC result), j\<lparr> jd_pool := p \<rparr>))"

definition status_handler :: "web_config \<Rightarrow> judge_env \<Rightarrow> request \<Rightarrow> judge \<Rightarrow> reply \<times> judge" where
  "status_handler cf ev rq =
     admin_only cf rq (\<lambda>j.
       case py_int (JStr (case rq_team_id rq of Some q \<Rightarrow> q | None \<Rightarrow> ''0'')) of
         Inl e \<Rightarrow> (Crash (Raised e), j)
       | Inr team_id \<Rightarrow>
           (case pool_status (wb_pool cf) (ev_now ev) (ev_mn ev) team_id (jd_pool j) of
              (Inl e, p) \<Rightarrow> (Crash e, j\<lparr> jd_pool := p \<rparr>)
            | (Inr result, p) \<Rightarrow> (Answer (StatusC result), j\<lparr> jd_pool := p \<rparr>)))"

definition provision_attempt :: "web_config \<Rightarrow> judge_env \<Rightarrow> request \<Rightarrow> judge \<Rightarrow> reply \<times> judge" where
  "provision_attempt cf ev rq =
     admin_only cf rq (\<lambda>j.
       case enqueue_player_attempt (ev_id ev) None (jd_worker j) of
         (None, w) \<Rightarrow> (Refuse 503 ''Queue full; try again later'', j\<lparr> jd_worker := w \<rparr>)
       | (Some attempt_id, w) \<Rightarrow>
           (Answer (ProvisionC attempt_id (wc_backend_url (wb_worker cf)) (wc_victim_handle (wb_worker cf))),
            j\<lparr> jd_worker := w \<rparr>))"

text \<open>The magic \<^verbatim>\<open>RCRD\<close> is asked for only below the size limit.\<close>

definition rcard_magic :: bytes where "rcard_magic = [82, 67, 82, 68]"

definition submit :: "web_config \<Rightarrow> judge_env \<Rightarrow> request \<Rightarrow> judge \<Rightarrow> reply \<times> judge" where
  "submit cf ev rq =
     admin_only cf rq (\<lambda>j.
       let raw = rq_raw rq in
       if raw \<noteq> [] \<and> take 4 raw \<noteq> rcard_magic \<and> length raw < wb_max_rcard cf
       then (Refuse 400 ''Invalid .rcard magic (expected RCRD)'', j)
       else if wb_max_rcard cf < length raw then (Refuse 413 ''Payload too large'', j)
       else
         case enqueue_player_attempt (ev_id ev) None (jd_worker j) of
           (None, w) \<Rightarrow> (Refuse 503 ''Queue full; try again later'', j\<lparr> jd_worker := w \<rparr>)
         | (Some attempt_id, w) \<Rightarrow> (Answer (SubmitC attempt_id), j\<lparr> jd_worker := w \<rparr>))"

definition admin_set_flag :: "web_config \<Rightarrow> judge_env \<Rightarrow> request \<Rightarrow> judge \<Rightarrow> reply \<times> judge" where
  "admin_set_flag cf ev rq =
     admin_only cf rq (\<lambda>j.
       case ebind (body_team rq) (\<lambda>team_id.
            ebind (rq_json rq) (\<lambda>b. ebind (py_item b ''flag'') (\<lambda>v.
            let flag = (case v of JStr s \<Rightarrow> s | _ \<Rightarrow> ev_str ev v) in
            ebind (set_team_flag (pl_flags (jd_pool j)) team_id flag) (\<lambda>file. Inr (team_id, file))))) of
         Inl e \<Rightarrow> (Crash (Raised e), j)
       | Inr (team_id, file) \<Rightarrow> (Answer (FlagC team_id), j\<lparr> jd_pool := (jd_pool j)\<lparr> pl_flags := file \<rparr> \<rparr>))"

definition result_handler :: "string \<Rightarrow> judge \<Rightarrow> reply \<times> judge" where
  "result_handler attempt_id j =
     (case get_result attempt_id (jd_worker j) of
        (None, w) \<Rightarrow> (Refuse 404 ''Unknown attempt_id'', j)
      | (Some (r, flag), w) \<Rightarrow> (Answer (ResultC r flag), j\<lparr> jd_worker := w \<rparr>))"

definition web_handle :: "web_config \<Rightarrow> judge_env \<Rightarrow> request \<Rightarrow> judge \<Rightarrow> reply \<times> judge" where
  "web_handle cf ev rq j =
     (case rq_route rq of
        Health \<Rightarrow> health cf ev rq j
      | DownloadApk \<Rightarrow> (download_apk ev j, j)
      | LeasePost \<Rightarrow> lease_handler cf ev rq j
      | ReleasePost \<Rightarrow> release_handler cf ev rq j
      | StatusGet \<Rightarrow> status_handler cf ev rq j
      | ProvisionPost \<Rightarrow> provision_attempt cf ev rq j
      | SubmitPost \<Rightarrow> submit cf ev rq j
      | FlagPost \<Rightarrow> admin_set_flag cf ev rq j
      | ResultGet attempt_id \<Rightarrow> result_handler attempt_id j)"

section \<open>Properties\<close>

text \<open>Without the token nothing changes but the pending flag that a result request takes.\<close>

lemma web_refuses:
  assumes "require_admin cf rq = Some (code, detail)"
  shows "(\<forall>a. rq_route rq \<noteq> ResultGet a) \<Longrightarrow> snd (web_handle cf ev rq j) = j"
    and "rq_route rq \<notin> {Health, DownloadApk} \<union> range ResultGet \<Longrightarrow> fst (web_handle cf ev rq j) = Refuse code detail"
    and "rq_route rq = Health \<Longrightarrow> fst (web_handle cf ev rq j) = Answer HealthOk"
  using assms
  by (cases "rq_route rq"; auto simp: web_handle_def admin_only_def health_def is_admin_def lease_handler_def
      release_handler_def status_handler_def provision_attempt_def submit_def admin_set_flag_def)+

lemma require_admin_codes: "require_admin cf rq = Some (code, detail) \<Longrightarrow> code = 401 \<or> code = 403"
  by (auto simp: require_admin_def Let_def split: option.splits if_splits)

text \<open>The pool moves only as the pool's protocol allows.\<close>

lemmas web_handlers = web_handle_def admin_only_def health_def lease_handler_def release_handler_def
  status_handler_def provision_attempt_def submit_def admin_set_flag_def result_handler_def

lemma web_moves:
  assumes wf: "pool_wf (jd_pool j)" and cf: "config_ok (wb_pool cf)"
  shows "moves (wb_pool cf) (ev_now ev) (ev_mn ev) (jd_pool j) (jd_pool (snd (web_handle cf ev rq j)))"
proof -
  let ?m = "moves (wb_pool cf) (ev_now ev) (ev_mn ev) (jd_pool j)"
  have "pool_lease (wb_pool cf) (ev_now ev) (ev_mn ev) t (jd_pool j) = (r, q) \<Longrightarrow> ?m q" for t r q
    using lease_moves [OF wf cf, of "ev_now ev" "ev_mn ev" t] by simp
  moreover have "pool_release (wb_pool cf) (ev_now ev) (ev_mn ev) t (jd_pool j) = (b, q) \<Longrightarrow> ?m q" for t b q
    using release_moves [OF wf cf, of "ev_now ev" "ev_mn ev" t] by simp
  moreover have "pool_status (wb_pool cf) (ev_now ev) (ev_mn ev) t (jd_pool j) = (s, q) \<Longrightarrow> ?m q" for t s q
    using status_moves [of "wb_pool cf" "ev_now ev" "ev_mn ev" "jd_pool j" t] by simp
  moreover have "pool_info (wb_pool cf) (ev_now ev) (ev_mn ev) (jd_pool j) = (i, q) \<Longrightarrow> ?m q" for i q
    using info_moves [of "wb_pool cf" "ev_now ev" "ev_mn ev" "jd_pool j"] by simp
  moreover have "?m ((jd_pool j)\<lparr> pl_flags := f \<rparr>)" for f
    using flags_move [of "wb_pool cf" "ev_now ev" "ev_mn ev" "jd_pool j"] by blast
  ultimately show ?thesis
    by (cases "rq_route rq")
      (auto simp: web_handlers Let_def split: option.split sum.split prod.split pool_error.split)
qed

lemma web_pool_wf:
  "pool_wf (jd_pool j) \<Longrightarrow> config_ok (wb_pool cf) \<Longrightarrow> pool_wf (jd_pool (snd (web_handle cf ev rq j)))"
  using web_moves moves_wf by blast

lemma web_worker_wf:
  assumes "worker_wf (jd_worker j)"
  shows "worker_wf (jd_worker (snd (web_handle cf ev rq j)))"
proof -
  have "enqueue_player_attempt i t (jd_worker j) = (r, w) \<Longrightarrow> worker_wf w" for i t r w
    using worker_wf_enqueue [OF assms, of i MODE_PLAYER t] by (simp add: enqueue_player_attempt_def)
  moreover have "get_result i (jd_worker j) = (r, w) \<Longrightarrow> worker_wf w" for i r w
    using worker_wf_get [OF assms, of i] by simp
  ultimately show ?thesis using assms
    by (cases "rq_route rq")
      (auto simp: web_handlers Let_def split: option.split sum.split prod.split pool_error.split)
qed

text \<open>Which bodies \<open>submit\<close> lets pass: also one of exactly the maximal size without the magic.\<close>

lemma submit_accepts:
  assumes "require_admin cf rq = None" and "length (wk_queue (jd_worker j)) < QUEUE_MAX"
  shows "(\<exists>i. fst (submit cf ev rq j) = Answer (SubmitC i)) \<longleftrightarrow>
    rq_raw rq = [] \<or> length (rq_raw rq) = wb_max_rcard cf
    \<or> (length (rq_raw rq) < wb_max_rcard cf \<and> take 4 (rq_raw rq) = rcard_magic)"
  using assms
  by (auto simp: submit_def admin_only_def Let_def enqueue_player_attempt_def enqueue_attempt_def)

end
