(* ===== verification/AuthPod.thy ===== *)
theory AuthPod
  imports Web
begin

text \<open>
  \<^verbatim>\<open>whisper/auth-pod/app.py\<close>: the pod of one team, which speaks to the judge with the admin token on the
  team's behalf, composed with the judge of \<open>Web\<close>. What the network does to a request is an
  argument: it is lost, its reply is lost, or it arrives and is answered.
\<close>

datatype network = Lost | ReplyLost | Delivered

record pod =
  pd_team :: int
  pd_flag :: string
  pd_token :: string

datatype pod_reply = Forwarded reply | PodError int string

text \<open>A request to the judge: the reply, if one arrives, and the judge afterwards.\<close>

definition ask_judge :: "web_config \<Rightarrow> judge_env \<Rightarrow> network \<Rightarrow> request \<Rightarrow> judge \<Rightarrow> reply option \<times> judge" where
  "ask_judge cf ev net rq j =
     (case net of
        Lost \<Rightarrow> (None, j)
      | ReplyLost \<Rightarrow> (None, snd (web_handle cf ev rq j))
      | Delivered \<Rightarrow> let (r, j') = web_handle cf ev rq j in (Some r, j'))"

definition pod_request :: "pod \<Rightarrow> route \<Rightarrow> json \<Rightarrow> request" where
  "pod_request pod rt body =
     \<lparr> rq_route = rt, rq_authorization = [], rq_admin_token = pd_token pod, rq_json = Inr body, rq_raw = [],
       rq_team_id = (if rt = StatusGet then Some (show_int (pd_team pod)) else None) \<rparr>"

definition team_body :: "pod \<Rightarrow> json" where
  "team_body pod = JObj [(''team_id'', JInt (pd_team pod))]"

definition flag_body :: "pod \<Rightarrow> json" where
  "flag_body pod = JObj [(''team_id'', JInt (pd_team pod)), (''flag'', JStr (pd_flag pod))]"

text \<open>\<^verbatim>\<open>raise_for_status\<close> passes the replies that are not errors.\<close>

definition reply_ok :: "reply \<Rightarrow> bool" where
  "reply_ok r \<longleftrightarrow> (case r of Answer c \<Rightarrow> True | _ \<Rightarrow> False)"

text \<open>The attempts that are left, each with what the network does to it.\<close>

fun push_attempts :: "web_config \<Rightarrow> judge_env \<Rightarrow> pod \<Rightarrow> network list \<Rightarrow> judge \<Rightarrow> bool \<times> judge" where
  "push_attempts cf ev pod [] j = (False, j)"
| "push_attempts cf ev pod (n # ns) j =
     (case ask_judge cf ev n (pod_request pod FlagPost (flag_body pod)) j of
        (Some r, j') \<Rightarrow> if reply_ok r then (True, j') else push_attempts cf ev pod ns j'
      | (None, j') \<Rightarrow> push_attempts cf ev pod ns j')"

definition push_flag :: "web_config \<Rightarrow> judge_env \<Rightarrow> pod \<Rightarrow> (nat \<Rightarrow> network) \<Rightarrow> judge \<Rightarrow> bool \<times> judge" where
  "push_flag cf ev pod nets j =
     (if pd_token pod = [] then (False, j) else push_attempts cf ev pod (map nets [0..<7]) j)"

text \<open>A reply that does not come in time is \<^verbatim>\<open>504\<close>, an unreachable judge \<^verbatim>\<open>502\<close>.\<close>

definition pod_proxy :: "web_config \<Rightarrow> judge_env \<Rightarrow> pod \<Rightarrow> network \<Rightarrow> route \<Rightarrow> judge \<Rightarrow> pod_reply \<times> judge" where
  "pod_proxy cf ev pod net rt j =
     (case ask_judge cf ev net (pod_request pod rt (team_body pod)) j of
        (Some r, j') \<Rightarrow> (Forwarded r, j')
      | (None, j') \<Rightarrow> (if net = Lost then PodError 502 ''judge unreachable'' else PodError 504 ''judge timeout'', j'))"

definition pod_lease ::
  "web_config \<Rightarrow> judge_env \<Rightarrow> pod \<Rightarrow> (nat \<Rightarrow> network) \<Rightarrow> network \<Rightarrow> judge \<Rightarrow> pod_reply \<times> judge" where
  "pod_lease cf ev pod nets net j =
     (case push_flag cf ev pod nets j of
        (False, j') \<Rightarrow> (PodError 503 ''could not register flag with judge; try again'', j')
      | (True, j') \<Rightarrow> pod_proxy cf ev pod net LeasePost j')"

definition pod_release :: "web_config \<Rightarrow> judge_env \<Rightarrow> pod \<Rightarrow> network \<Rightarrow> judge \<Rightarrow> pod_reply \<times> judge" where
  "pod_release cf ev pod net j = pod_proxy cf ev pod net ReleasePost j"

definition pod_status :: "web_config \<Rightarrow> judge_env \<Rightarrow> pod \<Rightarrow> network \<Rightarrow> judge \<Rightarrow> pod_reply \<times> judge" where
  "pod_status cf ev pod net j = pod_proxy cf ev pod net StatusGet j"

section \<open>The flag of the team is the flag of its victim\<close>

text \<open>The judge accepts the token of the pod, and its flag file can be read and written.\<close>

definition flags_ok :: "flag_file \<Rightarrow> bool" where
  "flags_ok f \<longleftrightarrow> (\<exists>flags. load_flags f = Inr flags \<and> printable flags)"

definition pod_ok :: "web_config \<Rightarrow> pod \<Rightarrow> bool" where
  "pod_ok cf pod \<longleftrightarrow> pd_token pod \<noteq> [] \<and> pd_token pod = wb_admin_token cf \<and> \<bar>pd_team pod\<bar> < 10 ^ MAX_STR_DIGITS"

lemma set_flag_ok:
  assumes "flags_ok f" and "\<bar>t\<bar> < 10 ^ MAX_STR_DIGITS"
  obtains f' where "set_team_flag f t flag = Inr f'" "flags_ok f'" "get_team_flag f' t = Inr (Some flag)"
proof -
  obtain flags where flags: "load_flags f = Inr flags" "printable flags" using assms(1) by (auto simp: flags_ok_def)
  define f' where "f' = save_flags (AList.update t flag flags)"
  have set: "set_team_flag f t flag = Inr f'" by (simp add: set_team_flag_def flags f'_def)
  have "printable (AList.update t flag flags)" using flags(2) assms(2)
    by (auto simp only: printable_def update_keys set_append list.set split: if_splits)
  moreover have "distinct (map fst (AList.update t flag flags))" using load_distinct [OF flags(1)] by (rule distinct_update)
  ultimately have "load_flags f' = Inr (AList.update t flag flags)" unfolding f'_def by (rule load_save)
  then have "flags_ok f'" using \<open>printable (AList.update t flag flags)\<close> by (auto simp: flags_ok_def)
  moreover have "get_team_flag f' t = Inr (Some flag)"
    using get_set_flag [OF set flags assms(2), of t] by simp
  ultimately show ?thesis using that set by blast
qed

lemma pod_admin: "pod_ok cf pod \<Longrightarrow> require_admin cf (pod_request pod rt b) = None"
  by (auto simp: pod_ok_def require_admin_def pod_request_def starts_with_def Let_def)

text \<open>A flag push that reaches the judge changes only the flag file, and always succeeds.\<close>

lemma push_request:
  assumes "pod_ok cf pod" and "flags_ok (pl_flags (jd_pool j))"
  obtains f where "web_handle cf ev (pod_request pod FlagPost (flag_body pod)) j
      = (Answer (FlagC (pd_team pod)), j\<lparr> jd_pool := (jd_pool j)\<lparr> pl_flags := f \<rparr> \<rparr>)"
    "flags_ok f" "get_team_flag f (pd_team pod) = Inr (Some (pd_flag pod))"
proof -
  obtain f where f: "set_team_flag (pl_flags (jd_pool j)) (pd_team pod) (pd_flag pod) = Inr f" "flags_ok f"
    "get_team_flag f (pd_team pod) = Inr (Some (pd_flag pod))"
    using set_flag_ok assms by (metis pod_ok_def)
  then show ?thesis using pod_admin [OF assms(1), of FlagPost "flag_body pod"]
    by (intro that) (simp_all add: web_handle_def admin_set_flag_def admin_only_def body_team_def pod_request_def
        flag_body_def py_int_def)
qed

lemma push_attempts_flag:
  "pod_ok cf pod \<Longrightarrow> flags_ok (pl_flags (jd_pool j)) \<Longrightarrow> push_attempts cf ev pod ns j = (True, j') \<Longrightarrow>
     \<exists>f. j' = j\<lparr> jd_pool := (jd_pool j)\<lparr> pl_flags := f \<rparr> \<rparr> \<and> get_team_flag f (pd_team pod) = Inr (Some (pd_flag pod))"
proof (induction ns arbitrary: j)
  case Nil
  then show ?case by simp
next
  case (Cons n ns)
  obtain f where f: "web_handle cf ev (pod_request pod FlagPost (flag_body pod)) j
      = (Answer (FlagC (pd_team pod)), j\<lparr> jd_pool := (jd_pool j)\<lparr> pl_flags := f \<rparr> \<rparr>)"
    "flags_ok f" "get_team_flag f (pd_team pod) = Inr (Some (pd_flag pod))"
    using push_request [OF Cons.prems(1,2)] by blast
  show ?case
  proof (cases n)
    case Lost
    then show ?thesis using Cons by (simp add: ask_judge_def)
  next
    case ReplyLost
    then show ?thesis
      using Cons.IH [of "j\<lparr> jd_pool := (jd_pool j)\<lparr> pl_flags := f \<rparr> \<rparr>"] Cons.prems f by (simp add: ask_judge_def)
  next
    case Delivered
    then show ?thesis using Cons.prems f by (auto simp: ask_judge_def reply_ok_def)
  qed
qed

lemma init_pool_flags: "init_pool cf mn (p\<lparr> pl_flags := f \<rparr>) = (init_pool cf mn p)\<lparr> pl_flags := f \<rparr>"
  by (simp add: init_pool_def)

text \<open>A new lease takes the flag from the file, so the reset victim carries it.\<close>

lemma lease_takes_flag:
  assumes wf: "pool_wf p" and cf: "config_ok cf" and flag: "get_team_flag (pl_flags p) t = Inr (Some flag)"
    and l: "pool_lease cf now mn t p = (Inr (Leased iid h b x s), p')"
    and new: "current_lease (init_pool cf mn p) t = None"
  shows "\<exists>i. find_inst p' iid = Some i \<and> in_team i = Some t \<and> in_flag i = Some flag"
proof -
  let ?p1 = "init_pool cf mn p" and ?p2 = "snd (rate_limited cf now t (init_pool cf mn p))"
  have wf2: "pool_wf ?p2" using wf_init_pool [OF wf cf] by (rule wf_rate_limited)
  have fl: "pl_flags ?p2 = pl_flags p" by (simp add: rate_limited_eq init_pool_def)
  obtain i others where i: "free_instances ?p2 = i # others" "iid = in_id i"
    and p': "do_assign cf now t (in_id i) ?p2 = (Inr (), p')"
    using l new by (auto simp: pool_lease_def Let_def split: if_splits prod.splits sum.splits list.splits)
  have "find_inst ?p2 (in_id i) = Some i" using free_member [OF wf2, of i] i by simp
  then have "find_inst p' iid = Some i' \<longrightarrow> in_team i' = Some t \<and> in_flag i' = Some flag"
    and "find_inst p' iid \<noteq> None" for i'
    using p' flag fl i by (auto simp: do_assign_def make_victim_identity_def draw_def Let_def)
  then show ?thesis by blast
qed

lemma wf_flags: "pool_wf p \<Longrightarrow> pool_wf (p\<lparr> pl_flags := f \<rparr>)"
  by (rule wf_congr [of p]) (use pool_wfD(4,5) [of p] in auto)

lemma current_lease_flags [simp]: "current_lease (p\<lparr> pl_flags := f \<rparr>) t = current_lease p t"
  by (simp add: current_lease_def split: option.split)

text \<open>
  The two requests of the pod together: when the answer to the player is a lease that the team did not
  hold before, the leased instance belongs to the team and carries the pod's flag.
\<close>

lemma pod_lease_serves_flag:
  assumes pod: "pod_ok cf pod" and fl: "flags_ok (pl_flags (jd_pool j))"
    and wf: "pool_wf (jd_pool j)" and cf: "config_ok (wb_pool cf)"
    and l: "pod_lease cf ev pod nets net j = (Forwarded (Answer (LeaseC (Leased iid h b x s))), j')"
    and new: "current_lease (init_pool (wb_pool cf) (ev_mn ev) (jd_pool j)) (pd_team pod) = None"
  shows "\<exists>i. find_inst (jd_pool j') iid = Some i \<and> in_team i = Some (pd_team pod)
    \<and> in_flag i = Some (pd_flag pod)"
proof -
  obtain j1 where push: "push_flag cf ev pod nets j = (True, j1)"
    and proxy: "pod_proxy cf ev pod net LeasePost j1 = (Forwarded (Answer (LeaseC (Leased iid h b x s))), j')"
    using l by (auto simp: pod_lease_def split: prod.splits bool.splits)
  have "push_attempts cf ev pod (map nets [0..<7]) j = (True, j1)"
    using push pod by (auto simp: push_flag_def pod_ok_def split: if_splits)
  then obtain f where j1: "j1 = j\<lparr> jd_pool := (jd_pool j)\<lparr> pl_flags := f \<rparr> \<rparr>"
    and get: "get_team_flag f (pd_team pod) = Inr (Some (pd_flag pod))"
    using push_attempts_flag [OF pod fl] by blast
  have "web_handle cf ev (pod_request pod LeasePost (team_body pod)) j1
      = (Answer (LeaseC (Leased iid h b x s)), j')"
    using proxy by (cases net) (auto simp: pod_proxy_def ask_judge_def Let_def split: prod.splits)
  then have "pool_lease (wb_pool cf) (ev_now ev) (ev_mn ev) (pd_team pod) (jd_pool j1)
      = (Inr (Leased iid h b x s), jd_pool j')"
    using pod_admin [OF pod, of LeasePost "team_body pod"]
    by (auto simp: web_handle_def lease_handler_def admin_only_def body_team_def pod_request_def team_body_def
        py_int_def split: prod.splits sum.splits pool_error.splits)
  then show ?thesis
    using lease_takes_flag [OF wf_flags [OF wf, of f] cf, of "pd_team pod" "pd_flag pod"] get new
    by (simp add: j1 init_pool_flags)
qed

end
