(* ===== verification/WhisperDb.thy ===== *)
theory WhisperDb
  imports Json "HOL-Library.List_Lexorder" "HOL-Library.Char_ord"
begin

text \<open>
  The database of the messenger, \<^verbatim>\<open>whisper/deploy/backend/database.py\<close>: a table is the list of its rows in
  the order of insertion, and an insertion that breaks a key, a reference or a check of the schema
  fails. Integrity errors of SQLite are \<open>None\<close>. The sessions and passwords of \<^verbatim>\<open>auth.py\<close> stand on it; the
  key derivation of \<^verbatim>\<open>hashlib\<close> is the argument \<open>kdf\<close>.
\<close>

section \<open>Tables\<close>

record user =
  us_id :: string
  us_handle :: string
  us_display_name :: string
  us_phone :: string
  us_bio :: string
  us_avatar_seed :: int
  us_created_at :: int
  us_password_hash :: string
  us_is_victim :: bool

record sess =
  ss_token :: string
  ss_user :: string
  ss_created_at :: int
  ss_expires_at :: int

record conv =
  cv_id :: string
  cv_pair_key :: string
  cv_created_at :: int

text \<open>A row of \<^verbatim>\<open>conversation_members\<close>: conversation and user.\<close>

type_synonym member = "string \<times> string"

record message =
  ms_id :: string
  ms_conv :: string
  ms_sender :: string
  ms_type :: string
  ms_body :: "string option"
  ms_attachment :: "string option"
  ms_reply_to :: "string option"
  ms_created_at :: int
  ms_preview_title :: "string option"
  ms_preview_subtitle :: "string option"

record attachment =
  at_id :: string
  at_uploader :: string
  at_filename :: string
  at_mime_type :: string
  at_kind :: string
  at_size :: int
  at_path :: string
  at_created_at :: int

record reaction =
  rx_id :: string
  rx_message :: string
  rx_user :: string
  rx_emoji :: string
  rx_created_at :: int

text \<open>A row of \<^verbatim>\<open>read_receipts\<close>: message, user and time.\<close>

type_synonym receipt = "string \<times> string \<times> int"

record db =
  users :: "user list"
  sessions :: "sess list"
  convs :: "conv list"
  members :: "member list"
  messages :: "message list"
  attachments :: "attachment list"
  reactions :: "reaction list"
  receipts :: "receipt list"
  files :: "string \<Rightarrow> bytes option"

definition db_empty :: db where
  "db_empty =
     \<lparr> users = [], sessions = [], convs = [], members = [], messages = [], attachments = [], reactions = [],
       receipts = [], files = (\<lambda>p. None) \<rparr>"

text \<open>\<^verbatim>\<open>reset_db\<close> empties every table and the attachment directory.\<close>

definition reset_db :: "db \<Rightarrow> db" where
  "reset_db d =
     d\<lparr> receipts := [], reactions := [], messages := [], attachments := [], members := [], convs := [],
        sessions := [], users := [], files := (\<lambda>p. None) \<rparr>"

section \<open>Lookups\<close>

definition user_by_id :: "db \<Rightarrow> string \<Rightarrow> user option" where
  "user_by_id d i = find (\<lambda>u. us_id u = i) (users d)"

definition user_by_phone :: "db \<Rightarrow> string \<Rightarrow> user option" where
  "user_by_phone d ph = find (\<lambda>u. us_phone u = ph) (users d)"

definition user_by_handle :: "db \<Rightarrow> string \<Rightarrow> user option" where
  "user_by_handle d h = find (\<lambda>u. us_handle u = h) (users d)"

text \<open>\<^verbatim>\<open>WHERE id=? OR handle=?\<close> tries the index of the ids first.\<close>

definition user_by_id_or_handle :: "db \<Rightarrow> string \<Rightarrow> user option" where
  "user_by_id_or_handle d x = (case user_by_id d x of Some u \<Rightarrow> Some u | None \<Rightarrow> user_by_handle d x)"

definition conv_by_id :: "db \<Rightarrow> string \<Rightarrow> conv option" where
  "conv_by_id d i = find (\<lambda>c. cv_id c = i) (convs d)"

definition conv_by_pair :: "db \<Rightarrow> string \<Rightarrow> conv option" where
  "conv_by_pair d k = find (\<lambda>c. cv_pair_key c = k) (convs d)"

definition message_by_id :: "db \<Rightarrow> string \<Rightarrow> message option" where
  "message_by_id d i = find (\<lambda>m. ms_id m = i) (messages d)"

definition attachment_by_id :: "db \<Rightarrow> string \<Rightarrow> attachment option" where
  "attachment_by_id d i = find (\<lambda>a. at_id a = i) (attachments d)"

definition is_member :: "db \<Rightarrow> string \<Rightarrow> string \<Rightarrow> bool" where
  "is_member d c u \<longleftrightarrow> (c, u) \<in> set (members d)"

section \<open>Insertions\<close>

definition insert_user :: "user \<Rightarrow> db \<Rightarrow> db option" where
  "insert_user u d =
     (if user_by_id d (us_id u) \<noteq> None \<or> user_by_handle d (us_handle u) \<noteq> None \<or> user_by_phone d (us_phone u) \<noteq> None
      then None else Some (d\<lparr> users := users d @ [u] \<rparr>))"

definition insert_session :: "sess \<Rightarrow> db \<Rightarrow> db option" where
  "insert_session s d =
     (if find (\<lambda>x. ss_token x = ss_token s) (sessions d) \<noteq> None \<or> user_by_id d (ss_user s) = None
      then None else Some (d\<lparr> sessions := sessions d @ [s] \<rparr>))"

definition insert_member :: "string \<Rightarrow> string \<Rightarrow> db \<Rightarrow> db option" where
  "insert_member c u d =
     (if (c, u) \<in> set (members d) \<or> conv_by_id d c = None \<or> user_by_id d u = None
      then None else Some (d\<lparr> members := members d @ [(c, u)] \<rparr>))"

definition insert_message :: "message \<Rightarrow> db \<Rightarrow> db option" where
  "insert_message m d =
     (if message_by_id d (ms_id m) \<noteq> None \<or> conv_by_id d (ms_conv m) = None \<or> user_by_id d (ms_sender m) = None
         \<or> ms_type m \<notin> {''text'', ''attachment''}
      then None else Some (d\<lparr> messages := messages d @ [m] \<rparr>))"

definition insert_attachment :: "attachment \<Rightarrow> db \<Rightarrow> db option" where
  "insert_attachment a d =
     (if attachment_by_id d (at_id a) \<noteq> None \<or> user_by_id d (at_uploader a) = None
      then None else Some (d\<lparr> attachments := attachments d @ [a] \<rparr>))"

definition insert_reaction :: "reaction \<Rightarrow> db \<Rightarrow> db option" where
  "insert_reaction r d =
     (if find (\<lambda>x. rx_id x = rx_id r) (reactions d) \<noteq> None
         \<or> find (\<lambda>x. rx_message x = rx_message r \<and> rx_user x = rx_user r \<and> rx_emoji x = rx_emoji r) (reactions d) \<noteq> None
         \<or> message_by_id d (rx_message r) = None \<or> user_by_id d (rx_user r) = None
      then None else Some (d\<lparr> reactions := reactions d @ [r] \<rparr>))"

text \<open>\<^verbatim>\<open>INSERT OR IGNORE\<close> passes over a duplicate, but a missing message or user is still an error.\<close>

definition has_receipt :: "db \<Rightarrow> string \<Rightarrow> string \<Rightarrow> bool" where
  "has_receipt d mid u \<longleftrightarrow> find (\<lambda>(m, x, t). m = mid \<and> x = u) (receipts d) \<noteq> None"

definition insert_receipt :: "string \<Rightarrow> string \<Rightarrow> int \<Rightarrow> db \<Rightarrow> db option" where
  "insert_receipt mid u now d =
     (if has_receipt d mid u then Some d
      else if message_by_id d mid = None \<or> user_by_id d u = None then None
      else Some (d\<lparr> receipts := receipts d @ [(mid, u, now)] \<rparr>))"

text \<open>A transaction over several rows: the first failure undoes all of it.\<close>

fun insert_receipts :: "string list \<Rightarrow> string \<Rightarrow> int \<Rightarrow> db \<Rightarrow> db option" where
  "insert_receipts [] u now d = Some d"
| "insert_receipts (mid # mids) u now d =
     (case insert_receipt mid u now d of None \<Rightarrow> None | Some d \<Rightarrow> insert_receipts mids u now d)"

section \<open>Passwords and sessions\<close>

text \<open>The answers of the handlers: a status with its detail, or an exception that becomes a 500.\<close>

datatype http_error = Http int string | Internal

type_synonym 'a handler = "db \<Rightarrow> (http_error + 'a) \<times> db"

definition TOKEN_TTL :: int where "TOKEN_TTL = 86400"

definition hash_password :: "(string \<Rightarrow> bytes \<Rightarrow> bytes) \<Rightarrow> string \<Rightarrow> bytes \<Rightarrow> string" where
  "hash_password kdf password salt = bytes_hex salt @ ''$'' @ bytes_hex (kdf password salt)"

definition verify_password :: "(string \<Rightarrow> bytes \<Rightarrow> bytes) \<Rightarrow> string \<Rightarrow> string \<Rightarrow> bool" where
  "verify_password kdf password stored =
     (if stored = [] \<or> CHR ''$'' \<notin> set stored then False
      else
        let salt_hex = takeWhile (\<lambda>c. c \<noteq> CHR ''$'') stored;
            dk_hex = tl (dropWhile (\<lambda>c. c \<noteq> CHR ''$'') stored)
        in case bytes_fromhex salt_hex of
             Inl e \<Rightarrow> False
           | Inr salt \<Rightarrow>
               (case bytes_fromhex dk_hex of Inl e \<Rightarrow> False | Inr expected \<Rightarrow> kdf password salt = expected))"

definition create_token :: "string \<Rightarrow> int \<Rightarrow> string \<Rightarrow> string handler" where
  "create_token token now user_id d =
     (case insert_session \<lparr> ss_token = token, ss_user = user_id, ss_created_at = now, ss_expires_at = now + TOKEN_TTL \<rparr> d of
        None \<Rightarrow> (Inl Internal, d)
      | Some d \<Rightarrow> (Inr token, d))"

definition get_user_id_from_token :: "int \<Rightarrow> db \<Rightarrow> string \<Rightarrow> string option" where
  "get_user_id_from_token now d token =
     (case find (\<lambda>s. ss_token s = token) (sessions d) of
        None \<Rightarrow> None
      | Some s \<Rightarrow> if ss_expires_at s < now then None else Some (ss_user s))"

definition bearer :: "string \<Rightarrow> string option" where
  "bearer authorization = (if take 7 authorization = ''Bearer '' then Some (drop 7 authorization) else None)"

definition require_auth :: "int \<Rightarrow> db \<Rightarrow> string \<Rightarrow> http_error + string" where
  "require_auth now d authorization =
     (case bearer authorization of
        None \<Rightarrow> Inl (Http 401 ''Missing or malformed Authorization header'')
      | Some token \<Rightarrow>
          (case get_user_id_from_token now d token of
             None \<Rightarrow> Inl (Http 401 ''Invalid or expired token'')
           | Some user_id \<Rightarrow> Inr user_id))"

section \<open>Facts\<close>

lemma find_append: "find P (xs @ ys) = (case find P xs of None \<Rightarrow> find P ys | Some x \<Rightarrow> Some x)"
  by (induction xs) auto

lemma find_SomeD: "find P xs = Some x \<Longrightarrow> x \<in> set xs \<and> P x"
  by (induction xs) (auto split: if_splits)

lemma find_None: "find P xs = None \<longleftrightarrow> (\<forall>x \<in> set xs. \<not> P x)"
  by (induction xs) auto

text \<open>On a column without duplicates the row found is the only one.\<close>

lemma find_unique:
  "distinct (map f xs) \<Longrightarrow> x \<in> set xs \<Longrightarrow> find (\<lambda>y. f y = f x) xs = Some x"
  by (induction xs) (auto simp: image_iff)

lemma hex_no_dollar: "CHR ''$'' \<notin> set (bytes_hex b)"
proof -
  have "CHR ''$'' \<noteq> hex_digit d" if "0 \<le> d" "d < 16" for d
  proof -
    have "list_all (\<lambda>d. CHR ''$'' \<noteq> hex_digit d) [0..15]" by code_simp
    moreover have "d \<in> set [0..15]" using that by (simp del: upto_rec_numeral)
    ultimately show ?thesis unfolding list_all_iff by blast
  qed
  moreover have "0 \<le> uint w div 16 \<and> uint w div 16 < 16 \<and> 0 \<le> uint w mod 16 \<and> uint w mod 16 < 16" for w :: byte
  proof -
    have "0 \<le> uint w" "uint w < 256" using uint_lt2p [of w] by simp_all
    then show ?thesis by presburger
  qed
  ultimately show ?thesis by (auto simp: bytes_hex_def)
qed

text \<open>A stored password verifies exactly those passwords that derive its key.\<close>

lemma verify_hash:
  "verify_password kdf pw (hash_password kdf pw' salt) \<longleftrightarrow> kdf pw salt = kdf pw' salt"
proof -
  have "takeWhile (\<lambda>c. c \<noteq> CHR ''$'') (bytes_hex salt @ ''$'' @ s) = bytes_hex salt"
    and "dropWhile (\<lambda>c. c \<noteq> CHR ''$'') (bytes_hex salt @ ''$'' @ s) = ''$'' @ s" for s
    using hex_no_dollar [of salt] by (auto simp: takeWhile_append dropWhile_append)
  then show ?thesis by (simp add: verify_password_def hash_password_def bytes_fromhex_hex Let_def)
qed

lemma token_created:
  "create_token token now u d = (Inr token', d') \<Longrightarrow>
     token' = token \<and> get_user_id_from_token t d' token = (if now + TOKEN_TTL < t then None else Some u)
     \<and> users d' = users d \<and> user_by_id d u \<noteq> None"
  by (auto simp: create_token_def insert_session_def get_user_id_from_token_def find_append split: option.splits if_splits)

end
