(* ===== verification/WhisperChat.thy ===== *)
theory WhisperChat
  imports WhisperDb Text
begin

text \<open>
  The REST handlers of the messenger, \<^verbatim>\<open>whisper/deploy/backend/routers\<close>. A handler takes the database to its
  answer, the new database and the events it broadcasts, each with the conversation whose members
  receive it. Request bodies are the validated models of \<^verbatim>\<open>models.py\<close>. Where SQL leaves the order of rows
  with equal times open, rows come in the order of insertion, as the indexes of the schema give it.
\<close>

section \<open>Answers and events\<close>

record benv =
  be_now :: int
  be_id :: string
  be_token :: string
  be_salt :: bytes

record user_profile =
  pr_id :: string
  pr_handle :: string
  pr_display_name :: string
  pr_phone :: string
  pr_bio :: string
  pr_avatar_seed :: int
  pr_created_at :: int

record user_public =
  pu_id :: string
  pu_handle :: string
  pu_display_name :: string
  pu_bio :: string
  pu_avatar_seed :: int

record attachment_out =
  ao_id :: string
  ao_filename :: string
  ao_mime_type :: string
  ao_kind :: string
  ao_size :: int
  ao_url :: string

record message_out =
  mo_id :: string
  mo_conv :: string
  mo_sender :: string
  mo_type :: string
  mo_body :: "string option"
  mo_attachment_id :: "string option"
  mo_attachment :: "attachment_out option"
  mo_reply_to :: "string option"
  mo_created_at :: int
  mo_reactions :: "reaction list"
  mo_read_by :: "string list"
  mo_preview :: "(string \<times> string) option"

record message_preview =
  mp_id :: string
  mp_sender :: string
  mp_type :: string
  mp_body :: "string option"
  mp_created_at :: int

record conversation_out =
  co_id :: string
  co_other_user :: user_public
  co_last_message :: "message_preview option"
  co_unread_count :: nat
  co_created_at :: int

datatype answer =
    TokenR string string
  | ProfileR user_profile
  | UserR user_public
  | UsersR "user_public list"
  | ConversationsR "conversation_out list"
  | DmR string
  | MessagesR "message_out list"
  | MessageR message_out
  | MarkedR nat
  | ReactionR reaction
  | RemovedR
  | AttachmentR attachment_out
  | FileR string string bytes
  | DoneR

datatype chat_event =
    NewMessage message_out
  | ReadReceipt string string "string list"
  | ReactionAdded reaction
  | ReactionRemoved string string string
  | MessagePreview string string string string
  | TypingEvent string string int
  | StopTypingEvent string string int

type_synonym outcome = "(http_error + answer) \<times> db \<times> (string \<times> chat_event) list"

definition fail :: "int \<Rightarrow> string \<Rightarrow> db \<Rightarrow> outcome" where
  "fail code detail d = (Inl (Http code detail), d, [])"

definition crash :: "db \<Rightarrow> outcome" where
  "crash d = (Inl Internal, d, [])"

definition answer :: "answer \<Rightarrow> db \<Rightarrow> outcome" where
  "answer a d = (Inr a, d, [])"

section \<open>Accounts\<close>

definition victim_name :: "string \<Rightarrow> bool" where
  "victim_name display_name \<longleftrightarrow> take 14 display_name = ''Whisper Victim''"

definition grant_token :: "benv \<Rightarrow> string \<Rightarrow> db \<Rightarrow> outcome" where
  "grant_token ev user_id d =
     (case create_token (be_token ev) (be_now ev) user_id d of
        (Inl e, d) \<Rightarrow> (Inl e, d, [])
      | (Inr token, d) \<Rightarrow> answer (TokenR token user_id) d)"

definition register ::
  "(string \<Rightarrow> bytes \<Rightarrow> bytes) \<Rightarrow> bool \<Rightarrow> benv \<Rightarrow> string \<Rightarrow> string \<Rightarrow> string option \<Rightarrow> string option \<Rightarrow> bool \<Rightarrow> db \<Rightarrow> outcome"
where
  "register kdf ctf_mode ev phone password handle display_name is_victim d =
     (if password = [] then fail 422 ''password must not be empty'' d
      else case user_by_phone d phone of
        None \<Rightarrow>
          (case (handle, display_name) of
             (Some h, Some n) \<Rightarrow>
               if h = [] \<or> n = [] then fail 400 ''handle and display_name required for new users'' d
               else if user_by_handle d h \<noteq> None then fail 409 ''handle already taken'' d
               else
                 (case insert_user
                    \<lparr> us_id = be_id ev, us_handle = h, us_display_name = n, us_phone = phone, us_bio = [],
                      us_avatar_seed = 0, us_created_at = be_now ev,
                      us_password_hash = hash_password kdf password (be_salt ev),
                      us_is_victim = (is_victim \<or> (ctf_mode \<and> victim_name n)) \<rparr> d of
                    None \<Rightarrow> crash d
                  | Some d \<Rightarrow> grant_token ev (be_id ev) d)
           | _ \<Rightarrow> fail 400 ''handle and display_name required for new users'' d)
      | Some row \<Rightarrow>
          if \<not> verify_password kdf password (us_password_hash row)
          then fail 409 ''phone already registered'' d
          else grant_token ev (us_id row) d)"

definition login :: "(string \<Rightarrow> bytes \<Rightarrow> bytes) \<Rightarrow> benv \<Rightarrow> string \<Rightarrow> string \<Rightarrow> db \<Rightarrow> outcome" where
  "login kdf ev phone password d =
     (if password = [] then fail 422 ''password must not be empty'' d
      else case user_by_phone d phone of
        None \<Rightarrow> fail 404 ''No account for this phone'' d
      | Some row \<Rightarrow>
          if \<not> verify_password kdf password (us_password_hash row) then fail 401 ''Incorrect password'' d
          else grant_token ev (us_id row) d)"

definition logout :: "string \<Rightarrow> db \<Rightarrow> outcome" where
  "logout user_id d = answer DoneR (d\<lparr> sessions := filter (\<lambda>s. ss_user s \<noteq> user_id) (sessions d) \<rparr>)"

section \<open>Profiles\<close>

definition row_to_public :: "user \<Rightarrow> user_public" where
  "row_to_public row =
     \<lparr> pu_id = us_id row, pu_handle = us_handle row, pu_display_name = us_display_name row, pu_bio = us_bio row,
       pu_avatar_seed = us_avatar_seed row \<rparr>"

definition row_to_profile :: "user \<Rightarrow> user_profile" where
  "row_to_profile row =
     \<lparr> pr_id = us_id row, pr_handle = us_handle row, pr_display_name = us_display_name row, pr_phone = us_phone row,
       pr_bio = us_bio row, pr_avatar_seed = us_avatar_seed row, pr_created_at = us_created_at row \<rparr>"

definition get_me :: "string \<Rightarrow> db \<Rightarrow> outcome" where
  "get_me user_id d =
     (case user_by_id d user_id of None \<Rightarrow> fail 404 ''User not found'' d
      | Some row \<Rightarrow> answer (ProfileR (row_to_profile row)) d)"

definition set_profile :: "string option \<Rightarrow> string option \<Rightarrow> int option \<Rightarrow> user \<Rightarrow> user" where
  "set_profile name bio seed u =
     u\<lparr> us_display_name := (case name of Some n \<Rightarrow> n | None \<Rightarrow> us_display_name u),
        us_bio := (case bio of Some b \<Rightarrow> b | None \<Rightarrow> us_bio u),
        us_avatar_seed := (case seed of Some s \<Rightarrow> s | None \<Rightarrow> us_avatar_seed u) \<rparr>"

definition update_me :: "string option \<Rightarrow> string option \<Rightarrow> int option \<Rightarrow> string \<Rightarrow> db \<Rightarrow> outcome" where
  "update_me name bio seed user_id d =
     (case user_by_id d user_id of
        None \<Rightarrow> fail 404 ''User not found'' d
      | Some _ \<Rightarrow>
          let d = d\<lparr> users := map (\<lambda>u. if us_id u = user_id then set_profile name bio seed u else u) (users d) \<rparr> in
          (case user_by_id d user_id of None \<Rightarrow> crash d
           | Some row \<Rightarrow> answer (ProfileR (row_to_profile row)) d))"

text \<open>\<^verbatim>\<open>LIKE\<close>: \<^verbatim>\<open>%\<close> stands for any text, \<^verbatim>\<open>_\<close> for a character, letters match in either case.\<close>

fun sql_like :: "string \<Rightarrow> string \<Rightarrow> bool" where
  "sql_like [] s = (s = [])"
| "sql_like (p # ps) [] = (p = CHR ''%'' \<and> sql_like ps [])"
| "sql_like (p # ps) (c # cs) =
     (if p = CHR ''%'' then sql_like ps (c # cs) \<or> sql_like (p # ps) cs
      else (p = CHR ''_'' \<or> ascii_lower p = ascii_lower c) \<and> sql_like ps cs)"

definition search_users :: "string \<Rightarrow> string \<Rightarrow> db \<Rightarrow> outcome" where
  "search_users q user_id d =
     (if q = [] then fail 422 ''query too short'' d
      else
        let pattern = ''%'' @ q @ ''%'' in
        answer (UsersR (map row_to_public (take 30 (filter (\<lambda>u. us_id u \<noteq> user_id
          \<and> ((\<not> us_is_victim u \<and> (sql_like pattern (us_handle u) \<or> sql_like pattern (us_display_name u)))
             \<or> (us_is_victim u \<and> map ascii_lower (us_handle u) = map ascii_lower q))) (users d))))) d)"

definition get_user :: "string \<Rightarrow> db \<Rightarrow> outcome" where
  "get_user x d =
     (case user_by_id_or_handle d x of None \<Rightarrow> fail 404 ''User not found'' d
      | Some row \<Rightarrow> answer (UserR (row_to_public row)) d)"

section \<open>Conversations\<close>

text \<open>\<^verbatim>\<open>"|".join(sorted([user_a, user_b]))\<close>\<close>

definition pair_key :: "string \<Rightarrow> string \<Rightarrow> string" where
  "pair_key a b = (if a \<le> b then a @ ''|'' @ b else b @ ''|'' @ a)"

definition insert_conv_or_ignore :: "conv \<Rightarrow> db \<Rightarrow> db" where
  "insert_conv_or_ignore c d =
     (if conv_by_id d (cv_id c) \<noteq> None \<or> conv_by_pair d (cv_pair_key c) \<noteq> None then d
      else d\<lparr> convs := convs d @ [c] \<rparr>)"

text \<open>\<open>None\<close> is an exception: the transaction is rolled back.\<close>

definition get_or_create_dm :: "benv \<Rightarrow> string \<Rightarrow> string \<Rightarrow> db \<Rightarrow> string option \<times> db" where
  "get_or_create_dm ev user_a user_b d =
     (let key = pair_key user_a user_b in
      case conv_by_pair d key of
        Some row \<Rightarrow> (Some (cv_id row), d)
      | None \<Rightarrow>
          let conv_id = be_id ev;
              d1 = insert_conv_or_ignore \<lparr> cv_id = conv_id, cv_pair_key = key, cv_created_at = be_now ev \<rparr> d in
          (case conv_by_pair d1 key of
             None \<Rightarrow> (None, d)
           | Some winner \<Rightarrow>
               if cv_id winner = conv_id then
                 (case insert_member conv_id user_a d1 of
                    None \<Rightarrow> (None, d)
                  | Some d2 \<Rightarrow>
                      (case insert_member conv_id user_b d2 of
                         None \<Rightarrow> (None, d)
                       | Some d3 \<Rightarrow> (Some conv_id, d3)))
               else (Some (cv_id winner), d1)))"

definition open_dm :: "benv \<Rightarrow> string \<Rightarrow> string \<Rightarrow> db \<Rightarrow> outcome" where
  "open_dm ev target user_id d =
     (case user_by_id_or_handle d target of
        None \<Rightarrow> fail 404 ''Target user not found'' d
      | Some t \<Rightarrow>
          if us_id t = user_id then fail 400 ''Cannot DM yourself'' d
          else
            (case get_or_create_dm ev user_id (us_id t) d of
               (None, d) \<Rightarrow> crash d
             | (Some conv_id, d) \<Rightarrow> answer (DmR conv_id) d))"

definition newest_first :: "message list \<Rightarrow> message list" where
  "newest_first ms = rev (sort_key ms_created_at ms)"

definition conv_messages :: "db \<Rightarrow> string \<Rightarrow> message list" where
  "conv_messages d cid = filter (\<lambda>m. ms_conv m = cid) (messages d)"

definition unread :: "db \<Rightarrow> string \<Rightarrow> string \<Rightarrow> message list" where
  "unread d cid user_id =
     filter (\<lambda>m. ms_sender m \<noteq> user_id \<and> \<not> has_receipt d (ms_id m) user_id) (conv_messages d cid)"

definition other_member :: "db \<Rightarrow> string \<Rightarrow> string \<Rightarrow> user option" where
  "other_member d cid user_id = find (\<lambda>u. is_member d cid (us_id u) \<and> us_id u \<noteq> user_id) (users d)"

definition message_preview_of :: "message \<Rightarrow> message_preview" where
  "message_preview_of m =
     \<lparr> mp_id = ms_id m, mp_sender = ms_sender m, mp_type = ms_type m, mp_body = ms_body m,
       mp_created_at = ms_created_at m \<rparr>"

definition conversation_out_of :: "db \<Rightarrow> string \<Rightarrow> conv \<Rightarrow> conversation_out list" where
  "conversation_out_of d user_id c =
     (case other_member d (cv_id c) user_id of
        None \<Rightarrow> []
      | Some other \<Rightarrow>
          [\<lparr> co_id = cv_id c, co_other_user = row_to_public other,
             co_last_message = (case newest_first (conv_messages d (cv_id c)) of
                                  [] \<Rightarrow> None | m # _ \<Rightarrow> Some (message_preview_of m)),
             co_unread_count = length (unread d (cv_id c) user_id), co_created_at = cv_created_at c \<rparr>])"

definition list_conversations :: "string \<Rightarrow> db \<Rightarrow> outcome" where
  "list_conversations user_id d =
     (let rows = sort_key (\<lambda>c. - cv_created_at c) (filter (\<lambda>c. is_member d (cv_id c) user_id) (convs d))
      in answer (ConversationsR (concat (map (conversation_out_of d user_id) rows))) d)"

section \<open>Messages\<close>

definition attachment_out_of :: "attachment \<Rightarrow> attachment_out" where
  "attachment_out_of row =
     \<lparr> ao_id = at_id row, ao_filename = at_filename row, ao_mime_type = at_mime_type row, ao_kind = at_kind row,
       ao_size = at_size row, ao_url = ''/attachments/'' @ at_id row @ ''/download'' \<rparr>"

definition build_message_out :: "db \<Rightarrow> message \<Rightarrow> message_out" where
  "build_message_out d m =
     \<lparr> mo_id = ms_id m, mo_conv = ms_conv m, mo_sender = ms_sender m, mo_type = ms_type m, mo_body = ms_body m,
       mo_attachment_id = ms_attachment m,
       mo_attachment = (case ms_attachment m of
                          None \<Rightarrow> None
                        | Some a \<Rightarrow> if a = [] then None else map_option attachment_out_of (attachment_by_id d a)),
       mo_reply_to = ms_reply_to m, mo_created_at = ms_created_at m,
       mo_reactions = filter (\<lambda>r. rx_message r = ms_id m) (reactions d),
       mo_read_by = map (\<lambda>(mid, u, t). u) (filter (\<lambda>(mid, u, t). mid = ms_id m) (receipts d)),
       mo_preview = (case (ms_preview_title m, ms_preview_subtitle m) of
                       (Some t, Some s) \<Rightarrow> Some (t, s) | _ \<Rightarrow> None) \<rparr>"

text \<open>A negative \<^verbatim>\<open>LIMIT\<close> is none.\<close>

definition sql_limit :: "int \<Rightarrow> 'a list \<Rightarrow> 'a list" where
  "sql_limit n xs = (if n < 0 then xs else take (nat n) xs)"

definition list_messages :: "string \<Rightarrow> int option \<Rightarrow> int \<Rightarrow> string \<Rightarrow> db \<Rightarrow> outcome" where
  "list_messages cid before limit user_id d =
     (if 200 < limit then fail 422 ''limit too large'' d
      else if \<not> is_member d cid user_id then fail 403 ''Not a member of this conversation'' d
      else
        let rows = (case before of
                      Some b \<Rightarrow> if b \<noteq> 0 then filter (\<lambda>m. ms_created_at m < b) (conv_messages d cid)
                                 else conv_messages d cid
                    | None \<Rightarrow> conv_messages d cid)
        in answer (MessagesR (map (build_message_out d) (rev (sql_limit limit (newest_first rows))))) d)"

definition given :: "string option \<Rightarrow> bool" where
  "given x \<longleftrightarrow> (case x of None \<Rightarrow> False | Some s \<Rightarrow> s \<noteq> [])"

definition send_message ::
  "benv \<Rightarrow> string \<Rightarrow> string \<Rightarrow> string option \<Rightarrow> string option \<Rightarrow> string option \<Rightarrow> string \<Rightarrow> db \<Rightarrow> outcome" where
  "send_message ev cid type body attachment_id reply_to user_id d =
     (if \<not> is_member d cid user_id then fail 403 ''Not a member of this conversation'' d
      else if type = ''text'' \<and> \<not> given body then fail 400 ''body required for text messages'' d
      else if type = ''attachment'' \<and> \<not> given attachment_id
      then fail 400 ''attachment_id required for attachment messages'' d
      else if given attachment_id
              \<and> find (\<lambda>a. at_id a = the attachment_id \<and> at_uploader a = user_id) (attachments d) = None
      then fail 404 ''Attachment not found'' d
      else
        let m = \<lparr> ms_id = be_id ev, ms_conv = cid, ms_sender = user_id, ms_type = type, ms_body = body,
                  ms_attachment = attachment_id, ms_reply_to = reply_to, ms_created_at = be_now ev,
                  ms_preview_title = None, ms_preview_subtitle = None \<rparr> in
        (case insert_message m d of
           None \<Rightarrow> crash d
         | Some d \<Rightarrow>
             let out = build_message_out d m in (Inr (MessageR out), d, [(cid, NewMessage out)])))"

definition mark_read :: "benv \<Rightarrow> string \<Rightarrow> string \<Rightarrow> db \<Rightarrow> outcome" where
  "mark_read ev cid user_id d =
     (if \<not> is_member d cid user_id then fail 403 ''Not a member'' d
      else
        let msg_ids = map ms_id (unread d cid user_id) in
        (case insert_receipts msg_ids user_id (be_now ev) d of
           None \<Rightarrow> crash d
         | Some d \<Rightarrow>
             (Inr (MarkedR (length msg_ids)), d,
              if msg_ids = [] then [] else [(cid, ReadReceipt cid user_id msg_ids)])))"

definition add_reaction :: "benv \<Rightarrow> string \<Rightarrow> string \<Rightarrow> string \<Rightarrow> db \<Rightarrow> outcome" where
  "add_reaction ev mid emoji user_id d =
     (case message_by_id d mid of
        None \<Rightarrow> fail 404 ''Message not found'' d
      | Some msg \<Rightarrow>
          if \<not> is_member d (ms_conv msg) user_id then fail 403 ''Not a member'' d
          else
            let r = \<lparr> rx_id = be_id ev, rx_message = mid, rx_user = user_id, rx_emoji = emoji,
                      rx_created_at = be_now ev \<rparr> in
            (case insert_reaction r d of
               None \<Rightarrow> fail 409 ''Reaction already exists'' d
             | Some d \<Rightarrow> (Inr (ReactionR r), d, [(ms_conv msg, ReactionAdded r)])))"

definition set_message_preview :: "string \<Rightarrow> string \<Rightarrow> string \<Rightarrow> string \<Rightarrow> db \<Rightarrow> outcome" where
  "set_message_preview mid title subtitle user_id d =
     (case message_by_id d mid of
        None \<Rightarrow> fail 404 ''Message not found'' d
      | Some msg \<Rightarrow>
          if \<not> is_member d (ms_conv msg) user_id then fail 403 ''Not a member of this conversation'' d
          else
            let d = d\<lparr> messages := map (\<lambda>m. if ms_id m = mid
                    then m\<lparr> ms_preview_title := Some title, ms_preview_subtitle := Some subtitle \<rparr> else m) (messages d) \<rparr> in
            (case message_by_id d mid of
               None \<Rightarrow> crash d
             | Some row \<Rightarrow>
                 (Inr (MessageR (build_message_out d row)), d,
                  [(ms_conv msg, MessagePreview mid (ms_conv msg) title subtitle)])))"

definition remove_reaction :: "string \<Rightarrow> string \<Rightarrow> string \<Rightarrow> db \<Rightarrow> outcome" where
  "remove_reaction mid emoji user_id d =
     (case message_by_id d mid of
        None \<Rightarrow> fail 404 ''Message not found'' d
      | Some msg \<Rightarrow>
          if \<not> is_member d (ms_conv msg) user_id then fail 403 ''Not a member'' d
          else
            (Inr RemovedR,
             d\<lparr> reactions := filter (\<lambda>r. \<not> (rx_message r = mid \<and> rx_user r = user_id \<and> rx_emoji r = emoji)) (reactions d) \<rparr>,
             [(ms_conv msg, ReactionRemoved mid user_id emoji)]))"

section \<open>Attachments\<close>

definition MAX_SIZE :: int where "MAX_SIZE = 50 * 1024 * 1024"

definition attachment_path :: "string \<Rightarrow> string" where
  "attachment_path att_id = ''./data/attachments/'' @ att_id"

text \<open>The loop over the chunks of the request: \<open>None\<close> when the limit is passed.\<close>

fun read_stream :: "int \<Rightarrow> bytes \<Rightarrow> bytes list \<Rightarrow> (int \<times> bytes) option" where
  "read_stream total_size content [] = Some (total_size, content)"
| "read_stream total_size content (chunk # chunks) =
     (let total_size = total_size + int (length chunk) in
      if MAX_SIZE < total_size then None else read_stream total_size (content @ chunk) chunks)"

definition upload_attachment ::
  "benv \<Rightarrow> string \<Rightarrow> string \<Rightarrow> string \<Rightarrow> bytes list \<Rightarrow> string \<Rightarrow> db \<Rightarrow> outcome" where
  "upload_attachment ev filename kind content_type chunks user_id d =
     (let mime_type = py_strip (takeWhile (\<lambda>c. c \<noteq> CHR '';'') content_type);
          path = attachment_path (be_id ev) in
      case read_stream 0 [] chunks of
        None \<Rightarrow> fail 413 ''Attachment too large (max 50 MB)'' (d\<lparr> files := (files d)(path := None) \<rparr>)
      | Some (total_size, content) \<Rightarrow>
          let d = d\<lparr> files := (files d)(path \<mapsto> content) \<rparr>;
              a = \<lparr> at_id = be_id ev, at_uploader = user_id, at_filename = filename, at_mime_type = mime_type,
                    at_kind = kind, at_size = total_size, at_path = path, at_created_at = be_now ev \<rparr> in
          (case insert_attachment a d of None \<Rightarrow> crash d | Some d \<Rightarrow> answer (AttachmentR (attachment_out_of a)) d))"

definition attachment_access :: "db \<Rightarrow> string \<Rightarrow> string \<Rightarrow> bool" where
  "attachment_access d aid caller \<longleftrightarrow>
     find (\<lambda>a. at_id a = aid \<and> at_uploader a = caller) (attachments d) \<noteq> None
     \<or> list_ex (\<lambda>m. ms_attachment m = Some aid \<and> is_member d (ms_conv m) caller) (messages d)"

definition download_attachment :: "string \<Rightarrow> string \<Rightarrow> db \<Rightarrow> outcome" where
  "download_attachment aid caller d =
     (case attachment_by_id d aid of
        None \<Rightarrow> fail 404 ''Attachment not found'' d
      | Some row \<Rightarrow>
          if \<not> attachment_access d aid caller then fail 403 ''Access denied'' d
          else (case files d (at_path row) of
                  None \<Rightarrow> fail 404 ''Attachment file missing from storage'' d
                | Some content \<Rightarrow> answer (FileR (at_filename row) (at_mime_type row) content) d))"

definition get_attachment_meta :: "string \<Rightarrow> string \<Rightarrow> db \<Rightarrow> outcome" where
  "get_attachment_meta aid caller d =
     (case attachment_by_id d aid of
        None \<Rightarrow> fail 404 ''Attachment not found'' d
      | Some row \<Rightarrow>
          if \<not> attachment_access d aid caller then fail 403 ''Access denied'' d
          else answer (AttachmentR (attachment_out_of row)) d)"

end
