(* ===== verification/WhisperService.thy ===== *)
theory WhisperService
  imports WhisperChat
begin

text \<open>
  The messenger as a whole: \<^verbatim>\<open>main.py\<close> with its routes, the sockets of \<^verbatim>\<open>ws_manager.py\<close> and the frames of
  \<^verbatim>\<open>ws_handler.py\<close>. The state is the database and the open sockets, each with its user. A step is a
  request, a new socket, a frame, a minute without a frame, or the end of a socket; it yields the reply
  and the frames sent. Broadcasts, which the code leaves to tasks, are sent within the step. \<open>dead\<close> says
  which sockets fail when they are written to; a socket that was forgotten after such a failure sends
  nothing any more.
\<close>

section \<open>Sockets\<close>

datatype frame =
    Event chat_event
  | Presence string bool int
  | Connected string int
  | Pong int
  | PingOut int
  | ErrorFrame string string

record service =
  sv_db :: db
  sv_conns :: "(nat \<times> string) list"

definition service_init :: service where
  "service_init = \<lparr> sv_db = db_empty, sv_conns = [] \<rparr>"

definition connect :: "string \<Rightarrow> nat \<Rightarrow> service \<Rightarrow> service" where
  "connect user_id ws s = s\<lparr> sv_conns := List.insert (ws, user_id) (sv_conns s) \<rparr>"

definition disconnect :: "string \<Rightarrow> nat \<Rightarrow> service \<Rightarrow> service" where
  "disconnect user_id ws s = s\<lparr> sv_conns := filter (\<lambda>c. c \<noteq> (ws, user_id)) (sv_conns s) \<rparr>"

text \<open>The sockets that fail are forgotten.\<close>

definition send_to_user ::
  "(nat \<Rightarrow> bool) \<Rightarrow> string \<Rightarrow> frame \<Rightarrow> service \<Rightarrow> (nat \<times> frame) list \<times> service" where
  "send_to_user dead user_id payload s =
     (let conns = filter (\<lambda>(ws, u). u = user_id) (sv_conns s) in
      (map (\<lambda>(ws, u). (ws, payload)) (filter (\<lambda>(ws, u). \<not> dead ws) conns),
       s\<lparr> sv_conns := filter (\<lambda>(ws, u). \<not> (u = user_id \<and> dead ws)) (sv_conns s) \<rparr>))"

fun send_to_users ::
  "(nat \<Rightarrow> bool) \<Rightarrow> string list \<Rightarrow> frame \<Rightarrow> service \<Rightarrow> (nat \<times> frame) list \<times> service" where
  "send_to_users dead [] payload s = ([], s)"
| "send_to_users dead (u # us) payload s =
     (let (out, s) = send_to_user dead u payload s; (outs, s) = send_to_users dead us payload s in (out @ outs, s))"

definition conversation_users :: "db \<Rightarrow> string \<Rightarrow> string list" where
  "conversation_users d cid = map snd (filter (\<lambda>(c, u). c = cid) (members d))"

definition broadcast_to_conversation ::
  "(nat \<Rightarrow> bool) \<Rightarrow> string \<times> chat_event \<Rightarrow> service \<Rightarrow> (nat \<times> frame) list \<times> service" where
  "broadcast_to_conversation dead b s =
     send_to_users dead (conversation_users (sv_db s) (fst b)) (Event (snd b)) s"

fun broadcast_all ::
  "(nat \<Rightarrow> bool) \<Rightarrow> (string \<times> chat_event) list \<Rightarrow> service \<Rightarrow> (nat \<times> frame) list \<times> service" where
  "broadcast_all dead [] s = ([], s)"
| "broadcast_all dead (b # bs) s =
     (let (out, s) = broadcast_to_conversation dead b s; (outs, s) = broadcast_all dead bs s in (out @ outs, s))"

definition contacts :: "db \<Rightarrow> string \<Rightarrow> string list" where
  "contacts d user_id =
     remdups (concat (map (\<lambda>(c1, u1). if u1 = user_id
        then map snd (filter (\<lambda>(c2, u2). c2 = c1 \<and> u2 \<noteq> user_id) (members d)) else []) (members d)))"

definition broadcast_presence ::
  "(nat \<Rightarrow> bool) \<Rightarrow> int \<Rightarrow> string \<Rightarrow> bool \<Rightarrow> service \<Rightarrow> (nat \<times> frame) list \<times> service" where
  "broadcast_presence dead now user_id online s =
     send_to_users dead (contacts (sv_db s) user_id) (Presence user_id online now) s"

section \<open>Frames from a client\<close>

text \<open>
  A frame that was received, its identifiers strings. A frame that is not a JSON object ends the socket
  with an exception, as does a receipt for a message that does not exist.
\<close>

datatype client_frame =
    PingIn
  | TypingIn "string option"
  | StopTypingIn "string option"
  | MarkReadIn "string option" "string list"
  | UnknownIn string
  | BadJson
  | NotAnObject

definition hang_up ::
  "(nat \<Rightarrow> bool) \<Rightarrow> int \<Rightarrow> nat \<Rightarrow> string \<Rightarrow> service \<Rightarrow> (nat \<times> frame) list \<times> service" where
  "hang_up dead now ws user_id s = broadcast_presence dead now user_id False (disconnect user_id ws s)"

text \<open>A frame for the socket itself; if it cannot be sent, the handler ends.\<close>

definition send_self ::
  "(nat \<Rightarrow> bool) \<Rightarrow> int \<Rightarrow> nat \<Rightarrow> string \<Rightarrow> frame \<Rightarrow> service \<Rightarrow> (nat \<times> frame) list \<times> service" where
  "send_self dead now ws user_id f s = (if dead ws then hang_up dead now ws user_id s else ([(ws, f)], s))"

definition ws_frame ::
  "(nat \<Rightarrow> bool) \<Rightarrow> int \<Rightarrow> nat \<Rightarrow> string \<Rightarrow> client_frame \<Rightarrow> service \<Rightarrow> (nat \<times> frame) list \<times> service" where
  "ws_frame dead now ws user_id fr s =
     (let d = sv_db s in
      case fr of
        PingIn \<Rightarrow> send_self dead now ws user_id (Pong now) s
      | TypingIn conv_id \<Rightarrow>
          (case conv_id of
             None \<Rightarrow> ([], s)
           | Some c \<Rightarrow>
               if c \<noteq> [] \<and> is_member d c user_id
               then broadcast_to_conversation dead (c, TypingEvent c user_id now) s else ([], s))
      | StopTypingIn conv_id \<Rightarrow>
          (case conv_id of
             None \<Rightarrow> ([], s)
           | Some c \<Rightarrow>
               if c \<noteq> [] \<and> is_member d c user_id
               then broadcast_to_conversation dead (c, StopTypingEvent c user_id now) s else ([], s))
      | MarkReadIn conv_id msg_ids \<Rightarrow>
          (case conv_id of
             None \<Rightarrow> ([], s)
           | Some c \<Rightarrow>
               if c \<noteq> [] \<and> msg_ids \<noteq> [] \<and> is_member d c user_id then
                 (case insert_receipts msg_ids user_id now d of
                    None \<Rightarrow> hang_up dead now ws user_id s
                  | Some d \<Rightarrow>
                      broadcast_to_conversation dead (c, ReadReceipt c user_id msg_ids) (s\<lparr> sv_db := d \<rparr>))
               else ([], s))
      | UnknownIn ftype \<Rightarrow>
          send_self dead now ws user_id (ErrorFrame ''unknown_frame_type'' (''Unknown frame type: '' @ ftype)) s
      | BadJson \<Rightarrow> send_self dead now ws user_id (ErrorFrame ''bad_json'' ''Invalid JSON'') s
      | NotAnObject \<Rightarrow> hang_up dead now ws user_id s)"

section \<open>Routes\<close>

datatype api =
    Register string string "string option" "string option" bool
  | Login string string
  | Logout
  | GetMe
  | UpdateMe "string option" "string option" "int option"
  | SearchUsers string
  | GetUser string
  | ListConversations
  | OpenDm string
  | ListMessages string "int option" int
  | SendMessage string string "string option" "string option" "string option"
  | MarkRead string
  | AddReaction string string
  | SetPreview string string string
  | RemoveReaction string string
  | Upload string string string "bytes list"
  | Download string
  | AttachmentMeta string
  | AdminReset

record chat_config =
  cc_kdf :: "string \<Rightarrow> bytes \<Rightarrow> bytes"
  cc_ctf_mode :: bool
  cc_admin_token :: string

definition check_admin :: "chat_config \<Rightarrow> string \<Rightarrow> http_error option" where
  "check_admin cf authorization =
     (case bearer authorization of
        None \<Rightarrow> Some (Http 401 ''Missing admin token'')
      | Some token \<Rightarrow> if token \<noteq> cc_admin_token cf then Some (Http 403 ''Invalid admin token'') else None)"

text \<open>The handlers behind \<open>require_auth\<close>.\<close>

fun user_api :: "benv \<Rightarrow> string \<Rightarrow> api \<Rightarrow> db \<Rightarrow> outcome" where
  "user_api ev u Logout d = logout u d"
| "user_api ev u GetMe d = get_me u d"
| "user_api ev u (UpdateMe name bio seed) d = update_me name bio seed u d"
| "user_api ev u (SearchUsers q) d = search_users q u d"
| "user_api ev u (GetUser x) d = get_user x d"
| "user_api ev u ListConversations d = list_conversations u d"
| "user_api ev u (OpenDm target) d = open_dm ev target u d"
| "user_api ev u (ListMessages cid before limit) d = list_messages cid before limit u d"
| "user_api ev u (SendMessage cid type body att reply) d = send_message ev cid type body att reply u d"
| "user_api ev u (MarkRead cid) d = mark_read ev cid u d"
| "user_api ev u (AddReaction mid emoji) d = add_reaction ev mid emoji u d"
| "user_api ev u (SetPreview mid title subtitle) d = set_message_preview mid title subtitle u d"
| "user_api ev u (RemoveReaction mid emoji) d = remove_reaction mid emoji u d"
| "user_api ev u (Upload filename kind mime chunks) d = upload_attachment ev filename kind mime chunks u d"
| "user_api ev u (Download aid) d = download_attachment aid u d"
| "user_api ev u (AttachmentMeta aid) d = get_attachment_meta aid u d"
| "user_api ev u r d = crash d"

text \<open>\<open>authorization\<close> is the header; where it is required, its absence is a validation error.\<close>

definition serve_api :: "chat_config \<Rightarrow> benv \<Rightarrow> string option \<Rightarrow> api \<Rightarrow> db \<Rightarrow> outcome" where
  "serve_api cf ev authorization r d =
     (case r of
        Register phone password handle display_name is_victim \<Rightarrow>
          register (cc_kdf cf) (cc_ctf_mode cf) ev phone password handle display_name is_victim d
      | Login phone password \<Rightarrow> login (cc_kdf cf) ev phone password d
      | _ \<Rightarrow>
          (case authorization of
             None \<Rightarrow> fail 422 ''Field required'' d
           | Some header \<Rightarrow>
               if r = AdminReset then
                 (case check_admin cf header of
                    Some e \<Rightarrow> (Inl e, d, [])
                  | None \<Rightarrow> answer DoneR (reset_db d))
               else
                 (case require_auth (be_now ev) d header of
                    Inl e \<Rightarrow> (Inl e, d, [])
                  | Inr user_id \<Rightarrow> user_api ev user_id r d)))"

section \<open>Steps\<close>

datatype input =
    Rest "string option" api
  | WsOpen nat string
  | WsIn nat client_frame
  | WsIdle nat
  | WsClosed nat

definition socket_user :: "service \<Rightarrow> nat \<Rightarrow> string option" where
  "socket_user s ws = map_option snd (find (\<lambda>(w, u). w = ws) (sv_conns s))"

type_synonym service_output = "(http_error + answer) option \<times> (nat \<times> frame) list"

definition service_step ::
  "chat_config \<Rightarrow> benv \<Rightarrow> (nat \<Rightarrow> bool) \<Rightarrow> input \<Rightarrow> service \<Rightarrow> service_output \<times> service" where
  "service_step cf ev dead i s =
     (case i of
        Rest authorization r \<Rightarrow>
          let (reply, d, bs) = serve_api cf ev authorization r (sv_db s);
              (out, s) = broadcast_all dead bs (s\<lparr> sv_db := d \<rparr>)
          in ((Some reply, out), s)
      | WsOpen ws token \<Rightarrow>
          (case get_user_id_from_token (be_now ev) (sv_db s) token of
             None \<Rightarrow> ((None, []), s)
           | Some user_id \<Rightarrow>
               if socket_user s ws \<noteq> None then ((None, []), s)
               else
                 let (out, s) = broadcast_presence dead (be_now ev) user_id True (connect user_id ws s);
                     (own, s) = send_self dead (be_now ev) ws user_id (Connected user_id (be_now ev)) s
                 in ((None, out @ own), s))
      | WsIn ws fr \<Rightarrow>
          (case socket_user s ws of
             None \<Rightarrow> ((None, []), s)
           | Some user_id \<Rightarrow>
               let (out, s) = ws_frame dead (be_now ev) ws user_id fr s in ((None, out), s))
      | WsIdle ws \<Rightarrow>
          (case socket_user s ws of
             None \<Rightarrow> ((None, []), s)
           | Some user_id \<Rightarrow>
               let (out, s) = send_self dead (be_now ev) ws user_id (PingOut (be_now ev)) s in ((None, out), s))
      | WsClosed ws \<Rightarrow>
          (case socket_user s ws of
             None \<Rightarrow> ((None, []), s)
           | Some user_id \<Rightarrow>
               let (out, s) = hang_up dead (be_now ev) ws user_id s in ((None, out), s)))"

end
