(* ===== verification/WhisperInv.thy ===== *)
theory WhisperInv
  imports WhisperService
begin

text \<open>
  The moves of the messenger's database as an abstract protocol, the invariant of the schema and of the
  conversations that every move keeps, and the proof that every handler and every frame is a sequence
  of moves.
\<close>

section \<open>Rows that exist\<close>

lemma user_exists: "user_by_id d u \<noteq> None \<longleftrightarrow> u \<in> us_id ` set (users d)"
  by (auto simp: user_by_id_def find_None)

lemma conv_exists: "conv_by_id d c \<noteq> None \<longleftrightarrow> c \<in> cv_id ` set (convs d)"
  by (auto simp: conv_by_id_def find_None)

lemma pair_exists: "conv_by_pair d k \<noteq> None \<longleftrightarrow> k \<in> cv_pair_key ` set (convs d)"
  by (auto simp: conv_by_pair_def find_None)

lemma message_exists: "message_by_id d m \<noteq> None \<longleftrightarrow> m \<in> ms_id ` set (messages d)"
  by (auto simp: message_by_id_def find_None)

lemma attachment_exists: "attachment_by_id d a \<noteq> None \<longleftrightarrow> a \<in> at_id ` set (attachments d)"
  by (auto simp: attachment_by_id_def find_None)

lemma find_key: "find (\<lambda>x. f x = k) xs = None \<longleftrightarrow> k \<notin> f ` set xs"
  by (auto simp: find_None)

lemma insert_user_Some:
  "insert_user u d = Some d' \<longleftrightarrow>
     us_id u \<notin> us_id ` set (users d) \<and> us_handle u \<notin> us_handle ` set (users d) \<and> us_phone u \<notin> us_phone ` set (users d)
     \<and> d' = d\<lparr> users := users d @ [u] \<rparr>"
  by (auto simp only: insert_user_def user_by_id_def user_by_handle_def user_by_phone_def find_key
      de_Morgan_disj not_not split: if_splits)

lemma insert_session_Some:
  "insert_session s d = Some d' \<longleftrightarrow>
     ss_token s \<notin> ss_token ` set (sessions d) \<and> ss_user s \<in> us_id ` set (users d)
     \<and> d' = d\<lparr> sessions := sessions d @ [s] \<rparr>"
  using user_exists [of d "ss_user s"] find_key [of ss_token "ss_token s" "sessions d"]
  unfolding insert_session_def by (metis option.distinct(1) option.inject)

lemma insert_member_Some:
  "insert_member c u d = Some d' \<longleftrightarrow>
     (c, u) \<notin> set (members d) \<and> c \<in> cv_id ` set (convs d) \<and> u \<in> us_id ` set (users d)
     \<and> d' = d\<lparr> members := members d @ [(c, u)] \<rparr>"
  using user_exists [of d u] conv_exists [of d c] by (auto simp: insert_member_def)

lemma insert_message_Some:
  "insert_message m d = Some d' \<longleftrightarrow>
     ms_id m \<notin> ms_id ` set (messages d) \<and> ms_conv m \<in> cv_id ` set (convs d) \<and> ms_sender m \<in> us_id ` set (users d)
     \<and> ms_type m \<in> {''text'', ''attachment''} \<and> d' = d\<lparr> messages := messages d @ [m] \<rparr>"
  using user_exists [of d "ms_sender m"] conv_exists [of d "ms_conv m"] message_exists [of d "ms_id m"]
  by (auto simp: insert_message_def)

lemma insert_attachment_Some:
  "insert_attachment a d = Some d' \<longleftrightarrow>
     at_id a \<notin> at_id ` set (attachments d) \<and> at_uploader a \<in> us_id ` set (users d)
     \<and> d' = d\<lparr> attachments := attachments d @ [a] \<rparr>"
  using user_exists [of d "at_uploader a"] attachment_exists [of d "at_id a"] by (auto simp: insert_attachment_def)

lemma insert_reaction_Some:
  "insert_reaction r d = Some d' \<longleftrightarrow>
     rx_id r \<notin> rx_id ` set (reactions d)
     \<and> (\<forall>x \<in> set (reactions d). \<not> (rx_message x = rx_message r \<and> rx_user x = rx_user r \<and> rx_emoji x = rx_emoji r))
     \<and> rx_message r \<in> ms_id ` set (messages d) \<and> rx_user r \<in> us_id ` set (users d)
     \<and> d' = d\<lparr> reactions := reactions d @ [r] \<rparr>"
proof -
  have "find (\<lambda>x. rx_message x = rx_message r \<and> rx_user x = rx_user r \<and> rx_emoji x = rx_emoji r) (reactions d) = None
    \<longleftrightarrow> (\<forall>x \<in> set (reactions d). \<not> (rx_message x = rx_message r \<and> rx_user x = rx_user r \<and> rx_emoji x = rx_emoji r))"
    by (rule find_None)
  then show ?thesis
    using user_exists [of d "rx_user r"] message_exists [of d "rx_message r"] find_key [of rx_id "rx_id r" "reactions d"]
    unfolding insert_reaction_def by (simp only: split: if_split) blast
qed

lemma has_receipt_iff: "has_receipt d mid u \<longleftrightarrow> (\<exists>t. (mid, u, t) \<in> set (receipts d))"
  by (auto simp: has_receipt_def find_None)

lemma insert_receipt_Some:
  "insert_receipt mid u now d = Some d' \<longleftrightarrow>
     (has_receipt d mid u \<and> d' = d)
     \<or> (\<not> has_receipt d mid u \<and> mid \<in> ms_id ` set (messages d) \<and> u \<in> us_id ` set (users d)
        \<and> d' = d\<lparr> receipts := receipts d @ [(mid, u, now)] \<rparr>)"
  using user_exists [of d u] message_exists [of d mid] by (auto simp: insert_receipt_def)

lemmas insert_simps = insert_user_Some insert_session_Some insert_member_Some insert_message_Some
  insert_attachment_Some insert_reaction_Some insert_receipt_Some

lemma not_conv: "conv_by_id d c = None \<longleftrightarrow> c \<notin> cv_id ` set (convs d)"
  using conv_exists [of d c] by auto

lemma not_pair: "conv_by_pair d k = None \<longleftrightarrow> k \<notin> cv_pair_key ` set (convs d)"
  using pair_exists [of d k] by auto

section \<open>The invariant\<close>

text \<open>A conversation has exactly two members, and its key names them.\<close>

definition conv_ok :: "member list \<Rightarrow> conv \<Rightarrow> bool" where
  "conv_ok ms c \<longleftrightarrow>
     (\<exists>a b. a \<noteq> b \<and> cv_pair_key c = pair_key a b \<and> {u. (cv_id c, u) \<in> set ms} = {a, b})"

text \<open>A message is by a member of its conversation, and what it attaches was uploaded by its sender.\<close>

definition message_ok :: "member list \<Rightarrow> attachment list \<Rightarrow> message \<Rightarrow> bool" where
  "message_ok mem as m \<longleftrightarrow>
     (ms_conv m, ms_sender m) \<in> set mem \<and> ms_type m \<in> {''text'', ''attachment''}
     \<and> (\<forall>x. ms_attachment m = Some x \<and> x \<noteq> [] \<longrightarrow> (\<exists>a \<in> set as. at_id a = x \<and> at_uploader a = ms_sender m))"

definition keys_ok :: "db \<Rightarrow> bool" where
  "keys_ok d \<longleftrightarrow>
     distinct (map us_id (users d)) \<and> distinct (map us_handle (users d)) \<and> distinct (map us_phone (users d))
     \<and> distinct (map ss_token (sessions d)) \<and> distinct (map cv_id (convs d)) \<and> distinct (map cv_pair_key (convs d))
     \<and> distinct (members d) \<and> distinct (map ms_id (messages d)) \<and> distinct (map at_id (attachments d))
     \<and> distinct (map rx_id (reactions d)) \<and> distinct (map (\<lambda>(m, u, t). (m, u)) (receipts d))"

text \<open>A reaction is by a member of the conversation of its message.\<close>

definition reaction_ok :: "member list \<Rightarrow> message list \<Rightarrow> reaction \<Rightarrow> bool" where
  "reaction_ok mem ms r \<longleftrightarrow> (\<exists>m \<in> set ms. ms_id m = rx_message r \<and> (ms_conv m, rx_user r) \<in> set mem)"

definition refs_ok :: "db \<Rightarrow> bool" where
  "refs_ok d \<longleftrightarrow>
     (\<forall>u \<in> set (users d). CHR ''|'' \<notin> set (us_id u))
     \<and> (\<forall>s \<in> set (sessions d). ss_user s \<in> us_id ` set (users d))
     \<and> (\<forall>(c, u) \<in> set (members d). c \<in> cv_id ` set (convs d) \<and> u \<in> us_id ` set (users d))
     \<and> (\<forall>a \<in> set (attachments d). at_uploader a \<in> us_id ` set (users d))
     \<and> (\<forall>r \<in> set (reactions d). reaction_ok (members d) (messages d) r)
     \<and> (\<forall>(m, u, t) \<in> set (receipts d). m \<in> ms_id ` set (messages d) \<and> u \<in> us_id ` set (users d))"

definition db_wf :: "db \<Rightarrow> bool" where
  "db_wf d \<longleftrightarrow>
     keys_ok d \<and> refs_ok d \<and> (\<forall>c \<in> set (convs d). conv_ok (members d) c)
     \<and> (\<forall>m \<in> set (messages d). message_ok (members d) (attachments d) m)"

lemma db_wf_empty: "db_wf db_empty"
  by (simp add: db_wf_def keys_ok_def refs_ok_def db_empty_def)

section \<open>The moves\<close>

definition with_preview :: "string \<Rightarrow> string \<Rightarrow> string \<Rightarrow> message \<Rightarrow> message" where
  "with_preview mid title subtitle m =
     (if ms_id m = mid then m\<lparr> ms_preview_title := Some title, ms_preview_subtitle := Some subtitle \<rparr> else m)"

definition with_profile :: "string \<Rightarrow> string option \<Rightarrow> string option \<Rightarrow> int option \<Rightarrow> user \<Rightarrow> user" where
  "with_profile x n b s u = (if us_id u = x then set_profile n b s u else u)"

inductive chat_move :: "db \<Rightarrow> db \<Rightarrow> bool" where
  user_move: "insert_user u d = Some d' \<Longrightarrow> CHR ''|'' \<notin> set (us_id u) \<Longrightarrow> chat_move d d'"
| session_move: "insert_session s d = Some d' \<Longrightarrow> chat_move d d'"
| logout_move: "chat_move d (d\<lparr> sessions := filter P (sessions d) \<rparr>)"
| profile_move:
    "chat_move d (d\<lparr> users := map (with_profile x n b s) (users d) \<rparr>)"
| conv_move:
    "conv_by_id d c = None \<Longrightarrow> conv_by_pair d (pair_key a b) = None \<Longrightarrow> a \<noteq> b
     \<Longrightarrow> user_by_id d a \<noteq> None \<Longrightarrow> user_by_id d b \<noteq> None
     \<Longrightarrow> chat_move d (d\<lparr> convs := convs d @ [\<lparr> cv_id = c, cv_pair_key = pair_key a b, cv_created_at = now \<rparr>],
                         members := members d @ [(c, a), (c, b)] \<rparr>)"
| message_move:
    "insert_message m d = Some d' \<Longrightarrow> is_member d (ms_conv m) (ms_sender m)
     \<Longrightarrow> (\<forall>x. ms_attachment m = Some x \<and> x \<noteq> [] \<longrightarrow>
            (\<exists>a \<in> set (attachments d). at_id a = x \<and> at_uploader a = ms_sender m))
     \<Longrightarrow> chat_move d d'"
| preview_move: "chat_move d (d\<lparr> messages := map (with_preview mid t s) (messages d) \<rparr>)"
| attachment_move: "insert_attachment a d = Some d' \<Longrightarrow> chat_move d d'"
| files_move: "chat_move d (d\<lparr> files := f \<rparr>)"
| reaction_move:
    "insert_reaction r d = Some d' \<Longrightarrow> message_by_id d (rx_message r) = Some m
     \<Longrightarrow> is_member d (ms_conv m) (rx_user r) \<Longrightarrow> chat_move d d'"
| unreact_move: "chat_move d (d\<lparr> reactions := filter P (reactions d) \<rparr>)"
| receipt_move: "insert_receipt mid u now d = Some d' \<Longrightarrow> chat_move d d'"
| reset_move: "chat_move d (reset_db d)"

inductive_cases chat_moveE: "chat_move d d'"

abbreviation chat_moves :: "db \<Rightarrow> db \<Rightarrow> bool" where
  "chat_moves \<equiv> chat_move\<^sup>*\<^sup>*"

lemma with_preview_fields [simp]:
  "ms_id (with_preview mid t s m) = ms_id m" "ms_conv (with_preview mid t s m) = ms_conv m"
  "ms_sender (with_preview mid t s m) = ms_sender m" "ms_attachment (with_preview mid t s m) = ms_attachment m"
  "ms_type (with_preview mid t s m) = ms_type m" "ms_created_at (with_preview mid t s m) = ms_created_at m"
  "ms_body (with_preview mid t s m) = ms_body m"
  by (simp_all add: with_preview_def)

lemma with_profile_fields [simp]:
  "us_id (with_profile x n b s u) = us_id u" "us_handle (with_profile x n b s u) = us_handle u"
  "us_phone (with_profile x n b s u) = us_phone u" "us_is_victim (with_profile x n b s u) = us_is_victim u"
  by (simp_all add: with_profile_def set_profile_def)

lemma ids_with_profile [simp]: "us_id ` with_profile x n b s ` S = us_id ` S"
  by (force simp: image_iff)

lemma map_with_preview [simp]: "map ms_id (map (with_preview mid t s) ms) = map ms_id ms"
  by simp

lemma ids_with_preview [simp]: "ms_id ` with_preview mid t s ` S = ms_id ` S"
  by (force simp: image_iff)

lemma message_ok_preview [simp]: "message_ok mem as (with_preview mid t s m) = message_ok mem as m"
  by (simp add: message_ok_def)

lemma message_ok_mono:
  "message_ok mem as m \<Longrightarrow> set mem \<subseteq> set mem' \<Longrightarrow> set as \<subseteq> set as' \<Longrightarrow> message_ok mem' as' m"
  unfolding message_ok_def by blast

lemma reaction_ok_mono:
  "reaction_ok mem ms r \<Longrightarrow> set mem \<subseteq> set mem' \<Longrightarrow> set ms \<subseteq> set ms' \<Longrightarrow> reaction_ok mem' ms' r"
  unfolding reaction_ok_def by blast

section \<open>Every move keeps the invariant\<close>

lemma db_wfD:
  assumes "db_wf d"
  shows "keys_ok d" "refs_ok d" "c \<in> set (convs d) \<Longrightarrow> conv_ok (members d) c"
    "m \<in> set (messages d) \<Longrightarrow> message_ok (members d) (attachments d) m"
  using assms by (auto simp: db_wf_def)

lemma filter_distinct_map: "distinct (map f xs) \<Longrightarrow> distinct (map f (filter P xs))"
  by (induction xs) auto

lemma keys_move: "chat_move d d' \<Longrightarrow> keys_ok d \<Longrightarrow> refs_ok d \<Longrightarrow> keys_ok d'"
proof (induction rule: chat_move.induct)
  case (conv_move d c a b now)
  have "(c, u) \<notin> set (members d)" for u using conv_move(1,7) by (auto simp: refs_ok_def not_conv)
  then show ?case using conv_move by (auto simp: keys_ok_def not_conv not_pair)
next
  case (receipt_move mid u now d d')
  then show ?case by (auto simp: insert_simps has_receipt_iff keys_ok_def)
next
  case (preview_move d mid t s)
  then show ?case by (simp add: keys_ok_def comp_def)
next
  case (profile_move d x n b s)
  then show ?case by (simp add: keys_ok_def comp_def)
qed (auto simp: keys_ok_def reset_db_def filter_distinct_map insert_simps)

lemma refs_move: "chat_move d d' \<Longrightarrow> refs_ok d \<Longrightarrow> refs_ok d'"
proof (induction rule: chat_move.induct)
  case (conv_move d c a b now)
  have "reaction_ok (members d @ [(c, a), (c, b)]) (messages d) r" if "r \<in> set (reactions d)" for r
    by (rule reaction_ok_mono [of "members d" "messages d"]) (use that conv_move(6) in \<open>auto simp: refs_ok_def\<close>)
  moreover have "a \<in> us_id ` set (users d)" "b \<in> us_id ` set (users d)"
    using conv_move(4,5) by (simp_all only: user_exists)
  ultimately show ?case using conv_move(6) by (auto simp: refs_ok_def)
next
  case (message_move m d d')
  have "reaction_ok (members d) (messages d @ [m]) r" if "r \<in> set (reactions d)" for r
    by (rule reaction_ok_mono [of "members d" "messages d"]) (use that message_move(4) in \<open>auto simp: refs_ok_def\<close>)
  with message_move show ?case by (auto simp: refs_ok_def insert_simps)
next
  case (reaction_move r d d' m)
  then have "m \<in> set (messages d) \<and> ms_id m = rx_message r"
    unfolding message_by_id_def by (metis (mono_tags, lifting) find_SomeD)
  then have "reaction_ok (members d) (messages d) r" using reaction_move(3) by (auto simp: reaction_ok_def is_member_def)
  with reaction_move show ?case by (auto simp: refs_ok_def insert_simps)
next
  case (preview_move d mid t s)
  have "reaction_ok (members d) (map (with_preview mid t s) (messages d)) r = reaction_ok (members d) (messages d) r" for r
    by (simp add: reaction_ok_def)
  with preview_move show ?case by (simp add: refs_ok_def)
next
  case (profile_move d x n b s)
  then show ?case by (auto simp: refs_ok_def)
qed (auto simp: refs_ok_def reset_db_def insert_simps)

lemma convs_move:
  "chat_move d d' \<Longrightarrow> refs_ok d \<Longrightarrow> \<forall>c \<in> set (convs d). conv_ok (members d) c
     \<Longrightarrow> \<forall>c \<in> set (convs d'). conv_ok (members d') c"
proof (induction rule: chat_move.induct)
  case (conv_move d c a b now)
  let ?ms = "members d @ [(c, a), (c, b)]"
  have none: "(c, u) \<notin> set (members d)" for u using conv_move(1,6) by (auto simp: refs_ok_def not_conv)
  have "conv_ok ?ms x" if "x \<in> set (convs d)" for x
  proof -
    have "cv_id x \<noteq> c" using that conv_move(1) by (auto simp: not_conv)
    then show ?thesis using that conv_move(7) by (simp add: conv_ok_def)
  qed
  moreover have "{u. (c, u) \<in> set ?ms} = {a, b}" using none by auto
  then have "conv_ok ?ms \<lparr> cv_id = c, cv_pair_key = pair_key a b, cv_created_at = now \<rparr>"
    using conv_move(3) unfolding conv_ok_def by auto
  ultimately show ?case by simp
qed (auto simp: insert_simps reset_db_def)

lemma messages_move:
  "chat_move d d' \<Longrightarrow> \<forall>m \<in> set (messages d). message_ok (members d) (attachments d) m
     \<Longrightarrow> \<forall>m \<in> set (messages d'). message_ok (members d') (attachments d') m"
proof (induction rule: chat_move.induct)
  case (conv_move d c a b now)
  have "message_ok (members d @ [(c, a), (c, b)]) (attachments d) m" if "m \<in> set (messages d)" for m
    by (rule message_ok_mono [of "members d" "attachments d"]) (use that conv_move(6) in auto)
  then show ?case by simp
next
  case (message_move m d d')
  then show ?case by (auto simp: insert_simps message_ok_def is_member_def)
next
  case (attachment_move a d d')
  have "message_ok (members d) (attachments d @ [a]) m" if "m \<in> set (messages d)" for m
    by (rule message_ok_mono [of "members d" "attachments d"]) (use that attachment_move(2) in auto)
  then show ?case using attachment_move(1) by (simp add: insert_simps)
qed (auto simp: insert_simps reset_db_def)

lemma wf_move: "chat_move d d' \<Longrightarrow> db_wf d \<Longrightarrow> db_wf d'"
  using keys_move refs_move convs_move messages_move unfolding db_wf_def by blast

lemma wf_moves: "chat_moves d d' \<Longrightarrow> db_wf d \<Longrightarrow> db_wf d'"
  by (induction rule: rtranclp_induct) (auto intro: wf_move)

section \<open>Handlers move\<close>

lemma move1: "chat_move d d' \<Longrightarrow> chat_moves d d'"
  by blast

lemma grant_moves: "chat_moves d (fst (snd (grant_token ev u d)))"
  by (auto simp: grant_token_def create_token_def answer_def split: option.split intro: session_move)

lemma register_moves:
  assumes "CHR ''|'' \<notin> set (be_id ev)"
  shows "chat_moves d (fst (snd (register kdf ctf ev phone pw h n v d)))"
proof -
  have "chat_moves d (fst (snd (grant_token ev u d')))" if "insert_user x d = Some d'" "us_id x = be_id ev" for x d' u
    using user_move [OF that(1)] that(2) assms grant_moves [of d' ev u]
    by (metis converse_rtranclp_into_rtranclp)
  then show ?thesis using grant_moves [of d ev]
    by (auto simp: register_def fail_def crash_def split: option.split)
qed

lemma login_moves: "chat_moves d (fst (snd (login kdf ev phone pw d)))"
  using grant_moves [of d ev] by (auto simp: login_def fail_def split: option.split)

lemma update_me_moves: "chat_moves d (fst (snd (update_me n b s u d)))"
  using profile_move [of d u n b s, unfolded with_profile_def [abs_def]]
  by (auto simp: update_me_def fail_def crash_def answer_def Let_def split: option.split)

text \<open>The two memberships of a new conversation are inserted together or not at all.\<close>

lemma dm_cases:
  assumes wf: "db_wf d" and ab: "a \<noteq> b"
  shows "(\<exists>c. conv_by_pair d (pair_key a b) = Some c \<and> get_or_create_dm ev a b d = (Some (cv_id c), d))
    \<or> get_or_create_dm ev a b d = (None, d)
    \<or> (conv_by_id d (be_id ev) = None \<and> conv_by_pair d (pair_key a b) = None
       \<and> user_by_id d a \<noteq> None \<and> user_by_id d b \<noteq> None
       \<and> get_or_create_dm ev a b d =
           (Some (be_id ev),
            d\<lparr> convs := convs d @ [\<lparr> cv_id = be_id ev, cv_pair_key = pair_key a b, cv_created_at = be_now ev \<rparr>],
               members := members d @ [(be_id ev, a), (be_id ev, b)] \<rparr>))"
proof (cases "conv_by_pair d (pair_key a b)")
  case (Some c)
  then show ?thesis by (simp add: get_or_create_dm_def Let_def)
next
  case None
  let ?k = "pair_key a b"
  let ?c = "\<lparr> cv_id = be_id ev, cv_pair_key = ?k, cv_created_at = be_now ev \<rparr>"
  show ?thesis
  proof (cases "conv_by_id d (be_id ev)")
    case (Some x)
    with None show ?thesis by (simp add: get_or_create_dm_def insert_conv_or_ignore_def Let_def)
  next
    case noid: None
    let ?d1 = "d\<lparr> convs := convs d @ [?c] \<rparr>"
    have win: "conv_by_pair ?d1 ?k = Some ?c" using None by (simp add: conv_by_pair_def find_append)
    have none: "(be_id ev, u) \<notin> set (members d)" for u
      using noid db_wfD(2) [OF wf] by (auto simp: refs_ok_def not_conv)
    let ?d2 = "?d1\<lparr> members := members d @ [(be_id ev, a)] \<rparr>"
    let ?d3 = "?d1\<lparr> members := members d @ [(be_id ev, a), (be_id ev, b)] \<rparr>"
    have 1: "insert_member (be_id ev) a ?d1 = (if user_by_id d a = None then None else Some ?d2)"
      using none by (simp add: insert_member_def conv_by_id_def find_append user_by_id_def split: option.split)
    have 2: "insert_member (be_id ev) b ?d2 = (if user_by_id d b = None then None else Some ?d3)"
      using none ab by (simp add: insert_member_def conv_by_id_def find_append user_by_id_def split: option.split)
    show ?thesis using None noid 1 2 win
      by (auto simp: get_or_create_dm_def insert_conv_or_ignore_def Let_def)
  qed
qed

lemma open_dm_moves:
  assumes "db_wf d"
  shows "chat_moves d (fst (snd (open_dm ev target u d)))"
proof (cases "user_by_id_or_handle d target")
  case None
  then show ?thesis by (simp add: open_dm_def fail_def)
next
  case (Some t)
  show ?thesis
  proof (cases "us_id t = u")
    case True
    with Some show ?thesis by (simp add: open_dm_def fail_def)
  next
    case False
    then have "u \<noteq> us_id t" by simp
    from dm_cases [OF assms this, of ev] conv_move [OF _ _ this, of d "be_id ev" "be_now ev"]
    show ?thesis using Some False by (auto simp: open_dm_def crash_def answer_def)
  qed
qed

lemma insert_receipts_moves: "insert_receipts mids u now d = Some d' \<Longrightarrow> chat_moves d d'"
proof (induction mids arbitrary: d)
  case (Cons mid mids)
  then obtain d1 where "insert_receipt mid u now d = Some d1" "insert_receipts mids u now d1 = Some d'"
    by (auto split: option.splits)
  then show ?case using Cons.IH receipt_move by (metis converse_rtranclp_into_rtranclp)
qed simp

lemma send_message_moves: "chat_moves d (fst (snd (send_message ev cid ty body att rep u d)))"
proof -
  let ?m = "\<lparr> ms_id = be_id ev, ms_conv = cid, ms_sender = u, ms_type = ty, ms_body = body,
                  ms_attachment = att, ms_reply_to = rep, ms_created_at = be_now ev,
                  ms_preview_title = None, ms_preview_subtitle = None \<rparr>"
  have "chat_move d d'" if "insert_message ?m d = Some d'" "is_member d cid u"
    "given att \<Longrightarrow> find (\<lambda>a. at_id a = the att \<and> at_uploader a = u) (attachments d) \<noteq> None" for d'
    by (rule message_move [OF that(1)]) (use that(2,3) in \<open>auto simp: given_def find_None split: option.splits\<close>)
  then show ?thesis
    by (auto simp: send_message_def fail_def crash_def Let_def split: option.split)
qed

lemma reaction_moves: "chat_moves d (fst (snd (add_reaction ev mid emoji u d)))"
  by (auto simp: add_reaction_def fail_def Let_def split: option.split intro!: r_into_rtranclp reaction_move)

lemma preview_moves: "chat_moves d (fst (snd (set_message_preview mid t s u d)))"
proof -
  have "(\<lambda>m. if ms_id m = mid then m\<lparr> ms_preview_title := Some t, ms_preview_subtitle := Some s \<rparr> else m)
      = with_preview mid t s" by (simp add: with_preview_def fun_eq_iff)
  then show ?thesis using preview_move [of d mid t s]
    by (auto simp: set_message_preview_def fail_def crash_def Let_def split: option.split)
qed

lemma upload_moves: "chat_moves d (fst (snd (upload_attachment ev f k ct ch u d)))"
proof -
  have "chat_moves d d'" if "insert_attachment a (d\<lparr> files := f' \<rparr>) = Some d'" for a f' d'
    using files_move [of d f'] attachment_move [OF that] by (meson converse_rtranclp_into_rtranclp r_into_rtranclp)
  then show ?thesis using files_move [of d]
    by (auto simp: upload_attachment_def fail_def crash_def answer_def Let_def split: option.split)
qed

lemma user_api_moves:
  assumes "db_wf d"
  shows "chat_moves d (fst (snd (user_api ev u r d)))"
proof (cases r)
  case (MarkRead cid)
  then show ?thesis using insert_receipts_moves
    by (auto simp: mark_read_def fail_def crash_def Let_def split: option.split)
qed (auto simp: logout_def get_me_def search_users_def get_user_def list_conversations_def list_messages_def
      remove_reaction_def download_attachment_def get_attachment_meta_def fail_def crash_def answer_def Let_def
      intro: logout_move unreact_move update_me_moves open_dm_moves [OF assms] send_message_moves reaction_moves
        preview_moves upload_moves
      split: option.split)

lemma serve_api_moves:
  assumes "db_wf d" and "CHR ''|'' \<notin> set (be_id ev)"
  shows "chat_moves d (fst (snd (serve_api cf ev auth r d)))"
  using assms register_moves login_moves user_api_moves reset_move
  by (cases r) (auto simp: serve_api_def fail_def answer_def simp del: user_api.simps split: option.split sum.split)

end
