(* ===== verification/WhisperProps.thy ===== *)
theory WhisperProps
  imports WhisperInv
begin

text \<open>
  What the messenger guarantees: its runs keep the invariant, a direct conversation is one and the same for
  both parties, messages reach members only, attachments those they were shared with, and a logout
  revokes every token of the user.
\<close>

section \<open>Runs\<close>

lemma send_to_user_db [simp]: "sv_db (snd (send_to_user dead u f s)) = sv_db s"
  by (simp add: send_to_user_def Let_def)

lemma send_to_users_Cons:
  "send_to_users dead (u # us) f s =
     (fst (send_to_user dead u f s) @ fst (send_to_users dead us f (snd (send_to_user dead u f s))),
      snd (send_to_users dead us f (snd (send_to_user dead u f s))))"
  by (simp add: Let_def split_beta)

lemma broadcast_all_Cons:
  "broadcast_all dead (b # bs) s =
     (fst (broadcast_to_conversation dead b s) @ fst (broadcast_all dead bs (snd (broadcast_to_conversation dead b s))),
      snd (broadcast_all dead bs (snd (broadcast_to_conversation dead b s))))"
  by (simp add: Let_def split_beta)

declare send_to_users.simps(2) [simp del] broadcast_all.simps(2) [simp del]

lemma send_to_users_db [simp]: "sv_db (snd (send_to_users dead us f s)) = sv_db s"
  by (induction us arbitrary: s) (simp_all add: send_to_users_Cons)

lemma send_to_user_conns: "set (sv_conns (snd (send_to_user dead u f s))) \<subseteq> set (sv_conns s)"
  by (auto simp: send_to_user_def Let_def)

lemma send_to_user_out:
  "(ws, g) \<in> set (fst (send_to_user dead u f s)) \<Longrightarrow> g = f \<and> (ws, u) \<in> set (sv_conns s)"
  by (auto simp: send_to_user_def Let_def)

lemma send_to_users_conns: "set (sv_conns (snd (send_to_users dead us f s))) \<subseteq> set (sv_conns s)"
  by (induction us arbitrary: s) (use send_to_user_conns in \<open>fastforce simp: send_to_users_Cons\<close>)+

lemma send_to_users_out:
  "(ws, g) \<in> set (fst (send_to_users dead us f s)) \<Longrightarrow> g = f \<and> (\<exists>u \<in> set us. (ws, u) \<in> set (sv_conns s))"
proof (induction us arbitrary: s)
  case (Cons u us)
  then consider "(ws, g) \<in> set (fst (send_to_user dead u f s))"
    | "(ws, g) \<in> set (fst (send_to_users dead us f (snd (send_to_user dead u f s))))"
    by (auto simp: send_to_users_Cons)
  then show ?case
  proof cases
    case 1
    then show ?thesis using send_to_user_out by fastforce
  next
    case 2
    from Cons.IH [OF this] send_to_user_conns [of dead u f s] show ?thesis by auto
  qed
qed simp

lemma broadcast_db [simp]: "sv_db (snd (broadcast_to_conversation dead b s)) = sv_db s"
  by (simp add: broadcast_to_conversation_def)

lemma broadcast_all_db [simp]: "sv_db (snd (broadcast_all dead bs s)) = sv_db s"
  by (induction bs arbitrary: s) (simp_all add: broadcast_all_Cons)

lemma presence_db [simp]: "sv_db (snd (broadcast_presence dead now u on s)) = sv_db s"
  by (simp add: broadcast_presence_def)

lemma connect_db [simp]: "sv_db (connect u ws s) = sv_db s" "sv_db (disconnect u ws s) = sv_db s"
  by (simp_all add: connect_def disconnect_def)

lemma hang_up_db [simp]: "sv_db (snd (hang_up dead now ws u s)) = sv_db s"
  by (simp add: hang_up_def)

lemma send_self_db [simp]: "sv_db (snd (send_self dead now ws u f s)) = sv_db s"
  by (simp add: send_self_def)

lemma ws_frame_moves: "chat_moves (sv_db s) (sv_db (snd (ws_frame dead now ws u fr s)))"
  using insert_receipts_moves [of _ u now "sv_db s"]
  by (cases fr) (auto simp: ws_frame_def Let_def split: option.split)

text \<open>A step, with its parts taken by projection.\<close>

lemma step_Rest:
  "service_step cf ev dead (Rest a r) s =
     (let o1 = serve_api cf ev a r (sv_db s);
          o2 = broadcast_all dead (snd (snd o1)) (s\<lparr> sv_db := fst (snd o1) \<rparr>)
      in ((Some (fst o1), fst o2), snd o2))"
  by (simp add: service_step_def Let_def split_beta)

lemma step_WsIn:
  "service_step cf ev dead (WsIn ws fr) s =
     (case socket_user s ws of None \<Rightarrow> ((None, []), s)
      | Some u \<Rightarrow> ((None, fst (ws_frame dead (be_now ev) ws u fr s)), snd (ws_frame dead (be_now ev) ws u fr s)))"
  by (simp add: service_step_def split_beta split: option.split)

text \<open>The other steps send no events and leave the database alone.\<close>

lemma presence_no_event: "(ws, Event e) \<notin> set (fst (broadcast_presence dead now u on s))"
  using send_to_users_out [of ws "Event e" dead] by (auto simp: broadcast_presence_def)

lemma hang_up_no_event: "(ws, Event e) \<notin> set (fst (hang_up dead now w u s))"
  by (simp add: hang_up_def presence_no_event)

lemma send_self_no_event: "\<forall>e'. f \<noteq> Event e' \<Longrightarrow> (ws, Event e) \<notin> set (fst (send_self dead now w u f s))"
  using hang_up_no_event by (auto simp: send_self_def)

lemma step_quiet:
  assumes "(\<exists>ws token. i = WsOpen ws token) \<or> (\<exists>ws. i = WsIdle ws) \<or> (\<exists>ws. i = WsClosed ws)"
  shows "sv_db (snd (service_step cf ev dead i s)) = sv_db s"
    and "(w, Event e) \<notin> set (snd (fst (service_step cf ev dead i s)))"
  using assms
  by (auto simp: service_step_def Let_def split_beta presence_no_event hang_up_no_event send_self_no_event split: option.splits if_splits)

lemma service_step_moves:
  assumes "db_wf (sv_db s)" and "CHR ''|'' \<notin> set (be_id ev)"
  shows "chat_moves (sv_db s) (sv_db (snd (service_step cf ev dead i s)))"
proof (cases i)
  case (Rest a r)
  then show ?thesis using serve_api_moves [OF assms, of cf a r] by (simp add: step_Rest Let_def)
next
  case (WsIn ws fr)
  then show ?thesis using ws_frame_moves by (simp add: step_WsIn split: option.split)
qed (simp_all add: step_quiet(1))

text \<open>A run of the service; the identifiers drawn are UUIDs, which contain no bar.\<close>

fun service_run :: "chat_config \<Rightarrow> (benv \<times> (nat \<Rightarrow> bool) \<times> input) list \<Rightarrow> service \<Rightarrow> service" where
  "service_run cf [] s = s"
| "service_run cf ((ev, dead, i) # es) s = service_run cf es (snd (service_step cf ev dead i s))"

lemma service_run_wf:
  "db_wf (sv_db s) \<Longrightarrow> \<forall>(ev, dead, i) \<in> set es. CHR ''|'' \<notin> set (be_id ev)
     \<Longrightarrow> db_wf (sv_db (service_run cf es s))"
proof (induction es arbitrary: s)
  case (Cons e es)
  obtain ev dead i where e: "e = (ev, dead, i)" by (cases e)
  have "db_wf (sv_db (snd (service_step cf ev dead i s)))"
    using Cons.prems wf_moves [OF service_step_moves] by (simp add: e)
  then show ?case using Cons by (simp add: e)
qed simp

lemma service_run_init:
  "\<forall>(ev, dead, i) \<in> set es. CHR ''|'' \<notin> set (be_id ev) \<Longrightarrow> db_wf (sv_db (service_run cf es service_init))"
  by (rule service_run_wf) (simp_all add: service_init_def db_wf_empty)

text \<open>What the invariant says of conversations and messages.\<close>

lemma two_members:
  assumes "db_wf d" and "c \<in> set (convs d)"
  shows "card {u. is_member d (cv_id c) u} = 2"
proof -
  obtain a b where "a \<noteq> b" "{u. (cv_id c, u) \<in> set (members d)} = {a, b}"
    using db_wfD(3) [OF assms] by (auto simp: conv_ok_def)
  then show ?thesis by (simp add: is_member_def)
qed

lemma sender_is_member: "db_wf d \<Longrightarrow> m \<in> set (messages d) \<Longrightarrow> is_member d (ms_conv m) (ms_sender m)"
  using db_wfD(4) by (auto simp: message_ok_def is_member_def)

section \<open>Who receives what\<close>

text \<open>The conversation an event is about.\<close>

fun concerns :: "db \<Rightarrow> string \<Rightarrow> chat_event \<Rightarrow> bool" where
  "concerns d c (NewMessage m) = (mo_conv m = c)"
| "concerns d c (ReadReceipt c' u ms) = (c' = c)"
| "concerns d c (ReactionAdded r) = (\<exists>m \<in> set (messages d). ms_id m = rx_message r \<and> ms_conv m = c)"
| "concerns d c (ReactionRemoved mid u e) = (\<exists>m \<in> set (messages d). ms_id m = mid \<and> ms_conv m = c)"
| "concerns d c (MessagePreview mid c' t s) = (c' = c)"
| "concerns d c (TypingEvent c' u n) = (c' = c)"
| "concerns d c (StopTypingEvent c' u n) = (c' = c)"

lemma message_by_id_Some: "message_by_id d mid = Some m \<Longrightarrow> m \<in> set (messages d) \<and> ms_id m = mid"
  by (auto simp: message_by_id_def dest: find_SomeD)

lemma broadcasts_concern:
  "user_api ev u r d = (reply, d', bs) \<Longrightarrow> (c, e) \<in> set bs \<Longrightarrow> concerns d' c e"
proof (cases r)
  case (SendMessage cid ty body att rep)
  assume "user_api ev u r d = (reply, d', bs)" "(c, e) \<in> set bs"
  then show ?thesis
    by (auto simp: SendMessage send_message_def fail_def crash_def build_message_out_def Let_def split: if_splits option.splits)
next
  case (MarkRead cid)
  assume "user_api ev u r d = (reply, d', bs)" "(c, e) \<in> set bs"
  then show ?thesis by (auto simp: MarkRead mark_read_def fail_def crash_def Let_def split: if_splits option.splits)
next
  case (AddReaction mid emoji)
  assume "user_api ev u r d = (reply, d', bs)" "(c, e) \<in> set bs"
  then show ?thesis
    by (auto simp: AddReaction add_reaction_def fail_def Let_def insert_simps split: if_splits option.splits
        dest!: message_by_id_Some)
next
  case (SetPreview mid t s)
  assume "user_api ev u r d = (reply, d', bs)" "(c, e) \<in> set bs"
  then show ?thesis
    by (auto simp: SetPreview set_message_preview_def fail_def crash_def Let_def split: if_splits option.splits)
next
  case (RemoveReaction mid emoji)
  assume "user_api ev u r d = (reply, d', bs)" "(c, e) \<in> set bs"
  then show ?thesis
    by (auto simp: RemoveReaction remove_reaction_def fail_def Let_def split: if_splits option.splits dest!: message_by_id_Some)
qed (auto simp: logout_def get_me_def update_me_def search_users_def get_user_def list_conversations_def open_dm_def
      list_messages_def upload_attachment_def download_attachment_def get_attachment_meta_def fail_def crash_def answer_def
      Let_def split: option.splits if_splits prod.splits)

lemma conversation_users_member: "u \<in> set (conversation_users d c) \<longleftrightarrow> is_member d c u"
  by (force simp: conversation_users_def is_member_def)

definition reaches_member :: "service \<Rightarrow> db \<Rightarrow> nat \<Rightarrow> chat_event \<Rightarrow> bool" where
  "reaches_member s d ws e \<longleftrightarrow>
     (\<exists>c u. concerns d c e \<and> is_member d c u \<and> (ws, u) \<in> set (sv_conns s))"

lemma broadcast_reaches:
  assumes "(ws, Event e) \<in> set (fst (broadcast_to_conversation dead (c, e') s))" and "concerns (sv_db s) c e'"
  shows "reaches_member s (sv_db s) ws e"
proof -
  have "Event e = Event e' \<and> (\<exists>u \<in> set (conversation_users (sv_db s) c). (ws, u) \<in> set (sv_conns s))"
    using assms(1) unfolding broadcast_to_conversation_def by (intro send_to_users_out) simp
  then have "e = e'" and "\<exists>u. is_member (sv_db s) c u \<and> (ws, u) \<in> set (sv_conns s)"
    by (auto simp: conversation_users_member)
  with assms(2) show ?thesis unfolding reaches_member_def by blast
qed

lemma reaches_fewer:
  "reaches_member s' d ws e \<Longrightarrow> set (sv_conns s') \<subseteq> set (sv_conns s) \<Longrightarrow> reaches_member s d ws e"
  unfolding reaches_member_def by blast

lemma broadcast_all_reaches:
  "(ws, Event e) \<in> set (fst (broadcast_all dead bs s)) \<Longrightarrow> \<forall>(c, e') \<in> set bs. concerns (sv_db s) c e'
     \<Longrightarrow> reaches_member s (sv_db s) ws e"
proof (induction bs arbitrary: s)
  case (Cons b bs)
  obtain c e' where b: "b = (c, e')" by (cases b)
  let ?s1 = "snd (broadcast_to_conversation dead b s)"
  have sub: "set (sv_conns ?s1) \<subseteq> set (sv_conns s)"
    unfolding broadcast_to_conversation_def by (rule send_to_users_conns)
  consider "(ws, Event e) \<in> set (fst (broadcast_to_conversation dead b s))"
    | "(ws, Event e) \<in> set (fst (broadcast_all dead bs ?s1))"
    using Cons.prems(1) by (auto simp: broadcast_all_Cons)
  then show ?case
  proof cases
    case 1
    then show ?thesis using Cons.prems(2) unfolding b by (intro broadcast_reaches) auto
  next
    case 2
    then have "reaches_member ?s1 (sv_db ?s1) ws e" using Cons.prems(2) by (intro Cons.IH) auto
    then show ?thesis using sub by (simp add: reaches_fewer)
  qed
qed simp

lemma ws_frame_reaches:
  assumes "(ws', Event e) \<in> set (fst (ws_frame dead now ws u fr s))"
  shows "reaches_member s (sv_db (snd (ws_frame dead now ws u fr s))) ws' e"
proof (cases fr)
  case (TypingIn c)
  then show ?thesis using assms broadcast_reaches [of ws' e dead _ _ s]
    by (auto simp: ws_frame_def Let_def split: option.splits if_splits)
next
  case (StopTypingIn c)
  then show ?thesis using assms broadcast_reaches [of ws' e dead _ _ s]
    by (auto simp: ws_frame_def Let_def split: option.splits if_splits)
next
  case (MarkReadIn c mids)
  show ?thesis
  proof (cases "insert_receipts mids u now (sv_db s)")
    case None
    then show ?thesis using assms hang_up_no_event
      by (auto simp: MarkReadIn ws_frame_def Let_def split: option.splits if_splits)
  next
    case (Some d)
    have "reaches_member (s\<lparr> sv_db := d \<rparr>) d ws' e = reaches_member s d ws' e" by (simp add: reaches_member_def)
    then show ?thesis using assms Some broadcast_reaches [of ws' e dead _ _ "s\<lparr> sv_db := d \<rparr>"]
      by (auto simp: MarkReadIn ws_frame_def Let_def split: option.splits if_splits)
  qed
qed (use assms hang_up_no_event send_self_no_event in \<open>auto simp: ws_frame_def Let_def\<close>)

lemma serve_api_concerns:
  assumes "(c, e) \<in> set (snd (snd (serve_api cf ev a r d)))"
  shows "concerns (fst (snd (serve_api cf ev a r d))) c e"
proof -
  have "concerns (fst (snd (user_api ev u r d))) c e" if "(c, e) \<in> set (snd (snd (user_api ev u r d)))" for u
    using broadcasts_concern [of ev u r d] that by (metis prod.collapse)
  moreover have "snd (snd (register kdf ctf ev ph pw h n v d)) = []" "snd (snd (login kdf ev ph pw d)) = []" for kdf ctf ph pw h n v
    by (auto simp: register_def login_def grant_token_def fail_def crash_def answer_def split: option.split prod.split sum.split)
  ultimately show ?thesis using assms
    by (cases r) (auto simp: serve_api_def fail_def answer_def simp del: user_api.simps split: option.splits sum.splits if_splits)
qed

text \<open>Whatever a step sends about a conversation goes to sockets of its members.\<close>

lemma step_reaches_members:
  assumes "(ws, Event e) \<in> set (snd (fst (service_step cf ev dead i s)))"
  shows "reaches_member s (sv_db (snd (service_step cf ev dead i s))) ws e"
proof (cases i)
  case (Rest a r)
  let ?o = "serve_api cf ev a r (sv_db s)"
  have "reaches_member (s\<lparr> sv_db := fst (snd ?o) \<rparr>) (fst (snd ?o)) ws e"
    using broadcast_all_reaches [of ws e dead "snd (snd ?o)" "s\<lparr> sv_db := fst (snd ?o) \<rparr>"]
      serve_api_concerns [of _ _ cf ev a r "sv_db s"] assms by (auto simp: Rest step_Rest Let_def)
  then show ?thesis by (simp add: Rest step_Rest Let_def reaches_member_def)
next
  case (WsIn w fr)
  then show ?thesis using assms ws_frame_reaches [of ws e dead "be_now ev" w _ fr s]
    by (auto simp: step_WsIn split: option.splits)
qed (use assms step_quiet(2) in blast)+

section \<open>Direct conversations\<close>

lemma pair_key_commute: "pair_key a b = pair_key b a"
  by (auto simp: pair_key_def)

lemma bar_split:
  assumes "x @ ''|'' @ y = x' @ ''|'' @ y'" and "CHR ''|'' \<notin> set x" and "CHR ''|'' \<notin> set x'"
  shows "x = x' \<and> y = y'"
proof -
  have "takeWhile (\<lambda>c. c \<noteq> CHR ''|'') (u @ ''|'' @ v) = u" if "CHR ''|'' \<notin> set u" for u v
    using that by (auto simp: takeWhile_append)
  then have "x = x'" using assms by metis
  with assms(1) show ?thesis by simp
qed

lemma pair_key_inj:
  assumes "pair_key a b = pair_key u v" and "\<forall>i \<in> {a, b, u, v}. CHR ''|'' \<notin> set i"
  shows "{a, b} = {u, v}"
proof -
  have ab: "\<exists>x y. {a, b} = {x, y} \<and> pair_key a b = x @ ''|'' @ y" by (auto simp: pair_key_def)
  have uv: "\<exists>x y. {u, v} = {x, y} \<and> pair_key u v = x @ ''|'' @ y" by (auto simp: pair_key_def)
  obtain x y x' y' where 1: "{a, b} = {x, y}" "pair_key a b = x @ ''|'' @ y"
    and 2: "{u, v} = {x', y'}" "pair_key u v = x' @ ''|'' @ y'" using ab uv by blast
  have "CHR ''|'' \<notin> set x" "CHR ''|'' \<notin> set x'" using 1(1) 2(1) assms(2) by blast+
  then have "x = x' \<and> y = y'" using bar_split assms(1) 1(2) 2(2) by metis
  with 1 2 show ?thesis by simp
qed

lemma conv_by_pair_Some: "conv_by_pair d k = Some c \<Longrightarrow> c \<in> set (convs d) \<and> cv_pair_key c = k"
  by (auto simp: conv_by_pair_def dest: find_SomeD)

text \<open>The members of a conversation are the two users its key names.\<close>

lemma conv_members:
  assumes wf: "db_wf d" and c: "conv_by_pair d (pair_key u v) = Some c"
    and uv: "user_by_id d u \<noteq> None" "user_by_id d v \<noteq> None"
  shows "{w. is_member d (cv_id c) w} = {u, v}"
proof -
  note c' = conv_by_pair_Some [OF c]
  obtain a b where ab: "cv_pair_key c = pair_key a b" "{w. (cv_id c, w) \<in> set (members d)} = {a, b}"
    using db_wfD(3) [OF wf, of c] c' by (auto simp: conv_ok_def)
  have "i \<in> us_id ` set (users d)" if "i \<in> {a, b}" for i
  proof -
    have "(cv_id c, i) \<in> set (members d)" using that ab(2) by blast
    then show ?thesis using db_wfD(2) [OF wf] by (auto simp: refs_ok_def)
  qed
  moreover have "u \<in> us_id ` set (users d)" "v \<in> us_id ` set (users d)" using uv by (simp_all only: user_exists)
  ultimately have "\<forall>i \<in> {a, b, u, v}. CHR ''|'' \<notin> set i"
    using db_wfD(2) [OF wf] by (auto simp: refs_ok_def)
  moreover have "pair_key a b = pair_key u v" using ab(1) c' by simp
  ultimately have "{a, b} = {u, v}" by (intro pair_key_inj) simp_all
  with ab(2) show ?thesis by (simp add: is_member_def)
qed

lemma user_by_id_id: "user_by_id d v = Some t \<Longrightarrow> us_id t = v"
  by (auto simp: user_by_id_def dest: find_SomeD)

lemma open_dm_opened:
  assumes wf: "db_wf d" and u: "user_by_id d u \<noteq> None" and v: "user_by_id d v \<noteq> None"
    and o: "open_dm ev v u d = (Inr (DmR c), d1, bs)"
  shows "db_wf d1 \<and> users d1 = users d \<and> (\<exists>row. conv_by_pair d1 (pair_key u v) = Some row \<and> cv_id row = c) \<and> u \<noteq> v"
proof -
  obtain t where t: "user_by_id d v = Some t" using v by blast
  have ne: "u \<noteq> v" and dm: "get_or_create_dm ev u v d = (Some c, d1)"
    using o t user_by_id_id [OF t]
    by (auto simp: open_dm_def user_by_id_or_handle_def fail_def crash_def answer_def split: if_splits prod.splits option.splits)
  have "db_wf d1" using wf_moves [OF open_dm_moves [OF wf, of ev v u] wf] o by simp
  moreover have "users d1 = users d \<and> (\<exists>row. conv_by_pair d1 (pair_key u v) = Some row \<and> cv_id row = c)"
    using dm_cases [OF wf ne, of ev] dm by (auto simp: conv_by_pair_def find_append)
  ultimately show ?thesis using ne by blast
qed

text \<open>Once opened, from either side, the conversation is found again and nothing is written.\<close>

lemma open_dm_again:
  assumes wf: "db_wf d" and u: "user_by_id d u \<noteq> None" and v: "user_by_id d v \<noteq> None"
    and o: "open_dm ev v u d = (Inr (DmR c), d1, bs)"
  shows "open_dm ev' v u d1 = (Inr (DmR c), d1, []) \<and> open_dm ev' u v d1 = (Inr (DmR c), d1, [])
    \<and> {w. is_member d1 c w} = {u, v}"
proof -
  obtain row where 1: "db_wf d1" "users d1 = users d" "conv_by_pair d1 (pair_key u v) = Some row" "cv_id row = c" "u \<noteq> v"
    using open_dm_opened [OF wf u v o] by blast
  have us: "user_by_id d1 w = user_by_id d w" for w using 1(2) by (simp add: user_by_id_def)
  obtain tu tv where t: "user_by_id d u = Some tu" "user_by_id d v = Some tv" using u v by blast
  note ids = user_by_id_id [OF t(1)] user_by_id_id [OF t(2)]
  have "{w. is_member d1 c w} = {u, v}" using conv_members [OF 1(1,3)] u v us 1(4) by simp
  then show ?thesis using 1(3,4,5) t ids us pair_key_commute [of v u]
    by (simp add: open_dm_def user_by_id_or_handle_def get_or_create_dm_def answer_def)
qed

section \<open>Reading\<close>

text \<open>The identifiers of the messages that an answer shows, whole or as the last message of a conversation.\<close>

definition shown :: "answer \<Rightarrow> string set" where
  "shown a =
     (case a of
        MessagesR ms \<Rightarrow> mo_id ` set ms
      | MessageR mo \<Rightarrow> {mo_id mo}
      | ConversationsR cs \<Rightarrow> {i. \<exists>c \<in> set cs. \<exists>p. co_last_message c = Some p \<and> mp_id p = i}
      | _ \<Rightarrow> {})"

definition readable :: "db \<Rightarrow> string \<Rightarrow> string \<Rightarrow> bool" where
  "readable d u mid \<longleftrightarrow> (\<exists>m \<in> set (messages d). ms_id m = mid \<and> is_member d (ms_conv m) u)"

lemma newest_first_set [simp]: "set (newest_first ms) = set ms"
  by (simp add: newest_first_def)

lemma conv_messages_readable: "m \<in> set (conv_messages d c) \<Longrightarrow> is_member d c u \<Longrightarrow> readable d u (ms_id m)"
  by (auto simp: conv_messages_def readable_def)

lemma list_conversations_readable:
  assumes "list_conversations u d = (Inr a, d', bs)" and "mid \<in> shown a"
  shows "readable d u mid"
proof -
  obtain c out p where c: "is_member d (cv_id c) u" and o: "out \<in> set (conversation_out_of d u c)"
    "co_last_message out = Some p" "mp_id p = mid"
    using assms by (fastforce simp: list_conversations_def answer_def shown_def Let_def)
  then obtain m ms where nf: "newest_first (conv_messages d (cv_id c)) = m # ms" and m: "ms_id m = mid"
    by (cases "newest_first (conv_messages d (cv_id c))")
      (auto simp: conversation_out_of_def message_preview_of_def split: option.splits)
  have "m \<in> set (conv_messages d (cv_id c))" using arg_cong [OF nf, of set] by simp
  with c m show ?thesis using conv_messages_readable by auto
qed

lemma sql_limit_subset: "set (sql_limit n xs) \<subseteq> set xs"
  by (auto simp: sql_limit_def dest: in_set_takeD)

lemma list_messages_readable:
  assumes "list_messages cid before limit u d = (Inr a, d', bs)" and "mid \<in> shown a"
  shows "readable d u mid"
proof -
  have mem: "is_member d cid u"
    using assms(1) by (auto simp: list_messages_def fail_def split: if_splits)
  obtain rows where "a = MessagesR (map (build_message_out d) (rev (sql_limit limit (newest_first rows))))"
    and "set rows \<subseteq> set (conv_messages d cid)"
    using assms(1) by (auto simp: list_messages_def fail_def answer_def Let_def split: if_splits option.splits)
  then obtain m where "m \<in> set (conv_messages d cid)" "ms_id m = mid"
    using assms(2) sql_limit_subset [of limit "newest_first rows"]
    by (auto simp: shown_def build_message_out_def)
  with mem show ?thesis using conv_messages_readable by blast
qed

text \<open>No answer shows a message to a user who is not in its conversation.\<close>

lemma send_message_answer:
  assumes "send_message ev cid ty body att rep u d = (Inr a, d', bs)"
  obtains m where "a = MessageR (build_message_out d' m)" "m \<in> set (messages d')" "is_member d' (ms_conv m) u"
proof -
  define m where "m = \<lparr> ms_id = be_id ev, ms_conv = cid, ms_sender = u, ms_type = ty, ms_body = body,
    ms_attachment = att, ms_reply_to = rep, ms_created_at = be_now ev,
    ms_preview_title = None, ms_preview_subtitle = None \<rparr>"
  have mem: "is_member d cid u" and i: "insert_message m d = Some d'" and a: "a = MessageR (build_message_out d' m)"
    using assms unfolding send_message_def fail_def crash_def Let_def m_def [symmetric]
    by (simp_all split: if_splits option.splits)
  show ?thesis by (rule that [OF a]) (use i mem in \<open>auto simp: insert_message_Some is_member_def m_def\<close>)
qed

lemma user_api_readable:
  assumes "user_api ev u r d = (Inr a, d', bs)" and "mid \<in> shown a"
  shows "readable d' u mid"
proof (cases r)
  case ListConversations
  then show ?thesis using assms list_conversations_readable [of u d a d' bs mid]
    by (auto simp: list_conversations_def answer_def)
next
  case (ListMessages cid before limit)
  then show ?thesis using assms list_messages_readable [of cid before limit u d a d' bs mid]
    by (auto simp: list_messages_def answer_def fail_def Let_def split: if_splits)
next
  case (SendMessage cid ty body att rep)
  then obtain m where "a = MessageR (build_message_out d' m)" "m \<in> set (messages d')" "is_member d' (ms_conv m) u"
    using assms(1) by (auto elim!: send_message_answer)
  then show ?thesis using assms(2) by (auto simp: shown_def readable_def build_message_out_def)
next
  case (SetPreview m' t s)
  have "mid = m' \<and> (\<exists>m \<in> set (messages d). ms_id m = m' \<and> is_member d (ms_conv m) u)
      \<and> messages d' = map (with_preview m' t s) (messages d) \<and> members d' = members d"
    using assms SetPreview
    by (auto simp: set_message_preview_def fail_def crash_def shown_def build_message_out_def Let_def
        with_preview_def fun_eq_iff split: if_splits option.splits dest!: message_by_id_Some)
  then show ?thesis by (auto simp: readable_def is_member_def)
qed (use assms in \<open>auto simp: shown_def logout_def get_me_def update_me_def search_users_def get_user_def open_dm_def
      mark_read_def add_reaction_def remove_reaction_def upload_attachment_def download_attachment_def
      get_attachment_meta_def fail_def crash_def answer_def Let_def split: option.splits if_splits prod.splits\<close>)

lemma bearer_text: "bearer authorization = Some token \<Longrightarrow> authorization = ''Bearer '' @ token"
  by (metis append_take_drop_id bearer_def option.distinct(1) option.inject)

lemma shown_done [simp]: "shown DoneR = {}"
  by (simp add: shown_def)

lemma serve_api_readable:
  assumes "serve_api cf ev authorization r d = (Inr a, d', bs)" and "mid \<in> shown a"
  shows "\<exists>token u. authorization = Some (''Bearer '' @ token)
    \<and> get_user_id_from_token (be_now ev) d token = Some u \<and> readable d' u mid"
proof -
  have "shown x = {}" if "grant_token ev u e = (Inr x, e', bs')" for x u e e' bs'
    using that by (auto simp: grant_token_def answer_def shown_def split: prod.splits sum.splits)
  then have reg: "shown x = {}" if "register (cc_kdf cf) b ev ph pw h n v d = (Inr x, d', bs)" for x b ph pw h n v
    using that by (auto simp: register_def fail_def crash_def split: if_splits option.splits prod.splits)
  have "shown x = {}" if "grant_token ev u e = (Inr x, e', bs')" for x u e e' bs'
    using that by (auto simp: grant_token_def answer_def shown_def split: prod.splits sum.splits)
  then have log: "shown x = {}" if "login (cc_kdf cf) ev ph pw d = (Inr x, d', bs)" for x ph pw
    using that by (auto simp: login_def fail_def crash_def split: if_splits option.splits prod.splits)
  show ?thesis
  proof (cases "(\<exists>ph pw h n v. r = Register ph pw h n v) \<or> (\<exists>ph pw. r = Login ph pw)")
    case True
    then have "shown a = {}" using assms(1) by (auto simp: serve_api_def dest!: reg log)
    then show ?thesis using assms(2) by simp
  next
    case False
    then show ?thesis
      using assms user_api_readable
      by (cases r) (auto simp: serve_api_def require_auth_def fail_def answer_def simp del: user_api.simps
          dest!: bearer_text split: option.splits if_splits sum.splits)
  qed
qed

text \<open>A page is the newest messages in the order of time; a negative limit is none.\<close>

lemma list_messages_page:
  assumes "is_member d cid u" and "limit \<le> 200"
  defines "ms \<equiv> sort_key ms_created_at (conv_messages d cid)"
  shows "list_messages cid None limit u d =
    (Inr (MessagesR (map (build_message_out d)
            (if limit < 0 then ms else drop (length ms - nat limit) ms))), d, [])"
  using assms by (simp add: list_messages_def answer_def newest_first_def sql_limit_def rev_take Let_def)

section \<open>Attachments\<close>

text \<open>
  Whoever gets a file uploaded it, or is in a conversation to which its uploader sent it.
\<close>

lemma attachment_shared:
  assumes wf: "db_wf d" and acc: "attachment_access d aid u" and a: "attachment_by_id d aid = Some a" and ne: "aid \<noteq> []"
  shows "at_uploader a = u
    \<or> (\<exists>m \<in> set (messages d). ms_attachment m = Some aid \<and> ms_sender m = at_uploader a \<and> is_member d (ms_conv m) u)"
proof -
  have a': "a \<in> set (attachments d)" "at_id a = aid" using a by (auto simp: attachment_by_id_def dest: find_SomeD)
  have uniq: "b = a" if "b \<in> set (attachments d)" "at_id b = aid" for b
  proof -
    have "find (\<lambda>x. at_id x = at_id b) (attachments d) = Some b"
      using that(1) db_wfD(1) [OF wf] by (intro find_unique) (simp_all add: keys_ok_def)
    then show ?thesis using a that(2) by (simp add: attachment_by_id_def)
  qed
  consider (up) b where "b \<in> set (attachments d)" "at_id b = aid" "at_uploader b = u"
    | (msg) m where "m \<in> set (messages d)" "ms_attachment m = Some aid" "is_member d (ms_conv m) u"
    using acc by (auto simp: attachment_access_def find_None list_ex_iff)
  then show ?thesis
  proof cases
    case up
    then show ?thesis using uniq by blast
  next
    case msg
    then obtain b where "b \<in> set (attachments d)" "at_id b = aid" "at_uploader b = ms_sender m"
      using db_wfD(4) [OF wf, of m] ne by (auto simp: message_ok_def)
    then show ?thesis using uniq msg by metis
  qed
qed

lemma download_shared:
  assumes "db_wf d" and "user_api ev u (Download aid) d = (Inr (FileR name mime content), d', bs)" and "aid \<noteq> []"
  shows "\<exists>a \<in> set (attachments d). at_id a = aid \<and> at_filename a = name \<and> files d (at_path a) = Some content
    \<and> (at_uploader a = u
       \<or> (\<exists>m \<in> set (messages d). ms_attachment m = Some aid \<and> ms_sender m = at_uploader a \<and> is_member d (ms_conv m) u))"
proof -
  obtain a where a: "attachment_by_id d aid = Some a" "attachment_access d aid u" "files d (at_path a) = Some content"
      "at_filename a = name"
    using assms(2) by (auto simp: download_attachment_def fail_def answer_def split: option.splits if_splits)
  then have "at_id a = aid" "a \<in> set (attachments d)" by (auto simp: attachment_by_id_def dest: find_SomeD)
  with attachment_shared [OF assms(1) a(2,1) assms(3)] a(3,4) show ?thesis by blast
qed

section \<open>Sessions and receipts\<close>

lemma logout_revokes:
  "get_user_id_from_token now (fst (snd (logout u d))) token \<noteq> Some u"
  by (auto simp: logout_def answer_def get_user_id_from_token_def split: option.split dest!: find_SomeD)

lemma logout_others:
  assumes "db_wf d" and "get_user_id_from_token now d token = Some v" and "v \<noteq> u"
  shows "get_user_id_from_token now (fst (snd (logout u d))) token = Some v"
proof -
  obtain s where s: "find (\<lambda>s. ss_token s = token) (sessions d) = Some s" and v: "ss_user s = v" "\<not> ss_expires_at s < now"
    using assms(2) by (auto simp: get_user_id_from_token_def split: option.splits if_splits)
  have "s \<in> set (sessions d)" "ss_token s = token" using s by (auto dest: find_SomeD)
  then have "find (\<lambda>x. ss_token x = ss_token s) (filter (\<lambda>x. ss_user x \<noteq> u) (sessions d)) = Some s"
    using db_wfD(1) [OF assms(1)] v assms(3) by (intro find_unique) (auto simp: keys_ok_def filter_distinct_map)
  then show ?thesis using \<open>ss_token s = token\<close> v
    by (simp add: logout_def answer_def get_user_id_from_token_def)
qed

lemma insert_receipts_all:
  "insert_receipts mids u now d = Some d' \<Longrightarrow>
     messages d' = messages d \<and> members d' = members d
     \<and> (\<forall>mid w. has_receipt d' mid w \<longleftrightarrow> has_receipt d mid w \<or> (w = u \<and> mid \<in> set mids))"
proof (induction mids arbitrary: d)
  case (Cons mid mids)
  then obtain d1 where 1: "insert_receipt mid u now d = Some d1" and 2: "insert_receipts mids u now d1 = Some d'"
    by (auto split: option.splits)
  have "messages d1 = messages d \<and> members d1 = members d
     \<and> (\<forall>x w. has_receipt d1 x w \<longleftrightarrow> has_receipt d x w \<or> (w = u \<and> x = mid))"
    using 1 by (auto simp: insert_receipt_Some has_receipt_iff)
  with Cons.IH [OF 2] show ?case by auto
qed simp

lemma insert_receipts_returns:
  "set mids \<subseteq> ms_id ` set (messages d) \<Longrightarrow> u \<in> us_id ` set (users d) \<Longrightarrow> \<exists>d'. insert_receipts mids u now d = Some d'"
proof (induction mids arbitrary: d)
  case (Cons mid mids)
  have "message_by_id d mid \<noteq> None" "user_by_id d u \<noteq> None"
    using Cons.prems unfolding message_exists user_exists by auto
  then obtain d1 where "insert_receipt mid u now d = Some d1" "messages d1 = messages d" "users d1 = users d"
    by (cases "has_receipt d mid u") (auto simp: insert_receipt_def)
  then show ?case using Cons.IH [of d1] Cons.prems by auto
qed simp

text \<open>After a member has marked a conversation as read, it counts nothing unread for that member.\<close>

lemma mark_read_clears:
  assumes wf: "db_wf d" and m: "is_member d cid u"
  shows "\<exists>d' bs. mark_read ev cid u d = (Inr (MarkedR (length (unread d cid u))), d', bs) \<and> unread d' cid u = []
    \<and> (\<forall>w. w \<noteq> u \<longrightarrow> unread d' cid w = unread d cid w)"
proof -
  have "u \<in> us_id ` set (users d)" using m db_wfD(2) [OF wf] by (auto simp: is_member_def refs_ok_def)
  moreover have "set (map ms_id (unread d cid u)) \<subseteq> ms_id ` set (messages d)" by (auto simp: unread_def conv_messages_def)
  ultimately obtain d' where d': "insert_receipts (map ms_id (unread d cid u)) u (be_now ev) d = Some d'"
    using insert_receipts_returns by blast
  note all = insert_receipts_all [OF d']
  then have "unread d' cid u = []"
    by (auto simp: unread_def conv_messages_def filter_empty_conv)
  moreover have "unread d' cid w = unread d cid w" if "w \<noteq> u" for w
    using all that by (simp add: unread_def conv_messages_def)
  ultimately show ?thesis using m d' by (simp add: mark_read_def Let_def)
qed

text \<open>
  A frame may mark any message as read: neither the conversation of the message nor its sender is looked
  at, so the receipt of a stranger shows up in a conversation the stranger cannot read.
\<close>

lemma ws_receipt_unchecked:
  assumes "is_member (sv_db s) c u" and "c \<noteq> []" and "db_wf (sv_db s)" and "message_by_id (sv_db s) mid = Some m"
  shows "u \<in> set (mo_read_by (build_message_out (sv_db (snd (ws_frame dead now ws u (MarkReadIn (Some c) [mid]) s))) m))"
proof -
  have "u \<in> us_id ` set (users (sv_db s))" using assms(1) db_wfD(2) [OF assms(3)] by (auto simp: is_member_def refs_ok_def)
  moreover have "mid \<in> ms_id ` set (messages (sv_db s))" using message_exists assms(4) by blast
  ultimately obtain d' where d': "insert_receipts [mid] u now (sv_db s) = Some d'"
    using insert_receipts_returns [of "[mid]" "sv_db s" u now] by auto
  then have "has_receipt d' mid u" using insert_receipts_all [OF d'] by simp
  moreover have "ms_id m = mid" using message_by_id_Some [OF assms(4)] by simp
  ultimately have "u \<in> set (mo_read_by (build_message_out d' m))"
    by (force simp: has_receipt_iff build_message_out_def)
  moreover have "sv_db (snd (ws_frame dead now ws u (MarkReadIn (Some c) [mid]) s)) = d'"
    using assms(1,2) d' by (simp add: ws_frame_def Let_def)
  ultimately show ?thesis by simp
qed

text \<open>A search never shows the caller, and a victim only to those who already know its handle.\<close>

lemma search_victims:
  assumes "search_users q u d = (Inr (UsersR us), d', bs)" and "v \<in> set us"
  shows "\<exists>w \<in> set (users d). row_to_public w = v \<and> us_id w \<noteq> u
    \<and> (us_is_victim w \<longrightarrow> map ascii_lower (us_handle w) = map ascii_lower q)"
proof -
  obtain P where us: "us = map row_to_public (take 30 (filter P (users d)))"
    and P: "\<And>w. P w \<Longrightarrow> us_id w \<noteq> u \<and> (us_is_victim w \<longrightarrow> map ascii_lower (us_handle w) = map ascii_lower q)"
    using assms(1) by (auto simp: search_users_def fail_def answer_def Let_def split: if_splits)
  obtain w where "w \<in> set (take 30 (filter P (users d)))" "v = row_to_public w" using assms(2) us by auto
  then have "w \<in> set (users d)" "P w" "v = row_to_public w" by (auto dest: in_set_takeD)
  with P [of w] show ?thesis by blast
qed

end
