(* ===== verification/Deliver.thy ===== *)
theory Deliver
  imports WhisperProps Worker
begin

text \<open>
  \<^verbatim>\<open>whisper/deploy/judge/whisper_deliver.py\<close>: the judge's client of the messenger, which plays the attacker and
  waits for a flag. Here it talks to the modelled backend: a call is a request against the
  database, with the clock and the draws of the backend as argument. A status that is not a success is
  \<^verbatim>\<open>RuntimeError\<close>. Other users act between the calls only where a list of snapshots is an argument.
\<close>

section \<open>Calls\<close>

definition ATTACKER_PASSWORD :: string where "ATTACKER_PASSWORD = ''judge-att-wh1sper-2026''"

definition token_header :: "string \<Rightarrow> string option" where
  "token_header token = Some (''Bearer '' @ token)"

text \<open>What a call makes of an outcome; \<open>pick\<close> reads the answer.\<close>

definition expecting :: "(answer \<Rightarrow> 'a option) \<Rightarrow> outcome \<Rightarrow> 'a res \<times> db" where
  "expecting pick r =
     (case fst r of
        Inl e \<Rightarrow> Inl RuntimeError
      | Inr a \<Rightarrow> (case pick a of None \<Rightarrow> Inl RuntimeError | Some x \<Rightarrow> Inr x),
      fst (snd r))"

definition register_account ::
  "chat_config \<Rightarrow> benv \<Rightarrow> string \<Rightarrow> string \<Rightarrow> string \<Rightarrow> string \<Rightarrow> db \<Rightarrow> string res \<times> db" where
  "register_account cf ev phone handle display_name password d =
     (let password = (if password = [] then ATTACKER_PASSWORD else password) in
      expecting (\<lambda>a. case a of TokenR token uid \<Rightarrow> Some token | _ \<Rightarrow> None)
        (serve_api cf ev None (Register phone password (Some handle) (Some display_name) False) d))"

definition upload_rcard ::
  "chat_config \<Rightarrow> benv \<Rightarrow> string \<Rightarrow> bytes \<Rightarrow> string \<Rightarrow> db \<Rightarrow> string res \<times> db" where
  "upload_rcard cf ev token rcard filename d =
     expecting (\<lambda>a. case a of AttachmentR out \<Rightarrow> Some (ao_id out) | _ \<Rightarrow> None)
       (serve_api cf ev (token_header token) (Upload filename ''rcard'' ''application/octet-stream'' [rcard]) d)"

definition client_open_dm :: "chat_config \<Rightarrow> benv \<Rightarrow> string \<Rightarrow> string \<Rightarrow> db \<Rightarrow> string res \<times> db" where
  "client_open_dm cf ev token target d =
     expecting (\<lambda>a. case a of DmR cid \<Rightarrow> Some cid | _ \<Rightarrow> None)
       (serve_api cf ev (token_header token) (OpenDm target) d)"

definition send_rcard_dm :: "chat_config \<Rightarrow> benv \<Rightarrow> string \<Rightarrow> string \<Rightarrow> string \<Rightarrow> db \<Rightarrow> string res \<times> db" where
  "send_rcard_dm cf ev token cid aid d =
     expecting (\<lambda>a. case a of MessageR m \<Rightarrow> Some (mo_id m) | _ \<Rightarrow> None)
       (serve_api cf ev (token_header token) (SendMessage cid ''attachment'' None (Some aid) None) d)"

definition poll_messages ::
  "chat_config \<Rightarrow> benv \<Rightarrow> string \<Rightarrow> string \<Rightarrow> int \<Rightarrow> db \<Rightarrow> message_out list res" where
  "poll_messages cf ev token cid after_ts d =
     fst (expecting (\<lambda>a. case a of MessagesR ms \<Rightarrow> Some (filter (\<lambda>m. after_ts < mo_created_at m) ms) | _ \<Rightarrow> None)
       (serve_api cf ev (token_header token) (ListMessages cid None 200) d))"

section \<open>Delivery\<close>

text \<open>The three calls, each with the environment it meets; the result is conversation, attachment and time.\<close>

definition deliver_rcard ::
  "chat_config \<Rightarrow> benv \<Rightarrow> benv \<Rightarrow> benv \<Rightarrow> string \<Rightarrow> string \<Rightarrow> bytes \<Rightarrow> db \<Rightarrow> (string \<times> string \<times> int) res \<times> db" where
  "deliver_rcard cf ev1 ev2 ev3 token victim rcard d =
     (case upload_rcard cf ev1 token rcard ''payload.rcard'' d of
        (Inl e, d) \<Rightarrow> (Inl e, d)
      | (Inr aid, d) \<Rightarrow>
     (case client_open_dm cf ev2 token victim d of
        (Inl e, d) \<Rightarrow> (Inl e, d)
      | (Inr cid, d) \<Rightarrow>
     (case send_rcard_dm cf ev3 token cid aid d of
        (Inl e, d) \<Rightarrow> (Inl e, d)
      | (Inr mid, d) \<Rightarrow> (Inr (cid, aid, be_now ev3), d))))"

section \<open>Waiting\<close>

fun flag_in :: "string option \<Rightarrow> message_out list \<Rightarrow> string option" where
  "flag_in expected [] = None"
| "flag_in expected (m # ms) =
     (case flag_search (case mo_body m of Some b \<Rightarrow> b | None \<Rightarrow> []) of
        None \<Rightarrow> flag_in expected ms
      | Some candidate \<Rightarrow>
          if expected = None \<or> expected = Some candidate then Some candidate else flag_in expected ms)"

text \<open>The polls that start before the deadline, each with the database it meets.\<close>

fun wait_for_flag ::
  "chat_config \<Rightarrow> string \<Rightarrow> string \<Rightarrow> int \<Rightarrow> string option \<Rightarrow> (benv \<times> db) list \<Rightarrow> string option" where
  "wait_for_flag cf token cid after_ts expected [] = None"
| "wait_for_flag cf token cid after_ts expected ((ev, d) # polls) =
     (case poll_messages cf ev token cid after_ts d of
        Inl e \<Rightarrow> wait_for_flag cf token cid after_ts expected polls
      | Inr ms \<Rightarrow>
          (case flag_in expected ms of
             Some f \<Rightarrow> Some f
           | None \<Rightarrow> wait_for_flag cf token cid after_ts expected polls))"

record delivery_result =
  dr_solved :: bool
  dr_flag :: "string option"
  dr_log :: "string list"

text \<open>The flag is part of the answer only when it may be revealed.\<close>

definition as_dict :: "bool \<Rightarrow> delivery_result \<Rightarrow> bool \<times> string list \<times> string option" where
  "as_dict reveal_flag r =
     (dr_solved r, dr_log r, if dr_solved r \<and> reveal_flag then dr_flag r else None)"

definition attempt_error :: "string list \<Rightarrow> string \<Rightarrow> delivery_result" where
  "attempt_error logs text = \<lparr> dr_solved = False, dr_flag = None, dr_log = logs @ [''Attempt error: '' @ text] \<rparr>"

text \<open>\<open>polls\<close> takes the database after the delivery to the snapshots that the polls meet; \<open>show_err\<close> is
  the text of an exception.\<close>

definition full_attempt ::
  "chat_config \<Rightarrow> (pyerr \<Rightarrow> string) \<Rightarrow> benv \<Rightarrow> benv \<Rightarrow> benv \<Rightarrow> benv \<Rightarrow> (db \<Rightarrow> (benv \<times> db) list) \<Rightarrow> int
     \<Rightarrow> string \<Rightarrow> string \<Rightarrow> string \<Rightarrow> bytes \<Rightarrow> string option \<Rightarrow> db \<Rightarrow> delivery_result \<times> db"
where
  "full_attempt cf show_err ev0 ev1 ev2 ev3 polls timeout phone handle victim rcard expected d =
     (let logs = [''Registering attacker account''] in
      case register_account cf ev0 phone handle handle [] d of
        (Inl e, d) \<Rightarrow> (attempt_error logs (show_err e), d)
      | (Inr token, d) \<Rightarrow>
     (let logs = logs @ [''Attacker registered: handle='' @ handle, ''Uploading .rcard and sending DM to victim''] in
      case deliver_rcard cf ev1 ev2 ev3 token victim rcard d of
        (Inl e, d) \<Rightarrow> (attempt_error logs (show_err e), d)
      | (Inr (cid, aid, send_ts), d) \<Rightarrow>
     (let logs = logs @ [''DM sent: conversation='' @ cid,
                         ''Watching for flag (timeout='' @ show_int timeout @ ''s)''] in
      case wait_for_flag cf token cid (send_ts - 5) expected (polls d) of
        Some flag \<Rightarrow> (\<lparr> dr_solved = True, dr_flag = Some flag, dr_log = logs @ [''Solve confirmed''] \<rparr>, d)
      | None \<Rightarrow> (\<lparr> dr_solved = False, dr_flag = None, dr_log = logs @ [''Timeout: no flag received''] \<rparr>, d))))"

section \<open>The payload arrives\<close>

lemma expecting_Inr:
  "expecting pick r = (Inr x, d) \<longleftrightarrow> (\<exists>a bs. r = (Inr a, d, bs) \<and> pick a = Some x)"
  by (cases r) (auto simp: expecting_def split: sum.splits option.splits)

lemma authorised_call:
  assumes "serve_api cf ev (token_header token) r d = (Inr a, d', bs)"
    and "case r of Register _ _ _ _ _ \<Rightarrow> False | Login _ _ \<Rightarrow> False | AdminReset \<Rightarrow> False | _ \<Rightarrow> True"
  shows "\<exists>u. get_user_id_from_token (be_now ev) d token = Some u \<and> user_api ev u r d = (Inr a, d', bs)"
  using assms
  by (cases r) (auto simp: serve_api_def token_header_def require_auth_def bearer_def split: option.splits)

lemma token_user: "db_wf d \<Longrightarrow> get_user_id_from_token now d token = Some u \<Longrightarrow> u \<in> us_id ` set (users d)"
  using db_wfD(2) by (fastforce simp: get_user_id_from_token_def refs_ok_def dest!: find_SomeD split: option.splits if_splits)

lemma upload_rcard_stores:
  assumes "upload_rcard cf ev token rcard name d = (Inr aid, d')"
  shows "\<exists>u a. get_user_id_from_token (be_now ev) d token = Some u \<and> aid = be_id ev
    \<and> user_api ev u (Upload name ''rcard'' ''application/octet-stream'' [rcard]) d = (Inr (AttachmentR (attachment_out_of a)), d', [])
    \<and> attachment_by_id d' aid = Some a \<and> at_filename a = name \<and> at_mime_type a = ''application/octet-stream''
    \<and> files d' (at_path a) = Some rcard \<and> users d' = users d \<and> messages d' = messages d"
proof -
  have mime: "py_strip (takeWhile (\<lambda>c. c \<noteq> CHR '';'') ''application/octet-stream'') = ''application/octet-stream''" by code_simp
  obtain a bs where "serve_api cf ev (token_header token) (Upload name ''rcard'' ''application/octet-stream'' [rcard]) d
      = (Inr a, d', bs)" and pick: "(case a of AttachmentR out \<Rightarrow> Some (ao_id out) | _ \<Rightarrow> None) = Some aid"
    using assms by (auto simp: upload_rcard_def expecting_Inr)
  from authorised_call [OF this(1)] obtain u where u: "get_user_id_from_token (be_now ev) d token = Some u"
    and api: "user_api ev u (Upload name ''rcard'' ''application/octet-stream'' [rcard]) d = (Inr a, d', bs)" by (auto simp del: user_api.simps)
  let ?path = "attachment_path (be_id ev)"
  let ?d = "d\<lparr> files := (files d)(?path \<mapsto> rcard) \<rparr>"
  let ?row = "\<lparr> at_id = be_id ev, at_uploader = u, at_filename = name, at_mime_type = ''application/octet-stream'',
    at_kind = ''rcard'', at_size = int (length rcard), at_path = ?path, at_created_at = be_now ev \<rparr>"
  have "insert_attachment ?row ?d = Some d' \<and> a = AttachmentR (attachment_out_of ?row) \<and> bs = []"
    using api pick mime
    by (simp add: upload_attachment_def Let_def fail_def crash_def answer_def split: if_splits option.splits)
  then have ins: "be_id ev \<notin> at_id ` set (attachments d)" "d' = ?d\<lparr> attachments := attachments d @ [?row] \<rparr>"
    and a: "a = AttachmentR (attachment_out_of ?row)" "bs = []"
    by (auto simp: insert_simps)
  have "find (\<lambda>x. at_id x = be_id ev) (attachments d) = None" using ins(1) find_key [of at_id "be_id ev" "attachments d"] by simp
  then have "attachment_by_id d' (be_id ev) = Some ?row" by (simp add: ins(2) attachment_by_id_def find_append)
  moreover have "aid = be_id ev" using pick by (simp add: a(1) attachment_out_of_def)
  ultimately show ?thesis using u api a by (intro exI [of _ u] exI [of _ ?row]) (simp add: ins(2))
qed

lemma client_open_dm_opens:
  assumes wf: "db_wf d" and o: "client_open_dm cf ev token target d = (Inr cid, d')"
    and t: "user_by_id_or_handle d target = Some v"
  shows "\<exists>u. get_user_id_from_token (be_now ev) d token = Some u \<and> is_member d' cid u \<and> is_member d' cid (us_id v)
    \<and> u \<noteq> us_id v \<and> chat_moves d d' \<and> attachments d' = attachments d \<and> files d' = files d"
proof -
  obtain a bs where "serve_api cf ev (token_header token) (OpenDm target) d = (Inr a, d', bs)"
    and pick: "(case a of DmR cid \<Rightarrow> Some cid | _ \<Rightarrow> None) = Some cid"
    using o by (auto simp: client_open_dm_def expecting_Inr)
  from authorised_call [OF this(1)] obtain u where tok: "get_user_id_from_token (be_now ev) d token = Some u"
    and "user_api ev u (OpenDm target) d = (Inr a, d', bs)" by (auto simp del: user_api.simps)
  then have od: "open_dm ev target u d = (Inr (DmR cid), d', bs)" using pick by (auto split: answer.splits)
  have v: "v \<in> set (users d)" using t by (auto simp: user_by_id_or_handle_def user_by_id_def user_by_handle_def
        dest!: find_SomeD split: option.splits)
  have ue: "user_by_id d u \<noteq> None" using token_user [OF wf tok] by (simp only: user_exists)
  have ve: "user_by_id d (us_id v) \<noteq> None" unfolding user_exists using v by simp
  have dm: "get_or_create_dm ev u (us_id v) d = (Some cid, d')" and ne: "u \<noteq> us_id v"
    using od t by (auto simp: open_dm_def fail_def crash_def answer_def split: if_splits prod.splits option.splits)
  have own: "user_by_id_or_handle d (us_id v) = Some v"
    using find_unique [of us_id "users d" v] v db_wfD(1) [OF wf] by (simp add: user_by_id_or_handle_def user_by_id_def keys_ok_def)
  have od': "open_dm ev (us_id v) u d = (Inr (DmR cid), d', bs)"
    using od t own by (simp add: open_dm_def)
  have "{w. is_member d' cid w} = {u, us_id v}" using open_dm_again [OF wf ue ve od'] by blast
  moreover have "chat_moves d d'" using open_dm_moves [OF wf, of ev target u] od by simp
  moreover have "attachments d' = attachments d \<and> files d' = files d"
    using dm_cases [OF wf ne, of ev] dm by auto
  ultimately show ?thesis using tok ne by blast
qed

lemma send_rcard_dm_sends:
  assumes "send_rcard_dm cf ev token cid aid d = (Inr mid, d')"
  shows "\<exists>u m. get_user_id_from_token (be_now ev) d token = Some u \<and> is_member d cid u \<and> messages d' = messages d @ [m]
    \<and> ms_conv m = cid \<and> ms_sender m = u \<and> ms_attachment m = Some aid \<and> members d' = members d
    \<and> attachments d' = attachments d \<and> files d' = files d"
proof -
  obtain a bs where "serve_api cf ev (token_header token) (SendMessage cid ''attachment'' None (Some aid) None) d = (Inr a, d', bs)"
    using assms by (auto simp: send_rcard_dm_def expecting_Inr)
  from authorised_call [OF this] obtain u where "get_user_id_from_token (be_now ev) d token = Some u"
    and "user_api ev u (SendMessage cid ''attachment'' None (Some aid) None) d = (Inr a, d', bs)" by (auto simp del: user_api.simps)
  then show ?thesis
    by (auto simp: send_message_def fail_def crash_def insert_simps Let_def split: if_splits option.splits)
qed

text \<open>
  When a delivery succeeds, the victim, and not only the attacker, can download the payload, byte for
  byte, from the conversation the delivery reports.
\<close>

lemma delivery_arrives:
  assumes wf: "db_wf d" and d: "deliver_rcard cf ev1 ev2 ev3 token target rcard d = (Inr (cid, aid, ts), d')"
    and t: "user_by_id_or_handle d target = Some v"
  shows "is_member d' cid (us_id v)
    \<and> user_api ev (us_id v) (Download aid) d' = (Inr (FileR ''payload.rcard'' ''application/octet-stream'' rcard), d', [])"
proof -
  obtain d1 d2 mid where up: "upload_rcard cf ev1 token rcard ''payload.rcard'' d = (Inr aid, d1)"
    and dm: "client_open_dm cf ev2 token target d1 = (Inr cid, d2)"
    and sd: "send_rcard_dm cf ev3 token cid aid d2 = (Inr mid, d')"
    using d by (auto simp: deliver_rcard_def split: prod.splits sum.splits)
  from upload_rcard_stores [OF up] obtain u a where
    api: "user_api ev1 u (Upload ''payload.rcard'' ''rcard'' ''application/octet-stream'' [rcard]) d = (Inr (AttachmentR (attachment_out_of a)), d1, [])"
    and a: "attachment_by_id d1 aid = Some a" "at_filename a = ''payload.rcard''" "at_mime_type a = ''application/octet-stream''"
      "files d1 (at_path a) = Some rcard" and us: "users d1 = users d" by blast
  have wf1: "db_wf d1" using wf_moves [OF upload_moves wf, of ev1 "''payload.rcard''" "''rcard''" "''application/octet-stream''" "[rcard]" u] api by simp
  have t1: "user_by_id_or_handle d1 target = Some v"
    using t us by (auto simp: user_by_id_or_handle_def user_by_id_def user_by_handle_def split: option.splits)
  from client_open_dm_opens [OF wf1 dm t1] have m2: "is_member d2 cid (us_id v)" "attachments d2 = attachments d1" "files d2 = files d1"
    by blast+
  from send_rcard_dm_sends [OF sd] obtain m where m: "messages d' = messages d2 @ [m]" "ms_conv m = cid"
    "ms_attachment m = Some aid" "members d' = members d2" "attachments d' = attachments d2" "files d' = files d2" by blast
  have "attachment_by_id d' aid = Some a" using a(1) m(5) m2(2) by (simp add: attachment_by_id_def)
  moreover have "attachment_access d' aid (us_id v)"
    using m m2(1) by (auto simp: attachment_access_def list_ex_iff is_member_def)
  ultimately show ?thesis
    using a m m2 by (simp add: download_attachment_def answer_def is_member_def)
qed

text \<open>A solved attempt has a flag that matches, and that is the expected one if there is one.\<close>

lemma flag_in_Some:
  "flag_in expected ms = Some f \<Longrightarrow>
     (expected = None \<or> expected = Some f) \<and> (\<exists>m \<in> set ms. \<exists>b. mo_body m = Some b \<and> flag_search b = Some f)"
proof (induction ms)
  case (Cons m ms)
  have "flag_search [] = None" by code_simp
  then show ?case using Cons by (auto split: option.splits if_splits)
qed simp

lemma wait_for_flag_Some:
  "wait_for_flag cf token cid ts expected polls = Some f \<Longrightarrow>
     (expected = None \<or> expected = Some f)
     \<and> (\<exists>(ev, d) \<in> set polls. \<exists>ms m b. poll_messages cf ev token cid ts d = Inr ms \<and> m \<in> set ms
          \<and> mo_body m = Some b \<and> flag_search b = Some f)"
proof (induction polls)
  case (Cons p polls)
  obtain ev d where p: "p = (ev, d)" by (cases p)
  show ?case
  proof (cases "poll_messages cf ev token cid ts d")
    case (Inr ms)
    then show ?thesis using Cons flag_in_Some [of expected ms f] by (cases "flag_in expected ms") (auto simp: p)
  qed (use Cons in \<open>auto simp: p\<close>)
qed simp

lemma attempt_solved:
  assumes "full_attempt cf show_err ev0 ev1 ev2 ev3 polls timeout phone handle target rcard expected d = (r, d')"
  shows "dr_solved r \<longleftrightarrow> dr_flag r \<noteq> None"
    and "dr_flag r = Some f \<Longrightarrow> (expected = None \<or> expected = Some f)"
    and "snd (snd (as_dict reveal r)) = (if reveal then dr_flag r else None)"
  using assms wait_for_flag_Some
  by (fastforce simp: full_attempt_def attempt_error_def as_dict_def Let_def split: prod.splits sum.splits option.splits)+

end
