(* ===== verification/Runner.thy ===== *)
theory Runner
  imports PoolInv Text
begin

text \<open>
  \<^verbatim>\<open>whisper/deploy/deploy/victim-runner/runner_api.py\<close>: the control interface beside each victim's emulator, to
  which the pool's threads send their requests. The device is an argument: a function \<open>adb\<close> that runs a command on a
  device state. The backend is two arguments, whether it answers and what token a registration yields. The files
  under \<^verbatim>\<open>/tmp\<close> are a map. Waiting times are left out, and so is the lock shared with the watchdog script,
  which \<^verbatim>\<open>_do_reset\<close> goes on without when it cannot have it.
\<close>

section \<open>The device and the files\<close>

text \<open>Exit code, output and errors of a command; \<open>None\<close> is an exception or a timeout.\<close>

type_synonym 'd adb = "string \<Rightarrow> string list \<Rightarrow> 'd \<Rightarrow> (int \<times> string \<times> string) option \<times> 'd"

type_synonym tmp_files = "string \<Rightarrow> string option"

definition HANDLE_FILE :: string where "HANDLE_FILE = ''/tmp/victim_handle''"
definition PHONE_FILE :: string where "PHONE_FILE = ''/tmp/victim_phone''"
definition PASSWORD_FILE :: string where "PASSWORD_FILE = ''/tmp/victim_password''"
definition DEVICE_BACKEND :: string where "DEVICE_BACKEND = ''http://10.0.2.2:8000''"

record runner_config =
  ru_handle :: string
  ru_phone :: string
  ru_display :: string
  ru_password :: string
  ru_instance :: string
  ru_admin_token :: string

definition read_file :: "string \<Rightarrow> string \<Rightarrow> tmp_files \<Rightarrow> string" where
  "read_file path absent fs = (case fs path of Some content \<Rightarrow> py_strip content | None \<Rightarrow> absent)"

definition write_file :: "string \<Rightarrow> string \<Rightarrow> tmp_files \<Rightarrow> tmp_files" where
  "write_file path content fs = fs(path \<mapsto> content)"

definition current_handle :: "runner_config \<Rightarrow> tmp_files \<Rightarrow> string" where
  "current_handle cf = read_file HANDLE_FILE (ru_handle cf)"

definition current_phone :: "runner_config \<Rightarrow> tmp_files \<Rightarrow> string" where
  "current_phone cf = read_file PHONE_FILE (ru_phone cf)"

definition current_password :: "runner_config \<Rightarrow> tmp_files \<Rightarrow> string" where
  "current_password cf = read_file PASSWORD_FILE (ru_password cf)"

definition get_serial :: "tmp_files \<Rightarrow> string" where
  "get_serial = read_file ''/tmp/emulator_serial'' []"

definition get_app_uid :: "tmp_files \<Rightarrow> string" where
  "get_app_uid = read_file ''/tmp/app_uid'' ''10110''"

text \<open>The first sixteen hexadecimal digits of the digest are its first eight bytes.\<close>

definition derive_phone :: "(bytes \<Rightarrow> 256 word) \<Rightarrow> string \<Rightarrow> string" where
  "derive_phone H handle =
     (let digits = from_bytes_big (take 8 (sha256_bytes H (utf8_bytes handle))) mod 10000000000
      in ''+1'' @ zfill 10 (decimal digits))"

definition persist_identity :: "string \<Rightarrow> string \<Rightarrow> string option \<Rightarrow> tmp_files \<Rightarrow> tmp_files" where
  "persist_identity handle phone password fs =
     (let fs = write_file PHONE_FILE phone (write_file HANDLE_FILE handle fs) in
      case password of None \<Rightarrow> fs | Some pw \<Rightarrow> write_file PASSWORD_FILE pw fs)"

definition adb_run :: "'d adb \<Rightarrow> string \<Rightarrow> string list \<Rightarrow> 'd \<Rightarrow> (int \<times> string) \<times> 'd" where
  "adb_run adb serial args v =
     (case adb serial args v of
        (None, v) \<Rightarrow> ((- 1, []), v)
      | (Some (rc, out, err), v) \<Rightarrow> ((rc, py_strip out), v))"

definition adb_shell :: "'d adb \<Rightarrow> string \<Rightarrow> string \<Rightarrow> 'd \<Rightarrow> string \<times> 'd" where
  "adb_shell adb serial cmd v = (let ((rc, out), v) = adb_run adb serial [''shell'', cmd] v in (out, v))"

definition whisperd_pid :: "'d adb \<Rightarrow> string \<Rightarrow> 'd \<Rightarrow> string option \<times> 'd" where
  "whisperd_pid adb serial v =
     (let (out, v) = adb_shell adb serial ''pgrep -x whisperd 2>/dev/null | head -1'' v;
          pid = filter (\<lambda>c. c \<noteq> CHR 0x0D) (py_strip out)
      in (if pid = [] then None else Some pid, v))"

definition flag_present :: "'d adb \<Rightarrow> string \<Rightarrow> 'd \<Rightarrow> bool \<times> 'd" where
  "flag_present adb serial v =
     (let (out, v) = adb_shell adb serial ''ls /flag.txt 2>&1'' v
      in (find_sub ''No such file'' out = None \<and> find_sub ''not found'' (map ascii_lower out) = None, v))"

section \<open>Flags\<close>

text \<open>\<^verbatim>\<open>^r3ctf\{[^}]+\}$\<close>, ignoring case; \<^verbatim>\<open>$\<close> also matches before a final newline.\<close>

definition flag_text :: "string \<Rightarrow> bool" where
  "flag_text s \<longleftrightarrow>
     map ascii_lower (take 6 s) = ''r3ctf{'' \<and> 8 \<le> length s \<and> last s = CHR ''}'' \<and> CHR ''}'' \<notin> set (butlast (drop 6 s))"

definition flag_re :: "string \<Rightarrow> bool" where
  "flag_re s \<longleftrightarrow> flag_text s \<or> (s \<noteq> [] \<and> last s = CHR 0x0A \<and> flag_text (butlast s))"

definition flag_command :: "string \<Rightarrow> string" where
  "flag_command flag =
     (let q = [CHR 0x27]; src = ''/data/local/tmp/.whisperflag'' in
      ''(umask 077; printf '' @ q @ ''%s'' @ q @ '' '' @ q @ flag @ q @ '' > '' @ src @ '') && ''
      @ ''chmod 600 '' @ src @ '' && chown root:root '' @ src @ '' && ''
      @ ''if ! grep -q '' @ q @ '' /flag.txt '' @ q @ '' /proc/mounts; then mount --bind '' @ src @ '' /flag.txt; fi'')"

definition write_flag :: "'d adb \<Rightarrow> string \<Rightarrow> string \<Rightarrow> 'd \<Rightarrow> bool \<times> 'd" where
  "write_flag adb serial flag v =
     (if \<not> flag_re flag then (False, v)
      else
        let ((rc, out), v) = adb_run adb serial [''shell'', flag_command flag] v in
        if rc \<noteq> 0 then (False, v)
        else
          let ((rc2, readback), v) = adb_run adb serial [''shell'', ''cat /flag.txt''] v
          in (rc2 = 0 \<and> py_strip readback = flag, v))"

section \<open>Provisioning\<close>

definition ensure_whisperd :: "'d adb \<Rightarrow> string \<Rightarrow> string \<Rightarrow> 'd \<Rightarrow> string option \<times> 'd" where
  "ensure_whisperd adb serial app_uid v =
     (let (_, v) = adb_shell adb serial ''pkill -x whisperd 2>/dev/null; true'' v;
          (_, v) = adb_shell adb serial (''( WHISPERD_APP_UID='' @ app_uid @ '' setsid /data/local/tmp/whisperd''
                     @ '' >/data/local/tmp/whisperd.log 2>&1 </dev/null & ) ; sleep 1'') v
      in whisperd_pid adb serial v)"

text \<open>The turns of the loop that start before the deadline.\<close>

fun wait_app_ws_ready :: "'d adb \<Rightarrow> string \<Rightarrow> nat \<Rightarrow> 'd \<Rightarrow> bool \<times> 'd" where
  "wait_app_ws_ready adb serial 0 v = (False, v)"
| "wait_app_ws_ready adb serial (Suc turns) v =
     (let (out, v) = adb_shell adb serial (''logcat -d 2>/dev/null | grep -m1 '' @ [CHR 0x27] @ ''WebSocket opened'' @ [CHR 0x27]) v in
      if find_sub ''WebSocket opened'' out \<noteq> None then (True, v) else wait_app_ws_ready adb serial turns v)"

definition provision_app :: "'d adb \<Rightarrow> string \<Rightarrow> nat \<Rightarrow> string \<Rightarrow> string \<Rightarrow> 'd \<Rightarrow> bool \<times> 'd" where
  "provision_app adb serial turns token handle v =
     (let q = [CHR 0x27];
          (_, v) = adb_shell adb serial ''am force-stop com.whisper.app 2>/dev/null || true'' v;
          (_, v) = adb_shell adb serial ''logcat -c 2>/dev/null || true'' v in
      if token \<noteq> [] then
        let (_, v) = adb_shell adb serial (''am start -n com.whisper.app/.MainActivity -a android.intent.action.MAIN''
                       @ '' --es provision_token '' @ q @ token @ q @ '' --es provision_backend '' @ q @ DEVICE_BACKEND @ q
                       @ '' --es provision_handle '' @ q @ handle @ q) v;
            (_, v) = wait_app_ws_ready adb serial turns v
        in (True, v)
      else
        let (_, v) = adb_shell adb serial ''am start -n com.whisper.app/.MainActivity -a android.intent.action.MAIN'' v;
            (_, v) = wait_app_ws_ready adb serial turns v
        in (False, v))"

section \<open>Requests\<close>

text \<open>What the runner reaches of its surroundings at a request.\<close>

record 'd surroundings =
  su_adb :: "'d adb"
  su_digest :: "bytes \<Rightarrow> 256 word"
  su_backend_up :: bool
  su_register :: "json \<Rightarrow> string option"
  su_turns :: nat

definition registration :: "runner_config \<Rightarrow> tmp_files \<Rightarrow> string \<Rightarrow> string \<Rightarrow> json" where
  "registration cf fs handle phone =
     JObj [(''phone'', JStr phone), (''handle'', JStr handle), (''display_name'', JStr (ru_display cf)),
           (''password'', JStr (current_password cf fs)), (''is_victim'', JBool True)]"

text \<open>A registration that fails, or whose answer has no token, gives the empty token.\<close>

definition register_victim :: "'d surroundings \<Rightarrow> runner_config \<Rightarrow> tmp_files \<Rightarrow> string \<Rightarrow> string \<Rightarrow> string" where
  "register_victim su cf fs handle phone =
     (case su_register su (registration cf fs handle phone) of Some token \<Rightarrow> token | None \<Rightarrow> [])"

definition check_admin_token :: "runner_config \<Rightarrow> string \<Rightarrow> bool" where
  "check_admin_token cf authorization \<longleftrightarrow> ru_admin_token cf = [] \<or> authorization = ''Bearer '' @ ru_admin_token cf"

text \<open>\<^verbatim>\<open>body.get(k) or ""\<close>, and the string without its surrounding space.\<close>

definition field_or_empty :: "(string \<times> json) list \<Rightarrow> string \<Rightarrow> json" where
  "field_or_empty kvs k = (case map_of kvs k of Some v \<Rightarrow> if py_truthy v then v else JStr [] | None \<Rightarrow> JStr [])"

definition stripped :: "json \<Rightarrow> string res" where
  "stripped v = (case v of JStr s \<Rightarrow> Inr (py_strip s) | _ \<Rightarrow> Inl AttributeError)"

definition new_identity :: "(bytes \<Rightarrow> 256 word) \<Rightarrow> (string \<times> json) list \<Rightarrow> (string \<times> string) option res" where
  "new_identity H kvs =
     (let raw_handle = field_or_empty kvs ''victim_handle''; raw_phone = field_or_empty kvs ''victim_phone'' in
      if py_truthy raw_handle then
        ebind (stripped raw_handle) (\<lambda>handle.
        ebind (stripped raw_phone) (\<lambda>phone.
        Inr (Some (handle, if phone \<noteq> [] then phone else derive_phone H handle))))
      else Inr None)"

datatype runner_reply =
    RunnerError int string
  | ResetDone string string string "string option" string
  | HealthReport string string bool string string bool "string option"
  | Recycling

text \<open>The part of a reset that works on the device, once the identity is settled.\<close>

definition device_reset ::
  "'d surroundings \<Rightarrow> runner_config \<Rightarrow> string \<Rightarrow> string \<Rightarrow> string option \<Rightarrow> tmp_files \<Rightarrow> 'd \<Rightarrow> runner_reply \<times> 'd" where
  "device_reset su cf serial app_uid new_flag fs v =
     (let adb = su_adb su; handle = current_handle cf fs; phone = current_phone cf fs;
          (_, v) = adb_run adb serial [''root''] v;
          (_, v) = adb_run adb serial [''wait-for-device''] v;
          (_, v) = adb_shell adb serial ''setenforce 0 2>/dev/null || true'' v;
          (present, v) = flag_present adb serial v in
      if \<not> present then (RunnerError 500 ''/flag.txt missing on device; full re-provision required'', v)
      else
        let (ok, v) = (case new_flag of None \<Rightarrow> (True, v) | Some flag \<Rightarrow> write_flag adb serial flag v) in
        if \<not> ok then (RunnerError 500 ''failed to write flag to device'', v)
        else
          let token = (if su_backend_up su then register_victim su cf fs handle phone else []);
              (wpid, v) = whisperd_pid adb serial v;
              (wpid, v) = (case wpid of None \<Rightarrow> ensure_whisperd adb serial app_uid v | Some p \<Rightarrow> (Some p, v));
              (_, v) = provision_app adb serial (su_turns su) token handle v
          in (ResetDone (ru_instance cf) serial app_uid wpid handle, v))"

text \<open>\<open>Inl\<close> is an exception of the handler, which closes the connection. A body that is not an object has no fields.\<close>

definition do_reset ::
  "'d surroundings \<Rightarrow> runner_config \<Rightarrow> json \<Rightarrow> tmp_files \<Rightarrow> 'd \<Rightarrow> runner_reply res \<times> tmp_files \<times> 'd" where
  "do_reset su cf body fs v =
     (let serial = get_serial fs; app_uid = get_app_uid fs; kvs = (case body of JObj kvs \<Rightarrow> kvs | _ \<Rightarrow> []) in
      if serial = []
      then (Inr (RunnerError 503 ''emulator serial not known; entrypoint may still be provisioning''), fs, v)
      else
        case ebind (new_identity (su_digest su) kvs) (\<lambda>identity.
             ebind (stripped (field_or_empty kvs ''flag'')) (\<lambda>flag. Inr (identity, flag))) of
          Inl e \<Rightarrow> (Inl e, fs, v)
        | Inr (identity, flag) \<Rightarrow>
            if flag \<noteq> [] \<and> \<not> flag_re flag
            then (Inr (RunnerError 400 ''invalid flag format: must match R3CTF{...}''), fs, v)
            else
              case (case identity of
                      None \<Rightarrow> Inr fs
                    | Some (handle, phone) \<Rightarrow>
                        if handle = [] then Inr fs
                        else ebind (stripped (field_or_empty kvs ''victim_password'')) (\<lambda>pw.
                          Inr (persist_identity handle phone (if pw = [] then None else Some pw) fs))) of
                Inl e \<Rightarrow> (Inl e, fs, v)
              | Inr fs \<Rightarrow>
                  let (r, v) = device_reset su cf serial app_uid (if flag = [] then None else Some flag) fs v
                  in (Inr r, fs, v))"

text \<open>\<open>busy\<close> says that another reset holds the lock.\<close>

definition handle_reset ::
  "'d surroundings \<Rightarrow> runner_config \<Rightarrow> string \<Rightarrow> bool \<Rightarrow> json \<Rightarrow> tmp_files \<Rightarrow> 'd \<Rightarrow> runner_reply res \<times> tmp_files \<times> 'd" where
  "handle_reset su cf authorization busy body fs v =
     (if \<not> check_admin_token cf authorization then (Inr (RunnerError 401 ''missing or invalid admin token''), fs, v)
      else if busy then (Inr (RunnerError 409 ''reset already in progress''), fs, v)
      else do_reset su cf body fs v)"

definition handle_health :: "'d surroundings \<Rightarrow> runner_config \<Rightarrow> tmp_files \<Rightarrow> 'd \<Rightarrow> runner_reply \<times> 'd" where
  "handle_health su cf fs v =
     (let serial = get_serial fs;
          report = (\<lambda>boot flag pid. HealthReport (ru_instance cf) (current_handle cf fs) boot
                      (if serial \<noteq> [] then serial else ''unknown'') (get_app_uid fs) flag pid) in
      if serial = [] then (report False False None, v)
      else
        let ((rc, out), v) = adb_run (su_adb su) serial [''shell'', ''getprop sys.boot_completed''] v in
        if py_strip out = ''1'' then
          let (flag_ok, v) = flag_present (su_adb su) serial v; (wpid, v) = whisperd_pid (su_adb su) serial v
          in (report True flag_ok wpid, v)
        else (report False False None, v))"

text \<open>A request to \<^verbatim>\<open>/recycle\<close> is answered, and then the process ends.\<close>

datatype runner_request = GetPath string | PostPath string string bool json

definition runner_handle ::
  "'d surroundings \<Rightarrow> runner_config \<Rightarrow> runner_request \<Rightarrow> tmp_files \<Rightarrow> 'd \<Rightarrow> runner_reply res \<times> tmp_files \<times> 'd" where
  "runner_handle su cf rq fs v =
     (case rq of
        GetPath path \<Rightarrow>
          if path = ''/health'' then let (r, v) = handle_health su cf fs v in (Inr r, fs, v)
          else (Inr (RunnerError 404 ''not found''), fs, v)
      | PostPath path authorization busy body \<Rightarrow>
          if path = ''/reset'' then handle_reset su cf authorization busy body fs v
          else if path = ''/recycle'' then (Inr Recycling, fs, v)
          else (Inr (RunnerError 404 ''not found''), fs, v))"

section \<open>The pool's request\<close>

text \<open>The body that \<^verbatim>\<open>_reset_runner\<close> of the pool sends for an instance; the pool stores no password there.\<close>

definition reset_body :: "inst \<Rightarrow> json" where
  "reset_body i =
     (let text = (\<lambda>x. case x of None \<Rightarrow> JNull | Some s \<Rightarrow> JStr s) in
      JObj ([(''victim_handle'', text (in_handle i)), (''victim_phone'', text (in_phone i))]
        @ (case in_flag i of Some f \<Rightarrow> if f \<noteq> [] then [(''flag'', JStr f)] else [] | None \<Rightarrow> [])))"

section \<open>Properties\<close>

text \<open>A flag that counts as written was read back from the device.\<close>

lemma write_flag_reads:
  assumes "write_flag adb serial flag v = (True, v')"
  shows "flag_re flag \<and> (\<exists>v1 out err. adb serial [''shell'', ''cat /flag.txt''] v1 = (Some (0, out, err), v')
    \<and> py_strip (py_strip out) = flag)"
  using assms by (auto simp: write_flag_def adb_run_def Let_def split: if_splits prod.splits option.splits)

lemma device_reset_done:
  assumes "device_reset su cf serial app_uid new_flag fs v = (ResetDone i s a p h, v')"
  shows "h = current_handle cf fs \<and> s = serial \<and> i = ru_instance cf \<and> a = app_uid
    \<and> (\<forall>flag. new_flag = Some flag \<longrightarrow> (\<exists>v1 v2. write_flag (su_adb su) serial flag v1 = (True, v2)))"
  using assms by (auto simp: device_reset_def Let_def split: if_splits prod.splits option.splits)

lemma device_reset_error: "device_reset su cf serial app_uid new_flag fs v = (RunnerError c t, v') \<Longrightarrow> c = 500"
  by (auto simp: device_reset_def Let_def split: if_splits prod.splits option.splits)

text \<open>The identity and the flag that a body asks for.\<close>

definition asks ::
  "(bytes \<Rightarrow> 256 word) \<Rightarrow> json \<Rightarrow> (string \<times> string) option \<Rightarrow> string \<Rightarrow> bool" where
  "asks H body identity flag \<longleftrightarrow>
     (\<exists>kvs. kvs = (case body of JObj kvs \<Rightarrow> kvs | _ \<Rightarrow> []) \<and> new_identity H kvs = Inr identity
        \<and> stripped (field_or_empty kvs ''flag'') = Inr flag)"

text \<open>
  A reset that is done has made the requested handle and phone the current ones, and if a flag was
  sent, it has the format of a flag and the device gave it back.
\<close>

lemma reset_done:
  assumes "do_reset su cf body fs v = (Inr (ResetDone i s a p h), fs', v')" and "asks (su_digest su) body identity flag"
  shows "h = current_handle cf fs'
    \<and> (\<forall>handle phone. identity = Some (handle, phone) \<and> handle \<noteq> []
         \<longrightarrow> fs' HANDLE_FILE = Some handle \<and> fs' PHONE_FILE = Some phone)
    \<and> (identity = None \<longrightarrow> fs' = fs)
    \<and> (flag \<noteq> [] \<longrightarrow> flag_re flag \<and> (\<exists>v1 out err v2.
         su_adb su (get_serial fs) [''shell'', ''cat /flag.txt''] v1 = (Some (0, out, err), v2) \<and> py_strip (py_strip out) = flag))"
proof -
  let ?kvs = "case body of JObj kvs \<Rightarrow> kvs | _ \<Rightarrow> []"
  have id: "new_identity (su_digest su) ?kvs = Inr identity" and fl: "stripped (field_or_empty ?kvs ''flag'') = Inr flag"
    using assms(2) by (simp_all add: asks_def)
  obtain fs1 where dev: "device_reset su cf (get_serial fs) (get_app_uid fs) (if flag = [] then None else Some flag) fs1 v
      = (ResetDone i s a p h, v')" and fs': "fs' = fs1"
    and st: "(case identity of None \<Rightarrow> Inr fs
       | Some (handle, phone) \<Rightarrow> if handle = [] then Inr fs
           else ebind (stripped (field_or_empty ?kvs ''victim_password'')) (\<lambda>pw.
             Inr (persist_identity handle phone (if pw = [] then None else Some pw) fs))) = Inr fs1"
    using assms(1) id fl unfolding do_reset_def Let_def
    by (auto split: if_splits sum.splits prod.splits)
  have files: "PHONE_FILE \<noteq> HANDLE_FILE" "PASSWORD_FILE \<noteq> HANDLE_FILE" "PASSWORD_FILE \<noteq> PHONE_FILE"
    by (simp_all add: HANDLE_FILE_def PHONE_FILE_def PASSWORD_FILE_def)
  have "fs1 HANDLE_FILE = Some handle \<and> fs1 PHONE_FILE = Some phone" if "identity = Some (handle, phone)" "handle \<noteq> []" for handle phone
    using st that files by (auto simp: res_simps persist_identity_def write_file_def Let_def split: if_splits)
  moreover have "identity = None \<longrightarrow> fs1 = fs" using st by auto
  moreover have "flag_re flag \<and> (\<exists>v1 out err v2.
      su_adb su (get_serial fs) [''shell'', ''cat /flag.txt''] v1 = (Some (0, out, err), v2) \<and> py_strip (py_strip out) = flag)"
    if ne: "flag \<noteq> []"
  proof -
    obtain v1 v2 where "write_flag (su_adb su) (get_serial fs) flag v1 = (True, v2)"
      using device_reset_done [OF dev] ne by auto
    from write_flag_reads [OF this] show ?thesis by blast
  qed
  ultimately show ?thesis using fs' device_reset_done [OF dev] by blast
qed

text \<open>A request that is refused has touched neither the files nor the device.\<close>

lemma do_reset_refused:
  "do_reset su cf body fs v = (Inr (RunnerError code text), fs', v') \<Longrightarrow> code \<noteq> 500 \<Longrightarrow> fs' = fs \<and> v' = v"
  by (auto simp: do_reset_def Let_def split: if_splits sum.splits prod.splits dest: device_reset_error)

lemma refused_unchanged:
  assumes "runner_handle su cf rq fs v = (Inr (RunnerError code text), fs', v')" and "code \<noteq> 500"
  shows "fs' = fs \<and> v' = v"
proof (cases rq)
  case (GetPath path)
  have "fst (handle_health su cf fs v) \<noteq> RunnerError code text"
    by (auto simp: handle_health_def Let_def split: prod.splits)
  then show ?thesis using assms(1) by (auto simp: GetPath runner_handle_def split: if_splits prod.splits)
next
  case (PostPath path authorization busy body)
  then show ?thesis using assms do_reset_refused [of su cf body fs v code _ fs' v']
    by (auto simp: runner_handle_def handle_reset_def split: if_splits)
qed

text \<open>The body that the pool sends names the handle, the phone and the flag of the lease.\<close>

lemma reset_body_asks:
  assumes "in_handle i = Some h" and "in_phone i = Some ph" and "in_flag i = Some f"
    and "h \<noteq> []" "ph \<noteq> []" "py_strip h = h" "py_strip ph = ph" "py_strip f = f"
  shows "asks H (reset_body i) (Some (h, ph)) f"
  using assms by (auto simp: asks_def reset_body_def new_identity_def field_or_empty_def stripped_def Let_def)

text \<open>What the pool assigns to an instance can be sent as it is: the handle and the phone are plain text.\<close>

lemma plain_hex: "c \<in> set (bytes_hex b) \<Longrightarrow> \<not> is_space c"
proof -
  have "0 \<le> uint w div 16 \<and> uint w div 16 < 16 \<and> 0 \<le> uint w mod 16 \<and> uint w mod 16 < 16" for w :: byte
  proof -
    have "0 \<le> uint w" "uint w < 256" using uint_lt2p [of w] by simp_all
    then show ?thesis by presburger
  qed
  with digit_not_space show "c \<in> set (bytes_hex b) \<Longrightarrow> \<not> is_space c" by (auto simp: bytes_hex_def)
qed

lemma strip_plain: "s \<noteq> [] \<Longrightarrow> \<forall>c \<in> set s. \<not> is_space c \<Longrightarrow> py_strip s = s"
  by (intro strip_id) simp_all

lemma plain_decimal:
  assumes "0 \<le> n" and "c \<in> set (decimal n)"
  shows "\<not> is_space c"
proof -
  obtain d where "0 \<le> d" "d < 10" "c = dec_digit d" using decimal_digits [OF assms] by blast
  then show ?thesis using dec_digit_props [of d] by blast
qed

lemma assigned_identity:
  assumes "do_assign cf now t iid p = (Inr (), p')" and "find_inst p' iid = Some i"
  obtains h ph f where "get_team_flag (pl_flags p) t = Inr (Some f)"
    "in_handle i = Some h" "in_phone i = Some ph" "in_flag i = Some f" "in_team i = Some t"
    "h \<noteq> []" "ph \<noteq> []" "py_strip h = h" "py_strip ph = ph"
proof -
  let ?x = "pl_entropy p (pl_drawn p) mod 256 ^ 12" and ?y = "pl_entropy p (Suc (pl_drawn p)) mod 10 ^ 9"
  let ?h = "''v'' @ bytes_hex (to_bytes_big 12 ?x)" and ?ph = "''+1555'' @ zfill 9 (decimal ?y)"
  obtain f where f: "get_team_flag (pl_flags p) t = Inr (Some f)"
    using assms(1) by (auto simp: do_assign_def split: sum.splits option.splits)
  then have i: "in_handle i = Some ?h" "in_phone i = Some ?ph" "in_flag i = Some f" "in_team i = Some t"
    using assms by (auto simp: do_assign_def make_victim_identity_def draw_def Let_def find_inst_def upd_inst_def
        upd_team_def map_entry_conv)
  have "\<not> is_space CHR ''v''" "\<not> is_space CHR ''+''" "\<not> is_space CHR ''1''" "\<not> is_space CHR ''5''" "\<not> is_space CHR ''0''"
    by code_simp+
  moreover have "0 \<le> ?y" by simp
  ultimately have "\<forall>c \<in> set ?h. \<not> is_space c" "\<forall>c \<in> set ?ph. \<not> is_space c"
    using plain_hex plain_decimal [of ?y] by (auto simp: zfill_def)
  then have strip: "py_strip ?h = ?h" "py_strip ?ph = ?ph" by (intro strip_plain; simp)+
  show ?thesis by (rule that [OF f i _ _ strip]) simp_all
qed

text \<open>
  From the pool to the device: when the runner reports the reset of an instance that was just
  assigned, its handle is the instance's, and the flag read back from the device is the team's.
\<close>

lemma reset_serves_lease:
  assumes "do_assign cf now t iid p = (Inr (), p')" and "find_inst p' iid = Some i"
    and "get_team_flag (pl_flags p) t = Inr (Some flag)" and "flag \<noteq> []" and "py_strip flag = flag"
    and "do_reset su rcf (reset_body i) fs v = (Inr (ResetDone ri serial uid pid h), fs', v')"
  shows "in_team i = Some t \<and> in_handle i = Some h
    \<and> (\<exists>v1 out err v2. su_adb su (get_serial fs) [''shell'', ''cat /flag.txt''] v1 = (Some (0, out, err), v2)
         \<and> py_strip (py_strip out) = flag)"
proof -
  obtain h' ph where i: "in_handle i = Some h'" "in_phone i = Some ph" "in_flag i = Some flag" "in_team i = Some t"
    "h' \<noteq> []" "ph \<noteq> []" "py_strip h' = h'" "py_strip ph = ph"
    using assigned_identity [OF assms(1,2)] assms(3) by (metis sum.inject(2) option.inject)
  note d = reset_done [OF assms(6) reset_body_asks [OF i(1-3,5-8) assms(5)]]
  then have "h = h'" using i by (simp add: current_handle_def read_file_def)
  with d i assms(4) show ?thesis by blast
qed

end
