(* ===== verification/Blinky.thy ===== *)
theory Blinky
  imports Decimal Text "HOL-Library.AList"
begin

text \<open>
  \<^verbatim>\<open>blinky/deploy/server/server.py\<close>: a submission, the memory below \<open>0x2000\<close>, is put onto the secret
  kernel image, and the simulator runs the result. The simulator is the argument \<open>sim\<close>, from the text of
  \<^verbatim>\<open>memory.mem\<close> to what it prints; the contents of the two kernel files are arguments, and the random key
  of a run is a draw. Python's dictionaries are association lists in the order of insertion.
\<close>

definition LINE_SIZE :: nat where "LINE_SIZE = 64"
definition KERNEL_LINE :: int where "KERNEL_LINE = 128"
definition MAX_OUTPUT :: nat where "MAX_OUTPUT = 32 * 1024"
definition MAX_UPLOAD :: int where "MAX_UPLOAD = 64 * 1024"
definition SIM_TIMEOUT :: int where "SIM_TIMEOUT = 120"
definition PAC_KEY_SENTINEL :: int where "PAC_KEY_SENTINEL = 0xB16B00B5DEADC0DE"

text \<open>Line address and the 128 hexadecimal digits of its bytes, the last byte first.\<close>

type_synonym records = "(int \<times> string) list"

section \<open>Reading images\<close>

definition text_lines :: "(char \<Rightarrow> bool) \<Rightarrow> string \<Rightarrow> string list" where
  "text_lines ends text = filter (\<lambda>t. t \<noteq> []) (map py_strip (split_ws ends [] text))"

text \<open>The ends of lines when a text file is read, and those of \<^verbatim>\<open>splitlines\<close> on ASCII text.\<close>

definition file_line_end :: "char \<Rightarrow> bool" where
  "file_line_end c \<longleftrightarrow> (of_char c :: nat) \<in> {10, 13}"

definition ascii_line_end :: "char \<Rightarrow> bool" where
  "ascii_line_end c \<longleftrightarrow> (of_char c :: nat) \<in> {10, 11, 12, 13, 28, 29, 30}"

fun load_records :: "string list \<Rightarrow> records \<Rightarrow> records res" where
  "load_records [] recs = Inr recs"
| "load_records (t # ts) recs =
     (if take 1 t \<noteq> ''@'' then Inl ValueError
      else case ts of
             [] \<Rightarrow> Inl IndexError
           | d # ts \<Rightarrow> ebind (py_int16 (drop 1 t)) (\<lambda>la. load_records ts (AList.update la d recs)))"

definition load_mem :: "string \<Rightarrow> records res" where
  "load_mem content = load_records (text_lines file_line_end content) []"

definition hex_line :: "bytes \<Rightarrow> string" where
  "hex_line chunk = bytes_hex (rev (chunk @ replicate (LINE_SIZE - length chunk) 0))"

definition raw_to_recs :: "bytes \<Rightarrow> records" where
  "raw_to_recs data =
     map (\<lambda>k. (int k, hex_line (take LINE_SIZE (drop (k * LINE_SIZE) data))))
       [0..<(length data + LINE_SIZE - 1) div LINE_SIZE]"

fun submitted_records :: "string list \<Rightarrow> records \<Rightarrow> records res" where
  "submitted_records [] recs = Inr recs"
| "submitted_records (t # ts) recs =
     (if take 1 t \<noteq> ''@'' then Inl ValueError
      else
        ebind (py_int16 (drop 1 t)) (\<lambda>la.
        case ts of
          [] \<Rightarrow> Inl IndexError
        | d # ts \<Rightarrow>
            if length d \<noteq> LINE_SIZE * 2 \<or> list_ex (\<lambda>c. hex_value c = None) d then Inl ValueError
            else submitted_records ts (AList.update la (map ascii_lower d) recs)))"

text \<open>The text of a body of ASCII characters.\<close>

definition ascii_text :: "bytes \<Rightarrow> string option" where
  "ascii_text body = (if list_all (\<lambda>b. b < 128) body then Some (map (\<lambda>b. char_of (unat b)) body) else None)"

definition parse_submission :: "bytes \<Rightarrow> records res" where
  "parse_submission body =
     ebind
       (case ascii_text body of
          Some text \<Rightarrow>
            if take 1 (dropWhile is_space text) = ''@''
            then submitted_records (text_lines ascii_line_end text) [] else Inr (raw_to_recs body)
        | None \<Rightarrow> Inr (raw_to_recs body))
       (\<lambda>recs. let user = filter (\<lambda>(la, d). la < KERNEL_LINE) recs
               in if user = [] then Inl ValueError else Inr user)"

section \<open>The kernel\<close>

definition patched :: "nat \<Rightarrow> bytes \<Rightarrow> bytes \<Rightarrow> bytes" where
  "patched i new bs = take i bs @ new @ drop (i + 8) bs"

fun replace_dword_le :: "records \<Rightarrow> bytes \<Rightarrow> bytes \<Rightarrow> (int option \<times> records) res" where
  "replace_dword_le [] sentinel new = Inr (None, [])"
| "replace_dword_le ((la, d) # recs) sentinel new =
     ebind (bytes_fromhex d) (\<lambda>b.
       let asc = rev b in
       case find_sub sentinel asc of
         Some idx \<Rightarrow> Inr (Some la, (la, bytes_hex (rev (patched idx new asc))) # recs)
       | None \<Rightarrow> ebind (replace_dword_le recs sentinel new) (\<lambda>(r, recs). Inr (r, (la, d) # recs)))"

text \<open>The files are \<open>None\<close> where they do not exist; opening a missing one raises.\<close>

definition kernel_records :: "string option \<Rightarrow> string option \<Rightarrow> records rnd" where
  "kernel_records kernel_template kernel_mem =
     (case kernel_template of
        Some content \<Rightarrow>
          rbind (rlift (load_mem content)) (\<lambda>recs.
          rbind (randbelow (2 ^ 64)) (\<lambda>key.
          rlift (ebind (replace_dword_le recs (to_bytes_little 8 PAC_KEY_SENTINEL) (to_bytes_little 8 key))
            (\<lambda>(la, recs). if la = None then Inl RuntimeError else Inr recs))))
      | None \<Rightarrow>
          (case kernel_mem of None \<Rightarrow> rlift (Inl RuntimeError) | Some content \<Rightarrow> rlift (load_mem content)))"

section \<open>A run\<close>

definition spliced :: "records \<Rightarrow> records \<Rightarrow> records" where
  "spliced kern user = foldl (\<lambda>recs (la, d). AList.update la d recs) kern user"

definition newline :: char where "newline = CHR 0x0A"

definition zero_pad :: "nat \<Rightarrow> string \<Rightarrow> string" where
  "zero_pad n s = replicate (n - length s) CHR ''0'' @ s"

text \<open>\<^verbatim>\<open>%08x\<close>\<close>

definition hex08 :: "int \<Rightarrow> string" where
  "hex08 la = (if la < 0 then ''-'' @ zero_pad 7 (hex_mag (- la)) else zero_pad 8 (hex_mag la))"

definition image_text :: "records \<Rightarrow> string" where
  "image_text recs =
     concat (map (\<lambda>(la, d). ''@'' @ hex08 la @ [newline] @ d @ [newline]) (sort_key fst recs))"

text \<open>\<^verbatim>\<open>re.sub(r"TOP\.[^\n]*\n?", "", raw)\<close>\<close>

function strip_top :: "string \<Rightarrow> string" where
  "strip_top s =
     (case s of
        [] \<Rightarrow> []
      | c # cs \<Rightarrow>
          if take 4 s = ''TOP.'' then strip_top (drop 1 (dropWhile (\<lambda>c. c \<noteq> newline) s)) else c # strip_top cs)"
  by pat_completeness auto
termination
  by (relation "measure length") (auto simp: less_Suc_eq_le newline_def intro: le_trans [OF diff_le_self length_dropWhile_le])

declare strip_top.simps [simp del]

definition clean :: "string \<Rightarrow> string" where
  "clean raw = take MAX_OUTPUT (py_strip (filter (\<lambda>c. c \<noteq> CHR 0x00) (strip_top raw)))"

datatype sim_result = Exited string | Expired string | NotStarted

definition sim_output :: "sim_result \<Rightarrow> string res" where
  "sim_output r =
     (case r of
        Exited out \<Rightarrow> Inr (clean out)
      | Expired partial \<Rightarrow>
          Inr (''[timed out after '' @ show_int SIM_TIMEOUT @ ''s]'' @ [newline] @ clean partial)
      | NotStarted \<Rightarrow> Inl RuntimeError)"

definition run_submission ::
  "(string \<Rightarrow> sim_result) \<Rightarrow> string option \<Rightarrow> string option \<Rightarrow> bytes \<Rightarrow> string rnd" where
  "run_submission sim kernel_template kernel_mem body =
     rbind (rlift (parse_submission body)) (\<lambda>user.
     rbind (kernel_records kernel_template kernel_mem) (\<lambda>kern.
     rlift (sim_output (sim (image_text (spliced kern user))))))"

section \<open>Requests\<close>

fun split_on :: "bytes \<Rightarrow> nat \<Rightarrow> bytes \<Rightarrow> bytes \<Rightarrow> bytes list" where
  "split_on sep skip cur [] = [rev cur]"
| "split_on sep (Suc skip) cur (b # bs) = split_on sep skip cur bs"
| "split_on sep 0 cur (b # bs) =
     (if take (length sep) (b # bs) = sep then rev cur # split_on sep (length sep - 1) [] bs
      else split_on sep 0 (b # cur) bs)"

definition partition_at :: "bytes \<Rightarrow> bytes \<Rightarrow> bytes \<times> bytes" where
  "partition_at sep bs =
     (case find_sub sep bs of None \<Rightarrow> (bs, []) | Some i \<Rightarrow> (take i bs, drop (i + length sep) bs))"

text \<open>\<^verbatim>\<open>rsplit(sep, 1)[0]\<close>: what stands before the last separator.\<close>

definition before_last :: "bytes \<Rightarrow> bytes \<Rightarrow> bytes" where
  "before_last sep bs =
     (case find_sub (rev sep) (rev bs) of
        None \<Rightarrow> bs
      | Some j \<Rightarrow> take (length bs - j - length sep) bs)"

fun find_boundary :: "string \<Rightarrow> string option" where
  "find_boundary [] = None"
| "find_boundary (c # cs) =
     (let s = c # cs; value = takeWhile (\<lambda>c. c \<noteq> CHR '';'') (drop 9 s) in
      if take 9 s = ''boundary='' \<and> value \<noteq> [] then Some value else find_boundary cs)"

definition strip_quotes :: "string \<Rightarrow> string" where
  "strip_quotes s = rev (dropWhile (\<lambda>c. c = CHR 0x22) (rev (dropWhile (\<lambda>c. c = CHR 0x22) s)))"

definition crlf :: bytes where "crlf = [13, 10]"

definition file_part :: "bytes \<Rightarrow> bytes option" where
  "file_part part =
     (let (head, data) = partition_at (crlf @ crlf) part in
      if find_sub (utf8_bytes ''filename='') head \<noteq> None \<and> data \<noteq> [] then Some (before_last crlf data) else None)"

definition extract_multipart :: "bytes \<Rightarrow> string \<Rightarrow> bytes" where
  "extract_multipart body ctype =
     (case find_boundary ctype of
        None \<Rightarrow> body
      | Some m \<Rightarrow>
          let boundary = utf8_bytes (''--'' @ strip_quotes (py_strip m)) in
          (case List.map_filter file_part (split_on boundary 0 [] body) of [] \<Rightarrow> body | data # _ \<Rightarrow> data))"

text \<open>
  The headers of a request with their defaults, and the bytes that follow it. \<open>slot\<close> says whether
  the semaphore was acquired in time. \<open>NoReply\<close> is a header that makes the handler raise.
\<close>

record post =
  po_path :: string
  po_length :: string
  po_ctype :: string
  po_body :: bytes

datatype response = IndexPage | AbiPage | Respond int string | Rejected | InternalError | NoReply

definition do_GET :: "string \<Rightarrow> response" where
  "do_GET path =
     (if path = ''/'' \<or> path = ''/index.html'' then IndexPage
      else if path = ''/abi'' then AbiPage else Respond 404 (''not found'' @ [newline]))"

definition submission_of :: "post \<Rightarrow> int \<Rightarrow> bytes" where
  "submission_of rq len =
     (let body = take (nat len) (po_body rq) in
      if take 19 (po_ctype rq) = ''multipart/form-data'' then extract_multipart body (po_ctype rq) else body)"

definition do_POST ::
  "(string \<Rightarrow> sim_result) \<Rightarrow> string option \<Rightarrow> string option \<Rightarrow> bool \<Rightarrow> tape \<Rightarrow> post \<Rightarrow> response" where
  "do_POST sim kernel_template kernel_mem slot t rq =
     (if po_path rq \<noteq> ''/submit'' then Respond 404 (''not found'' @ [newline])
      else
        case py_int (JStr (po_length rq)) of
          Inl e \<Rightarrow> NoReply
        | Inr len \<Rightarrow>
            if len \<le> 0 \<or> MAX_UPLOAD < len
            then Respond 413 (''upload must be 1..'' @ show_int MAX_UPLOAD @ '' bytes'' @ [newline])
            else if \<not> slot then Respond 503 (''server busy, retry shortly'' @ [newline])
            else
              (case run_submission sim kernel_template kernel_mem (submission_of rq len) t of
                 Inl e \<Rightarrow> if e = ValueError then Rejected else InternalError
               | Inr (out, t') \<Rightarrow> Respond 200 (if out \<noteq> [] then out else ''(no output)'' @ [newline])))"

end
