(* ===== verification/BlinkyProps.thy ===== *)
theory BlinkyProps
  imports Blinky
begin

text \<open>
  What the simulator gets to see: the image that is written reads back as the kernel with the
  submission below it, above \<open>0x2000\<close> every byte is the kernel's, a raw submission lies in memory as it
  was sent, and the key of the run replaces the sentinel and nothing else.
\<close>

section \<open>Lines that survive the file\<close>

definition line_ok :: "string \<Rightarrow> bool" where
  "line_ok d \<longleftrightarrow> d \<noteq> [] \<and> \<not> is_space (hd d) \<and> \<not> is_space (last d) \<and> (\<forall>c \<in> set d. \<not> file_line_end c)"

definition records_ok :: "records \<Rightarrow> bool" where
  "records_ok recs \<longleftrightarrow> distinct (map fst recs) \<and> (\<forall>(la, d) \<in> set recs. line_ok d)"

lemma records_ok_Cons:
  "records_ok ((la, d) # recs) \<longleftrightarrow> la \<notin> fst ` set recs \<and> line_ok d \<and> records_ok recs"
  by (auto simp: records_ok_def)

lemma update_set: "set (AList.update k v xs) \<subseteq> insert (k, v) (set xs)"
  by (induction xs) auto

lemma update_ok: "records_ok recs \<Longrightarrow> line_ok d \<Longrightarrow> records_ok (AList.update la d recs)"
  using update_set [of la d recs] by (fastforce simp: records_ok_def distinct_update)

lemma update_fresh: "la \<notin> fst ` set recs \<Longrightarrow> AList.update la d recs = recs @ [(la, d)]"
  by (induction recs) auto

lemma dropWhile_hd: "dropWhile P xs \<noteq> [] \<Longrightarrow> \<not> P (hd (dropWhile P xs))"
  by (induction xs) auto

lemma py_strip_ends:
  assumes "py_strip s \<noteq> []"
  shows "\<not> is_space (hd (py_strip s))" and "\<not> is_space (last (py_strip s))" and "set (py_strip s) \<subseteq> set s"
proof -
  let ?u = "dropWhile is_space s"
  let ?v = "dropWhile is_space (rev ?u)"
  have v: "?v \<noteq> []" using assms by (simp add: py_strip_def)
  then show "\<not> is_space (last (py_strip s))" using dropWhile_hd [OF v] by (simp add: py_strip_def last_rev)
  have u: "?u \<noteq> []"
  proof
    assume "?u = []"
    with v show False by simp
  qed
  obtain w where w: "rev ?u = w @ ?v" by (metis takeWhile_dropWhile_id)
  then have "?u = rev ?v @ rev w" by (metis rev_append rev_rev_ident)
  moreover have "hd (rev b) = hd a" if "a = rev b @ rev c" "b \<noteq> []" for a b c :: string using that by simp
  ultimately have "hd (py_strip s) = hd ?u" using v unfolding py_strip_def by blast
  then show "\<not> is_space (hd (py_strip s))" using dropWhile_hd [OF u] by simp
  have sub: "set (dropWhile P xs) \<subseteq> set xs" for P :: "char \<Rightarrow> bool" and xs by (induction xs) auto
  have "set (py_strip s) = set ?v" by (simp add: py_strip_def)
  then show "set (py_strip s) \<subseteq> set s" using sub [of is_space "rev ?u"] sub [of is_space s] by (metis set_rev subset_trans)
qed

lemma split_ws_clean:
  "x \<in> set (split_ws ws cur s) \<Longrightarrow> \<forall>c \<in> set cur. \<not> ws c \<Longrightarrow> \<forall>c \<in> set x. \<not> ws c"
  by (induction ws cur s rule: split_ws.induct) (auto split: if_splits)

lemma file_lines_ok: "t \<in> set (text_lines file_line_end content) \<Longrightarrow> line_ok t"
  using py_strip_ends split_ws_clean [of _ file_line_end "[]" content]
  by (fastforce simp: text_lines_def line_ok_def)

lemma load_records_ok:
  "load_records ts recs = Inr r \<Longrightarrow> records_ok recs \<Longrightarrow> \<forall>t \<in> set ts. line_ok t \<Longrightarrow> records_ok r"
  by (induction ts recs rule: load_records.induct)
    (auto simp: res_simps update_ok split: if_splits list.splits)

lemma records_ok_Nil [simp]: "records_ok []"
  by (simp add: records_ok_def)

lemma load_mem_ok: "load_mem content = Inr recs \<Longrightarrow> records_ok recs"
  using load_records_ok file_lines_ok by (simp add: load_mem_def)

section \<open>Hexadecimal lines\<close>

lemma hex_chars: "hex_value c \<noteq> None \<Longrightarrow> c \<in> set ''0123456789abcdefABCDEF''"
  by (auto simp: hex_value_def upto.simps split: if_splits)

lemma hex_char_plain:
  assumes "hex_value c \<noteq> None"
  shows "\<not> is_space c" and "\<not> file_line_end c" and "c \<noteq> CHR ''-''" and "c \<noteq> CHR ''+''" and "c \<noteq> CHR ''x''" and "c \<noteq> CHR ''X''"
proof -
  have "list_all (\<lambda>c. \<not> is_space c \<and> \<not> file_line_end c \<and> c \<notin> {CHR ''-'', CHR ''+'', CHR ''x'', CHR ''X''})
      ''0123456789abcdefABCDEF''" by code_simp
  moreover note hex_chars [OF assms]
  ultimately have "\<not> is_space c \<and> \<not> file_line_end c \<and> c \<notin> {CHR ''-'', CHR ''+'', CHR ''x'', CHR ''X''}"
    unfolding list_all_iff by blast
  then show "\<not> is_space c" "\<not> file_line_end c" "c \<noteq> CHR ''-''" "c \<noteq> CHR ''+''" "c \<noteq> CHR ''x''" "c \<noteq> CHR ''X''"
    by simp_all
qed

lemma hex_line_ok: "d \<noteq> [] \<Longrightarrow> \<forall>c \<in> set d. hex_value c \<noteq> None \<Longrightarrow> line_ok d"
  using hex_char_plain by (simp add: line_ok_def)

lemma bytes_hex_chars: "c \<in> set (bytes_hex bs) \<Longrightarrow> hex_value c \<noteq> None"
proof -
  have "0 \<le> uint w div 16 \<and> uint w div 16 < 16 \<and> 0 \<le> uint w mod 16 \<and> uint w mod 16 < 16" for w :: byte
  proof -
    have "0 \<le> uint w" "uint w < 256" using uint_lt2p [of w] by simp_all
    then show ?thesis by presburger
  qed
  then show "c \<in> set (bytes_hex bs) \<Longrightarrow> hex_value c \<noteq> None" by (auto simp: bytes_hex_def hex_value_digit)
qed

lemma bytes_hex_ok: "bs \<noteq> [] \<Longrightarrow> line_ok (bytes_hex bs)"
  by (rule hex_line_ok) (auto simp: bytes_hex_chars, cases bs, auto simp: bytes_hex_def)

lemma lower_hex: "hex_value c \<noteq> None \<Longrightarrow> hex_value (ascii_lower c) = hex_value c"
proof -
  have "list_all (\<lambda>c. hex_value (ascii_lower c) = hex_value c) ''0123456789abcdefABCDEF''" by code_simp
  then show "hex_value c \<noteq> None \<Longrightarrow> hex_value (ascii_lower c) = hex_value c"
    unfolding list_all_iff using hex_chars by blast
qed

lemma submitted_ok:
  "submitted_records ts recs = Inr r \<Longrightarrow> records_ok recs \<Longrightarrow> records_ok r"
proof (induction ts recs rule: submitted_records.induct)
  case (2 t ts recs)
  then obtain la where at: "take 1 t = ''@''" and la: "py_int16 (drop 1 t) = Inr la"
    and rest: "(case ts of [] \<Rightarrow> Inl IndexError
      | d # ts \<Rightarrow> if length d \<noteq> LINE_SIZE * 2 \<or> list_ex (\<lambda>c. hex_value c = None) d then Inl ValueError
          else submitted_records ts (AList.update la (map ascii_lower d) recs)) = Inr r"
    by (auto simp: res_simps split: if_splits)
  then obtain d ts' where ts: "ts = d # ts'" and d: "length d = LINE_SIZE * 2" "\<not> list_ex (\<lambda>c. hex_value c = None) d"
    and r: "submitted_records ts' (AList.update la (map ascii_lower d) recs) = Inr r"
    by (cases ts) (auto split: if_splits)
  have "line_ok (map ascii_lower d)"
    using d by (intro hex_line_ok) (auto simp: LINE_SIZE_def list_ex_iff lower_hex)
  then show ?case using 2(1) [OF _ la ts] 2(3) d at r update_ok by auto
qed simp

lemma raw_ok: "records_ok (raw_to_recs data)"
  by (auto simp: records_ok_def raw_to_recs_def hex_line_def LINE_SIZE_def comp_def distinct_map inj_on_def
      intro!: bytes_hex_ok)

lemma parse_ok:
  assumes "parse_submission body = Inr user"
  shows "records_ok user" and "\<forall>la \<in> fst ` set user. la < KERNEL_LINE"
proof -
  obtain recs where src: "(case ascii_text body of
        Some text \<Rightarrow>
          if take 1 (dropWhile is_space text) = ''@''
          then submitted_records (text_lines ascii_line_end text) [] else Inr (raw_to_recs body)
      | None \<Rightarrow> Inr (raw_to_recs body)) = Inr recs"
    and user: "user = filter (\<lambda>(la, d). la < KERNEL_LINE) recs"
    using assms unfolding parse_submission_def by (auto simp: ebind_eq_Inr Let_def split: if_splits)
  have "records_ok recs"
    using src submitted_ok [OF _ records_ok_Nil] raw_ok by (auto split: option.splits if_splits)
  with user show "records_ok user" and "\<forall>la \<in> fst ` set user. la < KERNEL_LINE"
    by (auto simp: records_ok_def distinct_map_filter)
qed

section \<open>The file reads back\<close>

lemma zero_hex: "hex_value CHR ''0'' = Some 0"
  by (simp add: hex_value_def upto.simps)

lemma zero_pad_chars: "0 \<le> x \<Longrightarrow> c \<in> set (zero_pad n (hex_mag x)) \<Longrightarrow> hex_value c \<noteq> None"
  using hex_mag_digits [of x c] by (auto simp: zero_pad_def hex_value_digit zero_hex)

lemma digits_value_zeros: "digits_value 0 (replicate k CHR ''0'' @ s) = digits_value 0 s"
  by (induction k) (simp_all add: digits_value_def zero_hex)

lemma hex_number_clean:
  assumes "s \<noteq> []" and "\<forall>c \<in> set s. hex_value c \<noteq> None"
  shows "hex_prefixed s = Inr (digits_value 0 s)"
proof -
  have "hex_number s = Inr (digits_value 0 s)"
  proof (cases s)
    case (Cons c cs)
    then obtain v where "hex_value c = Some v" using assms(2) by auto
    then show ?thesis using Cons assms(2) hex_digits_clean [of cs v] by (simp add: digits_value_def)
  qed (use assms in simp)
  moreover have "hex_prefixed s = hex_number s"
    using assms hex_char_plain(5,6) by (cases s rule: hex_prefixed.cases) auto
  ultimately show ?thesis by simp
qed

lemma zero_pad_number: "0 \<le> x \<Longrightarrow> hex_prefixed (zero_pad n (hex_mag x)) = Inr x"
  using hex_number_clean [of "zero_pad n (hex_mag x)"] zero_pad_chars [of x _ n]
  by (simp add: zero_pad_def digits_value_zeros digits_value_mag)

lemma hex08_ok: "line_ok (hex08 la)"
proof -
  have "line_ok (zero_pad n (hex_mag x))" if "0 \<le> x" for n x
    using zero_pad_chars [OF that] by (intro hex_line_ok) (auto simp: zero_pad_def)
  from this [of la 8] this [of "- la" 7] show ?thesis
    by (auto simp: hex08_def line_ok_def is_space_def file_line_end_def of_char_def)
qed

lemma py_int16_hex08: "py_int16 (hex08 la) = Inr la"
proof -
  have strip: "py_strip (hex08 la) = hex08 la" using hex08_ok [of la] by (intro strip_id) (auto simp: line_ok_def)
  show ?thesis
  proof (cases "la < 0")
    case True
    then show ?thesis using strip zero_pad_number [of "- la" 7] by (simp add: py_int16_def hex08_def)
  next
    case False
    then have c: "\<forall>c \<in> set (hex08 la). hex_value c \<noteq> None" using zero_pad_chars [of la _ 8] by (auto simp: hex08_def)
    then show ?thesis using False strip zero_pad_number [of la 8] hex_char_plain(3,4)
      by (cases "hex08 la") (auto simp: py_int16_def hex08_def line_ok_def)
  qed
qed

text \<open>The lines of the file.\<close>

definition image_lines :: "records \<Rightarrow> string list" where
  "image_lines recs = concat (map (\<lambda>(la, d). [CHR ''@'' # hex08 la, d]) recs)"

lemma written_lines:
  "concat (map (\<lambda>(la, d). ''@'' @ hex08 la @ [newline] @ d @ [newline]) recs) = concat (map (\<lambda>t. t @ [newline]) (image_lines recs))"
  by (induction recs) (auto simp: image_lines_def)

lemma image_lines_ok: "\<forall>(la, d) \<in> set recs. line_ok d \<Longrightarrow> t \<in> set (image_lines recs) \<Longrightarrow> line_ok t"
proof -
  have "line_ok (CHR ''@'' # hex08 la)" for la
    using hex08_ok [of la] by (auto simp: line_ok_def is_space_def file_line_end_def of_char_def)
  then show "\<forall>(la, d) \<in> set recs. line_ok d \<Longrightarrow> t \<in> set (image_lines recs) \<Longrightarrow> line_ok t"
    by (auto simp: image_lines_def)
qed

lemma load_image_lines:
  "distinct (map fst (recs @ new)) \<Longrightarrow> load_records (image_lines new) recs = Inr (recs @ new)"
proof (induction new arbitrary: recs)
  case (Cons e new)
  obtain la d where e: "e = (la, d)" by (cases e)
  have "AList.update la d recs = recs @ [(la, d)]" using Cons.prems by (intro update_fresh) (auto simp: e)
  then show ?case using Cons.IH [of "recs @ [(la, d)]"] Cons.prems by (simp add: image_lines_def e py_int16_hex08)
qed (simp add: image_lines_def)

lemma load_image:
  assumes "records_ok recs"
  shows "load_mem (image_text recs) = Inr (sort_key fst recs)"
proof -
  let ?s = "sort_key fst recs"
  have ok: "\<forall>(la, d) \<in> set ?s. line_ok d" and dist: "distinct (map fst ?s)"
    using assms by (auto simp: records_ok_def distinct_map)
  note lines = image_lines_ok [OF ok]
  have "image_text recs = concat (map (\<lambda>t. t @ [newline]) (image_lines ?s))"
    by (simp only: image_text_def written_lines)
  moreover have "split_ws file_line_end [] (concat (map (\<lambda>t. t @ [newline]) (image_lines ?s))) = image_lines ?s"
    by (rule split_ws_join) (use lines in \<open>auto simp: line_ok_def newline_def file_line_end_def of_char_def\<close>)
  moreover have "map py_strip (image_lines ?s) = image_lines ?s"
    by (rule map_idI) (use lines in \<open>auto simp: line_ok_def intro!: strip_id\<close>)
  moreover have "filter (\<lambda>t. t \<noteq> []) (image_lines ?s) = image_lines ?s"
    using lines by (auto simp: line_ok_def filter_id_conv)
  ultimately show ?thesis using load_image_lines [of "[]" ?s] dist by (simp add: load_mem_def text_lines_def)
qed

section \<open>Memory\<close>

text \<open>The bytes of a line in ascending order, and the byte at an address.\<close>

definition line_bytes :: "string \<Rightarrow> bytes" where
  "line_bytes d = (case bytes_fromhex d of Inl e \<Rightarrow> [] | Inr b \<Rightarrow> rev b)"

definition mem_byte :: "records \<Rightarrow> int \<Rightarrow> byte option" where
  "mem_byte recs a =
     (case map_of recs (a div int LINE_SIZE) of
        None \<Rightarrow> None
      | Some d \<Rightarrow>
          let i = nat (a mod int LINE_SIZE) in if i < length (line_bytes d) then Some (line_bytes d ! i) else None)"

lemma mem_byte_cong: "map_of r (a div int LINE_SIZE) = map_of r' (a div int LINE_SIZE) \<Longrightarrow> mem_byte r a = mem_byte r' a"
  by (simp add: mem_byte_def)

lemma mem_byte_sorted: "distinct (map fst recs) \<Longrightarrow> mem_byte (sort_key fst recs) a = mem_byte recs a"
  by (rule mem_byte_cong, rule fun_cong [of _ _ "a div int LINE_SIZE"], rule map_of_inject_set [THEN iffD2])
    (simp_all add: distinct_map)

lemma map_of_spliced:
  "distinct (map fst user) \<Longrightarrow>
     map_of (spliced kern user) la = (case map_of user la of Some d \<Rightarrow> Some d | None \<Rightarrow> map_of kern la)"
  unfolding spliced_def
proof (induction user arbitrary: kern)
  case (Cons e user)
  obtain l d where e: "e = (l, d)" by (cases e)
  have "map_of user l = None" using Cons.prems by (simp add: e map_of_eq_None_iff)
  then show ?case using Cons by (auto simp: e update_conv' split: option.split)
qed simp

lemma spliced_ok: "records_ok kern \<Longrightarrow> records_ok user \<Longrightarrow> records_ok (spliced kern user)"
  unfolding spliced_def
proof (induction user arbitrary: kern)
  case (Cons e user)
  obtain la d where e: "e = (la, d)" by (cases e)
  have "records_ok user" "line_ok d" using Cons.prems by (simp_all add: e records_ok_Cons)
  then show ?case using Cons.IH [OF update_ok [OF Cons.prems(1)]] by (simp add: e)
qed simp

lemma line_of_address: "KERNEL_LINE \<le> a div int LINE_SIZE \<longleftrightarrow> 0x2000 \<le> a"
  unfolding KERNEL_LINE_def LINE_SIZE_def by simp presburger

text \<open>Above the boundary the kernel, below it the submission where it has a line.\<close>

lemma spliced_memory:
  assumes "parse_submission body = Inr user"
  shows "0x2000 \<le> a \<Longrightarrow> mem_byte (spliced kern user) a = mem_byte kern a"
    and "mem_byte (spliced kern user) a =
      (if a div int LINE_SIZE \<in> fst ` set user then mem_byte user a else mem_byte kern a)"
proof -
  have d: "distinct (map fst user)" using parse_ok(1) [OF assms] by (simp add: records_ok_def)
  show m: "mem_byte (spliced kern user) a =
      (if a div int LINE_SIZE \<in> fst ` set user then mem_byte user a else mem_byte kern a)"
    using map_of_spliced [OF d, of kern] map_of_eq_None_iff [of user "a div int LINE_SIZE"]
    by (auto simp: mem_byte_def Let_def split: option.split)
  assume "0x2000 \<le> a"
  then have "KERNEL_LINE \<le> a div int LINE_SIZE" by (simp add: line_of_address)
  then have "a div int LINE_SIZE \<notin> fst ` set user" using parse_ok(2) [OF assms] by fastforce
  with m show "mem_byte (spliced kern user) a = mem_byte kern a" by simp
qed

lemma line_bytes_hex: "line_bytes (bytes_hex bs) = rev bs"
  by (simp add: line_bytes_def bytes_fromhex_hex)

text \<open>A raw submission lies in memory as it was sent, with zeros up to the end of its last line.\<close>

lemma raw_memory:
  assumes p: "parse_submission body = Inr user"
    and raw: "ascii_text body = None \<or> take 1 (dropWhile is_space (the (ascii_text body))) \<noteq> ''@''"
    and a: "a < 0x2000" and line: "a div LINE_SIZE < (length body + LINE_SIZE - 1) div LINE_SIZE"
  shows "mem_byte (spliced kern user) (int a) = Some (if a < length body then body ! a else 0)"
proof -
  let ?k = "a div LINE_SIZE"
  let ?chunk = "take LINE_SIZE (drop (?k * LINE_SIZE) body)"
  have user: "user = filter (\<lambda>(la, d). la < KERNEL_LINE) (raw_to_recs body)"
    using p raw by (auto simp: parse_submission_def Let_def split: option.splits if_splits)
  have k: "int a div int LINE_SIZE = int ?k" by (simp add: zdiv_int)
  have "\<not> KERNEL_LINE \<le> int ?k" using line_of_address [of "int a"] a k by simp
  then have mem: "(int ?k, hex_line ?chunk) \<in> set user"
    using line by (auto simp: user raw_to_recs_def)
  moreover have "distinct (map fst user)" using parse_ok(1) [OF p] by (simp add: records_ok_def)
  ultimately have line_k: "map_of user (int ?k) = Some (hex_line ?chunk)" by simp
  have bytes: "line_bytes (hex_line ?chunk) = ?chunk @ replicate (LINE_SIZE - length ?chunk) 0"
    by (simp add: hex_line_def line_bytes_hex)
  have i: "a mod LINE_SIZE < LINE_SIZE" and aa: "?k * LINE_SIZE + a mod LINE_SIZE = a" by (simp_all add: LINE_SIZE_def)
  have im: "nat (int a mod int LINE_SIZE) = a mod LINE_SIZE" by (metis nat_int zmod_int)
  have "mem_byte user (int a) = Some ((?chunk @ replicate (LINE_SIZE - length ?chunk) 0) ! (a mod LINE_SIZE))"
    using i im by (simp add: mem_byte_def k line_k bytes Let_def)
  also have "(?chunk @ replicate (LINE_SIZE - length ?chunk) 0) ! (a mod LINE_SIZE) = (if a < length body then body ! a else 0)"
  proof (cases "a < length body")
    case True
    then have "a mod LINE_SIZE < length body - ?k * LINE_SIZE" using aa by linarith
    then have "a mod LINE_SIZE < length ?chunk" using i by simp
    moreover have "?k * LINE_SIZE \<le> length body" using True aa by linarith
    then have "drop (?k * LINE_SIZE) body ! (a mod LINE_SIZE) = body ! (?k * LINE_SIZE + a mod LINE_SIZE)" by (rule nth_drop)
    then have "drop (?k * LINE_SIZE) body ! (a mod LINE_SIZE) = body ! a" by (simp only: aa)
    ultimately show ?thesis using True i by (simp add: nth_append)
  next
    case False
    then have "length body - ?k * LINE_SIZE \<le> a mod LINE_SIZE" using aa by linarith
    then have "\<not> a mod LINE_SIZE < length ?chunk" by simp
    then have "(?chunk @ replicate (LINE_SIZE - length ?chunk) 0) ! (a mod LINE_SIZE)
        = replicate (LINE_SIZE - length ?chunk) 0 ! (a mod LINE_SIZE - length ?chunk)"
      by (simp only: nth_append if_False)
    also have "\<dots> = 0" using i \<open>\<not> a mod LINE_SIZE < length ?chunk\<close> by (intro nth_replicate) linarith
    finally show ?thesis using False by simp
  qed
  finally have "mem_byte user (int a) = Some (if a < length body then body ! a else 0)" .
  moreover have "int a div int LINE_SIZE \<in> fst ` set user" using mem k by force
  ultimately show ?thesis using spliced_memory(2) [OF p] by simp
qed

section \<open>The key of a run\<close>

lemma length_patched: "i + 8 \<le> length bs \<Longrightarrow> length new = 8 \<Longrightarrow> length (patched i new bs) = length bs"
  by (simp add: patched_def)

lemma nth_patched:
  assumes "i + 8 \<le> length bs" and "length new = 8" and "j < length bs"
  shows "patched i new bs ! j = (if i \<le> j \<and> j < i + 8 then new ! (j - i) else bs ! j)"
  using assms by (auto simp: patched_def nth_append)

lemma replace_dword_found:
  "replace_dword_le recs sentinel new = Inr (Some la, recs') \<Longrightarrow>
     \<exists>pre d i post. recs = pre @ (la, d) # post \<and> find_sub sentinel (line_bytes d) = Some i
       \<and> recs' = pre @ (la, bytes_hex (rev (patched i new (line_bytes d)))) # post"
proof (induction recs arbitrary: recs')
  case (Cons e recs)
  obtain l d where e: "e = (l, d)" by (cases e)
  obtain b where b: "bytes_fromhex d = Inr b" using Cons.prems by (auto simp: e res_simps)
  then have lb: "line_bytes d = rev b" by (simp add: line_bytes_def)
  show ?case
  proof (cases "find_sub sentinel (rev b)")
    case (Some i)
    then have "la = l \<and> recs' = (l, bytes_hex (rev (patched i new (line_bytes d)))) # recs"
      using Cons.prems b by (auto simp: e lb Let_def)
    then show ?thesis using Some by - (rule exI [of _ "[]"], rule exI [of _ d], rule exI [of _ i], rule exI [of _ recs], simp add: e lb)
  next
    case None
    then obtain r where r: "replace_dword_le recs sentinel new = Inr (Some la, r)" "recs' = (l, d) # r"
      using Cons.prems b by (auto simp: e res_simps Let_def)
    from Cons.IH [OF r(1)] obtain pre d' i post where "recs = pre @ (la, d') # post"
      "find_sub sentinel (line_bytes d') = Some i"
      "r = pre @ (la, bytes_hex (rev (patched i new (line_bytes d')))) # post" by blast
    then show ?thesis using r(2) by (intro exI [of _ "(l, d) # pre"]) (auto simp: e)
  qed
qed simp

lemma kernel_patched:
  assumes "kernel_records (Some content) kernel_mem t = Inr (kern, t')"
  shows "\<exists>recs key pre la d i post. load_mem content = Inr recs \<and> t = key # t' \<and> recs = pre @ (la, d) # post
    \<and> take 8 (drop i (line_bytes d)) = to_bytes_little 8 PAC_KEY_SENTINEL \<and> i + 8 \<le> length (line_bytes d)
    \<and> kern = pre @ (la, bytes_hex (rev (patched i (to_bytes_little 8 (key mod 2 ^ 64)) (line_bytes d)))) # post"
proof -
  obtain recs key la where r: "load_mem content = Inr recs" and t: "t = key # t'"
    and rep: "replace_dword_le recs (to_bytes_little 8 PAC_KEY_SENTINEL) (to_bytes_little 8 (key mod 2 ^ 64)) = Inr (Some la, kern)"
    using assms by (fastforce simp: kernel_records_def rnd_simps res_simps split: if_splits)
  from replace_dword_found [OF rep] obtain pre d i post where recs: "recs = pre @ (la, d) # post"
    and i: "find_sub (to_bytes_little 8 PAC_KEY_SENTINEL) (line_bytes d) = Some i"
    and kern: "kern = pre @ (la, bytes_hex (rev (patched i (to_bytes_little 8 (key mod 2 ^ 64)) (line_bytes d)))) # post"
    by blast
  have len: "length (to_bytes_little 8 PAC_KEY_SENTINEL) = 8" by simp
  from find_sub_Some [OF i, unfolded len] r t recs kern show ?thesis by blast
qed

lemma kernel_ok: "kernel_records kernel_template kernel_mem t = Inr (kern, t') \<Longrightarrow> records_ok kern"
proof (cases kernel_template)
  case None
  then show "kernel_records kernel_template kernel_mem t = Inr (kern, t') \<Longrightarrow> records_ok kern"
    using load_mem_ok by (auto simp: kernel_records_def rnd_simps split: option.splits)
next
  case (Some content)
  assume "kernel_records kernel_template kernel_mem t = Inr (kern, t')"
  from kernel_patched [OF this [unfolded Some]] obtain recs key pre la d i post where r: "load_mem content = Inr recs"
    and recs: "recs = pre @ (la, d) # post" and i: "i + 8 \<le> length (line_bytes d)"
    and kern: "kern = pre @ (la, bytes_hex (rev (patched i (to_bytes_little 8 (key mod 2 ^ 64)) (line_bytes d)))) # post"
    by blast
  let ?b = "patched i (to_bytes_little 8 (key mod 2 ^ 64)) (line_bytes d)"
  have "length ?b = length (line_bytes d)" using i by (intro length_patched) simp_all
  then have "rev ?b \<noteq> []" using i by auto
  from bytes_hex_ok [OF this] load_mem_ok [OF r] show "records_ok kern" by (auto simp: records_ok_def recs kern)
qed

lemma kernel_key:
  assumes "kernel_records (Some content) kernel_mem t = Inr (kern, t')"
  shows "\<exists>recs key la d i. load_mem content = Inr recs \<and> t = key # t' \<and> map_of recs la = Some d
    \<and> take 8 (drop i (line_bytes d)) = to_bytes_little 8 PAC_KEY_SENTINEL
    \<and> (\<forall>a. mem_byte kern a =
          (let j = nat (a mod int LINE_SIZE) in
           if a div int LINE_SIZE = la \<and> j < length (line_bytes d) \<and> i \<le> j \<and> j < i + 8
           then Some (to_bytes_little 8 (key mod 2 ^ 64) ! (j - i)) else mem_byte recs a))"
proof -
  from kernel_patched [OF assms] obtain recs key pre la d i post where r: "load_mem content = Inr recs"
    and t: "t = key # t'" and recs: "recs = pre @ (la, d) # post"
    and f: "take 8 (drop i (line_bytes d)) = to_bytes_little 8 PAC_KEY_SENTINEL" "i + 8 \<le> length (line_bytes d)"
    and kern: "kern = pre @ (la, bytes_hex (rev (patched i (to_bytes_little 8 (key mod 2 ^ 64)) (line_bytes d)))) # post"
    by blast
  let ?new = "to_bytes_little 8 (key mod 2 ^ 64)"
  have len: "length ?new = 8" by simp
  have "la \<notin> fst ` set pre" using load_mem_ok [OF r] by (auto simp: recs records_ok_def)
  then have la: "map_of recs la = Some d" "map_of kern la = Some (bytes_hex (rev (patched i ?new (line_bytes d))))"
    by (auto simp: recs kern map_add_def map_of_eq_None_iff [THEN iffD2])
  have other: "map_of kern l = map_of recs l" if "l \<noteq> la" for l using that by (simp add: recs kern map_add_def split: option.split)
  have "mem_byte kern a =
      (let j = nat (a mod int LINE_SIZE) in
       if a div int LINE_SIZE = la \<and> j < length (line_bytes d) \<and> i \<le> j \<and> j < i + 8
       then Some (?new ! (j - i)) else mem_byte recs a)" for a
  proof (cases "a div int LINE_SIZE = la")
    case True
    then show ?thesis
      using la f len by (simp add: mem_byte_def line_bytes_hex length_patched nth_patched Let_def)
  next
    case False
    then show ?thesis using other mem_byte_cong [of kern a recs] by (simp add: Let_def)
  qed
  then show ?thesis using r t la(1) f by blast
qed

text \<open>
  A run that comes to an end: the file handed to the simulator reads back as memory with the kernel above
  \<open>0x2000\<close> and the submission below.
\<close>

lemma run_image:
  assumes "run_submission sim kernel_template kernel_mem body t = Inr (out, t')"
  shows "\<exists>user kern image m. parse_submission body = Inr user
    \<and> kernel_records kernel_template kernel_mem t = Inr (kern, t')
    \<and> load_mem image = Inr m
    \<and> (\<forall>a. mem_byte m a = (if a div int LINE_SIZE \<in> fst ` set user then mem_byte user a else mem_byte kern a))
    \<and> (\<forall>a \<ge> 0x2000. mem_byte m a = mem_byte kern a)
    \<and> sim_output (sim image) = Inr out"
proof -
  obtain user kern where user: "parse_submission body = Inr user"
    and kern: "kernel_records kernel_template kernel_mem t = Inr (kern, t')"
    and o: "sim_output (sim (image_text (spliced kern user))) = Inr out"
    using assms by (auto simp: run_submission_def rnd_simps)
  note ok = spliced_ok [OF kernel_ok [OF kern] parse_ok(1) [OF user]]
  have "distinct (map fst (spliced kern user))" using ok by (simp add: records_ok_def)
  note m = load_image [OF ok] mem_byte_sorted [OF this]
  have mem: "mem_byte (sort_key fst (spliced kern user)) a =
      (if a div int LINE_SIZE \<in> fst ` set user then mem_byte user a else mem_byte kern a)" for a
    using m(2) spliced_memory(2) [OF user] by simp
  have "mem_byte (sort_key fst (spliced kern user)) a = mem_byte kern a" if "0x2000 \<le> a" for a
    using m(2) spliced_memory(1) [OF user that] by simp
  with user kern m(1) mem o show ?thesis by blast
qed

end
