(* ===== verification/Maurer.thy ===== *)
theory Maurer
  imports Text Recp
begin

text \<open>
  \<^verbatim>\<open>inside/deploy/src/sigma.py\<close>: homomorphisms from integer vectors to points, given by a matrix of points, and
  Maurer's proof of knowledge of a preimage. The curve and its points are objects of SageMath; they are the
  argument \<open>sage\<close>, whose documented laws are the locale \<open>sage_ok\<close>. SHA-256 is the argument \<open>H\<close>.
\<close>

section \<open>Points\<close>

text \<open>\<^verbatim>\<open>sum\<close> starts with \<^verbatim>\<open>0\<close>, which SageMath takes for the point at infinity.\<close>

record 'p sage =
  sg_add :: "'p \<Rightarrow> 'p \<Rightarrow> 'p"
  sg_zero :: 'p
  sg_mul :: "int \<Rightarrow> 'p \<Rightarrow> 'p"
  sg_gen :: 'p
  sg_show :: "'p list \<Rightarrow> string"
  sg_show_matrix :: "'p list list \<Rightarrow> string"

definition curve_q :: int where
  "curve_q = 0xFFFFFFFFFFFFFFFFFFFFFFFFFFFFFFFEBAAEDCE6AF48A03BBFD25E8CD0364141"

definition psum :: "'p sage \<Rightarrow> 'p list \<Rightarrow> 'p" where
  "psum S Ps = foldl (sg_add S) (sg_zero S) Ps"

section \<open>Homomorphisms\<close>

record 'p hom =
  hm_Gs :: "'p list list"
  hm_n :: nat
  hm_m :: nat

definition new_hom :: "'p list list \<Rightarrow> 'p hom res" where
  "new_hom Gs =
     (case Gs of [] \<Rightarrow> Inl IndexError
      | g # _ \<Rightarrow> Inr \<lparr> hm_Gs = Gs, hm_n = length g, hm_m = length Gs \<rparr>)"

definition row_value :: "'p sage \<Rightarrow> int list \<Rightarrow> nat \<Rightarrow> 'p list \<Rightarrow> 'p" where
  "row_value S x n row = psum S (map (\<lambda>i. sg_mul S (x ! i) (row ! i)) [0..<n])"

definition hom_row :: "'p sage \<Rightarrow> int list \<Rightarrow> nat \<Rightarrow> 'p list \<Rightarrow> 'p res" where
  "hom_row S x n row = (if length row < n then Inl IndexError else Inr (row_value S x n row))"

definition hom_call :: "'p sage \<Rightarrow> 'p hom \<Rightarrow> int list \<Rightarrow> 'p list res" where
  "hom_call S phi x =
     (if length x \<noteq> hm_n phi then Inl AssertionError else emap (hom_row S x (hm_n phi)) (hm_Gs phi))"

definition hom_compose :: "'p sage \<Rightarrow> 'p hom \<Rightarrow> 'p hom \<Rightarrow> 'p hom res" where
  "hom_compose S phi1 phi2 =
     (if list_ex (\<lambda>row. length row < hm_n phi1) (hm_Gs phi1) \<or> list_ex (\<lambda>row. length row < hm_n phi2) (hm_Gs phi2)
      then Inl IndexError
      else new_hom (map (\<lambda>row. take (hm_n phi1) row @ replicate (hm_n phi2) (sg_zero S)) (hm_Gs phi1)
                    @ map (\<lambda>row. replicate (hm_n phi1) (sg_zero S) @ take (hm_n phi2) row) (hm_Gs phi2)))"

section \<open>The proof\<close>

definition hash_oracle :: "(bytes \<Rightarrow> 256 word) \<Rightarrow> string \<Rightarrow> int" where
  "hash_oracle H buf = uint (H (utf8_bytes buf)) mod curve_q"

definition maurer_transcript :: "'p sage \<Rightarrow> 'p list \<Rightarrow> 'p list \<Rightarrow> 'p hom \<Rightarrow> string" where
  "maurer_transcript S R Y phi =
     sg_show S R @ sg_show S Y @ ''CurveHomomorphism(Gs='' @ sg_show_matrix S (hm_Gs phi) @ '')''"

type_synonym 'p maurer_statement = "'p hom \<times> 'p list"
type_synonym 'p maurer_proof = "'p list \<times> int list"

definition maurer_prove ::
  "(bytes \<Rightarrow> 256 word) \<Rightarrow> 'p sage \<Rightarrow> 'p maurer_statement \<Rightarrow> int list option \<Rightarrow> 'p maurer_proof rnd" where
  "maurer_prove H S st wit =
     (case wit of
        None \<Rightarrow> rlift (Inl AssertionError)
      | Some x \<Rightarrow>
          let (phi, Y) = st in
          rbind (rtimes (hm_n phi) (randbelow curve_q)) (\<lambda>r.
          rbind (rlift (hom_call S phi r)) (\<lambda>R.
          let c = hash_oracle H (maurer_transcript S R Y phi) in
          rlift (if length x < hm_n phi then Inl IndexError
                 else Inr (R, map (\<lambda>i. (r ! i + c * x ! i) mod curve_q) [0..<hm_n phi])))))"

text \<open>Any exception makes the verifier return \<^verbatim>\<open>False\<close>.\<close>

definition maurer_verify ::
  "(bytes \<Rightarrow> 256 word) \<Rightarrow> 'p sage \<Rightarrow> 'p maurer_statement \<Rightarrow> 'p maurer_proof \<Rightarrow> bool" where
  "maurer_verify H S st pf =
     (let (phi, Y) = st; (R, z) = pf;
          r = (if \<not> (length R = length Y \<and> length Y = hm_m phi) then Inl AssertionError
               else let c = hash_oracle H (maurer_transcript S R Y phi) in
                 ebind (hom_call S phi z) (\<lambda>Z.
                   Inr (list_all (\<lambda>(Zi, Ri, Yi). Zi = sg_add S Ri (sg_mul S c Yi)) (zip Z (zip R Y)))))
      in case r of Inl e \<Rightarrow> False | Inr ok \<Rightarrow> ok)"

section \<open>Laws of the points\<close>

text \<open>The points are an abelian group in which \<open>curve_q\<close> is a multiple of every order.\<close>

locale sage_ok =
  fixes S :: "'p sage"
  assumes add_assoc: "sg_add S (sg_add S P Q) R = sg_add S P (sg_add S Q R)"
    and add_commute: "sg_add S P Q = sg_add S Q P"
    and add_zero: "sg_add S (sg_zero S) P = P"
    and mul_zero: "sg_mul S 0 P = sg_zero S"
    and mul_one: "sg_mul S 1 P = P"
    and mul_add: "sg_mul S (a + b) P = sg_add S (sg_mul S a P) (sg_mul S b P)"
    and mul_mul: "sg_mul S a (sg_mul S b P) = sg_mul S (a * b) P"
    and mul_dist: "sg_mul S a (sg_add S P Q) = sg_add S (sg_mul S a P) (sg_mul S a Q)"
    and mul_order: "sg_mul S (a mod curve_q) P = sg_mul S a P"
begin

lemma add_zero_right [simp]: "sg_add S P (sg_zero S) = P"
  using add_commute add_zero by metis

lemmas add_left_zero [simp] = add_zero
lemmas mul_left_zero [simp] = mul_zero

lemma mul_of_zero [simp]: "sg_mul S a (sg_zero S) = sg_zero S"
  using mul_mul [of a 0] by (simp only: mul_zero mult_zero_right)

lemma add_swap: "sg_add S (sg_add S A B) (sg_add S C D) = sg_add S (sg_add S A C) (sg_add S B D)"
  by (metis add_assoc add_commute)

lemma add_cancel: "sg_add S P Q = sg_add S P R \<longleftrightarrow> Q = R"
proof
  assume "sg_add S P Q = sg_add S P R"
  then have "sg_add S (sg_add S (sg_mul S (- 1) P) (sg_mul S 1 P)) Q = sg_add S (sg_add S (sg_mul S (- 1) P) (sg_mul S 1 P)) R"
    by (metis add_assoc mul_one)
  then show "Q = R" by (simp flip: mul_add)
qed simp

lemma psum_start: "foldl (sg_add S) P Ps = sg_add S P (psum S Ps)"
  unfolding psum_def
proof (induction Ps arbitrary: P)
  case (Cons Q Ps)
  show ?case using Cons [of "sg_add S P Q"] Cons [of Q] by (simp add: add_assoc)
qed simp

lemma psum_Nil [simp]: "psum S [] = sg_zero S"
  by (simp add: psum_def)

lemma psum_Cons [simp]: "psum S (P # Ps) = sg_add S P (psum S Ps)"
  using psum_start [of P Ps] by (simp add: psum_def)

lemma psum_append: "psum S (Ps @ Qs) = sg_add S (psum S Ps) (psum S Qs)"
  by (induction Ps) (simp_all add: add_assoc)

lemma psum_add: "psum S (map (\<lambda>i. sg_add S (f i) (g i)) xs) = sg_add S (psum S (map f xs)) (psum S (map g xs))"
  by (induction xs) (simp_all add: add_swap)

lemma psum_mul: "psum S (map (\<lambda>i. sg_mul S a (f i)) xs) = sg_mul S a (psum S (map f xs))"
  by (induction xs) (simp_all add: mul_dist)

lemma psum_zero: "(\<And>i. i \<in> set xs \<Longrightarrow> f i = sg_zero S) \<Longrightarrow> psum S (map f xs) = sg_zero S"
  by (induction xs) simp_all

lemma psum_swap:
  "psum S (map (\<lambda>i. psum S (map (f i) ys)) xs) = psum S (map (\<lambda>j. psum S (map (\<lambda>i. f i j) xs)) ys)"
  by (induction xs) (simp_all add: psum_add psum_zero)

text \<open>A sum with at most one summand.\<close>

lemma psum_single:
  assumes "distinct xs" and "i \<in> set xs" and "\<And>j. j \<in> set xs \<Longrightarrow> j \<noteq> i \<Longrightarrow> f j = sg_zero S"
  shows "psum S (map f xs) = f i"
  using assms
proof (induction xs)
  case (Cons x xs)
  show ?case
  proof (cases "x = i")
    case True
    then have "psum S (map f xs) = sg_zero S" using Cons.prems by (intro psum_zero) auto
    then show ?thesis using True by simp
  next
    case False
    then show ?thesis using Cons by simp
  qed
qed simp

section \<open>Linearity\<close>

lemma row_value_linear:
  assumes "length r = n" and "length x = n"
  shows "row_value S (map (\<lambda>i. (r ! i + c * x ! i) mod curve_q) [0..<n]) n row
    = sg_add S (row_value S r n row) (sg_mul S c (row_value S x n row))"
proof -
  have "row_value S (map (\<lambda>i. (r ! i + c * x ! i) mod curve_q) [0..<n]) n row
      = psum S (map (\<lambda>i. sg_add S (sg_mul S (r ! i) (row ! i)) (sg_mul S c (sg_mul S (x ! i) (row ! i)))) [0..<n])"
    unfolding row_value_def
    by (intro arg_cong [where f = "psum S"] map_cong) (simp_all add: mul_order mul_add mul_mul)
  then show ?thesis by (simp only: psum_add psum_mul row_value_def)
qed

lemma row_value_diff:
  assumes "length z = n" and "length z' = n"
  shows "sg_add S (row_value S (map2 (-) z z') n row) (row_value S z' n row) = row_value S z n row"
proof -
  have "psum S (map (\<lambda>i. sg_add S (sg_mul S (z ! i - z' ! i) (row ! i)) (sg_mul S (z' ! i) (row ! i))) [0..<n])
      = psum S (map (\<lambda>i. sg_mul S (z ! i) (row ! i)) [0..<n])"
    by (simp flip: mul_add)
  moreover have "map (\<lambda>i. sg_mul S (map2 (-) z z' ! i) (row ! i)) [0..<n]
      = map (\<lambda>i. sg_mul S (z ! i - z' ! i) (row ! i)) [0..<n]"
    using assms by (intro map_cong) simp_all
  ultimately show ?thesis by (simp only: psum_add row_value_def)
qed

end

section \<open>What the verifier checks\<close>

text \<open>A matrix whose rows have one length.\<close>

definition hom_ok :: "'p hom \<Rightarrow> bool" where
  "hom_ok phi \<longleftrightarrow> hm_m phi = length (hm_Gs phi) \<and> list_all (\<lambda>row. length row = hm_n phi) (hm_Gs phi)"

lemma new_hom_ok:
  assumes "new_hom Gs = Inr phi" and "\<forall>row \<in> set Gs. length row = n"
  shows "hom_ok phi \<and> hm_Gs phi = Gs \<and> hm_n phi = n"
  using assms by (auto simp: new_hom_def hom_ok_def list_all_iff split: list.splits)

lemma hom_call_ok:
  assumes "hom_ok phi" and "length x = hm_n phi"
  shows "hom_call S phi x = Inr (map (row_value S x (hm_n phi)) (hm_Gs phi))"
  using assms unfolding hom_call_def
  by (auto simp: hom_ok_def list_all_iff hom_row_def intro!: emap_Inr)

lemma maurer_verify_iff:
  assumes "hom_ok phi"
  shows "maurer_verify H S (phi, Y) (R, z) \<longleftrightarrow>
    length R = hm_m phi \<and> length Y = hm_m phi \<and> length z = hm_n phi
    \<and> (\<forall>j < hm_m phi. row_value S z (hm_n phi) (hm_Gs phi ! j)
         = sg_add S (R ! j) (sg_mul S (hash_oracle H (maurer_transcript S R Y phi)) (Y ! j)))"
proof (cases "length z = hm_n phi")
  case True
  with hom_call_ok [OF assms True] assms show ?thesis
    by (auto simp: maurer_verify_def Let_def list_all_length hom_ok_def)
next
  case False
  then have "hom_call S phi z = Inl AssertionError" by (simp add: hom_call_def)
  with False show ?thesis by (simp add: maurer_verify_def Let_def)
qed

context sage_ok
begin

text \<open>
  What an honest prover sends is accepted exactly if the challenge does not see the difference between
  the statement and the image of the witness; so it always is for a true statement.
\<close>

lemma maurer_honest_iff:
  assumes ok: "hom_ok phi" and y: "length Y = hm_m phi" and x: "length x = hm_n phi"
    and p: "maurer_prove H S (phi, Y) (Some x) t = Inr ((R, z), t')"
  shows "maurer_verify H S (phi, Y) (R, z) \<longleftrightarrow>
    (\<forall>j < hm_m phi. sg_mul S (hash_oracle H (maurer_transcript S R Y phi)) (row_value S x (hm_n phi) (hm_Gs phi ! j))
       = sg_mul S (hash_oracle H (maurer_transcript S R Y phi)) (Y ! j))"
proof -
  let ?c = "hash_oracle H (maurer_transcript S R Y phi)"
  obtain r where r: "length r = hm_n phi" and R: "R = map (row_value S r (hm_n phi)) (hm_Gs phi)"
    and z: "z = map (\<lambda>i. (r ! i + ?c * x ! i) mod curve_q) [0..<hm_n phi]"
    using p x ok by (auto simp: maurer_prove_def rnd_simps Let_def hom_call_ok dest: rtimes_length)
  have "length R = hm_m phi" "length z = hm_n phi" using ok by (simp_all add: R z hom_ok_def)
  moreover have "row_value S z (hm_n phi) (hm_Gs phi ! j) = sg_add S (R ! j) (sg_mul S ?c (row_value S x (hm_n phi) (hm_Gs phi ! j)))"
    if "j < hm_m phi" for j
    using that ok row_value_linear [OF r x] by (simp add: z R hom_ok_def)
  ultimately show ?thesis using ok y by (simp add: maurer_verify_iff add_cancel)
qed

lemma maurer_honest_rows:
  assumes "hom_ok phi" and "length Y = hm_m phi" and "length x = hm_n phi"
    and "maurer_prove H S (phi, Y) (Some x) t = Inr ((R, z), t')"
  defines "c \<equiv> hash_oracle H (maurer_transcript S R Y phi)"
  shows "maurer_verify H S (phi, Y) (R, z) \<longleftrightarrow>
    list_all2 (\<lambda>row y. sg_mul S c (row_value S x (hm_n phi) row) = sg_mul S c y) (hm_Gs phi) Y"
  using maurer_honest_iff [OF assms(1-4)] assms(1,2) by (auto simp: c_def list_all2_conv_all_nth hom_ok_def)

lemma maurer_prove_returns:
  assumes ok: "hom_ok phi" and x: "length x = hm_n phi" and t: "hm_n phi \<le> length t"
  shows "\<exists>R z. maurer_prove H S (phi, Y) (Some x) t = Inr ((R, z), drop (hm_n phi) t)"
proof -
  have draws: "\<exists>r. rtimes n (randbelow curve_q) t = Inr (r, drop n t) \<and> length r = n" if "n \<le> length t" for n t
    using that
  proof (induction n arbitrary: t)
    case (Suc n)
    then obtain u t1 where t: "t = u # t1" "n \<le> length t1" by (cases t) auto
    from Suc.IH [OF t(2)] obtain r where "rtimes n (randbelow curve_q) t1 = Inr (r, drop n t1)" "length r = n" by blast
    moreover have "randbelow curve_q (u # t1) = Inr (u mod curve_q, t1)" by (simp add: randbelow_def curve_q_def)
    ultimately show ?case by (simp add: t(1) rbind_app rret_def)
  qed (simp add: rret_def)
  from draws [OF t] obtain r where "rtimes (hm_n phi) (randbelow curve_q) t = Inr (r, drop (hm_n phi) t)" "length r = hm_n phi" by blast
  then show ?thesis using x by (simp add: maurer_prove_def rbind_app rlift_def hom_call_ok [OF ok] Let_def)
qed

lemma maurer_complete:
  assumes ok: "hom_ok phi" and x: "length x = hm_n phi" and y: "hom_call S phi x = Inr Y"
    and p: "maurer_prove H S (phi, Y) (Some x) t = Inr (pf, t')"
  shows "maurer_verify H S (phi, Y) pf"
proof -
  have Y: "Y = map (row_value S x (hm_n phi)) (hm_Gs phi)" using y hom_call_ok [OF ok x] by simp
  then have "length Y = hm_m phi" using ok by (simp add: hom_ok_def)
  moreover obtain R z where pf: "pf = (R, z)" by (cases pf)
  ultimately show ?thesis
    using maurer_honest_iff [OF ok _ x p [unfolded pf]] ok by (simp add: Y pf hom_ok_def)
qed

text \<open>Two accepted proofs with one commitment and different challenges show a preimage of a multiple of \<open>Y\<close>.\<close>

lemma maurer_fork:
  assumes ok: "hom_ok phi" and v: "maurer_verify H S (phi, Y) (R, z)" and v': "maurer_verify H' S (phi, Y) (R, z')"
    and j: "j < hm_m phi"
  shows "row_value S (map2 (-) z z') (hm_n phi) (hm_Gs phi ! j)
    = sg_mul S (hash_oracle H (maurer_transcript S R Y phi) - hash_oracle H' (maurer_transcript S R Y phi)) (Y ! j)"
proof -
  let ?c = "hash_oracle H (maurer_transcript S R Y phi)" and ?c' = "hash_oracle H' (maurer_transcript S R Y phi)"
  let ?v = "\<lambda>x. row_value S x (hm_n phi) (hm_Gs phi ! j)"
  have len: "length z = hm_n phi" "length z' = hm_n phi"
    and "?v z = sg_add S (R ! j) (sg_mul S ?c (Y ! j))" "?v z' = sg_add S (R ! j) (sg_mul S ?c' (Y ! j))"
    using v v' j by (simp_all add: maurer_verify_iff [OF ok])
  moreover have "sg_mul S ?c (Y ! j) = sg_add S (sg_mul S (?c - ?c') (Y ! j)) (sg_mul S ?c' (Y ! j))"
    by (simp flip: mul_add)
  ultimately have "sg_add S (?v z') (?v (map2 (-) z z')) = sg_add S (?v z') (sg_mul S (?c - ?c') (Y ! j))"
    using row_value_diff [OF len, of "hm_Gs phi ! j"] by (metis add_assoc add_commute)
  then show ?thesis by (simp add: add_cancel)
qed

end

section \<open>The residues as points\<close>

text \<open>The integers modulo \<open>curve_q\<close> satisfy the laws.\<close>

type_synonym residue = 115792089237316195423570985008687907852837564279074904382605163141518161494337

definition residue_sage :: "residue sage" where
  "residue_sage =
     \<lparr> sg_add = (+), sg_zero = 0, sg_mul = (\<lambda>a P. of_int a * P), sg_gen = 1,
       sg_show = (\<lambda>Ps. []), sg_show_matrix = (\<lambda>M. []) \<rparr>"

lemma card_residue: "int CARD(residue) = curve_q"
  by (simp add: curve_q_def)

lemma residue_mod: "of_int (a mod curve_q) = (of_int a :: residue)"
  by (simp only: bit1.of_int_eq card_residue [symmetric] mod_mod_trivial)

interpretation residue_points: sage_ok residue_sage
  by unfold_locales (simp_all add: residue_sage_def residue_mod algebra_simps)

end
