(* ===== verification/Rlwe.thy ===== *)
theory Rlwe
  imports Maurer
begin

text \<open>
  \<^verbatim>\<open>inside/deploy/src/rlwe.py\<close> and \<^verbatim>\<open>task.py\<close>: a key of ring-LWE, the proof that one knows its secret, as three of
  Maurer's proofs, and the service that gives the flag for such a proof. Polynomials are their lists
  of coefficients; the reduction of \<open>a * s + e\<close> modulo \<open>x ^ n + 1\<close>, which SageMath does, is the argument
  \<open>reduce\<close>.
\<close>

unbundle bit_operations_syntax

section \<open>Keys\<close>

definition rl_qq :: int where "rl_qq = 3329"
definition rl_n :: nat where "rl_n = 256"

definition randint :: "int \<Rightarrow> int \<Rightarrow> int rnd" where
  "randint lo hi = rbind (randbelow (hi - lo + 1)) (\<lambda>r. rret (lo + r))"

definition f2l :: "int list \<Rightarrow> int list" where
  "f2l p = p @ replicate (rl_n - length p) 0"

type_synonym rlwe_statement = "int list \<times> int list"
type_synonym rlwe_witness = "int list \<times> int list \<times> int list"

definition rlwe_gen ::
  "(int list \<Rightarrow> int list \<Rightarrow> int list \<Rightarrow> int list) \<Rightarrow> (rlwe_statement \<times> rlwe_witness) rnd" where
  "rlwe_gen reduce =
     rbind (rtimes rl_n (randint ((- rl_qq) div 2) (rl_qq div 2))) (\<lambda>a.
     rbind (rtimes rl_n (randint (- 1) 1)) (\<lambda>s.
     rbind (rtimes rl_n (randint (- 1) 1)) (\<lambda>e.
     let c = reduce a s e;
         b = map (\<lambda>x. x mod rl_qq) c;
         k = map2 (\<lambda>x y. (x - y) div rl_qq) c b in
     rlift (ebind (eguard (c = map2 (\<lambda>y z. y + z * rl_qq) b k) AssertionError) (\<lambda>_.
       Inr ((f2l a, f2l b), (f2l s, f2l e, f2l k)))))))"

section \<open>The proof\<close>

definition bitdecom :: "int \<Rightarrow> nat \<Rightarrow> int list res" where
  "bitdecom x nbit =
     (if \<not> (0 \<le> x \<and> x \<le> 2 ^ nbit - 1) then Inl AssertionError
      else Inr (map (\<lambda>i. drop_bit i x AND 1) [0..<nbit]))"

record 'p aux =
  ax_s :: "'p list list"
  ax_e :: "'p list list"
  ax_k :: "'p list"

definition unit_row :: "'p sage \<Rightarrow> nat \<Rightarrow> nat \<Rightarrow> 'p \<Rightarrow> 'p list" where
  "unit_row S i j P =
     replicate (i * 2) (sg_zero S) @ replicate j (sg_zero S) @ [P] @ replicate (2 - j - 1) (sg_zero S)
       @ replicate (2 * (rl_n - i - 1)) (sg_zero S)"

definition key_row :: "'p sage \<Rightarrow> nat \<Rightarrow> 'p \<Rightarrow> 'p list" where
  "key_row S i P = replicate i (sg_zero S) @ [P] @ replicate (rl_n - i - 1) (sg_zero S)"

text \<open>The rows that state, for every bit, that it is a multiple of its base point, and of itself.\<close>

definition bit_rows :: "'p sage \<Rightarrow> 'p list \<Rightarrow> 'p list list \<Rightarrow> 'p list list" where
  "bit_rows S crs ax =
     concat (map (\<lambda>j. map (\<lambda>i. unit_row S i j (crs ! i)) [0..<rl_n] @ map (\<lambda>i. unit_row S i j (ax ! i ! j)) [0..<rl_n])
       [0..<2])"

definition bit_points :: "'p list list \<Rightarrow> 'p list" where
  "bit_points ax =
     concat (map (\<lambda>j. map (\<lambda>i. ax ! i ! j) [0..<rl_n] @ map (\<lambda>i. ax ! i ! j) [0..<rl_n]) [0..<2])"

definition point_A :: "'p sage \<Rightarrow> int list \<Rightarrow> 'p list \<Rightarrow> nat \<Rightarrow> 'p" where
  "point_A S a crs i = psum S (map (\<lambda>j. sg_mul S (a ! j) (crs ! ((i + j) mod rl_n))) [0..<rl_n])"

definition key_equation :: "'p sage \<Rightarrow> rlwe_statement \<Rightarrow> 'p list \<Rightarrow> 'p aux \<Rightarrow> 'p" where
  "key_equation S st crs aux =
     (let (a, b) = st;
          Bx = psum S (map (\<lambda>i. sg_mul S (b ! i) (crs ! i)) [0..<rl_n]);
          Ex = psum S (map (\<lambda>i. sg_add S (psum S (map (\<lambda>j. sg_mul S (2 ^ j) (ax_e aux ! i ! j)) [0..<2]))
                                         (sg_mul S (- 1) (crs ! i))) [0..<rl_n]);
          Kx = psum S (map (\<lambda>i. ax_k aux ! i) [0..<rl_n])
      in sg_add S (sg_add S (sg_add S (sg_mul S rl_qq Kx) Bx) (sg_mul S (- 1) Ex))
           (psum S (map (point_A S a crs) [0..<rl_n])))"

definition enough_rows :: "'p list list \<Rightarrow> bool" where
  "enough_rows ax \<longleftrightarrow> rl_n \<le> length ax \<and> list_all (\<lambda>row. 2 \<le> length row) (take rl_n ax)"

text \<open>Every index below the bounds is read, so that a list that is too short raises.\<close>

definition rlwe_encode ::
  "'p sage \<Rightarrow> rlwe_statement \<Rightarrow> 'p aux \<Rightarrow> 'p list \<Rightarrow> 'p maurer_statement list res" where
  "rlwe_encode S st aux crs =
     (let (a, b) = st in
      if length a < rl_n \<or> length b < rl_n \<or> length crs < rl_n \<or> \<not> enough_rows (ax_s aux) \<or> \<not> enough_rows (ax_e aux)
         \<or> length (ax_k aux) < rl_n
      then Inl IndexError
      else
        ebind (new_hom (concat (map (\<lambda>i. map (\<lambda>j. sg_mul S (2 ^ j) (point_A S a crs i)) [0..<2]) [0..<rl_n])
                        # bit_rows S crs (ax_s aux))) (\<lambda>phi0.
        ebind (new_hom (bit_rows S crs (ax_e aux))) (\<lambda>phi1.
        ebind (new_hom (map (\<lambda>i. key_row S i (crs ! i)) [0..<rl_n])) (\<lambda>phi2.
        Inr [(phi0, key_equation S st crs aux # bit_points (ax_s aux)), (phi1, bit_points (ax_e aux)),
             (phi2, map (\<lambda>i. ax_k aux ! i) [0..<rl_n])]))))"

definition bit_multiples :: "'p sage \<Rightarrow> 'p list \<Rightarrow> int list list \<Rightarrow> 'p list list" where
  "bit_multiples S crs bits = map (\<lambda>i. map (\<lambda>j. sg_mul S (bits ! i ! j) (crs ! i)) [0..<2]) [0..<rl_n]"

fun maurer_prove_all ::
  "(bytes \<Rightarrow> 256 word) \<Rightarrow> 'p sage \<Rightarrow> ('p maurer_statement \<times> int list) list \<Rightarrow> 'p maurer_proof list rnd" where
  "maurer_prove_all H S [] = rret []"
| "maurer_prove_all H S ((st, wit) # rest) =
     rbind (maurer_prove H S st (Some wit)) (\<lambda>p.
     rbind (maurer_prove_all H S rest) (\<lambda>ps. rret (p # ps)))"

definition rlwe_prove ::
  "(bytes \<Rightarrow> 256 word) \<Rightarrow> 'p sage \<Rightarrow> rlwe_statement \<Rightarrow> rlwe_witness option \<Rightarrow> 'p list
     \<Rightarrow> ('p aux \<times> 'p maurer_proof list) rnd" where
  "rlwe_prove H S st wit crs =
     (case wit of
        None \<Rightarrow> rlift (Inl AssertionError)
      | Some (s, e, k) \<Rightarrow>
          rbind (rlift (emap (\<lambda>x. bitdecom (x + 1) 2) s)) (\<lambda>ss.
          rbind (rlift (emap (\<lambda>x. bitdecom (x + 1) 2) e)) (\<lambda>ee.
          if length ss < rl_n \<or> length ee < rl_n \<or> length k < rl_n \<or> length crs < rl_n then rlift (Inl IndexError)
          else
            let aux = \<lparr> ax_s = bit_multiples S crs ss, ax_e = bit_multiples S crs ee,
                        ax_k = map (\<lambda>i. sg_mul S (k ! i) (crs ! i)) [0..<rl_n] \<rparr> in
            rbind (rlift (rlwe_encode S st aux crs)) (\<lambda>sts.
            rbind (maurer_prove_all H S (zip sts [concat ss, concat ee, k])) (\<lambda>proof.
            rret (aux, proof))))))"

definition rlwe_verify ::
  "(bytes \<Rightarrow> 256 word) \<Rightarrow> 'p sage \<Rightarrow> rlwe_statement \<Rightarrow> 'p list \<Rightarrow> 'p aux \<Rightarrow> 'p maurer_proof list \<Rightarrow> bool" where
  "rlwe_verify H S st crs aux proof =
     (case rlwe_encode S st aux crs of
        Inl e \<Rightarrow> False
      | Inr sts \<Rightarrow>
          length sts = length proof \<and> list_all (\<lambda>(st, pf). maurer_verify H S st pf) (zip sts proof))"

section \<open>The service\<close>

text \<open>
  A line is text. \<open>parse\<close> stands for \<^verbatim>\<open>ast.literal_eval\<close> and the conversion to points; \<open>None\<close> is an
  exception. An exception anywhere ends the session, as does the end of the input.
\<close>

datatype 'p inside_out =
    MenuOut
  | CrsOut "'p list"
  | StOut rlwe_statement
  | NahOut
  | FlagOut
  | NotToday

definition letters :: string where
  "letters = ''abcdefghijklmnopqrstuvwxyzABCDEFGHIJKLMNOPQRSTUVWXYZ0123456789''"

text \<open>The proof of work: the challenge that is printed, and whether the prefix was found.\<close>

definition inside_pow :: "string \<Rightarrow> (string \<times> bool) rnd" where
  "inside_pow prefix =
     rbind (rtimes 20 (randbelow (int (length letters)))) (\<lambda>ks.
       let ss = map (\<lambda>k. letters ! nat k) ks in rret (drop 4 ss, prefix = take 4 ss))"

definition make_crs :: "'p sage \<Rightarrow> 'p list rnd" where
  "make_crs S =
     rbind (urandom_int 32) (\<lambda>r.
       let tau = r mod curve_q in rret (map (\<lambda>i. sg_mul S (tau ^ i mod curve_q) (sg_gen S)) [0..<rl_n]))"

fun inside_loop ::
  "(bytes \<Rightarrow> 256 word) \<Rightarrow> 'p sage \<Rightarrow> (int list \<Rightarrow> int list \<Rightarrow> int list \<Rightarrow> int list)
     \<Rightarrow> (string \<Rightarrow> string \<Rightarrow> ('p aux \<times> 'p maurer_proof list) option)
     \<Rightarrow> 'p list option \<Rightarrow> rlwe_statement option \<Rightarrow> string list \<Rightarrow> tape \<Rightarrow> 'p inside_out list" where
  "inside_loop H S reduce parse crs st [] t = [MenuOut]"
| "inside_loop H S reduce parse crs st (line # lines) t =
     (let inp = map ascii_lower (py_strip line) in
      MenuOut #
      (if inp = ''q'' then []
       else if inp = ''c'' then
         (case make_crs S t of
            Inl e \<Rightarrow> []
          | Inr (crs, t) \<Rightarrow> CrsOut crs # inside_loop H S reduce parse (Some crs) st lines t)
       else if inp = ''r'' then
         (case rlwe_gen reduce t of
            Inl e \<Rightarrow> []
          | Inr ((st, wit), t) \<Rightarrow> StOut st # inside_loop H S reduce parse crs (Some st) lines t)
       else if inp = ''p'' then
         (case (crs, st) of
            (Some c, Some s) \<Rightarrow>
              (case lines of
                 l1 # l2 # lines \<Rightarrow>
                   (case parse l1 l2 of
                      None \<Rightarrow> []
                    | Some (aux, proof) \<Rightarrow>
                        if rlwe_verify H S s c aux proof then [FlagOut]
                        else inside_loop H S reduce parse crs st lines t)
               | _ \<Rightarrow> [])
          | _ \<Rightarrow> NahOut # inside_loop H S reduce parse crs st lines t)
       else if inp = ''t'' then NotToday # inside_loop H S reduce parse crs st lines t
       else []))"

definition inside_main ::
  "(bytes \<Rightarrow> 256 word) \<Rightarrow> 'p sage \<Rightarrow> (int list \<Rightarrow> int list \<Rightarrow> int list \<Rightarrow> int list)
     \<Rightarrow> (string \<Rightarrow> string \<Rightarrow> ('p aux \<times> 'p maurer_proof list) option) \<Rightarrow> string list \<Rightarrow> tape \<Rightarrow> 'p inside_out list"
where
  "inside_main H S reduce parse lines t =
     (case lines of
        [] \<Rightarrow> []
      | prefix # lines \<Rightarrow>
          (case inside_pow prefix t of
             Inl e \<Rightarrow> []
           | Inr ((shown, ok), t) \<Rightarrow> if ok then inside_loop H S reduce parse None None lines t else []))"

end
