(* ===== verification/RlweProps.thy ===== *)
theory RlweProps
  imports Rlwe
begin

text \<open>
  What the proof of \<open>Rlwe\<close> is worth: the verifier accepts an honest proof only if the products do not wrap
  around, because the statement is cyclic where the ring is negacyclic; and it accepts a proof made without
  the secret of any key, because nothing bounds the quotients. The service gives the flag for an accepted proof
  only.
\<close>

unbundle bit_operations_syntax

section \<open>Bits\<close>

lemma bitdecom_pair:
  assumes "bitdecom x 2 = Inr bs"
  obtains b0 b1 where "bs = [b0, b1]" "b0 \<in> {0, 1}" "b1 \<in> {0, 1}" "x = b0 + 2 * b1"
proof -
  have x: "0 \<le> x" "x \<le> 3" and bs: "bs = [x AND 1, drop_bit 1 x AND 1]"
    using assms by (auto simp: bitdecom_def numeral_2_eq_2 split: if_splits)
  from x have "x = 0 \<or> x = 1 \<or> x = 2 \<or> x = 3" by presburger
  then show ?thesis
  proof (elim disjE)
  qed (use that bs in simp_all)
qed

lemma emap_pairs:
  assumes "emap (\<lambda>x. bitdecom (x + 1) 2) xs = Inr bs"
  shows "length bs = length xs"
    and "i < length xs \<Longrightarrow> \<exists>b0 b1. bs ! i = [b0, b1] \<and> b0 \<in> {0, 1} \<and> b1 \<in> {0, 1} \<and> xs ! i + 1 = b0 + 2 * b1"
proof -
  have "list_all2 (\<lambda>x b. bitdecom (x + 1) 2 = Inr b) xs bs"
    using assms by (induction xs arbitrary: bs) (auto simp: res_simps)
  then show "length bs = length xs"
    and "i < length xs \<Longrightarrow> \<exists>b0 b1. bs ! i = [b0, b1] \<and> b0 \<in> {0, 1} \<and> b1 \<in> {0, 1} \<and> xs ! i + 1 = b0 + 2 * b1"
    by (auto simp: list_all2_conv_all_nth elim!: bitdecom_pair)
qed

lemma concat_pairs:
  assumes "\<forall>b \<in> set bs. length b = 2" and "i < length bs" and "j < 2"
  shows "concat bs ! (i * 2 + j) = bs ! i ! j"
  using assms
proof (induction bs arbitrary: i)
  case (Cons b bs)
  then show ?case by (cases i) (simp_all add: nth_append)
qed simp

lemma length_concat_pairs: "\<forall>b \<in> set bs. length b = 2 \<Longrightarrow> length (concat bs) = 2 * length bs"
  by (induction bs) simp_all

lemma list_all2_concat_map:
  "(\<And>i. i \<in> set xs \<Longrightarrow> list_all2 P (f i) (g i)) \<Longrightarrow> list_all2 P (concat (map f xs)) (concat (map g xs))"
  by (induction xs) (simp_all add: list_all2_appendI)

lemma map2_concat_map:
  "(\<And>i. i \<in> set xs \<Longrightarrow> length (f i) = length (g i)) \<Longrightarrow>
     map2 h (concat (map f xs)) (concat (map g xs)) = concat (map (\<lambda>i. map2 h (f i) (g i)) xs)"
  by (induction xs) simp_all

section \<open>Rows\<close>

lemma length_unit_row [simp]: "i < rl_n \<Longrightarrow> j < 2 \<Longrightarrow> length (unit_row S i j P) = 2 * rl_n"
  by (simp add: unit_row_def)

lemma nth_unit_row:
  "i < rl_n \<Longrightarrow> j < 2 \<Longrightarrow> k < 2 * rl_n \<Longrightarrow> unit_row S i j P ! k = (if k = i * 2 + j then P else sg_zero S)"
  by (auto simp: unit_row_def nth_append nth_Cons split: nat.split)

lemma length_key_row [simp]: "i < rl_n \<Longrightarrow> length (key_row S i P) = rl_n"
  by (simp add: key_row_def)

lemma nth_key_row: "i < rl_n \<Longrightarrow> k < rl_n \<Longrightarrow> key_row S i P ! k = (if k = i then P else sg_zero S)"
  by (auto simp: key_row_def nth_append nth_Cons split: nat.split)

context sage_ok
begin

lemma row_value_map2: "length x = n \<Longrightarrow> length row = n \<Longrightarrow> row_value S x n row = psum S (map2 (sg_mul S) x row)"
  unfolding row_value_def by (intro arg_cong [where f = "psum S"] nth_equalityI) simp_all

lemma psum_concat: "psum S (concat Pss) = psum S (map (psum S) Pss)"
  by (induction Pss) (simp_all add: psum_append)

lemma unit_row_value:
  assumes "i < rl_n" and "j < 2"
  shows "row_value S x (2 * rl_n) (unit_row S i j P) = sg_mul S (x ! (i * 2 + j)) P"
proof -
  have "row_value S x (2 * rl_n) (unit_row S i j P)
      = (\<lambda>k. sg_mul S (x ! k) (unit_row S i j P ! k)) (i * 2 + j)"
    unfolding row_value_def
    by (rule psum_single) (use assms in \<open>auto simp: nth_unit_row\<close>)
  then show ?thesis using assms by (simp add: nth_unit_row)
qed

lemma key_row_value:
  assumes "i < rl_n"
  shows "row_value S x rl_n (key_row S i P) = sg_mul S (x ! i) P"
proof -
  have "row_value S x rl_n (key_row S i P) = (\<lambda>k. sg_mul S (x ! k) (key_row S i P ! k)) i"
    unfolding row_value_def by (rule psum_single) (use assms in \<open>auto simp: nth_key_row\<close>)
  then show ?thesis using assms by (simp add: nth_key_row)
qed

text \<open>The row of the key equation.\<close>

lemma equation_row_value:
  assumes bs: "length bs = rl_n" and pairs: "\<And>i. i < rl_n \<Longrightarrow> \<exists>b0 b1. bs ! i = [b0, b1] \<and> s ! i + 1 = b0 + 2 * b1"
  shows "row_value S (concat bs) (2 * rl_n) (concat (map (\<lambda>i. map (\<lambda>j. sg_mul S (2 ^ j) (A i)) [0..<2]) [0..<rl_n]))
    = psum S (map (\<lambda>i. sg_mul S (s ! i + 1) (A i)) [0..<rl_n])"
proof -
  let ?row = "concat (map (\<lambda>i. map (\<lambda>j. sg_mul S (2 ^ j) (A i)) [0..<2]) [0..<rl_n])"
  have two: "\<forall>b \<in> set bs. length b = 2" using pairs bs by (force simp: in_set_conv_nth)
  have bs': "bs = map (\<lambda>i. bs ! i) [0..<rl_n]" using bs by (simp add: map_nth flip: bs)
  have "length ?row = 2 * rl_n" by (subst length_concat_pairs) auto
  moreover have "length (concat bs) = 2 * rl_n" using length_concat_pairs [OF two] bs by simp
  ultimately have "row_value S (concat bs) (2 * rl_n) ?row = psum S (map2 (sg_mul S) (concat bs) ?row)"
    by (intro row_value_map2)
  also have "map2 (sg_mul S) (concat bs) ?row
      = concat (map (\<lambda>i. map2 (sg_mul S) (bs ! i) (map (\<lambda>j. sg_mul S (2 ^ j) (A i)) [0..<2])) [0..<rl_n])"
    by (subst bs') (rule map2_concat_map, use two bs in simp)
  also have "psum S \<dots> = psum S (map (\<lambda>i. sg_mul S (s ! i + 1) (A i)) [0..<rl_n])"
  proof (unfold psum_concat map_map comp_def, intro arg_cong [where f = "psum S"] map_cong refl)
    fix i assume "i \<in> set [0..<rl_n]"
    then obtain b0 b1 where "bs ! i = [b0, b1]" "s ! i + 1 = b0 + 2 * b1" using pairs [of i] by auto
    then show "psum S (map2 (sg_mul S) (bs ! i) (map (\<lambda>j. sg_mul S (2 ^ j) (A i)) [0..<2])) = sg_mul S (s ! i + 1) (A i)"
      by (simp add: numeral_2_eq_2 mul_mul mul_one mul_add [symmetric] ac_simps del: mul_add)
  qed
  finally show ?thesis .
qed

lemma bit_rows_hold:
  assumes len: "length bs = rl_n" and pairs: "\<And>i. i < rl_n \<Longrightarrow> \<exists>b0 b1. bs ! i = [b0, b1] \<and> b0 \<in> {0, 1} \<and> b1 \<in> {0, 1}"
  shows "list_all2 (\<lambda>row y. row_value S (concat bs) (2 * rl_n) row = y) (bit_rows S crs (bit_multiples S crs bs))
    (bit_points (bit_multiples S crs bs))"
proof -
  have two: "\<forall>b \<in> set bs. length b = 2" using pairs len by (force simp: in_set_conv_nth)
  have cell: "bit_multiples S crs bs ! i ! j = sg_mul S (bs ! i ! j) (crs ! i)" if "i < rl_n" "j < 2" for i j
    using that by (simp add: bit_multiples_def)
  have entry: "concat bs ! (i * 2 + j) = bs ! i ! j" if "i < rl_n" "j < 2" for i j
    using concat_pairs [OF two] that len by simp
  have bit: "bs ! i ! j * bs ! i ! j = bs ! i ! j" if "i < rl_n" "j < 2" for i j
    using pairs [OF that(1)] that(2) by (auto simp: less_2_cases_iff)
  show ?thesis
    unfolding bit_rows_def bit_points_def
    by (intro list_all2_concat_map list_all2_appendI)
      (auto simp: list_all2_conv_all_nth unit_row_value entry cell mul_mul bit)
qed

lemma key_rows_hold:
  "list_all2 (\<lambda>row y. row_value S k rl_n row = y) (map (\<lambda>i. key_row S i (crs ! i)) [0..<rl_n])
     (map (\<lambda>i. sg_mul S (k ! i) (crs ! i)) [0..<rl_n])"
  by (simp add: list_all2_conv_all_nth key_row_value)

text \<open>The right side of the key equation for the points of a witness.\<close>

lemma key_equation_value:
  assumes pairs: "\<And>i. i < rl_n \<Longrightarrow> \<exists>b0 b1. ee ! i = [b0, b1] \<and> e ! i + 1 = b0 + 2 * b1"
    and aux: "ax_e aux = bit_multiples S crs ee" "ax_k aux = map (\<lambda>i. sg_mul S (k ! i) (crs ! i)) [0..<rl_n]"
  shows "key_equation S (a, b) crs aux
    = sg_add S (psum S (map (\<lambda>i. sg_mul S (rl_qq * k ! i + b ! i - e ! i) (crs ! i)) [0..<rl_n]))
        (psum S (map (point_A S a crs) [0..<rl_n]))"
proof -
  have "sg_add S (psum S (map (\<lambda>j. sg_mul S (2 ^ j) (ax_e aux ! i ! j)) [0..<2])) (sg_mul S (- 1) (crs ! i))
      = sg_mul S (e ! i) (crs ! i)" if i: "i < rl_n" for i
  proof -
    obtain b0 b1 where b: "ee ! i = [b0, b1]" "e ! i + 1 = b0 + 2 * b1" using pairs [OF i] by blast
    then have "e ! i = b0 + (2 * b1 + (- 1))" by simp
    then show ?thesis using b(1) i
      by (simp only: mul_add add_assoc) (simp add: aux bit_multiples_def numeral_2_eq_2 mul_mul add_assoc)
  qed
  then have ex: "psum S (map (\<lambda>i. sg_add S (psum S (map (\<lambda>j. sg_mul S (2 ^ j) (ax_e aux ! i ! j)) [0..<2])) (sg_mul S (- 1) (crs ! i))) [0..<rl_n])
      = psum S (map (\<lambda>i. sg_mul S (e ! i) (crs ! i)) [0..<rl_n])"
    by (intro arg_cong [where f = "psum S"] map_cong) simp_all
  have kx: "psum S (map (\<lambda>i. ax_k aux ! i) [0..<rl_n]) = psum S (map (\<lambda>i. sg_mul S (k ! i) (crs ! i)) [0..<rl_n])"
    unfolding aux(2) by (intro arg_cong [where f = "psum S"] map_cong) simp_all
  have "sg_mul S (rl_qq * k ! i + b ! i - e ! i) P
      = sg_add S (sg_add S (sg_mul S rl_qq (sg_mul S (k ! i) P)) (sg_mul S (b ! i) P)) (sg_mul S (- 1) (sg_mul S (e ! i) P))" for i P
  proof -
    have "rl_qq * k ! i + b ! i - e ! i = (rl_qq * k ! i + b ! i) + (- 1 * e ! i)" by simp
    then show ?thesis by (simp only: mul_add mul_mul)
  qed
  then have "psum S (map (\<lambda>i. sg_mul S (rl_qq * k ! i + b ! i - e ! i) (crs ! i)) [0..<rl_n])
      = sg_add S (sg_add S (sg_mul S rl_qq (psum S (map (\<lambda>i. sg_mul S (k ! i) (crs ! i)) [0..<rl_n])))
            (psum S (map (\<lambda>i. sg_mul S (b ! i) (crs ! i)) [0..<rl_n])))
          (sg_mul S (- 1) (psum S (map (\<lambda>i. sg_mul S (e ! i) (crs ! i)) [0..<rl_n])))"
    by (simp only: psum_add psum_mul)
  then show ?thesis by (simp only: key_equation_def Let_def prod.case ex kx)
qed

end

section \<open>Quotients\<close>

text \<open>The multiple of \<open>rl_qq\<close> that cancels \<open>x\<close> modulo the order of the points.\<close>

definition qq_inverse :: int where
  "qq_inverse = 44208995320104801557031757869042454455078565394624272595461448589026609570232"

definition forged_quotient :: "int \<Rightarrow> int" where
  "forged_quotient x = - x * qq_inverse mod curve_q"

lemma qq_inverse: "rl_qq * qq_inverse mod curve_q = 1"
  by (simp add: rl_qq_def qq_inverse_def curve_q_def)

lemma forged_quotient: "(rl_qq * forged_quotient x + x) mod curve_q = 0"
proof -
  have "(rl_qq * forged_quotient x + x) mod curve_q = (rl_qq * (- x * qq_inverse) + x) mod curve_q"
    unfolding forged_quotient_def by (metis mod_add_left_eq mod_mult_right_eq)
  also have "\<dots> = ((rl_qq * qq_inverse) * (- x) + x) mod curve_q"
    by (simp add: algebra_simps)
  also have "\<dots> = (1 * (- x) + x) mod curve_q"
    unfolding qq_inverse [symmetric] by (metis mod_add_left_eq mod_mult_left_eq)
  finally show ?thesis by simp
qed

section \<open>Products of polynomials\<close>

text \<open>
  The coefficients of \<open>a * s\<close> modulo \<open>x ^ n + 1\<close>, those modulo \<open>x ^ n - 1\<close>, and the part in which they differ.
\<close>

definition wrapped :: "int list \<Rightarrow> int list \<Rightarrow> nat \<Rightarrow> int" where
  "wrapped a s m = (\<Sum>i \<leftarrow> [Suc m..<rl_n]. s ! i * a ! (m + rl_n - i))"

definition ring_product :: "int list \<Rightarrow> int list \<Rightarrow> nat \<Rightarrow> int" where
  "ring_product a s m = (\<Sum>i \<leftarrow> [0..<Suc m]. s ! i * a ! (m - i)) - wrapped a s m"

definition cyclic :: "int list \<Rightarrow> int list \<Rightarrow> nat \<Rightarrow> int" where
  "cyclic a s m = (\<Sum>i \<leftarrow> [0..<rl_n]. s ! i * a ! ((m + rl_n - i) mod rl_n))"

definition ring_reduce :: "int list \<Rightarrow> int list \<Rightarrow> int list \<Rightarrow> int list" where
  "ring_reduce a s e = map (\<lambda>m. ring_product a s m + e ! m) [0..<rl_n]"

lemma cyclic_split:
  assumes "m < rl_n"
  shows "cyclic a s m = ring_product a s m + 2 * wrapped a s m"
proof -
  have "[0..<rl_n] = [0..<Suc m] @ [Suc m..<rl_n]" using assms upt_add_eq_append [of 0 "Suc m" "rl_n - Suc m"] by (simp del: upt_Suc)
  moreover have "map (\<lambda>i. s ! i * a ! ((m + rl_n - i) mod rl_n)) [0..<Suc m] = map (\<lambda>i. s ! i * a ! (m - i)) [0..<Suc m]"
    using assms by (intro map_cong) (auto simp: mod_if simp del: upt_Suc)
  moreover have "map (\<lambda>i. s ! i * a ! ((m + rl_n - i) mod rl_n)) [Suc m..<rl_n] = map (\<lambda>i. s ! i * a ! (m + rl_n - i)) [Suc m..<rl_n]"
    by (intro map_cong) auto
  ultimately have "cyclic a s m = (\<Sum>i \<leftarrow> [0..<Suc m]. s ! i * a ! (m - i)) + wrapped a s m"
    by (simp only: cyclic_def wrapped_def map_append sum_list_append)
  then show ?thesis by (simp only: ring_product_def)
qed

lemma length_f2l [simp]: "length p \<le> rl_n \<Longrightarrow> length (f2l p) = rl_n"
  by (simp add: f2l_def)

lemma f2l_id [simp]: "length p = rl_n \<Longrightarrow> f2l p = p"
  by (simp add: f2l_def)

lemma length_ring_reduce [simp]: "length (ring_reduce a s e) = rl_n"
  by (simp add: ring_reduce_def)

text \<open>The key that is generated satisfies its equation, and has the lengths the proof needs.\<close>

lemma rlwe_gen_sound:
  assumes "rlwe_gen ring_reduce t = Inr (((a, b), (s, e, k)), t')"
  shows "length a = rl_n \<and> length b = rl_n \<and> length s = rl_n \<and> length e = rl_n \<and> length k = rl_n
    \<and> set s \<subseteq> {- 1, 0, 1} \<and> set e \<subseteq> {- 1, 0, 1} \<and> set b \<subseteq> {0..<rl_qq}
    \<and> (\<forall>m < rl_n. b ! m + k ! m * rl_qq = ring_product a s m + e ! m)"
proof -
  have small: "x \<in> {- 1, 0, 1}" if "randint (- 1) 1 u = Inr (x, u')" for x u u'
    using that by (auto simp: randint_def rnd_simps)
  obtain a' t1 s' t2 e' t3 where
      a: "rtimes rl_n (randint ((- rl_qq) div 2) (rl_qq div 2)) t = Inr (a', t1)"
    and s: "rtimes rl_n (randint (- 1) 1) t1 = Inr (s', t2)" and e: "rtimes rl_n (randint (- 1) 1) t2 = Inr (e', t3)"
    and fin: "(let c = ring_reduce a' s' e'; b = map (\<lambda>x. x mod rl_qq) c; k = map2 (\<lambda>x y. (x - y) div rl_qq) c b in
     rlift (ebind (eguard (c = map2 (\<lambda>y z. y + z * rl_qq) b k) AssertionError) (\<lambda>_.
       Inr ((f2l a', f2l b), (f2l s', f2l e', f2l k))))) t3 = Inr (((a, b), (s, e, k)), t')"
    using assms unfolding rlwe_gen_def by (auto simp only: rbind_eq_Inr)
  note lens = rtimes_length [OF a] rtimes_length [OF s] rtimes_length [OF e]
  define c where "c = ring_reduce a' s' e'"
  have "length c = rl_n" by (simp add: c_def)
  with fin lens have same: "a = a'" "s = s'" "e = e'" and b: "b = map (\<lambda>x. x mod rl_qq) c"
    and k: "k = map2 (\<lambda>x y. (x - y) div rl_qq) c b" and eq: "c = map2 (\<lambda>y z. y + z * rl_qq) b k"
    unfolding c_def [symmetric] by (simp_all add: rlift_eq_Inr ebind_eq_Inr eguard_eq_Inr Let_def split: prod.splits) blast+
  note a = a [folded same] and s = s [folded same] and e = e [folded same] and c_def = c_def [folded same]
  have len: "length a = rl_n" "length b = rl_n" "length s = rl_n" "length e = rl_n" "length k = rl_n"
    using lens by (simp_all add: same b k c_def)
  moreover have "b ! m + k ! m * rl_qq = ring_product a s m + e ! m" if "m < rl_n" for m
    using arg_cong [OF eq, of "\<lambda>c. c ! m"] that len by (simp add: c_def ring_reduce_def)
  moreover have "set s \<subseteq> {- 1, 0, 1}"
    by (rule subsetI, rule rtimes_all [where P = "\<lambda>x. x \<in> {- 1, 0, 1}", OF _ s]) (rule small)
  moreover have "set e \<subseteq> {- 1, 0, 1}"
    by (rule subsetI, rule rtimes_all [where P = "\<lambda>x. x \<in> {- 1, 0, 1}", OF _ e]) (rule small)
  moreover have "set b \<subseteq> {0..<rl_qq}" by (auto simp: b rl_qq_def)
  ultimately show ?thesis by blast
qed

lemma rtimes_returns:
  assumes "\<And>x t. \<exists>y. m (x # t) = Inr (y, t)"
  shows "n \<le> length t \<Longrightarrow> \<exists>ys. rtimes n m t = Inr (ys, drop n t)"
proof (induction n arbitrary: t)
  case (Suc n)
  then obtain x t1 where t: "t = x # t1" "n \<le> length t1" by (cases t) auto
  obtain y where "m (x # t1) = Inr (y, t1)" using assms by blast
  moreover obtain ys where "rtimes n m t1 = Inr (ys, drop n t1)" using Suc.IH [OF t(2)] by blast
  ultimately show ?case by (simp add: t(1) rbind_app rret_def)
qed (simp add: rret_def)

lemma randint_Cons: "lo \<le> hi \<Longrightarrow> randint lo hi (x # t) = Inr (lo + x mod (hi - lo + 1), t)"
  by (simp add: randint_def randbelow_def rbind_app rret_def)

lemma rlwe_gen_returns:
  assumes "3 * rl_n \<le> length t"
  shows "\<exists>a b s e k. rlwe_gen ring_reduce t = Inr (((a, b), (s, e, k)), drop (3 * rl_n) t)"
proof -
  have rt: "\<exists>ys. rtimes rl_n (randint lo hi) u = Inr (ys, drop rl_n u)" if "lo \<le> hi" "rl_n \<le> length u" for lo hi u
    using rtimes_returns [of "randint lo hi" rl_n u] randint_Cons [OF that(1)] that(2) by blast
  have l: "rl_n \<le> length t" "rl_n \<le> length (drop rl_n t)" "rl_n \<le> length (drop rl_n (drop rl_n t))"
    using assms by simp_all
  obtain a where a: "rtimes rl_n (randint ((- rl_qq) div 2) (rl_qq div 2)) t = Inr (a, drop rl_n t)"
    using rt [OF _ l(1), of "(- rl_qq) div 2" "rl_qq div 2"] by (auto simp: rl_qq_def)
  obtain s e where se: "rtimes rl_n (randint (- 1) 1) (drop rl_n t) = Inr (s, drop rl_n (drop rl_n t))"
      "rtimes rl_n (randint (- 1) 1) (drop rl_n (drop rl_n t)) = Inr (e, drop rl_n (drop rl_n (drop rl_n t)))"
    using rt [OF _ l(2), of "- 1" 1] rt [OF _ l(3), of "- 1" 1] by auto
  have d: "drop rl_n (drop rl_n (drop rl_n t)) = drop (3 * rl_n) t" by (simp add: numeral_3_eq_3)
  note se = se [unfolded d]
  have "c = map2 (\<lambda>y z. y + z * rl_qq) (map (\<lambda>x. x mod rl_qq) c) (map2 (\<lambda>x y. (x - y) div rl_qq) c (map (\<lambda>x. x mod rl_qq) c))" for c
    by (induction c) (simp_all add: minus_mod_eq_div_mult [symmetric] rl_qq_def)
  note eq = this [of "ring_reduce a s e"]
  show ?thesis
    by (simp add: rlwe_gen_def rbind_app a se Let_def eq [symmetric] rret_def del: drop_drop)
qed

lemma rtimes_zeros: "0 < n \<Longrightarrow> rtimes k (randbelow n) (replicate k 0 @ t) = Inr (replicate k 0, t)"
  by (induction k) (simp_all add: randbelow_def rbind_app rret_def)

section \<open>Honest proofs\<close>

text \<open>The challenge of the first of the three proofs, as the verifier computes it from what it gets.\<close>

definition first_challenge ::
  "(bytes \<Rightarrow> 256 word) \<Rightarrow> 'p sage \<Rightarrow> rlwe_statement \<Rightarrow> 'p list \<Rightarrow> 'p aux \<Rightarrow> 'p maurer_proof list \<Rightarrow> int" where
  "first_challenge H S st crs aux pfs =
     (case (rlwe_encode S st aux crs, pfs) of
        (Inr ((phi, Y) # _), (R, z) # _) \<Rightarrow> hash_oracle H (maurer_transcript S R Y phi)
      | _ \<Rightarrow> 0)"

lemma first_challenge_hash:
  assumes "rlwe_prove H S st wit crs t = Inr ((aux, pfs), t')"
  shows "\<exists>R Y phi. first_challenge H S st crs aux pfs = hash_oracle H (maurer_transcript S R Y phi)"
proof -
  obtain s e k ss ee sts where wit: "wit = Some (s, e, k)" and enc: "rlwe_encode S st aux crs = Inr sts"
    and pr: "maurer_prove_all H S (zip sts [concat ss, concat ee, k]) t = Inr (pfs, t')"
    using assms unfolding rlwe_prove_def
    by (cases wit) (auto simp: rnd_simps Let_def rlift_def ebind_eq_Inr split: if_split_asm)
  obtain phi Y sts' where sts: "sts = (phi, Y) # sts'"
    using enc by (auto simp: rlwe_encode_def Let_def ebind_eq_Inr split: prod.split_asm if_split_asm)
  obtain R z pfs' where pfs: "pfs = (R, z) # pfs'"
    using pr by (auto simp: sts rnd_simps)
  show ?thesis by (auto simp: first_challenge_def enc sts pfs)
qed

context sage_ok
begin

lemma maurer_holds:
  assumes "hom_ok phi" and "length x = hm_n phi" and "list_all2 (\<lambda>row y. row_value S x (hm_n phi) row = y) (hm_Gs phi) Y"
    and "maurer_prove H S (phi, Y) (Some x) t = Inr (pf, t')"
  shows "maurer_verify H S (phi, Y) pf"
proof -
  obtain R z where pf: "pf = (R, z)" by (cases pf)
  have "length Y = hm_m phi" using assms(1,3) by (auto simp: hom_ok_def dest: list_all2_lengthD)
  moreover have "list_all2 (\<lambda>row y. sg_mul S c (row_value S x (hm_n phi) row) = sg_mul S c y) (hm_Gs phi) Y" for c
    using assms(3) by (rule list_all2_mono) simp
  ultimately show ?thesis using maurer_honest_rows [OF assms(1) _ assms(2) assms(4) [unfolded pf]] by (simp add: pf)
qed

lemma rlwe_encode_parts:
  assumes len: "length a = rl_n" "length b = rl_n" "length crs = rl_n"
    and rows: "enough_rows (ax_s aux)" "enough_rows (ax_e aux)" "rl_n \<le> length (ax_k aux)"
  obtains phi0 phi1 phi2 where
    "rlwe_encode S (a, b) aux crs = Inr [(phi0, key_equation S (a, b) crs aux # bit_points (ax_s aux)),
       (phi1, bit_points (ax_e aux)), (phi2, map (\<lambda>i. ax_k aux ! i) [0..<rl_n])]"
    "hom_ok phi0" "hm_n phi0 = 2 * rl_n"
    "hm_Gs phi0 = concat (map (\<lambda>i. map (\<lambda>j. sg_mul S (2 ^ j) (point_A S a crs i)) [0..<2]) [0..<rl_n]) # bit_rows S crs (ax_s aux)"
    "hom_ok phi1" "hm_n phi1 = 2 * rl_n" "hm_Gs phi1 = bit_rows S crs (ax_e aux)"
    "hom_ok phi2" "hm_n phi2 = rl_n" "hm_Gs phi2 = map (\<lambda>i. key_row S i (crs ! i)) [0..<rl_n]"
proof -
  let ?eq = "concat (map (\<lambda>i. map (\<lambda>j. sg_mul S (2 ^ j) (point_A S a crs i)) [0..<2]) [0..<rl_n])"
  have total: "\<exists>phi. new_hom Gs = Inr phi" if "Gs \<noteq> []" for Gs using that by (cases Gs) (simp_all add: new_hom_def)
  have pos: "0 < rl_n" by (simp add: rl_n_def)
  have ne1: "bit_rows S crs (ax_e aux) \<noteq> []" using pos by (simp add: bit_rows_def numeral_2_eq_2)
  have ne2: "map (\<lambda>i. key_row S i (crs ! i)) [0..<rl_n] \<noteq> []" using pos by simp
  obtain phi0 phi1 phi2 where n0: "new_hom (?eq # bit_rows S crs (ax_s aux)) = Inr phi0"
    and n1: "new_hom (bit_rows S crs (ax_e aux)) = Inr phi1" and n2: "new_hom (map (\<lambda>i. key_row S i (crs ! i)) [0..<rl_n]) = Inr phi2"
    using total [OF list.discI, OF refl] total [OF ne1] total [OF ne2] by blast
  have wide: "\<forall>row \<in> set (bit_rows S crs ax). length row = 2 * rl_n" for ax by (auto simp: bit_rows_def)
  have "length ?eq = 2 * rl_n" by (subst length_concat_pairs) auto
  then have h0: "hom_ok phi0" "hm_n phi0 = 2 * rl_n" "hm_Gs phi0 = ?eq # bit_rows S crs (ax_s aux)"
    using new_hom_ok [OF n0, of "2 * rl_n"] wide by auto
  have h1: "hom_ok phi1" "hm_n phi1 = 2 * rl_n" "hm_Gs phi1 = bit_rows S crs (ax_e aux)"
    using new_hom_ok [OF n1, of "2 * rl_n"] wide by auto
  have h2: "hom_ok phi2" "hm_n phi2 = rl_n" "hm_Gs phi2 = map (\<lambda>i. key_row S i (crs ! i)) [0..<rl_n]"
    using new_hom_ok [OF n2, of rl_n] by auto
  have "rlwe_encode S (a, b) aux crs = Inr [(phi0, key_equation S (a, b) crs aux # bit_points (ax_s aux)),
       (phi1, bit_points (ax_e aux)), (phi2, map (\<lambda>i. ax_k aux ! i) [0..<rl_n])]"
    using len rows n0 n1 n2 by (simp add: rlwe_encode_def Let_def)
  with h0 h1 h2 that show ?thesis by blast
qed

lemma Inr_eqI: "x = Inr a \<Longrightarrow> x = Inr b \<Longrightarrow> a = b"
  by simp

lemma enough_multiples: "enough_rows (bit_multiples S crs bits)"
  by (auto simp: enough_rows_def bit_multiples_def list_all_iff)

text \<open>The prover returns, with enough randomness.\<close>

lemma rlwe_prove_returns:
  assumes len: "length a = rl_n" "length b = rl_n" "length crs = rl_n"
      "length s = rl_n" "length e = rl_n" "length k = rl_n"
    and small: "set s \<subseteq> {- 1, 0, 1}" "set e \<subseteq> {- 1, 0, 1}" and t: "5 * rl_n \<le> length t"
  shows "\<exists>aux pfs t'. rlwe_prove H S (a, b) (Some (s, e, k)) crs t = Inr ((aux, pfs), t')"
proof -
  have bits: "\<exists>bs. emap (\<lambda>x. bitdecom (x + 1) 2) xs = Inr bs" if "set xs \<subseteq> {- 1, 0, 1}" for xs
    using that by (induction xs) (auto simp: bitdecom_def)
  obtain ss ee where ss: "emap (\<lambda>x. bitdecom (x + 1) 2) s = Inr ss" and ee: "emap (\<lambda>x. bitdecom (x + 1) 2) e = Inr ee"
    using bits small by blast
  have sl: "length ss = rl_n" "length ee = rl_n" using emap_pairs(1) [OF ss] emap_pairs(1) [OF ee] len by simp_all
  have cl: "length (concat ss) = 2 * rl_n" "length (concat ee) = 2 * rl_n"
    using length_concat_pairs [of ss] length_concat_pairs [of ee] sl emap_pairs(2) [OF ss] emap_pairs(2) [OF ee] len
    by (force simp: in_set_conv_nth)+
  let ?aux = "\<lparr> ax_s = bit_multiples S crs ss, ax_e = bit_multiples S crs ee,
                ax_k = map (\<lambda>i. sg_mul S (k ! i) (crs ! i)) [0..<rl_n] \<rparr>"
  obtain phi0 phi1 phi2 Y0 Y1 Y2 where enc: "rlwe_encode S (a, b) ?aux crs = Inr [(phi0, Y0), (phi1, Y1), (phi2, Y2)]"
    and ok: "hom_ok phi0" "hom_ok phi1" "hom_ok phi2"
    and n: "hm_n phi0 = 2 * rl_n" "hm_n phi1 = 2 * rl_n" "hm_n phi2 = rl_n"
    by (rule rlwe_encode_parts [OF len(1-3), of ?aux]) (auto simp: enough_multiples)
  have dr: "drop (2 * rl_n) (drop (2 * rl_n) t) = drop (4 * rl_n) t" "drop rl_n (drop (4 * rl_n) t) = drop (5 * rl_n) t"
    by (simp_all add: drop_drop)
  have t': "2 * rl_n \<le> length t" "2 * rl_n \<le> length (drop (2 * rl_n) t)" "rl_n \<le> length (drop (4 * rl_n) t)"
    using t by simp_all
  obtain R0 z0 where p0: "maurer_prove H S (phi0, Y0) (Some (concat ss)) t = Inr ((R0, z0), drop (2 * rl_n) t)"
    using maurer_prove_returns [OF ok(1), of "concat ss" t H Y0] t'(1) unfolding n cl by blast
  obtain R1 z1 where p1: "maurer_prove H S (phi1, Y1) (Some (concat ee)) (drop (2 * rl_n) t) = Inr ((R1, z1), drop (4 * rl_n) t)"
    using maurer_prove_returns [OF ok(2), of "concat ee" "drop (2 * rl_n) t" H Y1] t'(2) unfolding n cl dr by blast
  obtain R2 z2 where p2: "maurer_prove H S (phi2, Y2) (Some k) (drop (4 * rl_n) t) = Inr ((R2, z2), drop (5 * rl_n) t)"
    using maurer_prove_returns [OF ok(3), of k "drop (4 * rl_n) t" H Y2] t'(3) unfolding n len dr by blast
  show ?thesis
    by (simp add: rlwe_prove_def rbind_app ss ee sl len enc p0 p1 p2 Let_def rret_def)
qed

text \<open>
  A proof made from numbers \<open>s\<close>, \<open>e\<close>, \<open>k\<close> is accepted exactly if the equation of the key holds between
  the points, up to what the challenge of the first proof does not see.
\<close>

lemma rlwe_prove_verify:
  assumes len: "length a = rl_n" "length b = rl_n" "length crs = rl_n"
      "length s = rl_n" "length e = rl_n" "length k = rl_n"
    and p: "rlwe_prove H S (a, b) (Some (s, e, k)) crs t = Inr ((aux, pfs), t')"
  shows "rlwe_verify H S (a, b) crs aux pfs \<longleftrightarrow>
    sg_mul S (first_challenge H S (a, b) crs aux pfs) (psum S (map (\<lambda>i. sg_mul S (s ! i) (point_A S a crs i)) [0..<rl_n]))
    = sg_mul S (first_challenge H S (a, b) crs aux pfs)
        (psum S (map (\<lambda>i. sg_mul S (rl_qq * k ! i + b ! i - e ! i) (crs ! i)) [0..<rl_n]))"
proof -
  from p len obtain ss ee sts where ss: "emap (\<lambda>x. bitdecom (x + 1) 2) s = Inr ss" and ee: "emap (\<lambda>x. bitdecom (x + 1) 2) e = Inr ee"
    and aux: "aux = \<lparr> ax_s = bit_multiples S crs ss, ax_e = bit_multiples S crs ee,
                        ax_k = map (\<lambda>i. sg_mul S (k ! i) (crs ! i)) [0..<rl_n] \<rparr>"
    and enc: "rlwe_encode S (a, b) aux crs = Inr sts"
    and pr: "maurer_prove_all H S (zip sts [concat ss, concat ee, k]) t = Inr (pfs, t')"
    by (auto simp: rlwe_prove_def rnd_simps Let_def rlift_def ebind_eq_Inr split: if_splits)
  have sl: "length ss = rl_n" "length ee = rl_n" using emap_pairs(1) [OF ss] emap_pairs(1) [OF ee] len by simp_all
  have sp: "\<exists>b0 b1. ss ! i = [b0, b1] \<and> b0 \<in> {0, 1} \<and> b1 \<in> {0, 1} \<and> s ! i + 1 = b0 + 2 * b1" if "i < rl_n" for i
    using emap_pairs(2) [OF ss] that len by simp
  have ep: "\<exists>b0 b1. ee ! i = [b0, b1] \<and> b0 \<in> {0, 1} \<and> b1 \<in> {0, 1} \<and> e ! i + 1 = b0 + 2 * b1" if "i < rl_n" for i
    using emap_pairs(2) [OF ee] that len by simp
  have cl: "length (concat ss) = 2 * rl_n" "length (concat ee) = 2 * rl_n"
    using length_concat_pairs [of ss] length_concat_pairs [of ee] sl sp ep by (force simp: in_set_conv_nth)+
  let ?eq = "concat (map (\<lambda>i. map (\<lambda>j. sg_mul S (2 ^ j) (point_A S a crs i)) [0..<2]) [0..<rl_n])"
  let ?A = "psum S (map (point_A S a crs) [0..<rl_n])"
  let ?l = "psum S (map (\<lambda>i. sg_mul S (s ! i) (point_A S a crs i)) [0..<rl_n])"
  let ?r = "psum S (map (\<lambda>i. sg_mul S (rl_qq * k ! i + b ! i - e ! i) (crs ! i)) [0..<rl_n])"
  have enough: "enough_rows (ax_s aux)" "enough_rows (ax_e aux)" "rl_n \<le> length (ax_k aux)"
    by (simp_all add: aux enough_multiples)
  obtain phi0 phi1 phi2 where
      enc': "rlwe_encode S (a, b) aux crs = Inr [(phi0, key_equation S (a, b) crs aux # bit_points (ax_s aux)), (phi1, bit_points (ax_e aux)),
             (phi2, map (\<lambda>i. ax_k aux ! i) [0..<rl_n])]"
    and h0: "hom_ok phi0" "hm_n phi0 = 2 * rl_n" "hm_Gs phi0 = ?eq # bit_rows S crs (ax_s aux)"
    and h1: "hom_ok phi1" "hm_n phi1 = 2 * rl_n" "hm_Gs phi1 = bit_rows S crs (ax_e aux)"
    and h2: "hom_ok phi2" "hm_n phi2 = rl_n" "hm_Gs phi2 = map (\<lambda>i. key_row S i (crs ! i)) [0..<rl_n]"
    using rlwe_encode_parts [OF len(1-3) enough] .
  have sts: "sts = [(phi0, key_equation S (a, b) crs aux # bit_points (ax_s aux)), (phi1, bit_points (ax_e aux)),
             (phi2, map (\<lambda>i. ax_k aux ! i) [0..<rl_n])]"
    using enc enc' by (rule Inr_eqI)
  obtain R z pf1 pf2 t1 t2 where pfs: "pfs = [(R, z), pf1, pf2]"
    and p0: "maurer_prove H S (phi0, key_equation S (a, b) crs aux # bit_points (ax_s aux)) (Some (concat ss)) t = Inr ((R, z), t1)"
    and p1: "maurer_prove H S (phi1, bit_points (ax_e aux)) (Some (concat ee)) t1 = Inr (pf1, t2)"
    and p2: "maurer_prove H S (phi2, map (\<lambda>i. ax_k aux ! i) [0..<rl_n]) (Some k) t2 = Inr (pf2, t')"
    using pr by (auto simp: sts rnd_simps)
  have bs: "list_all2 (\<lambda>row y. row_value S (concat ss) (2 * rl_n) row = y) (bit_rows S crs (bit_multiples S crs ss))
      (bit_points (bit_multiples S crs ss))"
    by (rule bit_rows_hold [OF sl(1)]) (use sp in blast)
  have be: "list_all2 (\<lambda>row y. row_value S (concat ee) (2 * rl_n) row = y) (bit_rows S crs (bit_multiples S crs ee))
      (bit_points (bit_multiples S crs ee))"
    by (rule bit_rows_hold [OF sl(2)]) (use ep in blast)
  have v1: "maurer_verify H S (phi1, bit_points (ax_e aux)) pf1"
    by (rule maurer_holds [OF h1(1) _ _ p1]) (use be cl in \<open>simp_all add: h1 aux\<close>)
  have v2: "maurer_verify H S (phi2, map (\<lambda>i. ax_k aux ! i) [0..<rl_n]) pf2"
    by (rule maurer_holds [OF h2(1) _ _ p2])
      (use len in \<open>simp_all add: h2 aux list_all2_conv_all_nth key_row_value\<close>)
  let ?Y = "key_equation S (a, b) crs aux # bit_points (ax_s aux)"
  let ?c = "hash_oracle H (maurer_transcript S R ?Y phi0)"
  have rest: "list_all2 (\<lambda>row y. sg_mul S ?c (row_value S (concat ss) (2 * rl_n) row) = sg_mul S ?c y)
      (bit_rows S crs (ax_s aux)) (bit_points (ax_s aux))"
    using bs by (simp add: aux list_all2_mono)
  have Yl: "length ?Y = hm_m phi0" using list_all2_lengthD [OF rest] h0 by (simp add: hom_ok_def)
  have first: "row_value S (concat ss) (2 * rl_n) ?eq = sg_add S ?l ?A"
  proof -
    have "row_value S (concat ss) (2 * rl_n) ?eq = psum S (map (\<lambda>i. sg_mul S (s ! i + 1) (point_A S a crs i)) [0..<rl_n])"
      by (rule equation_row_value [OF sl(1)]) (use sp in blast)
    then show ?thesis by (simp only: mul_add mul_one psum_add)
  qed
  have ke: "key_equation S (a, b) crs aux = sg_add S ?r ?A"
    by (rule key_equation_value) (use ep in \<open>force simp: aux\<close>)+
  have "maurer_verify H S (phi0, ?Y) (R, z) \<longleftrightarrow> sg_mul S ?c (sg_add S ?l ?A) = sg_mul S ?c (sg_add S ?r ?A)"
    using maurer_honest_rows [OF h0(1) Yl _ p0] cl rest by (simp add: h0 first ke)
  also have "\<dots> \<longleftrightarrow> sg_mul S ?c ?l = sg_mul S ?c ?r"
    by (simp only: mul_dist add_commute [of _ "sg_mul S ?c ?A"] add_cancel)
  finally have "rlwe_verify H S (a, b) crs aux pfs \<longleftrightarrow> sg_mul S ?c ?l = sg_mul S ?c ?r"
    using v1 v2 by (simp add: rlwe_verify_def enc pfs sts)
  moreover have "first_challenge H S (a, b) crs aux pfs = ?c" by (simp add: first_challenge_def enc' pfs)
  ultimately show ?thesis by simp
qed

text \<open>The forger knows no secret: it takes zeros, and quotients that make the equation hold modulo \<open>curve_q\<close>.\<close>

lemma rlwe_forged_accepted:
  assumes len: "length a = rl_n" "length b = rl_n" "length crs = rl_n"
    and p: "rlwe_prove H S (a, b) (Some (replicate rl_n 0, replicate rl_n 0, map forged_quotient b)) crs t
      = Inr ((aux, pfs), t')"
  shows "rlwe_verify H S (a, b) crs aux pfs"
proof -
  have "psum S (map (\<lambda>i. sg_mul S (replicate rl_n 0 ! i) (point_A S a crs i)) [0..<rl_n]) = sg_zero S"
    by (rule psum_zero) simp
  moreover have "psum S (map (\<lambda>i. sg_mul S (rl_qq * map forged_quotient b ! i + b ! i - replicate rl_n 0 ! i) (crs ! i)) [0..<rl_n])
      = sg_zero S"
  proof (rule psum_zero)
    fix i assume "i \<in> set [0..<rl_n]"
    then have "(rl_qq * map forged_quotient b ! i + b ! i - replicate rl_n 0 ! i) mod curve_q = 0"
      using len forged_quotient by simp
    then show "sg_mul S (rl_qq * map forged_quotient b ! i + b ! i - replicate rl_n 0 ! i) (crs ! i) = sg_zero S"
      by (metis mul_order mul_zero)
  qed
  ultimately show ?thesis using rlwe_prove_verify [OF len _ _ _ p] len by auto
qed

lemma rlwe_forger_succeeds:
  assumes len: "length a = rl_n" "length b = rl_n" "length crs = rl_n" and t: "5 * rl_n \<le> length t"
  shows "\<exists>aux pfs t'. rlwe_prove H S (a, b) (Some (replicate rl_n 0, replicate rl_n 0, map forged_quotient b)) crs t
      = Inr ((aux, pfs), t') \<and> rlwe_verify H S (a, b) crs aux pfs"
proof -
  have zeros: "set (replicate rl_n 0) \<subseteq> {- 1, 0, 1 :: int}" by auto
  obtain aux pfs t' where p: "rlwe_prove H S (a, b) (Some (replicate rl_n 0, replicate rl_n 0, map forged_quotient b)) crs t
      = Inr ((aux, pfs), t')"
    using rlwe_prove_returns [OF len _ _ _ zeros zeros t, of "map forged_quotient b" H] len by auto
  from rlwe_forged_accepted [OF len p] p show ?thesis by blast
qed

section \<open>Cyclic and negacyclic products\<close>

lemma psum_rotate: "psum S (rotate i Ps) = psum S Ps"
  by (subst append_take_drop_id [of "i mod length Ps" Ps, symmetric])
    (simp only: rotate_drop_take psum_append add_commute)

text \<open>What the verifier multiplies the secret with is the product modulo \<open>x ^ n - 1\<close>.\<close>

lemma point_A_rotate:
  assumes "i < rl_n"
  shows "point_A S a crs i = psum S (map (\<lambda>m. sg_mul S (a ! ((m + rl_n - i) mod rl_n)) (crs ! m)) [0..<rl_n])"
proof -
  let ?g = "\<lambda>m. sg_mul S (a ! ((m + rl_n - i) mod rl_n)) (crs ! m)"
  have "((i + j) mod rl_n + rl_n - i) mod rl_n = j" if "j < rl_n" for j
  proof (cases "i + j < rl_n")
    case True
    then show ?thesis using that by simp
  next
    case False
    then have "(i + j) mod rl_n = i + j - rl_n" using assms that by (simp add: mod_if)
    then show ?thesis using False that assms by simp
  qed
  then have "map (\<lambda>j. sg_mul S (a ! j) (crs ! ((i + j) mod rl_n))) [0..<rl_n] = map ?g (map (\<lambda>j. (i + j) mod rl_n) [0..<rl_n])"
    by simp
  also have "map (\<lambda>j. (i + j) mod rl_n) [0..<rl_n] = rotate i [0..<rl_n]"
    using assms by (intro nth_equalityI) (simp_all add: nth_rotate)
  finally show ?thesis by (simp only: point_A_def rotate_map [symmetric] psum_rotate)
qed

lemma cyclic_points:
  "psum S (map (\<lambda>i. sg_mul S (s ! i) (point_A S a crs i)) [0..<rl_n])
   = psum S (map (\<lambda>m. sg_mul S (cyclic a s m) (crs ! m)) [0..<rl_n])"
proof -
  have dist: "sg_mul S (sum_list (map f xs)) P = psum S (map (\<lambda>i. sg_mul S (f i) P) xs)" for f :: "nat \<Rightarrow> int" and xs P
    by (induction xs) (simp_all add: mul_add)
  have "psum S (map (\<lambda>i. sg_mul S (s ! i) (point_A S a crs i)) [0..<rl_n])
      = psum S (map (\<lambda>i. psum S (map (\<lambda>m. sg_mul S (s ! i * a ! ((m + rl_n - i) mod rl_n)) (crs ! m)) [0..<rl_n])) [0..<rl_n])"
    by (intro arg_cong [where f = "psum S"] map_cong) (simp_all add: point_A_rotate psum_mul [symmetric] mul_mul)
  also have "\<dots> = psum S (map (\<lambda>m. psum S (map (\<lambda>i. sg_mul S (s ! i * a ! ((m + rl_n - i) mod rl_n)) (crs ! m)) [0..<rl_n])) [0..<rl_n])"
    by (rule psum_swap)
  finally show ?thesis by (simp only: dist cyclic_def)
qed

text \<open>
  The honest proof is accepted exactly if the challenge does not see twice the part of the product that
  wraps around.
\<close>

lemma rlwe_honest_iff:
  assumes len: "length a = rl_n" "length b = rl_n" "length crs = rl_n"
      "length s = rl_n" "length e = rl_n" "length k = rl_n"
    and eq: "\<forall>m < rl_n. b ! m + k ! m * rl_qq = ring_product a s m + e ! m"
    and p: "rlwe_prove H S (a, b) (Some (s, e, k)) crs t = Inr ((aux, pfs), t')"
  shows "rlwe_verify H S (a, b) crs aux pfs \<longleftrightarrow>
    sg_mul S (first_challenge H S (a, b) crs aux pfs)
      (psum S (map (\<lambda>m. sg_mul S (2 * wrapped a s m) (crs ! m)) [0..<rl_n])) = sg_zero S"
proof -
  let ?W = "psum S (map (\<lambda>m. sg_mul S (2 * wrapped a s m) (crs ! m)) [0..<rl_n])"
  let ?r = "psum S (map (\<lambda>i. sg_mul S (rl_qq * k ! i + b ! i - e ! i) (crs ! i)) [0..<rl_n])"
  have "sg_mul S (cyclic a s m) (crs ! m) = sg_add S (sg_mul S (rl_qq * k ! m + b ! m - e ! m) (crs ! m)) (sg_mul S (2 * wrapped a s m) (crs ! m))"
    if "m < rl_n" for m
  proof -
    have "rl_qq * k ! m + b ! m - e ! m = ring_product a s m" using eq that by (simp add: algebra_simps)
    then show ?thesis using cyclic_split [OF that] by (simp flip: mul_add)
  qed
  then have "map (\<lambda>m. sg_mul S (cyclic a s m) (crs ! m)) [0..<rl_n]
      = map (\<lambda>m. sg_add S (sg_mul S (rl_qq * k ! m + b ! m - e ! m) (crs ! m)) (sg_mul S (2 * wrapped a s m) (crs ! m))) [0..<rl_n]"
    by simp
  then have l: "psum S (map (\<lambda>i. sg_mul S (s ! i) (point_A S a crs i)) [0..<rl_n]) = sg_add S ?r ?W"
    by (simp only: cyclic_points psum_add)
  have "sg_mul S c (sg_add S ?r ?W) = sg_mul S c ?r \<longleftrightarrow> sg_mul S c ?W = sg_zero S" for c
    using add_cancel [of "sg_mul S c ?r" _ "sg_zero S"] by (simp add: mul_dist)
  with rlwe_prove_verify [OF len p] show ?thesis by (simp only: l)
qed

end

section \<open>An honest proof that is refused\<close>

text \<open>
  The key of which all coefficients of \<open>a\<close> and of the secret are one, over the residues, with common points that
  are all the same and a hash that is constant.
\<close>

definition ones_tape :: tape where
  "ones_tape = replicate rl_n 1666 @ replicate rl_n 2 @ replicate rl_n 1"

lemma rtimes_same:
  "lo \<le> hi \<Longrightarrow> rtimes k (randint lo hi) (replicate k x @ t) = Inr (replicate k (lo + x mod (hi - lo + 1)), t)"
  by (induction k) (simp_all add: randint_Cons rbind_app rret_def)

lemma ones_key:
  assumes "rlwe_gen ring_reduce ones_tape = Inr (((a, b), (s, e, k)), t')"
  shows "a = replicate rl_n 1" and "s = replicate rl_n 1"
proof -
  have "rtimes rl_n (randint ((- rl_qq) div 2) (rl_qq div 2)) ones_tape
      = Inr (replicate rl_n 1, replicate rl_n 2 @ replicate rl_n 1)"
    unfolding ones_tape_def by (subst rtimes_same) (simp_all add: rl_qq_def)
  moreover have "rtimes rl_n (randint (- 1) 1) (replicate rl_n 2 @ replicate rl_n 1)
      = Inr (replicate rl_n 1, replicate rl_n 1)"
    by (subst rtimes_same) simp_all
  moreover have "rtimes rl_n (randint (- 1) 1) (replicate rl_n 1) = Inr (replicate rl_n 0, [])"
    using rtimes_same [of "- 1" 1 rl_n 1 "[]"] by simp
  ultimately show "a = replicate rl_n 1" and "s = replicate rl_n 1"
    using assms by (auto simp: rlwe_gen_def rbind_app Let_def rlift_eq_Inr ebind_eq_Inr)
qed

lemma wrapped_ones: "m < rl_n \<Longrightarrow> wrapped (replicate rl_n 1) (replicate rl_n 1) m = int (rl_n - Suc m)"
proof -
  assume m: "m < rl_n"
  have "map (\<lambda>i. replicate rl_n 1 ! i * replicate rl_n 1 ! (m + rl_n - i)) [Suc m..<rl_n] = map (\<lambda>i. 1 :: int) [Suc m..<rl_n]"
    by (intro map_cong) auto
  then show ?thesis by (simp only: wrapped_def) (simp add: sum_list_replicate map_replicate_const)
qed

lemma psum_residue: "psum residue_sage (map (\<lambda>i. of_int (f i)) xs) = of_int (\<Sum>i \<leftarrow> xs. f i)"
  by (induction xs) (simp_all add: residue_points.psum_Cons, simp_all add: residue_sage_def)

lemma ones_refused:
  assumes g: "rlwe_gen ring_reduce ones_tape = Inr (((a, b), (s, e, k)), t')"
  shows "sg_mul residue_sage 5 (psum residue_sage (map (\<lambda>m. sg_mul residue_sage (2 * wrapped a s m) (replicate rl_n 3 ! m)) [0..<rl_n]))
    \<noteq> sg_zero residue_sage"
proof -
  have "map (\<lambda>m. sg_mul residue_sage (2 * wrapped a s m) (replicate rl_n 3 ! m)) [0..<rl_n]
      = map (\<lambda>m. of_int (6 * int (rl_n - Suc m))) [0..<rl_n]"
    by (intro map_cong) (simp_all add: ones_key [OF g] wrapped_ones, simp add: residue_sage_def)
  then have "psum residue_sage (map (\<lambda>m. sg_mul residue_sage (2 * wrapped a s m) (replicate rl_n 3 ! m)) [0..<rl_n])
      = of_int (\<Sum>m \<leftarrow> [0..<rl_n]. 6 * int (rl_n - Suc m))"
    by (simp only: psum_residue)
  moreover have "(\<Sum>m \<leftarrow> [0..<rl_n]. 6 * int (rl_n - Suc m)) = 195840" by code_simp
  moreover have "(979200 :: residue) \<noteq> 0" by simp
  ultimately show ?thesis by (simp add: residue_sage_def)
qed

section \<open>The service\<close>

lemma make_crs_length: "make_crs S t = Inr (crs, t') \<Longrightarrow> length crs = rl_n"
  by (auto simp: make_crs_def rnd_simps Let_def)

text \<open>What the service printed last: the common points, and the key.\<close>

definition last_crs :: "'p list option \<Rightarrow> 'p inside_out list \<Rightarrow> 'p list option" where
  "last_crs c outs = foldl (\<lambda>c out. case out of CrsOut d \<Rightarrow> Some d | _ \<Rightarrow> c) c outs"

definition last_st :: "rlwe_statement option \<Rightarrow> 'p inside_out list \<Rightarrow> rlwe_statement option" where
  "last_st s outs = foldl (\<lambda>s out. case out of StOut r \<Rightarrow> Some r | _ \<Rightarrow> s) s outs"

lemma last_simps [simp]:
  "last_crs c [] = c" "last_crs c (CrsOut d # outs) = last_crs (Some d) outs" "last_crs c (MenuOut # outs) = last_crs c outs"
  "last_crs c (StOut r # outs) = last_crs c outs" "last_crs c (NahOut # outs) = last_crs c outs"
  "last_crs c (NotToday # outs) = last_crs c outs"
  "last_st s [] = s" "last_st s (StOut r # outs) = last_st (Some r) outs" "last_st s (MenuOut # outs) = last_st s outs"
  "last_st s (CrsOut d # outs) = last_st s outs" "last_st s (NahOut # outs) = last_st s outs"
  "last_st s (NotToday # outs) = last_st s outs"
  by (simp_all add: last_crs_def last_st_def)

text \<open>
  The flag ends the session, and comes for a proof, in two consecutive lines, that is accepted for the points and
  the key that were printed last.
\<close>

definition flag_proved ::
  "(bytes \<Rightarrow> 256 word) \<Rightarrow> 'p sage \<Rightarrow> (string \<Rightarrow> string \<Rightarrow> ('p aux \<times> 'p maurer_proof list) option)
     \<Rightarrow> 'p list option \<Rightarrow> rlwe_statement option \<Rightarrow> string list \<Rightarrow> 'p inside_out list \<Rightarrow> bool" where
  "flag_proved H S parse crs st lines outs \<longleftrightarrow>
     (\<exists>pre c s before l1 l2 rest aux pf. outs = pre @ [FlagOut] \<and> last_crs crs pre = Some c \<and> last_st st pre = Some s
        \<and> lines = before @ l1 # l2 # rest \<and> parse l1 l2 = Some (aux, pf) \<and> rlwe_verify H S s c aux pf)"

lemma flag_proved_later:
  assumes "flag_proved H S parse crs' st' lines' outs" and "lines = ls @ lines'"
    and "\<And>xs. last_crs crs (new @ xs) = last_crs crs' xs" and "\<And>xs. last_st st (new @ xs) = last_st st' xs"
  shows "flag_proved H S parse crs st lines (new @ outs)"
proof -
  obtain pre c s before l1 l2 rest aux pf where "outs = pre @ [FlagOut]" "last_crs crs' pre = Some c" "last_st st' pre = Some s"
      "lines' = before @ l1 # l2 # rest" and v: "parse l1 l2 = Some (aux, pf)" "rlwe_verify H S s c aux pf"
    using assms(1) unfolding flag_proved_def by blast
  then have "new @ outs = (new @ pre) @ [FlagOut]" "last_crs crs (new @ pre) = Some c" "last_st st (new @ pre) = Some s"
      "lines = (ls @ before) @ l1 # l2 # rest"
    using assms by simp_all
  with v show ?thesis unfolding flag_proved_def by blast
qed

lemma inside_loop_flag:
  assumes "FlagOut \<in> set (inside_loop H S reduce parse crs st lines t)"
  shows "flag_proved H S parse crs st lines (inside_loop H S reduce parse crs st lines t)"
  using assms
proof (induction "length lines" arbitrary: lines crs st t rule: less_induct)
  case less
  then obtain line rest where lines: "lines = line # rest" by (cases lines) auto
  define inp where "inp = map ascii_lower (py_strip line)"
  note loop = inside_loop.simps(2) [of H S reduce parse crs st line rest t, unfolded Let_def, folded inp_def]
  have more: ?case
    if "inside_loop H S reduce parse crs st lines t = new @ inside_loop H S reduce parse crs' st' rest' t'"
      and "FlagOut \<notin> set new" and "lines = ls @ rest'" "ls \<noteq> []"
      and "\<And>xs. last_crs crs (new @ xs) = last_crs crs' xs" "\<And>xs. last_st st (new @ xs) = last_st st' xs"
    for new crs' st' rest' t' ls
    unfolding that(1) by (rule flag_proved_later [OF less.hyps that(3)]) (use that less.prems in auto)
  consider "inp = ''c''" | "inp = ''r''" | "inp = ''p''" | "inp = ''t''"
    using less.prems unfolding lines loop by (auto split: if_split_asm)
  then show ?case
  proof cases
    case 1
    then obtain c t' where "make_crs S t = Inr (c, t')"
      using less.prems unfolding lines loop by (cases "make_crs S t") auto
    then show ?thesis
      using 1 loop by (intro more [of "[MenuOut, CrsOut c]" "Some c" st rest t' "[line]"]) (simp_all add: lines)
  next
    case 2
    then obtain s w t' where "rlwe_gen reduce t = Inr ((s, w), t')"
      using less.prems unfolding lines loop by (cases "rlwe_gen reduce t") auto
    then show ?thesis
      using 2 loop by (intro more [of "[MenuOut, StOut s]" crs "Some s" rest t' "[line]"]) (simp_all add: lines)
  next
    case 4
    then show ?thesis
      using loop by (intro more [of "[MenuOut, NotToday]" crs st rest t "[line]"]) (simp_all add: lines)
  next
    case 3
    show ?thesis
    proof (cases "\<exists>c s. crs = Some c \<and> st = Some s")
      case False
      then show ?thesis
        using 3 loop by (intro more [of "[MenuOut, NahOut]" crs st rest t "[line]"])
          (auto simp: lines split: option.splits)
    next
      case True
      then obtain c s where cs: "crs = Some c" "st = Some s" by blast
      obtain l1 l2 rest' where rest: "rest = l1 # l2 # rest'"
        using less.prems 3 cs unfolding lines loop by (auto split: list.split_asm)
      obtain aux pf where pf: "parse l1 l2 = Some (aux, pf)"
        using less.prems 3 cs rest unfolding lines loop by (cases "parse l1 l2") auto
      show ?thesis
      proof (cases "rlwe_verify H S s c aux pf")
        case True
        then have "inside_loop H S reduce parse crs st lines t = [MenuOut] @ [FlagOut]" using 3 loop cs rest pf by (simp add: lines)
        moreover have "last_crs crs [MenuOut] = Some c" "last_st st [MenuOut] = Some s" "lines = [line] @ l1 # l2 # rest'"
          by (simp_all add: cs lines rest)
        ultimately show ?thesis using pf True unfolding flag_proved_def by blast
      next
        case False
        then show ?thesis
          using 3 loop cs rest pf by (intro more [of "[MenuOut]" crs st rest' t "[line, l1, l2]"]) (simp_all add: lines)
      qed
    qed
  qed
qed

text \<open>What is printed was drawn from the randomness of the run.\<close>

definition drawn_from :: "'a rnd \<Rightarrow> tape \<Rightarrow> 'a \<Rightarrow> bool" where
  "drawn_from m t x \<longleftrightarrow> (\<exists>used rest rest'. t = used @ rest \<and> m rest = Inr (x, rest'))"

lemma drawn_now: "m t = Inr (x, t') \<Longrightarrow> drawn_from m t x"
  unfolding drawn_from_def by (metis append_Nil)

lemma drawn_later: "drawn_from m t' x \<Longrightarrow> t = used @ t' \<Longrightarrow> drawn_from m t x"
  unfolding drawn_from_def by (metis append_assoc)

definition reads_on :: "'a rnd \<Rightarrow> bool" where
  "reads_on m \<longleftrightarrow> (\<forall>t x t'. m t = Inr (x, t') \<longrightarrow> (\<exists>used. t = used @ t'))"

lemma reads_onD: "reads_on m \<Longrightarrow> m t = Inr (x, t') \<Longrightarrow> \<exists>used. t = used @ t'"
  unfolding reads_on_def by blast

lemma reads_on_bind: "reads_on m \<Longrightarrow> (\<And>x. reads_on (f x)) \<Longrightarrow> reads_on (rbind m f)"
  unfolding reads_on_def rbind_eq_Inr by (metis append_assoc)

lemma reads_on_lift: "reads_on (rlift r)"
  by (auto simp: reads_on_def rlift_eq_Inr)

lemma reads_on_ret: "reads_on (rret x)"
  by (simp add: reads_on_def rret_def)

lemma reads_on_randbelow: "reads_on (randbelow n)"
  unfolding reads_on_def randbelow_def by (auto split: list.splits if_splits)

lemma reads_on_urandom: "reads_on (urandom_int n)"
  unfolding urandom_int_def by (rule reads_on_randbelow)

lemma reads_on_rtimes: "reads_on m \<Longrightarrow> reads_on (rtimes n m)"
  by (induction n) (simp_all add: reads_on_bind reads_on_ret)

lemmas reads_on_rules = reads_on_bind reads_on_lift reads_on_ret reads_on_randbelow reads_on_urandom reads_on_rtimes

lemma reads_on_draws: "reads_on (make_crs S)" "reads_on (rlwe_gen reduce)" "reads_on (inside_pow prefix)"
  unfolding make_crs_def rlwe_gen_def inside_pow_def randint_def Let_def by (intro reads_on_rules)+

lemma inside_loop_drawn:
  "(CrsOut c \<in> set (inside_loop H S reduce parse crs st lines t) \<longrightarrow> drawn_from (make_crs S) t c)
   \<and> (StOut s \<in> set (inside_loop H S reduce parse crs st lines t) \<longrightarrow> (\<exists>w. drawn_from (rlwe_gen reduce) t (s, w)))"
  (is "?P crs st lines t")
proof (induction "length lines" arbitrary: lines crs st t rule: less_induct)
  case less
  show ?case
  proof (cases lines)
    case (Cons line rest)
    define inp where "inp = map ascii_lower (py_strip line)"
    note loop = inside_loop.simps(2) [of H S reduce parse crs st line rest t, unfolded Let_def, folded inp_def]
    have same: "?P crs st rest t" using less.hyps [of rest crs st t] Cons by simp
    have skip: "?P crs st rest' t" if "rest = l1 # l2 # rest'" for l1 l2 rest'
      using less.hyps [of rest' crs st t] Cons that by simp
    consider "inp = ''c''" | "inp = ''r''" | "inp = ''p''" | "inp \<notin> {''c'', ''r'', ''p''}" by blast
    then show ?thesis
    proof cases
      case 1
      show ?thesis
      proof (cases "make_crs S t")
        case (Inr y)
        then obtain c' t' where c': "make_crs S t = Inr (c', t')" by (cases y) auto
        obtain used where used: "t = used @ t'" using reads_onD [OF reads_on_draws(1) c'] by blast
        have "drawn_from (make_crs S) t c'" using c' by (rule drawn_now)
        moreover have "?P (Some c') st rest t'" using less.hyps [of rest "Some c'" st t'] Cons by simp
        moreover have "inside_loop H S reduce parse crs st lines t
            = MenuOut # CrsOut c' # inside_loop H S reduce parse (Some c') st rest t'"
          using 1 c' by (simp add: Cons loop del: inside_loop.simps)
        ultimately show ?thesis 
          using drawn_later [of "make_crs S", OF _ used] drawn_later [of "rlwe_gen reduce", OF _ used] by (simp only: set_simps insert_iff inside_out.simps simp_thms) blast
      qed (use 1 in \<open>simp add: Cons loop del: inside_loop.simps\<close>)
    next
      case 2
      show ?thesis
      proof (cases "rlwe_gen reduce t")
        case (Inr y)
        then obtain s' w t' where s': "rlwe_gen reduce t = Inr ((s', w), t')" by (cases y) auto
        obtain used where used: "t = used @ t'" using reads_onD [OF reads_on_draws(2) s'] by blast
        have "\<exists>w. drawn_from (rlwe_gen reduce) t (s', w)" using drawn_now [of "rlwe_gen reduce", OF s'] by (rule exI)
        moreover have "?P crs (Some s') rest t'" using less.hyps [of rest crs "Some s'" t'] Cons by simp
        moreover have "inside_loop H S reduce parse crs st lines t
            = MenuOut # StOut s' # inside_loop H S reduce parse crs (Some s') rest t'"
          using 2 s' by (simp add: Cons loop del: inside_loop.simps)
        ultimately show ?thesis 
          using drawn_later [of "make_crs S", OF _ used] drawn_later [of "rlwe_gen reduce", OF _ used] by (simp only: set_simps insert_iff inside_out.simps simp_thms) blast
      qed (use 2 in \<open>simp add: Cons loop del: inside_loop.simps\<close>)
    next
      case 3
      then show ?thesis using same skip
        by (auto simp: Cons loop simp del: inside_loop.simps split: option.split list.split prod.split if_split)
    next
      case 4
      then show ?thesis using same by (auto simp: Cons loop simp del: inside_loop.simps)
    qed
  qed simp
qed

lemma inside_flag_sound:
  assumes "FlagOut \<in> set (inside_main H S reduce parse lines t)"
  shows "flag_proved H S parse None None lines (inside_main H S reduce parse lines t)"
    and "CrsOut c \<in> set (inside_main H S reduce parse lines t) \<Longrightarrow> drawn_from (make_crs S) t c"
    and "StOut s \<in> set (inside_main H S reduce parse lines t) \<Longrightarrow> \<exists>w. drawn_from (rlwe_gen reduce) t (s, w)"
proof -
  obtain prefix rest shown t' where l: "lines = prefix # rest" and p: "inside_pow prefix t = Inr ((shown, True), t')"
    and main: "inside_main H S reduce parse lines t = inside_loop H S reduce parse None None rest t'"
  proof -
    obtain prefix rest where l: "lines = prefix # rest" using assms by (cases lines) (auto simp: inside_main_def)
    then obtain shown t' where "inside_pow prefix t = Inr ((shown, True), t')"
      using assms by (cases "inside_pow prefix t") (auto simp: inside_main_def split: if_split_asm)
    with l that show thesis by (auto simp: inside_main_def)
  qed
  obtain used where t: "t = used @ t'" using reads_onD [OF reads_on_draws(3) p] by blast
  have "flag_proved H S parse None None rest (inside_loop H S reduce parse None None rest t')"
    by (rule inside_loop_flag) (use assms main in simp)
  then show "flag_proved H S parse None None lines (inside_main H S reduce parse lines t)"
    unfolding main by (rule flag_proved_later [where new = "[]" and ls = "[prefix]", simplified]) (simp_all add: l)
  note later = drawn_later [of "make_crs S", OF _ t] drawn_later [of "rlwe_gen reduce", OF _ t]
  show "CrsOut c \<in> set (inside_main H S reduce parse lines t) \<Longrightarrow> drawn_from (make_crs S) t c"
    using inside_loop_drawn [of c H S reduce parse None None rest t'] later unfolding main by blast
  show "StOut s \<in> set (inside_main H S reduce parse lines t) \<Longrightarrow> \<exists>w. drawn_from (rlwe_gen reduce) t (s, w)"
    using inside_loop_drawn [of _ H S reduce parse None None rest t' s] later unfolding main by blast
qed

lemma last_printed:
  "last_crs None outs = Some c \<Longrightarrow> CrsOut c \<in> set outs" "last_st None outs = Some s \<Longrightarrow> StOut s \<in> set outs"
proof -
  have "last_crs a outs = Some c \<Longrightarrow> a = Some c \<or> CrsOut c \<in> set outs" for a
    unfolding last_crs_def by (induction outs arbitrary: a) (auto split: inside_out.splits)
  then show "last_crs None outs = Some c \<Longrightarrow> CrsOut c \<in> set outs" by blast
  have "last_st a outs = Some s \<Longrightarrow> a = Some s \<or> StOut s \<in> set outs" for a
    unfolding last_st_def by (induction outs arbitrary: a) (auto split: inside_out.splits)
  then show "last_st None outs = Some s \<Longrightarrow> StOut s \<in> set outs" by blast
qed

text \<open>
  A session of three commands gives the flag without a secret: the last one answers with the forged proof.
\<close>

lemma inside_forged_session:
  assumes S: "sage_ok S"
    and crs: "make_crs S t = Inr (crs, t1)" and st: "rlwe_gen ring_reduce t1 = Inr (((a, b), w), t2)"
    and p: "rlwe_prove H S (a, b) (Some (replicate rl_n 0, replicate rl_n 0, map forged_quotient b)) crs u = Inr ((aux, pfs), u')"
    and parse: "parse l1 l2 = Some (aux, pfs)"
  shows "inside_loop H S ring_reduce parse None None [''c'', ''r'', ''p'', l1, l2] t
    = [MenuOut, CrsOut crs, MenuOut, StOut (a, b), MenuOut, FlagOut]"
proof -
  have "length a = rl_n" "length b = rl_n" using rlwe_gen_sound st by (cases w, auto)+
  then have "rlwe_verify H S (a, b) crs aux pfs"
    using sage_ok.rlwe_forged_accepted [OF S _ _ make_crs_length [OF crs] p] by blast
  moreover have "map ascii_lower (py_strip [c]) = [c]" if "c \<in> {CHR ''c'', CHR ''r'', CHR ''p''}" for c
    using that by (auto simp: py_strip_def is_space_def ascii_lower_def)
  ultimately show ?thesis by (simp add: Let_def crs st parse)
qed

end
