(* ===== verification/Kio.thy ===== *)
theory Kio
  imports UuidStego Base64 Text
begin

text \<open>
  What the controller of the Kubernetes challenge needs of Python: calls that are awaited, whose answers are
  a tape, exceptions that keep the state, \<^verbatim>\<open>try\<close> and \<^verbatim>\<open>finally\<close>, and text of bytes.
\<close>

section \<open>Exceptions and answers\<close>

text \<open>
  An awaited call is answered by a value or an exception: one of the Kubernetes client with its status, a
  broken connection, another system error, the cancellation of the task, a \<^verbatim>\<open>NameError\<close>, or another error of Python.
\<close>

datatype kexc = ApiExc int | ConnExc | OsExc | CancelExc | NameExc | PyExc pyerr

type_synonym mapping_entry = "(string \<times> string) list"

record docker_container =
  dc_name :: string
  dc_path :: string
  dc_ports :: "(string \<times> mapping_entry list option) list"

datatype kval =
    NoVal
  | ObjVal json
  | SecretVal "(string \<times> string) list option"
  | DataVal bytes
  | ListVal "docker_container list"

datatype kreq =
    CreateCluster string json
  | ListClusters string
  | GetCluster string string
  | DeleteCluster string string
  | CreateService string json
  | DeleteService string string
  | CreateEndpoints string json
  | ReadIngress string string
  | CreateIngress string json
  | PatchIngress string string json
  | DeleteIngress string string
  | ReadSecret string string
  | NewClient json
  | ReadServiceAccount string string
  | CreateSecret string json
  | PatchSecret string string json
  | DeletePods string string
  | CloseClient
  | ListContainers
  | Drain
  | ReadInput nat
  | Sleep nat
  | WaitClosed

text \<open>What a task does: calls with their answers, bytes it writes, and the effects on the shared counter and queue.\<close>

datatype kevent =
    Call kreq "kexc + kval"
  | Write bytes
  | Counted int
  | Enqueued string string
  | Closed

record kworld =
  kw_answers :: "(kexc + kval) list"
  kw_num :: int
  kw_log :: "kevent list"

type_synonym 'a kio = "kworld \<Rightarrow> (kexc + 'a) \<times> kworld"

section \<open>Control\<close>

definition kret :: "'a \<Rightarrow> 'a kio" where
  "kret a w = (Inr a, w)"

definition kraise :: "kexc \<Rightarrow> 'a kio" where
  "kraise e w = (Inl e, w)"

definition kbind :: "'a kio \<Rightarrow> ('a \<Rightarrow> 'b kio) \<Rightarrow> 'b kio" where
  "kbind m f w = (case m w of (Inl e, w) \<Rightarrow> (Inl e, w) | (Inr a, w) \<Rightarrow> f a w)"

definition kthen :: "'a kio \<Rightarrow> 'b kio \<Rightarrow> 'b kio" where
  "kthen m n = kbind m (\<lambda>_. n)"

definition klift :: "'a res \<Rightarrow> 'a kio" where
  "klift r w = ((case r of Inl e \<Rightarrow> Inl (PyExc e) | Inr a \<Rightarrow> Inr a), w)"

text \<open>\<^verbatim>\<open>try\<close> with a handler, with \<^verbatim>\<open>else\<close>, and with \<^verbatim>\<open>finally\<close>, whose own exception comes first.\<close>

definition kcatch :: "'a kio \<Rightarrow> (kexc \<Rightarrow> 'a kio) \<Rightarrow> 'a kio" where
  "kcatch m h w = (case m w of (Inl e, w) \<Rightarrow> h e w | (Inr a, w) \<Rightarrow> (Inr a, w))"

definition ktry_else :: "'a kio \<Rightarrow> (kexc \<Rightarrow> 'b kio) \<Rightarrow> ('a \<Rightarrow> 'b kio) \<Rightarrow> 'b kio" where
  "ktry_else m h k w = (case m w of (Inl e, w) \<Rightarrow> h e w | (Inr a, w) \<Rightarrow> k a w)"

definition kfinally :: "'a kio \<Rightarrow> 'b kio \<Rightarrow> 'a kio" where
  "kfinally m f w =
     (case m w of (r, w) \<Rightarrow> (case f w of (Inl e, w) \<Rightarrow> (Inl e, w) | (Inr _, w) \<Rightarrow> (r, w)))"

section \<open>Effects\<close>

definition klog :: "kevent \<Rightarrow> unit kio" where
  "klog e w = (Inr (), w\<lparr> kw_log := kw_log w @ [e] \<rparr>)"

text \<open>A call takes the next answer; when none is left, the task is cancelled where it waits.\<close>

definition kcall :: "kreq \<Rightarrow> kval kio" where
  "kcall q w =
     (case kw_answers w of
        [] \<Rightarrow> (Inl CancelExc, w\<lparr> kw_log := kw_log w @ [Call q (Inl CancelExc)] \<rparr>)
      | a # as \<Rightarrow> (a, w\<lparr> kw_answers := as, kw_log := kw_log w @ [Call q a] \<rparr>))"

definition kdo :: "kreq \<Rightarrow> unit kio" where
  "kdo q = kthen (kcall q) (kret ())"

definition kwrite :: "string \<Rightarrow> unit kio" where
  "kwrite s = klog (Write (utf8_bytes s))"

definition kcount :: "int \<Rightarrow> unit kio" where
  "kcount d w = (Inr (), w\<lparr> kw_num := kw_num w + d, kw_log := kw_log w @ [Counted d] \<rparr>)"

text \<open>An answer of another sort than the call gives is no case of the client library; it counts as a type error.\<close>

definition kobject :: "kreq \<Rightarrow> json kio" where
  "kobject q = kbind (kcall q) (\<lambda>v. case v of ObjVal j \<Rightarrow> kret j | _ \<Rightarrow> kraise (PyExc TypeError))"

definition ksecret :: "kreq \<Rightarrow> (string \<times> string) list option kio" where
  "ksecret q = kbind (kcall q) (\<lambda>v. case v of SecretVal s \<Rightarrow> kret s | _ \<Rightarrow> kraise (PyExc TypeError))"

definition kdata :: "kreq \<Rightarrow> bytes kio" where
  "kdata q = kbind (kcall q) (\<lambda>v. case v of DataVal b \<Rightarrow> kret b | _ \<Rightarrow> kraise (PyExc TypeError))"

definition kcontainers :: "kreq \<Rightarrow> docker_container list kio" where
  "kcontainers q = kbind (kcall q) (\<lambda>v. case v of ListVal l \<Rightarrow> kret l | _ \<Rightarrow> kraise (PyExc TypeError))"

section \<open>Text of bytes\<close>

text \<open>
  \<^verbatim>\<open>bytes.decode()\<close>, for texts of the characters the strings have; a byte sequence that is not UTF-8
  raises \<^verbatim>\<open>UnicodeDecodeError\<close>, a \<^verbatim>\<open>ValueError\<close>, and a character from U+0100 on counts as one here.
\<close>

fun utf8_decode :: "bytes \<Rightarrow> string res" where
  "utf8_decode [] = Inr []"
| "utf8_decode (b # bs) =
     (if uint b < 128 then ebind (utf8_decode bs) (\<lambda>s. Inr (char_of (nat (uint b)) # s))
      else
        (case bs of
           [] \<Rightarrow> Inl ValueError
         | c # cs \<Rightarrow>
             if (uint b = 194 \<or> uint b = 195) \<and> 128 \<le> uint c \<and> uint c < 192
             then ebind (utf8_decode cs) (\<lambda>s. Inr (char_of (nat ((uint b - 192) * 64 + (uint c - 128))) # s))
             else Inl ValueError))"

text \<open>
  \<^verbatim>\<open>bytes.decode(errors="replace")\<close>, written in UTF-8 again: the well-formed sequences of the Unicode standard
  stay, and what begins one without completing it becomes one replacement character.
\<close>

definition utf8_ranges :: "byte \<Rightarrow> (int \<times> int) list option" where
  "utf8_ranges b =
     (let n = uint b; tail = (0x80, 0xBF) in
      if n < 0x80 then Some []
      else if 0xC2 \<le> n \<and> n \<le> 0xDF then Some [tail]
      else if n = 0xE0 then Some [(0xA0, 0xBF), tail]
      else if n = 0xED then Some [(0x80, 0x9F), tail]
      else if 0xE1 \<le> n \<and> n \<le> 0xEF then Some [tail, tail]
      else if n = 0xF0 then Some [(0x90, 0xBF), tail, tail]
      else if 0xF1 \<le> n \<and> n \<le> 0xF3 then Some [tail, tail, tail]
      else if n = 0xF4 then Some [(0x80, 0x8F), tail, tail]
      else None)"

fun in_ranges :: "(int \<times> int) list \<Rightarrow> bytes \<Rightarrow> nat" where
  "in_ranges ((lo, hi) # rs) (b # bs) = (if lo \<le> uint b \<and> uint b \<le> hi then Suc (in_ranges rs bs) else 0)"
| "in_ranges _ _ = 0"

definition replacement :: bytes where
  "replacement = [0xEF, 0xBF, 0xBD]"

function utf8_replace :: "bytes \<Rightarrow> bytes" where
  "utf8_replace [] = []"
| "utf8_replace (b # bs) =
     (case utf8_ranges b of
        None \<Rightarrow> replacement @ utf8_replace bs
      | Some rs \<Rightarrow>
          let k = in_ranges rs bs in
          (if k = length rs then b # take k bs else replacement) @ utf8_replace (drop k bs))"
  by pat_completeness auto
termination
  by (relation "measure length") auto

section \<open>Both decodings invert the encoding\<close>

lemma of_char_less: "of_char c < (256 :: nat)"
  by (cases c) (simp add: of_char_def)

lemma uint_of_nat_byte: "n < 256 \<Longrightarrow> uint (of_nat n :: byte) = int n"
  by (simp add: unsigned_of_nat take_bit_nat_eq_self flip: of_nat_take_bit)

lemma int_of_char: "int (of_char c) = of_char c"
  by (cases c) (simp add: of_char_def horner_sum_simps split: if_splits)

text \<open>A character is one byte below 128, or a lead byte 194 or 195 and a tail byte.\<close>

lemma utf8_char_cases:
  obtains b where "utf8_char c = [b]" "uint b = of_char c" "uint b < 128"
  | a b where "utf8_char c = [a, b]" "uint a = 194 \<or> uint a = 195" "128 \<le> uint b" "uint b < 192"
      "(uint a - 192) * 64 + (uint b - 128) = of_char c"
proof (cases "(of_char c :: nat) < 128")
  case True
  then have "uint (of_nat (of_char c) :: byte) = of_char c" by (simp add: uint_of_nat_byte int_of_char)
  moreover have "(of_char c :: int) < 128" using True by (simp flip: int_of_char)
  ultimately show ?thesis using that(1) [of "of_nat (of_char c)"] True by (simp add: utf8_char_def Let_def)
next
  case False
  let ?n = "of_char c :: nat"
  have n: "?n < 256" "128 \<le> ?n" using of_char_less [of c] False by simp_all
  have l: "192 + ?n div 64 < 256" "128 + ?n mod 64 < 256" using n(1) by linarith+
  have i: "int (192 + k div 64) = 192 + int k div 64" "int (128 + k mod 64) = 128 + int k mod 64" for k
    by (simp_all add: zdiv_int zmod_int)
  note u = l [THEN uint_of_nat_byte, unfolded i]
  have "2 \<le> int ?n div 64" "int ?n div 64 < 4" using n by linarith+
  then have "int ?n div 64 = 2 \<or> int ?n div 64 = 3" by linarith
  moreover have "int ?n div 64 * 64 + int ?n mod 64 = of_char c" by (simp add: int_of_char)
  ultimately show ?thesis
    using that(2) [of "of_nat (192 + ?n div 64)" "of_nat (128 + ?n mod 64)"] False u by (simp add: utf8_char_def Let_def del: of_nat_add)
qed

lemma utf8_decode_bytes: "utf8_decode (utf8_bytes s) = Inr s"
proof (induction s)
  case (Cons c s)
  have "utf8_decode (utf8_char c @ utf8_bytes s) = ebind (utf8_decode (utf8_bytes s)) (\<lambda>t. Inr (c # t))"
  proof (rule utf8_char_cases [of c])
    fix b assume "utf8_char c = [b]" "uint b = of_char c" "uint b < 128"
    then show ?thesis by (simp flip: int_of_char)
  next
    fix a b assume u: "utf8_char c = [a, b]" "uint a = 194 \<or> uint a = 195" "128 \<le> uint b" "uint b < 192"
      and v: "(uint a - 192) * 64 + (uint b - 128) = of_char c"
    have "char_of (nat ((uint a - 192) * 64 + (uint b - 128))) = c" unfolding v by (simp flip: int_of_char)
    moreover have "\<not> uint a < 128" using u(2) by auto
    ultimately show ?thesis using u(2-4) by (simp only: u(1) append.simps utf8_decode.simps list.case if_True if_False simp_thms)
  qed
  then show ?case using Cons by (simp add: utf8_bytes_def)
qed (simp add: utf8_bytes_def)

lemma utf8_replace_bytes: "utf8_replace (utf8_bytes s @ bs) = utf8_bytes s @ utf8_replace bs"
proof (induction s)
  case (Cons c s)
  have "utf8_replace (utf8_char c @ r) = utf8_char c @ utf8_replace r" for r
  proof (rule utf8_char_cases [of c])
    fix b assume "utf8_char c = [b]" "uint b < 128"
    then show ?thesis by (simp add: utf8_ranges_def)
  next
    fix a b assume u: "utf8_char c = [a, b]" "uint a = 194 \<or> uint a = 195" "128 \<le> uint b" "uint b < 192"
    then have "utf8_ranges a = Some [(128, 191)]" by (auto simp: utf8_ranges_def)
    then show ?thesis using u(3,4) by (simp add: u(1))
  qed
  then show ?case using Cons by (simp add: utf8_bytes_def)
qed (simp add: utf8_bytes_def)

end
