(* ===== verification/Netshare.thy ===== *)
theory Netshare
  imports Kio
begin

text \<open>
  The controller of \<^verbatim>\<open>netshare/kubernetes-on-demand-main/controller\<close>, which gives every connection a cluster of
  its own: \<^verbatim>\<open>controller.py\<close>, \<^verbatim>\<open>kubeconfig.py\<close>, \<^verbatim>\<open>ingress.py\<close>, \<^verbatim>\<open>cluster.py\<close>, \<^verbatim>\<open>service.py\<close>, \<^verbatim>\<open>endpoints.py\<close>.
  Objects of the client library are the JSON objects of their fields. Log lines are left out.
\<close>

section \<open>Configuration\<close>

record netconf =
  nc_domain :: string
  nc_public_host :: string
  nc_salt :: string
  nc_chal :: string
  nc_now :: int
  nc_crypto :: crypto
  nc_yaml :: "string \<Rightarrow> kexc + json"

definition NAMESPACE :: string where
  "NAMESPACE = ''default''"

definition name_to_host :: "netconf \<Rightarrow> string \<Rightarrow> string" where
  "name_to_host nc name = name @ ''.'' @ nc_domain nc"

section \<open>The flag of a team\<close>

definition ns_to_u32 :: "bytes \<Rightarrow> int list" where
  "ns_to_u32 dat = foldl (put_byte dat) (replicate ((length dat + 3) div 4) 0) [0..<length dat]"

definition ns_to_bytes :: "int list \<Rightarrow> bytes" where
  "ns_to_bytes v = map (get_byte v) [0..<4 * length v]"

definition ns_xxtea_encrypt :: "bytes \<Rightarrow> string \<Rightarrow> bytes res" where
  "ns_xxtea_encrypt dat key =
     (let v = ns_to_u32 dat; k = fixk (ns_to_u32 (utf8 key)) in
      if v = [] then Inl IndexError
      else
        let n = length v - 1; z = v ! n; q = 6 + 52 div length v in
        Inr (ns_to_bytes (enc_rounds q n k (v, z, 0))))"

definition ns_chacha_block :: "crypto \<Rightarrow> string \<Rightarrow> bytes \<Rightarrow> bytes" where
  "ns_chacha_block C key dat =
     (let h = sha256 C (utf8 key) in chacha20_poly1305 C (take 32 h) (drop (length h - 12) h) dat)"

definition ns_encode_uuid :: "crypto \<Rightarrow> string \<Rightarrow> string \<Rightarrow> int \<Rightarrow> bool \<Rightarrow> string res" where
  "ns_encode_uuid C template key team_id with_hyphen =
     (let hash_slice = take 16 (drop 2 (sha1 C (utf8 template))) in
      ebind (pack_q team_id) (\<lambda>packed.
      ebind (ns_xxtea_encrypt packed key) (\<lambda>encrypted.
      let e8 = take 8 encrypted; enc = e8 @ replicate (8 - length e8) 0;
          hash_slice = foldl (hide_step enc) hash_slice [0..<8]
      in uuid_text (take 16 (ns_chacha_block C key hash_slice)) with_hyphen)))"

definition flag_generate :: "netconf \<Rightarrow> int \<Rightarrow> string res" where
  "flag_generate nc team_id =
     ebind (ns_encode_uuid (nc_crypto nc) (nc_chal nc) (nc_salt nc) team_id True) (\<lambda>u. Inr (''sk-'' @ u))"

section \<open>The service assertion\<close>

text \<open>\<^verbatim>\<open>json.dumps\<close> of an object of strings and integers, compact, with its keys sorted.\<close>

definition hex4 :: "nat \<Rightarrow> string" where
  "hex4 n = ''00'' @ [hex_digit (int (n div 16)), hex_digit (int (n mod 16))]"

definition json_escape :: "char \<Rightarrow> string" where
  "json_escape c =
     (let n = of_char c :: nat in
      if n = 34 then [char_of (92 :: nat), c]
      else if n = 92 then [c, c]
      else if n = 10 then char_of (92 :: nat) # ''n''
      else if n = 13 then char_of (92 :: nat) # ''r''
      else if n = 9 then char_of (92 :: nat) # ''t''
      else if n = 8 then char_of (92 :: nat) # ''b''
      else if n = 12 then char_of (92 :: nat) # ''f''
      else if n < 32 \<or> 126 < n then char_of (92 :: nat) # ''u'' @ hex4 n
      else [c])"

definition json_quote :: "string \<Rightarrow> string" where
  "json_quote s = [char_of (34 :: nat)] @ concat (map json_escape s) @ [char_of (34 :: nat)]"

definition dump_value :: "json \<Rightarrow> string" where
  "dump_value v = (case v of JStr s \<Rightarrow> json_quote s | JInt i \<Rightarrow> show_int i | _ \<Rightarrow> [])"

fun comma_join :: "string list \<Rightarrow> string" where
  "comma_join [] = []"
| "comma_join [x] = x"
| "comma_join (x # xs) = x @ '','' @ comma_join xs"

definition dump_object :: "(string \<times> json) list \<Rightarrow> string" where
  "dump_object kvs = ''{'' @ comma_join (map (\<lambda>(k, v). json_quote k @ '':'' @ dump_value v) kvs) @ ''}''"

definition assertion_payload :: "int \<Rightarrow> string \<Rightarrow> (string \<times> json) list" where
  "assertion_payload now flag =
     [(''aud'', JStr ''customer-profile-api''), (''exp'', JInt (now + 86400)), (''iat'', JInt now),
      (''iss'', JStr ''profile-cache-refresh''), (''scope'', JStr ''profile.read''),
      (''service_proof'', JStr flag), (''tenant'', JStr ''tenant-runtime'')]"

definition urlsafe_b64 :: "bytes \<Rightarrow> string" where
  "urlsafe_b64 b =
     map (\<lambda>c. if c = CHR ''+'' then CHR ''-'' else if c = CHR ''/'' then CHR ''_'' else c) (b64encode b)"

definition rstrip_char :: "char \<Rightarrow> string \<Rightarrow> string" where
  "rstrip_char c s = rev (dropWhile (\<lambda>x. x = c) (rev s))"

definition hmac_sha256 :: "crypto \<Rightarrow> bytes \<Rightarrow> bytes \<Rightarrow> bytes" where
  "hmac_sha256 C key msg =
     (let k = (if 64 < length key then sha256 C key else key); k = k @ replicate (64 - length k) 0 in
      sha256 C (map (\<lambda>b. b XOR 0x5C) k @ sha256 C (map (\<lambda>b. b XOR 0x36) k @ msg)))"

definition create_service_assertion :: "netconf \<Rightarrow> string \<Rightarrow> string" where
  "create_service_assertion nc flag =
     (let encoded_payload = rstrip_char CHR ''='' (urlsafe_b64 (utf8 (dump_object (assertion_payload (nc_now nc) flag))));
          signature = hmac_sha256 (nc_crypto nc) (utf8 (nc_salt nc)) (utf8 encoded_payload);
          encoded_signature = rstrip_char CHR ''='' (urlsafe_b64 signature)
      in ''svc.v1.'' @ encoded_payload @ ''.'' @ encoded_signature)"

section \<open>Objects of the cluster\<close>

definition generate_cluster :: "string \<Rightarrow> string \<Rightarrow> json" where
  "generate_cluster namespace name =
     JObj [(''apiVersion'', JStr ''cluster.x-k8s.io/v1beta1''), (''kind'', JStr ''Cluster''),
       (''metadata'', JObj [(''name'', JStr name), (''namespace'', JStr namespace),
          (''labels'', JObj [(''cni'', JStr ''calico''), (''challenge'', JStr ''challenge'')])]),
       (''spec'', JObj [
          (''clusterNetwork'', JObj [(''pods'', JObj [(''cidrBlocks'', JList [JStr ''10.244.0.0/22''])]),
             (''serviceDomain'', JStr ''cluster.local''), (''services'', JObj [(''cidrBlocks'', JList [JStr ''10.96.0.0/24''])])]),
          (''topology'', JObj [(''class'', JStr ''kond''),
             (''controlPlane'', JObj [(''metadata'', JObj []), (''replicas'', JInt 1)]),
             (''variables'', JList []), (''version'', JStr ''v1.28.15''),
             (''workers'', JObj [(''machineDeployments'',
                JList [JObj [(''class'', JStr ''default-worker''), (''name'', JStr ''md-0''), (''replicas'', JInt 1)]])])])])]"

definition generate_service :: "string \<Rightarrow> string \<Rightarrow> json" where
  "generate_service namespace name =
     JObj [(''api_version'', JStr ''v1''), (''kind'', JStr ''Service''),
       (''metadata'', JObj [(''name'', JStr name), (''namespace'', JStr namespace)]),
       (''spec'', JObj [(''ports'', JList [JObj [(''name'', JStr ''https''), (''port'', JInt 443), (''target_port'', JInt 6443)]])])]"

definition generate_endpoints :: "string \<Rightarrow> string \<Rightarrow> json \<Rightarrow> json" where
  "generate_endpoints namespace name ip =
     JObj [(''api_version'', JStr ''v1''), (''kind'', JStr ''Endpoints''),
       (''metadata'', JObj [(''name'', JStr name), (''namespace'', JStr namespace)]),
       (''subsets'', JList [JObj [(''addresses'', JList [JObj [(''ip'', ip)]]),
          (''ports'', JList [JObj [(''name'', JStr ''https''), (''port'', JInt 6443), (''protocol'', JStr ''TCP'')]])]])]"

definition generate_rule :: "netconf \<Rightarrow> string \<Rightarrow> json" where
  "generate_rule nc name =
     JObj [(''host'', JStr (name_to_host nc name)),
       (''http'', JObj [(''paths'', JList [JObj [(''path'', JStr ''/''), (''path_type'', JStr ''Prefix''),
          (''backend'', JObj [(''service'', JObj [(''name'', JStr name), (''port'', JObj [(''number'', JInt 443)])])])]])])]"

definition generate_ingress :: "netconf \<Rightarrow> string \<Rightarrow> string \<Rightarrow> json list \<Rightarrow> json" where
  "generate_ingress nc namespace name rules =
     JObj [(''api_version'', JStr ''networking.k8s.io/v1''), (''kind'', JStr ''Ingress''),
       (''metadata'', JObj [(''name'', JStr name), (''namespace'', JStr namespace),
          (''annotations'', JObj [(''nginx.ingress.kubernetes.io/backend-protocol'', JStr ''HTTPS'')])]),
       (''spec'', JObj [
          (''tls'', JList [JObj [(''hosts'', JList [JStr (nc_domain nc)]), (''secret_name'', JStr ''domain-cert'')]]),
          (''rules'', JList rules),
          (''default_backend'', JObj [(''service'',
             JObj [(''name'', JStr ''default-backend''), (''port'', JObj [(''number'', JInt 443)])])])])]"

section \<open>The kubeconfig\<close>

definition public_host :: "mapping_entry \<Rightarrow> bool" where
  "public_host m \<longleftrightarrow> (case map_of m ''HostIp'' of None \<Rightarrow> False | Some ip \<Rightarrow> ip \<in> {''0.0.0.0'', ''::'', ''127.0.0.1''})"

definition container_ports :: "docker_container \<Rightarrow> mapping_entry list" where
  "container_ports d = (case map_of (dc_ports d) ''6443/tcp'' of Some (Some ms) \<Rightarrow> ms | _ \<Rightarrow> [])"

text \<open>The port of the first public mapping of the last container that matches.\<close>

fun mapped_port :: "string \<Rightarrow> docker_container list \<Rightarrow> string \<Rightarrow> string res" where
  "mapped_port conn_id [] port = Inr port"
| "mapped_port conn_id (d # ds) port =
     (let name = drop 1 (dc_name d) in
      if take (length conn_id) name = conn_id \<and> dc_path d = ''haproxy'' then
        (case List.find public_host (container_ports d) of
           None \<Rightarrow> mapped_port conn_id ds port
         | Some m \<Rightarrow>
             (case map_of m ''HostPort'' of None \<Rightarrow> Inl KeyError | Some p \<Rightarrow> mapped_port conn_id ds p))
      else mapped_port conn_id ds port)"

definition text_line :: "string \<Rightarrow> string" where
  "text_line s = s @ [char_of (10 :: nat)]"

definition kubeconfig_text :: "string \<Rightarrow> string \<Rightarrow> string" where
  "kubeconfig_text server token =
     text_line ''apiVersion: v1'' @ text_line ''kind: Config'' @ text_line ''clusters:'' @ text_line ''- name: tenant-platform''
     @ text_line ''  cluster:'' @ text_line (''    server: '' @ server) @ text_line ''    insecure-skip-tls-verify: true''
     @ text_line ''contexts:'' @ text_line ''- name: runtime-operator'' @ text_line ''  context:'' @ text_line ''    cluster: tenant-platform''
     @ text_line ''    user: runtime-operator'' @ text_line ''    namespace: tenant-runtime''
     @ text_line ''current-context: runtime-operator'' @ text_line ''users:'' @ text_line ''- name: runtime-operator''
     @ text_line ''  user:'' @ text_line (''    token: '' @ token)"

definition create_kube_token_and_server :: "netconf \<Rightarrow> string \<Rightarrow> string \<Rightarrow> string kio" where
  "create_kube_token_and_server nc token conn_id =
     kbind (kcontainers ListContainers) (\<lambda>containers.
     kbind (klift (mapped_port conn_id containers [])) (\<lambda>mapping_ports.
     let server = ''https://'' @ nc_public_host nc @ '':'' @ mapping_ports in
     kret (kubeconfig_text server token)))"

section \<open>The workload cluster\<close>

text \<open>\<^verbatim>\<open>base64.b64decode\<close> without validation: other characters are skipped, and a group that is complete ends the text.\<close>

fun b64_lax :: "nat \<Rightarrow> int \<Rightarrow> nat \<Rightarrow> string \<Rightarrow> bytes res" where
  "b64_lax q left pads [] = (if q \<noteq> 0 then Inl ValueError else Inr [])"
| "b64_lax q left pads (c # cs) =
     (if c = CHR ''='' then
        (if 2 \<le> q \<and> 4 \<le> q + (pads + 1) then Inr [] else b64_lax q left (if 2 \<le> q then pads + 1 else pads) cs)
      else
        (case b64_value c of
           None \<Rightarrow> b64_lax q left pads cs
         | Some v \<Rightarrow>
             if q = 0 then b64_lax 1 v 0 cs
             else if q = 1 then ebind (b64_lax 2 (v mod 16) 0 cs) (\<lambda>bs. Inr (word_of_int (left * 4 + v div 16) # bs))
             else if q = 2 then ebind (b64_lax 3 (v mod 4) 0 cs) (\<lambda>bs. Inr (word_of_int (left * 16 + v div 4) # bs))
             else ebind (b64_lax 0 0 0 cs) (\<lambda>bs. Inr (word_of_int (left * 64 + v) # bs))))"

definition decoded :: "string \<Rightarrow> string res" where
  "decoded s = ebind (b64_lax 0 0 0 s) utf8_decode"

definition secret_item :: "(string \<times> string) list option \<Rightarrow> string \<Rightarrow> string res" where
  "secret_item dat k =
     (case dat of None \<Rightarrow> Inl TypeError | Some kvs \<Rightarrow> (case map_of kvs k of None \<Rightarrow> Inl KeyError | Some v \<Rightarrow> Inr v))"

definition get_kubeconfig :: "netconf \<Rightarrow> string \<Rightarrow> json kio" where
  "get_kubeconfig nc conn_id =
     kbind (ksecret (ReadSecret (conn_id @ ''-kubeconfig'') NAMESPACE)) (\<lambda>secret.
     kbind (klift (ebind (secret_item secret ''value'') decoded)) (\<lambda>text.
     (\<lambda>w. (nc_yaml nc text, w))))"

text \<open>The two loops of at most 120 attempts: for the account, and for its token, which is \<^verbatim>\<open>None\<close> after the last.\<close>

fun wait_account :: "nat \<Rightarrow> unit kio" where
  "wait_account 0 = kraise (ApiExc 504)"
| "wait_account (Suc n) =
     ktry_else (kdo (ReadServiceAccount ''runtime-operator'' ''default''))
       (\<lambda>e. case e of ApiExc st \<Rightarrow> if st \<noteq> 404 then kraise e else kthen (kdo (Sleep 1)) (wait_account n) | _ \<Rightarrow> kraise e)
       kret"

fun wait_token :: "nat \<Rightarrow> string option kio" where
  "wait_token 0 = kret None"
| "wait_token (Suc n) =
     kbind (ksecret (ReadSecret ''runtime-operator-token'' ''default'')) (\<lambda>dat.
     case dat of
       Some kvs \<Rightarrow>
         (case map_of kvs ''token'' of
            Some tok \<Rightarrow>
              if tok \<noteq> [] then kbind (klift (decoded tok)) (\<lambda>token. kret (Some token))
              else kthen (kdo (Sleep 1)) (wait_token n)
          | None \<Rightarrow> kthen (kdo (Sleep 1)) (wait_token n))
     | None \<Rightarrow> kthen (kdo (Sleep 1)) (wait_token n))"

definition assertion_patch :: "string \<Rightarrow> json" where
  "assertion_patch assertion = JObj [(''stringData'', JObj [(''client-assertion'', JStr assertion)])]"

text \<open>Whether the secret was patched; every error of the client but 404 gives up silently, as the last attempt does.\<close>

fun patch_loop :: "nat \<Rightarrow> json \<Rightarrow> bool kio" where
  "patch_loop 0 patch = kret False"
| "patch_loop (Suc n) patch =
     ktry_else (kdo (PatchSecret ''profile-client-credentials'' ''platform-operations'' patch))
       (\<lambda>e. case e of
          ApiExc st \<Rightarrow> if st = 404 then kthen (kdo (Sleep 1)) (patch_loop n patch) else kret False
        | _ \<Rightarrow> kraise e)
       (\<lambda>_. kret True)"

definition inject_service_assertion :: "netconf \<Rightarrow> int \<Rightarrow> unit kio" where
  "inject_service_assertion nc team_id =
     kbind (klift (flag_generate nc team_id)) (\<lambda>flag.
     let patch = assertion_patch (create_service_assertion nc flag) in
     kbind (patch_loop 120 patch) (\<lambda>patched.
     if \<not> patched then kret ()
     else
       kcatch (kdo (DeletePods ''platform-operations'' ''app.kubernetes.io/name=profile-cache-refresh''))
         (\<lambda>e. case e of ApiExc st \<Rightarrow> kret () | _ \<Rightarrow> kraise e)))"

definition token_secret :: json where
  "token_secret =
     JObj [(''metadata'', JObj [(''name'', JStr ''runtime-operator-token''), (''namespace'', JStr ''default''),
         (''annotations'', JObj [(''kubernetes.io/service-account.name'', JStr ''runtime-operator'')])]),
       (''type'', JStr ''kubernetes.io/service-account-token'')]"

definition get_service_account_token :: "netconf \<Rightarrow> string \<Rightarrow> int \<Rightarrow> string kio" where
  "get_service_account_token nc conn_id team_id =
     kbind (get_kubeconfig nc conn_id) (\<lambda>kubeconfig.
     kthen (kdo (NewClient kubeconfig)) (
     kthen (wait_account 120) (
     kthen (kcatch (kdo (CreateSecret ''default'' token_secret))
       (\<lambda>e. case e of ApiExc st \<Rightarrow> if st \<noteq> 409 then kraise e else kret () | _ \<Rightarrow> kraise e)) (
     kbind (wait_token 120) (\<lambda>token.
     case token of
       None \<Rightarrow> kraise (ApiExc 504)
     | Some token \<Rightarrow>
         kthen (inject_service_assertion nc team_id) (
         kthen (kdo CloseClient) (
         create_kube_token_and_server nc token conn_id)))))))"

section \<open>A connection\<close>

text \<open>\<open>"status" in r and r["status"].get("controlPlaneReady")\<close>\<close>

definition plane_ready :: "json \<Rightarrow> bool res" where
  "plane_ready r =
     (case r of
        JObj kvs \<Rightarrow>
          (case map_of kvs ''status'' of
             None \<Rightarrow> Inr False
           | Some st \<Rightarrow> ebind (py_get st ''controlPlaneReady'' JNull) (\<lambda>v. Inr (py_truthy v)))
      | _ \<Rightarrow> Inl TypeError)"

text \<open>One look at the cluster, and the loop, which ends with the answers at the latest.\<close>

definition look_at_cluster :: "string \<Rightarrow> (json \<times> bool) kio" where
  "look_at_cluster conn_id =
     kthen (kwrite ''.'') (
     kthen (kdo Drain) (
     kbind (kobject (GetCluster NAMESPACE conn_id)) (\<lambda>r.
     kbind (klift (plane_ready r)) (\<lambda>ready.
     if ready then kret (r, True) else kthen (kdo (Sleep 1)) (kret (r, False))))))"

lemma kcall_answers: "kcall q w = (Inr v, w') \<Longrightarrow> length (kw_answers w') < length (kw_answers w)"
  by (auto simp: kcall_def split: list.splits)

lemma kdo_answers: "kdo q w = (Inr v, w') \<Longrightarrow> length (kw_answers w') < length (kw_answers w)"
  by (auto simp: kdo_def kthen_def kbind_def kret_def split: prod.splits sum.splits dest: kcall_answers)

lemma kobject_answers: "kobject q w = (Inr v, w') \<Longrightarrow> length (kw_answers w') < length (kw_answers w)"
  by (auto simp: kobject_def kbind_def kret_def kraise_def split: prod.splits sum.splits kval.splits dest: kcall_answers)

lemma look_answers: "look_at_cluster c w = (Inr v, w') \<Longrightarrow> length (kw_answers w') < length (kw_answers w)"
  by (auto simp: look_at_cluster_def kwrite_def klog_def klift_def kthen_def kbind_def kret_def
      split: prod.splits sum.splits if_splits dest!: kdo_answers kobject_answers)

function poll_cluster :: "string \<Rightarrow> json kio" where
  "poll_cluster conn_id w =
     (case look_at_cluster conn_id w of
        (Inl e, w') \<Rightarrow> (Inl e, w')
      | (Inr (r, True), w') \<Rightarrow> (Inr r, w')
      | (Inr (r, False), w') \<Rightarrow> poll_cluster conn_id w')"
  by pat_completeness auto
termination
  by (relation "measure (\<lambda>(c, w). length (kw_answers w))") (auto dest: look_answers [OF sym])

declare poll_cluster.simps [simp del]

definition setup_cluster :: "string \<Rightarrow> json kio" where
  "setup_cluster conn_id =
     kthen (kdo (CreateCluster NAMESPACE (generate_cluster NAMESPACE conn_id))) (
     kthen (kwrite ''Waiting for control plane'') (
     kthen (kcount 1) (
     kbind (poll_cluster conn_id) (\<lambda>r.
     kthen (kwrite (text_line [])) (
     klift (ebind (py_get r ''spec'' (JObj [])) (\<lambda>spec. py_get spec ''controlPlaneEndpoint'' JNull)))))))"

definition ignore_missing :: "unit kio \<Rightarrow> unit kio" where
  "ignore_missing m =
     kcatch m (\<lambda>e. case e of ApiExc st \<Rightarrow> if st \<noteq> 404 then kraise e else kret () | _ \<Rightarrow> kraise e)"

definition give_kubeconfig :: "netconf \<Rightarrow> string \<Rightarrow> int \<Rightarrow> unit kio" where
  "give_kubeconfig nc conn_id team_id =
     ktry_else (get_service_account_token nc conn_id team_id)
       (\<lambda>e. case e of
          ApiExc st \<Rightarrow> kwrite (text_line ''Error getting Kubernetes information'')
        | PyExc x \<Rightarrow> if x = KeyError then kwrite (text_line ''Error getting Kubernetes information'') else kraise e
        | _ \<Rightarrow> kraise e)
       (\<lambda>kubeconfig.
          kthen (kwrite (text_line ''Your kubeconfig is below:'')) (
          kthen (kwrite (text_line ''-----BEGIN KUBECONFIG-----'')) (
          kthen (kwrite kubeconfig) (
          kthen (kwrite (text_line ''-----END KUBECONFIG-----'')) (
          kthen (kwrite (text_line (''Keep this connection open: the kubeconfig stays valid until you disconnect. ''
            @ ''Closing the connection deletes your cluster.''))) (
          kthen (kdo Drain) (
          kdo (ReadInput 100))))))))"

definition serve_cluster :: "netconf \<Rightarrow> string \<Rightarrow> int \<Rightarrow> json \<Rightarrow> unit kio" where
  "serve_cluster nc conn_id team_id control_plane =
     kthen (kdo (CreateService NAMESPACE (generate_service NAMESPACE conn_id))) (
     kfinally
       (kbind (klift (py_item control_plane ''host'')) (\<lambda>ip.
        kthen (kdo (CreateEndpoints NAMESPACE (generate_endpoints NAMESPACE conn_id ip))) (
        give_kubeconfig nc conn_id team_id)))
       (ignore_missing (kdo (DeleteService conn_id NAMESPACE))))"

definition add_name :: "string \<Rightarrow> unit kio" where
  "add_name name = klog (Enqueued ''create'' name)"

definition remove_name :: "string \<Rightarrow> unit kio" where
  "remove_name name = klog (Enqueued ''delete'' name)"

definition cluster_session :: "netconf \<Rightarrow> string \<Rightarrow> int \<Rightarrow> unit kio" where
  "cluster_session nc conn_id team_id =
     kfinally
       (kbind (setup_cluster conn_id) (\<lambda>control_plane.
        kthen (add_name conn_id) (
        kfinally (serve_cluster nc conn_id team_id control_plane) (remove_name conn_id))))
       (kthen (kcount (- 1)) (
        ignore_missing (kdo (DeleteCluster NAMESPACE conn_id))))"

definition parse_team_id :: "bytes \<Rightarrow> int res" where
  "parse_team_id dat =
     ebind (utf8_decode dat) (\<lambda>s.
     ebind (py_int (JStr s)) (\<lambda>i. if - (2 ^ 63) \<le> i \<and> i < 2 ^ 63 then Inr i else Inl ValueError))"

definition banner :: string where
  "banner = text_line [] @ text_line ''     _____      _    __'' @ text_line ''  _ _|___ /  ___| |_ / _|''
     @ text_line ('' | '' @ [char_of (39 :: nat)] @ ''__||_ '' @ [char_of (92 :: nat)] @ '' / __| __| |_'')
     @ text_line '' | |  ___) | (__| |_|  _|''
     @ text_line ('' |_| |____/ '' @ [char_of (92 :: nat)] @ ''___|'' @ [char_of (92 :: nat)] @ ''__|_|'')
     @ text_line []"

definition resource_setup :: "netconf \<Rightarrow> string \<Rightarrow> unit kio" where
  "resource_setup nc conn_id w =
     (if 5000 < kw_num w then kwrite (text_line ''# Too many connections, please try again later'') w
      else
        (kthen (kwrite ''Please input the team id: '') (
         kthen (kdo Drain) (
         kbind (kdata (ReadInput 100)) (\<lambda>dat.
         case parse_team_id dat of
           Inl e \<Rightarrow> kwrite (text_line ''# Invalid team id'')
         | Inr team_id \<Rightarrow>
             kthen (kwrite banner) (
             kthen (kwrite (text_line ''Challenge: Net Share'')) (
             kthen (kwrite (text_line ''Creating Cluster'')) (
             cluster_session nc conn_id team_id))))))) w)"

definition handle_connection :: "netconf \<Rightarrow> string \<Rightarrow> unit kio" where
  "handle_connection nc conn_id =
     kfinally
       (kcatch
          (kcatch (resource_setup nc conn_id)
             (\<lambda>e. case e of ApiExc st \<Rightarrow> kret () | ConnExc \<Rightarrow> kret () | _ \<Rightarrow> kraise e))
          (\<lambda>e. if e = CancelExc then kraise e
               else
                 kthen (kwrite ''Unhandled exception during operation, please try again.'') (
                 kcatch (kdo Drain) (\<lambda>e. if e = ConnExc \<or> e = OsExc then kret () else kraise e))))
       (kthen (klog Closed) (kcatch (kdo WaitClosed) (\<lambda>e. kret ())))"

section \<open>The ingress\<close>

definition ingress_ensure :: "netconf \<Rightarrow> unit kio" where
  "ingress_ensure nc =
     ktry_else (kdo (ReadIngress ''kube-api-entry'' NAMESPACE))
       (\<lambda>e. case e of
          ApiExc st \<Rightarrow> if st \<noteq> 404 then kraise e
                      else kdo (CreateIngress NAMESPACE (generate_ingress nc NAMESPACE ''kube-api-entry'' []))
        | _ \<Rightarrow> kraise e)
       kret"

definition ingress_remove :: "unit kio" where
  "ingress_remove = kdo (DeleteIngress ''kube-api-entry'' NAMESPACE)"

definition ingress_configure :: "netconf \<Rightarrow> string list \<Rightarrow> unit kio" where
  "ingress_configure nc names =
     kdo (PatchIngress ''kube-api-entry'' NAMESPACE
       (generate_ingress nc NAMESPACE ''kube-api-entry'' (map (generate_rule nc) names)))"

definition apply_event :: "string \<times> string \<Rightarrow> string list \<Rightarrow> string list" where
  "apply_event ev names =
     (let (action, name) = ev in
      if action = ''create'' then names @ [name]
      else if action = ''delete'' then remove1 name names
      else names)"

text \<open>The worker on the events of the queue: the names it holds when it waits for more, or the exception that ends it.\<close>

fun ingress_worker :: "netconf \<Rightarrow> string list \<Rightarrow> (string \<times> string) list \<Rightarrow> string list kio" where
  "ingress_worker nc names [] = kret names"
| "ingress_worker nc names (ev # evs) =
     (let names = apply_event ev names in
      kthen (ingress_configure nc names) (ingress_worker nc names evs))"

text \<open>The main loop sleeps until the task is cancelled.\<close>

function idle :: "unit kio" where
  "idle w = (case kdo (Sleep 10) w of (Inl e, w') \<Rightarrow> (Inl e, w') | (Inr _, w') \<Rightarrow> idle w')"
  by pat_completeness auto
termination
  by (relation "measure (\<lambda>w. length (kw_answers w))") (auto dest: kdo_answers [OF sym])

declare idle.simps [simp del]

text \<open>
  What removes old clusters: its loop looks at a variable that has no value, before it looks at a time. Nothing calls it.
\<close>

definition cleanup_old_clusters :: "unit kio" where
  "cleanup_old_clusters =
     kbind (kobject (ListClusters NAMESPACE)) (\<lambda>cluster_list.
     case cluster_list of
       JObj kvs \<Rightarrow> if kvs = [] then kret () else kraise NameExc
     | _ \<Rightarrow> kraise (PyExc AttributeError))"

definition cleanup :: "unit kio" where
  "cleanup = ingress_remove"

definition housekeeping :: "netconf \<Rightarrow> unit kio" where
  "housekeeping nc =
     kcatch (kthen (ingress_ensure nc) idle) (\<lambda>e. if e = CancelExc then cleanup else kraise e)"

end
