(* ===== verification/NetshareProps.thy ===== *)
theory NetshareProps
  imports Netshare "HOL-Library.Multiset"
begin

text \<open>
  What a connection of the controller does, whatever the cluster answers: it takes back all it created, in
  the reverse order, it keeps the counter except when no cluster came up, and it stores the flag of the team
  that was asked for, which is the flag of the reference generator.
\<close>

section \<open>Traces\<close>

text \<open>
  \<open>runs m P\<close>: every run of \<open>m\<close> appends a list of events to the log, moves the counter by what they count, and
  \<open>P\<close> holds of its result and these events.
\<close>

definition counted :: "kevent list \<Rightarrow> int" where
  "counted evs = (\<Sum>e \<leftarrow> evs. case e of Counted d \<Rightarrow> d | _ \<Rightarrow> 0)"

definition runs :: "'a kio \<Rightarrow> (kexc + 'a \<Rightarrow> kevent list \<Rightarrow> bool) \<Rightarrow> bool" where
  "runs m P \<longleftrightarrow>
     (\<forall>w r w'. m w = (r, w') \<longrightarrow>
        (\<exists>evs. kw_log w' = kw_log w @ evs \<and> kw_num w' = kw_num w + counted evs \<and> P r evs))"

lemma counted_simps [simp]:
  "counted [] = 0" "counted (e # evs) = (case e of Counted d \<Rightarrow> d | _ \<Rightarrow> 0) + counted evs"
  "counted (xs @ ys) = counted xs + counted ys"
  by (simp_all add: counted_def)

lemma runsI:
  "(\<And>w r w'. m w = (r, w') \<Longrightarrow>
      \<exists>evs. kw_log w' = kw_log w @ evs \<and> kw_num w' = kw_num w + counted evs \<and> P r evs) \<Longrightarrow> runs m P"
  by (simp add: runs_def)

lemma runsE:
  assumes "runs m P" and "m w = (r, w')"
  obtains evs where "kw_log w' = kw_log w @ evs" "kw_num w' = kw_num w + counted evs" "P r evs"
  using assms unfolding runs_def by blast

lemma runs_weaken: "runs m P \<Longrightarrow> (\<And>r e. P r e \<Longrightarrow> Q r e) \<Longrightarrow> runs m Q"
  by (fastforce simp: runs_def)

lemma runs_kret: "P (Inr a) [] \<Longrightarrow> runs (kret a) P"
  by (auto simp: runs_def kret_def)

lemma runs_kraise: "P (Inl e) [] \<Longrightarrow> runs (kraise e) P"
  by (auto simp: runs_def kraise_def)

lemma runs_klift: "(\<And>e. P (Inl e) []) \<Longrightarrow> (\<And>a. r = Inr a \<Longrightarrow> P (Inr a) []) \<Longrightarrow> runs (klift r) P"
  by (auto simp: runs_def klift_def split: sum.splits)

lemma runs_klog: "(\<And>d. e \<noteq> Counted d) \<Longrightarrow> P (Inr ()) [e] \<Longrightarrow> runs (klog e) P"
  by (auto simp: runs_def klog_def split: kevent.splits)

lemma runs_kcount: "P (Inr ()) [Counted d] \<Longrightarrow> runs (kcount d) P"
  by (auto simp: runs_def kcount_def)

lemma runs_kcall: "(\<And>a. P a [Call q a]) \<Longrightarrow> runs (kcall q) P"
  by (auto simp: runs_def kcall_def split: list.splits)

lemma runs_kbind:
  assumes "runs m P" and "\<And>a. runs (f a) (Q a)"
    and "\<And>x e. P (Inl x) e \<Longrightarrow> R (Inl x) e" and "\<And>a r e1 e2. P (Inr a) e1 \<Longrightarrow> Q a r e2 \<Longrightarrow> R r (e1 @ e2)"
  shows "runs (kbind m f) R"
proof (rule runsI)
  fix w r w' assume run: "kbind m f w = (r, w')"
  obtain r1 w1 where m: "m w = (r1, w1)" by (cases "m w")
  obtain e1 where e1: "kw_log w1 = kw_log w @ e1" "kw_num w1 = kw_num w + counted e1" "P r1 e1"
    by (rule runsE [OF assms(1) m])
  show "\<exists>evs. kw_log w' = kw_log w @ evs \<and> kw_num w' = kw_num w + counted evs \<and> R r evs"
  proof (cases r1)
    case (Inl x)
    then show ?thesis using run m e1 assms(3) by (auto simp: kbind_def)
  next
    case (Inr a)
    with run m have "f a w1 = (r, w')" by (simp add: kbind_def)
    then obtain e2 where "kw_log w' = kw_log w1 @ e2" "kw_num w' = kw_num w1 + counted e2" "Q a r e2"
      by (rule runsE [OF assms(2)])
    then show ?thesis using e1 Inr assms(4) by (intro exI [of _ "e1 @ e2"]) auto
  qed
qed

lemma runs_kthen:
  assumes "runs m P" and "runs n Q"
    and "\<And>x e. P (Inl x) e \<Longrightarrow> R (Inl x) e" and "\<And>a r e1 e2. P (Inr a) e1 \<Longrightarrow> Q r e2 \<Longrightarrow> R r (e1 @ e2)"
  shows "runs (kthen m n) R"
  unfolding kthen_def by (rule runs_kbind [OF assms(1), of _ "\<lambda>_. Q"]) (use assms in auto)

lemma runs_ktry_else:
  assumes "runs m P" and "\<And>x. runs (h x) (H x)" and "\<And>a. runs (k a) (K a)"
    and "\<And>x r e1 e2. P (Inl x) e1 \<Longrightarrow> H x r e2 \<Longrightarrow> R r (e1 @ e2)"
    and "\<And>a r e1 e2. P (Inr a) e1 \<Longrightarrow> K a r e2 \<Longrightarrow> R r (e1 @ e2)"
  shows "runs (ktry_else m h k) R"
proof (rule runsI)
  fix w r w' assume run: "ktry_else m h k w = (r, w')"
  obtain r1 w1 where m: "m w = (r1, w1)" by (cases "m w")
  obtain e1 where e1: "kw_log w1 = kw_log w @ e1" "kw_num w1 = kw_num w + counted e1" "P r1 e1"
    by (rule runsE [OF assms(1) m])
  have join: "\<exists>evs. kw_log w' = kw_log w @ evs \<and> kw_num w' = kw_num w + counted evs \<and> R r evs"
    if n: "n w1 = (r, w')" "runs n N" and N: "\<And>e2. N r e2 \<Longrightarrow> R r (e1 @ e2)" for n :: "'b kio" and N
  proof -
    obtain e2 where "kw_log w' = kw_log w1 @ e2" "kw_num w' = kw_num w1 + counted e2" "N r e2"
      by (rule runsE [OF n(2,1)])
    then show ?thesis using e1 N by (intro exI [of _ "e1 @ e2"]) auto
  qed
  show "\<exists>evs. kw_log w' = kw_log w @ evs \<and> kw_num w' = kw_num w + counted evs \<and> R r evs"
  proof (cases r1)
    case (Inl x)
    with run m e1(3) show ?thesis by (intro join [of "h x" "H x"]) (auto simp: ktry_else_def intro: assms)
  next
    case (Inr a)
    with run m e1(3) show ?thesis by (intro join [of "k a" "K a"]) (auto simp: ktry_else_def intro: assms)
  qed
qed

lemma kcatch_try: "kcatch m h = ktry_else m h kret"
  by (rule ext) (simp add: kcatch_def ktry_else_def kret_def split: prod.splits sum.splits)

lemma runs_kcatch:
  assumes "runs m P" and "\<And>x. runs (h x) (H x)"
    and "\<And>x r e1 e2. P (Inl x) e1 \<Longrightarrow> H x r e2 \<Longrightarrow> R r (e1 @ e2)" and "\<And>a e. P (Inr a) e \<Longrightarrow> R (Inr a) e"
  shows "runs (kcatch m h) R"
  unfolding kcatch_try
  by (rule runs_ktry_else [OF assms(1,2), of _ "\<lambda>a r e. r = Inr a \<and> e = []"]) (use assms in \<open>auto intro: runs_kret\<close>)

lemma runs_kfinally:
  assumes "runs m P" and "runs f Q"
    and "\<And>r u e1 e2. P r e1 \<Longrightarrow> Q u e2 \<Longrightarrow> R (case u of Inl x \<Rightarrow> Inl x | Inr _ \<Rightarrow> r) (e1 @ e2)"
  shows "runs (kfinally m f) R"
proof (rule runsI)
  fix w r w' assume run: "kfinally m f w = (r, w')"
  obtain r1 w1 u w2 where m: "m w = (r1, w1)" "f w1 = (u, w2)" by (metis surj_pair)
  obtain e1 where e1: "kw_log w1 = kw_log w @ e1" "kw_num w1 = kw_num w + counted e1" "P r1 e1"
    by (rule runsE [OF assms(1) m(1)])
  obtain e2 where e2: "kw_log w2 = kw_log w1 @ e2" "kw_num w2 = kw_num w1 + counted e2" "Q u e2"
    by (rule runsE [OF assms(2) m(2)])
  have "r = (case u of Inl x \<Rightarrow> Inl x | Inr _ \<Rightarrow> r1)" "w' = w2"
    using run m by (auto simp: kfinally_def split: sum.splits)
  then show "\<exists>evs. kw_log w' = kw_log w @ evs \<and> kw_num w' = kw_num w + counted evs \<and> R r evs"
    using e1 e2 assms(3) by (intro exI [of _ "e1 @ e2"]) auto
qed

section \<open>Resources\<close>

text \<open>The events that create or remove something shared, and operations without any.\<close>

fun resource :: "kevent \<Rightarrow> bool" where
  "resource (Call (CreateCluster n b) a) = True"
| "resource (Call (DeleteCluster n c) a) = True"
| "resource (Call (CreateService n b) a) = True"
| "resource (Call (DeleteService c n) a) = True"
| "resource (Counted d) = True"
| "resource (Enqueued x c) = True"
| "resource _ = False"

definition only :: "(kevent \<Rightarrow> bool) \<Rightarrow> 'a kio \<Rightarrow> bool" where
  "only A m \<longleftrightarrow> runs m (\<lambda>_ e. list_all A e)"

named_theorems only_intro

lemma only_kret [only_intro]: "only A (kret a)"
  by (simp add: only_def runs_kret)

lemma only_kraise [only_intro]: "only A (kraise e)"
  by (simp add: only_def runs_kraise)

lemma only_klift [only_intro]: "only A (klift r)"
  by (simp add: only_def runs_klift)

lemma only_const [only_intro]: "only A (\<lambda>w. (r, w))"
  by (auto simp: only_def runs_def)

lemma only_kcall: "(\<And>a. A (Call q a)) \<Longrightarrow> only A (kcall q)"
  by (simp add: only_def runs_kcall)

lemma only_kbind [only_intro]: "only A m \<Longrightarrow> (\<And>a. only A (f a)) \<Longrightarrow> only A (kbind m f)"
  unfolding only_def by (rule runs_kbind [where P = "\<lambda>_. list_all A" and Q = "\<lambda>_ _. list_all A"]) auto

lemma only_kthen [only_intro]: "only A m \<Longrightarrow> only A n \<Longrightarrow> only A (kthen m n)"
  unfolding kthen_def by (intro only_intro)

lemma only_ktry_else [only_intro]:
  "only A m \<Longrightarrow> (\<And>x. only A (h x)) \<Longrightarrow> (\<And>a. only A (k a)) \<Longrightarrow> only A (ktry_else m h k)"
  unfolding only_def
  by (rule runs_ktry_else [where P = "\<lambda>_. list_all A" and H = "\<lambda>_ _. list_all A" and K = "\<lambda>_ _. list_all A"]) auto

lemma only_kcatch [only_intro]: "only A m \<Longrightarrow> (\<And>x. only A (h x)) \<Longrightarrow> only A (kcatch m h)"
  unfolding kcatch_try by (intro only_intro)

lemma only_kfinally [only_intro]: "only A m \<Longrightarrow> only A f \<Longrightarrow> only A (kfinally m f)"
  unfolding only_def by (rule runs_kfinally [where P = "\<lambda>_. list_all A" and Q = "\<lambda>_. list_all A"]) auto

lemma only_klog: "A e \<Longrightarrow> (\<And>d. e \<noteq> Counted d) \<Longrightarrow> only A (klog e)"
  by (simp add: only_def runs_klog)

lemma only_kcount: "A (Counted d) \<Longrightarrow> only A (kcount d)"
  by (simp add: only_def runs_kcount)

lemma only_kdo: "(\<And>a. A (Call q a)) \<Longrightarrow> only A (kdo q)"
  unfolding kdo_def by (intro only_intro only_kcall)

lemma only_kwrite: "(\<And>b. A (Write b)) \<Longrightarrow> only A (kwrite s)"
  unfolding kwrite_def by (intro only_klog) auto

lemma only_kwrite_text: "A (Write (utf8_bytes s)) \<Longrightarrow> only A (kwrite s)"
  unfolding kwrite_def by (intro only_klog) auto

lemma only_kobject: "(\<And>a. A (Call q a)) \<Longrightarrow> only A (kobject q)"
  unfolding kobject_def by (auto intro!: only_intro only_kcall split: kval.splits)

lemma only_ksecret: "(\<And>a. A (Call q a)) \<Longrightarrow> only A (ksecret q)"
  unfolding ksecret_def by (auto intro!: only_intro only_kcall split: kval.splits)

lemma only_kcontainers: "(\<And>a. A (Call q a)) \<Longrightarrow> only A (kcontainers q)"
  unfolding kcontainers_def by (auto intro!: only_intro only_kcall split: kval.splits)

lemma only_kdata: "(\<And>a. A (Call q a)) \<Longrightarrow> only A (kdata q)"
  unfolding kdata_def by (auto intro!: only_intro only_kcall split: kval.splits)

lemmas only_rules = only_intro only_kdo only_kwrite only_kobject only_ksecret only_kcontainers only_kdata

section \<open>What touches no resource\<close>

abbreviation quiet :: "'a kio \<Rightarrow> bool" where
  "quiet \<equiv> only (\<lambda>e. \<not> resource e)"

lemma quiet_wait_account: "quiet (wait_account n)"
  by (induction n) (auto intro!: only_rules split: kexc.splits)

lemma quiet_wait_token: "quiet (wait_token n)"
  by (induction n) (auto intro!: only_rules split: option.splits)

lemma quiet_patch_loop: "quiet (patch_loop n p)"
  by (induction n) (auto intro!: only_rules split: kexc.splits)

lemma quiet_inject: "quiet (inject_service_assertion nc team)"
  unfolding inject_service_assertion_def Let_def
  by (auto intro!: only_rules quiet_patch_loop split: kexc.splits)

lemma quiet_token: "quiet (get_service_account_token nc c team)"
  unfolding get_service_account_token_def get_kubeconfig_def create_kube_token_and_server_def Let_def
  by (auto intro!: only_rules quiet_wait_account quiet_wait_token quiet_inject split: kexc.splits option.splits)

lemma quiet_give: "quiet (give_kubeconfig nc c team)"
  unfolding give_kubeconfig_def by (auto intro!: only_rules quiet_token split: kexc.splits)

lemma only_poll:
  assumes "A (Write (utf8_bytes ''.''))" "\<And>a. A (Call Drain a)" "\<And>s a. A (Call (Sleep s) a)" "\<And>a. A (Call (GetCluster NAMESPACE c) a)"
  shows "only A (poll_cluster c)"
proof -
  have look: "only A (look_at_cluster c)"
    unfolding look_at_cluster_def by (auto intro!: only_intro only_kdo only_kobject only_kwrite_text assms)
  show ?thesis
    unfolding only_def
  proof (rule runsI)
    fix w r w'
    show "poll_cluster c w = (r, w') \<Longrightarrow> \<exists>evs. kw_log w' = kw_log w @ evs \<and> kw_num w' = kw_num w + counted evs \<and> list_all A evs"
    proof (induction "length (kw_answers w)" arbitrary: w rule: less_induct)
      case less
      obtain r1 w1 where l: "look_at_cluster c w = (r1, w1)" by (cases "look_at_cluster c w")
      obtain e1 where e1: "kw_log w1 = kw_log w @ e1" "kw_num w1 = kw_num w + counted e1" "list_all A e1"
        by (rule runsE [OF look [unfolded only_def] l])
      show ?case
      proof (cases "\<exists>x. r1 = Inr (x, False)")
        case True
        then obtain x where r1: "r1 = Inr (x, False)" by blast
        then have "poll_cluster c w1 = (r, w')" using less.prems l by (simp add: poll_cluster.simps [of c w])
        then obtain e2 where "kw_log w' = kw_log w1 @ e2" "kw_num w' = kw_num w1 + counted e2" "list_all A e2"
          using less.hyps [of w1] look_answers [OF l [unfolded r1]] by blast
        then show ?thesis using e1 by (intro exI [of _ "e1 @ e2"]) simp
      next
        case False
        then have "w' = w1" using less.prems l
          by (auto simp: poll_cluster.simps [of c w] split: sum.splits bool.splits)
        then show ?thesis using e1 by blast
      qed
    qed
  qed
qed

lemma quiet_poll: "quiet (poll_cluster c)"
  by (rule only_poll) simp_all

text \<open>So no old cluster is removed.\<close>

lemma quiet_cleanup: "quiet cleanup_old_clusters"
  unfolding cleanup_old_clusters_def by (auto intro!: only_rules split: json.splits)

section \<open>What a connection takes back\<close>

text \<open>
  The resource events of a connection to \<open>c\<close>: nothing; a cluster that could not be created; a cluster that did not
  come up; a service that could not be created; and the whole sequence. What was done is undone in reverse order.
\<close>

abbreviation cluster_up :: "string \<Rightarrow> kexc + kval \<Rightarrow> kevent" where
  "cluster_up c \<equiv> Call (CreateCluster NAMESPACE (generate_cluster NAMESPACE c))"

abbreviation cluster_down :: "string \<Rightarrow> kexc + kval \<Rightarrow> kevent" where
  "cluster_down c \<equiv> Call (DeleteCluster NAMESPACE c)"

abbreviation service_up :: "string \<Rightarrow> kexc + kval \<Rightarrow> kevent" where
  "service_up c \<equiv> Call (CreateService NAMESPACE (generate_service NAMESPACE c))"

abbreviation service_down :: "string \<Rightarrow> kexc + kval \<Rightarrow> kevent" where
  "service_down c \<equiv> Call (DeleteService c NAMESPACE)"

definition service_shape :: "string \<Rightarrow> kevent list \<Rightarrow> bool" where
  "service_shape c es \<longleftrightarrow>
     (\<exists>x. es = [service_up c (Inl x)]) \<or> (\<exists>v d. es = [service_up c (Inr v), service_down c d])"

definition cluster_shape :: "string \<Rightarrow> kevent list \<Rightarrow> bool" where
  "cluster_shape c es \<longleftrightarrow>
     (\<exists>x d. es = [cluster_up c (Inl x), Counted (- 1), cluster_down c d])
     \<or> (\<exists>v d. es = [cluster_up c (Inr v), Counted 1, Counted (- 1), cluster_down c d])
     \<or> (\<exists>v d s. service_shape c s
          \<and> es = [cluster_up c (Inr v), Counted 1, Enqueued ''create'' c] @ s @ [Enqueued ''delete'' c, Counted (- 1), cluster_down c d])"

definition has_shape :: "(kevent list \<Rightarrow> bool) \<Rightarrow> 'a kio \<Rightarrow> bool" where
  "has_shape S m \<longleftrightarrow> runs m (\<lambda>_ e. S (filter resource e))"

lemma quietD: "quiet m \<Longrightarrow> runs m (\<lambda>_ e. filter resource e = [])"
  unfolding only_def by (erule runs_weaken) (simp add: filter_empty_conv list_all_iff)

lemma runs_kdo: "(\<And>x. P (Inl x) [Call q (Inl x)]) \<Longrightarrow> (\<And>v. P (Inr ()) [Call q (Inr v)]) \<Longrightarrow> runs (kdo q) P"
  unfolding kdo_def
  by (rule runs_kthen [where P = "\<lambda>a e. e = [Call q a]" and Q = "\<lambda>r e. r = Inr () \<and> e = []"])
    (auto intro: runs_kcall runs_kret)

lemma ignore_missing_shape:
  assumes "\<And>a. resource (Call q a)"
  shows "runs (ignore_missing (kdo q)) (\<lambda>_ e. \<exists>d. filter resource e = [Call q d])"
  unfolding ignore_missing_def
  by (rule runs_kcatch [where P = "\<lambda>_ e. \<exists>d. filter resource e = [Call q d]" and H = "\<lambda>_ _ e. e = []"])
    (auto intro!: runs_kdo runs_kret runs_kraise simp: assms split: kexc.splits)

lemma serve_shape: "has_shape (service_shape c) (serve_cluster nc c team plane)"
proof -
  let ?inner = "kbind (klift (py_item plane ''host'')) (\<lambda>ip.
        kthen (kdo (CreateEndpoints NAMESPACE (generate_endpoints NAMESPACE c ip))) (give_kubeconfig nc c team))"
  have "quiet ?inner" by (auto intro!: only_rules quiet_give)
  then have fin: "runs (kfinally ?inner (ignore_missing (kdo (DeleteService c NAMESPACE))))
      (\<lambda>_ e. \<exists>d. filter resource e = [service_down c d])"
    by (rule runs_kfinally [OF quietD ignore_missing_shape]) auto
  show ?thesis
    unfolding has_shape_def serve_cluster_def
    by (rule runs_kthen [where P = "\<lambda>r e. case r of Inl x \<Rightarrow> e = [service_up c (Inl x)] | Inr _ \<Rightarrow> \<exists>v. e = [service_up c (Inr v)]", OF _ fin])
      (auto intro!: runs_kdo simp: service_shape_def)
qed

lemma setup_shape:
  "runs (setup_cluster c) (\<lambda>r e. case r of
      Inl _ \<Rightarrow> (\<exists>x. filter resource e = [cluster_up c (Inl x)]) \<or> (\<exists>v. filter resource e = [cluster_up c (Inr v), Counted 1])
    | Inr _ \<Rightarrow> \<exists>v. filter resource e = [cluster_up c (Inr v), Counted 1])"
proof -
  let ?poll = "kbind (poll_cluster c) (\<lambda>r. kthen (kwrite (text_line []))
      (klift (ebind (py_get r ''spec'' (JObj [])) (\<lambda>spec. py_get spec ''controlPlaneEndpoint'' JNull))))"
  have p: "quiet ?poll" by (auto intro!: only_rules quiet_poll)
  have n: "runs (kthen (kcount 1) ?poll) (\<lambda>_ e. filter resource e = [Counted 1])"
    by (rule runs_kthen [where P = "\<lambda>r e. r = Inr () \<and> e = [Counted 1]", OF _ quietD [OF p]]) (auto intro: runs_kcount)
  have w: "runs (kthen (kwrite ''Waiting for control plane'') (kthen (kcount 1) ?poll)) (\<lambda>_ e. filter resource e = [Counted 1])"
    by (rule runs_kthen [where P = "\<lambda>r e. r = Inr () \<and> filter resource e = []", OF _ n])
      (auto intro: runs_klog simp: kwrite_def)
  show ?thesis
    unfolding setup_cluster_def
    by (rule runs_kthen [where P = "\<lambda>r e. case r of Inl x \<Rightarrow> e = [cluster_up c (Inl x)] | Inr _ \<Rightarrow> \<exists>v. e = [cluster_up c (Inr v)]", OF _ w])
      (auto intro!: runs_kdo split: sum.splits)
qed

lemma session_shape: "has_shape (cluster_shape c) (cluster_session nc c team)"
proof -
  let ?served = "\<lambda>plane. kfinally (serve_cluster nc c team plane) (remove_name c)"
  have s: "runs (?served plane) (\<lambda>_ e. \<exists>s. service_shape c s \<and> filter resource e = s @ [Enqueued ''delete'' c])" for plane
    by (rule runs_kfinally [where Q = "\<lambda>r e. r = Inr () \<and> e = [Enqueued ''delete'' c]", OF serve_shape [unfolded has_shape_def]])
      (auto intro!: runs_klog simp: remove_name_def)
  have a: "runs (kthen (add_name c) (?served plane))
      (\<lambda>_ e. \<exists>s. service_shape c s \<and> filter resource e = Enqueued ''create'' c # s @ [Enqueued ''delete'' c])" for plane
    by (rule runs_kthen [where P = "\<lambda>r e. r = Inr () \<and> e = [Enqueued ''create'' c]", OF _ s])
      (auto intro!: runs_klog simp: add_name_def)
  have m: "runs (kbind (setup_cluster c) (\<lambda>plane. kthen (add_name c) (?served plane)))
      (\<lambda>_ e. (\<exists>x. filter resource e = [cluster_up c (Inl x)]) \<or> (\<exists>v. filter resource e = [cluster_up c (Inr v), Counted 1])
        \<or> (\<exists>v s. service_shape c s
             \<and> filter resource e = [cluster_up c (Inr v), Counted 1, Enqueued ''create'' c] @ s @ [Enqueued ''delete'' c]))"
    by (rule runs_kbind [OF setup_shape a]) auto
  have d: "runs (kthen (kcount (- 1)) (ignore_missing (kdo (DeleteCluster NAMESPACE c))))
      (\<lambda>_ e. \<exists>d. filter resource e = [Counted (- 1), cluster_down c d])"
    by (rule runs_kthen [where P = "\<lambda>r e. r = Inr () \<and> e = [Counted (- 1)]", OF _ ignore_missing_shape])
      (auto intro: runs_kcount)
  show ?thesis
    unfolding has_shape_def cluster_session_def
    by (rule runs_kfinally [OF m d]) (auto simp: cluster_shape_def)
qed

text \<open>A connection that does not ask for a cluster touches nothing.\<close>

definition connection_shape :: "string \<Rightarrow> kevent list \<Rightarrow> bool" where
  "connection_shape c es \<longleftrightarrow> es = [] \<or> cluster_shape c es"

lemma shape_quiet_then:
  assumes "quiet m" and "has_shape (connection_shape c) n"
  shows "has_shape (connection_shape c) (kthen m n)"
  unfolding has_shape_def
  by (rule runs_kthen [OF quietD [OF assms(1)] assms(2) [unfolded has_shape_def]]) (auto simp: connection_shape_def)

lemma shape_quiet_bind:
  assumes "quiet m" and "\<And>a. has_shape (connection_shape c) (f a)"
  shows "has_shape (connection_shape c) (kbind m f)"
  unfolding has_shape_def
  by (rule runs_kbind [OF quietD [OF assms(1)] assms(2) [unfolded has_shape_def]]) (auto simp: connection_shape_def)

lemma shape_quiet: "quiet m \<Longrightarrow> has_shape (connection_shape c) m"
  unfolding has_shape_def by (drule quietD, erule runs_weaken) (simp add: connection_shape_def)

lemma shape_catch:
  assumes "has_shape S m" and "\<And>x. quiet (h x)"
  shows "has_shape S (kcatch m h)"
  unfolding has_shape_def
  by (rule runs_kcatch [OF assms(1) [unfolded has_shape_def] quietD [OF assms(2)]]) auto

lemma shape_finally:
  assumes "has_shape S m" and "quiet f"
  shows "has_shape S (kfinally m f)"
  unfolding has_shape_def
  by (rule runs_kfinally [OF assms(1) [unfolded has_shape_def] quietD [OF assms(2)]]) auto

lemma resource_setup_shape: "has_shape (connection_shape c) (resource_setup nc c)"
proof -
  let ?body = "kthen (kwrite ''Please input the team id: '') (
         kthen (kdo Drain) (
         kbind (kdata (ReadInput 100)) (\<lambda>dat.
         case parse_team_id dat of
           Inl e \<Rightarrow> kwrite (text_line ''# Invalid team id'')
         | Inr team_id \<Rightarrow>
             kthen (kwrite banner) (
             kthen (kwrite (text_line ''Challenge: Net Share'')) (
             kthen (kwrite (text_line ''Creating Cluster'')) (
             cluster_session nc c team_id))))))"
  have session: "has_shape (connection_shape c) (cluster_session nc c team)" for team
    using session_shape unfolding has_shape_def by (rule runs_weaken) (simp add: connection_shape_def)
  have tail: "has_shape (connection_shape c) (kthen (kwrite banner) (kthen (kwrite (text_line ''Challenge: Net Share''))
      (kthen (kwrite (text_line ''Creating Cluster'')) (cluster_session nc c team))))" for team
    by (intro shape_quiet_then session) (auto intro!: only_rules)
  have bad: "has_shape (connection_shape c) (kwrite (text_line ''# Invalid team id''))"
    by (intro shape_quiet only_rules) simp
  have "has_shape (connection_shape c) ?body"
    by (intro shape_quiet_then shape_quiet_bind) (auto intro!: only_rules tail bad split: sum.splits)
  moreover have "has_shape (connection_shape c) (kwrite (text_line ''# Too many connections, please try again later''))"
    by (intro shape_quiet only_rules) simp
  ultimately show ?thesis
    unfolding has_shape_def runs_def by (auto simp: resource_setup_def)
qed

lemma handle_connection_shape: "has_shape (connection_shape c) (handle_connection nc c)"
  unfolding handle_connection_def
  by (intro shape_finally shape_catch resource_setup_shape)
    (auto intro!: only_rules only_klog split: kexc.splits)

section \<open>The counter\<close>

text \<open>The counter moves by the clusters that could not be created, each of which it loses.\<close>

fun failed_creation :: "kevent \<Rightarrow> bool" where
  "failed_creation (Call (CreateCluster n b) (Inl x)) = True"
| "failed_creation _ = False"

definition failed_creations :: "kevent list \<Rightarrow> int" where
  "failed_creations evs = int (length (filter failed_creation evs))"

lemma counted_resource: "counted (filter resource evs) = counted evs"
  by (induction evs) (auto split: kevent.splits)

lemma failed_resource: "failed_creation e \<Longrightarrow> resource e"
  by (cases e rule: failed_creation.cases) auto

lemma failed_creations_resource: "failed_creations (filter resource evs) = failed_creations evs"
proof -
  have "filter failed_creation (filter resource evs) = filter failed_creation evs"
    by (auto simp: filter_filter failed_resource intro: filter_cong)
  then show ?thesis by (simp add: failed_creations_def)
qed

lemma connection_shape_count: "connection_shape c es \<Longrightarrow> counted es = - failed_creations es"
  by (auto simp: connection_shape_def cluster_shape_def service_shape_def failed_creations_def)

lemma connection_run:
  assumes "handle_connection nc c w = (r, w')"
  obtains evs where "kw_log w' = kw_log w @ evs" "kw_num w' = kw_num w + counted evs"
    "connection_shape c (filter resource evs)" "counted evs = - failed_creations evs"
proof -
  obtain evs where e: "kw_log w' = kw_log w @ evs" "kw_num w' = kw_num w + counted evs" "connection_shape c (filter resource evs)"
    by (rule runsE [OF handle_connection_shape [unfolded has_shape_def] assms])
  then show ?thesis
    using that connection_shape_count [OF e(3)] by (simp add: counted_resource failed_creations_resource)
qed

text \<open>Connections in any order of their events.\<close>

definition connection_events :: "netconf \<Rightarrow> kevent list \<Rightarrow> bool" where
  "connection_events nc evs \<longleftrightarrow>
     (\<exists>c w r w'. handle_connection nc c w = (r, w') \<and> kw_log w' = kw_log w @ evs)"

lemma connection_events_count: "connection_events nc evs \<Longrightarrow> counted evs = - failed_creations evs"
proof -
  assume "connection_events nc evs"
  then obtain c w r w' where run: "handle_connection nc c w = (r, w')" and e: "kw_log w' = kw_log w @ evs"
    by (auto simp: connection_events_def)
  show ?thesis by (rule connection_run [OF run]) (use e in simp)
qed

lemma interleaved_count:
  assumes "\<forall>evs \<in> set traces. connection_events nc evs" and "mset L = mset (concat traces)"
  shows "counted L = - failed_creations L"
proof -
  have mset: "counted xs = counted ys \<and> failed_creations xs = failed_creations ys" if "mset xs = mset ys" for xs ys
  proof -
    have "counted zs = (\<Sum>e \<in># mset zs. case e of Counted d \<Rightarrow> d | _ \<Rightarrow> 0)" for zs
      by (induction zs) simp_all
    moreover have "failed_creations zs = int (size (filter_mset failed_creation (mset zs)))" for zs
      by (simp add: failed_creations_def flip: mset_filter)
    ultimately show ?thesis using that by simp
  qed
  have "counted (concat traces) = - failed_creations (concat traces)"
    using assms(1) by (induction traces) (auto simp: failed_creations_def dest: connection_events_count [unfolded failed_creations_def])
  then show ?thesis using mset [OF assms(2)] by simp
qed

section \<open>The ingress\<close>

text \<open>The names a worker holds depend on the events only, and an error of one update ends the worker.\<close>

lemma ingress_worker_names:
  assumes "ingress_worker nc names evs w = (Inr names', w')"
  shows "names' = foldl (\<lambda>ns ev. apply_event ev ns) names evs"
  using assms
proof (induction evs arbitrary: names w)
  case (Cons ev evs)
  then show ?case by (auto simp: Let_def kthen_def kbind_def split: prod.splits sum.splits)
qed (simp add: kret_def)

text \<open>Between them the events of other names do not matter.\<close>

lemma apply_event_filter:
  "filter (\<lambda>n. n = c) (foldl (\<lambda>ns ev. apply_event ev ns) names evs)
   = foldl (\<lambda>ns ev. apply_event ev ns) (filter (\<lambda>n. n = c) names) (filter (\<lambda>ev. snd ev = c) evs)"
proof (induction evs arbitrary: names)
  case (Cons ev evs)
  obtain a n where ev: "ev = (a, n)" by (cases ev)
  have "filter (\<lambda>n. n = c) (apply_event ev names)
      = (if n = c then apply_event ev (filter (\<lambda>n. n = c) names) else filter (\<lambda>n. n = c) names)"
    by (induction names) (auto simp: ev apply_event_def filter_remove1)
  then show ?case using Cons by (simp add: ev)
qed simp

text \<open>What a connection puts into the queue.\<close>

fun enqueued :: "kevent list \<Rightarrow> (string \<times> string) list" where
  "enqueued [] = []"
| "enqueued (e # evs) = (case e of Enqueued a n \<Rightarrow> (a, n) # enqueued evs | _ \<Rightarrow> enqueued evs)"

lemma enqueued_append: "enqueued (xs @ ys) = enqueued xs @ enqueued ys"
  by (induction xs) (simp_all split: kevent.splits)

lemma enqueued_resource: "enqueued (filter resource evs) = enqueued evs"
  by (induction evs) (auto split: kevent.splits)

lemma connection_shape_enqueued:
  "connection_shape c es \<Longrightarrow> enqueued es = [] \<or> enqueued es = [(''create'', c), (''delete'', c)]"
  by (auto simp: connection_shape_def cluster_shape_def service_shape_def enqueued_append)

text \<open>Once the worker has handled the events of a connection, its name is gone.\<close>

lemma ingress_forgets:
  assumes "connection_shape c (filter resource trace)" and "filter (\<lambda>ev. snd ev = c) queue = enqueued trace"
    and "c \<notin> set names" and "ingress_worker nc names queue w = (Inr names', w')"
  shows "c \<notin> set names'"
proof -
  have q: "enqueued trace = [] \<or> enqueued trace = [(''create'', c), (''delete'', c)]"
    using connection_shape_enqueued [OF assms(1)] by (simp add: enqueued_resource)
  have "filter (\<lambda>n. n = c) names = []" using assms(3) by (auto simp: filter_empty_conv)
  then have "filter (\<lambda>n. n = c) names' = foldl (\<lambda>ns ev. apply_event ev ns) [] (enqueued trace)"
    using ingress_worker_names [OF assms(4)] apply_event_filter [of c names queue] assms(2) by simp
  also have "\<dots> = []" using q by (auto simp: apply_event_def)
  finally show ?thesis by (auto simp: filter_empty_conv)
qed

section \<open>The flag\<close>

text \<open>The generator of the controller is the reference generator.\<close>

lemma ns_to_u32_eq: "ns_to_u32 dat = to_u32 dat False"
proof -
  have "(length dat + 3) div 4 = length dat div 4 + (if length dat mod 4 \<noteq> 0 then 1 else 0)" by presburger
  then show ?thesis by (simp add: ns_to_u32_def to_u32_def Let_def)
qed

lemma ns_to_bytes_eq: "to_bytes_u32 v False = Inr (ns_to_bytes v)"
  by (simp add: ns_to_bytes_def to_bytes_u32_def nat_mult_distrib)

lemma ns_xxtea_encrypt_eq: "ns_xxtea_encrypt dat key = xxtea_encrypt dat (utf8 key)"
  by (simp add: ns_xxtea_encrypt_def xxtea_encrypt_def xxtea_encrypt_words_def ns_to_u32_eq ns_to_bytes_eq Let_def)

lemma ns_encode_uuid_eq: "ns_encode_uuid C template key team h = encode_uuid C template key team h"
  by (simp add: ns_encode_uuid_def encode_uuid_def ns_xxtea_encrypt_eq ns_chacha_block_def chacha20_poly1305_encrypt_def Let_def)

text \<open>The only secret that is patched holds the flag of the team.\<close>

definition patches_flag :: "netconf \<Rightarrow> int \<Rightarrow> kevent \<Rightarrow> bool" where
  "patches_flag nc team e \<longleftrightarrow>
     (\<forall>n ns p a. e = Call (PatchSecret n ns p) a \<longrightarrow>
        (\<exists>flag. flag_generate nc team = Inr flag \<and> p = assertion_patch (create_service_assertion nc flag)))"

lemma patches_other: "(\<And>n ns p a. e \<noteq> Call (PatchSecret n ns p) a) \<Longrightarrow> patches_flag nc team e"
  by (simp add: patches_flag_def)

lemma patches_loop:
  assumes "flag_generate nc team = Inr flag"
  shows "only (patches_flag nc team) (patch_loop n (assertion_patch (create_service_assertion nc flag)))"
  using assms by (induction n) (auto intro!: only_rules split: kexc.splits simp: patches_flag_def)

lemma patches_inject: "only (patches_flag nc team) (inject_service_assertion nc team)"
proof (cases "flag_generate nc team")
  case (Inl e)
  then have "inject_service_assertion nc team = kraise (PyExc e)"
    by (rule_tac ext) (simp add: inject_service_assertion_def kbind_def klift_def kraise_def)
  then show ?thesis by (simp add: only_kraise)
next
  case (Inr flag)
  then have "inject_service_assertion nc team
      = kbind (patch_loop 120 (assertion_patch (create_service_assertion nc flag))) (\<lambda>patched.
     if \<not> patched then kret ()
     else
       kcatch (kdo (DeletePods ''platform-operations'' ''app.kubernetes.io/name=profile-cache-refresh''))
         (\<lambda>e. case e of ApiExc st \<Rightarrow> kret () | _ \<Rightarrow> kraise e))"
    by (rule_tac ext) (simp add: inject_service_assertion_def kbind_def klift_def Let_def)
  then show ?thesis
    by (auto intro!: only_rules patches_loop [OF Inr] patches_other split: kexc.splits)
qed

lemma patches_wait: "only (patches_flag nc team) (wait_account n)" "only (patches_flag nc team) (wait_token n)"
  by (induction n) (auto intro!: only_rules patches_other split: kexc.splits option.splits)

lemma patches_session: "only (patches_flag nc team) (cluster_session nc c team)"
  unfolding cluster_session_def serve_cluster_def give_kubeconfig_def get_service_account_token_def get_kubeconfig_def
    create_kube_token_and_server_def setup_cluster_def add_name_def remove_name_def ignore_missing_def Let_def
  by (auto intro!: only_rules only_poll only_klog patches_wait patches_inject patches_other
      only_kcount split: kexc.splits option.splits)

text \<open>So whatever a connection stores is the flag of the team it was asked for.\<close>

definition stores_own_flag :: "netconf \<Rightarrow> kevent list \<Rightarrow> bool" where
  "stores_own_flag nc evs \<longleftrightarrow>
     (\<forall>n ns p a. Call (PatchSecret n ns p) a \<in> set evs \<longrightarrow>
        (\<exists>dat team flag. Call (ReadInput 100) (Inr (DataVal dat)) \<in> set evs \<and> parse_team_id dat = Inr team
           \<and> flag_generate nc team = Inr flag \<and> p = assertion_patch (create_service_assertion nc flag)))"

lemma stores_none: "list_all (\<lambda>e. \<forall>n ns p a. e \<noteq> Call (PatchSecret n ns p) a) evs \<Longrightarrow> stores_own_flag nc evs"
  by (auto simp: stores_own_flag_def list_all_iff)

lemma stores_append: "stores_own_flag nc xs \<Longrightarrow> stores_own_flag nc ys \<Longrightarrow> stores_own_flag nc (xs @ ys)"
  unfolding stores_own_flag_def by (simp only: set_append Un_iff) metis

lemma stores_flag:
  "list_all (patches_flag nc team) evs \<Longrightarrow> parse_team_id dat = Inr team
     \<Longrightarrow> stores_own_flag nc (Call (ReadInput 100) (Inr (DataVal dat)) # evs)"
  unfolding stores_own_flag_def patches_flag_def list_all_iff by auto

abbreviation stores_nothing :: "'a kio \<Rightarrow> bool" where
  "stores_nothing \<equiv> only (\<lambda>e. \<forall>n ns p a. e \<noteq> Call (PatchSecret n ns p) a)"

lemma stores_then:
  assumes "stores_nothing m" and "runs n (\<lambda>_. stores_own_flag nc)"
  shows "runs (kthen m n) (\<lambda>_. stores_own_flag nc)"
  by (rule runs_kthen [OF assms(1) [unfolded only_def] assms(2)]) (auto intro: stores_none stores_append)

lemma resource_setup_stores: "runs (resource_setup nc c) (\<lambda>_. stores_own_flag nc)"
proof -
  let ?rest = "\<lambda>dat. case parse_team_id dat of
           Inl e \<Rightarrow> kwrite (text_line ''# Invalid team id'')
         | Inr team_id \<Rightarrow>
             kthen (kwrite banner) (
             kthen (kwrite (text_line ''Challenge: Net Share'')) (
             kthen (kwrite (text_line ''Creating Cluster'')) (
             cluster_session nc c team_id)))"
  let ?body = "kthen (kwrite ''Please input the team id: '') (
         kthen (kdo Drain) (kbind (kdata (ReadInput 100)) ?rest))"
  have rest: "runs (?rest dat) (\<lambda>_ e. stores_own_flag nc (Call (ReadInput 100) (Inr (DataVal dat)) # e))" for dat
  proof (cases "parse_team_id dat")
    case (Inl e)
    have "stores_nothing (?rest dat)" using Inl by (auto intro!: only_rules)
    then show ?thesis unfolding only_def by (rule runs_weaken) (intro stores_none, simp)
  next
    case (Inr team)
    have "only (patches_flag nc team) (?rest dat)"
      using Inr by (auto intro!: only_rules patches_session patches_other)
    then show ?thesis unfolding only_def by (rule runs_weaken) (rule stores_flag [OF _ Inr])
  qed
  have dat: "runs (kdata (ReadInput 100)) (\<lambda>r e. stores_own_flag nc e \<and> (\<forall>b. r = Inr b \<longrightarrow> e = [Call (ReadInput 100) (Inr (DataVal b))]))"
    unfolding kdata_def
    by (rule runs_kbind [where P = "\<lambda>a e. e = [Call (ReadInput 100) a]"
          and Q = "\<lambda>v r e. e = [] \<and> (case v of DataVal b \<Rightarrow> r = Inr b | _ \<Rightarrow> \<exists>x. r = Inl x)"])
      (auto intro!: runs_kcall runs_kret runs_kraise stores_none split: kval.splits)
  have "runs (kbind (kdata (ReadInput 100)) ?rest) (\<lambda>_. stores_own_flag nc)"
    by (rule runs_kbind [OF dat rest]) auto
  moreover have q: "stores_nothing (kwrite s)" "stores_nothing (kdo Drain)" for s by (auto intro!: only_rules)
  ultimately have "runs ?body (\<lambda>_. stores_own_flag nc)" by (intro stores_then)
  moreover have "runs (kwrite s) (\<lambda>_. stores_own_flag nc)" for s
    using q(1) unfolding only_def by (rule runs_weaken) (rule stores_none)
  ultimately show ?thesis
    unfolding runs_def by (auto simp: resource_setup_def)
qed

lemma handle_connection_stores: "runs (handle_connection nc c) (\<lambda>_. stores_own_flag nc)"
proof -
  have catch: "runs (kcatch m h) (\<lambda>_. stores_own_flag nc)"
    if "runs m (\<lambda>_. stores_own_flag nc)" "\<And>x. stores_nothing (h x)" for m :: "unit kio" and h
    by (rule runs_kcatch [OF that(1) that(2) [unfolded only_def]]) (auto intro: stores_none stores_append)
  have fin: "runs (kfinally m f) (\<lambda>_. stores_own_flag nc)"
    if "runs m (\<lambda>_. stores_own_flag nc)" "stores_nothing f" for m f :: "unit kio"
    by (rule runs_kfinally [OF that(1) that(2) [unfolded only_def]]) (auto intro: stores_none stores_append)
  show ?thesis
    unfolding handle_connection_def
    by (intro fin catch resource_setup_stores) (auto intro!: only_rules only_klog split: kexc.splits)
qed

end
