(* ===== verification/Bridge.thy ===== *)
theory Bridge
  imports NetshareProps "HOL-Library.Sublist"
begin

text \<open>
  \<^verbatim>\<open>netshare/ret2shell-ext-controller-pod/app.py\<close>: the pod of a team connects to the controller, sends the number of the
  team, and takes the kubeconfig out of what it receives. It is run against the model of the controller: however
  the network cuts the stream, and wherever it breaks, it shows what the controller put between the markers or says why not.
\<close>

section \<open>The pod\<close>

text \<open>The environment of the pod: an exit, or the team number.\<close>

definition bridge_team :: "string \<Rightarrow> string option \<Rightarrow> int option" where
  "bridge_team host raw =
     (if py_strip host = [] then None
      else
        (case raw of
           None \<Rightarrow> None
         | Some raw \<Rightarrow>
             if raw = [] then None
             else
               (case py_int (JStr raw) of
                  Inl e \<Rightarrow> None
                | Inr team \<Rightarrow> if - (2 ^ 63) \<le> team \<and> team < 2 ^ 63 then Some team else None)))"

definition BEGIN_MARK :: bytes where
  "BEGIN_MARK = utf8_bytes ''-----BEGIN KUBECONFIG-----''"

definition END_MARK :: bytes where
  "END_MARK = utf8_bytes ''-----END KUBECONFIG-----''"

record bridge_state =
  br_status :: string
  br_kubeconfig :: "bytes option"
  br_error :: "string option"

definition bridge_init :: bridge_state where
  "bridge_init = \<lparr> br_status = ''connecting'', br_kubeconfig = None, br_error = None \<rparr>"

definition bridge_fail :: "string \<Rightarrow> bridge_state \<Rightarrow> bridge_state" where
  "bridge_fail e st = st\<lparr> br_status := ''error'', br_error := Some e \<rparr>"

text \<open>What \<^verbatim>\<open>recv\<close> gives: bytes, of which an empty list is the end, or an error. With none left it times out.\<close>

datatype received = Received bytes | ReceiveError string

definition timed_out :: string where
  "timed_out = ''timed out''"

fun read_stream :: "bytes \<Rightarrow> received list \<Rightarrow> (string + bytes) \<times> received list" where
  "read_stream buf [] =
     (if find_sub END_MARK buf \<noteq> None then (Inr buf, []) else (Inl (''read failed: '' @ timed_out), []))"
| "read_stream buf (r # rs) =
     (if find_sub END_MARK buf \<noteq> None then (Inr buf, r # rs)
      else
        (case r of
           Received chunk \<Rightarrow>
             if chunk = [] then (Inl ''controller closed before sending kubeconfig'', rs)
             else read_stream (buf @ chunk) rs
         | ReceiveError e \<Rightarrow> (Inl (''read failed: '' @ e), rs)))"

definition strip_newlines :: "bytes \<Rightarrow> bytes" where
  "strip_newlines b = rev (dropWhile (\<lambda>x. x = 10) (rev (dropWhile (\<lambda>x. x = 10) b)))"

definition extract_kubeconfig :: "bytes \<Rightarrow> bytes option" where
  "extract_kubeconfig buf =
     (case (find_sub BEGIN_MARK buf, find_sub END_MARK buf) of
        (Some start, Some stop) \<Rightarrow>
          if stop < start then None
          else
            let body = take (stop - (start + length BEGIN_MARK)) (drop (start + length BEGIN_MARK) buf) in
            Some (strip_newlines (utf8_replace body) @ [10])
      | _ \<Rightarrow> None)"

text \<open>The connection is held until it ends; with nothing received yet it stays.\<close>

fun hold_open :: "received list \<Rightarrow> bool" where
  "hold_open [] = True"
| "hold_open (Received chunk # rs) = (if chunk = [] then False else hold_open rs)"
| "hold_open (ReceiveError e # rs) = False"

definition bridge_request :: "int \<Rightarrow> bytes" where
  "bridge_request team = utf8_bytes (show_int team @ [char_of (10 :: nat)])"

text \<open>How the connection opens. When the number cannot be sent the thread ends, and the state stays what it was.\<close>

datatype dialled = Unreachable string | SendFailed | Connected

definition bridge :: "dialled \<Rightarrow> received list \<Rightarrow> bridge_state" where
  "bridge dial rs =
     (case dial of
        Unreachable e \<Rightarrow> bridge_fail (''cannot reach controller: '' @ e) bridge_init
      | SendFailed \<Rightarrow> bridge_init
      | Connected \<Rightarrow>
          (case read_stream [] rs of
             (Inl e, _) \<Rightarrow> bridge_fail e bridge_init
           | (Inr buf, rest) \<Rightarrow>
               (case extract_kubeconfig buf of
                  None \<Rightarrow> bridge_fail ''kubeconfig markers not found'' bridge_init
                | Some k \<Rightarrow>
                    let st = bridge_init\<lparr> br_status := ''ready'', br_kubeconfig := Some k \<rparr> in
                    if hold_open rest then st else st\<lparr> br_status := ''disconnected'' \<rparr>)))"

definition api_status :: "bridge_state \<Rightarrow> string \<times> bytes option \<times> string option" where
  "api_status st = (br_status st, br_kubeconfig st, br_error st)"

definition kubeconfig_route :: "bridge_state \<Rightarrow> int \<times> bytes" where
  "kubeconfig_route st =
     (case br_kubeconfig st of
        None \<Rightarrow> (409, utf8_bytes (text_line ''kubeconfig not ready''))
      | Some k \<Rightarrow> if k = [] then (409, utf8_bytes (text_line ''kubeconfig not ready'')) else (200, k))"

section \<open>The request\<close>

lemma utf8_bytes_append: "utf8_bytes (s @ t) = utf8_bytes s @ utf8_bytes t"
  by (simp add: utf8_bytes_def)

lemma py_strip_space: "is_space c \<Longrightarrow> py_strip (s @ [c]) = py_strip s"
proof (cases "\<forall>x \<in> set s. is_space x")
  case True
  moreover assume "is_space c"
  ultimately have "dropWhile is_space (s @ [c]) = []" "dropWhile is_space s = []"
    unfolding dropWhile_eq_Nil_conv by simp_all
  then show ?thesis by (simp only: py_strip_def)
next
  case False
  assume "is_space c"
  then show ?thesis using False by (auto simp: py_strip_def dropWhile_append1)
qed

lemma parse_request:
  assumes "- (2 ^ 63) \<le> team" and "team < 2 ^ 63"
  shows "parse_team_id (bridge_request team) = Inr team"
proof -
  have "is_space (char_of (10 :: nat))" by (simp add: is_space_def)
  then have "py_int (JStr (show_int team @ [char_of (10 :: nat)])) = py_int (JStr (show_int team))"
    by (simp add: py_int_def py_strip_space)
  also have "\<dots> = Inr team"
  proof (rule py_int_show)
    have "(2 :: int) ^ 63 < 10 ^ 20" by simp
    also have "(10 :: int) ^ 20 \<le> 10 ^ MAX_STR_DIGITS" by (intro power_increasing) (simp_all add: MAX_STR_DIGITS_def)
    finally show "\<bar>team\<bar> < 10 ^ MAX_STR_DIGITS" using assms by linarith
  qed
  finally show ?thesis using assms by (simp add: parse_team_id_def bridge_request_def utf8_decode_bytes)
qed

section \<open>Finding the markers\<close>

lemma find_sub_skip:
  assumes "pat \<noteq> []" and "hd pat \<notin> set pre"
  shows "find_sub pat (pre @ x) = map_option ((+) (length pre)) (find_sub pat x)"
  using assms(2)
proof (induction pre)
  case Nil
  show ?case by (simp add: option.map_ident)
next
  case (Cons p pre)
  have "take (length pat) (p # pre @ x) \<noteq> pat" using assms(1) Cons.prems by (cases pat) auto
  then show ?case using Cons by (cases "find_sub pat x") simp_all
qed

lemma find_sub_line:
  assumes "pat \<noteq> []" and "nl \<notin> set pat"
  shows "find_sub pat (a @ nl # b)
    = (case find_sub pat a of Some i \<Rightarrow> Some i | None \<Rightarrow> map_option (\<lambda>i. length a + 1 + i) (find_sub pat b))"
proof (induction a)
  case Nil
  have "take (length pat) (nl # b) \<noteq> pat" using assms by (cases pat) auto
  then show ?case using assms(1) by (cases "find_sub pat b") simp_all
next
  case (Cons x a)
  have "take (length pat) (x # a @ nl # b) = pat \<longleftrightarrow> take (length pat) (x # a) = pat"
  proof (cases "length pat \<le> length (x # a)")
    case True
    then show ?thesis by (metis append_Cons take_all_iff take_append diff_is_0_eq take_0 append_Nil2)
  next
    case False
    have "nl \<in> set (take (length pat) (x # a @ nl # b))"
    proof -
      have "take (length pat) (x # a @ nl # b) = x # a @ nl # take (length pat - length a - 2) b"
        using False assms(1) by (simp add: take_Cons' not_le)
      then show ?thesis by simp
    qed
    then have "take (length pat) (x # a @ nl # b) \<noteq> pat" using assms(2) by metis
    moreover have "take (length pat) (x # a) \<noteq> pat" using False by (metis length_take min.cobounded1 nat_le_linear take_all)
    ultimately show ?thesis by simp
  qed
  then show ?case using Cons by (cases "find_sub pat a"; cases "find_sub pat b") simp_all
qed

text \<open>The marker of the end in the stream of the controller.\<close>

definition nl :: byte where
  "nl = 10"

lemma utf8_line: "utf8_bytes (text_line s) = utf8_bytes s @ [nl]"
  by (simp add: text_line_def utf8_bytes_append nl_def) (simp add: utf8_bytes_def utf8_char_def)

lemma end_mark: "END_MARK \<noteq> []" "nl \<notin> set END_MARK" "hd END_MARK = 45"
  by (simp_all add: END_MARK_def utf8_bytes_def utf8_char_def nl_def)

lemma begin_mark: "BEGIN_MARK \<noteq> []" "nl \<notin> set BEGIN_MARK" "hd BEGIN_MARK = 45" "length BEGIN_MARK = 26"
  by (simp_all add: BEGIN_MARK_def utf8_bytes_def utf8_char_def nl_def)

lemma no_end_line:
  assumes "find_sub END_MARK (utf8_bytes s) = None"
  shows "find_sub END_MARK (utf8_bytes (text_line s) @ x) = map_option ((+) (length (utf8_bytes (text_line s)))) (find_sub END_MARK x)"
  using find_sub_line [OF end_mark(1,2), of "utf8_bytes s" x] assms
  by (cases "find_sub END_MARK x") (simp_all add: utf8_line)

lemma no_end_prefixed:
  assumes "45 \<notin> set (utf8_bytes p)" and "find_sub END_MARK (utf8_bytes s) = None"
  shows "find_sub END_MARK (utf8_bytes (p @ s)) = None"
  using find_sub_skip [OF end_mark(1), of "utf8_bytes p" "utf8_bytes s"] assms by (simp add: end_mark utf8_bytes_append)

lemma no_end_lines:
  "list_all (\<lambda>s. find_sub END_MARK (utf8_bytes s) = None) ls \<Longrightarrow>
     find_sub END_MARK (utf8_bytes (concat (map text_line ls)) @ x)
     = map_option ((+) (length (utf8_bytes (concat (map text_line ls))))) (find_sub END_MARK x)"
proof (induction ls)
  case (Cons l ls)
  then show ?case
    by (cases "find_sub END_MARK x") (simp_all add: utf8_bytes_append no_end_line)
qed (cases "find_sub END_MARK x"; simp add: utf8_bytes_def)

lemma kubeconfig_lines:
  "kubeconfig_text server token = concat (map text_line
     ([''apiVersion: v1'', ''kind: Config'', ''clusters:'', ''- name: tenant-platform'', ''  cluster:'', ''    server: '' @ server]
      @ [''    insecure-skip-tls-verify: true'', ''contexts:'', ''- name: runtime-operator'', ''  context:'',
      ''    cluster: tenant-platform'', ''    user: runtime-operator'', ''    namespace: tenant-runtime'',
      ''current-context: runtime-operator'', ''users:'', ''- name: runtime-operator'', ''  user:''] @ [''    token: '' @ token]))"
  by (simp add: kubeconfig_text_def)

lemma fixed_lines:
  "list_all (\<lambda>s. find_sub END_MARK (utf8_bytes s) = None)
     [''apiVersion: v1'', ''kind: Config'', ''clusters:'', ''- name: tenant-platform'', ''  cluster:'']"
  "list_all (\<lambda>s. find_sub END_MARK (utf8_bytes s) = None)
     [''    insecure-skip-tls-verify: true'', ''contexts:'', ''- name: runtime-operator'', ''  context:'',
      ''    cluster: tenant-platform'', ''    user: runtime-operator'', ''    namespace: tenant-runtime'',
      ''current-context: runtime-operator'', ''users:'', ''- name: runtime-operator'', ''  user:'']"
  by (simp_all add: END_MARK_def utf8_bytes_def utf8_char_def)

lemma find_end_kubeconfig:
  assumes "find_sub END_MARK (utf8_bytes server) = None" and "find_sub END_MARK (utf8_bytes token) = None"
  shows "find_sub END_MARK (utf8_bytes (kubeconfig_text server token) @ END_MARK @ x) = Some (length (utf8_bytes (kubeconfig_text server token)))"
proof -
  have p: "45 \<notin> set (utf8_bytes ''    server: '')" "45 \<notin> set (utf8_bytes ''    token: '')"
    by (simp_all add: utf8_bytes_def utf8_char_def)
  have at: "find_sub END_MARK (END_MARK @ x) = Some 0"
  proof -
    obtain c cs where c: "END_MARK @ x = c # cs" using end_mark(1) by (cases "END_MARK @ x") auto
    have "take (length END_MARK) (c # cs) = END_MARK" by (simp flip: c)
    then show ?thesis by (simp add: c)
  qed
  show ?thesis
    unfolding kubeconfig_lines
    by (subst no_end_lines)
      (use fixed_lines no_end_prefixed [OF p(1) assms(1)] no_end_prefixed [OF p(2) assms(2)] at in simp_all)
qed

section \<open>The stream\<close>

lemma find_sub_prefix: "find_sub pat a = Some i \<Longrightarrow> find_sub pat (a @ b) = Some i"
proof (induction a arbitrary: i)
  case Nil
  then show ?case by (cases b) (simp_all split: if_splits)
next
  case (Cons x a)
  show ?case
  proof (cases "take (length pat) (x # a) = pat")
    case True
    then have "length pat \<le> length (x # a)" by (metis length_take min.cobounded1)
    then have "take (length pat) ((x # a) @ b) = pat" using True by (simp only: take_append) simp
    then show ?thesis using Cons.prems True by simp
  next
    case False
    then obtain j where j: "find_sub pat a = Some j" "i = Suc j" using Cons.prems by auto
    have "length pat \<le> length a" using find_sub_Some [OF j(1)] by simp
    then have "take (length pat) ((x # a) @ b) = take (length pat) (x # a)" by (simp only: take_append) simp
    then show ?thesis using Cons.IH [OF j(1)] j False by simp
  qed
qed

text \<open>The bytes that arrive before the stream ends, breaks or times out, and what is reported of the three.\<close>

fun arrived :: "received list \<Rightarrow> bytes" where
  "arrived [] = []"
| "arrived (Received chunk # rs) = (if chunk = [] then [] else chunk @ arrived rs)"
| "arrived (ReceiveError e # rs) = []"

fun read_error :: "received list \<Rightarrow> string" where
  "read_error [] = ''read failed: '' @ timed_out"
| "read_error (Received chunk # rs) = (if chunk = [] then ''controller closed before sending kubeconfig'' else read_error rs)"
| "read_error (ReceiveError e # rs) = ''read failed: '' @ e"

lemma arrived_chunks: "[] \<notin> set chunks \<Longrightarrow> arrived (map Received chunks @ rs) = concat chunks @ arrived rs"
  by (induction chunks) auto

lemma read_stream_found:
  assumes "find_sub END_MARK (buf @ arrived rs) \<noteq> None"
  shows "\<exists>b rest. read_stream buf rs = (Inr (buf @ b), rest) \<and> prefix b (arrived rs)
    \<and> find_sub END_MARK (buf @ b) \<noteq> None \<and> hold_open rest = hold_open rs"
  using assms
proof (induction rs arbitrary: buf)
  case (Cons r rs)
  show ?case
  proof (cases "find_sub END_MARK buf = None")
    case True
    then obtain c where c: "r = Received c" "c \<noteq> []"
      using Cons.prems by (cases r) (auto split: if_split_asm)
    then have "find_sub END_MARK ((buf @ c) @ arrived rs) \<noteq> None" using Cons.prems by simp
    from Cons.IH [OF this] obtain b rest where "read_stream (buf @ c) rs = (Inr ((buf @ c) @ b), rest)" "prefix b (arrived rs)"
        "find_sub END_MARK ((buf @ c) @ b) \<noteq> None" "hold_open rest = hold_open rs" by blast
    then show ?thesis using True c by (intro exI [of _ "c @ b"] exI [of _ rest]) simp
  next
    case False
    then show ?thesis by (intro exI [of _ "[]"] exI [of _ "r # rs"]) simp
  qed
qed simp

lemma read_stream_missed:
  assumes "find_sub END_MARK (buf @ arrived rs) = None"
  shows "fst (read_stream buf rs) = Inl (read_error rs)"
  using assms
proof (induction rs arbitrary: buf)
  case (Cons r rs)
  have "find_sub END_MARK buf = None"
    using find_sub_prefix [of END_MARK buf _ "arrived (r # rs)"] Cons.prems by (cases "find_sub END_MARK buf") auto
  then show ?case using Cons.IH [of "buf @ c" for c] Cons.prems by (cases r) auto
qed simp

text \<open>What lies between the markers, without the line breaks around it.\<close>

lemma last_utf8: "s \<noteq> [] \<Longrightarrow> last s \<noteq> char_of (10 :: nat) \<Longrightarrow> utf8_bytes s \<noteq> [] \<and> last (utf8_bytes s) \<noteq> 10"
proof -
  assume s: "s \<noteq> []" "last s \<noteq> char_of (10 :: nat)"
  have "utf8_char (last s) \<noteq> [] \<and> last (utf8_char (last s)) \<noteq> 10"
  proof (rule utf8_char_cases [of "last s"])
    fix b assume b: "utf8_char (last s) = [b]" "uint b = of_char (last s)"
    have "b \<noteq> 10"
    proof
      assume "b = 10"
      then have "(of_char (last s) :: int) = 10" using b(2) by simp
      then have "(of_char (last s) :: nat) = 10" using int_of_char [of "last s"] by simp
      then show False using s(2) by (metis char_of_char)
    qed
    then show ?thesis using b by simp
  next
    fix a b assume "utf8_char (last s) = [a, b]" "128 \<le> uint b"
    then show ?thesis by auto
  qed
  moreover have "utf8_bytes s = utf8_bytes (butlast s) @ utf8_char (last s)"
    using s(1) utf8_bytes_append [of "butlast s" "[last s]"] by (simp add: utf8_bytes_def)
  ultimately show ?thesis by simp
qed

lemma strip_newlines_id:
  assumes "b \<noteq> []" and "hd b \<noteq> 10" and "last b \<noteq> 10"
  shows "strip_newlines (10 # b @ [10]) = b"
proof -
  have d: "dropWhile (\<lambda>x. x = 10) c = c" if "c \<noteq> []" "hd c \<noteq> 10" for c :: bytes using that by (cases c) simp_all
  have "dropWhile (\<lambda>x. x = 10) (10 # b @ [10]) = b @ [10]" using d [of "b @ [10]"] assms by simp
  then show ?thesis using d [of "rev b"] assms by (simp add: strip_newlines_def hd_rev)
qed

lemma extract_delivered:
  assumes pre: "45 \<notin> set pre" and server: "find_sub END_MARK (utf8_bytes server) = None"
    and token: "find_sub END_MARK (utf8_bytes token) = None" "token = [] \<or> last token \<noteq> char_of (10 :: nat)"
    and buf: "buf = pre @ BEGIN_MARK @ nl # utf8_bytes (kubeconfig_text server token) @ END_MARK @ post"
  shows "extract_kubeconfig buf = Some (utf8_bytes (kubeconfig_text server token))"
    and "find_sub END_MARK buf = Some (length pre + 27 + length (utf8_bytes (kubeconfig_text server token)))"
proof -
  let ?k = "utf8_bytes (kubeconfig_text server token)"
  have none: "find_sub END_MARK BEGIN_MARK = None" by code_simp
  have "find_sub END_MARK buf = map_option ((+) (length pre)) (find_sub END_MARK (BEGIN_MARK @ nl # ?k @ END_MARK @ post))"
    unfolding buf by (rule find_sub_skip) (use pre end_mark in auto)
  also have "find_sub END_MARK (BEGIN_MARK @ nl # ?k @ END_MARK @ post) = Some (27 + length ?k)"
    by (simp add: find_sub_line [OF end_mark(1,2)] none find_end_kubeconfig [OF server token(1)] begin_mark)
  finally show stop: "find_sub END_MARK buf = Some (length pre + 27 + length ?k)" by simp
  have "find_sub BEGIN_MARK (BEGIN_MARK @ x) = Some 0" for x
  proof -
    obtain c cs where c: "BEGIN_MARK @ x = c # cs" using begin_mark(1) by (cases "BEGIN_MARK @ x") auto
    have "take (length BEGIN_MARK) (c # cs) = BEGIN_MARK" by (simp flip: c)
    then show ?thesis by (simp add: c)
  qed
  then have start: "find_sub BEGIN_MARK buf = Some (length pre)"
    unfolding buf using find_sub_skip [OF begin_mark(1), of pre] pre begin_mark(3) by simp
  have body: "take (length pre + 27 + length ?k - (length pre + 26)) (drop (length pre + 26) buf) = nl # ?k"
    by (simp add: buf begin_mark)
  have space: "CHR '' '' \<noteq> char_of (10 :: nat)" by code_simp
  define cfg where "cfg = butlast (kubeconfig_text server token)"
  obtain front where front: "kubeconfig_text server token = CHR ''a'' # front @ text_line (''    token: '' @ token)"
    by (simp add: kubeconfig_lines text_line_def)
  then have cfg: "kubeconfig_text server token = text_line cfg" "cfg = CHR ''a'' # front @ ''    token: '' @ token"
    by (simp_all add: cfg_def text_line_def butlast_append)
  have end_line: "last cfg \<noteq> char_of (10 :: nat)" using token(2) space by (auto simp: cfg(2))
  have "utf8_replace (nl # x) = nl # utf8_replace x" for x by (simp add: utf8_ranges_def nl_def)
  moreover have "utf8_replace ?k = ?k" using utf8_replace_bytes [of "kubeconfig_text server token" "[]"] by simp
  ultimately have "utf8_replace (nl # ?k) = nl # ?k" by simp
  moreover have "hd (utf8_bytes cfg) \<noteq> 10"
  proof -
    show ?thesis by (simp add: cfg(2) utf8_bytes_def utf8_char_def)
  qed
  then have "strip_newlines (nl # ?k) @ [10] = ?k"
    using strip_newlines_id [of "utf8_bytes cfg"] last_utf8 [OF _ end_line] by (simp add: cfg(1) utf8_line nl_def) (simp add: cfg(2))
  ultimately show "extract_kubeconfig buf = Some ?k"
    unfolding extract_kubeconfig_def start stop begin_mark(4) option.case prod.case Let_def body
    by (simp del: utf8_replace.simps)
qed

section \<open>What the controller sends\<close>

definition sent :: "kevent list \<Rightarrow> bytes" where
  "sent evs = concat (map (\<lambda>e. case e of Write b \<Rightarrow> b | _ \<Rightarrow> []) evs)"

lemma sent_append: "sent (xs @ ys) = sent xs @ sent ys"
  by (simp add: sent_def)

text \<open>Text without a hyphen, and text with one kubeconfig, made of answers in the trace.\<close>

definition answered_token :: "kevent list \<Rightarrow> string \<Rightarrow> bool" where
  "answered_token evs token \<longleftrightarrow>
     (\<exists>kvs t. Call (ReadSecret ''runtime-operator-token'' ''default'') (Inr (SecretVal (Some kvs))) \<in> set evs
        \<and> map_of kvs ''token'' = Some t \<and> decoded t = Inr token)"

definition answered_server :: "netconf \<Rightarrow> string \<Rightarrow> kevent list \<Rightarrow> string \<Rightarrow> bool" where
  "answered_server nc c evs server \<longleftrightarrow>
     (\<exists>ds port. Call ListContainers (Inr (ListVal ds)) \<in> set evs \<and> mapped_port c ds [] = Inr port
        \<and> server = ''https://'' @ nc_public_host nc @ '':'' @ port)"

definition kubeconfig_of :: "netconf \<Rightarrow> string \<Rightarrow> kevent list \<Rightarrow> string \<Rightarrow> string \<Rightarrow> bool" where
  "kubeconfig_of nc c evs server token \<longleftrightarrow>
     answered_server nc c evs server \<and> answered_token evs token"

definition served :: "netconf \<Rightarrow> string \<Rightarrow> kevent list \<Rightarrow> string \<Rightarrow> string \<Rightarrow> bool" where
  "served nc c evs server token \<longleftrightarrow>
     kubeconfig_of nc c evs server token
     \<and> (\<exists>pre post. 45 \<notin> set pre \<and> 45 \<notin> set post
          \<and> sent evs = pre @ BEGIN_MARK @ nl # utf8_bytes (kubeconfig_text server token) @ END_MARK @ nl # post)"

abbreviation plain :: "'a kio \<Rightarrow> bool" where
  "plain \<equiv> only (\<lambda>e. case e of Write b \<Rightarrow> 45 \<notin> set b | _ \<Rightarrow> True)"

abbreviation silent :: "'a kio \<Rightarrow> bool" where
  "silent \<equiv> only (\<lambda>e. case e of Write b \<Rightarrow> False | _ \<Rightarrow> True)"

lemma plain_sent: "list_all (\<lambda>e. case e of Write b \<Rightarrow> 45 \<notin> set b | _ \<Rightarrow> True) evs \<Longrightarrow> 45 \<notin> set (sent evs)"
  by (induction evs) (auto simp: sent_def split: kevent.splits)

lemma silent_sent: "list_all (\<lambda>e. case e of Write b \<Rightarrow> False | _ \<Rightarrow> True) evs \<Longrightarrow> sent evs = []"
  by (induction evs) (auto simp: sent_def split: kevent.splits)

lemma kubeconfig_of_mono: "kubeconfig_of nc c evs server token \<Longrightarrow> set evs \<subseteq> set evs' \<Longrightarrow> kubeconfig_of nc c evs' server token"
  unfolding kubeconfig_of_def answered_server_def answered_token_def by blast

lemma answered_token_append: "answered_token (xs @ ys) token \<longleftrightarrow> answered_token xs token \<or> answered_token ys token"
  unfolding answered_token_def set_append by blast

lemma answered_server_append:
  "answered_server nc c (xs @ ys) server \<longleftrightarrow> answered_server nc c xs server \<or> answered_server nc c ys server"
  unfolding answered_server_def set_append by blast

definition stream_shape :: "netconf \<Rightarrow> string \<Rightarrow> kevent list \<Rightarrow> bool" where
  "stream_shape nc c e \<longleftrightarrow> 45 \<notin> set (sent e) \<or> (\<exists>server token. served nc c e server token)"

definition stream_ok :: "netconf \<Rightarrow> string \<Rightarrow> 'a kio \<Rightarrow> bool" where
  "stream_ok nc c m \<longleftrightarrow> runs m (\<lambda>_. stream_shape nc c)"

lemma served_around:
  assumes "served nc c e server token" and "45 \<notin> set (sent e1)" and "45 \<notin> set (sent e2)"
  shows "served nc c (e1 @ e @ e2) server token"
proof -
  obtain pre post where "45 \<notin> set pre" "45 \<notin> set post"
      "sent e = pre @ BEGIN_MARK @ nl # utf8_bytes (kubeconfig_text server token) @ END_MARK @ nl # post"
    using assms(1) by (auto simp: served_def)
  then have "sent (e1 @ e @ e2) = (sent e1 @ pre) @ BEGIN_MARK @ nl # utf8_bytes (kubeconfig_text server token) @ END_MARK @ nl # (post @ sent e2)"
    "45 \<notin> set (sent e1 @ pre)" "45 \<notin> set (post @ sent e2)"
    using assms(2,3) by (simp_all add: sent_append)
  moreover have "kubeconfig_of nc c (e1 @ e @ e2) server token"
    using assms(1) by (auto simp: served_def elim: kubeconfig_of_mono)
  ultimately show ?thesis unfolding served_def by blast
qed

lemma shape_plain: "list_all (\<lambda>e. case e of Write b \<Rightarrow> 45 \<notin> set b | _ \<Rightarrow> True) e \<Longrightarrow> stream_shape nc c e"
  by (simp add: stream_shape_def plain_sent)

lemma shape_around:
  assumes "stream_shape nc c e" and "list_all (\<lambda>e. case e of Write b \<Rightarrow> 45 \<notin> set b | _ \<Rightarrow> True) e1"
    and "list_all (\<lambda>e. case e of Write b \<Rightarrow> 45 \<notin> set b | _ \<Rightarrow> True) e2"
  shows "stream_shape nc c (e1 @ e @ e2)"
  using assms(1) plain_sent [OF assms(2)] plain_sent [OF assms(3)] served_around [of nc c e _ _ e1 e2]
  unfolding stream_shape_def sent_append by auto

lemmas shape_before = shape_around [where ?e2.0 = "[]", simplified]
lemmas shape_after = shape_around [where ?e1.0 = "[]", simplified]

lemma stream_plain: "plain m \<Longrightarrow> stream_ok nc c m"
  unfolding stream_ok_def only_def by (erule runs_weaken) (rule shape_plain)

lemma stream_bind:
  assumes "plain m" and "\<And>a. stream_ok nc c (f a)"
  shows "stream_ok nc c (kbind m f)"
  unfolding stream_ok_def
  by (rule runs_kbind [OF assms(1) [unfolded only_def] assms(2) [unfolded stream_ok_def]])
    (auto intro: shape_plain shape_before)

lemma stream_then: "plain m \<Longrightarrow> stream_ok nc c n \<Longrightarrow> stream_ok nc c (kthen m n)"
  unfolding kthen_def by (rule stream_bind)

lemma stream_catch:
  assumes "stream_ok nc c m" and "\<And>x. plain (h x)"
  shows "stream_ok nc c (kcatch m h)"
  unfolding stream_ok_def
  by (rule runs_kcatch [OF assms(1) [unfolded stream_ok_def] assms(2) [unfolded only_def]])
    (auto intro: shape_after)

lemma stream_finally:
  assumes "stream_ok nc c m" and "plain f"
  shows "stream_ok nc c (kfinally m f)"
  unfolding stream_ok_def
  by (rule runs_kfinally [OF assms(1) [unfolded stream_ok_def] assms(2) [unfolded only_def]])
    (auto intro: shape_after)

text \<open>The kubeconfig is made of the answers for the token and for the containers, and nothing is written meanwhile.\<close>

lemma silent_inject: "silent (inject_service_assertion nc team)"
proof -
  have "silent (patch_loop n p)" for n p by (induction n) (auto intro!: only_rules split: kexc.splits)
  then show ?thesis
    unfolding inject_service_assertion_def Let_def by (auto intro!: only_rules split: kexc.splits)
qed

lemma runs_both: "runs m P \<Longrightarrow> runs m Q \<Longrightarrow> runs m (\<lambda>r e. P r e \<and> Q r e)"
proof (rule runsI)
  fix w r w' assume r: "runs m P" "runs m Q" "m w = (r, w')"
  obtain e where e: "kw_log w' = kw_log w @ e" "kw_num w' = kw_num w + counted e" "P r e" by (rule runsE [OF r(1,3)])
  obtain e' where e': "kw_log w' = kw_log w @ e'" "Q r e'" by (rule runsE [OF r(2,3)])
  then show "\<exists>evs. kw_log w' = kw_log w @ evs \<and> kw_num w' = kw_num w + counted evs \<and> P r evs \<and> Q r evs"
    using e by auto
qed

lemma wait_token_answer:
  "runs (wait_token n) (\<lambda>r e. \<forall>token. r = Inr (Some token) \<longrightarrow> answered_token e token)" (is "runs _ ?P")
proof (induction n)
  case 0
  then show ?case by (simp add: runs_kret)
next
  case (Suc n)
  have again: "runs (kthen (kdo (Sleep 1)) (wait_token n)) ?P"
    by (rule runs_kthen [where P = "\<lambda>_ _. True", OF _ Suc]) (auto intro: runs_kdo simp: answered_token_append)
  have read: "runs (ksecret (ReadSecret ''runtime-operator-token'' ''default''))
      (\<lambda>r e. \<forall>s. r = Inr s \<longrightarrow> Call (ReadSecret ''runtime-operator-token'' ''default'') (Inr (SecretVal s)) \<in> set e)"
    unfolding ksecret_def
    by (rule runs_kbind [where P = "\<lambda>a e. e = [Call (ReadSecret ''runtime-operator-token'' ''default'') a]"
          and Q = "\<lambda>v r e. \<forall>s. r = Inr s \<longrightarrow> v = SecretVal s"])
      (auto intro!: runs_kcall runs_kret runs_kraise split: kval.splits)
  let ?next = "\<lambda>dat. case dat of
       Some kvs \<Rightarrow>
         (case map_of kvs ''token'' of
            Some tok \<Rightarrow>
              if tok \<noteq> [] then kbind (klift (decoded tok)) (\<lambda>token. kret (Some token))
              else kthen (kdo (Sleep 1)) (wait_token n)
          | None \<Rightarrow> kthen (kdo (Sleep 1)) (wait_token n))
     | None \<Rightarrow> kthen (kdo (Sleep 1)) (wait_token n)"
  have nxt: "runs (?next dat) (\<lambda>r e. ?P r e \<or> (\<exists>kvs t token. dat = Some kvs \<and> map_of kvs ''token'' = Some t
      \<and> decoded t = Inr token \<and> r = Inr (Some token)))" for dat
  proof -
    have dec: "runs (kbind (klift (decoded t)) (\<lambda>token. kret (Some token)))
        (\<lambda>r e. \<forall>token. r = Inr (Some token) \<longrightarrow> decoded t = Inr token)" for t
      by (rule runs_kbind [where P = "\<lambda>r e. \<forall>a. r = Inr a \<longrightarrow> decoded t = Inr a" and Q = "\<lambda>a r e. r = Inr (Some a)"])
        (auto intro!: runs_klift runs_kret)
    show ?thesis
      by (auto intro!: runs_weaken [OF again] runs_weaken [OF dec] split: option.splits simp del: One_nat_def)
  qed
  show ?case
    unfolding wait_token.simps
    by (rule runs_kbind [OF read nxt]) (auto simp: answered_token_append, auto simp: answered_token_def)
qed

lemma silent_token: "silent (get_service_account_token nc c team)"
proof -
  have "silent (wait_account n)" "silent (wait_token n)" for n
    by (induction n) (auto intro!: only_rules split: kexc.splits option.splits)
  then show ?thesis
    unfolding get_service_account_token_def get_kubeconfig_def create_kube_token_and_server_def Let_def
    by (auto intro!: only_rules silent_inject split: kexc.splits option.splits)
qed

text \<open>A kubeconfig for a token, and with the token, is made of the answers in a trace.\<close>

definition made_for :: "netconf \<Rightarrow> string \<Rightarrow> string \<Rightarrow> kexc + string \<Rightarrow> kevent list \<Rightarrow> bool" where
  "made_for nc c token r e \<longleftrightarrow>
     (\<forall>cfg. r = Inr cfg \<longrightarrow> (\<exists>server. answered_server nc c e server \<and> cfg = kubeconfig_text server token))"

definition made :: "netconf \<Rightarrow> string \<Rightarrow> kexc + string \<Rightarrow> kevent list \<Rightarrow> bool" where
  "made nc c r e \<longleftrightarrow>
     (\<forall>cfg. r = Inr cfg \<longrightarrow> (\<exists>server token. kubeconfig_of nc c e server token \<and> cfg = kubeconfig_text server token))"

lemma made_error [simp]: "made_for nc c token (Inl x) e" "made nc c (Inl x) e"
  by (simp_all add: made_for_def made_def)

lemma made_for_later: "made_for nc c token r e2 \<Longrightarrow> made_for nc c token r (e1 @ e2)"
  unfolding made_for_def answered_server_append by blast

lemma made_later: "made nc c r e2 \<Longrightarrow> made nc c r (e1 @ e2)"
  unfolding made_def kubeconfig_of_def answered_server_append answered_token_append by blast

lemma made_with_token: "answered_token e1 token \<Longrightarrow> made_for nc c token r e2 \<Longrightarrow> made nc c r (e1 @ e2)"
  unfolding made_def made_for_def kubeconfig_of_def answered_server_append answered_token_append by blast

lemma runs_any: "silent m \<Longrightarrow> runs m (\<lambda>_ _. True)"
  unfolding only_def by (erule runs_weaken) simp

lemma made_for_then: "silent m \<Longrightarrow> runs n (made_for nc c token) \<Longrightarrow> runs (kthen m n) (made_for nc c token)"
  by (rule runs_kthen [OF runs_any, where Q = "made_for nc c token"]) (simp_all add: made_for_later)

lemma made_then: "silent m \<Longrightarrow> runs n (made nc c) \<Longrightarrow> runs (kthen m n) (made nc c)"
  by (rule runs_kthen [OF runs_any, where Q = "made nc c"]) (simp_all add: made_later)

lemma made_bind: "silent m \<Longrightarrow> (\<And>a. runs (f a) (made nc c)) \<Longrightarrow> runs (kbind m f) (made nc c)"
  by (rule runs_kbind [OF runs_any, where Q = "\<lambda>_. made nc c"]) (simp_all add: made_later)

lemma kubeconfig_server: "runs (create_kube_token_and_server nc token c) (made_for nc c token)"
proof -
  have read: "runs (kcontainers ListContainers) (\<lambda>r e. \<forall>ds. r = Inr ds \<longrightarrow> Call ListContainers (Inr (ListVal ds)) \<in> set e)"
    unfolding kcontainers_def
    by (rule runs_kbind [where P = "\<lambda>a e. e = [Call ListContainers a]" and Q = "\<lambda>v r e. \<forall>ds. r = Inr ds \<longrightarrow> v = ListVal ds"])
      (auto intro!: runs_kcall runs_kret runs_kraise split: kval.splits)
  have port: "runs (kbind (klift (mapped_port c ds [])) (\<lambda>p. let server = ''https://'' @ nc_public_host nc @ '':'' @ p in
        kret (kubeconfig_text server token)))
      (\<lambda>r e. \<forall>cfg. r = Inr cfg \<longrightarrow> (\<exists>p. mapped_port c ds [] = Inr p
         \<and> cfg = kubeconfig_text (''https://'' @ nc_public_host nc @ '':'' @ p) token))" for ds
    by (rule runs_kbind [where P = "\<lambda>r e. \<forall>p. r = Inr p \<longrightarrow> mapped_port c ds [] = Inr p"
          and Q = "\<lambda>p r e. r = Inr (kubeconfig_text (''https://'' @ nc_public_host nc @ '':'' @ p) token)"])
      (auto intro!: runs_klift runs_kret simp: Let_def)
  show ?thesis
    unfolding create_kube_token_and_server_def
  proof (rule runs_kbind [OF read port])
    fix ds e1 e2 and r :: "kexc + string"
    assume d: "\<forall>ds'. (Inr ds :: kexc + docker_container list) = Inr ds' \<longrightarrow> Call ListContainers (Inr (ListVal ds')) \<in> set e1"
      and p: "\<forall>cfg. r = Inr cfg \<longrightarrow> (\<exists>p. mapped_port c ds [] = Inr p
         \<and> cfg = kubeconfig_text (''https://'' @ nc_public_host nc @ '':'' @ p) token)"
    have "answered_server nc c (e1 @ e2) (''https://'' @ nc_public_host nc @ '':'' @ port)"
      if "mapped_port c ds [] = Inr port" for port
      using d that unfolding answered_server_def set_append by blast
    then show "made_for nc c token r (e1 @ e2)" using p unfolding made_for_def by metis
  qed simp
qed

lemma token_kubeconfig: "runs (get_service_account_token nc c team) (\<lambda>r e. sent e = [] \<and> made nc c r e)"
proof (rule runs_both)
  show "runs (get_service_account_token nc c team) (\<lambda>r e. sent e = [])"
    using silent_token unfolding only_def by (rule runs_weaken) (rule silent_sent)
  let ?last = "\<lambda>token. kthen (inject_service_assertion nc team) (kthen (kdo CloseClient) (create_kube_token_and_server nc token c))"
  have last: "runs (?last token) (made_for nc c token)" for token
    by (intro made_for_then silent_inject kubeconfig_server only_kdo) simp
  have choose: "runs (case token of None \<Rightarrow> kraise (ApiExc 504) | Some token \<Rightarrow> ?last token)
        (\<lambda>r e. case token of None \<Rightarrow> \<exists>x. r = Inl x | Some token \<Rightarrow> made_for nc c token r e)" for token
    using last by (cases token) (auto intro: runs_kraise)
  have tok: "runs (kbind (wait_token 120) (\<lambda>token. case token of None \<Rightarrow> kraise (ApiExc 504) | Some token \<Rightarrow> ?last token)) (made nc c)"
    by (rule runs_kbind [OF wait_token_answer choose]) (auto intro: made_with_token split: option.splits)
  have wait: "silent (wait_account n)" for n by (induction n) (auto intro!: only_rules split: kexc.splits)
  have conf: "silent (get_kubeconfig nc c)" unfolding get_kubeconfig_def by (auto intro!: only_rules)
  show "runs (get_service_account_token nc c team) (made nc c)"
    unfolding get_service_account_token_def
    by (intro made_bind made_then conf wait tok) (auto intro!: only_rules split: kexc.splits)
qed

text \<open>What is written before, around and after the kubeconfig has no hyphen.\<close>

lemma no_hyphen:
  "45 \<notin> set (utf8_bytes (text_line ''Your kubeconfig is below:''))"
  "45 \<notin> set (utf8_bytes (text_line ''Error getting Kubernetes information''))"
  "45 \<notin> set (utf8_bytes (text_line (''Keep this connection open: the kubeconfig stays valid until you disconnect. ''
            @ ''Closing the connection deletes your cluster.'')))"
  "45 \<notin> set (utf8_bytes ''.'')"
  "45 \<notin> set (utf8_bytes ''Waiting for control plane'')"
  "45 \<notin> set (utf8_bytes (text_line []))"
  "45 \<notin> set (utf8_bytes ''Please input the team id: '')"
  "45 \<notin> set (utf8_bytes banner)"
  "45 \<notin> set (utf8_bytes (text_line ''# Invalid team id''))"
  "45 \<notin> set (utf8_bytes (text_line ''Challenge: Net Share''))"
  "45 \<notin> set (utf8_bytes (text_line ''Creating Cluster''))"
  "45 \<notin> set (utf8_bytes (text_line ''# Too many connections, please try again later''))"
  "45 \<notin> set (utf8_bytes ''Unhandled exception during operation, please try again.'')"
  by (simp_all add: text_line_def banner_def utf8_bytes_def utf8_char_def)

lemma plain_kwrite: "45 \<notin> set (utf8_bytes s) \<Longrightarrow> plain (kwrite s)"
  unfolding kwrite_def by (rule only_klog) simp_all

lemma plain_kdo: "plain (kdo q)"
  by (rule only_kdo) simp

lemmas plain_rules = only_intro plain_kwrite plain_kdo no_hyphen

lemma runs_kwrite: "runs (kwrite s) (\<lambda>r e. r = Inr () \<and> e = [Write (utf8_bytes s)])"
  unfolding kwrite_def by (rule runs_klog) simp_all

lemma give_stream: "stream_ok nc c (give_kubeconfig nc c team)"
proof -
  let ?below = "utf8_bytes (text_line ''Your kubeconfig is below:'')"
  let ?keep = "utf8_bytes (text_line (''Keep this connection open: the kubeconfig stays valid until you disconnect. ''
            @ ''Closing the connection deletes your cluster.''))"
  have say: "runs (kthen (kwrite s) n) (\<lambda>_ e. sent e = utf8_bytes s @ t)" if "runs n (\<lambda>_ e. sent e = t)" for s t and n :: "unit kio"
    by (rule runs_kthen [OF runs_kwrite that]) (auto simp: sent_def)
  have "silent (kthen (kdo Drain) (kdo (ReadInput 100)))" by (auto intro!: only_rules)
  then have "runs (kthen (kdo Drain) (kdo (ReadInput 100))) (\<lambda>_ e. sent e = [])"
    unfolding only_def by (rule runs_weaken) (rule silent_sent)
  note give = this [THEN say, THEN say, THEN say, THEN say, THEN say]
  have bad: "runs (case e of ApiExc st \<Rightarrow> kwrite (text_line ''Error getting Kubernetes information'')
        | PyExc x \<Rightarrow> if x = KeyError then kwrite (text_line ''Error getting Kubernetes information'') else kraise e
        | _ \<Rightarrow> kraise e) (\<lambda>_ e. 45 \<notin> set (sent e))" for e
  proof -
    have "plain (kwrite (text_line ''Error getting Kubernetes information''))" by (intro plain_rules)
    then show ?thesis
      unfolding only_def by (cases e) (auto intro!: runs_kraise simp: sent_def elim!: runs_weaken dest!: plain_sent)
  qed
  show ?thesis
    unfolding stream_ok_def give_kubeconfig_def
  proof (rule runs_ktry_else [OF token_kubeconfig bad give])
    fix cfg r e1 e2
    assume m: "sent e1 = [] \<and> made nc c (Inr cfg) e1"
      and e2: "sent e2 = ?below @ utf8_bytes (text_line ''-----BEGIN KUBECONFIG-----'') @ utf8_bytes cfg
        @ utf8_bytes (text_line ''-----END KUBECONFIG-----'') @ ?keep @ []"
    obtain server token where k: "kubeconfig_of nc c e1 server token" "cfg = kubeconfig_text server token"
      using m unfolding made_def by blast
    have "sent (e1 @ e2) = ?below @ BEGIN_MARK @ nl # utf8_bytes cfg @ END_MARK @ nl # ?keep"
      using m unfolding sent_append e2 utf8_line BEGIN_MARK_def END_MARK_def by simp
    moreover have "kubeconfig_of nc c (e1 @ e2) server token" using k(1) by (rule kubeconfig_of_mono) simp
    ultimately have "served nc c (e1 @ e2) server token"
      using no_hyphen(1,3) unfolding served_def k(2) by blast
    then show "stream_shape nc c (e1 @ e2)" unfolding stream_shape_def by blast
  qed (simp add: stream_shape_def sent_append)
qed

lemma handle_connection_stream: "stream_ok nc c (handle_connection nc c)"
proof -
  have ignore: "plain (ignore_missing (kdo q))" for q
    unfolding ignore_missing_def by (auto intro!: only_intro plain_kdo split: kexc.splits)
  have serve: "stream_ok nc c (serve_cluster nc c team plane)" for team plane
    unfolding serve_cluster_def
    by (intro stream_then stream_finally stream_bind give_stream ignore plain_kdo only_klift)
  have setting: "plain (setup_cluster c)"
    unfolding setup_cluster_def by (intro plain_rules only_kcount only_poll) (simp_all add: no_hyphen)
  have session: "stream_ok nc c (cluster_session nc c team)" for team
    unfolding cluster_session_def add_name_def remove_name_def
    by (intro stream_finally stream_bind setting stream_then serve only_kthen only_kcount ignore only_klog) simp_all
  have tail: "stream_ok nc c (kthen (kwrite banner) (kthen (kwrite (text_line ''Challenge: Net Share''))
      (kthen (kwrite (text_line ''Creating Cluster'')) (cluster_session nc c team))))" for team
    by (intro stream_then session plain_rules)
  have bad: "stream_ok nc c (kwrite (text_line ''# Invalid team id''))" "stream_ok nc c (kwrite (text_line ''# Too many connections, please try again later''))"
    by (intro stream_plain plain_rules)+
  have "stream_ok nc c (case parse_team_id dat of
           Inl e \<Rightarrow> kwrite (text_line ''# Invalid team id'')
         | Inr team_id \<Rightarrow> kthen (kwrite banner) (kthen (kwrite (text_line ''Challenge: Net Share''))
             (kthen (kwrite (text_line ''Creating Cluster'')) (cluster_session nc c team_id))))" for dat
    by (cases "parse_team_id dat") (simp_all add: bad tail)
  then have body: "stream_ok nc c (kthen (kwrite ''Please input the team id: '') (kthen (kdo Drain)
      (kbind (kdata (ReadInput 100)) (\<lambda>dat. case parse_team_id dat of
           Inl e \<Rightarrow> kwrite (text_line ''# Invalid team id'')
         | Inr team_id \<Rightarrow> kthen (kwrite banner) (kthen (kwrite (text_line ''Challenge: Net Share''))
             (kthen (kwrite (text_line ''Creating Cluster'')) (cluster_session nc c team_id)))))))"
    by (intro stream_then stream_bind plain_rules only_kdata) simp_all
  have resources: "stream_ok nc c (resource_setup nc c)"
    using body bad(2) unfolding stream_ok_def runs_def resource_setup_def by auto
  show ?thesis
    unfolding handle_connection_def
    by (intro stream_finally stream_catch resources)
      (auto intro!: only_intro plain_kdo plain_kwrite no_hyphen only_klog split: kexc.splits)
qed

text \<open>
  End to end: of the bytes of a connection some arrive, cut in any way, before the stream ends, breaks or times out.
  The pod shows the kubeconfig that the controller made if its marker of the end is among them, and says why there
  was none otherwise.
\<close>

definition no_marker :: "string \<Rightarrow> bool" where
  "no_marker s \<longleftrightarrow> find_sub END_MARK (utf8_bytes s) = None \<and> (s = [] \<or> last s \<noteq> char_of (10 :: nat))"

lemma take_of_append: "xs @ ys = out \<Longrightarrow> n \<le> length xs \<Longrightarrow> xs = take n out @ drop n xs"
  by auto

lemma no_hyphen_no_end: "45 \<notin> set b \<Longrightarrow> find_sub END_MARK b = None"
  using find_sub_skip [OF end_mark(1), of b "[]"] end_mark by simp

text \<open>What was received up to the marker is enough to find the kubeconfig.\<close>

lemma served_extract:
  assumes s: "served nc c evs server token"
    and clean: "\<And>server. answered_server nc c evs server \<Longrightarrow> no_marker server"
      "\<And>token. answered_token evs token \<Longrightarrow> no_marker token"
    and b: "prefix b (sent evs)" "find_sub END_MARK b \<noteq> None"
  shows "extract_kubeconfig b = Some (utf8_bytes (kubeconfig_text server token))"
proof -
  from s obtain pre post where pre: "45 \<notin> set pre"
      and out: "sent evs = pre @ BEGIN_MARK @ nl # utf8_bytes (kubeconfig_text server token) @ END_MARK @ nl # post"
    by (auto simp: served_def)
  let ?n = "length pre + 27 + length (utf8_bytes (kubeconfig_text server token))"
  have m: "find_sub END_MARK (utf8_bytes server) = None" "find_sub END_MARK (utf8_bytes token) = None"
      "token = [] \<or> last token \<noteq> char_of (10 :: nat)"
    using clean s by (auto simp: served_def kubeconfig_of_def no_marker_def)
  have stop: "find_sub END_MARK (sent evs) = Some ?n" by (rule extract_delivered(2) [OF pre m out])
  obtain b' where b': "b @ b' = sent evs" using b(1) by (auto simp: prefix_def)
  have "find_sub END_MARK b = Some ?n"
    using b(2) find_sub_prefix [of END_MARK b _ b'] stop b' by auto
  then have "?n + length END_MARK \<le> length b" by (rule find_sub_Some [THEN conjunct2])
  then have "b = take (?n + length END_MARK) (sent evs) @ drop (?n + length END_MARK) b"
    using b' by (intro take_of_append [of _ b']) simp_all
  moreover have "take (?n + length END_MARK) (sent evs) = pre @ BEGIN_MARK @ nl # utf8_bytes (kubeconfig_text server token) @ END_MARK"
    unfolding out by (simp add: begin_mark)
  ultimately have "b = pre @ BEGIN_MARK @ nl # utf8_bytes (kubeconfig_text server token) @ END_MARK @ drop (?n + length END_MARK) b"
    by simp
  then show ?thesis by (rule extract_delivered(1) [OF pre m])
qed

lemma served_end: "served nc c evs server token \<Longrightarrow> find_sub END_MARK (sent evs) = None \<Longrightarrow> no_marker server \<Longrightarrow> no_marker token \<Longrightarrow> False"
  using extract_delivered(2) [of _ server token "sent evs"] by (auto simp: served_def no_marker_def)

lemma bridge_shows:
  assumes run: "handle_connection nc c w = (r, w')" and log: "kw_log w' = kw_log w @ evs"
    and net: "prefix (arrived rs) (sent evs)"
    and clean: "\<And>server. answered_server nc c evs server \<Longrightarrow> no_marker server"
      "\<And>token. answered_token evs token \<Longrightarrow> no_marker token"
  shows "(if find_sub END_MARK (arrived rs) \<noteq> None
    then \<exists>server token. served nc c evs server token
      \<and> bridge Connected rs = \<lparr> br_status = (if hold_open rs then ''ready'' else ''disconnected''),
          br_kubeconfig = Some (utf8_bytes (kubeconfig_text server token)), br_error = None \<rparr>
    else bridge Connected rs = \<lparr> br_status = ''error'', br_kubeconfig = None, br_error = Some (read_error rs) \<rparr>)
    \<and> (find_sub END_MARK (sent evs) \<noteq> None \<longleftrightarrow> (\<exists>server token. served nc c evs server token))
    \<and> (find_sub END_MARK (sent evs) \<noteq> None \<longleftrightarrow> 45 \<in> set (sent evs))"
proof -
  obtain evs' where e: "kw_log w' = kw_log w @ evs'" "stream_shape nc c evs'"
    by (rule runsE [OF handle_connection_stream [unfolded stream_ok_def] run])
  then have shape: "stream_shape nc c evs" using log by simp
  have hyphen: "45 \<in> set (sent evs)" if "find_sub END_MARK b \<noteq> None" "prefix b (sent evs)" for b
  proof (rule subsetD [OF set_mono_prefix [OF that(2)]])
    show "45 \<in> set b" using that(1) no_hyphen_no_end [of b] by (cases "45 \<in> set b") auto
  qed
  have made: "\<exists>server token. served nc c evs server token" if "45 \<in> set (sent evs)"
    using that shape by (auto simp: stream_shape_def)
  have all: "find_sub END_MARK (sent evs) \<noteq> None" if "served nc c evs server token" for server token
    using served_end [OF that] that clean by (auto simp: served_def kubeconfig_of_def)
  have shown: "\<exists>server token. served nc c evs server token
      \<and> bridge Connected rs = \<lparr> br_status = (if hold_open rs then ''ready'' else ''disconnected''),
          br_kubeconfig = Some (utf8_bytes (kubeconfig_text server token)), br_error = None \<rparr>"
    if found: "find_sub END_MARK (arrived rs) \<noteq> None"
  proof -
    obtain server token where s: "served nc c evs server token" using made hyphen [OF found net] by blast
    obtain b rest where rd: "read_stream [] rs = (Inr b, rest)" "prefix b (arrived rs)" "find_sub END_MARK b \<noteq> None"
        "hold_open rest = hold_open rs"
      using read_stream_found [of "[]" rs] found by auto
    have "extract_kubeconfig b = Some (utf8_bytes (kubeconfig_text server token))"
      by (rule served_extract [OF s clean prefix_order.trans [OF rd(2) net] rd(3)])
    then show ?thesis using s rd(1,4) by (auto simp: bridge_def bridge_init_def Let_def)
  qed
  have missed: "bridge Connected rs = \<lparr> br_status = ''error'', br_kubeconfig = None, br_error = Some (read_error rs) \<rparr>"
    if "find_sub END_MARK (arrived rs) = None"
    using read_stream_missed [of "[]" rs] that
    by (cases "read_stream [] rs") (simp add: bridge_def bridge_fail_def bridge_init_def)
  show ?thesis using shown missed all made hyphen [OF _ prefix_order.refl] by (metis (no_types))
qed

end
