(* ===== verification/Spec2Isabelle.thy ===== *)
theory Spec2Isabelle
  imports Samples Further Service Soundness PoolProps UuidStego FhePoly RecpProps Activation AuthPod Deliver
    Runner BlinkyProps RlweProps Bridge
begin

text \<open>
  This library models the programs of the R3CTF 2026 challenge repository that have a core of their
  own, and proves what makes them correct.

  \<^bold>\<open>The threshold signing service\<close> (\<^verbatim>\<open>src/z3kapig/deploy/src\<close>). Two parties create an ECDSA key
  together and sign without either holding the secret. The service plays one party and speaks JSON
  lines. Its layers, bottom up:
  \<^item> \<open>Prelude\<close>: Python exceptions as values (\<open>pyerr\<close>, \<open>'a res\<close>), the entropy monad \<open>'a rnd\<close>, in which
    \<^verbatim>\<open>secrets\<close> and \<^verbatim>\<open>os.urandom\<close> read a tape of draws, byte strings, and the interface
    \<open>transition_system\<close>. \<open>Modular\<close>: arithmetic modulo an integer.
  \<^item> \<open>Libs\<close>: the packages that are not in the repository (\<^verbatim>\<open>gmpy2\<close>, \<^verbatim>\<open>gensafeprime\<close>) and the digest
    functions, as one record \<open>lib\<close> that every definition takes as argument; the locale \<open>lib_ok\<close> holds
    their documented behaviour and is interpreted on the executable \<open>lib_ref\<close>.
  \<^item> \<open>Numbers\<close>, \<open>ZkHash\<close>, \<open>Curve\<close>, \<open>CurveLaws\<close>, \<open>Ecdsa\<close>, \<open>Paillier\<close>, \<open>Json\<close>: \<^verbatim>\<open>crypto/common\<close> and
    \<^verbatim>\<open>crypto/zkp/hash.py\<close>. That the concrete curve is a group of prime order is the hypothesis
    \<open>ec_group\<close>, which \<open>ToyCurve\<close> proves of a curve with seven points.
  \<^item> \<open>ZkCommon\<close> and \<open>ZkSch\<close>, \<open>ZkEnc\<close>, \<open>ZkHv\<close>, \<open>ZkLogstar\<close>, \<open>ZkFac\<close>, \<open>ZkAffg\<close>, \<open>ZkMta\<close>, \<open>ZkPrm\<close>, \<open>Blum\<close>,
    \<open>ZkMod\<close>: one theory per file of \<^verbatim>\<open>crypto/zkp\<close>, each with prover, verifier and byte format (interface
    \<open>wire_codec\<close>); lemmas: the equations a verifier checks, completeness, round trips. \<open>Provers\<close>:
    the provers return on sufficiently long tapes. \<open>Soundness\<close>: extraction of the witness.
  \<^item> \<open>SmallPrimes\<close>: the table of \<^verbatim>\<open>ecdsa/small_primes.py\<close>, row by row; that it is complete is not proved.
  \<^item> \<open>Messages\<close>, \<open>Keygen\<close>, \<open>AuxPhase\<close>, \<open>Presigning\<close>, \<open>Signing\<close>: \<^verbatim>\<open>ecdsa\<close>, one definition per round.
  \<^item> \<open>Party\<close>, \<open>Pow\<close>, \<open>Service\<close>: \<^verbatim>\<open>party.py\<close>, \<^verbatim>\<open>proof_of_work.py\<close>, \<^verbatim>\<open>main.py\<close>. The session is the
    inductive relation \<open>session\<close>; a command that raises leaves no client; \<open>client_inv\<close> says what is present in which phase; the abstract
    specification of the command flow is \<open>flow_table\<close>.

  \<^bold>\<open>The whisper judge\<close> (\<^verbatim>\<open>src/whisper/deploy/judge\<close>). Teams lease victim instances, wait in a queue, and are
  limited by a rate and a cooldown; a reaper ends expired leases. Attempts at a victim are queued and scanned
  for the flag.
  \<^item> \<open>Decimal\<close>, \<open>Text\<close>: \<^verbatim>\<open>str\<close> and \<^verbatim>\<open>int\<close> of decimal text, splitting, searching, UTF-8. \<open>TeamFlags\<close>:
    \<^verbatim>\<open>team_flags.py\<close>, the flag file.
  \<^item> \<open>JudgePool\<close>: \<^verbatim>\<open>pool.py\<close>; the module's globals are the record \<open>pool\<close>, a definition is what happens while the
    lock is held once, and an operation that raises returns the pool as it leaves it.
  \<^item> \<open>PoolInv\<close>: the abstract protocol \<open>pool_move\<close>, of which every operation is a sequence of moves, and the
    invariant \<open>pool_wf\<close>, which every move keeps (interface \<open>transition_system\<close>). \<open>PoolProps\<close>: the hourly limit, the
    cooldown, the order of the queue, and what the reaper leaves behind.
  \<^item> \<open>Worker\<close>: \<^verbatim>\<open>worker.py\<close>, the queue of attempts; what the backend answers to a poll is an argument. \<open>Web\<close>:
    \<^verbatim>\<open>web.py\<close>, one definition per route over pool, worker and APK state.
  \<^item> \<open>AuthPod\<close>: \<^verbatim>\<open>src/whisper/auth-pod/app.py\<close>, which calls the routes of \<open>Web\<close> over a network that loses
    messages. \<open>Runner\<close>: \<^verbatim>\<open>victim-runner/runner_api.py\<close>, which gets the request of the pool; the device
    behind \<^verbatim>\<open>adb\<close> is a state with a transition function as argument.

  \<^bold>\<open>The whisper messenger\<close> (\<^verbatim>\<open>src/whisper/deploy/backend\<close>). \<open>WhisperDb\<close>: the tables with the keys, references and
  checks of the schema, sessions and passwords. \<open>WhisperChat\<close>: the REST handlers. \<open>WhisperService\<close>: routes,
  sockets and frames; a step is a request or an event of a socket. \<open>WhisperInv\<close>: the moves of the database and the
  invariant \<open>db_wf\<close>. \<open>WhisperProps\<close>: who receives, reads and downloads what. \<open>Deliver\<close>: the judge's client
  \<^verbatim>\<open>whisper_deliver.py\<close> against this backend.

  \<^bold>\<open>The flags of speedrun\<close> (\<^verbatim>\<open>src/speedrun/deploy/checker\<close>). \<open>Xxtea\<close>: the block cipher of \<^verbatim>\<open>uuid_stego.py\<close> and the
  packing of bytes into words, with the proof that decryption inverts encryption. \<open>UuidStego\<close>: the team
  number in a UUID, and the checker \<^verbatim>\<open>check_code.py\<close>; digests and stream cipher are the record \<open>crypto\<close>, and
  what the code uses of them is \<open>crypto_ok\<close>.

  \<^bold>\<open>Encrypted activation\<close> (\<^verbatim>\<open>src/encrypted-activation/attachment\<close>). \<open>Fhe\<close>: \<^verbatim>\<open>fhe_core.py\<close>, that is keys, LWE and
  GLWE encryption, serialisation; decryption is right while the noise is below \<open>2\<^sup>6\<^sup>0\<close>. \<open>FhePoly\<close>: the
  multiplication of polynomials packed into integers with 128-bit slots is the negacyclic product. \<open>Base64\<close>,
  \<open>Activation\<close>: the service \<^verbatim>\<open>task.py\<close> with its rounds and files.

  \<^bold>\<open>The curve challenge\<close> (\<^verbatim>\<open>src/rECp1cG/deploy/challenge.py\<close>). \<open>Primality\<close>: the Miller-Rabin test, which never rejects a
  prime. \<open>Recp\<close>: the session, its points and states, and the verdict. \<open>RecpProps\<close>: what is published is
  consistent.

  \<^bold>\<open>The blinky server\<close> (\<^verbatim>\<open>src/blinky/deploy/server/server.py\<close>). \<open>Blinky\<close>: parsing of a submission, splicing onto the
  kernel image, the simulator as a parameter. \<open>BlinkyProps\<close>: what the image means as memory.

  \<^bold>\<open>The lattice proof\<close> (\<^verbatim>\<open>src/inside/deploy/src\<close>). \<open>Maurer\<close>: \<^verbatim>\<open>sigma.py\<close>, Maurer's proof for homomorphisms to the curve.
  \<open>Rlwe\<close>: \<^verbatim>\<open>rlwe.py\<close> and \<^verbatim>\<open>task.py\<close>, the key, the proof that one knows its secret, and the session. The points of
  SageMath are the record \<open>sage\<close>; the locale \<open>sage_ok\<close> has the laws of a group whose order is that of the curve and
  is interpreted on residues. \<open>RlweProps\<close>: completeness and special soundness of Maurer's proof, and why the proof on
  top of it is neither complete nor sound: the verifier uses cyclic products for a negacyclic key, and it bounds
  the secret but not the quotients.

  \<^bold>\<open>The clusters of netshare\<close> (\<^verbatim>\<open>src/netshare\<close>). \<open>Kio\<close>: awaited calls whose answers are a tape, exceptions that keep the
  state, \<^verbatim>\<open>try\<close> and \<^verbatim>\<open>finally\<close>, and a log of everything a task does; cancellation is an answer too, so that a task may
  end at every call. \<open>Netshare\<close>: the controller. \<open>NetshareProps\<close>: \<open>runs\<close> and \<open>only\<close> speak of the log of every run; a
  connection undoes what it did, moves the counter, and stores the flag of its team. \<open>Bridge\<close>: the pod
  \<^verbatim>\<open>ret2shell-ext-controller-pod/app.py\<close>, run against the stream of the controller, of which any part may arrive.

  \<open>Samples\<close> and \<open>Further\<close> hold data for witnesses and further facts on the signing service and the other programs.

  \<^bold>\<open>Loops and bounds.\<close> Rejection loops recurse on the tape, so every theorem holds for every sequence
  of outcomes; that a computation returns is proved for tapes long enough to hold the draws it makes.
  The search of the proof of work has the measure \<open>2\<^sup>6\<^sup>4 - nonce\<close>. The decryption loop of
  XXTEA waits for the running sum to be zero; its measure is the sum times the inverse of the constant
  modulo \<open>2\<^sup>3\<^sup>2\<close>, which is the number of rounds left. The promotion loop of the pool has the length of the queue
  as its measure. The loops of the controller without a bound recurse on the answers left, those with a bound on the
  attempts left, 120 as in the code. Loops that wait for a deadline recurse on the list of what they meet before it. The
  other loops are structural.

  \<^bold>\<open>Not modelled.\<close> JSON text is represented by the value \<^verbatim>\<open>json.loads\<close> makes of it, characters are
  8-bit, floats are rationals. A message field of the wrong type raises when it is decoded, not where
  it is used first. A command of the signing service that raises ends the session: no client remains, and what a
  method had set before it raised is not represented. Signals and sockets are events of the input. An operation of the pool reads each clock
  once; the HTTP requests of its threads are recorded as jobs. The start-up of the controller and its signals are left
  out. Challenges in other languages, front ends,
  vendored libraries, attack scripts, image bakes, launchers of virtual machines and deployment files are left
  out.
\<close>

section \<open>The signing service\<close>

text \<open>C1: Safety of the service, over every sequence of input lines: as long as no response has
  reported a completed signature verification, no response carries the flag.\<close>

theorem flag_needs_signature:
  assumes "serve L ec en client_init t inputs = pre @ r # post"
    and "\<And>ph. ok_response ''verify'' ph (verify_result True) \<notin> set pre"
  shows "\<not> discloses r"
  using serve_flag [OF assms(1)] assms(2) by blast

definition sample_env :: env where
  "sample_env = \<lparr> en_flag = Some ''R3CTF'', en_traceback = (\<lambda>e. ''''), en_difficulty = 4 \<rparr>"

definition command :: "json \<Rightarrow> string \<Rightarrow> json \<Rightarrow> json res" where
  "command ph act data =
     Inr (JObj [(''phase'', ph), (''action'', JStr act), (''data'', data)])"

lemma guess_refused:
  "process_command L ec en client_init (command (JInt 1) ''guess_key'' data) t
    = (guess_response (incorrect ''You must complete at least one successful signing round before guessing.''),
       Some (client_init, t))"
  by (simp add: process_command_def command_body_def command_def handle_guess_key_def client_init_def
      rbind_app rret_def)

theorem flag_needs_signature_witness:
  "\<not> discloses (guess_response
      (incorrect ''You must complete at least one successful signing round before guessing.''))"
  using flag_needs_signature [of lib_ref toy_curve sample_env "[]"
      "[Text (command (JInt 1) ''guess_key'' (JObj [(''guess'', JInt 3)]))]" "[]" _ "[]"]
  by (simp add: guess_refused)

text \<open>C2: The service refines the abstract protocol table: a command that is answered \<open>ok\<close> and is not
  a guess moves the client along the table and keeps its invariant; a guess, and a command that is refused as a violation
  of the flow, leaves the client as it was; a command that raises is answered by an error, and no client goes on.\<close>

theorem service_refines_flow:
  assumes "client_inv c" and "process_command L ec en c line t = (r, after)"
  shows "case after of
      None \<Rightarrow> \<not> status_ok r
    | Some (c', t') \<Rightarrow> client_inv c' \<and> (if status_ok r \<and> \<not> is_guess line
        then flow_next (flow_of c) = Some (flow_of c') else c' = c)"
  using assms by (rule process_command_flow)

theorem service_refines_flow_witness:
  "(\<exists>r c' t'. process_command lib_ref toy_curve sample_env client_init
      (command (JInt 1) ''start_phase'' (JObj [])) [1, 2, 3] = (r, Some (c', t')) \<and> flow_of c' = (1, ''round1''))
   \<and> (\<exists>r. process_command lib_ref toy_curve sample_env client_init (Inl ValueError) [] = (r, None) \<and> \<not> status_ok r)"
proof
  let ?cmd = "command (JInt 1) ''start_phase'' (JObj [])"
  obtain s where s: "keygen_init lib_ref toy_curve 1 [1, 2, 3] = Inr (s, [])"
    using lib_ok.keygen_init_returns [OF lib_ref_ok toy_ec_group, of "[1, 2, 3]" 1] by auto
  obtain r c' t' where p: "process_command lib_ref toy_curve sample_env client_init ?cmd [1, 2, 3]
      = (r, Some (c', t'))" and "status_ok r \<and> \<not> is_guess ?cmd"
    using s by (auto simp: process_command_def command_body_def command_def client_init_def
        perform_def start_phase_def start_phase1_def party_init_def rbind_app rret_def is_guess_def)
  then show "\<exists>r c' t'. process_command lib_ref toy_curve sample_env client_init ?cmd [1, 2, 3] = (r, Some (c', t'))
      \<and> flow_of c' = (1, ''round1'')"
    using service_refines_flow [OF client_init_inv p] by (auto simp: flow_of_def client_init_def)
next
  have p: "process_command lib_ref toy_curve sample_env client_init (Inl ValueError) []
      = (error_response sample_env ValueError, None)"
    by (simp add: process_command_def command_body_def rbind_app rlift_def)
  with service_refines_flow [OF client_init_inv p]
  show "\<exists>r. process_command lib_ref toy_curve sample_env client_init (Inl ValueError) [] = (r, None) \<and> \<not> status_ok r"
    by auto
qed

text \<open>C3: Whatever commands arrive, the client keeps what the current phase needs: the running protocol
  object, the peer's first message and the data of the finished phases (\<open>client_inv\<close>), so that no
  method is called on a missing object.\<close>

theorem client_inv_always:
  "client_inv (fst (foldl (client_step L ec en) (client_init, t) cmds))"
  by (rule service.run_Inv) (simp add: client_init_inv)

text \<open>C4: A client is marked as having completed a signature by the \<open>verify\<close> command of phase 4 only, and exactly
  when that command answers that the signature is verified: then the message of the command was decoded, passed the
  checks on the peer's share, and the pair of \<open>r\<close> and the sum of the own share and the share in this message is an ECDSA
  signature of the cached message under the public key of the key generation. The mark is never taken back.\<close>

theorem done_only_if_signed:
  assumes "client_inv c" and "process_command L ec en c line t = (r, Some (c', t'))"
  shows "cl_done c' \<longleftrightarrow> cl_done c
    \<or> cl_phase c = 4 \<and> cl_action c = ''verify''
      \<and> (\<exists>cmd data ph. line = Inr cmd \<and> py_get cmd ''data'' (JObj []) = Inr data \<and> verified_by L ec c data
           \<and> r = ok_response ''verify'' ph (verify_result True))"
  using process_command_done [OF assms] process_command_verified [OF assms(2)] process_command_keeps_done [OF assms(2)]
  by blast

theorem done_only_if_signed_witness:
  "\<exists>data r c' t'. process_command lib_ref toy_curve sample_env sample_client (command (JInt 4) ''verify'' data) [] = (r, Some (c', t'))
    \<and> \<not> cl_done sample_client \<and> cl_done c' \<and> verified_by lib_ref toy_curve sample_client data"
proof -
  obtain m p' where sign: "signing_sign lib_ref toy_curve (sample_signing 3 5 None) [] [0, 0, 0, 0, 0, 0, 0] = Inr ((m, p'), [])"
    and range: "logstar_in_range lib_ref toy_curve m" by (rule sample_message)
  let ?data = "to_dict signing_hints (signing_fields m)"
  obtain c' where run: "process_command lib_ref toy_curve sample_env sample_client (command (JInt 4) ''verify'' ?data) []
      = (ok_response ''verify'' (JInt 4) (verify_result True), Some (c', []))"
    using sample_message_fits [OF sign] sample_verifies [OF sign range]
    by (auto simp: process_command_def command_body_def command_def sample_client_def perform_def verify_command_def
        phase4_verify_def verify_result_def Let_def rbind_app rret_def)
  have new: "\<not> cl_done sample_client" "cl_phase sample_client = 4" "cl_action sample_client = ''verify''"
    by (simp_all add: sample_client_def)
  have "cl_done c'" using process_command_verified [OF run new(2,3) refl] .
  then have "verified_by lib_ref toy_curve sample_client ?data"
    using done_only_if_signed [OF sample_client_inv run] new by (auto simp: command_def)
  with run new \<open>cl_done c'\<close> show ?thesis by blast
qed

section \<open>Presigning and signing\<close>

text \<open>C5: Signing: if the states of the two parties come from one presignature of the key \<open>d\<close>, then
  \<open>signing_verify\<close> returns \<^verbatim>\<open>True\<close> on the message of an honest peer: the two shares add up to a valid ECDSA
  signature. There are two exceptions, and each raises the error of its check: the answer of the range proof in the
  message is not below \<open>q\<^sup>3\<close>, or the two shares add up to zero.\<close>

theorem honest_signing_verifies:
  assumes "lib_ok L" and "ec_group C" and "signing_linked C s p"
    and "signing_sign L C p message t = Inr ((m, p'), t')"
    and "sn_sigma_i s = Some (signing_share C s (message_hash L message))"
    and "sn_X s = ec_mult C d (generator C)" "d mod cn C \<noteq> 0"
    and "ec_mult C (sn_k_i s + sn_k_i p) (sn_R s) = generator C"
    and "(sn_chi_i s + sn_chi_i p) mod cn C = (sn_k_i s + sn_k_i p) * d mod cn C"
    and "sn_r s = px (sn_R s) mod cn C" "sn_r s \<noteq> 0"
  shows "signing_verify L C s message m =
    (if \<not> logstar_in_range L C m then Inl (VerificationError ''Peer nonce Logstar proof verification failed.'')
     else if (signing_share C s (message_hash L message) + signing_share C p (message_hash L message)) mod cn C = 0
     then Inl (VerificationError ''Signature S cannot be 0.'')
     else Inr True)"
  using assms by (rule lib_ok.signing_verify_honest)

theorem honest_signing_verifies_witness:
  "\<exists>m p'. signing_sign lib_ref toy_curve (sample_signing 3 5 None) [] [0, 0, 0, 0, 0, 0, 0]
      = Inr ((m, p'), [])
    \<and> signing_verify lib_ref toy_curve (sample_signing 1 3 (Some 2)) [] m = Inr True"
proof -
  obtain m p' where sign: "signing_sign lib_ref toy_curve (sample_signing 3 5 None) [] [0, 0, 0, 0, 0, 0, 0] = Inr ((m, p'), [])"
    and range: "logstar_in_range lib_ref toy_curve m" by (rule sample_message)
  then show ?thesis
    using honest_signing_verifies [OF lib_ref_ok toy_ec_group sample_linked sign, of 2]
    by (simp add: sample_signing_def sample_points sample_hash signing_share_def)
qed

text \<open>C6: Presigning, second round: for each of the two products \<open>\<gamma>\<^sub>i k\<close> and \<open>x\<^sub>i k\<close> with the peer's nonce share
  \<open>k\<close>, what the holder of the Paillier key decrypts and the share the sender keeps form an additive
  sharing of the product (\<open>additive_share\<close>: exact whenever the masked product fits the modulus).\<close>

theorem presigning_shares:
  assumes "lib_ok L" and "presigning_round2 L ec p m1 t = Inr ((m2, p'), t')"
    and "key_of_primes P Q sk" "pk_n sk = pk_n (ps_pub_j p)"
    and "p1_K_ct m1 = enc (pk_n sk) k rho" "coprime rho (pk_n sk)" "0 \<le> k"
    and "0 \<le> ps_gamma_i p" "0 \<le> ps_xi p"
  shows "\<exists>aG aX bG bX sk1 sk2. decrypt L sk (p2_D m2) = Inr (aG, sk1) \<and> decrypt L sk1 (p2_D' m2) = Inr (aX, sk2)
    \<and> ps_beta_ij p' = Some bG \<and> ps_beta'_ij p' = Some bX
    \<and> additive_share aG bG (ps_gamma_i p) k (pk_n sk) (cn ec)
    \<and> additive_share aX bX (ps_xi p) k (pk_n sk) (cn ec)"
  using assms by (rule lib_ok.presigning_round2_products)

theorem presigning_shares_witness:
  "\<exists>m1 m2 p' t' aG bG. presigning_round2 lib_ref toy_curve sample_presigning m1 (replicate 26 0) = Inr ((m2, p'), t')
    \<and> ps_beta_ij p' = Some bG \<and> additive_share aG bG 2 3 35 7"
proof -
  let ?p = sample_presigning
  obtain pf where new: "enc_new_proof lib_ref 5 toy_curve \<lparr>pk_n = 35\<rparr> (enc 35 3 2) 35 2 4 3 2 [0, 0, 0, 0] = Inr (pf, [])"
    and z: "enc_Z1 pf \<le> 18"
    using lib_ok.enc_new_proof_returns [OF lib_ref_ok, of toy_curve 35 "\<lparr>pk_n = 35\<rparr>" 3 0 5 "enc 35 3 2" 2 4 2 0 0 0 "[]"]
    by (auto simp: sample_points)
  have ok: "enc_verify lib_ref pf 5 toy_curve \<lparr>pk_n = 35\<rparr> 35 2 4 (enc 35 3 2) = Inr True"
    using z by (intro lib_ok.enc_complete [OF lib_ref_ok new]) (simp_all add: sample_units sample_points)
  have wf: "enc_wf pf" by (rule lib_ok.enc_new_wf [OF lib_ref_ok new]) simp_all
  let ?m = "\<lparr> p1_K_ct = enc 35 3 2, p1_G_ct = 0, p1_proofenc = enc_to_bytes_parts pf \<rparr>"
  obtain m2 p' where r2: "presigning_round2 lib_ref toy_curve ?p ?m (replicate 26 0) = Inr ((m2, p'), [])"
    using lib_ok.presigning_round2_returns [OF lib_ref_ok toy_ec_group, of ?p 3 2 ?m pf "replicate 26 0" "[]"]
      ok wf by (auto simp: sample_presigning_def sample_points sample_units)
  from presigning_shares [OF lib_ref_ok r2 sample_key(1), of 3 2] r2 show ?thesis
    by (fastforce simp: sample_presigning_def sample_key sample_units sample_points)
qed

section \<open>Key generation and auxiliary information\<close>

text \<open>C7: On every tape of eight random draws the key generation of two honest parties ends, both hold the
  same session id and public key, and the secret key of that public key is the sum of their shares.\<close>

theorem keygen_agreement:
  assumes "lib_ok L" and "ec_group ec" and "8 \<le> length t"
  shows "\<exists>oi oj t'. keygen_session L ec i j t = Inr ((oi, oj), t')
    \<and> ko_ssid oi = ko_ssid oj \<and> ko_X oi = ko_X oj
    \<and> ko_X oi = ec_mult ec (ko_xi oi + ko_xi oj) (generator ec)
    \<and> ko_Xj oi = ec_mult ec (ko_xi oj) (generator ec) \<and> ko_Xj oj = ec_mult ec (ko_xi oi) (generator ec)
    \<and> 0 < ko_xi oi \<and> ko_xi oi < cn ec \<and> 0 < ko_xi oj \<and> ko_xi oj < cn ec"
  using assms by (rule lib_ok.keygen_session_agrees)

theorem keygen_agreement_witness:
  "\<exists>oi oj t'. keygen_session lib_ref toy_curve 0 1 [1, 2, 3, 4, 5, 6, 7, 8] = Inr ((oi, oj), t')
    \<and> ko_X oi = ko_X oj"
  using keygen_agreement [OF lib_ref_ok toy_ec_group, of "[1, 2, 3, 4, 5, 6, 7, 8]" 0 1] by auto

section \<open>Zero-knowledge proofs\<close>




text \<open>C9: Special soundness of the Schnorr verifier: two proofs with one commitment that are accepted under two
  hash functions with different challenges give the discrete logarithm of \<open>X\<close>.\<close>

theorem schnorr_extract:
  assumes "lib_ok L" "lib_ok L'" and "ec_group C" and "valid_point C X"
    and "valid_point C (sch_A pf)" "sch_A pf' = sch_A pf"
    and "sch_verify L pf ssid C X = Inr True" "sch_verify L' pf' ssid C X = Inr True"
    and "challenge L (cn C) (sch_transcript ssid C X (sch_A pf)) = Inr e"
      "challenge L' (cn C) (sch_transcript ssid C X (sch_A pf)) = Inr e'" and "e \<noteq> e'"
  shows "X = ec_mult C ((sch_Z pf - sch_Z pf') * minv (e - e') (cn C)) (generator C)"
  using assms by (rule sch_fork)

theorem schnorr_extract_witness:
  "Point 8 5 = ec_mult toy_curve ((3 - 5) * minv (1 - 2) (cn toy_curve)) (generator toy_curve)"
proof -
  let ?pf = "\<lambda>z. \<lparr> sch_A = Point 7 5, sch_Z = z \<rparr>"
  have ch: "challenge (lib_digest v) 7 (sch_transcript 0 toy_curve (Point 8 5) (Point 7 5)) = Inr (v mod 256 ^ 32 mod 7)"
    for v by (rule lib_digest_challenge) simp_all
  have acc: "sch_accepts toy_curve (Point 8 5) (Point 7 5) 1 3" "sch_accepts toy_curve (Point 8 5) (Point 7 5) 2 5"
    by code_simp+
  have v: "sch_verify (lib_digest 1) (?pf 3) 0 toy_curve (Point 8 5) = Inr True"
    "sch_verify (lib_digest 2) (?pf 5) 0 toy_curve (Point 8 5) = Inr True"
    using acc lib_ok.sch_verify_meaning [OF lib_digest_ok toy_ec_group, of "Point 8 5"] ch [of 1] ch [of 2]
    by (simp_all add: sample_points)
  show ?thesis
    using schnorr_extract [OF lib_digest_ok lib_digest_ok toy_ec_group sample_points(2) _ _ v] ch [of 1] ch [of 2]
    by (simp add: sample_points)
qed

text \<open>C10: The byte encoding of the no-small-factor proof loses the sign of \<open>V\<close>: what the receiver decodes is
  the proof with \<open>V\<close> replaced by its absolute value.\<close>

theorem factor_proof_wire_sign:
  assumes "fac_wf (pf\<lparr> fac_V := 0 \<rparr>)"
  shows "fac_from_bytes (fac_to_bytes_parts pf) = Inr (pf\<lparr> fac_V := \<bar>fac_V pf\<bar> \<rparr>)"
  using assms by (rule fac_wire_sign)

definition sample_fac :: proof_fac where
  "sample_fac = \<lparr> fac_P = 1, fac_Q = 2, fac_A = 3, fac_B = 4, fac_T = 5, fac_Sigma = 6, fac_Z1 = 7,
     fac_Z2 = 8, fac_W1 = 9, fac_W2 = 10, fac_V = -11 \<rparr>"

theorem factor_proof_wire_sign_witness:
  "fac_from_bytes (fac_to_bytes_parts sample_fac) = Inr (sample_fac\<lparr> fac_V := 11 \<rparr>)"
  using factor_proof_wire_sign [of sample_fac] by (simp add: sample_fac_def fac_wf_def)

section \<open>Paillier encryption\<close>

text \<open>C11: Decryption inverts encryption, for every message and every unit as randomness, and leaves the key a
  key of the same primes with its inverse cached.\<close>

theorem decrypt_encrypt:
  assumes "lib_ok L" and "key_of_primes p q sk"
    and "encrypt_with_randomness L \<lparr>pk_n = pk_n sk\<rparr> m x = Inr c"
  shows "\<exists>sk'. decrypt L sk c = Inr (m, sk') \<and> key_of_primes p q sk' \<and> lg_inv sk' \<noteq> None"
proof -
  note e = lib_ok.encrypt_with_randomness_enc [OF assms(1,3)]
  then obtain sk' where d: "decrypt L sk c = Inr (m mod pk_n sk, sk')" and k: "key_of_primes p q sk'"
    using lib_ok.decrypt_enc [OF assms(1,2), of x m] by auto
  have "lg_inv sk' \<noteq> None" using d by (auto simp: decrypt_def res_simps split: option.splits)
  then show ?thesis using d k e by simp
qed

theorem decrypt_encrypt_witness:
  "\<exists>c sk'. encrypt_with_randomness lib_ref \<lparr>pk_n = 35\<rparr> 9 2 = Inr c \<and> decrypt lib_ref sample_key c = Inr (9, sk')"
proof -
  have "encrypt_with_randomness lib_ref \<lparr>pk_n = 35\<rparr> 9 2 = Inr (enc 35 9 2)" by code_simp
  then show ?thesis using decrypt_encrypt [OF lib_ref_ok sample_key(1), of 9 2 "enc 35 9 2"]
    by (auto simp: sample_key)
qed

section \<open>Elliptic curve and ECDSA\<close>

text \<open>C12: On valid points of a valid curve, point addition returns the sum of the chord-and-tangent law, a valid
  point; no exception is possible.\<close>

theorem point_add_closed:
  assumes "lib_ok L" and "valid_curve C" and "valid_point C P" and "valid_point C Q"
  shows "point_add L C P Q = Inr (ec_add C P Q) \<and> valid_point C (ec_add C P Q)"
  using lib_ok.point_add_eq [OF assms] ec_add_valid [OF assms(2-4)] by blast

theorem point_add_closed_witness:
  "point_add lib_ref toy_curve (Point 7 5) (Point 8 5) = Inr (Point 11 8)"
proof -
  have "valid_curve toy_curve" "ec_add toy_curve (Point 7 5) (Point 8 5) = Point 11 8" by code_simp+
  with point_add_closed [OF lib_ref_ok _ sample_points(3,2)] show ?thesis by simp
qed

text \<open>The double-and-add loop computes the multiple: \<open>scalar_mult\<close> equals \<open>k mod n\<close> repeated additions of the
  point.\<close>

theorem scalar_mult_repeated:
  assumes "lib_ok L" and "ec_group C" and "valid_point C P"
  shows "scalar_mult L C k P = Inr (iter_op (ec_add C) infinity (nat (k mod cn C)) P)"
  using lib_ok.scalar_mult_eq [OF assms] by (simp add: ec_mult_def)

theorem scalar_mult_repeated_witness: "scalar_mult lib_ref toy_curve 9 (Point 7 5) = Inr (Point 8 5)"
proof -
  have "iter_op (ec_add toy_curve) infinity 2 (Point 7 5) = Point 8 5" by code_simp
  with scalar_mult_repeated [OF lib_ref_ok toy_ec_group sample_points(3), of 9]
  show ?thesis by (simp add: sample_points)
qed

text \<open>C13: ECDSA: a signature that \<open>ec_sign\<close> returns is accepted by \<open>ec_verify\<close> under the public key.\<close>

theorem ecdsa_sign_verify:
  assumes "lib_ok L" and "ec_group C" and "d mod cn C \<noteq> 0" and "ec_sign L C d z t = Inr ((r, s), t')"
  shows "ec_verify L C (ec_mult C d (generator C)) z (r, s) = Inr True"
  using lib_ok.ec_sign_equation [OF assms(1,2,4)] lib_ok.verify_equation [OF assms(1-3)] by blast

theorem ecdsa_sign_verify_witness:
  "ec_verify lib_ref toy_curve (ec_mult toy_curve 3 (generator toy_curve)) 5 (1, 4) = Inr True"
proof -
  have "ec_sign lib_ref toy_curve 3 5 [1] = Inr ((1, 4), [])" by code_simp
  then show ?thesis by (rule ecdsa_sign_verify [OF lib_ref_ok toy_ec_group, rotated]) (simp add: sample_points)
qed

section \<open>Encodings\<close>

text \<open>The input of the transcript hash determines the sequence of hashed integers: the length-prefixed
  encoding is injective.\<close>

theorem transcript_injective:
  assumes "length xs < 2 ^ 64" "length ys < 2 ^ 64"
    and "\<forall>x\<in>set xs. length (int_part x) < 2 ^ 64" "\<forall>y\<in>set ys. length (int_part y) < 2 ^ 64"
  shows "hash_encoding (map int_part xs) = hash_encoding (map int_part ys) \<longleftrightarrow> xs = ys"
proof
  assume "hash_encoding (map int_part xs) = hash_encoding (map int_part ys)"
  then have "map int_part xs = map int_part ys"
    by (rule hash_encoding_inj [rotated -1]) (use assms in simp_all)
  moreover have "inj int_part" using int_part_inj by (auto intro: injI)
  ultimately show "xs = ys" by (simp add: inj_map_eq_map)
qed simp

theorem transcript_injective_witness:
  "hash_encoding (map int_part [1, -1]) \<noteq> hash_encoding (map int_part [-1, 1])"
proof -
  have "length (int_part 1) = 2" "length (int_part (-1)) = 2" by code_simp+
  then show ?thesis using transcript_injective [of "[1, -1]" "[-1, 1]"] by simp
qed

section \<open>The instance pool of the whisper judge\<close>

text \<open>A configuration and two pools for the witnesses: instance a is idle, team 1 holds b beyond its expiry.\<close>

definition demo_config :: config where
  "demo_config = \<lparr> cf_lease = 900, cf_rate_max = 5, cf_cooldown = 60, cf_boot_deadline = 1200, cf_boot_typical = 600,
     cf_pool = [\<lparr> en_id = ''a'', en_runner = ''http://a'', en_victim = None \<rparr>] \<rparr>"

definition demo_inst :: "string \<Rightarrow> inst" where
  "demo_inst k = \<lparr> in_id = k, in_runner = ''http://a'', in_victim = ''victim-a'', in_team = None, in_expires = None,
     in_handle = None, in_phone = None, in_lifecycle = Idle, in_booting_since = None, in_flag = None \<rparr>"

definition demo_held :: inst where
  "demo_held = (demo_inst ''b'')\<lparr> in_team := Some 1, in_expires := Some 900, in_lifecycle := OnLease \<rparr>"

definition demo_pool :: "flag_file \<Rightarrow> pool" where
  "demo_pool flags = \<lparr> pl_instances = [(''a'', demo_inst ''a''), (''b'', demo_held)],
     pl_teams = (\<lambda>t. team_init)(1 := team_init\<lparr> tm_instance := Some ''b'' \<rparr>),
     pl_queue = [2], pl_initialized = True, pl_flags = flags, pl_jobs = [], pl_entropy = (\<lambda>n. 0), pl_drawn = 0 \<rparr>"

lemma demo_config_ok: "config_ok demo_config"
  by (simp add: config_ok_def demo_config_def)

lemma demo_pool_wf: "pool_wf (demo_pool flags)"
  by (auto simp: pool_wf_def demo_pool_def demo_inst_def demo_held_def inst_ok_def team_init_def find_inst_def
      split: if_splits)

lemma demo_free: "free_instances (demo_pool flags) = [demo_inst ''a'']"
  by (simp add: free_instances_def demo_pool_def demo_inst_def demo_held_def is_free_def)

lemma demo_eligible: "eligible demo_config now (demo_pool flags) 2"
  by (simp add: eligible_def in_cooldown_def demo_pool_def team_init_def)

lemma demo_flag: "get_team_flag (Some [(''2'', ''flag'')]) 2 = Inr (Some ''flag'')"
  by code_simp

text \<open>C14: At every moment an instance is on lease to at most one team, and a team holds at most one
  instance: whatever the teams, the reaper and the flag pushes do in whatever order, the records of
  instances, teams and queue agree.\<close>

theorem pool_leases_exclusive:
  fixes cf es flags entropy
  defines "p \<equiv> foldl (pool_step cf) (pool_empty flags entropy) es"
  assumes "config_ok cf"
  shows "pool_wf p \<and> (\<forall>j k a b t. find_inst p j = Some a \<and> find_inst p k = Some b
           \<and> in_team a = Some t \<and> in_team b = Some t \<longrightarrow> j = k)"
proof -
  have "pool_wf p" unfolding p_def using assms(2) by (rule pool_run_wf)
  moreover have "j = k" if "find_inst p j = Some a" "find_inst p k = Some b" "in_team a = Some t" "in_team b = Some t" for j k a b t
    using that pool_wfD(3) [OF calculation, of t j] pool_wfD(3) [OF calculation, of t k] by auto
  ultimately show ?thesis by blast
qed

theorem pool_leases_exclusive_witness:
  "pool_wf (foldl (pool_step demo_config) (pool_empty None (\<lambda>n. 0)) [(0, 0, Lease 1), (1, 1, Booted ''a''), (2, 2, Lease 1)])"
  using pool_leases_exclusive [OF demo_config_ok] by blast

text \<open>C15: No team is assigned more instances within an hour than the configured maximum, counting the
  assignments from the queue, which are not checked again: the log that the judge keeps never shows more.\<close>

theorem pool_hourly_limit:
  assumes "config_ok cf" and "0 \<le> cf_rate_max cf" and "sorted (map fst (es @ [e]))"
  shows "recent (fst e) (foldl (pool_step cf) (pool_empty flags entropy) (es @ [e])) t \<le> cf_rate_max cf"
  using rate_run [OF assms(1,2,3)] by (simp add: rate_ok_def)

theorem pool_hourly_limit_witness:
  "recent 2 (foldl (pool_step demo_config) (pool_empty None (\<lambda>n. 0)) ([(0, 0, Lease 1), (1, 1, Booted ''a'')] @ [(2, 2, Lease 1)])) 1
     \<le> cf_rate_max demo_config"
  using pool_hourly_limit [OF demo_config_ok, of "[(0, 0, Lease 1), (1, 1, Booted ''a'')]" "(2, 2, Lease 1)"]
  by (simp add: demo_config_def)

text \<open>Releasing a lease marks the instance as booting, starts its recycling, and keeps the team
  without a lease, whatever happens, for the whole cooldown.\<close>

theorem pool_release_cooldown:
  assumes "config_ok cf" and "pool_wf p" and "pl_initialized p" and "find_inst p k = Some i" and "in_team i = Some t"
    and "\<forall>e \<in> set es. fst e < now + of_int (cf_cooldown cf)"
  shows "\<exists>p'. pool_release cf now mn t p = (True, p') \<and> find_inst p' k = Some (freed_inst mn i)
    \<and> RecycleJob (freed_inst mn i) \<in> set (pl_jobs p') \<and> tm_instance (pl_teams (foldl (pool_step cf) p' es) t) = None"
proof -
  obtain p' where p': "pool_release cf now mn t p = (True, p')" "find_inst p' k = Some (freed_inst mn i)"
    "pl_jobs p' = pl_jobs p @ [RecycleJob (freed_inst mn i)]" "tm_instance (pl_teams p' t) = None"
    "tm_release (pl_teams p' t) = Some now"
    using release_ok [OF assms(2-5)] by metis
  have "pool_wf p'" using moves_wf [OF release_moves [OF assms(2,1), of now mn t] assms(2,1)] by (simp add: p'(1))
  with cooldown_run [OF assms(1) _ p'(4,5)] have "tm_instance (pl_teams (foldl (pool_step cf) p' es) t) = None"
    using assms(6) by (auto simp: algebra_simps)
  then show ?thesis using p' by auto
qed

theorem pool_release_cooldown_witness:
  "\<exists>p'. pool_release demo_config 0 0 1 (demo_pool None) = (True, p')
     \<and> tm_instance (pl_teams (foldl (pool_step demo_config) p' [(59, 59, Lease 1)]) 1) = None"
proof -
  have "find_inst (demo_pool None) ''b'' = Some demo_held" "in_team demo_held = Some 1" "pl_initialized (demo_pool None)"
    by (simp_all add: find_inst_def demo_pool_def demo_held_def demo_inst_def)
  then show ?thesis
    using pool_release_cooldown [OF demo_config_ok demo_pool_wf, of None "''b''" demo_held 1 "[(59, 59, Lease 1)]" 0 0]
    by (auto simp: demo_config_def)
qed

text \<open>A free instance goes to the first team of the queue that holds no lease and is not in its
  cooldown; only teams that are not eligible are passed over.\<close>

theorem pool_queue_order:
  assumes "pool_wf p" and "free_instances p = i # others" and "promote_next cf now p = (Inr (), p')"
  shows "(\<exists>pre c rest. pl_queue p = pre @ c # rest \<and> (\<forall>x \<in> set pre. \<not> eligible cf now p x) \<and> eligible cf now p c
            \<and> tm_instance (pl_teams p' c) = Some (in_id i) \<and> pl_queue p' = rest)
       \<or> (\<forall>x \<in> set (pl_queue p). \<not> eligible cf now p x) \<and> pl_queue p' = []"
  using assms by (rule promote_outcome)

theorem pool_queue_order_witness:
  "tm_instance (pl_teams (snd (promote_next demo_config 0 (demo_pool (Some [(''2'', ''flag'')])))) 2) = Some ''a''"
proof -
  let ?p = "demo_pool (Some [(''2'', ''flag'')])"
  have q: "pl_queue ?p = [2]" "pl_flags ?p = Some [(''2'', ''flag'')]" by (simp_all add: demo_pool_def)
  have "flagged ?p" using demo_flag by (simp add: flagged_def q)
  then have "promote_next demo_config 0 ?p = (Inr (), snd (promote_next demo_config 0 ?p))"
    using promote_flagged [of ?p demo_config 0] by (metis prod.collapse)
  from pool_queue_order [OF demo_pool_wf demo_free this] demo_eligible [of 0 "Some [(''2'', ''flag'')]"]
  show ?thesis by (auto simp: q Cons_eq_append_conv demo_inst_def)
qed

text \<open>C16: When every waiting team has its flag, one pass of the reaper under the lock returns normally,
  no instance is left idle while a team waits, no expired lease is left, and each instance whose lease had
  expired is being recycled.\<close>

theorem reaper_leaves_none_waiting:
  assumes "pool_wf p" and "config_ok cf" and "0 < cf_lease cf" and "flagged p"
  shows "\<exists>booting p'. reaper_locked cf now mn p = (Inr booting, p') \<and> (free_instances p' = [] \<or> pl_queue p' = [])
    \<and> no_expired now p'
    \<and> (\<forall>k i x. find_inst p k = Some i \<and> in_expires i = Some x \<and> x \<le> now \<longrightarrow> RecycleJob (freed_inst mn i) \<in> set (pl_jobs p'))"
  using reaper_serves [OF assms, of now mn] by metis

theorem reaper_leaves_none_waiting_witness:
  "\<exists>booting p'. reaper_locked demo_config 1000 0 (demo_pool (Some [(''2'', ''flag'')])) = (Inr booting, p')
     \<and> RecycleJob (freed_inst 0 demo_held) \<in> set (pl_jobs p')"
proof -
  let ?p = "demo_pool (Some [(''2'', ''flag'')])"
  have "find_inst ?p ''b'' = Some demo_held" "in_expires demo_held = Some 900"
    by (simp_all add: find_inst_def demo_pool_def demo_held_def demo_inst_def)
  moreover have "flagged ?p" using demo_flag by (simp add: flagged_def demo_pool_def)
  ultimately show ?thesis
    using reaper_leaves_none_waiting [OF demo_pool_wf demo_config_ok, of "Some [(''2'', ''flag'')]" 1000 0]
    by (fastforce simp: demo_config_def)
qed

text \<open>C17: When an instance is idle and the first team of the queue is eligible but its flag was never pushed, the
  same pass raises: the team loses its place, the instances whose lease had expired are marked as booting, and no
  recycling is started for them.\<close>

theorem reaper_stops_without_flag:
  assumes "pool_wf p" and "config_ok cf" and "free_instances p \<noteq> []" and "pl_queue p = c # q"
    and "eligible cf now p c" and "get_team_flag (pl_flags p) c = Inr None"
  shows "\<exists>e p'. reaper_locked cf now mn p = (Inl e, p') \<and> pl_jobs p' = pl_jobs p \<and> pl_queue p' = q
    \<and> (\<forall>k i x. find_inst p k = Some i \<and> in_expires i = Some x \<and> x \<le> now \<longrightarrow> find_inst p' k = Some (freed_inst mn i))"
  using reaper_stopped [OF assms(1-5), of mn] assms(6) by (metis option.distinct(1) sum.inject(2))

theorem reaper_stops_without_flag_witness:
  "\<exists>e p'. reaper_locked demo_config 1000 0 (demo_pool None) = (Inl e, p') \<and> pl_jobs p' = []
     \<and> find_inst p' ''b'' = Some (freed_inst 0 demo_held)"
proof -
  have "find_inst (demo_pool None) ''b'' = Some demo_held" "in_expires demo_held = Some 900"
    by (simp_all add: find_inst_def demo_pool_def demo_held_def demo_inst_def)
  then show ?thesis
    using reaper_stops_without_flag [OF demo_pool_wf demo_config_ok, of None 2 "[]" 1000 0] demo_eligible demo_free
    by (fastforce simp: demo_pool_def get_team_flag_def load_flags_def)
qed

section \<open>The judge, the pods and the runners\<close>

text \<open>C18: An attempt of the judge is solved only if it names no team, the scanner account was registered, and the
  configured flag stood in a message that a poll returned; then that flag is kept for the result. An
  attempt with a team is never solved, because looking up its flag raises.\<close>

theorem attempt_needs_real_flag:
  assumes "wk_results (run_attempt cf account polls now (aid, mode, team) w) aid = Some r" and "ar_solved r"
  shows "team = None \<and> account = Inr ()
    \<and> wk_pending (run_attempt cf account polls now (aid, mode, team) w) aid = Some (wc_real_flag cf)
    \<and> (\<exists>convs msgs pre post. Inr convs \<in> set polls \<and> Inr msgs \<in> set convs
         \<and> Some (pre @ wc_real_flag cf @ post) \<in> set msgs)"
proof -
  have "account = Inr () \<and> scan_for_flag cf team polls \<noteq> None
      \<and> wk_pending (run_attempt cf account polls now (aid, mode, team) w) aid = Some (wc_real_flag cf)"
    using run_attempt_result [of cf account polls now aid mode team w] assms by blast
  moreover from this obtain m where "scan_for_flag cf team polls = Some m" by blast
  ultimately show ?thesis using scan_for_flag_real [of cf team polls m] by blast
qed

definition demo_worker_config :: worker_config where
  "demo_worker_config = \<lparr> wc_real_flag = ''r3ctf{x}'', wc_backend_url = ''http://b'', wc_victim_handle = ''ann'' \<rparr>"

theorem attempt_needs_real_flag_witness:
  "\<exists>r. wk_results (run_attempt demo_worker_config (Inr ()) [Inl KeyError, Inr [Inr [None, Some ''see r3ctf{x}!'']]] 9
         (''i'', ''player'', None) worker_init) ''i'' = Some r \<and> ar_solved r
     \<and> wk_pending (run_attempt demo_worker_config (Inr ()) [Inl KeyError, Inr [Inr [None, Some ''see r3ctf{x}!'']]] 9
         (''i'', ''player'', None) worker_init) ''i'' = Some ''r3ctf{x}''"
proof -
  let ?w = "run_attempt demo_worker_config (Inr ()) [Inl KeyError, Inr [Inr [None, Some ''see r3ctf{x}!'']]] 9
         (''i'', ''player'', None) worker_init"
  have "map_option ar_solved (wk_results ?w ''i'') = Some True" by code_simp
  then obtain r where r: "wk_results ?w ''i'' = Some r" "ar_solved r" by auto
  from attempt_needs_real_flag [OF r] r show ?thesis by (auto simp: demo_worker_config_def)
qed

text \<open>C19: Two requests of a pod to the judge, under every loss of messages between them: if the player's answer
  is a lease the team did not hold before, the leased instance belongs to the team and carries the
  flag of the pod.\<close>

theorem pod_lease_flag:
  assumes "pod_ok cf pod" and "flags_ok (pl_flags (jd_pool j))" and "pool_wf (jd_pool j)" and "config_ok (wb_pool cf)"
    and "pod_lease cf ev pod nets net j = (Forwarded (Answer (LeaseC (Leased iid h b x s))), j')"
    and "current_lease (init_pool (wb_pool cf) (ev_mn ev) (jd_pool j)) (pd_team pod) = None"
  shows "\<exists>i. find_inst (jd_pool j') iid = Some i \<and> in_team i = Some (pd_team pod) \<and> in_flag i = Some (pd_flag pod)"
  using assms by (rule pod_lease_serves_flag)

definition demo_web :: web_config where
  "demo_web = \<lparr> wb_admin_token = ''k'', wb_max_rcard = 100, wb_template = ''t'', wb_baked_dir = ''d'', wb_public_url = ''u'',
     wb_pool = demo_config, wb_worker = demo_worker_config \<rparr>"

definition demo_judge :: judge where
  "demo_judge = \<lparr> jd_pool = (demo_pool (Some []))\<lparr> pl_queue := [] \<rparr>, jd_worker = worker_init, jd_apk = apk_init \<rparr>"

definition demo_pod :: pod where "demo_pod = \<lparr> pd_team = 2, pd_flag = ''r3ctf{y}'', pd_token = ''k'' \<rparr>"

definition demo_judge_env :: judge_env where
  "demo_judge_env = \<lparr> ev_now = 500, ev_mn = 0, ev_id = ''e'', ev_isfile = (\<lambda>p. False), ev_str = (\<lambda>v. []) \<rparr>"

text \<open>The first reply of the judge is lost, the second arrives.\<close>

definition demo_nets :: "nat \<Rightarrow> network" where
  "demo_nets k = (if k = 0 then ReplyLost else Delivered)"

theorem pod_lease_flag_witness:
  "\<exists>j' i. snd (pod_lease demo_web demo_judge_env demo_pod demo_nets Delivered demo_judge) = j'
     \<and> find_inst (jd_pool j') ''a'' = Some i \<and> in_team i = Some 2 \<and> in_flag i = Some ''r3ctf{y}''"
proof -
  let ?o = "pod_lease demo_web demo_judge_env demo_pod demo_nets Delivered demo_judge"
  have "(case fst ?o of Forwarded (Answer (LeaseC (Leased i h b x s))) \<Rightarrow> Some i | _ \<Rightarrow> None) = Some ''a''" by code_simp
  then obtain h b x s where "fst ?o = Forwarded (Answer (LeaseC (Leased ''a'' h b x s)))"
    by (auto split: pod_reply.splits reply.splits content.splits lease_reply.splits)
  then have o: "?o = (Forwarded (Answer (LeaseC (Leased ''a'' h b x s))), snd ?o)" by (metis prod.collapse)
  have "(1 :: int) * 2 < 10 ^ Suc 0" by simp
  also have "(10 :: int) ^ Suc 0 \<le> 10 ^ MAX_STR_DIGITS" by (rule power_increasing) (simp_all add: MAX_STR_DIGITS_def)
  finally have pod: "pod_ok demo_web demo_pod" by (simp add: pod_ok_def demo_web_def demo_pod_def)
  have wf: "pool_wf (jd_pool demo_judge)"
    by (auto simp: demo_judge_def pool_wf_def demo_pool_def demo_inst_def demo_held_def inst_ok_def team_init_def find_inst_def)
  have fl: "flags_ok (pl_flags (jd_pool demo_judge))"
    by (simp add: flags_ok_def demo_judge_def demo_pool_def load_flags_def printable_def)
  have new: "current_lease (init_pool (wb_pool demo_web) (ev_mn demo_judge_env) (jd_pool demo_judge)) (pd_team demo_pod) = None"
    by (simp add: current_lease_def init_pool_def demo_judge_def demo_pool_def demo_pod_def demo_web_def team_init_def)
  have cf: "config_ok (wb_pool demo_web)" using demo_config_ok by (simp add: demo_web_def)
  from pod_lease_flag [OF pod fl wf cf o new] show ?thesis by (simp add: demo_pod_def)
qed

text \<open>C20: From the pool to the device: when a runner reports the reset of an instance that the pool just assigned to
  a team with a flag that is neither empty nor has space around it, the handle it reports is the instance's, and what the
  device gave back for \<^verbatim>\<open>/flag.txt\<close> is the flag of the team.\<close>

theorem runner_reset_serves_lease:
  assumes "do_assign cf now t iid p = (Inr (), p')" and "find_inst p' iid = Some i"
    and "get_team_flag (pl_flags p) t = Inr (Some flag)" and "flag \<noteq> []" and "py_strip flag = flag"
    and "do_reset su rcf (reset_body i) fs v = (Inr (ResetDone ri serial uid pid h), fs', v')"
  shows "in_team i = Some t \<and> in_handle i = Some h
    \<and> (\<exists>v1 out err v2. su_adb su (get_serial fs) [''shell'', ''cat /flag.txt''] v1 = (Some (0, out, err), v2)
         \<and> py_strip (py_strip out) = flag)"
  using assms by (rule reset_serves_lease)

definition demo_surroundings :: "unit surroundings" where
  "demo_surroundings =
     \<lparr> su_adb = (\<lambda>serial args v. (Some (0, ''r3ctf{y}'', []), v)), su_digest = (\<lambda>b. 0), su_backend_up = True,
       su_register = (\<lambda>body. Some ''tok''), su_turns = 1 \<rparr>"

definition demo_runner :: runner_config where
  "demo_runner = \<lparr> ru_handle = ''v'', ru_phone = ''1'', ru_display = ''V'', ru_password = ''pw'', ru_instance = ''a'',
     ru_admin_token = ''k'' \<rparr>"

definition demo_assigned :: pool where
  "demo_assigned = snd (do_assign demo_config 500 2 ''a'' (demo_pool (Some [(''2'', ''r3ctf{y}'')])))"

definition demo_reset :: "inst \<Rightarrow> runner_reply res \<times> tmp_files \<times> unit" where
  "demo_reset i = do_reset demo_surroundings demo_runner (reset_body i) [''/tmp/emulator_serial'' \<mapsto> ''emu''] ()"

theorem runner_reset_serves_lease_witness:
  "\<exists>i h. find_inst demo_assigned ''a'' = Some i
     \<and> fst (demo_reset i) = Inr (ResetDone ''a'' ''emu'' ''10110'' (Some ''r3ctf{y}'') h) \<and> in_handle i = Some h"
proof -
  let ?p = "demo_pool (Some [(''2'', ''r3ctf{y}'')])"
  have "fst (do_assign demo_config 500 2 ''a'' ?p) = Inr ()" by code_simp
  then have q: "do_assign demo_config 500 2 ''a'' ?p = (Inr (), demo_assigned)"
    unfolding demo_assigned_def by (metis prod.collapse)
  have "map_option (\<lambda>i. case fst (demo_reset i) of
        Inr (ResetDone r s u pid h) \<Rightarrow> (r, s, u, pid) | _ \<Rightarrow> ([], [], [], None)) (find_inst demo_assigned ''a'')
      = Some (''a'', ''emu'', ''10110'', Some ''r3ctf{y}'')" by code_simp
  then obtain i where i: "find_inst demo_assigned ''a'' = Some i" and c: "(case fst (demo_reset i) of
        Inr (ResetDone r s u pid h) \<Rightarrow> (r, s, u, pid) | _ \<Rightarrow> ([], [], [], None))
      = (''a'', ''emu'', ''10110'', Some ''r3ctf{y}'')" unfolding map_option_eq_Some by blast
  obtain h where r: "fst (demo_reset i) = Inr (ResetDone ''a'' ''emu'' ''10110'' (Some ''r3ctf{y}'') h)"
    using c by (cases "fst (demo_reset i)"; cases "projr (fst (demo_reset i))") auto
  have "demo_reset i = (Inr (ResetDone ''a'' ''emu'' ''10110'' (Some ''r3ctf{y}'') h), fst (snd (demo_reset i)), snd (snd (demo_reset i)))"
    using r by (metis prod.collapse)
  note d = this [unfolded demo_reset_def [of i]]
  have f: "get_team_flag (pl_flags ?p) 2 = Inr (Some ''r3ctf{y}'')" "py_strip ''r3ctf{y}'' = ''r3ctf{y}''" by code_simp+
  from runner_reset_serves_lease [OF q i f(1) _ f(2) d] i r show ?thesis by blast
qed

section \<open>The messenger\<close>

text \<open>C21: Whatever requests, sockets and frames arrive, the database keeps its invariant (\<open>db_wf\<close>), so a
  conversation always has exactly two members and every stored message is by a member of its
  conversation.\<close>

theorem chat_invariant:
  assumes "\<forall>(ev, dead, i) \<in> set es. CHR ''|'' \<notin> set (be_id ev)"
  shows "let d = sv_db (service_run cf es service_init) in db_wf d
    \<and> (\<forall>c \<in> set (convs d). card {u. is_member d (cv_id c) u} = 2)
    \<and> (\<forall>m \<in> set (messages d). is_member d (ms_conv m) (ms_sender m))"
  using service_run_init [OF assms] two_members sender_is_member by (auto simp: Let_def)

definition demo_chat_config :: chat_config where
  "demo_chat_config = \<lparr> cc_kdf = (\<lambda>p s. s), cc_ctf_mode = False, cc_admin_token = ''root'' \<rparr>"

definition demo_benv :: "string \<Rightarrow> int \<Rightarrow> benv" where
  "demo_benv i now = \<lparr> be_now = now, be_id = i, be_token = ''t'' @ i, be_salt = [7] \<rparr>"

text \<open>Two users, a conversation, and a file sent in it.\<close>

definition demo_steps :: "(benv \<times> (nat \<Rightarrow> bool) \<times> input) list" where
  "demo_steps =
     [(demo_benv ''u'' 1, \<lambda>w. False, Rest None (Register ''1'' ''pw'' (Some ''ann'') (Some ''Ann'') False)),
      (demo_benv ''v'' 2, \<lambda>w. False, Rest None (Register ''2'' ''pw'' (Some ''bob'') (Some ''Bob'') False)),
      (demo_benv ''c'' 3, \<lambda>w. False, Rest (Some ''Bearer tu'') (OpenDm ''bob'')),
      (demo_benv ''a'' 4, \<lambda>w. False, Rest (Some ''Bearer tu'') (Upload ''f'' ''file'' ''text/plain'' [[1, 2]])),
      (demo_benv ''m'' 5, \<lambda>w. False, Rest (Some ''Bearer tu'') (SendMessage ''c'' ''attachment'' None (Some ''a'') None)),
      (demo_benv ''x'' 6, \<lambda>w. False, WsOpen 9 ''tv'')]"

definition demo_service :: service where
  "demo_service = service_run demo_chat_config demo_steps service_init"

definition demo_chat :: db where "demo_chat = sv_db demo_service"

lemma demo_steps_ids: "\<forall>(ev, dead, i) \<in> set demo_steps. CHR ''|'' \<notin> set (be_id ev)"
  by (simp add: demo_steps_def demo_benv_def)

lemma demo_chat_wf: "db_wf demo_chat"
  unfolding demo_chat_def demo_service_def by (rule service_run_init [OF demo_steps_ids])

lemma demo_chat_rows:
  "map cv_id (convs demo_chat) = [''c'']" "members demo_chat = [(''c'', ''u''), (''c'', ''v'')]"
  "map ms_id (messages demo_chat) = [''m'']" "sv_conns demo_service = [(9, ''v'')]"
  by code_simp+

theorem chat_invariant_witness:
  "\<exists>c \<in> set (convs demo_chat). cv_id c = ''c'' \<and> card {u. is_member demo_chat (cv_id c) u} = 2"
proof -
  have "''c'' \<in> set (map cv_id (convs demo_chat))" by (simp add: demo_chat_rows)
  then show ?thesis
    using chat_invariant [OF demo_steps_ids, of demo_chat_config]
    by (auto simp: demo_chat_def [unfolded demo_service_def, symmetric] Let_def)
qed

text \<open>C22: A frame about a conversation, that is a message, a receipt, a reaction, a preview or a sign of typing,
  reaches only sockets of members of that conversation.\<close>

theorem chat_events_to_members:
  assumes "(ws, Event e) \<in> set (snd (fst (service_step cf ev dead i s)))"
  shows "\<exists>c u. concerns (sv_db (snd (service_step cf ev dead i s))) c e
    \<and> is_member (sv_db (snd (service_step cf ev dead i s))) c u \<and> (ws, u) \<in> set (sv_conns s)"
  using step_reaches_members [OF assms] unfolding reaches_member_def .

theorem chat_events_to_members_witness:
  "(9, Event (TypingEvent ''c'' ''v'' 7))
     \<in> set (snd (fst (service_step demo_chat_config (demo_benv ''y'' 7) (\<lambda>w. False) (WsIn 9 (TypingIn (Some ''c''))) demo_service)))
   \<and> (\<exists>c u. concerns (sv_db (snd (service_step demo_chat_config (demo_benv ''y'' 7) (\<lambda>w. False)
         (WsIn 9 (TypingIn (Some ''c''))) demo_service))) c (TypingEvent ''c'' ''v'' 7) \<and> (9, u) \<in> set (sv_conns demo_service))"
proof -
  have "snd (fst (service_step demo_chat_config (demo_benv ''y'' 7) (\<lambda>w. False) (WsIn 9 (TypingIn (Some ''c''))) demo_service))
      = [(9, Event (TypingEvent ''c'' ''v'' 7))]" by code_simp
  then have m: "(9, Event (TypingEvent ''c'' ''v'' 7))
     \<in> set (snd (fst (service_step demo_chat_config (demo_benv ''y'' 7) (\<lambda>w. False) (WsIn 9 (TypingIn (Some ''c''))) demo_service)))"
    by simp
  with chat_events_to_members [OF m] show ?thesis by blast
qed

text \<open>C23: No request shows a message, in whole or as the last of a conversation, to anyone but a user who holds a
  valid token and is a member of the message's conversation.\<close>

theorem chat_answers_readable:
  assumes "serve_api cf ev authorization r d = (Inr a, d', bs)" and "mid \<in> shown a"
  shows "\<exists>token u m. authorization = Some (''Bearer '' @ token) \<and> get_user_id_from_token (be_now ev) d token = Some u
    \<and> m \<in> set (messages d') \<and> ms_id m = mid \<and> is_member d' (ms_conv m) u"
  using serve_api_readable [OF assms] unfolding readable_def by blast

theorem chat_answers_readable_witness:
  "\<exists>u m. get_user_id_from_token 7 demo_chat ''tv'' = Some u \<and> m \<in> set (messages demo_chat) \<and> ms_id m = ''m''
     \<and> is_member demo_chat (ms_conv m) u"
proof -
  let ?o = "serve_api demo_chat_config (demo_benv ''y'' 7) (Some ''Bearer tv'') (ListMessages ''c'' None 50) demo_chat"
  have "map mo_id (case fst ?o of Inr (MessagesR ms) \<Rightarrow> ms | _ \<Rightarrow> []) = [''m'']" by code_simp
  then obtain ms where ms: "fst ?o = Inr (MessagesR ms)" "map mo_id ms = [''m'']"
    by (auto split: sum.splits answer.splits)
  have d: "fst (snd ?o) = demo_chat"
    by (simp add: serve_api_def list_messages_def answer_def fail_def Let_def split: option.split sum.split)
  have "''m'' \<in> mo_id ` set ms" using ms(2) by (metis image_set list.set_intros(1))
  then have "''m'' \<in> shown (MessagesR ms)" by (simp add: shown_def)
  moreover have "?o = (Inr (MessagesR ms), demo_chat, snd (snd ?o))" using ms d by (metis prod.collapse)
  ultimately show ?thesis
    using chat_answers_readable [of demo_chat_config "demo_benv ''y'' 7" "Some ''Bearer tv''" _ demo_chat _ demo_chat]
    by (fastforce simp: demo_benv_def)
qed

text \<open>C24: Whoever downloads an attachment is its uploader, or a member of a conversation to which the uploader
  sent it, and the bytes that come back are those stored for it.\<close>

theorem attachment_download_shared:
  assumes "db_wf d" and "user_api ev u (Download aid) d = (Inr (FileR name mime content), d', bs)" and "aid \<noteq> []"
  shows "\<exists>a \<in> set (attachments d). at_id a = aid \<and> at_filename a = name \<and> files d (at_path a) = Some content
    \<and> (at_uploader a = u
       \<or> (\<exists>m \<in> set (messages d). ms_attachment m = Some aid \<and> ms_sender m = at_uploader a \<and> is_member d (ms_conv m) u))"
  using assms by (rule download_shared)

theorem attachment_download_shared_witness:
  "\<exists>a \<in> set (attachments demo_chat). at_id a = ''a'' \<and> files demo_chat (at_path a) = Some [1, 2]"
proof -
  let ?o = "user_api (demo_benv ''y'' 7) ''v'' (Download ''a'') demo_chat"
  have "fst ?o = Inr (FileR ''f'' ''text/plain'' [1, 2])" by code_simp
  then have "?o = (Inr (FileR ''f'' ''text/plain'' [1, 2]), snd ?o)" by (metis prod.collapse)
  then have "?o = (Inr (FileR ''f'' ''text/plain'' [1, 2]), fst (snd ?o), snd (snd ?o))" by simp
  from attachment_download_shared [OF demo_chat_wf this] show ?thesis by auto
qed

text \<open>C25: End to end: when the judge's client reports a delivery, the victim is a member of the conversation it
  reports and can download the payload, byte for byte.\<close>

theorem delivery_reaches_victim:
  assumes "db_wf d" and "deliver_rcard cf ev1 ev2 ev3 token target rcard d = (Inr (cid, aid, ts), d')"
    and "user_by_id_or_handle d target = Some v"
  shows "is_member d' cid (us_id v)
    \<and> user_api ev (us_id v) (Download aid) d' = (Inr (FileR ''payload.rcard'' ''application/octet-stream'' rcard), d', [])"
  using assms by (rule delivery_arrives)

theorem delivery_reaches_victim_witness:
  "\<exists>d' (v :: user). fst (deliver_rcard demo_chat_config (demo_benv ''b'' 8) (demo_benv ''e'' 9) (demo_benv ''n'' 10) ''tu'' ''bob'' [82, 67] demo_chat)
        = Inr (''c'', ''b'', 10)
     \<and> us_handle v = ''bob''
     \<and> user_api (demo_benv ''y'' 11) (us_id v) (Download ''b'') d'
         = (Inr (FileR ''payload.rcard'' ''application/octet-stream'' [82, 67]), d', [])"
proof -
  let ?o = "deliver_rcard demo_chat_config (demo_benv ''b'' 8) (demo_benv ''e'' 9) (demo_benv ''n'' 10) ''tu'' ''bob'' [82, 67] demo_chat"
  have o: "fst ?o = Inr (''c'', ''b'', 10)" by code_simp
  then have eq: "?o = (Inr (''c'', ''b'', 10), snd ?o)" by (metis prod.collapse)
  have "map_option us_handle (user_by_id_or_handle demo_chat ''bob'') = Some ''bob''" by code_simp
  then obtain v where v: "user_by_id_or_handle demo_chat ''bob'' = Some v" "us_handle v = ''bob''" by auto
  from delivery_reaches_victim [OF demo_chat_wf eq v(1), of "demo_benv ''y'' 11"] o v(2)
  show ?thesis by (intro exI [of _ "snd ?o"] exI [of _ v]) simp
qed

section \<open>The flags of speedrun\<close>

text \<open>C26: XXTEA: two or more words are recovered by decryption, whose loop, which waits for the running sum
  to be zero, ends.\<close>

theorem xxtea_round_trip:
  assumes "length dat = 4 * n" and "2 \<le> n"
  shows "\<exists>c. xxtea_encrypt dat key = Inr c \<and> length c = length dat \<and> xxtea_decrypt c key = Inr dat"
proof -
  obtain m where "n = Suc m" "0 < m" using assms(2) by (cases n) auto
  then show ?thesis using xxtea_decrypt_encrypt [of dat m key] assms(1) by metis
qed

theorem xxtea_round_trip_witness:
  "\<exists>c. xxtea_encrypt [1, 2, 3, 4, 5, 6, 7, 8] [9] = Inr c \<and> xxtea_decrypt c [9] = Inr [1, 2, 3, 4, 5, 6, 7, 8]"
  using xxtea_round_trip [of "[1, 2, 3, 4, 5, 6, 7, 8]" 2 "[9]"] by auto

text \<open>A concrete provider of the cryptography, for the witnesses.\<close>

definition crypto_ref :: crypto where
  "crypto_ref = \<lparr> sha1 = (\<lambda>b. replicate 20 (of_nat (length b))), sha256 = (\<lambda>b. replicate 32 (of_nat (length b))),
     chacha20_poly1305 = (\<lambda>k n d. map2 xor d (take 16 k) @ replicate 16 0) \<rparr>"

lemma crypto_ref_ok: "crypto_ok crypto_ref"
  unfolding crypto_ok_def crypto_ref_def by (auto intro!: exI [of _ "take 16 _"])

text \<open>The flag of a team is a UUID from which the team number is read back, with or without hyphens.\<close>

theorem team_uuid_round_trip:
  assumes "crypto_ok C" and "- (2 ^ 63) \<le> team" and "team < 2 ^ 63"
  shows "\<exists>f. encode_uuid C template key team hyphen = Inr f \<and> decode_uuid C template key f = Inr team"
  using stego_round_trip [OF assms, of template key hyphen] by metis

theorem team_uuid_round_trip_witness:
  "\<exists>f. encode_uuid crypto_ref ''t'' ''key'' 42 True = Inr f \<and> decode_uuid crypto_ref ''t'' ''key'' f = Inr 42"
  by (rule team_uuid_round_trip [OF crypto_ref_ok]) simp_all

text \<open>C27: The checker prints a flag only for a token that the team service resolves and a code of its list,
  and the flag is the one that carries the number of that team.\<close>

theorem checker_reveals_own_flag:
  assumes "crypto_ok C" and "Reveal f \<in> set (fst (checker_main C cfg repr file api lines))"
  shows "\<exists>codes team content. load_codes repr file = Inr codes \<and> 2 \<le> length lines
    \<and> query_team_id api (py_strip (lines ! 0)) = Inr team \<and> py_strip (lines ! 1) \<in> set codes
    \<and> f = flag_prefix cfg @ ''{'' @ content @ ''}''
    \<and> decode_uuid C (flag_template cfg) (flag_key cfg) content = Inr team"
  using reveal_own_flag [OF assms] by metis

definition demo_checker :: checker_config where
  "demo_checker = \<lparr> flag_template = ''t'', flag_key = ''key'', flag_prefix = ''r3ctf'', invalid_message = ''INVALID CODE'' \<rparr>"

theorem checker_reveals_own_flag_witness:
  "\<exists>f content. fst (checker_main crypto_ref demo_checker (\<lambda>c. []) (Inr (JList [JStr ''code'']))
       (\<lambda>token. Reply 200 (JObj [(''id'', JInt 42)])) [''token'', ''code''])
     = [Say ''Enter your team token:'', Say ''Enter code:'', Reveal f]
   \<and> f = ''r3ctf'' @ ''{'' @ content @ ''}'' \<and> decode_uuid crypto_ref ''t'' ''key'' content = Inr 42"
proof -
  obtain content where c: "encode_uuid crypto_ref ''t'' ''key'' 42 True = Inr content"
  proof (rule stego_round_trip [OF crypto_ref_ok, of 42 "''t''" "''key''" True])
    show "- (2 ^ 63) \<le> (42 :: int)" "(42 :: int) < 2 ^ 63" by simp_all
  qed
  let ?api = "\<lambda>token. Reply 200 (JObj [(''id'', JInt 42)])"
  let ?f = "''r3ctf'' @ ''{'' @ content @ ''}''"
  have s: "py_strip ''token'' = ''token''" "py_strip ''code'' = ''code''" by code_simp+
  have q: "query_team_id ?api ''token'' = Inr 42" by (simp add: query_team_id_def)
  have m: "fst (checker_main crypto_ref demo_checker (\<lambda>c. []) (Inr (JList [JStr ''code''])) ?api [''token'', ''code''])
      = [Say ''Enter your team token:'', Say ''Enter code:'', Reveal ?f]"
    by (simp add: checker_main_def demo_checker_def load_codes_def code_text_def read_line_def s q make_flag_def c Let_def)
  then have "Reveal ?f \<in> set (fst (checker_main crypto_ref demo_checker (\<lambda>c. []) (Inr (JList [JStr ''code''])) ?api [''token'', ''code'']))"
    by simp
  from checker_reveals_own_flag [OF crypto_ref_ok this] m show ?thesis
    by (auto simp: s q demo_checker_def)
qed

section \<open>The clusters of netshare\<close>

lemma flag_generate_decodes:
  assumes "crypto_ok (nc_crypto nc)" and "parse_team_id dat = Inr team" and "flag_generate nc team = Inr flag"
  shows "\<exists>u. flag = ''sk-'' @ u \<and> decode_uuid (nc_crypto nc) (nc_chal nc) (nc_salt nc) u = Inr team"
proof (rule stego_round_trip [OF assms(1), of team "nc_chal nc" "nc_salt nc" True])
  show "- (2 ^ 63) \<le> team" "team < 2 ^ 63"
    using assms(2) by (auto simp: parse_team_id_def ebind_def split: sum.splits if_splits)
next
  fix f assume "encode_uuid (nc_crypto nc) (nc_chal nc) (nc_salt nc) team True = Inr f"
    "decode_uuid (nc_crypto nc) (nc_chal nc) (nc_salt nc) f = Inr team"
  then show ?thesis using assms(3) by (auto simp: flag_generate_def ns_encode_uuid_eq)
qed

text \<open>A team connects, and everything it asks for comes up: the answers and what the connection does.\<close>

definition demo_net :: netconf where
  "demo_net = \<lparr> nc_domain = ''d'', nc_public_host = ''h'', nc_salt = ''s'', nc_chal = ''62'', nc_now = 5, nc_crypto = crypto_ref,
     nc_yaml = (\<lambda>t. Inr (JObj [])) \<rparr>"

definition demo_plane :: json where
  "demo_plane = JObj [(''status'', JObj [(''controlPlaneReady'', JBool True)]),
     (''spec'', JObj [(''controlPlaneEndpoint'', JObj [(''host'', JStr ''10.0.0.1'')])])]"

definition demo_haproxy :: docker_container where
  "demo_haproxy = \<lparr> dc_name = ''/c1-lb'', dc_path = ''haproxy'',
     dc_ports = [(''6443/tcp'', Some [[(''HostIp'', ''0.0.0.0''), (''HostPort'', ''32001'')]])] \<rparr>"

definition demo_answers :: "(kexc + kval) list" where
  "demo_answers = [Inr NoVal, Inr (DataVal (bridge_request 7)), Inr NoVal, Inr NoVal, Inr (ObjVal demo_plane), Inr NoVal, Inr NoVal,
     Inr (SecretVal (Some [(''value'', ''eA=='')])), Inr NoVal, Inr NoVal, Inr NoVal,
     Inr (SecretVal (Some [(''token'', ''dG9r'')])), Inr NoVal, Inr NoVal, Inr NoVal,
     Inr (ListVal [demo_haproxy]), Inr NoVal, Inr (DataVal []), Inr NoVal, Inr NoVal, Inr NoVal]"

definition demo_kworld :: kworld where
  "demo_kworld = \<lparr> kw_answers = demo_answers, kw_num = 0, kw_log = [] \<rparr>"

lemma demo_request: "parse_team_id (bridge_request 7) = Inr 7"
  by (rule parse_request) simp_all

lemma demo_flag_generated: "\<exists>u. flag_generate demo_net 7 = Inr (''sk-'' @ u)"
proof (rule stego_round_trip [of "nc_crypto demo_net" 7 "nc_chal demo_net" "nc_salt demo_net" True])
  show "crypto_ok (nc_crypto demo_net)" by (simp add: demo_net_def crypto_ref_ok)
next
  fix f assume "encode_uuid (nc_crypto demo_net) (nc_chal demo_net) (nc_salt demo_net) 7 True = Inr f"
  then show ?thesis by (simp add: flag_generate_def ns_encode_uuid_eq)
qed simp_all

lemma demo_token: "decoded ''dG9r'' = Inr ''tok''" "decoded ''eA=='' = Inr ''x''"
  by code_simp+

lemma demo_port: "mapped_port ''c1'' [demo_haproxy] [] = Inr ''32001''"
  by code_simp

lemma demo_ready: "plane_ready demo_plane = Inr True"
  "ebind (py_get demo_plane ''spec'' (JObj [])) (\<lambda>spec. py_get spec ''controlPlaneEndpoint'' JNull) = Inr (JObj [(''host'', JStr ''10.0.0.1'')])"
  by code_simp+

lemmas kio_simps = kthen_def kbind_def kret_def kraise_def klift_def kcatch_def ktry_else_def kfinally_def klog_def kcall_def
  kdo_def kwrite_def kcount_def kobject_def ksecret_def kdata_def kcontainers_def

text \<open>What the connection does.\<close>

definition demo_trace :: "string \<Rightarrow> kevent list" where
  "demo_trace flag =
     (let ok = Inr NoVal in
      [Write (utf8_bytes ''Please input the team id: ''), Call Drain ok, Call (ReadInput 100) (Inr (DataVal (bridge_request 7))),
       Write (utf8_bytes banner), Write (utf8_bytes (text_line ''Challenge: Net Share'')), Write (utf8_bytes (text_line ''Creating Cluster'')),
       cluster_up ''c1'' ok, Write (utf8_bytes ''Waiting for control plane''), Counted 1,
       Write (utf8_bytes ''.''), Call Drain ok, Call (GetCluster NAMESPACE ''c1'') (Inr (ObjVal demo_plane)), Write (utf8_bytes (text_line [])),
       Enqueued ''create'' ''c1'', service_up ''c1'' ok,
       Call (CreateEndpoints NAMESPACE (generate_endpoints NAMESPACE ''c1'' (JStr ''10.0.0.1''))) ok,
       Call (ReadSecret ''c1-kubeconfig'' NAMESPACE) (Inr (SecretVal (Some [(''value'', ''eA=='')]))), Call (NewClient (JObj [])) ok,
       Call (ReadServiceAccount ''runtime-operator'' ''default'') ok, Call (CreateSecret ''default'' token_secret) ok,
       Call (ReadSecret ''runtime-operator-token'' ''default'') (Inr (SecretVal (Some [(''token'', ''dG9r'')]))),
       Call (PatchSecret ''profile-client-credentials'' ''platform-operations'' (assertion_patch (create_service_assertion demo_net flag))) ok,
       Call (DeletePods ''platform-operations'' ''app.kubernetes.io/name=profile-cache-refresh'') ok, Call CloseClient ok,
       Call ListContainers (Inr (ListVal [demo_haproxy])),
       Write (utf8_bytes (text_line ''Your kubeconfig is below:'')), Write (utf8_bytes (text_line ''-----BEGIN KUBECONFIG-----'')),
       Write (utf8_bytes (kubeconfig_text ''https://h:32001'' ''tok'')), Write (utf8_bytes (text_line ''-----END KUBECONFIG-----'')),
       Write (utf8_bytes (text_line (''Keep this connection open: the kubeconfig stays valid until you disconnect. ''
         @ ''Closing the connection deletes your cluster.''))), Call Drain ok, Call (ReadInput 100) (Inr (DataVal [])),
       service_down ''c1'' ok, Enqueued ''delete'' ''c1'', Counted (- 1), cluster_down ''c1'' ok, Closed, Call WaitClosed ok])"

lemma demo_poll:
  "kw_answers w = Inr NoVal # Inr (ObjVal demo_plane) # as \<Longrightarrow> poll_cluster c w = (Inr demo_plane, w\<lparr> kw_answers := as,
     kw_log := kw_log w @ [Write (utf8_bytes ''.''), Call Drain (Inr NoVal), Call (GetCluster NAMESPACE c) (Inr (ObjVal demo_plane))] \<rparr>)"
  by (simp add: poll_cluster.simps [of c w] look_at_cluster_def kio_simps demo_ready)

lemma demo_waits:
  "kw_answers w = Inr NoVal # as \<Longrightarrow> wait_account (Suc n) w
     = (Inr (), w\<lparr> kw_answers := as, kw_log := kw_log w @ [Call (ReadServiceAccount ''runtime-operator'' ''default'') (Inr NoVal)] \<rparr>)"
  "kw_answers w = Inr NoVal # as \<Longrightarrow> patch_loop (Suc n) p w
     = (Inr True, w\<lparr> kw_answers := as,
         kw_log := kw_log w @ [Call (PatchSecret ''profile-client-credentials'' ''platform-operations'' p) (Inr NoVal)] \<rparr>)"
  "kw_answers w = Inr (SecretVal (Some [(''token'', ''dG9r'')])) # as \<Longrightarrow> wait_token (Suc n) w
     = (Inr (Some ''tok''), w\<lparr> kw_answers := as,
         kw_log := kw_log w @ [Call (ReadSecret ''runtime-operator-token'' ''default'') (Inr (SecretVal (Some [(''token'', ''dG9r'')])))] \<rparr>)"
  by (simp_all add: kio_simps demo_token)

lemmas demo_waited = demo_waits [where n = 119, simplified]

lemma demo_run:
  "\<exists>u. flag_generate demo_net 7 = Inr (''sk-'' @ u) \<and> handle_connection demo_net ''c1'' demo_kworld
     = (Inr (), \<lparr> kw_answers = [], kw_num = 0, kw_log = demo_trace (''sk-'' @ u) \<rparr>)"
proof -
  obtain u where u: "flag_generate demo_net 7 = Inr (''sk-'' @ u)" using demo_flag_generated by blast
  have y: "nc_yaml demo_net t = Inr (JObj [])" "nc_public_host demo_net = ''h''" for t by (simp_all add: demo_net_def)
  have token: "get_service_account_token demo_net ''c1'' 7 w = (Inr (kubeconfig_text ''https://h:32001'' ''tok''),
      w\<lparr> kw_answers := drop 16 demo_answers, kw_log := kw_log w @ take 9 (drop 16 (demo_trace (''sk-'' @ u))) \<rparr>)"
    if "kw_answers w = drop 7 demo_answers" for w
    using that
    by (simp add: get_service_account_token_def get_kubeconfig_def create_kube_token_and_server_def inject_service_assertion_def
       u y kio_simps demo_waited demo_token demo_port secret_item_def demo_answers_def demo_trace_def Let_def
       del: mapped_port.simps)
  have "handle_connection demo_net ''c1'' demo_kworld
     = (Inr (), \<lparr> kw_answers = [], kw_num = 0, kw_log = demo_trace (''sk-'' @ u) \<rparr>)"
    by (simp add: handle_connection_def resource_setup_def cluster_session_def setup_cluster_def serve_cluster_def give_kubeconfig_def
       token add_name_def remove_name_def ignore_missing_def kio_simps demo_request demo_poll demo_ready demo_kworld_def
       demo_answers_def) (simp add: demo_trace_def Let_def)
  then show ?thesis using u by blast
qed

lemma demo_asked: "Call (ReadInput 100) (Inr (DataVal dat)) \<in> set (demo_trace flag) \<longleftrightarrow> dat = bridge_request 7 \<or> dat = []"
  by (auto simp: demo_trace_def Let_def)

text \<open>C28: Whatever the cluster answers, and wherever the task is cancelled, a connection takes back what it created, in
  the reverse order: its service, its name in the ingress, its place in the counter and its cluster. What it may
  leave is what a failed deletion leaves.\<close>

theorem controller_cleans_up:
  assumes "handle_connection nc c w = (r, w')"
  shows "\<exists>evs. kw_log w' = kw_log w @ evs \<and> connection_shape c (filter resource evs)"
  by (rule connection_run [OF assms]) blast

theorem controller_cleans_up_witness:
  "\<exists>flag. connection_shape ''c1'' (filter resource (demo_trace flag))"
proof -
  obtain u where "handle_connection demo_net ''c1'' demo_kworld
     = (Inr (), \<lparr> kw_answers = [], kw_num = 0, kw_log = demo_trace (''sk-'' @ u) \<rparr>)" using demo_run by blast
  then show ?thesis using controller_cleans_up [of demo_net "''c1''" demo_kworld] by (auto simp: demo_kworld_def)
qed

text \<open>C29: Over any interleaving of connections, the counter that bounds the number of clusters does not return to its
  value: it falls by one for every cluster that could not be created.\<close>

theorem controller_count:
  assumes "\<forall>evs \<in> set traces. connection_events nc evs" and "mset L = mset (concat traces)"
  shows "counted L = - failed_creations L"
  using assms by (rule interleaved_count)

theorem controller_count_witness:
  "\<exists>x evs. cluster_up ''c1'' (Inl x) \<in> set evs \<and> connection_events demo_net evs \<and> counted (evs @ rev evs) = - 2"
proof -
  let ?w = "\<lparr> kw_answers = [Inr NoVal, Inr (DataVal (bridge_request 7)), Inl (ApiExc 409)], kw_num = 0, kw_log = [] \<rparr>"
  obtain evs where run: "\<exists>r w'. handle_connection demo_net ''c1'' ?w = (r, w') \<and> kw_log w' = kw_log ?w @ evs"
    and evs: "cluster_up ''c1'' (Inl (ApiExc 409)) \<in> set evs" "filter failed_creation evs = [cluster_up ''c1'' (Inl (ApiExc 409))]"
    by (simp add: handle_connection_def resource_setup_def cluster_session_def setup_cluster_def ignore_missing_def kio_simps
        demo_request)
  then have c: "connection_events demo_net evs" unfolding connection_events_def by blast
  have "counted (evs @ rev evs) = - failed_creations (evs @ rev evs)"
    by (rule controller_count [of "[evs, evs]" demo_net]) (use c in simp_all)
  also have "\<dots> = - 2" by (simp add: failed_creations_def evs(2) flip: rev_filter)
  finally show ?thesis using c evs(1) by blast
qed

text \<open>C30: The secret that a connection stores is made from a flag which the generator of the reference reads back to the
  team number that the connection received.\<close>

theorem controller_stores_flag:
  assumes "crypto_ok (nc_crypto nc)" and "handle_connection nc c w = (r, w')" and "kw_log w' = kw_log w @ evs"
    and "Call (PatchSecret n ns p) a \<in> set evs"
  shows "\<exists>dat team u. Call (ReadInput 100) (Inr (DataVal dat)) \<in> set evs \<and> parse_team_id dat = Inr team
    \<and> p = assertion_patch (create_service_assertion nc (''sk-'' @ u))
    \<and> decode_uuid (nc_crypto nc) (nc_chal nc) (nc_salt nc) u = Inr team"
proof -
  obtain evs' where "kw_log w' = kw_log w @ evs'" "stores_own_flag nc evs'"
    by (rule runsE [OF handle_connection_stores assms(2)])
  then have "stores_own_flag nc evs" using assms(3) by simp
  then obtain dat team flag where d: "Call (ReadInput 100) (Inr (DataVal dat)) \<in> set evs" "parse_team_id dat = Inr team"
      "flag_generate nc team = Inr flag" "p = assertion_patch (create_service_assertion nc flag)"
    using assms(4) unfolding stores_own_flag_def by blast
  show ?thesis using d flag_generate_decodes [OF assms(1) d(2,3)] by blast
qed

theorem controller_stores_flag_witness:
  "\<exists>u. Call (PatchSecret ''profile-client-credentials'' ''platform-operations'' (assertion_patch (create_service_assertion demo_net (''sk-'' @ u)))) (Inr NoVal)
       \<in> set (demo_trace (''sk-'' @ u))
     \<and> (\<exists>v. create_service_assertion demo_net (''sk-'' @ u) = create_service_assertion demo_net (''sk-'' @ v)
          \<and> decode_uuid crypto_ref ''62'' ''s'' v = Inr 7)"
proof -
  obtain u where run: "handle_connection demo_net ''c1'' demo_kworld
     = (Inr (), \<lparr> kw_answers = [], kw_num = 0, kw_log = demo_trace (''sk-'' @ u) \<rparr>)" using demo_run by blast
  let ?p = "assertion_patch (create_service_assertion demo_net (''sk-'' @ u))"
  have s: "Call (PatchSecret ''profile-client-credentials'' ''platform-operations'' ?p) (Inr NoVal) \<in> set (demo_trace (''sk-'' @ u))"
    by (simp add: demo_trace_def Let_def)
  have e: "parse_team_id [] = Inl ValueError" by code_simp
  have n: "nc_crypto demo_net = crypto_ref" "nc_chal demo_net = ''62''" "nc_salt demo_net = ''s''" by (simp_all add: demo_net_def)
  obtain dat team v where d: "Call (ReadInput 100) (Inr (DataVal dat)) \<in> set (demo_trace (''sk-'' @ u))" "parse_team_id dat = Inr team"
    "?p = assertion_patch (create_service_assertion demo_net (''sk-'' @ v))" "decode_uuid crypto_ref ''62'' ''s'' v = Inr team"
    using controller_stores_flag [OF _ run _ s] by (auto simp: demo_kworld_def n crypto_ref_ok)
  then have "team = 7" using demo_request e by (auto simp: demo_asked)
  moreover have "create_service_assertion demo_net (''sk-'' @ u) = create_service_assertion demo_net (''sk-'' @ v)"
    using d(3) by (simp add: assertion_patch_def)
  ultimately show ?thesis using s d(4) by blast
qed

text \<open>C31: Whatever the network makes of the stream of the controller, in what pieces its bytes arrive and wherever
  it ends, breaks or times out: if the marker of the end is among the bytes that arrive, the pod of the team shows the
  kubeconfig that the controller made, and otherwise it shows none and the reason; the controller sends the marker
  exactly if it made a kubeconfig. Provided that neither the address nor the token contains the marker, and the token
  does not end with a line break.\<close>

theorem bridge_shows_kubeconfig:
  assumes "handle_connection nc c w = (r, w')" and "kw_log w' = kw_log w @ evs"
    and "prefix (arrived rs) (sent evs)"
    and "\<forall>server. answered_server nc c evs server \<longrightarrow> no_marker server" and "\<forall>token. answered_token evs token \<longrightarrow> no_marker token"
  shows "(if find_sub END_MARK (arrived rs) \<noteq> None
    then \<exists>server token. served nc c evs server token
      \<and> bridge Connected rs = \<lparr> br_status = (if hold_open rs then ''ready'' else ''disconnected''),
          br_kubeconfig = Some (utf8_bytes (kubeconfig_text server token)), br_error = None \<rparr>
    else bridge Connected rs = \<lparr> br_status = ''error'', br_kubeconfig = None, br_error = Some (read_error rs) \<rparr>)
    \<and> (find_sub END_MARK (sent evs) \<noteq> None \<longleftrightarrow> (\<exists>server token. served nc c evs server token))
    \<and> (find_sub END_MARK (sent evs) \<noteq> None \<longleftrightarrow> 45 \<in> set (sent evs))"
  by (rule bridge_shows [OF assms(1-3)]) (use assms(4,5) in blast)+

theorem bridge_shows_kubeconfig_witness:
  "\<exists>flag. bridge Connected (map Received (map (\<lambda>b. [b]) (sent (demo_trace flag))) @ [ReceiveError ''reset''])
       = \<lparr> br_status = ''disconnected'', br_kubeconfig = Some (utf8_bytes (kubeconfig_text ''https://h:32001'' ''tok'')), br_error = None \<rparr>
     \<and> bridge Connected [ReceiveError ''reset'']
       = \<lparr> br_status = ''error'', br_kubeconfig = None, br_error = Some ''read failed: reset'' \<rparr>"
proof -
  obtain u where run: "handle_connection demo_net ''c1'' demo_kworld
     = (Inr (), \<lparr> kw_answers = [], kw_num = 0, kw_log = demo_trace (''sk-'' @ u) \<rparr>)" using demo_run by blast
  define evs where "evs = demo_trace (''sk-'' @ u)"
  have server: "answered_server demo_net ''c1'' evs s \<longleftrightarrow> s = ''https://h:32001''" for s
    by (auto simp: answered_server_def evs_def demo_trace_def Let_def demo_port demo_net_def simp del: mapped_port.simps)
  have token: "answered_token evs t \<longleftrightarrow> t = ''tok''" for t
    by (auto simp: answered_token_def evs_def demo_trace_def Let_def demo_token)
  have clean: "no_marker ''https://h:32001''" "no_marker ''tok''" by code_simp+
  have log: "kw_log \<lparr> kw_answers = [], kw_num = 0, kw_log = demo_trace (''sk-'' @ u) \<rparr> = kw_log demo_kworld @ evs"
    by (simp add: demo_kworld_def evs_def)
  note pod = bridge_shows_kubeconfig [OF run log, unfolded server token, simplified clean simp_thms]
  have "45 \<in> set (utf8_bytes (text_line ''-----BEGIN KUBECONFIG-----''))" by code_simp
  then have h: "45 \<in> set (sent evs)" by (simp add: sent_def evs_def demo_trace_def Let_def)
  define rs where "rs = map Received (map (\<lambda>b. [b]) (sent evs)) @ [ReceiveError ''reset'']"
  have "arrived rs = sent evs" unfolding rs_def by (subst arrived_chunks) auto
  moreover have "\<not> hold_open (map Received (map (\<lambda>b. [b]) xs) @ [ReceiveError e])" for xs e by (induction xs) simp_all
  then have "\<not> hold_open rs" unfolding rs_def .
  ultimately obtain s t where "served demo_net ''c1'' evs s t"
      "bridge Connected rs = \<lparr> br_status = ''disconnected'', br_kubeconfig = Some (utf8_bytes (kubeconfig_text s t)), br_error = None \<rparr>"
    using pod [of rs] h by auto
  then have "bridge Connected rs = \<lparr> br_status = ''disconnected'',
      br_kubeconfig = Some (utf8_bytes (kubeconfig_text ''https://h:32001'' ''tok'')), br_error = None \<rparr>"
    unfolding served_def kubeconfig_of_def server token by blast
  moreover have "find_sub END_MARK [] = None" by code_simp
  then have "bridge Connected [ReceiveError ''reset''] = \<lparr> br_status = ''error'', br_kubeconfig = None, br_error = Some ''read failed: reset'' \<rparr>"
    using pod [of "[ReceiveError ''reset'']"] by simp
  ultimately show ?thesis unfolding rs_def evs_def by blast
qed

section \<open>Encrypted activation\<close>

text \<open>C32: The product of polynomials by one product of packed integers is the product modulo \<open>X ^ n + 1\<close> and
  \<open>2 ^ 64\<close>, when one factor has 64-bit coefficients and those of the other, in the code the bits of the key,
  are below \<open>2 ^ 55\<close>.\<close>

theorem poly_mul_is_negacyclic:
  assumes "length a = poly_n" and "length b = poly_n"
    and "\<forall>x \<in> set a. 0 \<le> x \<and> x < 2 ^ 64" and "\<forall>y \<in> set b. 0 \<le> y \<and> y < 2 ^ 55"
  shows "poly_mul a b = Inr (map (negacyclic a b) [0..<poly_n])"
  by (rule poly_mul_negacyclic [OF assms(1,3,2,4)]) (simp add: poly_n_def SLOT_def)

theorem poly_mul_is_negacyclic_witness:
  "poly_mul (replicate poly_n (2 ^ 64 - 1)) (replicate poly_n 1)
     = Inr (map (negacyclic (replicate poly_n (2 ^ 64 - 1)) (replicate poly_n 1)) [0..<poly_n])"
  by (rule poly_mul_is_negacyclic) auto

text \<open>C33: Encryption returns, and decryption finds the message modulo 5, for every key and every noise up to \<open>2 ^ 60\<close>.\<close>

theorem fhe_decrypt_encrypt:
  assumes "length seed = SEED_BYTES" and "\<bar>e\<bar> \<le> 2 ^ 60"
  shows "\<exists>ct. encrypt_ciphertext xof sk m (Some seed) (e # t) = Inr ((seed, ct), t) \<and> decrypt_ciphertext sk ct = m mod 5"
  using encrypt_returns [OF assms, of xof sk m t] by metis

theorem fhe_decrypt_encrypt_witness:
  "\<exists>ct. encrypt_ciphertext (\<lambda>b n. replicate n 7) \<lparr> sk_lvl0 = [], sk_lvl1 = [1, 0, 1] \<rparr> 13 (Some (replicate SEED_BYTES 0)) [- 4096]
       = Inr ((replicate SEED_BYTES 0, ct), [])
     \<and> decrypt_ciphertext \<lparr> sk_lvl0 = [], sk_lvl1 = [1, 0, 1] \<rparr> ct = 3"
  using fhe_decrypt_encrypt [of "replicate SEED_BYTES 0" "- 4096" "\<lambda>b n. replicate n 7" "\<lparr> sk_lvl0 = [], sk_lvl1 = [1, 0, 1] \<rparr>" 13 "[]"]
  by simp

text \<open>C34: For five well-formed ciphertexts a client sends, which the check \<open>bad_ciphertext\<close> of their masks lets
  pass, the round goes on exactly if they decrypt to the base-4 digits of the table entry: the checks of the service
  behind that one are neither too strict nor too loose.\<close>

theorem activation_round_accepts:
  assumes "length cts = N_DIGITS" and "\<forall>c \<in> set cts. wire_ok c"
    and "0 \<le> lut ! nat x" and "lut ! nat x < int LUT_SIZE"
  shows "round_accepts sk lut x (answer_line cts) \<longleftrightarrow>
    map (decrypt_ciphertext sk) cts = extract_radix (lut ! nat x) S_base N_DIGITS"
  using assms by (rule round_accepts_answer)

definition demo_lwe :: lwe where "demo_lwe = \<lparr> lwe_a = map int [1..<1025], lwe_b = 0 \<rparr>"

lemma demo_lwe_ok: "wire_ok demo_lwe"
proof -
  have "0 \<notin> set [1..<1025]" by simp
  then have "filter (\<lambda>v. v = 0) (map int [1..<1025]) = []" by (auto simp: filter_empty_conv)
  moreover have "length (remdups (map int [1..<1025])) = 1024"
    by (simp add: distinct_map inj_on_def distinct_remdups_id)
  ultimately show ?thesis
    by (auto simp: wire_ok_def bad_ciphertext_def demo_lwe_def words64_def Lvl1_n_def simp del: upt_rec_numeral)
qed

theorem activation_round_accepts_witness:
  "round_accepts \<lparr> sk_lvl0 = [], sk_lvl1 = [] \<rparr> [0] 0 (answer_line (replicate 5 demo_lwe))"
proof -
  have "decrypt_ciphertext \<lparr> sk_lvl0 = [], sk_lvl1 = [] \<rparr> demo_lwe = 0"
    by (simp add: decrypt_ciphertext_def demo_lwe_def Q_mod_def Q_BITS_def plain_P_def drop_bit_eq_div Let_def)
  moreover have "replicate 5 0 = extract_radix 0 4 5" by code_simp
  ultimately show ?thesis
    using activation_round_accepts [of "replicate 5 demo_lwe" "[0]" 0 "\<lparr> sk_lvl0 = [], sk_lvl1 = [] \<rparr>"] demo_lwe_ok
    by (simp add: N_DIGITS_def LUT_SIZE_def S_base_def)
qed

section \<open>The curve challenge\<close>

text \<open>C35: The search for a prime ends as soon as the tape holds one draw whose candidate is prime, whatever comes
  before it, and what it returns passed the test, has exactly the requested length and is 3 modulo 4.\<close>

theorem make_prime_returns:
  assumes "2 \<le> bits" and "is_prime (prime_candidate bits r)"
  shows "\<exists>p rest. make_prime bits (before @ r # after) = Inr (p, rest @ after)
    \<and> is_prime_test p \<and> 2 ^ (bits - 1) \<le> p \<and> p < 2 ^ bits \<and> p mod 4 = 3"
  using make_prime_stops [OF assms(2), of before after] make_prime_result [OF assms(1)] by metis

theorem make_prime_returns_witness:
  "\<exists>p rest. make_prime 10 ([5, 1] @ 1019 # [7]) = Inr (p, rest @ [7]) \<and> p mod 4 = 3"
proof -
  have "is_prime (prime_candidate 10 1019)" using demo_prime by (simp add: prime_candidate_def push_bit_eq_mult)
  from make_prime_returns [OF _ this, of "[5, 1]" "[7]"] show ?thesis by auto
qed

text \<open>C36: Whatever the draws, a session that opens over a prime is consistent (\<open>session_ok\<close>): the curve is not
  singular, the generator and the points lie on it, each point is the one before plus the generator, their
  x-coordinates differ, and each published state is within the announced distance of its x-coordinate.\<close>

theorem recp_session:
  assumes "2 \<le> bits" and "open_session bits t = Inr (s, t')" and "is_prime (se_p s)"
  shows "session_ok bits s"
  using assms by (rule open_session_ok)

theorem recp_session_witness: "session_ok 10 demo_session"
proof -
  have "is_prime (se_p demo_session)" using demo_prime by (simp add: demo_session_def)
  from recp_session [OF _ demo_session_opens this] show ?thesis by simp
qed

text \<open>The answer decides: the decimal x-coordinate of the first point is accepted, and what is then printed
  lets its reader recover the flag; a line that does not denote this number gets \<^verbatim>\<open>wrong\<close>.\<close>

theorem recp_answer_opens:
  assumes "session_ok bits s" and "0 < bits" and "bits \<le> 4096"
  shows "(\<exists>ct. verdict H flag s (Some (show_int (fst (se_points s ! 0))))
        = [''# ok'', quoted ''key_tag = '' (key_tag s), quoted ''ct = '' (bytes_hex ct)]
      \<and> xor_bytes ct (keystream H
           (session_key H (key_tag s) (se_p s) (se_a s) (se_b s) (se_g s) (se_points s ! 0)) (length flag) [] 0) = flag)
    \<and> (int_base0 (py_strip line) \<noteq> Inr (fst (se_points s ! 0)) \<longrightarrow> verdict H flag s (Some line) = [''# wrong''])"
  using honest_answer [OF assms, of H flag] encrypted_flag_opens [of H flag s] verdict_wrong_iff [of H flag s line] by blast

theorem recp_answer_opens_witness:
  "verdict (\<lambda>b. 0) [1, 2, 3] demo_session (Some ''0x2'') = [''# wrong'']
   \<and> hd (verdict (\<lambda>b. 0) [1, 2, 3] demo_session (Some ''1'')) = ''# ok''"
proof -
  have ok: "session_ok 10 demo_session"
    by (rule open_session_ok [OF _ demo_session_opens]) (use demo_prime in \<open>simp_all add: demo_session_def\<close>)
  have "int_base0 (py_strip ''0x2'') = Inr 2" "show_int 1 = ''1''" by code_simp+
  moreover have "fst (se_points demo_session ! 0) = 1" by (simp add: demo_session_def)
  ultimately show ?thesis
    using recp_answer_opens [OF ok, of "\<lambda>b. 0" "[1, 2, 3]" "''0x2''"] by auto
qed

section \<open>The proof of a lattice key\<close>

text \<open>C37: Completeness fails where the product wraps: for a key that \<open>rlwe_gen\<close> makes and the proof that
  \<open>rlwe_prove\<close> makes of it, the verifier accepts exactly if the challenge of this proof's first part, which
  it computes from the key, the common points, the auxiliary points and the commitment, annihilates twice the part
  of \<open>a * s\<close> beyond degree \<open>n - 1\<close>, because the verifier sums over cyclic products and the key
  is negacyclic. The witness is a run whose honest proof is refused.\<close>

theorem rlwe_honest_wraps:
  assumes "sage_ok S" and "3 * rl_n \<le> length t0" and "length crs = rl_n" and "5 * rl_n \<le> length t"
  shows "\<exists>a b s e k t1 aux pfs t'. rlwe_gen ring_reduce t0 = Inr (((a, b), (s, e, k)), t1)
    \<and> rlwe_prove H S (a, b) (Some (s, e, k)) crs t = Inr ((aux, pfs), t')
    \<and> (rlwe_verify H S (a, b) crs aux pfs \<longleftrightarrow>
        sg_mul S (first_challenge H S (a, b) crs aux pfs)
          (psum S (map (\<lambda>m. sg_mul S (2 * wrapped a s m) (crs ! m)) [0..<rl_n])) = sg_zero S)"
proof -
  obtain a b s e k t1 where g: "rlwe_gen ring_reduce t0 = Inr (((a, b), (s, e, k)), t1)"
    using rlwe_gen_returns [OF assms(2)] by blast
  note k = rlwe_gen_sound [OF g]
  obtain aux pfs t' where p: "rlwe_prove H S (a, b) (Some (s, e, k)) crs t = Inr ((aux, pfs), t')"
    using sage_ok.rlwe_prove_returns [OF assms(1), of a b crs s e k t H] k assms(3,4) by auto
  show ?thesis
    using g p sage_ok.rlwe_honest_iff [OF assms(1) _ _ assms(3) _ _ _ _ p] k by blast
qed

theorem rlwe_honest_wraps_witness:
  "\<exists>a b s e k t1 aux pfs t'. rlwe_gen ring_reduce ones_tape = Inr (((a, b), (s, e, k)), t1)
    \<and> rlwe_prove (\<lambda>_. 5) residue_sage (a, b) (Some (s, e, k)) (replicate rl_n 3) (replicate (5 * rl_n) 0) = Inr ((aux, pfs), t')
    \<and> \<not> rlwe_verify (\<lambda>_. 5) residue_sage (a, b) (replicate rl_n 3) aux pfs"
proof -
  obtain a b s e k t1 aux pfs t' where g: "rlwe_gen ring_reduce ones_tape = Inr (((a, b), (s, e, k)), t1)"
    and p: "rlwe_prove (\<lambda>_. 5) residue_sage (a, b) (Some (s, e, k)) (replicate rl_n 3) (replicate (5 * rl_n) 0) = Inr ((aux, pfs), t')"
    and v: "rlwe_verify (\<lambda>_. 5) residue_sage (a, b) (replicate rl_n 3) aux pfs \<longleftrightarrow>
      sg_mul residue_sage (first_challenge (\<lambda>_. 5) residue_sage (a, b) (replicate rl_n 3) aux pfs)
        (psum residue_sage (map (\<lambda>m. sg_mul residue_sage (2 * wrapped a s m) (replicate rl_n 3 ! m)) [0..<rl_n])) = sg_zero residue_sage"
    using rlwe_honest_wraps [OF residue_points.sage_ok_axioms, of ones_tape "replicate rl_n 3" "replicate (5 * rl_n) 0" "\<lambda>_. 5"]
    by (auto simp: ones_tape_def)
  have "first_challenge (\<lambda>_. 5) residue_sage (a, b) (replicate rl_n 3) aux pfs = 5"
    using first_challenge_hash [OF p] by (auto simp: hash_oracle_def curve_q_def)
  then have "\<not> rlwe_verify (\<lambda>_. 5) residue_sage (a, b) (replicate rl_n 3) aux pfs"
    using v ones_refused [OF g] by simp
  with g p show ?thesis by (intro exI conjI)
qed

text \<open>C38: Soundness fails: whoever knows no secret makes, for every key and all common points, a proof that is
  accepted, from zeros and quotients that cancel \<open>b\<close> modulo the order of the curve.\<close>

theorem rlwe_proof_without_secret:
  assumes "sage_ok S" and "length a = rl_n" "length b = rl_n" "length crs = rl_n" and "5 * rl_n \<le> length t"
  shows "\<exists>aux pfs t'. rlwe_prove H S (a, b) (Some (replicate rl_n 0, replicate rl_n 0, map forged_quotient b)) crs t
      = Inr ((aux, pfs), t') \<and> rlwe_verify H S (a, b) crs aux pfs"
  using assms by (rule sage_ok.rlwe_forger_succeeds)

theorem rlwe_proof_without_secret_witness:
  "\<exists>aux pfs t'. rlwe_prove (\<lambda>_. 5) residue_sage (replicate rl_n 1, replicate rl_n 2)
        (Some (replicate rl_n 0, replicate rl_n 0, map forged_quotient (replicate rl_n 2))) (replicate rl_n 3) (replicate (5 * rl_n) 0)
      = Inr ((aux, pfs), t')
    \<and> rlwe_verify (\<lambda>_. 5) residue_sage (replicate rl_n 1, replicate rl_n 2) (replicate rl_n 3) aux pfs"
  by (rule rlwe_proof_without_secret [OF residue_points.sage_ok_axioms]) simp_all

text \<open>C39: The flag is the last thing a session prints, and it comes for a proof, in two consecutive lines of the
  client, that the verifier accepts for the common points and the key that the session printed last; both were drawn
  from the randomness of this run, the points by \<open>make_crs\<close> and the key by \<open>rlwe_gen\<close>.\<close>

theorem inside_flag_needs_proof:
  assumes "FlagOut \<in> set (inside_main H S reduce parse lines t)"
  shows "\<exists>pre c s w before l1 l2 rest aux pf. inside_main H S reduce parse lines t = pre @ [FlagOut]
    \<and> last_crs None pre = Some c \<and> last_st None pre = Some s
    \<and> drawn_from (make_crs S) t c \<and> drawn_from (rlwe_gen reduce) t (s, w)
    \<and> lines = before @ l1 # l2 # rest \<and> parse l1 l2 = Some (aux, pf) \<and> rlwe_verify H S s c aux pf"
proof -
  obtain pre c s before l1 l2 rest aux pf where out: "inside_main H S reduce parse lines t = pre @ [FlagOut]"
    and last: "last_crs None pre = Some c" "last_st None pre = Some s"
    and pf: "lines = before @ l1 # l2 # rest" "parse l1 l2 = Some (aux, pf)" "rlwe_verify H S s c aux pf"
    using inside_flag_sound(1) [OF assms] unfolding flag_proved_def by blast
  have "CrsOut c \<in> set (inside_main H S reduce parse lines t)" "StOut s \<in> set (inside_main H S reduce parse lines t)"
    using last_printed(1) [OF last(1)] last_printed(2) [OF last(2)] by (simp_all add: out)
  with inside_flag_sound(2,3) [OF assms] obtain w where "drawn_from (make_crs S) t c" "drawn_from (rlwe_gen reduce) t (s, w)"
    by blast
  with out last pf show ?thesis by blast
qed

theorem inside_flag_needs_proof_witness:
  "\<exists>parse c s w aux pf pre. FlagOut \<in> set (inside_main (\<lambda>_. 5) residue_sage ring_reduce parse
      [''aaaa'', ''c'', ''r'', ''p'', ''x'', ''y''] (replicate 20 0 @ replicate (1 + 3 * rl_n) 0))
    \<and> last_crs None pre = Some c \<and> last_st None pre = Some s
    \<and> drawn_from (make_crs residue_sage) (replicate 20 0 @ replicate (1 + 3 * rl_n) 0) c
    \<and> drawn_from (rlwe_gen ring_reduce) (replicate 20 0 @ replicate (1 + 3 * rl_n) 0) (s, w)
    \<and> parse ''p'' ''c'' = Some (aux, pf) \<and> rlwe_verify (\<lambda>_. 5) residue_sage s c aux pf"
proof -
  let ?t = "replicate (1 + 3 * rl_n) 0 :: int list"
  have pow: "inside_pow ''aaaa'' (replicate 20 0 @ ?t) = Inr ((replicate 16 CHR ''a'', True), ?t)"
    using rtimes_zeros [of "int (length letters)" 20 ?t]
    by (simp add: inside_pow_def rbind_app rret_def letters_def Let_def numeral_eq_Suc)
  obtain crs where c: "make_crs residue_sage ?t = Inr (crs, replicate (3 * rl_n) 0)"
    by (simp add: make_crs_def rbind_app urandom_int_Cons rret_def Let_def)
  obtain a b w where g: "rlwe_gen ring_reduce (replicate (3 * rl_n) 0) = Inr (((a, b), w), [])"
    using rlwe_gen_returns [of "replicate (3 * rl_n) 0"] by auto
  have "length a = rl_n" "length b = rl_n" using rlwe_gen_sound g by (cases w, auto)+
  then obtain aux pfs t' where p: "rlwe_prove (\<lambda>_. 5) residue_sage (a, b)
      (Some (replicate rl_n 0, replicate rl_n 0, map forged_quotient b)) crs (replicate (5 * rl_n) 0) = Inr ((aux, pfs), t')"
    using residue_points.rlwe_forger_succeeds [of a b crs "replicate (5 * rl_n) 0" "\<lambda>_. 5"] make_crs_length [OF c] by auto
  let ?parse = "\<lambda>l1 l2. Some (aux, pfs)"
  have f: "FlagOut \<in> set (inside_main (\<lambda>_. 5) residue_sage ring_reduce ?parse
      [''aaaa'', ''c'', ''r'', ''p'', ''x'', ''y''] (replicate 20 0 @ ?t))"
    unfolding inside_main_def list.case pow sum.case prod.case if_True
    using inside_forged_session [OF residue_points.sage_ok_axioms c g p, of ?parse "''x''" "''y''"] by simp
  show ?thesis using f inside_flag_needs_proof [OF f] by blast
qed

section \<open>The image of blinky\<close>

text \<open>C40: A run that comes to an end gave the simulator a file that reads back as memory in which every byte from
  \<open>0x2000\<close> on is the kernel's, every line below that the submission names is the submission's, and every
  other byte is the kernel's; its output is the cleaned output of the simulator on that file.\<close>

theorem blinky_image:
  assumes "run_submission sim kernel_template kernel_mem body t = Inr (out, t')"
  shows "\<exists>user kern image m. parse_submission body = Inr user
    \<and> kernel_records kernel_template kernel_mem t = Inr (kern, t') \<and> load_mem image = Inr m
    \<and> (\<forall>a. mem_byte m a = (if a div int LINE_SIZE \<in> fst ` set user then mem_byte user a else mem_byte kern a))
    \<and> (\<forall>a \<ge> 0x2000. mem_byte m a = mem_byte kern a)
    \<and> sim_output (sim image) = Inr out"
  using assms by (rule run_image)

definition demo_kernel :: string where
  "demo_kernel = ''@80'' @ [CHR 0x0A] @ ''ff'' @ [CHR 0x0A]"

theorem blinky_image_witness:
  "run_submission (\<lambda>image. Exited ''ok'') None (Some demo_kernel) [1, 2, 3] [] = Inr (''ok'', [])
   \<and> (\<exists>user image m. parse_submission [1, 2, 3] = Inr user \<and> load_mem image = Inr m \<and> mem_byte m 1 = mem_byte user 1)"
proof -
  have "case parse_submission [1, 2, 3] of Inr user \<Rightarrow> map fst user = [0] | Inl e \<Rightarrow> False" by code_simp
  then obtain user where p: "parse_submission [1, 2, 3] = Inr user" "map fst user = [0]" by (auto split: sum.splits)
  have k: "load_mem demo_kernel = Inr [(128, ''ff'')]" by code_simp
  have o: "sim_output (Exited ''ok'') = Inr ''ok''"
    by (simp add: sim_output_def clean_def strip_top.simps [of "_ # _"] strip_top.simps [of "[]"] newline_def py_strip_def
        is_space_def MAX_OUTPUT_def)
  have r: "run_submission (\<lambda>image. Exited ''ok'') None (Some demo_kernel) [1, 2, 3] [] = Inr (''ok'', [])"
    by (simp add: run_submission_def kernel_records_def p(1) k o rbind_app rlift_def)
  have "0 \<in> fst ` set user" using p(2) by (metis image_set list.set_intros(1))
  moreover have "(1 :: int) div int LINE_SIZE = 0" by (simp add: LINE_SIZE_def)
  ultimately show ?thesis using blinky_image [OF r] p(1) r by (metis sum.inject(2))
qed

end
